(* ===== verification/SV_Prelude.thy ===== *)
theory SV_Prelude
  imports Complex_Main
begin

text \<open>
  Shared vocabulary of the development: the result type of fallible C++ code (an
  assertion, a thrown exception or an OMNeT++ run time error is a value), sequencing of
  such results, simulation time, and small generic facts the component theories share.

  A C++ \<open>double\<close> is a \<^typ>\<open>real\<close> here, so rounding is not part of the numeric models; the
  one place where the program truncates a product of doubles to an integer (the slot
  arithmetic of the MAC) uses the binary64 values of theory \<open>SV_Double\<close> instead.
  \<open>simtime_t\<close> is a 64-bit tick count with a fixed resolution; it is an unbounded
  \<^typ>\<open>int\<close> number of ticks (OMNeT++ stops the simulation on overflow).
\<close>

type_synonym double = real
type_synonym simtime = int

text \<open>One tick is a picosecond, the default resolution of OMNeT++.\<close>

definition SIMTIME_MS :: simtime where
  "SIMTIME_MS = 1000000000"

definition SIMTIME_S :: simtime where
  "SIMTIME_S = 1000 * SIMTIME_MS"

lemma SIMTIME_MS_pos [simp]: "0 < SIMTIME_MS"
  by (simp add: SIMTIME_MS_def)

lemma SIMTIME_S_pos [simp]: "0 < SIMTIME_S"
  by (simp add: SIMTIME_S_def)

section \<open>Results of fallible code\<close>

datatype sim_error =
    AssertFailed string      \<comment> \<open>a failed \<open>ASSERT\<close>\<close>
  | RuntimeError string      \<comment> \<open>\<open>throw cRuntimeError(...)\<close>\<close>
  | SchedulePast             \<comment> \<open>OMNeT++ refuses to schedule into the past\<close>
  | AlreadyScheduled         \<comment> \<open>OMNeT++ refuses to schedule a scheduled message\<close>
  | OutOfRange               \<comment> \<open>\<open>std::out_of_range\<close> or an index past the end\<close>
  | InvalidArgument          \<comment> \<open>\<open>std::invalid_argument\<close>\<close>
  | NullPointer              \<comment> \<open>use of a null pointer\<close>
  | NoReturn                 \<comment> \<open>a loop that does not end\<close>

type_synonym 'a res = "sim_error + 'a"

definition rbind :: "'a res \<Rightarrow> ('a \<Rightarrow> 'b res) \<Rightarrow> 'b res" where
  "rbind m f = (case m of Inl e \<Rightarrow> Inl e | Inr x \<Rightarrow> f x)"

definition assertr :: "bool \<Rightarrow> string \<Rightarrow> unit res" where
  "assertr b msg = (if b then Inr () else Inl (AssertFailed msg))"

definition throwr :: "string \<Rightarrow> 'a res" where
  "throwr msg = Inl (RuntimeError msg)"

named_theorems res_simps "rewriting of fallible code"

lemma rbind_simps [simp, res_simps]:
  "rbind (Inl e) f = Inl e" "rbind (Inr x) f = f x"
  by (simp_all add: rbind_def)

lemma rbind_Inr_iff: "rbind m f = Inr y \<longleftrightarrow> (\<exists>x. m = Inr x \<and> f x = Inr y)"
  by (cases m) auto

lemma rbind_Inl_iff: "rbind m f = Inl e \<longleftrightarrow> m = Inl e \<or> (\<exists>x. m = Inr x \<and> f x = Inl e)"
  by (cases m) auto

lemma rbind_InrE [elim!]:
  assumes "rbind m f = Inr y"
  obtains x where "m = Inr x" "f x = Inr y"
  using assms by (auto simp: rbind_Inr_iff)

lemma rbind_assoc: "rbind (rbind m f) g = rbind m (\<lambda>x. rbind (f x) g)"
  by (cases m) auto

lemma assertr_Inr_iff [simp, res_simps]: "assertr b msg = Inr u \<longleftrightarrow> b"
  by (simp add: assertr_def)

lemma assertr_True [simp]: "assertr True msg = Inr ()"
  by (simp add: assertr_def)

lemma assertr_False [simp]: "assertr False msg = Inl (AssertFailed msg)"
  by (simp add: assertr_def)

lemma throwr_neq_Inr [simp, res_simps]: "throwr msg \<noteq> Inr x"
  by (simp add: throwr_def)

definition is_ok :: "'a res \<Rightarrow> bool" where
  "is_ok m = (case m of Inl _ \<Rightarrow> False | Inr _ \<Rightarrow> True)"

lemma is_ok_iff: "is_ok m \<longleftrightarrow> (\<exists>x. m = Inr x)"
  by (simp add: is_ok_def split: sum.splits)

section \<open>Generic facts\<close>

lemma count_filter_snoc [simp]:
  "length (filter P (xs @ [x])) = length (filter P xs) + (if P x then 1 else 0)"
  by simp

lemma fun_upd_dom_None: "dom (f(x := None)) = dom f - {x}"
  by auto

text \<open>C's conversion of a double to an integer type drops the fraction.\<close>

definition c_trunc :: "double \<Rightarrow> int" where
  "c_trunc x = (if 0 \<le> x then \<lfloor>x\<rfloor> else \<lceil>x\<rceil>)"

lemma c_trunc_nonneg: "0 \<le> x \<Longrightarrow> c_trunc x = \<lfloor>x\<rfloor>"
  by (simp add: c_trunc_def)

lemma c_trunc_minus: "c_trunc (- x) = - c_trunc x"
  by (auto simp: c_trunc_def ceiling_minus floor_minus)

end
