(* ===== verification/SV_StdMap.thy ===== *)
theory SV_StdMap
  imports SV_Prelude
begin

text \<open>
  \<open>std::map\<close> as the program uses it: \<open>insert\<close> does not overwrite an existing key,
  \<open>find\<close>, \<open>erase\<close>, \<open>size\<close>, \<open>clear\<close>. The container is the list of its entries in
  ascending key order. The interface the components rely on is the locale \<open>std_map\<close>;
  its derived facts are proved once there and used through the interpretation \<open>sm\<close>.
\<close>

type_synonym ('k, 'v) std_map = "('k \<times> 'v) list"

fun sm_insert :: "'k::linorder \<Rightarrow> 'v \<Rightarrow> ('k, 'v) std_map \<Rightarrow> ('k, 'v) std_map" where
  "sm_insert k v [] = [(k, v)]"
| "sm_insert k v ((k', v') # m) =
     (if k < k' then (k, v) # (k', v') # m
      else if k = k' then (k', v') # m
      else (k', v') # sm_insert k v m)"

definition sm_erase :: "'k \<Rightarrow> ('k, 'v) std_map \<Rightarrow> ('k, 'v) std_map" where
  "sm_erase k m = filter (\<lambda>p. fst p \<noteq> k) m"

definition sm_find :: "('k, 'v) std_map \<Rightarrow> 'k \<Rightarrow> 'v option" where
  "sm_find m = map_of m"

definition sm_inv :: "('k::linorder, 'v) std_map \<Rightarrow> bool" where
  "sm_inv m \<longleftrightarrow> sorted_wrt (<) (map fst m)"

section \<open>The interface\<close>

locale std_map =
  fixes empty :: "'m"
    and insert :: "'k \<Rightarrow> 'v \<Rightarrow> 'm \<Rightarrow> 'm"
    and erase :: "'k \<Rightarrow> 'm \<Rightarrow> 'm"
    and find :: "'m \<Rightarrow> 'k \<Rightarrow> 'v option"
    and size :: "'m \<Rightarrow> nat"
    and inv :: "'m \<Rightarrow> bool"
  assumes find_empty: "find empty = Map.empty"
    and find_insert: "inv m \<Longrightarrow> find (insert k v m) =
          (case find m k of None \<Rightarrow> (find m)(k \<mapsto> v) | Some _ \<Rightarrow> find m)"
    and find_erase: "inv m \<Longrightarrow> find (erase k m) = (find m)(k := None)"
    and size_card: "inv m \<Longrightarrow> size m = card (dom (find m))"
    and finite_find: "inv m \<Longrightarrow> finite (dom (find m))"
    and inv_empty: "inv empty"
    and inv_insert: "inv m \<Longrightarrow> inv (insert k v m)"
    and inv_erase: "inv m \<Longrightarrow> inv (erase k m)"
begin

lemma find_insert_same:
  "inv m \<Longrightarrow> find (insert k v m) k = (case find m k of None \<Rightarrow> Some v | Some w \<Rightarrow> Some w)"
  by (auto simp: find_insert split: option.splits)

lemma find_insert_other: "inv m \<Longrightarrow> k \<noteq> k' \<Longrightarrow> find (insert k v m) k' = find m k'"
  by (auto simp: find_insert split: option.splits)

lemma find_insert_fresh: "inv m \<Longrightarrow> find m k = None \<Longrightarrow> find (insert k v m) = (find m)(k \<mapsto> v)"
  by (simp add: find_insert)

lemma find_insert_present: "inv m \<Longrightarrow> find m k = Some w \<Longrightarrow> find (insert k v m) = find m"
  by (simp add: find_insert)

lemma size_empty: "size empty = 0"
  by (simp add: size_card inv_empty find_empty)

lemma dom_insert: "inv m \<Longrightarrow> dom (find (insert k v m)) = Set.insert k (dom (find m))"
  by (auto simp: find_insert split: option.splits)

lemma size_insert:
  assumes "inv m"
  shows "size (insert k v m) = (if find m k = None then Suc (size m) else size m)"
proof -
  have fin: "finite (dom (find m))" using assms by (rule finite_find)
  have "size (insert k v m) = card (Set.insert k (dom (find m)))"
    using assms by (simp add: size_card inv_insert dom_insert)
  then show ?thesis
    using fin assms by (auto simp: size_card domIff card_insert_if)
qed

lemma size_erase:
  assumes "inv m"
  shows "size (erase k m) = (if find m k = None then size m else size m - 1)"
proof -
  have fin: "finite (dom (find m))" using assms by (rule finite_find)
  have "size (erase k m) = card (dom (find m) - {k})"
    using assms by (simp add: size_card inv_erase find_erase fun_upd_dom_None)
  then show ?thesis
    using fin assms by (auto simp: size_card domIff card_Diff_singleton)
qed

lemma insert_size_mono: "inv m \<Longrightarrow> size m \<le> size (insert k v m)"
  by (simp add: size_insert)

end

section \<open>The ordered list implements it\<close>

lemma sm_insert_keys: "set (map fst (sm_insert k v m)) = Set.insert k (set (map fst m))"
  by (induction k v m rule: sm_insert.induct) auto

lemma sm_inv_Nil [simp]: "sm_inv []"
  by (simp add: sm_inv_def)

lemma sm_inv_Cons:
  "sm_inv ((k, v) # m) \<longleftrightarrow> (\<forall>k' \<in> set (map fst m). k < k') \<and> sm_inv m"
  by (auto simp: sm_inv_def)

lemma sm_inv_insert: "sm_inv m \<Longrightarrow> sm_inv (sm_insert k v m)"
proof (induction k v m rule: sm_insert.induct)
  case (1 k v)
  show ?case by (simp add: sm_inv_Cons)
next
  case (2 k v k' v' m)
  then show ?case
    using sm_insert_keys [of k v m] by (auto simp: sm_inv_Cons)
qed

lemma sm_inv_erase: "sm_inv m \<Longrightarrow> sm_inv (sm_erase k m)"
  unfolding sm_inv_def sm_erase_def
  by (induction m) (auto simp: sorted_wrt_append)

lemma sm_inv_distinct: "sm_inv m \<Longrightarrow> distinct (map fst m)"
  by (simp add: sm_inv_def strict_sorted_iff)

lemma sm_find_None_iff: "sm_find m k = None \<longleftrightarrow> k \<notin> set (map fst m)"
  by (simp add: sm_find_def map_of_eq_None_iff)

lemma sm_find_insert:
  "sm_inv m \<Longrightarrow> sm_find (sm_insert k v m) =
     (case sm_find m k of None \<Rightarrow> (sm_find m)(k \<mapsto> v) | Some _ \<Rightarrow> sm_find m)"
proof (induction k v m rule: sm_insert.induct)
  case (1 k v)
  show ?case by (simp add: sm_find_def)
next
  case (2 k v k' v' m)
  consider "k < k'" | "k = k'" | "k' < k" by (rule linorder_cases)
  then show ?case
  proof cases
    case 1
    with 2 have "map_of m k = None"
      by (force simp: sm_inv_Cons map_of_eq_None_iff)
    with 1 show ?thesis by (auto simp: sm_find_def)
  next
    case 2
    then show ?thesis by (auto simp: sm_find_def)
  next
    case 3
    then have "sm_find (sm_insert k v m) =
        (case sm_find m k of None \<Rightarrow> (sm_find m)(k \<mapsto> v) | Some _ \<Rightarrow> sm_find m)"
      using "2" by (auto simp: sm_inv_Cons)
    with 3 show ?thesis
      by (auto simp: sm_find_def fun_eq_iff split: option.splits)
  qed
qed

lemma sm_find_erase: "sm_find (sm_erase k m) = (sm_find m)(k := None)"
  by (induction m) (auto simp: sm_find_def sm_erase_def fun_eq_iff)

lemma sm_size_card: "sm_inv m \<Longrightarrow> length m = card (dom (sm_find m))"
  unfolding sm_find_def dom_map_of_conv_image_fst
  by (metis distinct_card length_map list.set_map sm_inv_distinct)

lemma finite_dom_sm_find: "finite (dom (sm_find m))"
  by (simp add: sm_find_def finite_dom_map_of)

lemma sm_find_Nil_eq: "sm_find [] = Map.empty"
  by (simp add: sm_find_def)

interpretation sm: std_map "[] :: ('k::linorder, 'v) std_map" sm_insert sm_erase sm_find length sm_inv
  by unfold_locales
    (auto simp: sm_find_Nil_eq sm_find_insert sm_find_erase sm_size_card sm_inv_insert sm_inv_erase
      finite_dom_sm_find)

lemma sm_size_insert:
  "sm_inv m \<Longrightarrow> length (sm_insert k v m) = (if sm_find m k = None then Suc (length m) else length m)"
  by (rule sm.size_insert)

text \<open>Counting entries.\<close>

lemma sm_filter_insert:
  "sm_find m k = None \<Longrightarrow>
     length (filter P (sm_insert k v m)) = length (filter P m) + (if P (k, v) then 1 else 0)"
  by (induction k v m rule: sm_insert.induct) (auto simp: sm_find_def split: if_splits)

lemma sm_filter_erase:
  "sm_inv m \<Longrightarrow> sm_find m k = Some v \<Longrightarrow>
     length (filter P m) = length (filter P (sm_erase k m)) + (if P (k, v) then 1 else 0)"
proof (induction m)
  case Nil
  then show ?case by (simp add: sm_find_def)
next
  case (Cons e m)
  obtain k' v' where e: "e = (k', v')" by (cases e)
  show ?case
  proof (cases "k' = k")
    case True
    with Cons.prems e have "\<forall>x \<in> set m. fst x \<noteq> k" by (auto simp: sm_inv_Cons)
    then have "sm_erase k m = m" by (simp add: sm_erase_def)
    with True e Cons.prems show ?thesis by (auto simp: sm_find_def sm_erase_def)
  next
    case False
    with Cons e show ?thesis by (auto simp: sm_find_def sm_erase_def sm_inv_Cons)
  qed
qed

lemma sm_find_Nil [simp]: "sm_find [] k = None"
  by (simp add: sm_find_def)

lemmas sm_rules = sm_inv_insert sm_inv_erase sm.find_insert_fresh sm.find_insert_present
  sm_find_erase sm_size_insert

end
