(* ===== verification/SV_Kernel.thy ===== *)
theory SV_Kernel
  imports SV_StdMap
begin

text \<open>
  The part of the OMNeT++ simulation kernel the modules call. OMNeT++ is not part of the
  repository, so its operations are a parameter of the model: a record of functions on an
  opaque kernel state \<open>'k\<close>. What the modules rely on is the locale \<open>sim_kernel\<close>, which
  states the documented behaviour: at most one pending arrival per self message, no
  scheduling into the past, cancelling is harmless, random draws stay in their interval.
  \<open>ref_kernel\<close> is one kernel that satisfies it; it evaluates, and the witnesses use it.
\<close>

record 'k kernel_ops =
  simTime :: "'k \<Rightarrow> simtime"
  arrival :: "'k \<Rightarrow> nat \<Rightarrow> simtime option"          \<comment> \<open>pending arrival of a self message\<close>
  known :: "'k \<Rightarrow> nat \<Rightarrow> bool"                       \<comment> \<open>message ids handed out so far\<close>
  scheduleAt :: "simtime \<Rightarrow> nat \<Rightarrow> 'k \<Rightarrow> 'k res"
  cancelEvent :: "nat \<Rightarrow> 'k \<Rightarrow> 'k"
  newMessage :: "'k \<Rightarrow> nat \<times> 'k"
  uniform :: "simtime \<Rightarrow> simtime \<Rightarrow> 'k \<Rightarrow> simtime \<times> 'k"
  intuniform :: "int \<Rightarrow> int \<Rightarrow> 'k \<Rightarrow> int \<times> 'k"
  deliver :: "nat \<Rightarrow> 'k \<Rightarrow> 'k"                       \<comment> \<open>time advances to the arrival of a self message\<close>
  advance :: "simtime \<Rightarrow> 'k \<Rightarrow> 'k"                   \<comment> \<open>time advances to an external event\<close>

definition isScheduled :: "'k kernel_ops \<Rightarrow> nat \<Rightarrow> 'k \<Rightarrow> bool" where
  "isScheduled K m k = (arrival K k m \<noteq> None)"

locale sim_kernel =
  fixes K :: "'k kernel_ops"
  assumes schedule_past: "t < simTime K k \<Longrightarrow> scheduleAt K t m k = Inl SchedulePast"
    and schedule_twice:
      "simTime K k \<le> t \<Longrightarrow> arrival K k m = Some u \<Longrightarrow> scheduleAt K t m k = Inl AlreadyScheduled"
    and schedule_total:
      "simTime K k \<le> t \<Longrightarrow> arrival K k m = None \<Longrightarrow> \<exists>k'. scheduleAt K t m k = Inr k'"
    and schedule_arrival: "scheduleAt K t m k = Inr k' \<Longrightarrow> arrival K k' = (arrival K k)(m \<mapsto> t)"
    and schedule_time: "scheduleAt K t m k = Inr k' \<Longrightarrow> simTime K k' = simTime K k"
    and schedule_known: "scheduleAt K t m k = Inr k' \<Longrightarrow> known K k' = known K k"
    and cancel_arrival: "arrival K (cancelEvent K m k) = (arrival K k)(m := None)"
    and cancel_time: "simTime K (cancelEvent K m k) = simTime K k"
    and cancel_known: "known K (cancelEvent K m k) = known K k"
    and new_fresh: "newMessage K k = (m, k') \<Longrightarrow> \<not> known K k m"
    and new_known: "newMessage K k = (m, k') \<Longrightarrow> known K k' = (known K k)(m := True)"
    and new_arrival: "newMessage K k = (m, k') \<Longrightarrow> arrival K k' = arrival K k"
    and new_time: "newMessage K k = (m, k') \<Longrightarrow> simTime K k' = simTime K k"
    and uniform_range: "uniform K a b k = (x, k') \<Longrightarrow> a < b \<Longrightarrow> a \<le> x \<and> x < b"
    and uniform_arrival: "uniform K a b k = (x, k') \<Longrightarrow> arrival K k' = arrival K k"
    and uniform_time: "uniform K a b k = (x, k') \<Longrightarrow> simTime K k' = simTime K k"
    and uniform_known: "uniform K a b k = (x, k') \<Longrightarrow> known K k' = known K k"
    and intuniform_range: "intuniform K i j k = (n, k') \<Longrightarrow> i \<le> j \<Longrightarrow> i \<le> n \<and> n \<le> j"
    and intuniform_arrival: "intuniform K i j k = (n, k') \<Longrightarrow> arrival K k' = arrival K k"
    and intuniform_time: "intuniform K i j k = (n, k') \<Longrightarrow> simTime K k' = simTime K k"
    and intuniform_known: "intuniform K i j k = (n, k') \<Longrightarrow> known K k' = known K k"
    and deliver_time: "arrival K k m = Some t \<Longrightarrow> simTime K (deliver K m k) = t"
    and deliver_arrival: "arrival K (deliver K m k) = (arrival K k)(m := None)"
    and deliver_known: "known K (deliver K m k) = known K k"
    and advance_time: "simTime K (advance K t k) = t"
    and advance_arrival: "arrival K (advance K t k) = arrival K k"
    and advance_known: "known K (advance K t k) = known K k"
begin

lemmas frame_time = schedule_time cancel_time new_time uniform_time intuniform_time
lemmas frame_known = schedule_known cancel_known uniform_known intuniform_known deliver_known
  advance_known
lemmas frame_arrival = new_arrival uniform_arrival intuniform_arrival advance_arrival

lemma schedule_Inr_iff:
  "(\<exists>k'. scheduleAt K t m k = Inr k') \<longleftrightarrow> simTime K k \<le> t \<and> arrival K k m = None"
proof (cases "t < simTime K k")
  case True
  then show ?thesis by (simp add: schedule_past)
next
  case False
  then show ?thesis
    using schedule_twice [of k t m] schedule_total [of k t m] by (cases "arrival K k m") auto
qed

lemma schedule_InrD:
  assumes "scheduleAt K t m k = Inr k'"
  shows "simTime K k \<le> t" and "arrival K k m = None"
  using assms schedule_Inr_iff [of t m k] by auto

lemma isScheduled_cancel [simp]: "\<not> isScheduled K m (cancelEvent K m k)"
  by (simp add: isScheduled_def cancel_arrival)

end

section \<open>A kernel that evaluates\<close>

record ref_state =
  rk_now :: simtime
  rk_fes :: "(nat \<times> simtime) list"
  rk_next :: nat

definition ref_init :: ref_state where
  "ref_init = \<lparr>rk_now = 0, rk_fes = [], rk_next = 0\<rparr>"

definition ref_kernel :: "ref_state kernel_ops" where
  "ref_kernel = \<lparr>
     simTime = rk_now,
     arrival = (\<lambda>k m. map_of (rk_fes k) m),
     known = (\<lambda>k m. m < rk_next k),
     scheduleAt = (\<lambda>t m k.
        if t < rk_now k then Inl SchedulePast
        else if map_of (rk_fes k) m \<noteq> None then Inl AlreadyScheduled
        else Inr (k\<lparr>rk_fes := (m, t) # rk_fes k\<rparr>)),
     cancelEvent = (\<lambda>m k. k\<lparr>rk_fes := sm_erase m (rk_fes k)\<rparr>),
     newMessage = (\<lambda>k. (rk_next k, k\<lparr>rk_next := Suc (rk_next k)\<rparr>)),
     uniform = (\<lambda>a b k. ((a + b) div 2, k)),
     intuniform = (\<lambda>i j k. (i, k)),
     deliver = (\<lambda>m k. k\<lparr>rk_now := (case map_of (rk_fes k) m of None \<Rightarrow> rk_now k | Some t \<Rightarrow> t),
                        rk_fes := sm_erase m (rk_fes k)\<rparr>),
     advance = (\<lambda>t k. k\<lparr>rk_now := t\<rparr>)\<rparr>"

lemma map_of_sm_erase: "map_of (sm_erase m xs) = (map_of xs)(m := None)"
  using sm_find_erase [of m xs] by (simp add: sm_find_def)

interpretation ref: sim_kernel ref_kernel
  by unfold_locales
    (auto simp: ref_kernel_def map_of_sm_erase fun_eq_iff less_Suc_eq split: if_splits)

lemma ref_sim_kernel: "sim_kernel ref_kernel"
  by (rule ref.sim_kernel_axioms)

end
