(* ===== verification/SV_Double.thy ===== *)
theory SV_Double
  imports SV_Prelude "HOL-Library.Log_Nat"
begin

text \<open>
  Binary64 values where the program truncates a product of doubles: the slot arithmetic
  of the MAC multiplies the slot length with the number of the slot, multiplies the
  product with 1000 and truncates to whole milliseconds. \<open>Dbl m e\<close> is the value
  \<open>m / 2 ^ e\<close>. A product with an integer rounds to the nearest value with a 53 bit
  significand, ties to even. Overflow and subnormal values do not occur in this
  arithmetic (slot lengths are of the order of milliseconds) and are not represented.
\<close>

datatype dbl = Dbl (mant: int) (scale: nat)

definition dbl_val :: "dbl \<Rightarrow> real" where
  "dbl_val d = of_int (mant d) / 2 ^ scale d"

text \<open>\<open>k / 2 ^ b\<close> rounded to the nearest integer, ties to even.\<close>

definition rne :: "nat \<Rightarrow> int \<Rightarrow> int" where
  "rne b k =
     (if b = 0 then k
      else let q = k div 2 ^ b; r = k mod 2 ^ b; h = 2 ^ (b - 1)
           in if r < h \<or> (r = h \<and> even q) then q else q + 1)"

definition binexp :: "int \<Rightarrow> nat" where
  "binexp k = floorlog 2 (nat \<bar>k\<bar>) - 53"

lemma binexp_code [code]: "binexp k = nat (bitlen \<bar>k\<bar> - 53)"
  by (simp add: binexp_def bitlen_def)

definition rnd53 :: "int \<Rightarrow> int" where
  "rnd53 k = rne (binexp k) k * 2 ^ binexp k"

text \<open>\<open>n * d\<close> for an integer that a double holds exactly.\<close>

definition dbl_times :: "int \<Rightarrow> dbl \<Rightarrow> dbl" where
  "dbl_times n d = Dbl (rnd53 (n * mant d)) (scale d)"

text \<open>The conversion \<open>(int64) d\<close>.\<close>

definition dbl_trunc :: "dbl \<Rightarrow> int" where
  "dbl_trunc d =
     (if 0 \<le> mant d then mant d div 2 ^ scale d else - ((- mant d) div 2 ^ scale d))"

section \<open>Rounding is monotone and exact on short significands\<close>

lemma rne_mono:
  assumes "k \<le> l"
  shows "rne b k \<le> rne b l"
proof (cases "b = 0")
  case True
  with assms show ?thesis by (simp add: rne_def)
next
  case False
  have le: "k div 2 ^ b \<le> l div 2 ^ b"
    using assms by (simp add: zdiv_mono1)
  show ?thesis
  proof (cases "k div 2 ^ b = l div 2 ^ b")
    case True
    have "k mod 2 ^ b \<le> l mod 2 ^ b"
      using True assms by (simp add: minus_div_mult_eq_mod [symmetric])
    with True False show ?thesis
      by (auto simp: rne_def Let_def)
  next
    case False
    with le have "k div 2 ^ b + 1 \<le> l div 2 ^ b" by simp
    then show ?thesis
      by (auto simp: rne_def Let_def)
  qed
qed

lemma rne_exact: "rne b (q * 2 ^ b) = q"
  by (auto simp: rne_def Let_def)

lemma rne_lower:
  assumes "q * 2 ^ b \<le> k"
  shows "q \<le> rne b k"
  using rne_mono [OF assms, of b] by (simp add: rne_exact)

lemma rne_upper:
  assumes "k \<le> q * 2 ^ b"
  shows "rne b k \<le> q"
  using rne_mono [OF assms, of b] by (simp add: rne_exact)

lemma rnd53_small: "\<bar>k\<bar> < 2 ^ 53 \<Longrightarrow> rnd53 k = k"
proof -
  assume "\<bar>k\<bar> < 2 ^ 53"
  then have "nat \<bar>k\<bar> < 2 ^ 53" by (simp add: nat_less_iff)
  then have "floorlog 2 (nat \<bar>k\<bar>) \<le> 53" by (simp add: floorlog_leI)
  then show ?thesis by (simp add: rnd53_def binexp_def rne_def)
qed

lemma rnd53_upper:
  assumes k: "0 < k" and len: "k \<le> 2 ^ n" and n: "53 \<le> n"
  shows "rnd53 k \<le> 2 ^ n"
proof -
  have "floorlog 2 (nat k) \<le> Suc n"
    using k len by (intro floorlog_leI) (auto simp: nat_less_iff)
  then have b: "binexp k \<le> n"
    using k n by (simp add: binexp_def)
  then have split: "(2::int) ^ n = 2 ^ (n - binexp k) * 2 ^ binexp k"
    by (simp flip: power_add)
  from len have "rne (binexp k) k \<le> 2 ^ (n - binexp k)"
    unfolding split by (rule rne_upper)
  then show ?thesis
    by (simp add: rnd53_def split)
qed

lemma rnd53_lower:
  assumes len: "2 ^ n \<le> k" and b: "binexp k \<le> n"
  shows "2 ^ n \<le> rnd53 k"
proof -
  from b have split: "(2::int) ^ n = 2 ^ (n - binexp k) * 2 ^ binexp k"
    by (simp flip: power_add)
  from len have "2 ^ (n - binexp k) \<le> rne (binexp k) k"
    unfolding split by (rule rne_lower)
  then show ?thesis
    by (simp add: rnd53_def split)
qed

lemma rnd53_nonneg: "0 \<le> k \<Longrightarrow> 0 \<le> rnd53 k"
  using rne_lower [of 0 "binexp k" k] by (simp add: rnd53_def)

text \<open>Rounding keeps the order; operands in different binades are separated by a power of two.\<close>

lemma rnd53_mono:
  assumes k: "0 \<le> k" and kl: "k \<le> l"
  shows "rnd53 k \<le> rnd53 l"
proof (cases "k = 0 \<or> binexp k = binexp l")
  case True
  then show ?thesis
  proof
    assume "k = 0"
    then have "rnd53 k = 0" by (simp add: rnd53_small)
    moreover have "0 \<le> rnd53 l" using k kl by (intro rnd53_nonneg) simp
    ultimately show ?thesis by simp
  next
    assume b: "binexp k = binexp l"
    have "rne (binexp l) k * 2 ^ binexp l \<le> rne (binexp l) l * 2 ^ binexp l"
      using rne_mono [OF kl] by (rule mult_right_mono) simp
    with b show ?thesis by (simp only: rnd53_def)
  qed
next
  case False
  with k have k0: "0 < k" by simp
  have mono: "floorlog 2 (nat k) \<le> floorlog 2 (nat l)"
    using kl by (intro floorlog_mono) simp
  define n where "n = floorlog 2 (nat l) - 1"
  have lt: "floorlog 2 (nat k) < floorlog 2 (nat l)" and n53: "53 \<le> n"
    using False k0 kl mono by (auto simp: binexp_def n_def)
  have bk: "nat k < 2 ^ floorlog 2 (nat k)"
    using floorlog_bounds [of "nat k" 2] k0 by simp
  also have "(2::nat) ^ floorlog 2 (nat k) \<le> 2 ^ n"
    using lt by (intro power_increasing) (auto simp: n_def)
  finally have up: "k \<le> 2 ^ n"
    by (simp add: nat_less_iff k)
  have "2 ^ n \<le> nat l"
    using floorlog_bounds [of "nat l" 2] k0 kl by (simp add: n_def)
  then have lo: "2 ^ n \<le> l"
    using k0 kl by (simp add: le_nat_iff)
  have "binexp l \<le> n"
    using k0 kl n53 by (simp add: binexp_def n_def)
  with lo have "2 ^ n \<le> rnd53 l" by (rule rnd53_lower)
  with rnd53_upper [OF k0 up n53] show ?thesis by simp
qed

lemma rnd53_binade: "2 ^ (52 + b) \<le> k \<Longrightarrow> k < 2 ^ (53 + b) \<Longrightarrow> rnd53 k = rne b k * 2 ^ b"
proof -
  assume l: "2 ^ (52 + b) \<le> k" and u: "k < 2 ^ (53 + b)"
  have k: "0 < k" using l by (smt (verit) zero_less_power)
  have "floorlog 2 (nat k) \<le> 53 + b"
    using k u by (intro floorlog_leI) (auto simp: nat_less_iff)
  moreover have "52 + b < floorlog 2 (nat k)"
  proof -
    have "(2::nat) ^ (52 + b) \<le> nat k" using l by (simp add: le_nat_iff k less_imp_le)
    also have "nat k < 2 ^ floorlog 2 (nat k)" using k floorlog_bounds [of "nat k" 2] by simp
    finally show ?thesis by simp
  qed
  ultimately have "binexp k = b" using k by (simp add: binexp_def)
  then show ?thesis by (simp add: rnd53_def)
qed

lemma dbl_trunc_mono:
  assumes "0 \<le> a" and "a \<le> b"
  shows "dbl_trunc (Dbl a e) \<le> dbl_trunc (Dbl b e)"
  using assms by (simp add: dbl_trunc_def zdiv_mono1)

lemma dbl_times_zero: "dbl_times 0 d = Dbl 0 (scale d)"
  by (simp add: dbl_times_def rnd53_small)

lemma scale_dbl_times [simp]: "scale (dbl_times n d) = scale d"
  by (simp add: dbl_times_def)

lemma mant_dbl_times_nonneg: "0 \<le> n \<Longrightarrow> 0 \<le> mant d \<Longrightarrow> 0 \<le> mant (dbl_times n d)"
  by (simp add: dbl_times_def rnd53_nonneg)

end
