(* ===== verification/SV_Packet.thy ===== *)
theory SV_Packet
  imports SV_Double SV_StdMap "HOL-Library.Word"
begin

unbundle bit_operations_syntax

text \<open>
  INET packets as far as the MAC touches them: the chunks of a packet (front first), the
  tags it carries, and the drop-tail packet queue. A chunk keeps the fields the code sets;
  lengths are in bytes. The queue interface used by the MAC is the locale \<open>bounded_fifo\<close>.
\<close>

section \<open>Addresses\<close>

text \<open>A MAC address is the 64-bit integer \<open>MacAddress::getInt()\<close> returns.\<close>

type_synonym mac = "64 word"
type_synonym ipv4 = "32 word"

datatype L3Address = L3_NONE | L3_IPv4 ipv4 | L3_IPv6 "128 word" | L3_OTHER nat

definition isUnspecified :: "L3Address \<Rightarrow> bool" where
  "isUnspecified a \<longleftrightarrow> (case a of L3_NONE \<Rightarrow> True | L3_IPv4 x \<Rightarrow> x = 0 | L3_IPv6 x \<Rightarrow> x = 0 | L3_OTHER _ \<Rightarrow> False)"

definition toIpv4 :: "L3Address \<Rightarrow> ipv4 res" where
  "toIpv4 a = (case a of L3_NONE \<Rightarrow> Inr 0 | L3_IPv4 x \<Rightarrow> Inr x
     | _ \<Rightarrow> throwr ''address is not of the given type'')"

definition isMulticast :: "ipv4 \<Rightarrow> bool" where
  "isMulticast a \<longleftrightarrow> a AND 0xF0000000 = 0xE0000000"

definition isLinkLocalMulticast :: "ipv4 \<Rightarrow> bool" where
  "isLinkLocalMulticast a \<longleftrightarrow> a AND 0xFFFFFF00 = 0xE0000000"

datatype protocol = P_ieee80211EtherType | P_ieee80211Mac | P_udp | P_ipv4 | P_ipv6
  | P_nextHopForwarding | P_icmpv4 | P_icmpv6 | P_other nat

section \<open>Chunks\<close>

text \<open>\<open>WlanSchedule\<close>: \<open>std::map<MacAddress_t, simTimeDelta_t>\<close>.\<close>

type_synonym WlanSchedule = "(mac, dbl) std_map"

record SpaceVeinsWlanScheduleMessage =
  ws_schedule :: WlanSchedule
  ws_begin :: simtime
  ws_interval :: simtime
  ws_transmit :: simtime
  ws_length :: nat
  ws_created :: simtime

record Ieee80211DataHeader =
  dh_transmitter :: mac
  dh_receiver :: mac
  dh_address3 :: mac
  dh_fromDS :: bool
  dh_toDS :: bool
  dh_qos :: bool            \<comment> \<open>type \<open>ST_DATA_WITH_QOS\<close>\<close>
  dh_tid :: int
  dh_duration :: simtime
  dh_length :: nat

datatype chunk =
    RegistrationChunk mac simtime      \<comment> \<open>source MAC address, creation time\<close>
  | SatelliteAckChunk mac simtime      \<comment> \<open>acknowledged vehicle, creation time\<close>
  | WlanScheduleChunk SpaceVeinsWlanScheduleMessage
  | PayloadChunk nat nat               \<comment> \<open>application data: identifier, length\<close>
  | UdpHeader int int nat              \<comment> \<open>source port, destination port, total length\<close>
  | Ipv4Header ipv4 ipv4 protocol int nat  \<comment> \<open>source, destination, protocol, TTL, total length\<close>
  | EtherTypeHeader int
  | DataHeader Ieee80211DataHeader
  | MacTrailer

fun chunk_length :: "chunk \<Rightarrow> nat" where
  "chunk_length (RegistrationChunk _ _) = 4"
| "chunk_length (SatelliteAckChunk _ _) = 6"
| "chunk_length (WlanScheduleChunk w) = ws_length w"
| "chunk_length (PayloadChunk _ n) = n"
| "chunk_length (UdpHeader _ _ _) = 8"
| "chunk_length (Ipv4Header _ _ _ _ _) = 20"
| "chunk_length (EtherTypeHeader _) = 2"
| "chunk_length (DataHeader h) = dh_length h"
| "chunk_length MacTrailer = 4"

section \<open>Packets\<close>

record packet =
  pk_name :: string
  pk_chunks :: "chunk list"
  pk_kind :: int
  pk_protocol :: "protocol option"              \<comment> \<open>\<open>PacketProtocolTag\<close>\<close>
  pk_llc :: "protocol option"                   \<comment> \<open>\<open>LlcProtocolTag\<close>\<close>
  pk_dispatch :: "protocol option"              \<comment> \<open>\<open>DispatchProtocolReq\<close>\<close>
  pk_macReq :: "mac option"                     \<comment> \<open>\<open>MacAddressReq\<close>: destination\<close>
  pk_macInd :: "(mac \<times> mac) option"             \<comment> \<open>\<open>MacAddressInd\<close>: source, destination\<close>
  pk_l3Req :: "(L3Address \<times> L3Address) option"  \<comment> \<open>\<open>L3AddressReq\<close>: source, destination\<close>
  pk_portReq :: bool                            \<comment> \<open>an \<open>L4PortReq\<close> is attached\<close>
  pk_multicastLoop :: "bool option"             \<comment> \<open>\<open>MulticastReq\<close>\<close>
  pk_interfaceReq :: "int option"
  pk_userPriority :: "int option"               \<comment> \<open>\<open>UserPriorityReq\<close>\<close>
  pk_mode :: "(int \<times> int) option"               \<comment> \<open>\<open>Ieee80211ModeReq\<close>: mode index, bandwidth\<close>

definition new_packet :: "string \<Rightarrow> packet" where
  "new_packet nm = \<lparr>pk_name = nm, pk_chunks = [], pk_kind = 0, pk_protocol = None, pk_llc = None,
     pk_dispatch = None, pk_macReq = None, pk_macInd = None, pk_l3Req = None, pk_portReq = False,
     pk_multicastLoop = None, pk_interfaceReq = None, pk_userPriority = None, pk_mode = None\<rparr>"

definition packet_length :: "packet \<Rightarrow> nat" where
  "packet_length p = sum_list (map chunk_length (pk_chunks p))"

definition insertAtFront :: "chunk \<Rightarrow> packet \<Rightarrow> packet" where
  "insertAtFront c p = p\<lparr>pk_chunks := c # pk_chunks p\<rparr>"

definition insertAtBack :: "chunk \<Rightarrow> packet \<Rightarrow> packet" where
  "insertAtBack c p = p\<lparr>pk_chunks := pk_chunks p @ [c]\<rparr>"

definition popAtFront :: "packet \<Rightarrow> packet res" where
  "popAtFront p = (case pk_chunks p of [] \<Rightarrow> throwr ''length is invalid''
     | _ # cs \<Rightarrow> Inr (p\<lparr>pk_chunks := cs\<rparr>))"

definition peekAtFront :: "packet \<Rightarrow> chunk res" where
  "peekAtFront p = (case pk_chunks p of [] \<Rightarrow> throwr ''length is invalid'' | c # _ \<Rightarrow> Inr c)"

text \<open>\<open>PacketFilter::matches\<close> with the packet pattern \<open>*\<close>: some chunk of the packet is of the class.\<close>

definition has_chunk :: "(chunk \<Rightarrow> bool) \<Rightarrow> packet \<Rightarrow> bool" where
  "has_chunk P p = list_ex P (pk_chunks p)"

fun is_SatelliteAck :: "chunk \<Rightarrow> bool" where
  "is_SatelliteAck (SatelliteAckChunk _ _) = True"
| "is_SatelliteAck _ = False"

fun is_WlanSchedule :: "chunk \<Rightarrow> bool" where
  "is_WlanSchedule (WlanScheduleChunk _) = True"
| "is_WlanSchedule _ = False"

fun is_Registration :: "chunk \<Rightarrow> bool" where
  "is_Registration (RegistrationChunk _ _) = True"
| "is_Registration _ = False"

lemma packet_length_insertAtFront [simp]:
  "packet_length (insertAtFront c p) = chunk_length c + packet_length p"
  by (simp add: packet_length_def insertAtFront_def)

lemma packet_length_insertAtBack [simp]:
  "packet_length (insertAtBack c p) = packet_length p + chunk_length c"
  by (simp add: packet_length_def insertAtBack_def)

lemma pop_insertAtFront [simp]: "popAtFront (insertAtFront c p) = Inr p"
  by (simp add: popAtFront_def insertAtFront_def)

lemma peek_insertAtFront [simp]: "peekAtFront (insertAtFront c p) = Inr c"
  by (simp add: peekAtFront_def insertAtFront_def)

text \<open>Tagging a packet with the id of an interface entry, which may be a null pointer.\<close>

definition interfaceTag :: "int option \<Rightarrow> packet \<Rightarrow> packet res" where
  "interfaceTag ie p = (case ie of None \<Rightarrow> Inl NullPointer | Some i \<Rightarrow> Inr (p\<lparr>pk_interfaceReq := Some i\<rparr>))"

section \<open>The packet queue\<close>

text \<open>
  \<open>inet::queueing::PacketQueue\<close> with the dropper of \<open>DropTailQueue\<close>: while the queue is
  overloaded the packet at its end is dropped. A capacity of \<open>-1\<close> is no limit.
\<close>

record queue_par =
  packetCapacity :: int
  dataCapacity :: int      \<comment> \<open>bytes\<close>

definition getTotalLength :: "packet list \<Rightarrow> int" where
  "getTotalLength q = int (sum_list (map packet_length q))"

definition isOverloaded :: "queue_par \<Rightarrow> packet list \<Rightarrow> bool" where
  "isOverloaded c q \<longleftrightarrow>
     (packetCapacity c \<noteq> -1 \<and> int (length q) > packetCapacity c) \<or>
     (dataCapacity c \<noteq> -1 \<and> getTotalLength q > dataCapacity c)"

function drop_at_end :: "queue_par \<Rightarrow> packet list \<Rightarrow> packet list" where
  "drop_at_end c q = (if q \<noteq> [] \<and> isOverloaded c q then drop_at_end c (butlast q) else q)"
  by pat_completeness auto
termination
  by (relation "measure (\<lambda>(c, q). length q)") auto

declare drop_at_end.simps [simp del]

definition pushPacket :: "queue_par \<Rightarrow> packet \<Rightarrow> packet list \<Rightarrow> packet list" where
  "pushPacket c p q = (let q = q @ [p] in if isOverloaded c q then drop_at_end c q else q)"

text \<open>The front of an empty queue is a null pointer, which \<open>check_and_cast\<close> refuses.\<close>

definition popPacket :: "packet list \<Rightarrow> (packet \<times> packet list) res" where
  "popPacket q =
     (case q of
        [] \<Rightarrow> throwr ''check_and_cast(): Cannot cast nullptr to type inet::Packet''
      | p # q \<Rightarrow> Inr (p, q))"

text \<open>The default of \<open>DropTailQueue.ned\<close>.\<close>

definition DropTailQueue :: queue_par where
  "DropTailQueue = \<lparr>packetCapacity = 100, dataCapacity = -1\<rparr>"

locale bounded_fifo =
  fixes push :: "'a \<Rightarrow> 'q \<Rightarrow> 'q"
    and pop :: "'q \<Rightarrow> ('a \<times> 'q) res"
    and contents :: "'q \<Rightarrow> 'a list"
    and cap :: nat
  assumes push_room: "length (contents q) < cap \<Longrightarrow> contents (push x q) = contents q @ [x]"
    and push_full: "length (contents q) = cap \<Longrightarrow> contents (push x q) = contents q"
    and pop_Cons: "contents q = x # xs \<Longrightarrow> \<exists>q'. pop q = Inr (x, q') \<and> contents q' = xs"
    and pop_Nil: "contents q = [] \<Longrightarrow> \<exists>e. pop q = Inl e"
begin

lemma push_bound: "length (contents q) \<le> cap \<Longrightarrow> length (contents (push x q)) \<le> cap"
  by (cases "length (contents q) < cap") (auto simp: push_room push_full)

lemma pop_bound: "pop q = Inr (x, q') \<Longrightarrow> length (contents q') \<le> length (contents q)"
  using pop_Cons [of q] pop_Nil [of q] by (cases "contents q") fastforce+

lemma pop_InrD: "pop q = Inr (x, q') \<Longrightarrow> contents q = x # contents q'"
  using pop_Cons [of q] pop_Nil [of q] by (cases "contents q") fastforce+

text \<open>First in, first out: pushing at the end does not change what is popped next.\<close>

lemma pop_push:
  assumes "contents q \<noteq> []" and "length (contents q) \<le> cap" and "pop q = Inr (x, q')"
  shows "\<exists>q''. pop (push y q) = Inr (x, q'')"
proof -
  from assms(1) obtain z zs where z: "contents q = z # zs" by (cases "contents q") auto
  with assms(3) have "z = x" using pop_InrD by force
  have "\<exists>ws. contents (push y q) = x # ws"
    using z \<open>z = x\<close> assms(2) push_room [of q y] push_full [of q y]
    by (cases "length (contents q) < cap") auto
  then show ?thesis using pop_Cons by blast
qed

lemma push_keeps: "length (contents q) \<le> cap \<Longrightarrow>
    \<exists>zs. contents (push x q) = contents q @ zs \<and> length zs \<le> 1"
  by (cases "length (contents q) < cap") (auto simp: push_room push_full)

end

lemma drop_at_end_id: "\<not> isOverloaded c q \<Longrightarrow> drop_at_end c q = q"
  by (simp add: drop_at_end.simps)

lemma pushPacket_DropTail:
  assumes "length q \<le> 100"
  shows "pushPacket DropTailQueue p q = (if length q < 100 then q @ [p] else q)"
proof (cases "length q < 100")
  case True
  then show ?thesis
    by (simp add: pushPacket_def DropTailQueue_def isOverloaded_def Let_def)
next
  case False
  with assms have "isOverloaded DropTailQueue (q @ [p])" and "\<not> isOverloaded DropTailQueue q"
    by (auto simp: isOverloaded_def DropTailQueue_def)
  then have "drop_at_end DropTailQueue (q @ [p]) = q"
    by (simp add: drop_at_end.simps [of _ "q @ [p]"] drop_at_end_id)
  with False show ?thesis
    using \<open>isOverloaded DropTailQueue (q @ [p])\<close> by (simp add: pushPacket_def Let_def)
qed

text \<open>Whatever the capacities, a push keeps a prefix of the queue and never overloads it.\<close>

lemma drop_at_end_prefix: "\<exists>n. drop_at_end c q = take n q"
proof (induction c q rule: drop_at_end.induct)
  case (1 c q)
  show ?case
  proof (cases "q \<noteq> [] \<and> isOverloaded c q")
    case True
    with 1 obtain n where "drop_at_end c (butlast q) = take n (butlast q)" by blast
    with True show ?thesis
      by (auto simp: drop_at_end.simps [of c q] butlast_conv_take intro: exI [of _ "min n (length q - 1)"])
  next
    case False
    then show ?thesis
      by (intro exI [of _ "length q"]) (auto simp: drop_at_end.simps [of c q])
  qed
qed

lemma drop_at_end_not_overloaded:
  "drop_at_end c q = [] \<or> \<not> isOverloaded c (drop_at_end c q)"
proof (induction c q rule: drop_at_end.induct)
  case (1 c q)
  then show ?case
    by (cases "q \<noteq> [] \<and> isOverloaded c q") (auto simp: drop_at_end.simps [of c q])
qed

interpretation dropTail: bounded_fifo "\<lambda>p q. if length q \<le> 100 then pushPacket DropTailQueue p q else q"
    popPacket "\<lambda>q. q" 100
  by unfold_locales (auto simp: pushPacket_DropTail popPacket_def throwr_def)

lemma pushPacket_bound: "length q \<le> 100 \<Longrightarrow> length (pushPacket DropTailQueue p q) \<le> 100"
  using dropTail.push_bound [of q p] by simp

lemma popPacket_InrD: "popPacket q = Inr (p, q') \<Longrightarrow> q = p # q'"
  by (rule dropTail.pop_InrD)

end
