(* ===== verification/SV_Geometry.thy ===== *)
theory SV_Geometry
  imports SV_Prelude
begin

text \<open>
  Coordinates: \<open>veins::Coord\<close>, \<open>veins::TraCICoord\<close>, \<open>space_veins::WGS84Coord\<close>, the
  epsilon comparison of \<open>FWMath.h\<close> and the SUMO/OMNeT++ coordinate transformation of
  \<open>TraCICoordinateTransformation\<close>, with the round trips between both coordinate systems
  and both heading conventions.
\<close>

section \<open>FWMath\<close>

text \<open>\<open>numeric_limits<double>::epsilon()\<close> and \<open>numeric_limits<double>::min()\<close>.\<close>

definition DBL_EPSILON :: double where
  "DBL_EPSILON = 1 / 2 ^ 52"

definition DBL_MIN :: double where
  "DBL_MIN = 1 / 2 ^ 1022"

definition almost_equal :: "double \<Rightarrow> double \<Rightarrow> int \<Rightarrow> bool" where
  "almost_equal x y ulp \<longleftrightarrow>
     \<bar>x - y\<bar> \<le> DBL_EPSILON * \<bar>x + y\<bar> * of_int ulp \<or> \<bar>x - y\<bar> < DBL_MIN"

definition FWMath_modulo :: "double \<Rightarrow> double \<Rightarrow> double" where
  "FWMath_modulo a n = a - n * of_int \<lfloor>a / n\<rfloor>"

lemma DBL_EPSILON_pos [simp]: "0 < DBL_EPSILON"
  by (simp add: DBL_EPSILON_def)

lemma DBL_MIN_pos [simp]: "0 < DBL_MIN"
  by (simp add: DBL_MIN_def)

lemma almost_equal_refl [simp]: "almost_equal x x ulp"
  by (simp add: almost_equal_def)

lemma almost_equal_sym: "almost_equal x y ulp = almost_equal y x ulp"
  by (simp add: almost_equal_def abs_minus_commute add.commute)

lemma FWMath_modulo_range:
  assumes "0 < n"
  shows "0 \<le> FWMath_modulo a n" and "FWMath_modulo a n < n"
proof -
  have "n * of_int \<lfloor>a / n\<rfloor> \<le> a" and "a < n * of_int \<lfloor>a / n\<rfloor> + n"
    using floor_divide_lower [OF assms, of a] floor_divide_upper [OF assms, of a]
    by (simp_all add: algebra_simps)
  then show "0 \<le> FWMath_modulo a n" and "FWMath_modulo a n < n"
    by (simp_all add: FWMath_modulo_def)
qed

section \<open>Coord\<close>

record Coord =
  cx :: double
  cy :: double
  cz :: double

definition mkCoord :: "double \<Rightarrow> double \<Rightarrow> double \<Rightarrow> Coord" where
  "mkCoord x y z = \<lparr>cx = x, cy = y, cz = z\<rparr>"

definition Coord_ZERO :: Coord where
  "Coord_ZERO = mkCoord 0 0 0"

definition Coord_plus :: "Coord \<Rightarrow> Coord \<Rightarrow> Coord" where
  "Coord_plus a b = mkCoord (cx a + cx b) (cy a + cy b) (cz a + cz b)"

definition Coord_minus :: "Coord \<Rightarrow> Coord \<Rightarrow> Coord" where
  "Coord_minus a b = mkCoord (cx a - cx b) (cy a - cy b) (cz a - cz b)"

definition squareLength :: "Coord \<Rightarrow> double" where
  "squareLength c = cx c * cx c + cy c * cy c + cz c * cz c"

definition Coord_length :: "Coord \<Rightarrow> double" where
  "Coord_length c = sqrt (squareLength c)"

definition Coord_distance :: "Coord \<Rightarrow> Coord \<Rightarrow> double" where
  "Coord_distance a b = Coord_length (Coord_minus a b)"

text \<open>The distance of two points of one axis of the torus; a size of 0 fails an assertion.\<close>

definition torus_dist :: "double \<Rightarrow> double \<Rightarrow> double \<Rightarrow> double res" where
  "torus_dist coord1 coord2 sz =
     (let difference = \<bar>coord1 - coord2\<bar> in
      if difference = 0 then Inr 0
      else rbind (assertr (sz \<noteq> 0) ''size != 0'') (\<lambda>_.
        let d = FWMath_modulo difference sz in Inr (min d (sz - d))))"

definition sqrTorusDist :: "Coord \<Rightarrow> Coord \<Rightarrow> Coord \<Rightarrow> double res" where
  "sqrTorusDist a b sz =
     rbind (torus_dist (cx a) (cx b) (cx sz)) (\<lambda>xDist.
     rbind (torus_dist (cy a) (cy b) (cy sz)) (\<lambda>yDist.
     rbind (torus_dist (cz a) (cz b) (cz sz)) (\<lambda>zDist.
       Inr (xDist * xDist + yDist * yDist + zDist * zDist))))"

lemma mkCoord_sel [simp]:
  "cx (mkCoord x y z) = x" "cy (mkCoord x y z) = y" "cz (mkCoord x y z) = z"
  by (simp_all add: mkCoord_def)

lemma Coord_eqI: "cx a = cx b \<Longrightarrow> cy a = cy b \<Longrightarrow> cz a = cz b \<Longrightarrow> (a :: Coord) = b"
  by (cases a, cases b) simp

lemma torus_dist_le_half:
  assumes "0 < sz" and "torus_dist a b sz = Inr d"
  shows "0 \<le> d \<and> d \<le> sz / 2"
  using assms FWMath_modulo_range [of sz "\<bar>a - b\<bar>"]
  by (auto simp: torus_dist_def Let_def min_def split: if_splits)

lemma torus_dist_le_direct:
  assumes "0 < sz" and "\<bar>a - b\<bar> < sz" and "torus_dist a b sz = Inr d"
  shows "d \<le> \<bar>a - b\<bar>"
proof -
  have "\<lfloor>\<bar>a - b\<bar> / sz\<rfloor> = 0"
    using assms by (simp add: floor_eq_iff)
  then show ?thesis
    using assms by (auto simp: torus_dist_def Let_def FWMath_modulo_def split: if_splits)
qed

section \<open>WGS84Coord\<close>

record WGS84Coord =
  lat :: double
  lon :: double
  alt :: double

definition mkWGS84 :: "double \<Rightarrow> double \<Rightarrow> double \<Rightarrow> WGS84Coord" where
  "mkWGS84 la lo al = \<lparr>lat = la, lon = lo, alt = al\<rparr>"

definition WGS84_ZERO :: WGS84Coord where
  "WGS84_ZERO = mkWGS84 0 0 0"

definition WGS84_minus_assign :: "WGS84Coord \<Rightarrow> WGS84Coord \<Rightarrow> WGS84Coord" where
  "WGS84_minus_assign a b = a\<lparr>lat := lat a - lat b, lon := lon a - lon b, alt := alt a - alt b\<rparr>"

definition WGS84_minus :: "WGS84Coord \<Rightarrow> WGS84Coord \<Rightarrow> WGS84Coord" where
  "WGS84_minus a b = (let tmp = a in WGS84_minus_assign tmp b)"

definition WGS84_eq :: "WGS84Coord \<Rightarrow> WGS84Coord \<Rightarrow> bool" where
  "WGS84_eq a b \<longleftrightarrow>
     almost_equal (lat a) (lat b) 1 \<and> almost_equal (lon a) (lon b) 1 \<and> almost_equal (alt a) (alt b) 1"

definition WGS84_neq :: "WGS84Coord \<Rightarrow> WGS84Coord \<Rightarrow> bool" where
  "WGS84_neq a b \<longleftrightarrow> \<not> WGS84_eq a b"

section \<open>Headings: the normalisation loops\<close>

text \<open>
  \<open>while (angle < lo) angle += step\<close> and \<open>while (angle >= hi) angle -= step\<close>. The code
  runs them with the positive steps 360 and \<open>2 * M_PI\<close>; the test of the sign of the step
  only makes the loops total functions.
\<close>

function raise_angle :: "double \<Rightarrow> double \<Rightarrow> double \<Rightarrow> double" where
  "raise_angle lo step a = (if a < lo \<and> 0 < step then raise_angle lo step (a + step) else a)"
  by pat_completeness auto
termination
proof (relation "measure (\<lambda>(lo, step, a). nat \<lceil>(lo - a) / step\<rceil>)", goal_cases)
  case 1
  show ?case by simp
next
  case (2 lo step a)
  then have "(lo - (a + step)) / step = (lo - a) / step - 1" and "0 < (lo - a) / step"
    by (simp_all add: field_simps)
  then show ?case
    by simp
qed

function lower_angle :: "double \<Rightarrow> double \<Rightarrow> double \<Rightarrow> double" where
  "lower_angle hi step a = (if hi \<le> a \<and> 0 < step then lower_angle hi step (a - step) else a)"
  by pat_completeness auto
termination
proof (relation "measure (\<lambda>(hi, step, a). nat (\<lfloor>(a - hi) / step\<rfloor> + 1))", goal_cases)
  case 1
  show ?case by simp
next
  case (2 hi step a)
  then have "(a - step - hi) / step = (a - hi) / step - 1" and "0 \<le> (a - hi) / step"
    by (simp_all add: field_simps)
  then show ?case
    by simp
qed

declare raise_angle.simps [simp del] lower_angle.simps [simp del]

lemma raise_angle_spec:
  assumes "0 < step"
  shows "\<exists>n::nat. raise_angle lo step a = a + of_nat n * step \<and> lo \<le> raise_angle lo step a
     \<and> (raise_angle lo step a = a \<or> raise_angle lo step a < lo + step)"
  using assms
proof (induction lo step a rule: raise_angle.induct)
  case (1 lo step a)
  show ?case
  proof (cases "a < lo")
    case True
    with 1 obtain n :: nat where n: "raise_angle lo step (a + step) = a + step + of_nat n * step"
        "lo \<le> raise_angle lo step (a + step)"
        "raise_angle lo step (a + step) = a + step \<or> raise_angle lo step (a + step) < lo + step"
      by blast
    have "raise_angle lo step a = raise_angle lo step (a + step)"
      using True "1.prems" by (simp add: raise_angle.simps [of lo step a])
    with n True show ?thesis
      by (intro exI [of _ "Suc n"]) (auto simp: algebra_simps)
  next
    case False
    then show ?thesis
      by (intro exI [of _ 0]) (simp add: raise_angle.simps [of lo step a])
  qed
qed

lemma lower_angle_spec:
  assumes "0 < step"
  shows "\<exists>n::nat. lower_angle hi step a = a - of_nat n * step \<and> lower_angle hi step a < hi
     \<and> (lower_angle hi step a = a \<or> hi - step \<le> lower_angle hi step a)"
  using assms
proof (induction hi step a rule: lower_angle.induct)
  case (1 hi step a)
  show ?case
  proof (cases "hi \<le> a")
    case True
    with 1 obtain n :: nat where n: "lower_angle hi step (a - step) = a - step - of_nat n * step"
        "lower_angle hi step (a - step) < hi"
        "lower_angle hi step (a - step) = a - step \<or> hi - step \<le> lower_angle hi step (a - step)"
      by blast
    have "lower_angle hi step a = lower_angle hi step (a - step)"
      using True "1.prems" by (simp add: lower_angle.simps [of hi step a])
    with n True show ?thesis
      by (intro exI [of _ "Suc n"]) (auto simp: algebra_simps)
  next
    case False
    then show ?thesis
      by (intro exI [of _ 0]) (simp add: lower_angle.simps [of hi step a])
  qed
qed

text \<open>Both loops in a row: the representative of the angle in \<open>[lo, lo + step)\<close>.\<close>

definition normalise :: "double \<Rightarrow> double \<Rightarrow> double \<Rightarrow> double \<Rightarrow> double" where
  "normalise lo hi step a = lower_angle hi step (raise_angle lo step a)"

lemma normalise_spec:
  assumes "0 < step" and "hi = lo + step"
  shows "\<exists>n::int. normalise lo hi step a = a + of_int n * step
     \<and> lo \<le> normalise lo hi step a \<and> normalise lo hi step a < hi"
proof -
  obtain n :: nat where n: "raise_angle lo step a = a + of_nat n * step" "lo \<le> raise_angle lo step a"
    using raise_angle_spec [OF assms(1)] by blast
  obtain m :: nat where m: "normalise lo hi step a = raise_angle lo step a - of_nat m * step"
      "normalise lo hi step a < hi"
      "normalise lo hi step a = raise_angle lo step a \<or> hi - step \<le> normalise lo hi step a"
    using lower_angle_spec [OF assms(1)] unfolding normalise_def by blast
  have "normalise lo hi step a = a + of_int (int n - int m) * step"
    using n m by (simp add: algebra_simps)
  then have "\<exists>k::int. normalise lo hi step a = a + of_int k * step" by blast
  with n m assms show ?thesis by auto
qed

lemma normalise_unique:
  fixes x y step :: real
  assumes "x = y + of_int n * step" and "lo \<le> x" "x < lo + step" and "lo \<le> y" "y < lo + step"
  shows "x = y"
proof -
  from assms have "\<bar>of_int n * step\<bar> < step" and "0 < step" by linarith+
  then have "\<bar>real_of_int n\<bar> < 1"
    by (simp add: abs_mult)
  then have "n = 0" by linarith
  with assms(1) show ?thesis by simp
qed

section \<open>TraCICoordinateTransformation\<close>

record TraCICoord =
  tx :: double
  ty :: double

definition mkTraCI :: "double \<Rightarrow> double \<Rightarrow> TraCICoord" where
  "mkTraCI x y = \<lparr>tx = x, ty = y\<rparr>"

lemma mkTraCI_sel [simp]: "tx (mkTraCI x y) = x" "ty (mkTraCI x y) = y"
  by (simp_all add: mkTraCI_def)

record TraCICoordinateTransformation =
  dimensions :: TraCICoord
  topleft :: TraCICoord
  bottomright :: TraCICoord
  margin :: double

definition mkTransformation ::
    "TraCICoord \<Rightarrow> TraCICoord \<Rightarrow> double \<Rightarrow> TraCICoordinateTransformation" where
  "mkTransformation tleft bright m =
     \<lparr>dimensions = mkTraCI (tx bright - tx tleft) (ty bright - ty tleft), topleft = tleft, bottomright = bright, margin = m\<rparr>"

definition omnet2traci :: "TraCICoordinateTransformation \<Rightarrow> Coord \<Rightarrow> TraCICoord" where
  "omnet2traci T c =
     mkTraCI (cx c + tx (topleft T) - margin T)
             (ty (dimensions T) - (cy c - ty (topleft T)) + margin T)"

fun omnet2traci_list :: "TraCICoordinateTransformation \<Rightarrow> Coord list \<Rightarrow> TraCICoord list" where
  "omnet2traci_list T [] = []"
| "omnet2traci_list T (c # cs) = omnet2traci T c # omnet2traci_list T cs"

definition traci2omnet :: "TraCICoordinateTransformation \<Rightarrow> TraCICoord \<Rightarrow> Coord" where
  "traci2omnet T c =
     mkCoord (tx c - tx (topleft T) + margin T)
             (ty (dimensions T) - (ty c - ty (topleft T)) + margin T) 0"

fun traci2omnet_list :: "TraCICoordinateTransformation \<Rightarrow> TraCICoord list \<Rightarrow> Coord list" where
  "traci2omnet_list T [] = []"
| "traci2omnet_list T (c # cs) = traci2omnet T c # traci2omnet_list T cs"

definition M_PI :: double where
  "M_PI = 3.14159265358979323846"

lemma M_PI_pos [simp]: "0 < M_PI" "M_PI \<noteq> 0"
  by (simp_all add: M_PI_def)

definition omnet2traciHeading :: "double \<Rightarrow> double" where
  "omnet2traciHeading rad =
     (let angle = rad * 180 / M_PI; angle = 90 - angle
      in lower_angle 180 360 (raise_angle (-180) 360 angle))"

definition traci2omnetHeading :: "double \<Rightarrow> double" where
  "traci2omnetHeading o' =
     (let angle = 90 - o'; angle = angle * M_PI / 180
      in lower_angle M_PI (2 * M_PI) (raise_angle (- M_PI) (2 * M_PI) angle))"

lemma omnet2traciHeading_range: "-180 \<le> omnet2traciHeading r \<and> omnet2traciHeading r < 180"
  using normalise_spec [of 360 180 "-180" "90 - r * 180 / M_PI"]
  by (auto simp: omnet2traciHeading_def normalise_def Let_def)

lemma traci2omnetHeading_range: "- M_PI \<le> traci2omnetHeading d \<and> traci2omnetHeading d < M_PI"
  using normalise_spec [of "2 * M_PI" M_PI "- M_PI" "(90 - d) * M_PI / 180"]
  by (auto simp: traci2omnetHeading_def normalise_def Let_def)

lemma omnet2traciHeading_cong:
  "\<exists>n::int. omnet2traciHeading r = 90 - r * 180 / M_PI + of_int n * 360"
  using normalise_spec [of 360 180 "-180" "90 - r * 180 / M_PI"]
  by (auto simp: omnet2traciHeading_def normalise_def Let_def)

lemma traci2omnetHeading_cong:
  "\<exists>n::int. traci2omnetHeading d = (90 - d) * M_PI / 180 + of_int n * (2 * M_PI)"
  using normalise_spec [of "2 * M_PI" M_PI "- M_PI" "(90 - d) * M_PI / 180"]
  by (auto simp: traci2omnetHeading_def normalise_def Let_def)

lemma traci2omnet_omnet2traci_xy: "traci2omnet T (omnet2traci T c) = c\<lparr>cz := 0\<rparr>"
  by (simp add: traci2omnet_def omnet2traci_def mkCoord_def)

lemma omnet2traci_traci2omnet_xy: "omnet2traci T (traci2omnet T c) = c"
  by (cases c) (simp add: traci2omnet_def omnet2traci_def mkTraCI_def)


section \<open>Properties\<close>

text \<open>The heading conventions of SUMO and of the simulator are inverse to each other: converting a
  heading to degrees and back gives the angle of the same direction between \<open>-M_PI\<close> and \<open>M_PI\<close>,
  the heading itself when it already lies there, and likewise from degrees to radians and back.\<close>

theorem heading_roundtrip:
  "(\<exists>n::int. traci2omnetHeading (omnet2traciHeading r) = r + of_int n * (2 * M_PI)) \<and>
   - M_PI \<le> traci2omnetHeading (omnet2traciHeading r) \<and> traci2omnetHeading (omnet2traciHeading r) < M_PI \<and>
   (- M_PI \<le> r \<and> r < M_PI \<longrightarrow> traci2omnetHeading (omnet2traciHeading r) = r) \<and>
   (-180 \<le> d \<and> d < 180 \<longrightarrow> omnet2traciHeading (traci2omnetHeading d) = d)"
proof (intro conjI impI)
  obtain n where n: "omnet2traciHeading r = 90 - r * 180 / M_PI + of_int n * 360"
    using omnet2traciHeading_cong by blast
  obtain k where k: "traci2omnetHeading (omnet2traciHeading r) =
      (90 - omnet2traciHeading r) * M_PI / 180 + of_int k * (2 * M_PI)"
    using traci2omnetHeading_cong by blast
  have "(90 - omnet2traciHeading r) * M_PI / 180 = r - of_int n * (2 * M_PI)"
    unfolding n by (simp add: field_simps)
  with k have "traci2omnetHeading (omnet2traciHeading r) = r + of_int (k - n) * (2 * M_PI)"
    by (simp add: algebra_simps)
  then show c: "\<exists>n::int. traci2omnetHeading (omnet2traciHeading r) = r + of_int n * (2 * M_PI)" by blast
  show lo: "- M_PI \<le> traci2omnetHeading (omnet2traciHeading r)"
    and hi: "traci2omnetHeading (omnet2traciHeading r) < M_PI"
    using traci2omnetHeading_range by blast+
  assume "- M_PI \<le> r \<and> r < M_PI"
  with c lo hi show "traci2omnetHeading (omnet2traciHeading r) = r"
    using normalise_unique [where step = "2 * M_PI" and lo = "- M_PI"] by auto
next
  obtain n where n: "traci2omnetHeading d = (90 - d) * M_PI / 180 + of_int n * (2 * M_PI)"
    using traci2omnetHeading_cong by blast
  obtain k where k: "omnet2traciHeading (traci2omnetHeading d) =
      90 - traci2omnetHeading d * 180 / M_PI + of_int k * 360"
    using omnet2traciHeading_cong by blast
  have "90 - traci2omnetHeading d * 180 / M_PI = d - of_int n * 360"
    unfolding n by (simp add: field_simps)
  with k have "omnet2traciHeading (traci2omnetHeading d) = d + of_int (k - n) * 360"
    by (simp add: algebra_simps)
  moreover assume "-180 \<le> d \<and> d < 180"
  ultimately show "omnet2traciHeading (traci2omnetHeading d) = d"
    using omnet2traciHeading_range [of "traci2omnetHeading d"]
      normalise_unique [where step = 360 and lo = "-180"] by auto
qed

lemma heading_roundtrip_witness: "traci2omnetHeading (omnet2traciHeading 1) = 1"
  using heading_roundtrip [of 1 0] by (simp add: M_PI_def)

text \<open>Converting positions between SUMO and the simulator loses nothing but the height: a SUMO position
  comes back unchanged and a simulator position comes back with height zero, also for lists of
  positions, whatever the margin and the corners of the network are.\<close>

theorem position_roundtrip:
  "omnet2traci T (traci2omnet T p) = p \<and> traci2omnet T (omnet2traci T c) = c\<lparr>cz := 0\<rparr> \<and>
   omnet2traci_list T (traci2omnet_list T ps) = ps \<and>
   traci2omnet_list T (omnet2traci_list T cs) = map (\<lambda>c. c\<lparr>cz := 0\<rparr>) cs"
proof -
  have "omnet2traci_list T (traci2omnet_list T ps) = ps"
    by (induction ps) (simp_all add: omnet2traci_traci2omnet_xy)
  moreover have "traci2omnet_list T (omnet2traci_list T cs) = map (\<lambda>c. c\<lparr>cz := 0\<rparr>) cs"
    by (induction cs) (simp_all add: traci2omnet_omnet2traci_xy)
  ultimately show ?thesis
    by (simp add: omnet2traci_traci2omnet_xy traci2omnet_omnet2traci_xy)
qed

lemma torus_dist_sym: "torus_dist a b sz = torus_dist b a sz"
  by (simp add: torus_dist_def abs_minus_commute Let_def)

lemma torus_dist_total: "0 < sz \<Longrightarrow> \<exists>d. torus_dist a b sz = Inr d"
  by (simp add: torus_dist_def Let_def)

text \<open>On a torus with positive sizes the squared distance is computed without an error, is symmetric
  and is at most a quarter of the sum of the squared sizes; a size of zero is an error as soon
  as the coordinates differ on that axis.\<close>

theorem torus_distance_bounded:
  assumes "0 < cx sz" "0 < cy sz" "0 < cz sz"
  shows "(\<exists>d. sqrTorusDist a b sz = Inr d \<and> sqrTorusDist b a sz = Inr d \<and> 0 \<le> d \<and> d \<le> squareLength sz / 4) \<and>
    (cx a \<noteq> cx b \<longrightarrow> sqrTorusDist a b (sz\<lparr>cx := 0\<rparr>) = Inl (AssertFailed ''size != 0''))"
proof -
  obtain x y z where xyz: "torus_dist (cx a) (cx b) (cx sz) = Inr x" "torus_dist (cy a) (cy b) (cy sz) = Inr y"
      "torus_dist (cz a) (cz b) (cz sz) = Inr z"
    using torus_dist_total assms by metis
  have half: "u * u \<le> s * s / 4" if "0 \<le> u \<and> u \<le> s / 2" for u s :: real
    using mult_mono [of u "s / 2" u "s / 2"] that by simp
  have "x * x \<le> cx sz * cx sz / 4" "y * y \<le> cy sz * cy sz / 4" "z * z \<le> cz sz * cz sz / 4"
    using torus_dist_le_half [OF assms(1) xyz(1)] torus_dist_le_half [OF assms(2) xyz(2)]
      torus_dist_le_half [OF assms(3) xyz(3)] half by blast+
  moreover have "sqrTorusDist a b sz = Inr (x * x + y * y + z * z)" "sqrTorusDist b a sz = Inr (x * x + y * y + z * z)"
    using xyz by (simp_all add: sqrTorusDist_def torus_dist_sym [of "cx b"] torus_dist_sym [of "cy b"]
        torus_dist_sym [of "cz b"])
  ultimately show ?thesis
    by (auto simp: squareLength_def sqrTorusDist_def torus_dist_def)
qed

lemma torus_distance_bounded_witness:
  "\<exists>d. sqrTorusDist (mkCoord 1 2 3) (mkCoord 9 8 7) (mkCoord 10 10 10) = Inr d \<and> d \<le> 75"
proof -
  have "0 < cx (mkCoord 10 10 10)" "0 < cy (mkCoord 10 10 10)" "0 < cz (mkCoord 10 10 10)" by simp_all
  from torus_distance_bounded [OF this, of "mkCoord 1 2 3" "mkCoord 9 8 7"] show ?thesis
    by (auto simp: squareLength_def)
qed

text \<open>The comparison of WGS84 coordinates is reflexive and symmetric but not transitive: three
  latitudes, neighbours equal by the tolerance of the comparison, whose outer ones differ.\<close>

theorem wgs84_equality_not_transitive:
  "WGS84_eq a a \<and> WGS84_eq a b = WGS84_eq b a \<and>
   (\<exists>u v w. WGS84_eq u v \<and> WGS84_eq v w \<and> WGS84_neq u w)"
proof -
  let ?u = "mkWGS84 1 0 0" and ?v = "mkWGS84 (1 + 3 / 2 ^ 53) 0 0" and ?w = "mkWGS84 (1 + 6 / 2 ^ 53) 0 0"
  have "WGS84_eq ?u ?v \<and> WGS84_eq ?v ?w \<and> WGS84_neq ?u ?w"
    by (simp add: WGS84_eq_def WGS84_neq_def almost_equal_def mkWGS84_def DBL_EPSILON_def DBL_MIN_def)
  moreover have "WGS84_eq a a" "WGS84_eq a b = WGS84_eq b a"
    by (simp_all add: WGS84_eq_def almost_equal_sym)
  ultimately show ?thesis by blast
qed

end
