(* ===== verification/SV_Statistics.thy ===== *)
theory SV_Statistics
  imports SV_Geometry "HOL-Library.Word"
begin

text \<open>
  The statistics modules. \<open>GlobalStatistics\<close> counts vehicles in \<open>unsigned long\<close> counters
  (64 bit, wrapping) and records the number of current vehicles in a vector.
  \<open>VehicleStatistics\<close> only emits signals: its state here is the list of emitted values,
  the latest first, and \<open>emitted\<close> counts the emissions of a signal.
\<close>

section \<open>GlobalStatistics\<close>

type_synonym ulong = "64 word"

record GlobalStatistics =
  numTotalCars :: ulong
  numRemovedCars :: ulong
  numCurrentCars :: ulong
  vecCurrentCars :: "ulong list"    \<comment> \<open>recorded values, latest first\<close>

definition GlobalStatistics_init :: GlobalStatistics where
  "GlobalStatistics_init =
     \<lparr>numTotalCars = 0, numRemovedCars = 0, numCurrentCars = 0, vecCurrentCars = []\<rparr>"

definition incrementTotalCars :: "GlobalStatistics \<Rightarrow> GlobalStatistics" where
  "incrementTotalCars s =
     (let s = s\<lparr>numTotalCars := numTotalCars s + 1\<rparr>;
          s = s\<lparr>numCurrentCars := numCurrentCars s + 1\<rparr>
      in s\<lparr>vecCurrentCars := numCurrentCars s # vecCurrentCars s\<rparr>)"

definition incrementRemovedCars :: "GlobalStatistics \<Rightarrow> GlobalStatistics" where
  "incrementRemovedCars s =
     (let s = s\<lparr>numRemovedCars := numRemovedCars s + 1\<rparr>;
          s = s\<lparr>numCurrentCars := numCurrentCars s - 1\<rparr>
      in s\<lparr>vecCurrentCars := numCurrentCars s # vecCurrentCars s\<rparr>)"

definition GlobalStatistics_finish :: "GlobalStatistics \<Rightarrow> (string \<times> ulong) list" where
  "GlobalStatistics_finish s =
     [(''numTotalCars:count'', numTotalCars s),
      (''numRemovedCars:count'', numRemovedCars s),
      (''numCurrentCars:count'', numCurrentCars s)]"

datatype car_event = CarInserted | CarRemoved

fun global_step :: "car_event \<Rightarrow> GlobalStatistics \<Rightarrow> GlobalStatistics" where
  "global_step CarInserted s = incrementTotalCars s"
| "global_step CarRemoved s = incrementRemovedCars s"

definition global_inv :: "GlobalStatistics \<Rightarrow> bool" where
  "global_inv s \<longleftrightarrow> numCurrentCars s = numTotalCars s - numRemovedCars s
     \<and> (vecCurrentCars s = [] \<or> hd (vecCurrentCars s) = numCurrentCars s)"

lemma global_step_inv: "global_inv s \<Longrightarrow> global_inv (global_step e s)"
  by (cases e) (auto simp: global_inv_def incrementTotalCars_def incrementRemovedCars_def Let_def)

lemma global_inv_init: "global_inv GlobalStatistics_init"
  by (simp add: global_inv_def GlobalStatistics_init_def)

lemma global_run_inv: "global_inv s \<Longrightarrow> global_inv (fold global_step es s)"
  by (induction es arbitrary: s) (simp_all add: global_step_inv)

lemma global_run_total:
  "numTotalCars (fold global_step es s) = numTotalCars s + of_nat (count_list es CarInserted)"
proof (induction es arbitrary: s)
  case Nil
  show ?case by simp
next
  case (Cons e es)
  then show ?case
    by (cases e) (simp_all add: incrementTotalCars_def incrementRemovedCars_def Let_def)
qed

section \<open>VehicleStatistics\<close>

datatype signal =
    omnetCoordX
  | omnetCoordY
  | omnetCoordZ
  | wgs84CoordLat
  | wgs84CoordLon
  | wgs84CoordAlt
  | wgs84CartCoordX
  | wgs84CartCoordY
  | wgs84CartCoordZ
  | sopRelativeCoordX
  | sopRelativeCoordY
  | sopRelativeCoordZ
  | sendSatellitePackets
  | receivedSatellitePackets
  | sendWlanPackets
  | receivedWlanPackets
  | sendSatelliteRegistrationMessages
  | receivedSatelliteRegistrationMessages
  | missedSatelliteRegistrationAcks
  | receivedSatelliteRegistrationAcks
  | sendWlanSchedules
  | receivedWlanSchedules
  | applLayerRoundTripTime
  | applLayerSatelliteLatency
  | registeredVehiclesPerSchedule
  | wlanPacketEndToEndDelay

datatype emission =
    EmitDouble signal double
  | EmitTime signal simtime
  | EmitLong signal int

fun emission_signal :: "emission \<Rightarrow> signal" where
  "emission_signal (EmitDouble s _) = s"
| "emission_signal (EmitTime s _) = s"
| "emission_signal (EmitLong s _) = s"

type_synonym VehicleStatistics = "emission list"

definition emitted :: "signal \<Rightarrow> VehicleStatistics \<Rightarrow> nat" where
  "emitted sig st = length (filter (\<lambda>e. emission_signal e = sig) st)"

record PJ_COORD =
  pj_x :: double
  pj_y :: double
  pj_z :: double

definition recordOmnetCoord :: "Coord \<Rightarrow> VehicleStatistics \<Rightarrow> VehicleStatistics" where
  "recordOmnetCoord c st =
     EmitDouble omnetCoordZ (cz c) # EmitDouble omnetCoordY (cy c) # EmitDouble omnetCoordX (cx c) # st"

definition recordWGS84Coord :: "WGS84Coord \<Rightarrow> VehicleStatistics \<Rightarrow> VehicleStatistics" where
  "recordWGS84Coord c st =
     EmitDouble wgs84CoordAlt (alt c) # EmitDouble wgs84CoordLon (lon c)
       # EmitDouble wgs84CoordLat (lat c) # st"

definition recordWGS84CartCoord :: "PJ_COORD \<Rightarrow> VehicleStatistics \<Rightarrow> VehicleStatistics" where
  "recordWGS84CartCoord c st =
     EmitDouble wgs84CartCoordZ (pj_z c) # EmitDouble wgs84CartCoordY (pj_y c)
       # EmitDouble wgs84CartCoordX (pj_x c) # st"

definition recordSopRelativeCoord :: "Coord \<Rightarrow> VehicleStatistics \<Rightarrow> VehicleStatistics" where
  "recordSopRelativeCoord c st =
     EmitDouble sopRelativeCoordZ (cz c) # EmitDouble sopRelativeCoordY (cy c)
       # EmitDouble sopRelativeCoordX (cx c) # st"

definition recordSendSatellitePackets :: "VehicleStatistics \<Rightarrow> VehicleStatistics" where
  "recordSendSatellitePackets st = EmitLong sendSatellitePackets 1 # st"

definition recordReceivedSatellitePackets :: "VehicleStatistics \<Rightarrow> VehicleStatistics" where
  "recordReceivedSatellitePackets st = EmitLong receivedSatellitePackets 1 # st"

definition recordSendWlanPackets :: "VehicleStatistics \<Rightarrow> VehicleStatistics" where
  "recordSendWlanPackets st = EmitLong sendWlanPackets 1 # st"

definition recordReceivedWlanPackets :: "VehicleStatistics \<Rightarrow> VehicleStatistics" where
  "recordReceivedWlanPackets st = EmitLong receivedWlanPackets 1 # st"

definition recordSendSatelliteRegistrationMessages :: "VehicleStatistics \<Rightarrow> VehicleStatistics" where
  "recordSendSatelliteRegistrationMessages st = EmitLong sendSatelliteRegistrationMessages 1 # st"

definition recordReceivedSatelliteRegistrationMessages :: "VehicleStatistics \<Rightarrow> VehicleStatistics" where
  "recordReceivedSatelliteRegistrationMessages st = EmitLong receivedSatelliteRegistrationMessages 1 # st"

definition recordMissedSatelliteRegistrationAcks :: "VehicleStatistics \<Rightarrow> VehicleStatistics" where
  "recordMissedSatelliteRegistrationAcks st = EmitLong missedSatelliteRegistrationAcks 1 # st"

definition recordReceivedSatelliteRegistrationAcks :: "VehicleStatistics \<Rightarrow> VehicleStatistics" where
  "recordReceivedSatelliteRegistrationAcks st = EmitLong receivedSatelliteRegistrationAcks 1 # st"

definition recordSendWlanSchedules :: "VehicleStatistics \<Rightarrow> VehicleStatistics" where
  "recordSendWlanSchedules st = EmitLong sendWlanSchedules 1 # st"

definition recordReceivedWlanSchedules :: "VehicleStatistics \<Rightarrow> VehicleStatistics" where
  "recordReceivedWlanSchedules st = EmitLong receivedWlanSchedules 1 # st"

definition recordApplLayerRoundTripTime :: "simtime \<Rightarrow> VehicleStatistics \<Rightarrow> VehicleStatistics" where
  "recordApplLayerRoundTripTime rtt st = EmitTime applLayerRoundTripTime rtt # st"

definition recordApplLayerSatelliteLatency ::
    "simtime \<Rightarrow> VehicleStatistics \<Rightarrow> VehicleStatistics" where
  "recordApplLayerSatelliteLatency l st = EmitTime applLayerSatelliteLatency l # st"

definition recordRegisteredVehiclesPerSchedule ::
    "int \<Rightarrow> VehicleStatistics \<Rightarrow> VehicleStatistics" where
  "recordRegisteredVehiclesPerSchedule n st = EmitLong registeredVehiclesPerSchedule n # st"

definition recordWlanPacketEndToEndDelay ::
    "simtime \<Rightarrow> VehicleStatistics \<Rightarrow> VehicleStatistics" where
  "recordWlanPacketEndToEndDelay d st = EmitTime wlanPacketEndToEndDelay d # st"

lemma emitted_Nil [simp]: "emitted sig [] = 0"
  by (simp add: emitted_def)

lemma emitted_Cons:
  "emitted sig (e # st) = (if emission_signal e = sig then Suc (emitted sig st) else emitted sig st)"
  by (simp add: emitted_def)

lemmas record_defs = recordOmnetCoord_def recordWGS84Coord_def recordWGS84CartCoord_def
  recordSopRelativeCoord_def
  recordSendSatellitePackets_def
  recordReceivedSatellitePackets_def
  recordSendWlanPackets_def
  recordReceivedWlanPackets_def
  recordSendSatelliteRegistrationMessages_def
  recordReceivedSatelliteRegistrationMessages_def
  recordMissedSatelliteRegistrationAcks_def
  recordReceivedSatelliteRegistrationAcks_def
  recordSendWlanSchedules_def
  recordReceivedWlanSchedules_def
  recordApplLayerRoundTripTime_def recordApplLayerSatelliteLatency_def
  recordRegisteredVehiclesPerSchedule_def recordWlanPacketEndToEndDelay_def

lemmas stat_simps = record_defs emitted_Cons


section \<open>Properties\<close>

lemma global_run_removed:
  "numRemovedCars (fold global_step es s) = numRemovedCars s + of_nat (count_list es CarRemoved)"
proof (induction es arbitrary: s)
  case Nil
  show ?case by simp
next
  case (Cons e es)
  then show ?case
    by (cases e) (simp_all add: incrementTotalCars_def incrementRemovedCars_def Let_def)
qed

lemma global_run_records: "length (vecCurrentCars (fold global_step es s)) = length es + length (vecCurrentCars s)"
proof (induction es arbitrary: s)
  case Nil
  show ?case by simp
next
  case (Cons e es)
  then show ?case
    by (cases e) (simp_all add: incrementTotalCars_def incrementRemovedCars_def Let_def)
qed

text \<open>Over any sequence of insertions and removals of vehicles the current number of cars is the number
  inserted less the number removed, modulo \<open>2^64\<close>; while no more are removed than were inserted
  and fewer than \<open>2^64\<close> are inserted it is that difference exactly, and the last recorded value
  is the current number.\<close>

theorem car_counters:
  "numCurrentCars (fold global_step es GlobalStatistics_init) =
     of_nat (count_list es CarInserted) - of_nat (count_list es CarRemoved) \<and>
   (count_list es CarRemoved \<le> count_list es CarInserted \<and> count_list es CarInserted < 2 ^ 64 \<longrightarrow>
      unat (numCurrentCars (fold global_step es GlobalStatistics_init)) =
        count_list es CarInserted - count_list es CarRemoved) \<and>
   (es \<noteq> [] \<longrightarrow> vecCurrentCars (fold global_step es GlobalStatistics_init) \<noteq> [] \<and>
      hd (vecCurrentCars (fold global_step es GlobalStatistics_init)) =
        numCurrentCars (fold global_step es GlobalStatistics_init))"
proof -
  let ?s = "fold global_step es GlobalStatistics_init"
  have inv: "global_inv ?s" by (rule global_run_inv [OF global_inv_init])
  have cur: "numCurrentCars ?s = of_nat (count_list es CarInserted) - of_nat (count_list es CarRemoved)"
    using inv global_run_total [of es GlobalStatistics_init] global_run_removed [of es GlobalStatistics_init]
    by (simp add: global_inv_def GlobalStatistics_init_def)
  have "unat (numCurrentCars ?s) = count_list es CarInserted - count_list es CarRemoved"
    if "count_list es CarRemoved \<le> count_list es CarInserted" "count_list es CarInserted < 2 ^ 64"
    unfolding cur using that
    by (simp flip: of_nat_diff add: unsigned_of_nat take_bit_nat_eq_self)
  moreover have "vecCurrentCars ?s \<noteq> []" if "es \<noteq> []"
    using that global_run_records [of es GlobalStatistics_init] by auto
  moreover from this have "hd (vecCurrentCars ?s) = numCurrentCars ?s" if "es \<noteq> []"
    using inv that by (auto simp: global_inv_def)
  ultimately show ?thesis using cur by blast
qed

lemma car_counters_witness:
  "unat (numCurrentCars (fold global_step [CarInserted, CarInserted, CarRemoved] GlobalStatistics_init)) = 1"
  using car_counters [of "[CarInserted, CarInserted, CarRemoved]"] by simp

end
