(* ===== verification/SV_Satellite.thy ===== *)
theory SV_Satellite
  imports SV_Kernel SV_Packet SV_Statistics
begin

text \<open>
  \<open>SamacSatelliteAppl\<close>: the satellite collects registrations in \<open>wlanSchedule\<close>, one slot per
  vehicle in the order of registration, acknowledges each registration, and once per
  interval broadcasts the schedule and starts an empty one. Sent packets, with the
  destination and port given to the socket, are listed latest first.
\<close>

section \<open>State and parameters\<close>

record 'k satellite =
  sa_kern :: 'k
  wlanScheduleTimer :: nat
  wlanSchedule :: WlanSchedule
  wlanSlot_s :: dbl
  sa_interval_s :: simtime            \<comment> \<open>\<open>wlanScheduleInterval_s\<close>\<close>
  maxV2SLatency_s :: simtime
  sa_destAddress :: L3Address
  sa_interfaceId :: "int option"      \<comment> \<open>\<open>ie\<close>\<close>
  sa_stats :: VehicleStatistics
  sa_sent :: "(packet \<times> L3Address \<times> int) list"

record satellite_par =
  par_wlanSlot_s :: dbl
  par_maxV2SLatency_s :: simtime
  par_wlanScheduleInterval_s :: simtime
  par_interface :: string

definition portNumber :: int where
  "portNumber = 9001"

definition WLAN_SCHEDULE_TIMER :: int where
  "WLAN_SCHEDULE_TIMER = 0"

section \<open>Operations\<close>

definition Sat_initialize ::
    "'k kernel_ops \<Rightarrow> satellite_par \<Rightarrow> nat \<Rightarrow> 'k satellite \<Rightarrow> 'k satellite" where
  "Sat_initialize K p stage s =
     (if stage = 0 then
        (let (m, k) = newMessage K (sa_kern s)
         in s\<lparr>sa_kern := k, wlanScheduleTimer := m, wlanSlot_s := par_wlanSlot_s p,
              maxV2SLatency_s := par_maxV2SLatency_s p,
              sa_interval_s := par_wlanScheduleInterval_s p\<rparr>)
      else s)"

definition startApplication :: "'k kernel_ops \<Rightarrow> 'k satellite \<Rightarrow> (bool \<times> 'k satellite) res" where
  "startApplication K s =
     rbind (scheduleAt K (simTime K (sa_kern s) + sa_interval_s s) (wlanScheduleTimer s) (sa_kern s))
       (\<lambda>k. Inr (True, s\<lparr>sa_kern := k\<rparr>))"

text \<open>
  The address resolver and the interface table are INET modules: \<open>resolve\<close> and
  \<open>findInterface\<close> give their answers.
\<close>

definition Sat_handleStartOperation ::
    "'k kernel_ops \<Rightarrow> (string \<Rightarrow> L3Address) \<Rightarrow> (string \<Rightarrow> int option) \<Rightarrow> satellite_par
       \<Rightarrow> 'k satellite \<Rightarrow> 'k satellite res" where
  "Sat_handleStartOperation K resolve findInterface p s =
     (let s = s\<lparr>sa_destAddress := resolve ''224.0.0.1''\<rparr> in
      rbind (assertr (\<not> isUnspecified (sa_destAddress s)) ''!destAddress.isUnspecified()'') (\<lambda>_.
      rbind (assertr (par_interface p \<noteq> []) ''interface[0]'') (\<lambda>_.
      let s = s\<lparr>sa_interfaceId := findInterface (par_interface p)\<rparr> in
      rbind (assertr (sa_interfaceId s \<noteq> None) ''ie'') (\<lambda>_.
      rbind (startApplication K s) (\<lambda>(ok, s).
      rbind (assertr ok ''ok'') (\<lambda>_. Inr s))))))"

definition Sat_sendPacket :: "packet \<Rightarrow> 'k satellite \<Rightarrow> 'k satellite" where
  "Sat_sendPacket p s = s\<lparr>sa_sent := (p, sa_destAddress s, portNumber) # sa_sent s\<rparr>"

definition sendVehicleRegistrationAck ::
    "'k kernel_ops \<Rightarrow> mac \<Rightarrow> 'k satellite \<Rightarrow> 'k satellite res" where
  "sendVehicleRegistrationAck K vehicleId s =
     (let payload = SatelliteAckChunk vehicleId (simTime K (sa_kern s));
          packet = insertAtBack payload (new_packet ''ack'')
      in rbind (interfaceTag (sa_interfaceId s) packet) (\<lambda>packet.
         let s = s\<lparr>sa_stats := recordSendSatellitePackets (sa_stats s)\<rparr>
         in Inr (Sat_sendPacket packet s)))"

definition addToWlanSchedule :: "mac \<Rightarrow> 'k satellite \<Rightarrow> 'k satellite" where
  "addToWlanSchedule vehicleId s =
     (let wlanScheduleSize = length (wlanSchedule s)
      in s\<lparr>wlanSchedule :=
            sm_insert vehicleId (dbl_times (int wlanScheduleSize) (wlanSlot_s s)) (wlanSchedule s)\<rparr>)"

definition sizeof_simtime :: nat where "sizeof_simtime = 8"
definition sizeof_simTimeDelta :: nat where "sizeof_simTimeDelta = 8"
definition macAddressSize :: nat where "macAddressSize = 6"

definition publishWlanSchedule :: "'k kernel_ops \<Rightarrow> 'k satellite \<Rightarrow> 'k satellite res" where
  "publishWlanSchedule K s =
     (let now = simTime K (sa_kern s);
          chunkLength =
            (if length (wlanSchedule s) > 0
             then length (wlanSchedule s) * (macAddressSize + sizeof_simTimeDelta) + 3 * sizeof_simtime
             else 3 * sizeof_simtime);
          payload = \<lparr>ws_schedule = wlanSchedule s, ws_begin = now + maxV2SLatency_s s,
                     ws_interval = sa_interval_s s, ws_transmit = now, ws_length = chunkLength,
                     ws_created = now\<rparr>;
          s = s\<lparr>sa_stats := recordRegisteredVehiclesPerSchedule (int (length (wlanSchedule s))) (sa_stats s)\<rparr>;
          s = s\<lparr>wlanSchedule := []\<rparr>;
          packet = insertAtBack (WlanScheduleChunk payload) (new_packet ''wlanSchedule'')
      in rbind (interfaceTag (sa_interfaceId s) packet) (\<lambda>packet.
         let s = Sat_sendPacket packet s;
             s = s\<lparr>sa_stats := recordSendWlanSchedules (sa_stats s)\<rparr>
         in Inr (s\<lparr>sa_stats := recordSendSatellitePackets (sa_stats s)\<rparr>)))"

definition Sat_handleSelfMessage :: "'k kernel_ops \<Rightarrow> int \<Rightarrow> 'k satellite \<Rightarrow> 'k satellite res" where
  "Sat_handleSelfMessage K kind s =
     (if kind = WLAN_SCHEDULE_TIMER then
        rbind (publishWlanSchedule K s) (\<lambda>s.
        rbind (scheduleAt K (simTime K (sa_kern s) + sa_interval_s s) (wlanScheduleTimer s) (sa_kern s)) (\<lambda>k.
          Inr (s\<lparr>sa_kern := k\<rparr>)))
      else Inr s)"

definition Sat_processPacket :: "'k kernel_ops \<Rightarrow> packet \<Rightarrow> 'k satellite \<Rightarrow> 'k satellite res" where
  "Sat_processPacket K pk s =
     rbind
       (if has_chunk is_Registration pk then
          rbind (peekAtFront pk) (\<lambda>reg.
          case reg of
            RegistrationChunk src _ \<Rightarrow>
              rbind (sendVehicleRegistrationAck K src (addToWlanSchedule src s)) (\<lambda>s.
                Inr (s\<lparr>sa_stats := recordReceivedSatelliteRegistrationMessages (sa_stats s)\<rparr>))
          | _ \<Rightarrow> throwr ''chunk is not of the requested type'')
        else Inr s)
       (\<lambda>s. Inr (s\<lparr>sa_stats := recordReceivedSatellitePackets (sa_stats s)\<rparr>))"

text \<open>
  \<open>handleMessageWhenUp\<close>: self messages are handled here, data arrives through the socket
  callback \<open>socketDataArrived\<close>, which drops local echoes.
\<close>

datatype sat_message = SatSelf int | SatData bool packet   \<comment> \<open>kind; source is the loopback address, packet\<close>

definition socketDataArrived :: "'k kernel_ops \<Rightarrow> bool \<Rightarrow> packet \<Rightarrow> 'k satellite \<Rightarrow> 'k satellite res" where
  "socketDataArrived K loopback pk s = (if loopback then Inr s else Sat_processPacket K pk s)"

fun Sat_handleMessageWhenUp :: "'k kernel_ops \<Rightarrow> sat_message \<Rightarrow> 'k satellite \<Rightarrow> 'k satellite res" where
  "Sat_handleMessageWhenUp K (SatSelf kind) s = Sat_handleSelfMessage K kind s"
| "Sat_handleMessageWhenUp K (SatData loopback pk) s = socketDataArrived K loopback pk s"

lemmas sat_defs = Sat_handleSelfMessage_def Sat_processPacket_def socketDataArrived_def
  publishWlanSchedule_def sendVehicleRegistrationAck_def Sat_sendPacket_def interfaceTag_def

section \<open>Abstract schedule: the list of registered vehicles\<close>

definition spec_register :: "mac \<Rightarrow> mac list \<Rightarrow> mac list" where
  "spec_register v regs = (if v \<in> set regs then regs else regs @ [v])"

definition schedule_abs :: "dbl \<Rightarrow> WlanSchedule \<Rightarrow> mac list \<Rightarrow> bool" where
  "schedule_abs slot sched regs \<longleftrightarrow>
     sm_inv sched \<and> distinct regs \<and> length sched = length regs \<and>
     dom (sm_find sched) = set regs \<and>
     (\<forall>i < length regs. sm_find sched (regs ! i) = Some (dbl_times (int i) slot))"

lemma schedule_abs_empty: "schedule_abs slot [] []"
  by (auto simp: schedule_abs_def)

lemma schedule_abs_dom: "schedule_abs slot sched regs \<Longrightarrow> sm_find sched v = None \<longleftrightarrow> v \<notin> set regs"
  by (auto simp: schedule_abs_def domIff)

lemma schedule_abs_Some:
  assumes "schedule_abs slot sched regs" and "sm_find sched v = Some d"
  obtains i where "i < length regs" "regs ! i = v" "d = dbl_times (int i) slot"
proof -
  from assms have "v \<in> set regs" by (metis domI schedule_abs_def)
  then obtain i where i: "i < length regs" "regs ! i = v" by (auto simp: in_set_conv_nth)
  with assms have "d = dbl_times (int i) slot" by (auto simp: schedule_abs_def)
  with i that show ?thesis by blast
qed

lemma addToWlanSchedule_refines:
  assumes abs: "schedule_abs (wlanSlot_s s) (wlanSchedule s) regs"
  shows "schedule_abs (wlanSlot_s s) (wlanSchedule (addToWlanSchedule v s)) (spec_register v regs)"
proof (cases "v \<in> set regs")
  case True
  have inv: "sm_inv (wlanSchedule s)" using abs by (simp add: schedule_abs_def)
  from True abs obtain w where w: "sm_find (wlanSchedule s) v = Some w"
    using schedule_abs_dom by blast
  show ?thesis
    using abs True w sm.find_insert_present [OF inv w] sm_inv_insert [OF inv] sm_size_insert [OF inv]
    by (auto simp: schedule_abs_def addToWlanSchedule_def spec_register_def Let_def)
next
  case False
  have inv: "sm_inv (wlanSchedule s)" using abs by (simp add: schedule_abs_def)
  have w: "sm_find (wlanSchedule s) v = None" using False abs by (simp add: schedule_abs_dom)
  show ?thesis
    using abs False w sm.find_insert_fresh [OF inv w] sm_inv_insert [OF inv] sm_size_insert [OF inv]
    by (auto simp: schedule_abs_def addToWlanSchedule_def spec_register_def Let_def nth_append
        less_Suc_eq)
qed

lemma spec_register_distinct: "distinct regs \<Longrightarrow> distinct (spec_register v regs)"
  by (simp add: spec_register_def)

lemma spec_register_set: "set (spec_register v regs) = insert v (set regs)"
  by (auto simp: spec_register_def)

lemma spec_register_prefix: "\<exists>ws. spec_register v regs = regs @ ws"
  by (simp add: spec_register_def)

text \<open>Frame facts of the operations.\<close>

lemma addToWlanSchedule_frame [simp]:
  "wlanSlot_s (addToWlanSchedule v s) = wlanSlot_s s"
  "sa_kern (addToWlanSchedule v s) = sa_kern s"
  "sa_interval_s (addToWlanSchedule v s) = sa_interval_s s"
  "maxV2SLatency_s (addToWlanSchedule v s) = maxV2SLatency_s s"
  "wlanScheduleTimer (addToWlanSchedule v s) = wlanScheduleTimer s"
  "sa_interfaceId (addToWlanSchedule v s) = sa_interfaceId s"
  "sa_stats (addToWlanSchedule v s) = sa_stats s"
  "sa_sent (addToWlanSchedule v s) = sa_sent s"
  "sa_destAddress (addToWlanSchedule v s) = sa_destAddress s"
  by (simp_all add: addToWlanSchedule_def Let_def)

lemma addToWlanSchedule_kern [simp]:
  "wlanSchedule (addToWlanSchedule v (s\<lparr>sa_kern := k\<rparr>)) = wlanSchedule (addToWlanSchedule v s)"
  by (simp add: addToWlanSchedule_def Let_def)

lemma sendAck_eq:
  assumes "sa_interfaceId s = Some i"
  shows "sendVehicleRegistrationAck K v s = Inr (s\<lparr>
     sa_stats := EmitLong sendSatellitePackets 1 # sa_stats s,
     sa_sent := ((insertAtBack (SatelliteAckChunk v (simTime K (sa_kern s))) (new_packet ''ack''))
        \<lparr>pk_interfaceReq := Some i\<rparr>, sa_destAddress s, portNumber) # sa_sent s\<rparr>)"
  using assms by (simp add: sat_defs Let_def recordSendSatellitePackets_def)

definition schedule_message :: "'k kernel_ops \<Rightarrow> 'k satellite \<Rightarrow> SpaceVeinsWlanScheduleMessage" where
  "schedule_message K s =
     \<lparr>ws_schedule = wlanSchedule s, ws_begin = simTime K (sa_kern s) + maxV2SLatency_s s,
      ws_interval = sa_interval_s s, ws_transmit = simTime K (sa_kern s),
      ws_length = length (wlanSchedule s) * 14 + 24, ws_created = simTime K (sa_kern s)\<rparr>"

definition schedule_packet :: "'k kernel_ops \<Rightarrow> int \<Rightarrow> 'k satellite \<Rightarrow> packet" where
  "schedule_packet K i s =
     (insertAtBack (WlanScheduleChunk (schedule_message K s)) (new_packet ''wlanSchedule''))
        \<lparr>pk_interfaceReq := Some i\<rparr>"

lemma publish_eq:
  assumes "sa_interfaceId s = Some i"
  shows "publishWlanSchedule K s = Inr (s\<lparr>wlanSchedule := [],
     sa_stats := EmitLong sendSatellitePackets 1 # EmitLong sendWlanSchedules 1 #
       EmitLong registeredVehiclesPerSchedule (int (length (wlanSchedule s))) # sa_stats s,
     sa_sent := (schedule_packet K i s, sa_destAddress s, portNumber) # sa_sent s\<rparr>)"
  using assms
  by (simp add: sat_defs Let_def stat_simps schedule_packet_def schedule_message_def
      sizeof_simtime_def sizeof_simTimeDelta_def macAddressSize_def)

section \<open>The satellite as a machine\<close>

text \<open>
  A step is the arrival of the schedule timer or of a packet from the socket. Time does
  not pass the pending timer.
\<close>

inductive sat_step :: "'k kernel_ops \<Rightarrow> 'k satellite \<Rightarrow> 'k satellite \<Rightarrow> bool" for K where
  timer: "arrival K (sa_kern s) (wlanScheduleTimer s) = Some t \<Longrightarrow>
     Sat_handleMessageWhenUp K (SatSelf WLAN_SCHEDULE_TIMER)
       (s\<lparr>sa_kern := deliver K (wlanScheduleTimer s) (sa_kern s)\<rparr>) = Inr s' \<Longrightarrow>
     sat_step K s s'"
| data: "simTime K (sa_kern s) \<le> t \<Longrightarrow>
     (\<And>u. arrival K (sa_kern s) (wlanScheduleTimer s) = Some u \<Longrightarrow> t \<le> u) \<Longrightarrow>
     Sat_handleMessageWhenUp K (SatData b pk) (s\<lparr>sa_kern := advance K t (sa_kern s)\<rparr>) = Inr s' \<Longrightarrow>
     sat_step K s s'"

text \<open>What every step keeps: slots by registration order, the timer armed one interval ahead at most.\<close>

definition sat_inv :: "'k kernel_ops \<Rightarrow> 'k satellite \<Rightarrow> bool" where
  "sat_inv K s \<longleftrightarrow>
     (\<exists>regs. schedule_abs (wlanSlot_s s) (wlanSchedule s) regs) \<and>
     sa_interfaceId s \<noteq> None \<and> 0 \<le> sa_interval_s s \<and>
     (\<exists>t. arrival K (sa_kern s) (wlanScheduleTimer s) = Some t \<and>
          simTime K (sa_kern s) \<le> t \<and> t \<le> simTime K (sa_kern s) + sa_interval_s s)"

lemma sat_invE:
  assumes "sat_inv K s"
  obtains regs i t where "schedule_abs (wlanSlot_s s) (wlanSchedule s) regs"
    "sa_interfaceId s = Some i" "0 \<le> sa_interval_s s"
    "arrival K (sa_kern s) (wlanScheduleTimer s) = Some t"
    "simTime K (sa_kern s) \<le> t" "t \<le> simTime K (sa_kern s) + sa_interval_s s"
  using assms by (auto simp: sat_inv_def)

context sim_kernel
begin

lemma sat_timer_total:
  assumes inv: "sat_inv K s"
  shows "\<exists>s'. Sat_handleMessageWhenUp K (SatSelf WLAN_SCHEDULE_TIMER)
       (s\<lparr>sa_kern := deliver K (wlanScheduleTimer s) (sa_kern s)\<rparr>) = Inr s'"
proof -
  obtain i where i: "sa_interfaceId s = Some i" and int0: "0 \<le> sa_interval_s s"
    using inv by (rule sat_invE)
  define k where "k = deliver K (wlanScheduleTimer s) (sa_kern s)"
  have "arrival K k (wlanScheduleTimer s) = None"
    by (simp add: k_def deliver_arrival)
  then obtain k' where "scheduleAt K (simTime K k + sa_interval_s s) (wlanScheduleTimer s) k = Inr k'"
    using schedule_total [of k "simTime K k + sa_interval_s s"] int0 by auto
  then show ?thesis
    using i by (simp add: Sat_handleSelfMessage_def publish_eq k_def)
qed

lemma sat_timer_step:
  assumes inv: "sat_inv K s" and arr: "arrival K (sa_kern s) (wlanScheduleTimer s) = Some t"
    and h: "Sat_handleMessageWhenUp K (SatSelf WLAN_SCHEDULE_TIMER)
       (s\<lparr>sa_kern := deliver K (wlanScheduleTimer s) (sa_kern s)\<rparr>) = Inr s'"
  shows "wlanSchedule s' = []"
    and "arrival K (sa_kern s') (wlanScheduleTimer s') = Some (t + sa_interval_s s)"
    and "simTime K (sa_kern s') = t" and "wlanSlot_s s' = wlanSlot_s s"
    and "sa_interfaceId s' = sa_interfaceId s" and "sa_interval_s s' = sa_interval_s s"
    and "\<exists>i m. sa_interfaceId s = Some i \<and> ws_schedule m = wlanSchedule s \<and> ws_transmit m = t
           \<and> sa_sent s' = ((insertAtBack (WlanScheduleChunk m) (new_packet ''wlanSchedule''))
                 \<lparr>pk_interfaceReq := Some i\<rparr>, sa_destAddress s, portNumber) # sa_sent s"
proof -
  obtain i where i: "sa_interfaceId s = Some i" using inv by (rule sat_invE)
  define k where "k = deliver K (wlanScheduleTimer s) (sa_kern s)"
  have now: "simTime K k = t" using arr by (simp add: k_def deliver_time)
  from h i obtain k' where k': "scheduleAt K (t + sa_interval_s s) (wlanScheduleTimer s) k = Inr k'"
    and s': "s' = s\<lparr>wlanSchedule := [], sa_stats := EmitLong sendSatellitePackets 1 #
         EmitLong sendWlanSchedules 1 #
         EmitLong registeredVehiclesPerSchedule (int (length (wlanSchedule s))) # sa_stats s,
       sa_sent := (schedule_packet K i (s\<lparr>sa_kern := k\<rparr>), sa_destAddress s, portNumber) # sa_sent s,
       sa_kern := k'\<rparr>"
    by (auto simp: Sat_handleSelfMessage_def publish_eq now simp flip: k_def)
  show "wlanSchedule s' = []" "wlanSlot_s s' = wlanSlot_s s"
    "sa_interfaceId s' = sa_interfaceId s" "sa_interval_s s' = sa_interval_s s"
    by (simp_all add: s')
  show "arrival K (sa_kern s') (wlanScheduleTimer s') = Some (t + sa_interval_s s)"
    by (simp add: s' schedule_arrival [OF k'])
  show "simTime K (sa_kern s') = t"
    by (simp add: s' schedule_time [OF k'] now)
  show "\<exists>i m. sa_interfaceId s = Some i \<and> ws_schedule m = wlanSchedule s \<and> ws_transmit m = t
           \<and> sa_sent s' = ((insertAtBack (WlanScheduleChunk m) (new_packet ''wlanSchedule''))
                 \<lparr>pk_interfaceReq := Some i\<rparr>, sa_destAddress s, portNumber) # sa_sent s"
    by (intro exI [of _ i] exI [of _ "schedule_message K (s\<lparr>sa_kern := k\<rparr>)"])
      (simp add: s' i now schedule_packet_def schedule_message_def)
qed

lemma sat_data_step:
  assumes inv: "sat_inv K s"
    and h: "Sat_handleMessageWhenUp K (SatData b pk) (s\<lparr>sa_kern := k\<rparr>) = Inr s'"
  shows "sa_kern s' = k" and "wlanSlot_s s' = wlanSlot_s s" and "wlanScheduleTimer s' = wlanScheduleTimer s"
    and "sa_interfaceId s' = sa_interfaceId s" and "sa_interval_s s' = sa_interval_s s"
    and "wlanSchedule s' = wlanSchedule s \<or>
         (\<exists>v. wlanSchedule s' = wlanSchedule (addToWlanSchedule v s))"
  using h inv
  by (auto simp: socketDataArrived_def Sat_processPacket_def sendAck_eq sat_inv_def
      split: if_splits chunk.splits) metis

lemma sat_step_inv: "sat_step K s s' \<Longrightarrow> sat_inv K s \<Longrightarrow> sat_inv K s'"
proof (induction rule: sat_step.induct)
  case (timer s t s')
  then show ?case
    using sat_timer_step [OF timer.prems timer.hyps] schedule_abs_empty
    by (auto simp: sat_inv_def)
next
  case (data s t b pk s')
  note d = sat_data_step [OF data.prems data.hyps(3)]
  obtain regs where regs: "schedule_abs (wlanSlot_s s) (wlanSchedule s) regs"
    using data.prems by (rule sat_invE)
  have "\<exists>regs. schedule_abs (wlanSlot_s s') (wlanSchedule s') regs"
    using d(2,6) regs addToWlanSchedule_refines [OF regs] by metis
  moreover have "simTime K (sa_kern s') = t"
    and "arrival K (sa_kern s') (wlanScheduleTimer s') = arrival K (sa_kern s) (wlanScheduleTimer s)"
    using d by (simp_all add: advance_time advance_arrival)
  ultimately show ?case
    using data.prems data.hyps(1,2) d by (auto simp: sat_inv_def)
qed

end

end
