(* ===== verification/SV_TimerManager.thy ===== *)
theory SV_TimerManager
  imports SV_Kernel "HOL-Library.Word"
begin

text \<open>
  \<open>veins::TimerSpecification\<close> and \<open>veins::TimerManager\<close>
  (\<open>lib/veins/src/veins/modules/utility/TimerManager\<close>). A callback is a value of the
  client's type \<open>'cb\<close>; the client says how to run one. The self message of a timer is its
  message id. The interface between the manager and the module that owns it is the locale
  \<open>timer_client\<close>.
\<close>

section \<open>TimerSpecification\<close>

datatype StartMode = StartRelative | StartAbsolute | StartImmediate
datatype EndMode = EndRelative | EndAbsolute | EndRepetition | EndOpen

record 'cb TimerSpecification =
  ts_start_mode :: StartMode
  ts_start :: simtime
  ts_end_mode :: EndMode
  ts_end_count :: "32 word"       \<comment> \<open>\<open>unsigned\<close>\<close>
  ts_end_time :: simtime
  ts_period :: simtime
  ts_callback :: 'cb

text \<open>The members the constructor leaves alone start as zero.\<close>

definition mkTimerSpecification :: "'cb \<Rightarrow> 'cb TimerSpecification" where
  "mkTimerSpecification cb =
     \<lparr>ts_start_mode = StartImmediate, ts_start = 0, ts_end_mode = EndOpen, ts_end_count = 0,
      ts_end_time = 0, ts_period = - SIMTIME_S, ts_callback = cb\<rparr>"

definition interval :: "simtime \<Rightarrow> 'cb TimerSpecification \<Rightarrow> 'cb TimerSpecification res" where
  "interval i s = rbind (assertr (0 < i) ''interval > 0'') (\<lambda>_. Inr (s\<lparr>ts_period := i\<rparr>))"

definition relativeStart :: "simtime \<Rightarrow> 'cb TimerSpecification \<Rightarrow> 'cb TimerSpecification" where
  "relativeStart t s = s\<lparr>ts_start_mode := StartRelative, ts_start := t\<rparr>"

definition absoluteStart :: "simtime \<Rightarrow> 'cb TimerSpecification \<Rightarrow> 'cb TimerSpecification" where
  "absoluteStart t s = s\<lparr>ts_start_mode := StartAbsolute, ts_start := t\<rparr>"

definition relativeEnd :: "simtime \<Rightarrow> 'cb TimerSpecification \<Rightarrow> 'cb TimerSpecification" where
  "relativeEnd t s = s\<lparr>ts_end_mode := EndRelative, ts_end_time := t\<rparr>"

definition absoluteEnd :: "simtime \<Rightarrow> 'cb TimerSpecification \<Rightarrow> 'cb TimerSpecification" where
  "absoluteEnd t s = s\<lparr>ts_end_mode := EndAbsolute, ts_end_time := t\<rparr>"

definition repetitions :: "nat \<Rightarrow> 'cb TimerSpecification \<Rightarrow> 'cb TimerSpecification" where
  "repetitions n s = s\<lparr>ts_end_mode := EndRepetition, ts_end_count := of_nat n\<rparr>"

definition openEnd :: "'cb TimerSpecification \<Rightarrow> 'cb TimerSpecification" where
  "openEnd s = s\<lparr>ts_end_mode := EndOpen\<rparr>"

definition oneshotIn :: "simtime \<Rightarrow> 'cb TimerSpecification \<Rightarrow> 'cb TimerSpecification res" where
  "oneshotIn t s = rbind (interval SIMTIME_S (relativeStart t s)) (\<lambda>s. Inr (repetitions 1 s))"

definition oneshotAt :: "simtime \<Rightarrow> 'cb TimerSpecification \<Rightarrow> 'cb TimerSpecification res" where
  "oneshotAt t s = rbind (interval SIMTIME_S (absoluteStart t s)) (\<lambda>s. Inr (repetitions 1 s))"

definition finalize_start :: "simtime \<Rightarrow> 'cb TimerSpecification \<Rightarrow> 'cb TimerSpecification" where
  "finalize_start now s =
     (case ts_start_mode s of
        StartRelative \<Rightarrow> s\<lparr>ts_start := ts_start s + now, ts_start_mode := StartAbsolute\<rparr>
      | StartAbsolute \<Rightarrow> s
      | StartImmediate \<Rightarrow> s\<lparr>ts_start := now + ts_period s\<rparr>)"

text \<open>\<open>ts_end_count - 1\<close> is unsigned arithmetic: it wraps at 0.\<close>

definition finalize_end :: "simtime \<Rightarrow> 'cb TimerSpecification \<Rightarrow> 'cb TimerSpecification" where
  "finalize_end now s =
     (case ts_end_mode s of
        EndRelative \<Rightarrow> s\<lparr>ts_end_time := ts_end_time s + now, ts_end_mode := EndAbsolute\<rparr>
      | EndAbsolute \<Rightarrow> s
      | EndRepetition \<Rightarrow>
          s\<lparr>ts_end_time := ts_start s + uint (ts_end_count s - 1) * ts_period s, ts_end_mode := EndAbsolute\<rparr>
      | EndOpen \<Rightarrow> s)"

definition finalize :: "simtime \<Rightarrow> 'cb TimerSpecification \<Rightarrow> 'cb TimerSpecification" where
  "finalize now s = finalize_end now (finalize_start now s)"

definition valid_spec :: "'cb TimerSpecification \<Rightarrow> bool" where
  "valid_spec s \<longleftrightarrow> ts_period s \<noteq> - SIMTIME_S"

definition validOccurence :: "'cb TimerSpecification \<Rightarrow> simtime \<Rightarrow> bool" where
  "validOccurence s t \<longleftrightarrow>
     (let afterStart = (ts_start s \<le> t);
          beforeEnd = (t \<le> ts_end_time s);
          atPeriod = ((t - ts_start s) mod ts_period s = 0)
      in afterStart \<and> (beforeEnd \<or> ts_end_mode s = EndOpen) \<and> atPeriod)"

lemmas spec_defs = mkTimerSpecification_def interval_def relativeStart_def absoluteStart_def
  relativeEnd_def absoluteEnd_def repetitions_def openEnd_def oneshotIn_def oneshotAt_def
lemmas finalize_defs = finalize_def finalize_start_def finalize_end_def

definition oneshot_spec :: "simtime \<Rightarrow> 'cb \<Rightarrow> 'cb TimerSpecification" where
  "oneshot_spec t cb =
     \<lparr>ts_start_mode = StartAbsolute, ts_start = t, ts_end_mode = EndRepetition, ts_end_count = 1,
      ts_end_time = 0, ts_period = SIMTIME_S, ts_callback = cb\<rparr>"

lemma oneshotAt_eq: "oneshotAt t (mkTimerSpecification cb) = Inr (oneshot_spec t cb)"
  by (simp add: spec_defs oneshot_spec_def)

lemma finalize_oneshot: "finalize now (oneshot_spec t cb) =
   (oneshot_spec t cb)\<lparr>ts_end_time := t, ts_end_mode := EndAbsolute\<rparr>"
  by (simp add: finalize_defs oneshot_spec_def)

lemma oneshot_sel [simp]:
  "ts_start (finalize now (oneshot_spec t cb)) = t"
  "ts_end_time (finalize now (oneshot_spec t cb)) = t"
  "ts_end_mode (finalize now (oneshot_spec t cb)) = EndAbsolute"
  "ts_period (finalize now (oneshot_spec t cb)) = SIMTIME_S"
  "ts_callback (finalize now (oneshot_spec t cb)) = cb"
  by (simp_all add: finalize_oneshot) (simp_all add: oneshot_spec_def)

lemma valid_oneshot [simp]:
  "valid_spec (oneshot_spec t cb)" "valid_spec (finalize now (oneshot_spec t cb))"
  by (simp_all add: valid_spec_def SIMTIME_S_def SIMTIME_MS_def) (simp add: oneshot_spec_def SIMTIME_S_def SIMTIME_MS_def)

lemma occurrence_oneshot: "validOccurence (finalize now (oneshot_spec t cb)) u \<longleftrightarrow> u = t"
  by (auto simp: validOccurence_def Let_def)

text \<open>The occurrences of a timer that repeats \<open>n\<close> times.\<close>

lemma occurrences_repetition:
  assumes p: "0 < ts_period s" and m: "ts_end_mode s = EndRepetition"
  shows "{t. validOccurence (finalize now s) t} =
    (\<lambda>i. ts_start (finalize now s) + int i * ts_period s) ` {..unat (ts_end_count s - 1)}"
    (is "?L = ?f ` _")
proof -
  let ?s = "finalize now s"
  let ?c = "unat (ts_end_count s - 1)"
  have c: "uint (ts_end_count s - 1) = int ?c" by (rule uint_nat)
  have fields: "ts_period ?s = ts_period s" "ts_end_mode ?s = EndAbsolute"
      "ts_end_time ?s = ts_start ?s + uint (ts_end_count s - 1) * ts_period s"
    using m by (auto simp: finalize_defs split: StartMode.splits)
  show ?thesis
  proof (intro equalityI subsetI)
    fix t assume "t \<in> ?L"
    then have t: "ts_start ?s \<le> t" "t \<le> ts_end_time ?s" "(t - ts_start ?s) mod ts_period s = 0"
      using fields by (auto simp: validOccurence_def Let_def)
    from t(3) obtain q where q: "t - ts_start ?s = ts_period s * q"
      by (auto simp: mod_eq_0_iff_dvd dvd_def)
    then have "0 \<le> q" using t(1) p by (metis diff_ge_0_iff_ge zero_le_mult_iff not_less)
    define i where "i = nat q"
    have eq: "t - ts_start ?s = int i * ts_period s"
      using q \<open>0 \<le> q\<close> by (simp add: i_def)
    have "t - ts_start ?s \<le> int ?c * ts_period s"
      using t(2) unfolding fields(3) c by linarith
    then have "int i * ts_period s \<le> int ?c * ts_period s" by (simp only: eq)
    with p have "int i \<le> int ?c" by (simp only: mult_le_cancel_right)
    then have "i \<in> {..?c}" by (simp only: of_nat_le_iff atMost_iff)
    moreover have "t = ?f i" using eq by simp
    ultimately show "t \<in> ?f ` {..?c}" by blast
  next
    fix t assume "t \<in> ?f ` {..?c}"
    then obtain i where i: "i \<le> ?c" and t: "t = ?f i" by blast
    have "int i * ts_period s \<le> int ?c * ts_period s"
      using i p by (intro mult_right_mono) linarith+
    then have "int i * ts_period s \<le> uint (ts_end_count s - 1) * ts_period s" by (simp only: c)
    with p t fields show "t \<in> ?L"
      by (simp add: validOccurence_def Let_def)
  qed
qed

section \<open>TimerManager\<close>

type_synonym 'cb TimerList = "(nat, 'cb TimerSpecification) std_map"

definition tm_create ::
    "'k kernel_ops \<Rightarrow> 'cb TimerSpecification \<Rightarrow> 'cb TimerList \<Rightarrow> 'k \<Rightarrow> (nat \<times> 'cb TimerList \<times> 'k) res" where
  "tm_create K spec timers k =
     rbind (assertr (valid_spec spec) ''timerSpecification.valid()'') (\<lambda>_.
       let spec = finalize (simTime K k) spec;
           (m, k) = newMessage K k;
           inserted = (sm_find timers m = None);
           timers = sm_insert m spec timers
       in rbind (assertr inserted ''ret.second'') (\<lambda>_.
          rbind (scheduleAt K (ts_start spec) m k) (\<lambda>k. Inr (m, timers, k))))"

definition tm_cancel :: "'k kernel_ops \<Rightarrow> nat \<Rightarrow> 'cb TimerList \<Rightarrow> 'k \<Rightarrow> 'cb TimerList \<times> 'k" where
  "tm_cancel K m timers k =
     (case sm_find timers m of
        None \<Rightarrow> (timers, k)
      | Some _ \<Rightarrow> (sm_erase m timers, cancelEvent K m k))"

fun tm_destroy :: "'k kernel_ops \<Rightarrow> 'cb TimerList \<Rightarrow> 'k \<Rightarrow> 'k" where
  "tm_destroy K [] k = k"
| "tm_destroy K ((m, _) # timers) k = tm_destroy K timers (cancelEvent K m k)"

text \<open>The owner of a manager: its timers and its kernel state, and what a callback does to it.\<close>

record ('s, 'k, 'cb) timer_host =
  get_timers :: "'s \<Rightarrow> 'cb TimerList"
  put_timers :: "'cb TimerList \<Rightarrow> 's \<Rightarrow> 's"
  get_kernel :: "'s \<Rightarrow> 'k"
  put_kernel :: "'k \<Rightarrow> 's \<Rightarrow> 's"
  run_callback :: "'cb \<Rightarrow> 's \<Rightarrow> 's res"

text \<open>
  The message is given as the result of the \<open>dynamic_cast\<close>: \<open>None\<close> for anything but a timer
  message. The returned flag says whether the message was for this manager.
\<close>

definition tm_handleMessage ::
    "'k kernel_ops \<Rightarrow> ('s, 'k, 'cb) timer_host \<Rightarrow> nat option \<Rightarrow> bool \<Rightarrow> 's \<Rightarrow> (bool \<times> 's) res" where
  "tm_handleMessage K H timerMessage isSelf s =
     (case timerMessage of
        None \<Rightarrow> Inr (False, s)
      | Some m \<Rightarrow>
          rbind (assertr isSelf ''timerMessage->isSelfMessage()'') (\<lambda>_.
          case sm_find (get_timers H s) m of
            None \<Rightarrow> Inr (False, s)
          | Some spec \<Rightarrow>
              rbind (assertr (valid_spec spec \<and> validOccurence spec (simTime K (get_kernel H s)))
                       ''valid() && validOccurence(simTime())'') (\<lambda>_.
              rbind (run_callback H (ts_callback spec) s) (\<lambda>s.
                if sm_find (get_timers H s) m \<noteq> None
                then
                  let next_event = simTime K (get_kernel H s) + ts_period spec in
                  if validOccurence spec next_event
                  then rbind (scheduleAt K next_event m (get_kernel H s)) (\<lambda>k.
                         Inr (True, put_kernel H k s))
                  else Inr (True, put_timers H (sm_erase m (get_timers H s))
                                    (put_kernel H (cancelEvent K m (get_kernel H s)) s))
                else Inr (True, s)))))"

text \<open>
  What a manager keeps of its timers: each one is valid, its message has been handed out by
  the kernel, and the pending arrival of its message is one of its occurrences.
\<close>

definition tm_inv :: "'k kernel_ops \<Rightarrow> 'cb TimerList \<Rightarrow> 'k \<Rightarrow> bool" where
  "tm_inv K timers k \<longleftrightarrow> sm_inv timers \<and>
     (\<forall>m spec. sm_find timers m = Some spec \<longrightarrow>
        valid_spec spec \<and> known K k m \<and>
        (\<forall>t. arrival K k m = Some t \<longrightarrow> validOccurence spec t))"

lemma tm_invI:
  assumes "sm_inv timers"
    and "\<And>m spec. sm_find timers m = Some spec \<Longrightarrow> valid_spec spec"
    and "\<And>m spec. sm_find timers m = Some spec \<Longrightarrow> known K k m"
    and "\<And>m spec t. sm_find timers m = Some spec \<Longrightarrow> arrival K k m = Some t \<Longrightarrow> validOccurence spec t"
  shows "tm_inv K timers k"
  using assms by (auto simp: tm_inv_def)

lemma tm_inv_Nil [simp]: "tm_inv K [] k"
  by (simp add: tm_inv_def)

context sim_kernel
begin

lemma tm_create_oneshot_eq:
  "tm_create K (oneshot_spec t cb) timers k =
     (let (m, k1) = newMessage K k in
      rbind (assertr (sm_find timers m = None) ''ret.second'') (\<lambda>_.
      rbind (scheduleAt K t m k1) (\<lambda>k2.
        Inr (m, sm_insert m (finalize (simTime K k) (oneshot_spec t cb)) timers, k2))))"
  by (auto simp: tm_create_def Let_def split: prod.splits)

lemma tm_create_oneshotD:
  assumes c: "tm_create K (oneshot_spec t cb) timers k = Inr (m, timers', k')"
    and inv: "tm_inv K timers k"
  shows "sm_find timers m = None" "simTime K k \<le> t"
    and "sm_find timers' = (sm_find timers)(m \<mapsto> finalize (simTime K k) (oneshot_spec t cb))"
    and "arrival K k' = (arrival K k)(m \<mapsto> t)" "simTime K k' = simTime K k"
    and "known K k' = (known K k)(m := True)" "\<not> known K k m" "sm_inv timers'"
    and "length timers' = Suc (length timers)"
    and "timers' = sm_insert m (finalize (simTime K k) (oneshot_spec t cb)) timers"
proof -
  obtain m0 k1 where n: "newMessage K k = (m0, k1)" by fastforce
  with c have m0: "m0 = m" and fresh: "sm_find timers m = None"
    and sch: "scheduleAt K t m k1 = Inr k'"
    and tms: "timers' = sm_insert m (finalize (simTime K k) (oneshot_spec t cb)) timers"
    by (auto simp: tm_create_oneshot_eq)
  show "timers' = sm_insert m (finalize (simTime K k) (oneshot_spec t cb)) timers" by (rule tms)
  note n = n [unfolded m0]
  have sm: "sm_inv timers" using inv by (simp add: tm_inv_def)
  show "sm_find timers m = None" by (rule fresh)
  show "simTime K k \<le> t" using schedule_InrD(1) [OF sch] by (simp add: new_time [OF n])
  show "sm_find timers' = (sm_find timers)(m \<mapsto> finalize (simTime K k) (oneshot_spec t cb))"
    using sm fresh unfolding tms by (rule sm.find_insert_fresh)
  show "arrival K k' = (arrival K k)(m \<mapsto> t)"
    by (simp add: schedule_arrival [OF sch] new_arrival [OF n])
  show "simTime K k' = simTime K k"
    by (simp add: schedule_time [OF sch] new_time [OF n])
  show "known K k' = (known K k)(m := True)"
    by (simp add: schedule_known [OF sch] new_known [OF n])
  show "\<not> known K k m" by (rule new_fresh [OF n])
  show "sm_inv timers'" using sm unfolding tms by (rule sm_inv_insert)
  show "length timers' = Suc (length timers)"
    using sm fresh unfolding tms by (simp add: sm_size_insert)
qed

lemma tm_create_oneshot_inv:
  assumes c: "tm_create K (oneshot_spec t cb) timers k = Inr (m, timers', k')"
    and inv: "tm_inv K timers k"
  shows "tm_inv K timers' k'"
proof -
  note d = tm_create_oneshotD [OF c inv]
  show ?thesis
    using d inv by (intro tm_invI) (auto simp: tm_inv_def occurrence_oneshot split: if_splits)
qed

lemma tm_create_oneshot_total:
  assumes inv: "tm_inv K timers k" and arr: "\<And>m. arrival K k m \<noteq> None \<Longrightarrow> known K k m"
    and t: "simTime K k \<le> t"
  shows "\<exists>m timers' k'. tm_create K (oneshot_spec t cb) timers k = Inr (m, timers', k')"
proof -
  obtain m k1 where n: "newMessage K k = (m, k1)" by fastforce
  have fresh: "\<not> known K k m" by (rule new_fresh [OF n])
  then have "sm_find timers m = None"
    using inv by (cases "sm_find timers m") (auto simp: tm_inv_def)
  moreover have "arrival K k1 m = None"
    using fresh arr [of m] by (cases "arrival K k m") (auto simp: new_arrival [OF n])
  moreover from this t obtain k2 where "scheduleAt K t m k1 = Inr k2"
    using schedule_total [of k1 t m] by (auto simp: new_time [OF n])
  ultimately show ?thesis
    by (simp add: tm_create_oneshot_eq n)
qed

lemma tm_inv_cancel: "tm_inv K timers k \<Longrightarrow> tm_inv K timers (cancelEvent K m k)"
  by (auto simp: tm_inv_def cancel_arrival cancel_known)

lemma tm_cancel_gone:
  "sm_inv timers \<Longrightarrow> sm_find (fst (tm_cancel K m timers k)) m = None"
  by (auto simp: tm_cancel_def sm_find_erase split: option.splits)

lemma tm_destroy_arrival:
  "arrival K (tm_destroy K timers k) m = (if m \<in> set (map fst timers) then None else arrival K k m)"
  by (induction timers arbitrary: k) (simp_all add: split_paired_all cancel_arrival)

end

section \<open>The interface between the manager and its owner\<close>

locale timer_client = sim_kernel K for K :: "'k kernel_ops" +
  fixes H :: "('s, 'k, 'cb) timer_host"
  assumes get_put_timers: "get_timers H (put_timers H ts s) = ts"
    and get_put_kernel: "get_kernel H (put_kernel H k s) = k"
    and get_timers_put_kernel: "get_timers H (put_kernel H k s) = get_timers H s"
    and get_kernel_put_timers: "get_kernel H (put_timers H ts s) = get_kernel H s"
    and callback_timers: "run_callback H cb s = Inr s' \<Longrightarrow> get_timers H s' = get_timers H s"
    and callback_time: "run_callback H cb s = Inr s' \<Longrightarrow>
          simTime K (get_kernel H s') = simTime K (get_kernel H s)"
begin

text \<open>A one-shot timer: the callback runs, then the timer is gone.\<close>

lemma fire_oneshot:
  assumes f: "sm_find (get_timers H s) m = Some (finalize now (oneshot_spec t cb))"
    and now: "simTime K (get_kernel H s) = t"
  shows "tm_handleMessage K H (Some m) True s =
    rbind (run_callback H cb s) (\<lambda>s'.
      Inr (True, put_timers H (sm_erase m (get_timers H s'))
                   (put_kernel H (cancelEvent K m (get_kernel H s')) s')))"
proof (cases "run_callback H cb s")
  case (Inl e)
  with f now show ?thesis
    by (simp add: tm_handleMessage_def occurrence_oneshot)
next
  case (Inr s')
  have "t + SIMTIME_S \<noteq> t" using SIMTIME_S_pos by linarith
  with Inr f now show ?thesis
    using callback_timers [OF Inr] callback_time [OF Inr]
    by (simp add: tm_handleMessage_def occurrence_oneshot Let_def)
qed

lemma unknown_message: "sm_find (get_timers H s) m = None \<Longrightarrow>
    tm_handleMessage K H (Some m) True s = Inr (False, s)"
  by (simp add: tm_handleMessage_def)

lemma other_message: "tm_handleMessage K H None b s = Inr (False, s)"
  by (simp add: tm_handleMessage_def)

text \<open>The assertion on the occurrence never fails when a message arrives as scheduled.\<close>

lemma no_assertion_failure:
  assumes inv: "tm_inv K (get_timers H s0) (get_kernel H s0)"
    and arr: "arrival K (get_kernel H s0) m = Some t"
    and s: "get_timers H s = get_timers H s0"
      "get_kernel H s = deliver K m (get_kernel H s0)"
    and f: "sm_find (get_timers H s) m = Some spec"
  shows "valid_spec spec \<and> validOccurence spec (simTime K (get_kernel H s))"
  using assms by (auto simp: tm_inv_def deliver_time)

end


section \<open>What a specification means\<close>

text \<open>A timer with \<open>n\<close> repetitions, \<open>n\<close> below \<open>2^32\<close>, is due exactly at its start and the \<open>n - 1\<close> multiples
  of its period after it. The number of repetitions is decremented as an unsigned integer, so a
  timer with no repetitions is due \<open>2^32\<close> times.\<close>

theorem repetitions_occurrences:
  assumes "0 < ts_period spec" and "n < 2 ^ 32"
  shows "{t. validOccurence (finalize now (repetitions n spec)) t} =
    (\<lambda>i. ts_start (finalize now (repetitions n spec)) + int i * ts_period spec) `
      {..<(if n = 0 then 2 ^ 32 else n)}"
proof -
  have "unat ((of_nat n :: 32 word) - 1) = (if n = 0 then 2 ^ 32 else n) - 1"
  proof (cases n)
    case 0
    then show ?thesis by (simp add: unsigned_minus_1_eq_mask mask_eq_exp_minus_1)
  next
    case (Suc k)
    then have "(of_nat n :: 32 word) - 1 = of_nat k" by simp
    then show ?thesis using assms(2) Suc by (simp add: unsigned_of_nat take_bit_nat_eq_self)
  qed
  then have "{..unat (ts_end_count (repetitions n spec) - 1)} = {..<(if n = 0 then 2 ^ 32 else n)}"
    by (auto simp: repetitions_def)
  moreover have "0 < ts_period (repetitions n spec)" "ts_end_mode (repetitions n spec) = EndRepetition"
    using assms(1) by (simp_all add: repetitions_def)
  ultimately show ?thesis
    using occurrences_repetition [of "repetitions n spec" now] by (simp add: repetitions_def)
qed

lemma repetitions_occurrences_witness:
  "{t. validOccurence (finalize 5 (repetitions 3 ((absoluteStart 10 (mkTimerSpecification ()))\<lparr>ts_period := 4\<rparr>))) t} =
     {10, 14, 18}"
proof -
  have "{..<(3::nat)} = {0, 1, 2}" by auto
  then show ?thesis
    using repetitions_occurrences [of "(absoluteStart 10 (mkTimerSpecification ()))\<lparr>ts_period := 4\<rparr>" 3 5]
    by (simp add: finalize_defs repetitions_def absoluteStart_def mkTimerSpecification_def)
qed

text \<open>After \<open>finalize\<close> the end of a timer is absolute or open and its start no longer depends on the
  current time, but a timer that starts immediately keeps the mode \<open>immediate\<close>, so finalising it
  a second time moves its start.\<close>

theorem finalize_modes:
  "ts_end_mode (finalize now spec) \<in> {EndAbsolute, EndOpen} \<and>
   (ts_start_mode spec \<noteq> StartImmediate \<longrightarrow>
      ts_start_mode (finalize now spec) = StartAbsolute \<and> finalize later (finalize now spec) = finalize now spec) \<and>
   (ts_start_mode spec = StartImmediate \<longrightarrow>
      ts_start_mode (finalize now spec) = StartImmediate \<and> ts_start (finalize now spec) = now + ts_period spec \<and>
      ts_start (finalize later (finalize now spec)) = later + ts_period spec)"
  by (cases "ts_start_mode spec"; cases "ts_end_mode spec") (simp_all add: finalize_defs)

lemma finalize_modes_witness:
  "ts_start (finalize 7 (finalize 5 ((mkTimerSpecification ())\<lparr>ts_period := 2\<rparr>))) = 9"
proof -
  have "ts_start_mode ((mkTimerSpecification ())\<lparr>ts_period := 2\<rparr>) = StartImmediate"
    by (simp add: mkTimerSpecification_def)
  then show ?thesis
    using finalize_modes [of 5 "(mkTimerSpecification ())\<lparr>ts_period := 2\<rparr>" 7] by simp
qed

text \<open>A timer that repeats re-arms itself: when its message arrives at one of its occurrences and the
  next one is still an occurrence, the callback runs, the timer stays in the list and its
  message is pending exactly one period later.\<close>

theorem periodic_timer_rearms:
  assumes "timer_client K H"
    and "sm_find (get_timers H s) m = Some spec" "valid_spec spec"
    and "validOccurence spec (simTime K (get_kernel H s))"
    and "validOccurence spec (simTime K (get_kernel H s) + ts_period spec)" "0 < ts_period spec"
    and run: "run_callback H (ts_callback spec) s = Inr s1" "arrival K (get_kernel H s1) m = None"
  shows "\<exists>s'. tm_handleMessage K H (Some m) True s = Inr (True, s') \<and>
     sm_find (get_timers H s') m = Some spec \<and>
     arrival K (get_kernel H s') = (arrival K (get_kernel H s1))(m \<mapsto> simTime K (get_kernel H s) + ts_period spec)"
proof -
  have K: "sim_kernel K" using assms(1) by (simp add: timer_client_def)
  note t = timer_client.callback_time [OF assms(1) run(1)]
  note ts = timer_client.callback_timers [OF assms(1) run(1)]
  obtain k where k: "scheduleAt K (simTime K (get_kernel H s) + ts_period spec) m (get_kernel H s1) = Inr k"
    using sim_kernel.schedule_total [OF K, of "get_kernel H s1" "simTime K (get_kernel H s) + ts_period spec" m]
      assms(6) run(2) t by auto
  have "tm_handleMessage K H (Some m) True s = Inr (True, put_kernel H k s1)"
    using assms(2-5) run(1) k by (simp add: tm_handleMessage_def Let_def t ts)
  then show ?thesis
    using assms(2) sim_kernel.schedule_arrival [OF K k]
    by (simp add: timer_client.get_timers_put_kernel [OF assms(1)] timer_client.get_put_kernel [OF assms(1)] ts)
qed

text \<open>A timer whose end lies before its start is created and scheduled all the same, and when its
  message arrives the manager fails its own assertion instead of ignoring the timer.\<close>

theorem end_before_start_fails:
  assumes "sim_kernel K" and "tm_create K spec ts k = Inr (m, ts', k')" and "sm_inv ts"
    and "ts_start_mode spec = StartAbsolute" "ts_end_mode spec = EndAbsolute" "ts_end_time spec < ts_start spec"
    and "get_timers H s = ts'" "simTime K (get_kernel H s) = ts_start spec"
  shows "arrival K k' m = Some (ts_start spec) \<and>
    tm_handleMessage K H (Some m) True s = Inl (AssertFailed ''valid() && validOccurence(simTime())'')"
proof -
  have fin: "finalize now spec = spec" for now using assms(4,5) by (simp add: finalize_defs)
  obtain k1 where n: "newMessage K k = (m, k1)" and fresh: "sm_find ts m = None"
    and ts': "ts' = sm_insert m spec ts" and sch: "scheduleAt K (ts_start spec) m k1 = Inr k'"
    using assms(2) by (auto simp: tm_create_def fin Let_def split: prod.splits)
  have "arrival K k' m = Some (ts_start spec)"
    by (simp add: sim_kernel.schedule_arrival [OF assms(1) sch])
  moreover have "sm_find ts' m = Some spec"
    using sm.find_insert_fresh [OF assms(3) fresh, of spec] by (simp add: ts')
  ultimately show ?thesis
    using assms by (simp add: tm_handleMessage_def validOccurence_def Let_def)
qed

definition ex_late :: "unit TimerSpecification" where
  "ex_late = (absoluteEnd 5 (absoluteStart 10 (mkTimerSpecification ())))\<lparr>ts_period := SIMTIME_S\<rparr>"

definition ex_host :: "(unit TimerList \<times> ref_state, ref_state, unit) timer_host" where
  "ex_host = \<lparr>get_timers = fst, put_timers = (\<lambda>ts s. (ts, snd s)), get_kernel = snd,
     put_kernel = (\<lambda>k s. (fst s, k)), run_callback = (\<lambda>_ s. Inr s)\<rparr>"

lemma end_before_start_fails_witness:
  "tm_handleMessage ref_kernel ex_host (Some 0) True ([(0, ex_late)], \<lparr>rk_now = 10, rk_fes = [], rk_next = 1\<rparr>) =
     Inl (AssertFailed ''valid() && validOccurence(simTime())'')"
proof -
  have "tm_create ref_kernel ex_late [] ref_init =
      Inr (0, [(0, ex_late)], \<lparr>rk_now = 0, rk_fes = [(0, 10)], rk_next = 1\<rparr>)"
    by (simp add: tm_create_def ex_late_def ref_kernel_def ref_init_def spec_defs finalize_defs valid_spec_def
        SIMTIME_S_def SIMTIME_MS_def)
  from end_before_start_fails [OF ref_sim_kernel this, of ex_host
      "([(0, ex_late)], \<lparr>rk_now = 10, rk_fes = [], rk_next = 1\<rparr>)"]
  show ?thesis by (simp add: ex_late_def spec_defs ex_host_def ref_kernel_def)
qed

lemma ex_host_client: "timer_client ref_kernel ex_host"
  by unfold_locales (auto simp: ex_host_def)

interpretation ex_client: timer_client ref_kernel ex_host
  by (rule ex_host_client)

lemma periodic_timer_rearms_witness:
  "\<exists>s'. tm_handleMessage ref_kernel ex_host (Some 0) True
      ([(0, ex_late\<lparr>ts_end_mode := EndOpen\<rparr>)], \<lparr>rk_now = 10, rk_fes = [], rk_next = 1\<rparr>) = Inr (True, s') \<and>
     arrival ref_kernel (snd s') 0 = Some (10 + SIMTIME_S)"
proof -
  let ?s = "([(0, ex_late\<lparr>ts_end_mode := EndOpen\<rparr>)], \<lparr>rk_now = 10, rk_fes = [], rk_next = 1\<rparr>)"
  have "sm_find (get_timers ex_host ?s) 0 = Some (ex_late\<lparr>ts_end_mode := EndOpen\<rparr>)"
    and "valid_spec (ex_late\<lparr>ts_end_mode := EndOpen\<rparr>)"
    and "validOccurence (ex_late\<lparr>ts_end_mode := EndOpen\<rparr>) (simTime ref_kernel (get_kernel ex_host ?s))"
    and "validOccurence (ex_late\<lparr>ts_end_mode := EndOpen\<rparr>)
           (simTime ref_kernel (get_kernel ex_host ?s) + ts_period (ex_late\<lparr>ts_end_mode := EndOpen\<rparr>))"
    and "0 < ts_period (ex_late\<lparr>ts_end_mode := EndOpen\<rparr>)"
    and "run_callback ex_host (ts_callback (ex_late\<lparr>ts_end_mode := EndOpen\<rparr>)) ?s = Inr ?s"
    and "arrival ref_kernel (get_kernel ex_host ?s) 0 = None"
    by (simp_all add: ex_host_def sm_find_def valid_spec_def validOccurence_def ex_late_def spec_defs
        ref_kernel_def SIMTIME_S_def SIMTIME_MS_def)
  from periodic_timer_rearms [OF ex_host_client this] show ?thesis
    by (auto simp: ex_host_def ex_late_def ref_kernel_def spec_defs)
qed

end
