(* ===== verification/SV_SAMAC.thy ===== *)
theory SV_SAMAC
  imports SV_TimerManager SV_Packet SV_Statistics
begin

text \<open>
  \<open>SAMAC\<close>, the vehicle side of the satellite-assisted MAC: state, every handler, and the
  packet construction for registrations and for injected sidelink frames. What other
  modules answer (NED parameters, address resolution, the interface table, EtherType
  numbers, the 802.11 MIB, the originator data service) is the record \<open>samac_env\<close>.
  The theorems about the handlers are in \<open>SV_SAMAC_Props\<close>.
\<close>

section \<open>State and environment\<close>

datatype samac_callback = RegistrationCallback | RetryCallback | TransmissionCallback

record 'k samac =
  kern :: 'k
  timers :: "samac_callback TimerList"
  ackTimer :: nat                         \<comment> \<open>\<open>satelliteRegistrationAckTimer\<close>\<close>
  pendingQueue :: "packet list"
  inProgressFrames :: "packet list"
  registeredAtSatellite :: bool
  receivedInitialWlanSchedule :: bool
  qosStation :: bool
  wlanBandwidth :: int
  wlanBitrate :: int
  address :: mac
  leoSatelliteMacAddress :: mac
  wlanScheduleInterval_s :: simtime
  endOfCurrentWlanSchedule :: simtime
  currentSatelliteLatency :: simtime
  startRegistrationTimestamp :: simtime
  lastUsefulRegistrationTime :: simtime
  maxSatelliteProcDelay_s :: simtime
  expectedAck_Timestamp :: simtime
  satelliteInterfaceEntry :: "int option"
  vehicleStatistics :: VehicleStatistics
  sentDown :: "packet list"               \<comment> \<open>packets given to the satellite radio, latest first\<close>
  sentDirect :: "packet list"             \<comment> \<open>frames injected into the 802.11 MAC, latest first\<close>
  radioTransmitter :: bool                \<comment> \<open>\<open>RADIO_MODE_TRANSMITTER\<close> has been requested\<close>

datatype MibMode = INFRASTRUCTURE | INDEPENDENT | MESH
datatype BssStationType = ACCESS_POINT | STATION | NO_STATION_TYPE

record Ieee80211Mib =
  mib_address :: mac
  mib_mode :: MibMode
  mib_stationType :: BssStationType
  mib_bssid :: mac

record samac_env =
  par_maxSatelliteProcDelay_s :: simtime
  par_wlanBitrate :: int
  par_wlanBandwidth :: int
  par_qosStation :: bool
  par_localMacAddress :: mac
  par_mtu :: int
  par_leoSatelliteSamacDestPort :: int
  par_leoSatelliteSamacMulticastAddress :: string
  satelliteIpAddress :: string                          \<comment> \<open>of the satellite interface\<close>
  tryResolve :: "string \<Rightarrow> L3Address"                    \<comment> \<open>\<open>L3AddressResolver\<close>\<close>
  findInterfaceByName :: "string \<Rightarrow> int option"          \<comment> \<open>\<open>IInterfaceTable\<close>\<close>
  findProtocolNumber :: "protocol \<Rightarrow> int"               \<comment> \<open>\<open>ProtocolGroup::ethertype\<close>\<close>
  mib :: Ieee80211Mib
  extractFramesToTransmit ::                            \<comment> \<open>\<open>omds\<close>: frames, rest of the queue\<close>
    "packet list \<Rightarrow> (packet list \<times> packet list) option"

definition SATELLITE_REGISTRATION_ACK_TIMER :: int where
  "SATELLITE_REGISTRATION_ACK_TIMER = 0"

definition now_of :: "'k kernel_ops \<Rightarrow> 'k samac \<Rightarrow> simtime" where
  "now_of K s = simTime K (kern s)"

section \<open>Initialisation\<close>

record InterfaceEntry =
  if_datarate :: int
  if_macAddress :: mac
  if_mtu :: int
  if_multicast :: bool
  if_broadcast :: bool

definition SAMAC_initialize ::
    "'k kernel_ops \<Rightarrow> samac_env \<Rightarrow> nat \<Rightarrow> 'k samac \<Rightarrow> 'k samac" where
  "SAMAC_initialize K E stage s =
     (if stage = 0 then
        (let (m, k) = newMessage K (kern s)
         in s\<lparr>kern := k, ackTimer := m, pendingQueue := [], inProgressFrames := [],
              wlanBitrate := par_wlanBitrate E, wlanBandwidth := par_wlanBandwidth E,
              maxSatelliteProcDelay_s := par_maxSatelliteProcDelay_s E\<rparr>)
      else if stage = 1 then s\<lparr>qosStation := par_qosStation E, vehicleStatistics := []\<rparr>
      else s)"

definition SAMAC_finish :: "'k kernel_ops \<Rightarrow> 'k samac \<Rightarrow> 'k samac" where
  "SAMAC_finish K s = s\<lparr>kern := cancelEvent K (ackTimer s) (kern s)\<rparr>"

definition configureInterfaceEntry :: "samac_env \<Rightarrow> 'k samac \<Rightarrow> 'k samac \<times> InterfaceEntry" where
  "configureInterfaceEntry E s =
     (let s = s\<lparr>address := par_localMacAddress E\<rparr>
      in (s, \<lparr>if_datarate = wlanBitrate s, if_macAddress = address s, if_mtu = par_mtu E,
              if_multicast = True, if_broadcast = True\<rparr>))"

definition SAMAC_handleStartOperation :: "samac_env \<Rightarrow> 'k samac \<Rightarrow> 'k samac res" where
  "SAMAC_handleStartOperation E s =
     (let satelliteInterface = ''satNic0'' in
      rbind (assertr (satelliteInterface \<noteq> []) ''satelliteInterface[0]'') (\<lambda>_.
      let s = s\<lparr>satelliteInterfaceEntry := findInterfaceByName E satelliteInterface\<rparr> in
      rbind (assertr (satelliteInterfaceEntry s \<noteq> None) ''satelliteInterfaceEntry'') (\<lambda>_. Inr s)))"

section \<open>Packets of the vehicle\<close>

definition UDP_MAX_MESSAGE_SIZE :: nat where
  "UDP_MAX_MESSAGE_SIZE = 65535"

definition IPv4_MAX_HEADER_LENGTH :: nat where
  "IPv4_MAX_HEADER_LENGTH = 60"

definition addUdpHeader :: "samac_env \<Rightarrow> 'k samac \<Rightarrow> packet \<Rightarrow> packet res" where
  "addUdpHeader E s p =
     (let (srcAddr, destAddr) = (case pk_l3Req p of None \<Rightarrow> (L3_NONE, L3_NONE) | Some r \<Rightarrow> r);
          srcAddr = tryResolve E (satelliteIpAddress E);
          destAddr = tryResolve E (par_leoSatelliteSamacMulticastAddress E);
          p = p\<lparr>pk_l3Req := Some (srcAddr, destAddr)\<rparr>;
          p = p\<lparr>pk_portReq := False\<rparr>;
          srcPort = 12345;
          destPort = par_leoSatelliteSamacDestPort E
      in if isUnspecified destAddr then throwr ''send: unspecified destination address''
      else if destPort \<le> 0 \<or> 65535 < destPort then throwr ''send: invalid remote port number''
      else
        (let p = (if pk_multicastLoop p = None then p\<lparr>pk_multicastLoop := Some False\<rparr> else p);
             l3Protocol = (case destAddr of L3_IPv4 _ \<Rightarrow> P_ipv4 | L3_IPv6 _ \<Rightarrow> P_ipv6
                            | _ \<Rightarrow> P_nextHopForwarding);
             totalLength = 8 + packet_length p
         in if UDP_MAX_MESSAGE_SIZE < totalLength then throwr ''send: total UDP message size exceeds''
         else
           (let p = (insertAtFront (UdpHeader srcPort destPort totalLength) p)
                      \<lparr>pk_protocol := Some P_udp\<rparr>;
                p = p\<lparr>pk_dispatch := Some l3Protocol\<rparr>;
                p = p\<lparr>pk_macReq := Some (leoSatelliteMacAddress s)\<rparr>
            in Inr (p\<lparr>pk_kind := 0\<rparr>))))"

definition ttl_of :: "ipv4 \<Rightarrow> int" where
  "ttl_of dest =
     (let ttl = -1 in
      if ttl \<noteq> -1 then ttl
      else if isLinkLocalMulticast dest then 1
      else if isMulticast dest then 32
      else 32)"

definition addIpv4Header :: "packet \<Rightarrow> packet res" where
  "addIpv4Header p =
     (case pk_l3Req p of
        None \<Rightarrow> throwr ''Tag is absent''
      | Some (srcA, destA) \<Rightarrow>
          rbind (toIpv4 srcA) (\<lambda>src.
          rbind (toIpv4 destA) (\<lambda>dest.
          let p = p\<lparr>pk_l3Req := None\<rparr> in
          case pk_protocol p of
            None \<Rightarrow> throwr ''Tag is absent''
          | Some proto \<Rightarrow>
              rbind (assertr (20 \<le> IPv4_MAX_HEADER_LENGTH)
                       ''getChunkLength() <= IPv4_MAX_HEADER_LENGTH'') (\<lambda>_.
                Inr ((insertAtFront (Ipv4Header src dest proto (ttl_of dest) (20 + packet_length p)) p)
                       \<lparr>pk_protocol := Some P_ipv4\<rparr>)))))"

definition DATAFRAME_HEADER_MINLENGTH :: nat where
  "DATAFRAME_HEADER_MINLENGTH = 24"

definition QOSCONTROL_PART_LENGTH :: nat where
  "QOSCONTROL_PART_LENGTH = 2"

text \<open>The 802.11 header: the addresses depend on the mode of the MIB.\<close>

definition data_header :: "Ieee80211Mib \<Rightarrow> mac \<Rightarrow> int option \<Rightarrow> Ieee80211DataHeader res" where
  "data_header M dest userPriority =
     (let header = \<lparr>dh_transmitter = mib_address M, dh_receiver = 0, dh_address3 = 0,
            dh_fromDS = False, dh_toDS = False, dh_qos = False, dh_tid = 0, dh_duration = 0,
            dh_length = DATAFRAME_HEADER_MINLENGTH\<rparr> in
      rbind
        (if mib_mode M = INDEPENDENT then Inr (header\<lparr>dh_receiver := dest\<rparr>)
         else if mib_mode M = INFRASTRUCTURE then
           (if mib_stationType M = ACCESS_POINT then
              Inr (header\<lparr>dh_fromDS := True, dh_address3 := mib_address M, dh_receiver := dest\<rparr>)
            else if mib_stationType M = STATION then
              Inr (header\<lparr>dh_toDS := True, dh_receiver := mib_bssid M, dh_address3 := dest\<rparr>)
            else throwr ''Unknown station type'')
         else throwr ''Unknown mode'')
        (\<lambda>header.
           let header = (case userPriority of None \<Rightarrow> header
                 | Some up \<Rightarrow> header\<lparr>dh_qos := True,
                     dh_length := dh_length header + QOSCONTROL_PART_LENGTH, dh_tid := up\<rparr>)
           in Inr (header\<lparr>dh_duration := 0\<rparr>)))"

definition encapsulate :: "samac_env \<Rightarrow> packet \<Rightarrow> 'k samac \<Rightarrow> (packet \<times> 'k samac) res" where
  "encapsulate E p s =
     (case pk_protocol p of
        None \<Rightarrow> throwr ''Tag is absent''
      | Some proto \<Rightarrow>
          let ethType = findProtocolNumber E proto in
          if ethType = -1 then throwr ''EtherType not found for protocol''
          else
            let p = insertAtFront (EtherTypeHeader ethType) p;
                p = p\<lparr>pk_protocol := Some P_ieee80211EtherType\<rparr>;
                p = p\<lparr>pk_llc := Some P_ieee80211EtherType\<rparr>
            in case pk_macReq p of
                 None \<Rightarrow> throwr ''Tag is absent''
               | Some destAddress \<Rightarrow>
                   rbind (data_header (mib E) destAddress (pk_userPriority p)) (\<lambda>header.
                   let p = insertAtFront (DataHeader header) p;
                       s = s\<lparr>inProgressFrames := pushPacket DropTailQueue p (inProgressFrames s)\<rparr>
                   in case extractFramesToTransmit E (inProgressFrames s) of
                        None \<Rightarrow> Inl NullPointer
                      | Some (frames, rest) \<Rightarrow>
                          let s = s\<lparr>inProgressFrames := rest\<rparr> in
                          rbind (assertr (length frames = 1) ''frames->size() == 1'') (\<lambda>_.
                          let p = hd frames;
                              p = insertAtBack MacTrailer p;
                              p = p\<lparr>pk_protocol := Some P_ieee80211Mac\<rparr>;
                              p = p\<lparr>pk_mode := Some (9, wlanBandwidth s)\<rparr>
                          in Inr (p, s))))"

section \<open>Handlers\<close>

definition sendSatellitePacket :: "packet \<Rightarrow> 'k samac \<Rightarrow> 'k samac" where
  "sendSatellitePacket p s = s\<lparr>sentDown := p # sentDown s\<rparr>"

definition registration_packet :: "'k kernel_ops \<Rightarrow> samac_env \<Rightarrow> 'k samac \<Rightarrow> packet res" where
  "registration_packet K E s =
     (let payload = RegistrationChunk (address s) (simTime K (kern s));
          p = insertAtBack payload (new_packet ''registerAtSatellite'')
      in rbind (interfaceTag (satelliteInterfaceEntry s) p) (\<lambda>p.
         rbind (addUdpHeader E s p) addIpv4Header))"

definition registerAtSatellite :: "'k kernel_ops \<Rightarrow> samac_env \<Rightarrow> 'k samac \<Rightarrow> 'k samac res" where
  "registerAtSatellite K E s =
     (let s = s\<lparr>expectedAck_Timestamp := simTime K (kern s) + 2 * currentSatelliteLatency s
                  + maxSatelliteProcDelay_s s\<rparr> in
      rbind (registration_packet K E s) (\<lambda>p.
      let s = sendSatellitePacket p s;
          s = s\<lparr>vehicleStatistics := recordSendSatelliteRegistrationMessages (vehicleStatistics s)\<rparr>;
          s = s\<lparr>vehicleStatistics := recordSendSatellitePackets (vehicleStatistics s)\<rparr>
      in rbind (scheduleAt K (expectedAck_Timestamp s) (ackTimer s) (kern s)) (\<lambda>k.
         Inr (s\<lparr>kern := k\<rparr>))))"

definition doPacketInjection :: "samac_env \<Rightarrow> 'k samac \<Rightarrow> 'k samac res" where
  "doPacketInjection E s =
     rbind (popPacket (pendingQueue s)) (\<lambda>(p, q).
     rbind (encapsulate E p (s\<lparr>pendingQueue := q\<rparr>)) (\<lambda>(p, s).
       Inr (s\<lparr>radioTransmitter := True, sentDirect := p # sentDirect s\<rparr>)))"

text \<open>The three callbacks the module gives to its timer manager.\<close>

fun samac_run_callback ::
    "'k kernel_ops \<Rightarrow> samac_env \<Rightarrow> samac_callback \<Rightarrow> 'k samac \<Rightarrow> 'k samac res" where
  "samac_run_callback K E RegistrationCallback s =
     registerAtSatellite K E (s\<lparr>startRegistrationTimestamp := simTime K (kern s)\<rparr>)"
| "samac_run_callback K E RetryCallback s = registerAtSatellite K E s"
| "samac_run_callback K E TransmissionCallback s =
     (if pendingQueue s \<noteq> [] then doPacketInjection E s else Inr s)"

definition samac_host ::
    "'k kernel_ops \<Rightarrow> samac_env \<Rightarrow> ('k samac, 'k, samac_callback) timer_host" where
  "samac_host K E =
     \<lparr>get_timers = timers, put_timers = (\<lambda>ts s. s\<lparr>timers := ts\<rparr>),
      get_kernel = kern, put_kernel = (\<lambda>k s. s\<lparr>kern := k\<rparr>),
      run_callback = samac_run_callback K E\<rparr>"

text \<open>\<open>timerManager.create(TimerSpecification(cb).oneshotAt(t), ...)\<close>\<close>

definition create_oneshot ::
    "'k kernel_ops \<Rightarrow> samac_callback \<Rightarrow> simtime \<Rightarrow> 'k samac \<Rightarrow> 'k samac res" where
  "create_oneshot K cb t s =
     rbind (oneshotAt t (mkTimerSpecification cb)) (\<lambda>spec.
     rbind (tm_create K spec (timers s) (kern s)) (\<lambda>(h, ts, k).
       Inr (s\<lparr>timers := ts, kern := k\<rparr>)))"

definition slot_ms :: "dbl \<Rightarrow> int" where
  "slot_ms d = dbl_trunc (dbl_times 1000 d)"

definition scheduleWlanTransmission ::
    "'k kernel_ops \<Rightarrow> WlanSchedule \<Rightarrow> simtime \<Rightarrow> 'k samac \<Rightarrow> 'k samac res" where
  "scheduleWlanTransmission K ws begin s =
     rbind
       (case sm_find ws (address s) of
          Some d \<Rightarrow> Inr (slot_ms d * SIMTIME_MS, s)
        | None \<Rightarrow>
            if length ws < 100 then
              (let (n, k) = intuniform K (int (length ws)) 99 (kern s)
               in Inr (n * SIMTIME_MS, s\<lparr>kern := k\<rparr>))
            else if 100 < length ws then throwr ''myWlanSchedule size is too large''
            else Inr (0, s))
       (\<lambda>(delta, s). create_oneshot K TransmissionCallback (begin + delta) s)"

definition handleWlanSchedule ::
    "'k kernel_ops \<Rightarrow> SpaceVeinsWlanScheduleMessage \<Rightarrow> 'k samac \<Rightarrow> 'k samac res" where
  "handleWlanSchedule K ws s =
     rbind (scheduleWlanTransmission K (ws_schedule ws) (ws_begin ws) s) (\<lambda>s.
     let s = s\<lparr>wlanScheduleInterval_s := ws_interval ws\<rparr>;
         s = s\<lparr>endOfCurrentWlanSchedule := ws_transmit ws + wlanScheduleInterval_s s\<rparr>;
         s = s\<lparr>currentSatelliteLatency := simTime K (kern s) - ws_transmit ws\<rparr>;
         s = s\<lparr>lastUsefulRegistrationTime := endOfCurrentWlanSchedule s -
                 (2 * currentSatelliteLatency s + maxSatelliteProcDelay_s s)\<rparr>;
         s = s\<lparr>vehicleStatistics := recordApplLayerRoundTripTime
                 (2 * currentSatelliteLatency s + maxSatelliteProcDelay_s s) (vehicleStatistics s)\<rparr>;
         s = s\<lparr>vehicleStatistics := recordApplLayerSatelliteLatency
                 (currentSatelliteLatency s) (vehicleStatistics s)\<rparr>;
         s = (if \<not> registeredAtSatellite s \<and> receivedInitialWlanSchedule s
              then s\<lparr>vehicleStatistics := recordMissedSatelliteRegistrationAcks (vehicleStatistics s)\<rparr>
              else s);
         s = s\<lparr>kern := cancelEvent K (ackTimer s) (kern s)\<rparr>;
         s = s\<lparr>registeredAtSatellite := False\<rparr>;
         (t, k) = uniform K (simTime K (kern s)) (lastUsefulRegistrationTime s) (kern s);
         s = s\<lparr>kern := k\<rparr>
     in create_oneshot K RegistrationCallback t s)"

definition processLeoAck :: "packet \<Rightarrow> 'k samac \<Rightarrow> 'k samac res" where
  "processLeoAck pk s =
     rbind (popAtFront pk) (\<lambda>pk.
     rbind (popAtFront pk) (\<lambda>pk.
     rbind (peekAtFront pk) (\<lambda>ack.
     case ack of
       SatelliteAckChunk v _ \<Rightarrow>
         (let s = (if v = address s
                   then s\<lparr>registeredAtSatellite := True,
                          vehicleStatistics :=
                            recordReceivedSatelliteRegistrationAcks (vehicleStatistics s)\<rparr>
                   else s)
          in Inr (s\<lparr>vehicleStatistics := recordReceivedSatellitePackets (vehicleStatistics s)\<rparr>))
     | _ \<Rightarrow> throwr ''chunk is not of the requested type'')))"

definition processWlanSchedule :: "'k kernel_ops \<Rightarrow> packet \<Rightarrow> 'k samac \<Rightarrow> 'k samac res" where
  "processWlanSchedule K pk s =
     (case pk_macInd pk of
        None \<Rightarrow> throwr ''Tag is absent''
      | Some (srcMac, destMac) \<Rightarrow>
          let s = s\<lparr>leoSatelliteMacAddress := destMac\<rparr> in
          rbind (popAtFront pk) (\<lambda>pk.
          rbind (popAtFront pk) (\<lambda>pk.
          rbind (peekAtFront pk) (\<lambda>ws.
          case ws of
            WlanScheduleChunk w \<Rightarrow>
              rbind (handleWlanSchedule K w s) (\<lambda>s.
              let s = (if \<not> receivedInitialWlanSchedule s
                       then s\<lparr>receivedInitialWlanSchedule := True\<rparr> else s);
                  s = s\<lparr>vehicleStatistics := recordReceivedWlanSchedules (vehicleStatistics s)\<rparr>
              in Inr (s\<lparr>vehicleStatistics := recordReceivedSatellitePackets (vehicleStatistics s)\<rparr>))
          | _ \<Rightarrow> throwr ''chunk is not of the requested type''))))"

definition processLeoPacket :: "'k kernel_ops \<Rightarrow> packet \<Rightarrow> 'k samac \<Rightarrow> 'k samac res" where
  "processLeoPacket K pk s =
     (if has_chunk is_SatelliteAck pk then processLeoAck pk s
      else if has_chunk is_WlanSchedule pk then processWlanSchedule K pk s
      else Inr s)"

definition handleLeoPacket :: "'k kernel_ops \<Rightarrow> packet \<Rightarrow> 'k samac \<Rightarrow> 'k samac res" where
  "handleLeoPacket K pk s = processLeoPacket K pk s"

definition handleUpperPacket :: "packet \<Rightarrow> 'k samac \<Rightarrow> 'k samac" where
  "handleUpperPacket pk s =
     (if receivedInitialWlanSchedule s
      then s\<lparr>pendingQueue := pushPacket DropTailQueue pk (pendingQueue s)\<rparr>
      else s)"

text \<open>
  The specification \<open>t_spec\<close> of the retry is built, and the random time drawn, but the
  specification is not given to the timer manager.
\<close>

definition SAMAC_handleSelfMessage :: "'k kernel_ops \<Rightarrow> int \<Rightarrow> 'k samac \<Rightarrow> 'k samac res" where
  "SAMAC_handleSelfMessage K kind s =
     (if kind = SATELLITE_REGISTRATION_ACK_TIMER then
        rbind (assertr (\<not> isScheduled K (ackTimer s) (kern s))
                 ''!satelliteRegistrationAckTimer->isScheduled()'') (\<lambda>_.
        if simTime K (kern s) < lastUsefulRegistrationTime s then
          (let t_spec = mkTimerSpecification RetryCallback;
               (t, k) = uniform K (simTime K (kern s)) (lastUsefulRegistrationTime s) (kern s)
           in rbind (oneshotAt t t_spec) (\<lambda>t_spec. Inr (s\<lparr>kern := k\<rparr>)))
        else Inr s)
      else throwr ''handleSelfMessage -- received unknown self message.'')"

text \<open>
  A message: a self message (with the timer it belongs to, if it is a timer message, and its
  kind), a packet with its arrival gate, or another message.
\<close>

datatype gate = LowerLayerIn | UpperLayerIn | OtherGate
datatype samac_message = SelfMsg "nat option" int | PacketMsg gate packet | OtherMsg

fun timer_of :: "samac_message \<Rightarrow> nat option" where
  "timer_of (SelfMsg m _) = m"
| "timer_of _ = None"

fun is_self :: "samac_message \<Rightarrow> bool" where
  "is_self (SelfMsg _ _) = True"
| "is_self _ = False"

definition SAMAC_handleMessageWhenUp ::
    "'k kernel_ops \<Rightarrow> samac_env \<Rightarrow> samac_message \<Rightarrow> 'k samac \<Rightarrow> 'k samac res" where
  "SAMAC_handleMessageWhenUp K E msg s =
     rbind (tm_handleMessage K (samac_host K E) (timer_of msg) (is_self msg) s) (\<lambda>(handled, s).
     if handled then Inr s
     else case msg of
        SelfMsg _ kind \<Rightarrow> SAMAC_handleSelfMessage K kind s
      | PacketMsg LowerLayerIn pk \<Rightarrow> handleLeoPacket K pk s
      | PacketMsg UpperLayerIn pk \<Rightarrow> Inr (handleUpperPacket pk s)
      | PacketMsg OtherGate pk \<Rightarrow> Inr s
      | OtherMsg \<Rightarrow> throwr ''handleMessageWhenUp -- received an unknown message.'')"

section \<open>The vehicle as a machine\<close>

text \<open>
  A step is a timer of the manager or the acknowledgement timer that is due, or a packet
  that arrives no later than any pending self message.
\<close>

definition no_earlier :: "'k kernel_ops \<Rightarrow> 'k \<Rightarrow> simtime \<Rightarrow> bool" where
  "no_earlier K k t \<longleftrightarrow> (\<forall>m u. arrival K k m = Some u \<longrightarrow> t \<le> u)"

inductive samac_step :: "'k kernel_ops \<Rightarrow> samac_env \<Rightarrow> 'k samac \<Rightarrow> 'k samac \<Rightarrow> bool" for K E where
  timer: "arrival K (kern s) m = Some t \<Longrightarrow> no_earlier K (kern s) t \<Longrightarrow> m \<noteq> ackTimer s \<Longrightarrow>
     SAMAC_handleMessageWhenUp K E (SelfMsg (Some m) 0) (s\<lparr>kern := deliver K m (kern s)\<rparr>) = Inr s' \<Longrightarrow>
     samac_step K E s s'"
| ack_timer: "arrival K (kern s) (ackTimer s) = Some t \<Longrightarrow> no_earlier K (kern s) t \<Longrightarrow>
     SAMAC_handleMessageWhenUp K E (SelfMsg None SATELLITE_REGISTRATION_ACK_TIMER)
       (s\<lparr>kern := deliver K (ackTimer s) (kern s)\<rparr>) = Inr s' \<Longrightarrow>
     samac_step K E s s'"
| packet: "simTime K (kern s) \<le> t \<Longrightarrow> no_earlier K (kern s) t \<Longrightarrow>
     SAMAC_handleMessageWhenUp K E (PacketMsg g pk) (s\<lparr>kern := advance K t (kern s)\<rparr>) = Inr s' \<Longrightarrow>
     samac_step K E s s'"

text \<open>The module as its constructor and the initialisation stages leave it.\<close>

definition samac_boot :: "'k kernel_ops \<Rightarrow> samac_env \<Rightarrow> 'k \<Rightarrow> 'k samac res" where
  "samac_boot K E k =
     (let s = \<lparr>kern = k, timers = [], ackTimer = 0, pendingQueue = [], inProgressFrames = [],
               registeredAtSatellite = False, receivedInitialWlanSchedule = False,
               qosStation = False, wlanBandwidth = 0, wlanBitrate = 0, address = 0,
               leoSatelliteMacAddress = 0, wlanScheduleInterval_s = 0,
               endOfCurrentWlanSchedule = 0, currentSatelliteLatency = 0,
               startRegistrationTimestamp = 0, lastUsefulRegistrationTime = 0,
               maxSatelliteProcDelay_s = 0, expectedAck_Timestamp = 0,
               satelliteInterfaceEntry = None, vehicleStatistics = [], sentDown = [],
               sentDirect = [], radioTransmitter = False\<rparr>;
          s = SAMAC_initialize K E 0 s;
          s = SAMAC_initialize K E 1 s;
          s = fst (configureInterfaceEntry E s)
      in SAMAC_handleStartOperation E s)"

inductive samac_reachable :: "'k kernel_ops \<Rightarrow> samac_env \<Rightarrow> 'k \<Rightarrow> 'k samac \<Rightarrow> bool" for K E k where
  boot: "samac_boot K E k = Inr s \<Longrightarrow> samac_reachable K E k s"
| step: "samac_reachable K E k s \<Longrightarrow> samac_step K E s s' \<Longrightarrow> samac_reachable K E k s'"

end
