(* ===== verification/SV_SAMAC_Props.thy ===== *)
theory SV_SAMAC_Props
  imports SV_SAMAC
begin

text \<open>
  Theorems about the vehicle: what each handler does to the state, the invariant of the
  timers (every timer is a one-shot whose message is pending at its start, nothing pending
  is overdue, no retry timer exists), and the counting invariants that relate schedules
  received, registrations sent and frames injected.
\<close>

section \<open>The timers of the module\<close>

definition callback_count :: "samac_callback \<Rightarrow> samac_callback TimerList \<Rightarrow> nat" where
  "callback_count cb ts = length (filter (\<lambda>e. ts_callback (snd e) = cb) ts)"

lemma callback_count_insert:
  "sm_find ts m = None \<Longrightarrow> callback_count cb (sm_insert m spec ts) =
     callback_count cb ts + (if ts_callback spec = cb then 1 else 0)"
  by (simp add: callback_count_def sm_filter_insert)

lemma callback_count_erase:
  "sm_inv ts \<Longrightarrow> sm_find ts m = Some spec \<Longrightarrow> callback_count cb ts =
     callback_count cb (sm_erase m ts) + (if ts_callback spec = cb then 1 else 0)"
  using sm_filter_erase [of ts m spec "\<lambda>e. ts_callback (snd e) = cb"]
  by (simp add: callback_count_def)

text \<open>
  \<open>X\<close> is the set of timers whose message has just been taken out of the future events and
  whose callback is running.
\<close>

definition timers_inv ::
    "'k kernel_ops \<Rightarrow> nat set \<Rightarrow> samac_callback TimerList \<Rightarrow> nat \<Rightarrow> 'k \<Rightarrow> bool" where
  "timers_inv K X ts a k \<longleftrightarrow>
     tm_inv K ts k \<and>
     (\<forall>m spec. sm_find ts m = Some spec \<longrightarrow>
        (\<exists>now t cb. cb \<noteq> RetryCallback \<and> spec = finalize now (oneshot_spec t cb) \<and>
                    (m \<notin> X \<longrightarrow> arrival K k m = Some t))) \<and>
     (\<forall>m. arrival K k m \<noteq> None \<longrightarrow> known K k m \<and> (m = a \<or> sm_find ts m \<noteq> None)) \<and>
     known K k a \<and> sm_find ts a = None \<and>
     (\<forall>m u. arrival K k m = Some u \<longrightarrow> simTime K k \<le> u)"

lemma timers_invI:
  assumes "tm_inv K ts k"
    and "\<And>m spec. sm_find ts m = Some spec \<Longrightarrow>
        \<exists>now t cb. cb \<noteq> RetryCallback \<and> spec = finalize now (oneshot_spec t cb) \<and>
                   (m \<notin> X \<longrightarrow> arrival K k m = Some t)"
    and "\<And>m. arrival K k m \<noteq> None \<Longrightarrow> known K k m"
    and "\<And>m. arrival K k m \<noteq> None \<Longrightarrow> m \<noteq> a \<Longrightarrow> sm_find ts m \<noteq> None"
    and "known K k a" "sm_find ts a = None"
    and "\<And>m u. arrival K k m = Some u \<Longrightarrow> simTime K k \<le> u"
  shows "timers_inv K X ts a k"
  using assms unfolding timers_inv_def by blast

lemma timers_inv_sm: "timers_inv K X ts a k \<Longrightarrow> sm_inv ts"
  by (simp add: timers_inv_def tm_inv_def)

lemma timers_inv_tm: "timers_inv K X ts a k \<Longrightarrow> tm_inv K ts k"
  by (simp add: timers_inv_def)

lemma timers_inv_ack: "timers_inv K X ts a k \<Longrightarrow> sm_find ts a = None"
  by (simp add: timers_inv_def)

lemma timers_inv_known: "timers_inv K X ts a k \<Longrightarrow> arrival K k m \<noteq> None \<Longrightarrow> known K k m"
  by (simp add: timers_inv_def)

lemma timers_inv_oneshot:
  assumes "timers_inv K X ts a k" and "sm_find ts m = Some spec"
  obtains now t cb where "cb \<noteq> RetryCallback" "spec = finalize now (oneshot_spec t cb)"
    "m \<notin> X \<Longrightarrow> arrival K k m = Some t"
  using assms unfolding timers_inv_def by blast

lemma timers_inv_cong:
  "arrival K k' = arrival K k \<Longrightarrow> known K k' = known K k \<Longrightarrow> simTime K k' = simTime K k \<Longrightarrow>
     timers_inv K X ts a k' = timers_inv K X ts a k"
  by (simp add: timers_inv_def tm_inv_def)

context sim_kernel
begin

lemma timers_inv_create:
  assumes inv: "timers_inv K {} ts a k" and cb: "cb \<noteq> RetryCallback"
    and c: "tm_create K (oneshot_spec t cb) ts k = Inr (m, ts', k')"
  shows "timers_inv K {} ts' a k'"
proof -
  note d = tm_create_oneshotD [OF c timers_inv_tm [OF inv]]
  have tm: "tm_inv K ts' k'"
    by (rule tm_create_oneshot_inv [OF c timers_inv_tm [OF inv]])
  have ka: "known K k a" using inv by (simp add: timers_inv_def)
  with d(7) have "m \<noteq> a" by auto
  moreover have "\<exists>now u cb'. cb' \<noteq> RetryCallback \<and> spec = finalize now (oneshot_spec u cb') \<and>
      arrival K k' n = Some u" if "sm_find ts' n = Some spec" for n spec
  proof (cases "n = m")
    case True
    with that d cb show ?thesis by auto
  next
    case False
    with that d(3) have "sm_find ts n = Some spec" by simp
    with inv False d(4) show ?thesis by (auto simp: timers_inv_def)
  qed
  ultimately show ?thesis
    using inv tm d ka unfolding timers_inv_def by (auto split: if_splits)
qed

lemma timers_inv_cancel_ack:
  "timers_inv K X ts a k \<Longrightarrow> timers_inv K X ts a (cancelEvent K a k)"
  using tm_inv_cancel [of ts k a]
  by (auto simp: timers_inv_def cancel_arrival cancel_known cancel_time)

lemma timers_inv_schedule_ack:
  assumes inv: "timers_inv K X ts a k" and s: "scheduleAt K t a k = Inr k'"
  shows "timers_inv K X ts a k'"
proof -
  have "tm_inv K ts k'"
    using inv by (auto simp: timers_inv_def tm_inv_def schedule_arrival [OF s] schedule_known [OF s])
  then show ?thesis
    using inv schedule_InrD [OF s]
    unfolding timers_inv_def schedule_arrival [OF s] schedule_known [OF s] schedule_time [OF s]
    by auto
qed

lemma timers_inv_deliver:
  assumes inv: "timers_inv K {} ts a k" and m: "arrival K k m = Some t" and e: "no_earlier K k t"
  shows "timers_inv K {m} ts a (deliver K m k)"
proof (rule timers_invI)
  fix n spec assume n: "sm_find ts n = Some spec"
  from inv n obtain now u cb where "cb \<noteq> RetryCallback"
      "spec = finalize now (oneshot_spec u cb)" "arrival K k n = Some u"
    by (rule timers_inv_oneshot) simp
  then show "\<exists>now u cb. cb \<noteq> RetryCallback \<and> spec = finalize now (oneshot_spec u cb) \<and>
      (n \<notin> {m} \<longrightarrow> arrival K (deliver K m k) n = Some u)"
    by (intro exI [of _ now] exI [of _ u] exI [of _ cb]) (simp add: deliver_arrival)
next
  show "tm_inv K ts (deliver K m k)"
    using timers_inv_tm [OF inv] by (auto simp: tm_inv_def deliver_arrival deliver_known)
next
  fix n u assume "arrival K (deliver K m k) n = Some u"
  then have "arrival K k n = Some u" by (auto simp: deliver_arrival split: if_splits)
  with e show "simTime K (deliver K m k) \<le> u" by (auto simp: no_earlier_def deliver_time [OF m])
qed (use inv in \<open>auto simp: timers_inv_def deliver_arrival deliver_known split: if_splits\<close>)

lemma timers_inv_deliver_ack:
  assumes inv: "timers_inv K {} ts a k" and m: "arrival K k a = Some t" and e: "no_earlier K k t"
  shows "timers_inv K {} ts a (deliver K a k)"
  using timers_inv_deliver [OF assms] timers_inv_ack [OF inv]
  unfolding timers_inv_def by (metis option.distinct(1) singletonD empty_iff)

lemma timers_inv_advance:
  assumes "timers_inv K {} ts a k" and "no_earlier K k t"
  shows "timers_inv K {} ts a (advance K t k)"
  using assms by (auto simp: timers_inv_def tm_inv_def no_earlier_def advance_arrival advance_known
      advance_time)

lemma timers_inv_finish:
  assumes inv: "timers_inv K {m} ts a k" and "m \<noteq> a"
  shows "timers_inv K {} (sm_erase m ts) a (cancelEvent K m k)"
proof (rule timers_invI)
  fix n spec assume "sm_find (sm_erase m ts) n = Some spec"
  then have n: "sm_find ts n = Some spec" and "n \<noteq> m"
    by (auto simp: sm_find_erase split: if_splits)
  from inv n obtain now u cb where "cb \<noteq> RetryCallback"
      "spec = finalize now (oneshot_spec u cb)" "n \<notin> {m} \<Longrightarrow> arrival K k n = Some u"
    by (rule timers_inv_oneshot) blast
  then show "\<exists>now u cb. cb \<noteq> RetryCallback \<and> spec = finalize now (oneshot_spec u cb) \<and>
      (n \<notin> {} \<longrightarrow> arrival K (cancelEvent K m k) n = Some u)"
    using \<open>n \<noteq> m\<close>
    by (intro exI [of _ now] exI [of _ u] exI [of _ cb]) (simp add: cancel_arrival)
next
  show "tm_inv K (sm_erase m ts) (cancelEvent K m k)"
    using timers_inv_tm [OF inv] sm_inv_erase [OF timers_inv_sm [OF inv]]
    by (auto simp: tm_inv_def sm_find_erase cancel_arrival cancel_known)
qed (use assms in \<open>auto simp: timers_inv_def sm_find_erase cancel_arrival cancel_known
      cancel_time split: if_splits\<close>)

end

section \<open>What the handlers change\<close>

lemma registerAtSatelliteD:
  assumes "registerAtSatellite K E s = Inr s'"
  obtains p k where
    "registration_packet K E (s\<lparr>expectedAck_Timestamp := simTime K (kern s)
        + 2 * currentSatelliteLatency s + maxSatelliteProcDelay_s s\<rparr>) = Inr p"
    "scheduleAt K (simTime K (kern s) + 2 * currentSatelliteLatency s + maxSatelliteProcDelay_s s)
        (ackTimer s) (kern s) = Inr k"
    "s' = s\<lparr>expectedAck_Timestamp := simTime K (kern s) + 2 * currentSatelliteLatency s
              + maxSatelliteProcDelay_s s,
            sentDown := p # sentDown s,
            vehicleStatistics := EmitLong sendSatellitePackets 1 #
              EmitLong sendSatelliteRegistrationMessages 1 # vehicleStatistics s,
            kern := k\<rparr>"
  using assms
  by (auto simp: registerAtSatellite_def Let_def sendSatellitePacket_def record_defs)

lemma encapsulateD:
  assumes "encapsulate E p s = Inr (p', s')"
  obtains q where "s' = s\<lparr>inProgressFrames := q\<rparr>"
proof -
  from assms have "s' = s\<lparr>inProgressFrames := inProgressFrames s'\<rparr>"
    by (auto simp: encapsulate_def Let_def split: option.splits if_splits prod.splits)
  with that show ?thesis .
qed

lemma doPacketInjectionD:
  assumes "doPacketInjection E s = Inr s'"
  obtains p q p' r where "pendingQueue s = p # q" "encapsulate E p (s\<lparr>pendingQueue := q\<rparr>) =
      Inr (p', s\<lparr>pendingQueue := q, inProgressFrames := r\<rparr>)"
    "s' = s\<lparr>pendingQueue := q, inProgressFrames := r, radioTransmitter := True,
            sentDirect := p' # sentDirect s\<rparr>"
proof -
  from assms obtain p q where pq: "pendingQueue s = p # q"
    by (cases "pendingQueue s") (auto simp: doPacketInjection_def popPacket_def)
  with assms obtain p' s'' where e: "encapsulate E p (s\<lparr>pendingQueue := q\<rparr>) = Inr (p', s'')"
    and s': "s' = s''\<lparr>radioTransmitter := True, sentDirect := p' # sentDirect s''\<rparr>"
    by (auto simp: doPacketInjection_def popPacket_def)
  obtain r where r: "s'' = s\<lparr>pendingQueue := q\<rparr>\<lparr>inProgressFrames := r\<rparr>"
    using e by (rule encapsulateD)
  show ?thesis
    by (rule that [OF pq e [unfolded r]]) (simp add: s' r)
qed

lemma create_oneshotD:
  assumes "create_oneshot K cb t s = Inr s'"
  obtains m ts k where "tm_create K (oneshot_spec t cb) (timers s) (kern s) = Inr (m, ts, k)"
    "s' = s\<lparr>timers := ts, kern := k\<rparr>"
  using assms by (auto simp: create_oneshot_def oneshotAt_eq)

definition schedule_delta :: "WlanSchedule \<Rightarrow> mac \<Rightarrow> int \<Rightarrow> simtime" where
  "schedule_delta ws a n = (case sm_find ws a of Some d \<Rightarrow> slot_ms d * SIMTIME_MS
     | None \<Rightarrow> if length ws < 100 then n * SIMTIME_MS else 0)"

text \<open>How the offset is drawn: a vehicle without a slot takes a random one of the free slots.\<close>

definition drawn_offset ::
    "'k kernel_ops \<Rightarrow> WlanSchedule \<Rightarrow> mac \<Rightarrow> 'k \<Rightarrow> int \<Rightarrow> 'k \<Rightarrow> bool" where
  "drawn_offset K ws a k n k' =
     (case sm_find ws a of Some d \<Rightarrow> k' = k
      | None \<Rightarrow> if length ws < 100 then intuniform K (int (length ws)) 99 k = (n, k')
               else length ws = 100 \<and> k' = k)"

lemma scheduleWlanTransmissionD:
  assumes "scheduleWlanTransmission K ws begin s = Inr s'"
  obtains n k where "drawn_offset K ws (address s) (kern s) n k"
    "create_oneshot K TransmissionCallback (begin + schedule_delta ws (address s) n) (s\<lparr>kern := k\<rparr>) = Inr s'"
proof (cases "sm_find ws (address s)")
  case (Some d)
  with assms have c: "create_oneshot K TransmissionCallback
      (begin + schedule_delta ws (address s) 0) (s\<lparr>kern := kern s\<rparr>) = Inr s'"
    by (simp add: scheduleWlanTransmission_def schedule_delta_def)
  show ?thesis by (rule that [OF _ c]) (simp add: drawn_offset_def Some)
next
  case None
  show ?thesis
  proof (cases "length ws < 100")
    case True
    obtain n k where i: "intuniform K (int (length ws)) 99 (kern s) = (n, k)" by fastforce
    with None True assms have c: "create_oneshot K TransmissionCallback
        (begin + schedule_delta ws (address s) n) (s\<lparr>kern := k\<rparr>) = Inr s'"
      by (simp add: scheduleWlanTransmission_def schedule_delta_def)
    show ?thesis by (rule that [OF _ c]) (simp add: drawn_offset_def i None True)
  next
    case False
    with None assms have l: "length ws = 100" and c: "create_oneshot K TransmissionCallback
        (begin + schedule_delta ws (address s) 0) (s\<lparr>kern := kern s\<rparr>) = Inr s'"
      by (auto simp: scheduleWlanTransmission_def schedule_delta_def split: if_splits)
    show ?thesis by (rule that [OF _ c]) (simp add: drawn_offset_def None l)
  qed
qed

text \<open>The state between both timers of \<open>handleWlanSchedule\<close>.\<close>

definition note_schedule ::
    "'k kernel_ops \<Rightarrow> SpaceVeinsWlanScheduleMessage \<Rightarrow> 'k samac \<Rightarrow> 'k samac" where
  "note_schedule K ws s =
     (let latency = simTime K (kern s) - ws_transmit ws;
          rtt = 2 * latency + maxSatelliteProcDelay_s s
      in s\<lparr>wlanScheduleInterval_s := ws_interval ws,
           endOfCurrentWlanSchedule := ws_transmit ws + ws_interval ws,
           currentSatelliteLatency := latency,
           lastUsefulRegistrationTime := ws_transmit ws + ws_interval ws - rtt,
           vehicleStatistics :=
             (if \<not> registeredAtSatellite s \<and> receivedInitialWlanSchedule s
              then [EmitLong missedSatelliteRegistrationAcks 1] else []) @
             EmitTime applLayerSatelliteLatency latency # EmitTime applLayerRoundTripTime rtt #
             vehicleStatistics s,
           kern := cancelEvent K (ackTimer s) (kern s),
           registeredAtSatellite := False\<rparr>)"

lemma handleWlanSchedule_eq:
  "handleWlanSchedule K ws s =
     rbind (scheduleWlanTransmission K (ws_schedule ws) (ws_begin ws) s) (\<lambda>s.
       let s1 = note_schedule K ws s;
           (t, k) = uniform K (simTime K (kern s1)) (lastUsefulRegistrationTime s1) (kern s1)
       in create_oneshot K RegistrationCallback t (s1\<lparr>kern := k\<rparr>))"
  unfolding handleWlanSchedule_def
  by (rule arg_cong [where f = "rbind _"], rule ext)
    (simp add: note_schedule_def Let_def record_defs)

lemma note_schedule_frame [simp]:
  "timers (note_schedule K ws s) = timers s"
  "ackTimer (note_schedule K ws s) = ackTimer s"
  "kern (note_schedule K ws s) = cancelEvent K (ackTimer s) (kern s)"
  "pendingQueue (note_schedule K ws s) = pendingQueue s"
  "sentDown (note_schedule K ws s) = sentDown s"
  "sentDirect (note_schedule K ws s) = sentDirect s"
  "registeredAtSatellite (note_schedule K ws s) = False"
  "receivedInitialWlanSchedule (note_schedule K ws s) = receivedInitialWlanSchedule s"
  "lastUsefulRegistrationTime (note_schedule K ws s) = ws_transmit ws + ws_interval ws
      - (2 * (simTime K (kern s) - ws_transmit ws) + maxSatelliteProcDelay_s s)"
  "currentSatelliteLatency (note_schedule K ws s) = simTime K (kern s) - ws_transmit ws"
  "emitted receivedWlanSchedules (vehicleStatistics (note_schedule K ws s)) =
      emitted receivedWlanSchedules (vehicleStatistics s)"
  "emitted sendSatelliteRegistrationMessages (vehicleStatistics (note_schedule K ws s)) =
      emitted sendSatelliteRegistrationMessages (vehicleStatistics s)"
  "address (note_schedule K ws s) = address s"
  "maxSatelliteProcDelay_s (note_schedule K ws s) = maxSatelliteProcDelay_s s"
  by (simp_all add: note_schedule_def Let_def emitted_Cons)

text \<open>
  All that a schedule does: one transmission timer at the begin of the schedule plus the
  offset of the vehicle, one registration timer in the registration window.
\<close>

lemma handleWlanScheduleD:
  assumes "handleWlanSchedule K ws s = Inr s'"
  obtains n k m1 ts1 k1 t k2 m2 ts2 k3 where
    "drawn_offset K (ws_schedule ws) (address s) (kern s) n k"
    "tm_create K (oneshot_spec (ws_begin ws + schedule_delta (ws_schedule ws) (address s) n)
        TransmissionCallback) (timers s) k = Inr (m1, ts1, k1)"
    "uniform K (simTime K (cancelEvent K (ackTimer s) k1))
       (ws_transmit ws + ws_interval ws - (2 * (simTime K k1 - ws_transmit ws)
          + maxSatelliteProcDelay_s s)) (cancelEvent K (ackTimer s) k1) = (t, k2)"
    "tm_create K (oneshot_spec t RegistrationCallback) ts1 k2 = Inr (m2, ts2, k3)"
    "s' = (note_schedule K ws (s\<lparr>timers := ts1, kern := k1\<rparr>))\<lparr>timers := ts2, kern := k3\<rparr>"
proof -
  from assms obtain s1 where s1: "scheduleWlanTransmission K (ws_schedule ws) (ws_begin ws) s = Inr s1"
    and rest: "(let s2 = note_schedule K ws s1;
           (t, k) = uniform K (simTime K (kern s2)) (lastUsefulRegistrationTime s2) (kern s2)
       in create_oneshot K RegistrationCallback t (s2\<lparr>kern := k\<rparr>)) = Inr s'"
    unfolding handleWlanSchedule_eq by (cases "scheduleWlanTransmission K (ws_schedule ws) (ws_begin ws) s") simp_all
  from s1 obtain n k where k: "drawn_offset K (ws_schedule ws) (address s) (kern s) n k"
    and c1: "create_oneshot K TransmissionCallback (ws_begin ws +
        schedule_delta (ws_schedule ws) (address s) n) (s\<lparr>kern := k\<rparr>) = Inr s1"
    by (rule scheduleWlanTransmissionD)
  from c1 obtain m1 ts1 k1 where t1: "tm_create K (oneshot_spec (ws_begin ws +
        schedule_delta (ws_schedule ws) (address s) n) TransmissionCallback) (timers (s\<lparr>kern := k\<rparr>))
        (kern (s\<lparr>kern := k\<rparr>)) = Inr (m1, ts1, k1)" and s1': "s1 = s\<lparr>kern := k\<rparr>\<lparr>timers := ts1, kern := k1\<rparr>"
    by (rule create_oneshotD)
  have s1'': "s1 = s\<lparr>timers := ts1, kern := k1\<rparr>" by (simp add: s1')
  obtain t k2 where u: "uniform K (simTime K (cancelEvent K (ackTimer s) k1))
       (ws_transmit ws + ws_interval ws - (2 * (simTime K k1 - ws_transmit ws)
          + maxSatelliteProcDelay_s s)) (cancelEvent K (ackTimer s) k1) = (t, k2)"
    by fastforce
  have c2: "create_oneshot K RegistrationCallback t
      ((note_schedule K ws s1)\<lparr>kern := k2\<rparr>) = Inr s'"
    using rest u by (simp add: Let_def s1'')
  then obtain m2 ts2 k3 where t2: "tm_create K (oneshot_spec t RegistrationCallback)
       (timers ((note_schedule K ws s1)\<lparr>kern := k2\<rparr>)) (kern ((note_schedule K ws s1)\<lparr>kern := k2\<rparr>))
      = Inr (m2, ts2, k3)"
    and s': "s' = (note_schedule K ws s1)\<lparr>kern := k2\<rparr>\<lparr>timers := ts2, kern := k3\<rparr>"
    by (rule create_oneshotD)
  show ?thesis
    by (rule that [OF k _ u _, of m1 ts1 m2 ts2 k3]) (use t1 t2 s' in \<open>simp_all add: s1''\<close>)
qed

end
