(* ===== verification/SV_SAMAC_Inv.thy ===== *)
theory SV_SAMAC_Inv
  imports SV_SAMAC_Props
begin

text \<open>
  The vehicle as a client of its timer manager, and the invariant of the machine
  \<open>samac_step\<close>: the timers are in order, the queue is bounded, and the registrations sent
  and the frames injected are accounted for by the schedules received.
\<close>

section \<open>The module owns its timer manager as the manager expects\<close>

lemma samac_host_sel [simp]:
  "get_timers (samac_host K E) = timers" "get_kernel (samac_host K E) = kern"
  "put_timers (samac_host K E) ts s = s\<lparr>timers := ts\<rparr>"
  "put_kernel (samac_host K E) k s = s\<lparr>kern := k\<rparr>"
  "run_callback (samac_host K E) = samac_run_callback K E"
  by (simp_all add: samac_host_def)

lemma run_callback_RegistrationD:
  assumes "samac_run_callback K E RegistrationCallback s = Inr s'"
  obtains p k where
    "scheduleAt K (simTime K (kern s) + 2 * currentSatelliteLatency s + maxSatelliteProcDelay_s s)
       (ackTimer s) (kern s) = Inr k"
    "s' = s\<lparr>startRegistrationTimestamp := simTime K (kern s),
            expectedAck_Timestamp := simTime K (kern s) + 2 * currentSatelliteLatency s
              + maxSatelliteProcDelay_s s,
            sentDown := p # sentDown s,
            vehicleStatistics := EmitLong sendSatellitePackets 1 #
              EmitLong sendSatelliteRegistrationMessages 1 # vehicleStatistics s,
            kern := k\<rparr>"
proof -
  from assms have "registerAtSatellite K E (s\<lparr>startRegistrationTimestamp := simTime K (kern s)\<rparr>) = Inr s'"
    by simp
  then show ?thesis
    by (rule registerAtSatelliteD) (rule that, simp_all)
qed

lemma run_callback_TransmissionD:
  assumes "samac_run_callback K E TransmissionCallback s = Inr s'"
  obtains "pendingQueue s = []" "s' = s"
  | p q p' r where "pendingQueue s = p # q"
      "s' = s\<lparr>pendingQueue := q, inProgressFrames := r, radioTransmitter := True,
              sentDirect := p' # sentDirect s\<rparr>"
proof (cases "pendingQueue s = []")
  case True
  with assms have "s' = s" by simp
  with True show ?thesis by (rule that(1))
next
  case False
  with assms have "doPacketInjection E s = Inr s'" by simp
  then show ?thesis
    by (rule doPacketInjectionD) (rule that(2))
qed

context sim_kernel
begin

lemma samac_callback_frame:
  assumes r: "samac_run_callback K E cb s = Inr s'"
  shows "timers s' = timers s \<and> simTime K (kern s') = simTime K (kern s)"
proof (cases cb)
  case RegistrationCallback
  from r [unfolded this] show ?thesis
    by (rule run_callback_RegistrationD) (simp add: schedule_time)
next
  case RetryCallback
  with r have "registerAtSatellite K E s = Inr s'" by simp
  then show ?thesis by (rule registerAtSatelliteD) (simp add: schedule_time)
next
  case TransmissionCallback
  from r [unfolded this] show ?thesis
    by (rule run_callback_TransmissionD) simp_all
qed

lemma samac_client: "timer_client K (samac_host K E)"
  by unfold_locales (auto dest: samac_callback_frame)

end

interpretation samac_ref: timer_client ref_kernel "samac_host ref_kernel E" for E
  by (rule ref.samac_client)

section \<open>The invariant\<close>

text \<open>\<open>n\<close> is the number of schedules handled so far.\<close>

definition counts :: "nat \<Rightarrow> 'k samac \<Rightarrow> bool" where
  "counts n s \<longleftrightarrow>
     length (sentDirect s) + callback_count TransmissionCallback (timers s) \<le> n \<and>
     length (sentDown s) + callback_count RegistrationCallback (timers s) = n \<and>
     length (sentDown s) = emitted sendSatelliteRegistrationMessages (vehicleStatistics s)"

definition samac_inv :: "'k kernel_ops \<Rightarrow> 'k samac \<Rightarrow> bool" where
  "samac_inv K s \<longleftrightarrow> timers_inv K {} (timers s) (ackTimer s) (kern s) \<and>
     length (pendingQueue s) \<le> 100 \<and>
     counts (emitted receivedWlanSchedules (vehicleStatistics s)) s \<and>
     (receivedInitialWlanSchedule s \<longleftrightarrow> 0 < emitted receivedWlanSchedules (vehicleStatistics s))"

text \<open>The parts of the state the invariant reads, other than the kernel.\<close>

lemma samac_inv_cong:
  assumes "timers s' = timers s" "ackTimer s' = ackTimer s" "pendingQueue s' = pendingQueue s"
    "sentDirect s' = sentDirect s" "sentDown s' = sentDown s"
    "emitted sendSatelliteRegistrationMessages (vehicleStatistics s') =
       emitted sendSatelliteRegistrationMessages (vehicleStatistics s)"
    "emitted receivedWlanSchedules (vehicleStatistics s') =
       emitted receivedWlanSchedules (vehicleStatistics s)"
    "receivedInitialWlanSchedule s' = receivedInitialWlanSchedule s"
    "arrival K (kern s') = arrival K (kern s)" "known K (kern s') = known K (kern s)"
    "simTime K (kern s') = simTime K (kern s)"
  shows "samac_inv K s' = samac_inv K s"
  using assms timers_inv_cong [of K "kern s'" "kern s" "{}" "timers s" "ackTimer s"]
  by (simp add: samac_inv_def counts_def)

lemma samac_invD:
  assumes "samac_inv K s"
  shows "timers_inv K {} (timers s) (ackTimer s) (kern s)" "length (pendingQueue s) \<le> 100"
    "counts (emitted receivedWlanSchedules (vehicleStatistics s)) s"
    "receivedInitialWlanSchedule s \<longleftrightarrow> 0 < emitted receivedWlanSchedules (vehicleStatistics s)"
  using assms by (simp_all add: samac_inv_def)

context sim_kernel
begin

text \<open>A due timer: its callback runs and the timer is gone.\<close>

lemma samac_timer_eq:
  assumes inv: "timers_inv K {} (timers s) (ackTimer s) (kern s)"
    and m: "arrival K (kern s) m = Some t" "m \<noteq> ackTimer s"
  obtains now cb where "cb \<noteq> RetryCallback"
    "sm_find (timers s) m = Some (finalize now (oneshot_spec t cb))"
    "SAMAC_handleMessageWhenUp K E (SelfMsg (Some m) kind) (s\<lparr>kern := deliver K m (kern s)\<rparr>) =
       rbind (samac_run_callback K E cb (s\<lparr>kern := deliver K m (kern s)\<rparr>)) (\<lambda>s'.
         Inr (s'\<lparr>kern := cancelEvent K m (kern s'), timers := sm_erase m (timers s')\<rparr>))"
proof -
  from m(1) have "arrival K (kern s) m \<noteq> None" by simp
  with inv m(2) have "sm_find (timers s) m \<noteq> None" unfolding timers_inv_def by blast
  then obtain spec where f: "sm_find (timers s) m = Some spec" by blast
  from inv f obtain now u cb where cb: "cb \<noteq> RetryCallback"
    and spec: "spec = finalize now (oneshot_spec u cb)" and u: "m \<notin> {} \<Longrightarrow> arrival K (kern s) m = Some u"
    by (rule timers_inv_oneshot) blast
  from u m(1) have "u = t" by simp
  let ?s = "s\<lparr>kern := deliver K m (kern s)\<rparr>"
  have "tm_handleMessage K (samac_host K E) (Some m) True ?s =
    rbind (samac_run_callback K E cb ?s) (\<lambda>s'.
      Inr (True, s'\<lparr>kern := cancelEvent K m (kern s'), timers := sm_erase m (timers s')\<rparr>))"
    using timer_client.fire_oneshot [OF samac_client [of E], where s = ?s and m = m and now = now
        and t = t and cb = cb] f spec \<open>u = t\<close> deliver_time [OF m(1)] by simp
  then have "SAMAC_handleMessageWhenUp K E (SelfMsg (Some m) kind) ?s =
       rbind (samac_run_callback K E cb ?s) (\<lambda>s'.
         Inr (s'\<lparr>kern := cancelEvent K m (kern s'), timers := sm_erase m (timers s')\<rparr>))"
    by (simp add: SAMAC_handleMessageWhenUp_def rbind_assoc)
  with cb f spec \<open>u = t\<close> show ?thesis by (intro that) simp_all
qed

lemma samac_timer_inv:
  assumes inv: "samac_inv K s" and m: "arrival K (kern s) m = Some t" "m \<noteq> ackTimer s"
    and e: "no_earlier K (kern s) t"
    and h: "SAMAC_handleMessageWhenUp K E (SelfMsg (Some m) kind) (s\<lparr>kern := deliver K m (kern s)\<rparr>) = Inr s'"
  shows "samac_inv K s'"
proof -
  let ?s = "s\<lparr>kern := deliver K m (kern s)\<rparr>"
  note ti = samac_invD(1) [OF inv]
  have q: "length (pendingQueue s) \<le> 100" by (rule samac_invD(2) [OF inv])
  have c: "counts (emitted receivedWlanSchedules (vehicleStatistics s)) s" by (rule samac_invD(3) [OF inv])
  note ri = samac_invD(4) [OF inv]
  from ti m obtain now cb where cb: "cb \<noteq> RetryCallback"
    and f: "sm_find (timers s) m = Some (finalize now (oneshot_spec t cb))"
    and eq: "SAMAC_handleMessageWhenUp K E (SelfMsg (Some m) kind) ?s =
       rbind (samac_run_callback K E cb ?s) (\<lambda>s'.
         Inr (s'\<lparr>kern := cancelEvent K m (kern s'), timers := sm_erase m (timers s')\<rparr>))"
    by (rule samac_timer_eq)
  from h [unfolded eq] obtain s1 where r: "samac_run_callback K E cb ?s = Inr s1"
    and s': "s' = s1\<lparr>kern := cancelEvent K m (kern s1), timers := sm_erase m (timers s1)\<rparr>" by auto
  have td: "timers_inv K {m} (timers s) (ackTimer s) (deliver K m (kern s))"
    using ti m(1) e by (rule timers_inv_deliver)
  have cc: "callback_count b (timers s) = callback_count b (sm_erase m (timers s)) + (if cb = b then 1 else 0)" for b
    using callback_count_erase [OF timers_inv_sm [OF ti] f] by simp
  show ?thesis
  proof (cases cb)
    case RegistrationCallback
    from r [unfolded this] obtain p k where k: "scheduleAt K (simTime K (kern ?s) +
         2 * currentSatelliteLatency ?s + maxSatelliteProcDelay_s ?s) (ackTimer ?s) (kern ?s) = Inr k"
      and s1: "s1 = ?s\<lparr>startRegistrationTimestamp := simTime K (kern ?s),
            expectedAck_Timestamp := simTime K (kern ?s) + 2 * currentSatelliteLatency ?s
              + maxSatelliteProcDelay_s ?s,
            sentDown := p # sentDown ?s,
            vehicleStatistics := EmitLong sendSatellitePackets 1 #
              EmitLong sendSatelliteRegistrationMessages 1 # vehicleStatistics ?s,
            kern := k\<rparr>" by (rule run_callback_RegistrationD)
    have "timers_inv K {m} (timers s) (ackTimer s) k"
      by (rule timers_inv_schedule_ack [OF td]) (use k in simp)
    then have "timers_inv K {} (sm_erase m (timers s)) (ackTimer s) (cancelEvent K m k)"
      using m(2) by (rule timers_inv_finish)
    with q c ri show ?thesis
      by (simp add: samac_inv_def counts_def s' s1 cc RegistrationCallback emitted_Cons)
  next
    case RetryCallback
    with cb show ?thesis by simp
  next
    case TransmissionCallback
    have ti': "timers_inv K {} (sm_erase m (timers s)) (ackTimer s) (cancelEvent K m (deliver K m (kern s)))"
      using td m(2) by (rule timers_inv_finish)
    from r [unfolded TransmissionCallback] show ?thesis
    proof (rule run_callback_TransmissionD)
      assume "s1 = ?s"
      with q c ri ti' show ?thesis
        by (simp add: samac_inv_def counts_def s' cc TransmissionCallback)
    next
      fix p q' p' r' assume "pendingQueue ?s = p # q'"
        and s1: "s1 = ?s\<lparr>pendingQueue := q', inProgressFrames := r', radioTransmitter := True,
              sentDirect := p' # sentDirect ?s\<rparr>"
      with q c ri ti' show ?thesis
        by (simp add: samac_inv_def counts_def s' s1 cc TransmissionCallback)
    qed
  qed
qed

text \<open>The acknowledgement timer: whatever the kind of the message, only a random draw may follow.\<close>

lemma samac_ack_inv:
  assumes inv: "samac_inv K s" and a: "arrival K (kern s) (ackTimer s) = Some t"
    and e: "no_earlier K (kern s) t"
    and h: "SAMAC_handleMessageWhenUp K E (SelfMsg None kind) (s\<lparr>kern := deliver K (ackTimer s) (kern s)\<rparr>) = Inr s'"
  shows "samac_inv K s'"
proof -
  let ?s = "s\<lparr>kern := deliver K (ackTimer s) (kern s)\<rparr>"
  note ti = samac_invD(1) [OF inv]
  have "timers_inv K {} (timers s) (ackTimer s) (deliver K (ackTimer s) (kern s))"
    using ti a e by (rule timers_inv_deliver_ack)
  with inv have inv': "samac_inv K ?s" by (simp add: samac_inv_def counts_def)
  from h have "SAMAC_handleSelfMessage K kind ?s = Inr s'"
    by (simp add: SAMAC_handleMessageWhenUp_def tm_handleMessage_def)
  then consider "s' = ?s" | x k where "uniform K (simTime K (kern ?s)) (lastUsefulRegistrationTime ?s) (kern ?s) = (x, k)"
      "s' = ?s\<lparr>kern := k\<rparr>"
    by (auto simp: SAMAC_handleSelfMessage_def oneshotAt_eq Let_def split: if_splits prod.splits)
  then show ?thesis
  proof cases
    case 1
    with inv' show ?thesis by simp
  next
    case 2
    have "samac_inv K s' = samac_inv K ?s"
      unfolding 2(2) by (rule samac_inv_cong)
        (use uniform_arrival [OF 2(1)] uniform_time [OF 2(1)] uniform_known [OF 2(1)] in simp_all)
    with inv' show ?thesis by simp
  qed
qed

lemma drawn_offset_frame:
  assumes "drawn_offset K ws a k n k'"
  shows "arrival K k' = arrival K k" "known K k' = known K k" "simTime K k' = simTime K k"
proof -
  have "k' = k \<or> (\<exists>i j. intuniform K i j k = (n, k'))"
    using assms by (auto simp: drawn_offset_def split: option.splits if_splits)
  then show "arrival K k' = arrival K k" "known K k' = known K k" "simTime K k' = simTime K k"
    using intuniform_arrival intuniform_known intuniform_time by blast+
qed

text \<open>
  A schedule that is handled: the acknowledgement timer is cancelled, one transmission timer
  and one registration timer are new.
\<close>

lemma handleWlanSchedule_timers:
  assumes h: "handleWlanSchedule K ws s = Inr s'"
    and ti: "timers_inv K {} (timers s) (ackTimer s) (kern s)"
  obtains n k m1 m2 t where
    "drawn_offset K (ws_schedule ws) (address s) (kern s) n k"
    "simTime K (kern s) \<le> ws_begin ws + schedule_delta (ws_schedule ws) (address s) n"
    "simTime K (kern s) \<le> t"
    "simTime K (kern s) < ws_transmit ws + ws_interval ws
        - (2 * (simTime K (kern s) - ws_transmit ws) + maxSatelliteProcDelay_s s) \<Longrightarrow>
     t < ws_transmit ws + ws_interval ws
        - (2 * (simTime K (kern s) - ws_transmit ws) + maxSatelliteProcDelay_s s)"
    "m1 \<noteq> m2" "m1 \<noteq> ackTimer s" "m2 \<noteq> ackTimer s"
    "sm_find (timers s) m1 = None" "sm_find (timers s) m2 = None"
    "timers s' = sm_insert m2 (finalize (simTime K (kern s)) (oneshot_spec t RegistrationCallback))
       (sm_insert m1 (finalize (simTime K (kern s)) (oneshot_spec (ws_begin ws +
          schedule_delta (ws_schedule ws) (address s) n) TransmissionCallback)) (timers s))"
    "arrival K (kern s') = (arrival K (kern s))(m1 \<mapsto> ws_begin ws +
          schedule_delta (ws_schedule ws) (address s) n, ackTimer s := None, m2 \<mapsto> t)"
    "simTime K (kern s') = simTime K (kern s)"
    "timers_inv K {} (timers s') (ackTimer s) (kern s')"
proof -
  from h obtain n k m1 ts1 k1 t k2 m2 ts2 k3 where
    k: "drawn_offset K (ws_schedule ws) (address s) (kern s) n k" and
    c1: "tm_create K (oneshot_spec (ws_begin ws + schedule_delta (ws_schedule ws) (address s) n)
        TransmissionCallback) (timers s) k = Inr (m1, ts1, k1)" and
    u: "uniform K (simTime K (cancelEvent K (ackTimer s) k1))
       (ws_transmit ws + ws_interval ws - (2 * (simTime K k1 - ws_transmit ws)
          + maxSatelliteProcDelay_s s)) (cancelEvent K (ackTimer s) k1) = (t, k2)" and
    c2: "tm_create K (oneshot_spec t RegistrationCallback) ts1 k2 = Inr (m2, ts2, k3)" and
    s': "s' = (note_schedule K ws (s\<lparr>timers := ts1, kern := k1\<rparr>))\<lparr>timers := ts2, kern := k3\<rparr>"
    by (rule handleWlanScheduleD)
  note fr = drawn_offset_frame [OF k]
  have ti1: "timers_inv K {} (timers s) (ackTimer s) k"
    using ti timers_inv_cong [of K k "kern s"] fr by metis
  note d1 = tm_create_oneshotD [OF c1 timers_inv_tm [OF ti1]]
  have ti2: "timers_inv K {} ts1 (ackTimer s) k1" by (rule timers_inv_create [OF ti1 _ c1]) simp
  have ti3: "timers_inv K {} ts1 (ackTimer s) (cancelEvent K (ackTimer s) k1)"
    using ti2 by (rule timers_inv_cancel_ack)
  have ti4: "timers_inv K {} ts1 (ackTimer s) k2"
    using ti3 timers_inv_cong [OF uniform_arrival [OF u] uniform_known [OF u] uniform_time [OF u]] by metis
  note d2 = tm_create_oneshotD [OF c2 timers_inv_tm [OF ti4]]
  have ti5: "timers_inv K {} ts2 (ackTimer s) k3" by (rule timers_inv_create [OF ti4 _ c2]) simp
  have now: "simTime K k2 = simTime K (kern s)" "simTime K k1 = simTime K (kern s)"
    using d1 fr by (simp_all add: uniform_time [OF u] cancel_time)
  have f: "sm_find ts1 m2 = None" by (rule d2(1))
  then have m: "m1 \<noteq> m2" "sm_find (timers s) m2 = None" using d1(3) by (auto split: if_splits)
  have ka: "known K k (ackTimer s)" "known K k2 (ackTimer s)"
    using ti1 ti4 by (simp_all add: timers_inv_def)
  have a: "m1 \<noteq> ackTimer s" "m2 \<noteq> ackTimer s" using d1(7) d2(7) ka by auto
  have less: "simTime K (kern s) < ws_transmit ws + ws_interval ws
        - (2 * (simTime K (kern s) - ws_transmit ws) + maxSatelliteProcDelay_s s) \<Longrightarrow>
     t < ws_transmit ws + ws_interval ws
        - (2 * (simTime K (kern s) - ws_transmit ws) + maxSatelliteProcDelay_s s)"
    using uniform_range [OF u] now by (simp add: cancel_time)
  show ?thesis
  proof (rule that [OF k _ _ less m(1) a d1(1) m(2)])
    show "simTime K (kern s) \<le> ws_begin ws + schedule_delta (ws_schedule ws) (address s) n"
      using d1(2) fr by simp
    show "simTime K (kern s) \<le> t" using d2(2) now by simp
    show "timers s' = sm_insert m2 (finalize (simTime K (kern s)) (oneshot_spec t RegistrationCallback))
       (sm_insert m1 (finalize (simTime K (kern s)) (oneshot_spec (ws_begin ws +
          schedule_delta (ws_schedule ws) (address s) n) TransmissionCallback)) (timers s))"
      using d1(10) d2(10) now fr by (simp add: s')
    show "arrival K (kern s') = (arrival K (kern s))(m1 \<mapsto> ws_begin ws +
          schedule_delta (ws_schedule ws) (address s) n, ackTimer s := None, m2 \<mapsto> t)"
      using d1(4) d2(4) fr by (simp add: s' uniform_arrival [OF u] cancel_arrival)
    show "simTime K (kern s') = simTime K (kern s)" using d2(5) now by (simp add: s')
    show "timers_inv K {} (timers s') (ackTimer s) (kern s')" using ti5 by (simp add: s')
  qed
qed

lemma handleWlanSchedule_counts:
  assumes h: "handleWlanSchedule K ws s = Inr s'"
    and ti: "timers_inv K {} (timers s) (ackTimer s) (kern s)" and c: "counts n s"
  shows "counts (Suc n) s'"
proof -
  from handleWlanSchedule_timers [OF h ti] obtain m1 m2 sp1 sp2 where
    f: "m1 \<noteq> m2" "sm_find (timers s) m1 = None" "sm_find (timers s) m2 = None" and
    ts: "timers s' = sm_insert m2 sp2 (sm_insert m1 sp1 (timers s))" and
    cb: "ts_callback sp1 = TransmissionCallback" "ts_callback sp2 = RegistrationCallback"
    by (metis oneshot_sel(5))
  have "sm_find (sm_insert m1 sp1 (timers s)) m2 = None"
    using sm.find_insert_other [OF timers_inv_sm [OF ti] f(1)] f(3) by simp
  then have "callback_count TransmissionCallback (timers s') = Suc (callback_count TransmissionCallback (timers s))"
    "callback_count RegistrationCallback (timers s') = Suc (callback_count RegistrationCallback (timers s))"
    using f cb by (simp_all add: ts callback_count_insert)
  moreover have "sentDirect s' = sentDirect s" "sentDown s' = sentDown s"
    "emitted sendSatelliteRegistrationMessages (vehicleStatistics s') =
     emitted sendSatelliteRegistrationMessages (vehicleStatistics s)"
    by (rule handleWlanScheduleD [OF h]; simp)+
  ultimately show ?thesis using c by (simp add: counts_def)
qed

lemma handleWlanSchedule_frame:
  assumes h: "handleWlanSchedule K ws s = Inr s'"
  shows "pendingQueue s' = pendingQueue s" "ackTimer s' = ackTimer s" "sentDown s' = sentDown s"
    "sentDirect s' = sentDirect s" "address s' = address s"
    "receivedInitialWlanSchedule s' = receivedInitialWlanSchedule s" "registeredAtSatellite s' = False"
    "maxSatelliteProcDelay_s s' = maxSatelliteProcDelay_s s"
    "emitted receivedWlanSchedules (vehicleStatistics s') = emitted receivedWlanSchedules (vehicleStatistics s)"
  by (rule handleWlanScheduleD [OF h]; simp)+

end

lemma processWlanScheduleD:
  assumes "processWlanSchedule K pk s = Inr s'"
  obtains a b ws s1 where "pk_macInd pk = Some (a, b)"
    "handleWlanSchedule K ws (s\<lparr>leoSatelliteMacAddress := b\<rparr>) = Inr s1"
    "s' = s1\<lparr>receivedInitialWlanSchedule := True,
             vehicleStatistics := EmitLong receivedSatellitePackets 1 #
               EmitLong receivedWlanSchedules 1 # vehicleStatistics s1\<rparr>"
proof -
  from assms obtain a b where ab: "pk_macInd pk = Some (a, b)"
    by (auto simp: processWlanSchedule_def split: option.splits)
  with assms obtain ws s1 where h: "handleWlanSchedule K ws (s\<lparr>leoSatelliteMacAddress := b\<rparr>) = Inr s1"
    and e: "Inr s' = (let s2 = if \<not> receivedInitialWlanSchedule s1
                       then s1\<lparr>receivedInitialWlanSchedule := True\<rparr> else s1;
                  s3 = s2\<lparr>vehicleStatistics := recordReceivedWlanSchedules (vehicleStatistics s2)\<rparr>
              in (Inr (s3\<lparr>vehicleStatistics := recordReceivedSatellitePackets (vehicleStatistics s3)\<rparr>) :: 'a samac res))"
    by (auto simp: processWlanSchedule_def split: chunk.splits)
  have "s' = s1\<lparr>receivedInitialWlanSchedule := True,
             vehicleStatistics := EmitLong receivedSatellitePackets 1 #
               EmitLong receivedWlanSchedules 1 # vehicleStatistics s1\<rparr>"
    using e by (cases s1) (simp add: Let_def record_defs split: if_splits)
  with ab h show ?thesis by (rule that)
qed

lemma processLeoAckD:
  assumes "processLeoAck pk s = Inr s'"
  obtains v st where "s' = s\<lparr>registeredAtSatellite := v, vehicleStatistics := st @ vehicleStatistics s\<rparr>"
    "emitted receivedWlanSchedules st = 0" "emitted sendSatelliteRegistrationMessages st = 0"
proof -
  from assms have "s' = s\<lparr>registeredAtSatellite := True, vehicleStatistics :=
        [EmitLong receivedSatellitePackets 1, EmitLong receivedSatelliteRegistrationAcks 1] @ vehicleStatistics s\<rparr>
    \<or> s' = s\<lparr>registeredAtSatellite := registeredAtSatellite s, vehicleStatistics :=
        [EmitLong receivedSatellitePackets 1] @ vehicleStatistics s\<rparr>"
    by (auto simp: processLeoAck_def Let_def record_defs split: chunk.splits if_splits)
  then show ?thesis
    by (elim disjE; intro that) (assumption | simp add: emitted_Cons)+
qed

context sim_kernel
begin

lemma processWlanSchedule_inv:
  assumes h: "processWlanSchedule K pk s = Inr s'" and inv: "samac_inv K s"
  shows "samac_inv K s'"
proof -
  from h obtain a b ws s1 where
    h1: "handleWlanSchedule K ws (s\<lparr>leoSatelliteMacAddress := b\<rparr>) = Inr s1" and
    s': "s' = s1\<lparr>receivedInitialWlanSchedule := True,
             vehicleStatistics := EmitLong receivedSatellitePackets 1 #
               EmitLong receivedWlanSchedules 1 # vehicleStatistics s1\<rparr>"
    by (rule processWlanScheduleD)
  let ?s = "s\<lparr>leoSatelliteMacAddress := b\<rparr>"
  have ti: "timers_inv K {} (timers ?s) (ackTimer ?s) (kern ?s)" using samac_invD(1) [OF inv] by simp
  have c: "counts (emitted receivedWlanSchedules (vehicleStatistics s)) ?s"
    using samac_invD(3) [OF inv] by (simp add: counts_def)
  note fr = handleWlanSchedule_frame [OF h1]
  have "timers_inv K {} (timers s1) (ackTimer s1) (kern s1)"
    using h1 ti by (rule handleWlanSchedule_timers) (simp add: fr)
  moreover have "counts (Suc (emitted receivedWlanSchedules (vehicleStatistics s))) s1"
    using h1 ti c by (rule handleWlanSchedule_counts)
  ultimately show ?thesis
    using samac_invD(2) [OF inv] fr
    by (simp add: samac_inv_def s' counts_def emitted_Cons)
qed

lemma processLeoAck_inv:
  assumes h: "processLeoAck pk s = Inr s'" and inv: "samac_inv K s"
  shows "samac_inv K s'"
  using h
proof (rule processLeoAckD)
  fix v st assume s': "s' = s\<lparr>registeredAtSatellite := v, vehicleStatistics := st @ vehicleStatistics s\<rparr>"
    and st: "emitted receivedWlanSchedules st = 0" "emitted sendSatelliteRegistrationMessages st = 0"
  have "samac_inv K s' = samac_inv K s"
    unfolding s' by (rule samac_inv_cong) (use st in \<open>simp_all add: emitted_def\<close>)
  with inv show ?thesis by simp
qed

lemma samac_packet_inv:
  assumes inv: "samac_inv K s" and e: "no_earlier K (kern s) t"
    and h: "SAMAC_handleMessageWhenUp K E (PacketMsg g pk) (s\<lparr>kern := advance K t (kern s)\<rparr>) = Inr s'"
  shows "samac_inv K s'"
proof -
  let ?s = "s\<lparr>kern := advance K t (kern s)\<rparr>"
  have inv': "samac_inv K ?s"
    using inv timers_inv_advance [OF samac_invD(1) [OF inv] e] by (simp add: samac_inv_def counts_def)
  have "handleLeoPacket K pk ?s = Inr s' \<or> s' = handleUpperPacket pk ?s \<or> s' = ?s"
    using h by (cases g) (simp_all add: SAMAC_handleMessageWhenUp_def tm_handleMessage_def)
  then consider "handleLeoPacket K pk ?s = Inr s'" | "s' = handleUpperPacket pk ?s" | "s' = ?s"
    by blast
  then show ?thesis
  proof cases
    case 1
    then have "processLeoAck pk ?s = Inr s' \<or> processWlanSchedule K pk ?s = Inr s' \<or> s' = ?s"
      by (simp add: handleLeoPacket_def processLeoPacket_def split: if_splits)
    then consider "processLeoAck pk ?s = Inr s'" | "processWlanSchedule K pk ?s = Inr s'" | "s' = ?s"
      by blast
    then show ?thesis
      using inv' processLeoAck_inv processWlanSchedule_inv by cases blast+
  next
    case 2
    show ?thesis
      using inv' pushPacket_bound [OF samac_invD(2) [OF inv'], of pk]
      by (auto simp: 2 samac_inv_def counts_def handleUpperPacket_def)
  next
    case 3
    with inv' show ?thesis by simp
  qed
qed

lemma samac_step_inv: "samac_step K E s s' \<Longrightarrow> samac_inv K s \<Longrightarrow> samac_inv K s'"
  by (induction rule: samac_step.induct)
    (blast intro: samac_timer_inv samac_ack_inv samac_packet_inv)+

text \<open>The module right after initialisation, before the kernel has anything pending.\<close>

lemma samac_boot_inv:
  assumes b: "samac_boot K E k = Inr s" and k: "arrival K k = Map.empty"
  shows "samac_inv K s"
proof -
  obtain m k' where n: "newMessage K k = (m, k')" by fastforce
  from b have s: "timers s = []" "ackTimer s = m" "kern s = k'" "pendingQueue s = []" "sentDown s = []"
      "sentDirect s = []" "vehicleStatistics s = []" "receivedInitialWlanSchedule s = False"
    by (auto simp: samac_boot_def SAMAC_initialize_def configureInterfaceEntry_def Let_def n
        SAMAC_handleStartOperation_def)
  have "timers_inv K {} [] m k'"
    using new_known [OF n] new_arrival [OF n] k by (simp add: timers_inv_def)
  with s show ?thesis
    by (simp add: samac_inv_def counts_def callback_count_def)
qed

theorem samac_reachable_inv:
  "samac_reachable K E k s \<Longrightarrow> arrival K k = Map.empty \<Longrightarrow> samac_inv K s"
  by (induction rule: samac_reachable.induct) (blast intro: samac_boot_inv samac_step_inv)+

text \<open>Conditions under which a schedule is accepted.\<close>

lemma dbl_trunc_nonneg: "0 \<le> mant d \<Longrightarrow> 0 \<le> dbl_trunc d"
  by (simp add: dbl_trunc_def pos_imp_zdiv_nonneg_iff)

lemma slot_ms_nonneg: "0 \<le> mant d \<Longrightarrow> 0 \<le> slot_ms d"
  unfolding slot_ms_def by (rule dbl_trunc_nonneg) (rule mant_dbl_times_nonneg, simp_all)

lemma scheduleWlanTransmission_eq:
  assumes "drawn_offset K ws (address s) (kern s) n k"
  shows "scheduleWlanTransmission K ws begin s =
    create_oneshot K TransmissionCallback (begin + schedule_delta ws (address s) n) (s\<lparr>kern := k\<rparr>)"
  using assms
  by (auto simp: drawn_offset_def scheduleWlanTransmission_def schedule_delta_def
      split: option.splits if_splits)

lemma drawn_offset_total:
  assumes "sm_find ws a = None \<Longrightarrow> length ws \<le> 100"
  obtains n k' where "drawn_offset K ws a k n k'"
proof (cases "sm_find ws a = None \<and> length ws < 100")
  case True
  obtain n k' where "intuniform K (int (length ws)) 99 k = (n, k')" by fastforce
  with True that show ?thesis by (simp add: drawn_offset_def)
next
  case False
  with assms that [of 0 k] show ?thesis by (auto simp: drawn_offset_def split: option.splits)
qed

lemma schedule_delta_nonneg:
  assumes d: "drawn_offset K ws a k n k'" and slots: "\<And>v d. sm_find ws v = Some d \<Longrightarrow> 0 \<le> mant d"
  shows "0 \<le> schedule_delta ws a n"
proof (cases "sm_find ws a")
  case None
  have "0 \<le> n" if "length ws < 100"
    using that d None intuniform_range [of "int (length ws)" 99 k n k'] by (simp add: drawn_offset_def)
  with None show ?thesis by (simp add: schedule_delta_def SIMTIME_MS_def)
next
  case (Some d)
  with slots show ?thesis by (simp add: schedule_delta_def SIMTIME_MS_def slot_ms_nonneg)
qed

lemma handleWlanSchedule_total:
  assumes ti: "timers_inv K {} (timers s) (ackTimer s) (kern s)"
    and size: "sm_find (ws_schedule ws) (address s) = None \<Longrightarrow> length (ws_schedule ws) \<le> 100"
    and slots: "\<And>v d. sm_find (ws_schedule ws) v = Some d \<Longrightarrow> 0 \<le> mant d"
    and start: "simTime K (kern s) \<le> ws_begin ws"
    and window: "simTime K (kern s) < ws_transmit ws + ws_interval ws
        - (2 * (simTime K (kern s) - ws_transmit ws) + maxSatelliteProcDelay_s s)"
  shows "\<exists>s'. handleWlanSchedule K ws s = Inr s'"
proof -
  from size obtain n k where k: "drawn_offset K (ws_schedule ws) (address s) (kern s) n k"
    by (rule drawn_offset_total)
  note fr = drawn_offset_frame [OF k]
  let ?tx = "ws_begin ws + schedule_delta (ws_schedule ws) (address s) n"
  have ti1: "timers_inv K {} (timers s) (ackTimer s) k"
    using ti timers_inv_cong [of K k "kern s"] fr by metis
  have "0 \<le> schedule_delta (ws_schedule ws) (address s) n"
    using k by (rule schedule_delta_nonneg) (rule slots)
  then have "simTime K k \<le> ?tx" using start fr by simp
  then obtain m1 ts1 k1 where c1: "tm_create K (oneshot_spec ?tx TransmissionCallback) (timers s) k
      = Inr (m1, ts1, k1)"
    using tm_create_oneshot_total [OF timers_inv_tm [OF ti1] timers_inv_known [OF ti1]] by metis
  note d1 = tm_create_oneshotD [OF c1 timers_inv_tm [OF ti1]]
  have ti3: "timers_inv K {} ts1 (ackTimer s) (cancelEvent K (ackTimer s) k1)"
    by (rule timers_inv_cancel_ack, rule timers_inv_create [OF ti1 _ c1]) simp
  obtain t k2 where u: "uniform K (simTime K (cancelEvent K (ackTimer s) k1))
       (ws_transmit ws + ws_interval ws - (2 * (simTime K k1 - ws_transmit ws)
          + maxSatelliteProcDelay_s s)) (cancelEvent K (ackTimer s) k1) = (t, k2)"
    by fastforce
  have ti4: "timers_inv K {} ts1 (ackTimer s) k2"
    using ti3 timers_inv_cong [OF uniform_arrival [OF u] uniform_known [OF u] uniform_time [OF u]] by metis
  have "simTime K k2 \<le> t"
    using uniform_range [OF u] window d1(5) fr by (simp add: uniform_time [OF u] cancel_time)
  then obtain m2 ts2 k3 where c2: "tm_create K (oneshot_spec t RegistrationCallback) ts1 k2
      = Inr (m2, ts2, k3)"
    using tm_create_oneshot_total [OF timers_inv_tm [OF ti4] timers_inv_known [OF ti4]] by metis
  have "scheduleWlanTransmission K (ws_schedule ws) (ws_begin ws) s = Inr (s\<lparr>timers := ts1, kern := k1\<rparr>)"
    using c1 by (simp add: scheduleWlanTransmission_eq [OF k] create_oneshot_def oneshotAt_eq)
  then show ?thesis
    using u c2 by (simp add: handleWlanSchedule_eq create_oneshot_def oneshotAt_eq)
qed

text \<open>A transmission time in the past is refused by the kernel.\<close>

lemma handleWlanSchedule_late:
  assumes ti: "timers_inv K {} (timers s) (ackTimer s) (kern s)"
    and f: "sm_find (ws_schedule ws) (address s) = Some d"
    and late: "ws_begin ws + slot_ms d * SIMTIME_MS < simTime K (kern s)"
  shows "handleWlanSchedule K ws s = Inl SchedulePast"
proof -
  obtain m k1 where n: "newMessage K (kern s) = (m, k1)" by fastforce
  have "sm_find (timers s) m = None"
    using new_fresh [OF n] timers_inv_tm [OF ti] by (cases "sm_find (timers s) m") (auto simp: tm_inv_def)
  moreover have "scheduleAt K (ws_begin ws + slot_ms d * SIMTIME_MS) m k1 = Inl SchedulePast"
    using late by (intro schedule_past) (simp add: new_time [OF n])
  ultimately show ?thesis
    using f by (simp add: handleWlanSchedule_eq scheduleWlanTransmission_def create_oneshot_def
        oneshotAt_eq tm_create_oneshot_eq n)
qed

lemma drawn_offset_delta:
  assumes "drawn_offset K ws a k n k'"
  shows "case sm_find ws a of
        Some d \<Rightarrow> schedule_delta ws a n = slot_ms d * SIMTIME_MS
      | None \<Rightarrow> if length ws < 100
               then \<exists>i. int (length ws) \<le> i \<and> i \<le> 99 \<and> schedule_delta ws a n = i * SIMTIME_MS
               else length ws = 100 \<and> schedule_delta ws a n = 0"
  using assms intuniform_range [of "int (length ws)" 99 k n k']
  by (auto simp: drawn_offset_def schedule_delta_def split: option.splits if_splits)

lemma handleWlanSchedule_last:
  assumes h: "handleWlanSchedule K ws s = Inr s'"
    and ti: "timers_inv K {} (timers s) (ackTimer s) (kern s)"
  shows "lastUsefulRegistrationTime s' = ws_transmit ws + ws_interval ws
        - (2 * (simTime K (kern s) - ws_transmit ws) + maxSatelliteProcDelay_s s)"
    and "currentSatelliteLatency s' = simTime K (kern s) - ws_transmit ws"
    and "endOfCurrentWlanSchedule s' = ws_transmit ws + ws_interval ws"
proof -
  from h obtain n k m1 ts1 k1 ts2 k3 where
    k: "drawn_offset K (ws_schedule ws) (address s) (kern s) n k" and
    c1: "tm_create K (oneshot_spec (ws_begin ws + schedule_delta (ws_schedule ws) (address s) n)
        TransmissionCallback) (timers s) k = Inr (m1, ts1, k1)" and
    s': "s' = (note_schedule K ws (s\<lparr>timers := ts1, kern := k1\<rparr>))\<lparr>timers := ts2, kern := k3\<rparr>"
    by (rule handleWlanScheduleD)
  have "timers_inv K {} (timers s) (ackTimer s) k"
    using ti timers_inv_cong [of K k "kern s"] drawn_offset_frame [OF k] by metis
  then have "simTime K k1 = simTime K (kern s)"
    using tm_create_oneshotD(5) [OF c1 timers_inv_tm] drawn_offset_frame [OF k] by simp
  then show "lastUsefulRegistrationTime s' = ws_transmit ws + ws_interval ws
        - (2 * (simTime K (kern s) - ws_transmit ws) + maxSatelliteProcDelay_s s)"
    "currentSatelliteLatency s' = simTime K (kern s) - ws_transmit ws"
    "endOfCurrentWlanSchedule s' = ws_transmit ws + ws_interval ws"
    by (simp_all add: s' note_schedule_def Let_def)
qed

end

end
