(* ===== verification/SV_Vehicle.thy ===== *)
theory SV_Vehicle
  imports SV_SAMAC_Inv
begin

text \<open>
  The properties of the vehicle, stated over the handlers of \<open>SV_SAMAC\<close> for every kernel
  that satisfies \<open>sim_kernel\<close>, each with a witness on the reference kernel: a vehicle that
  boots, receives a schedule, registers and injects a frame.
\<close>

section \<open>A concrete vehicle\<close>

definition ex_env :: samac_env where
  "ex_env = \<lparr>par_maxSatelliteProcDelay_s = 5000000000, par_wlanBitrate = 3000000,
     par_wlanBandwidth = 10000000, par_qosStation = True, par_localMacAddress = 7, par_mtu = 1500,
     par_leoSatelliteSamacDestPort = 9001,
     par_leoSatelliteSamacMulticastAddress = ''224.0.0.1'', satelliteIpAddress = ''10.0.0.7'',
     tryResolve = (\<lambda>a. if a = ''224.0.0.1'' then L3_IPv4 0xE0000001 else L3_IPv4 0x0A000007),
     findInterfaceByName = (\<lambda>_. Some 101),
     findProtocolNumber = (\<lambda>p. if p = P_ipv4 then 0x0800 else -1),
     mib = \<lparr>mib_address = 7, mib_mode = INDEPENDENT, mib_stationType = NO_STATION_TYPE, mib_bssid = 0\<rparr>,
     extractFramesToTransmit = (\<lambda>q. case q of [] \<Rightarrow> None | p # q \<Rightarrow> Some ([p], q))\<rparr>"

definition default_slot :: dbl where   \<comment> \<open>the double nearest to 0.001\<close>
  "default_slot = Dbl 4611686018427388 62"

definition ex_schedule :: SpaceVeinsWlanScheduleMessage where
  "ex_schedule = \<lparr>ws_schedule = [(3, dbl_times 0 default_slot), (7, dbl_times 1 default_slot)],
     ws_begin = 150000000000, ws_interval = 1000000000000, ws_transmit = 100000000000,
     ws_length = 52, ws_created = 100000000000\<rparr>"

definition ex_schedule_packet :: packet where
  "ex_schedule_packet = (new_packet ''wlanSchedule'')
     \<lparr>pk_chunks := [Ipv4Header 0x0A000001 0xE0000001 P_udp 1 80, UdpHeader 9001 9001 60,
                     WlanScheduleChunk ex_schedule],
      pk_macInd := Some (1, 0xFFFFFFFFFFFF)\<rparr>"

definition ex_data_packet :: packet where
  "ex_data_packet = (new_packet ''wsm'')\<lparr>pk_chunks := [PayloadChunk 42 200], pk_protocol := Some P_ipv4,
     pk_macReq := Some 0xFFFFFFFFFFFF\<rparr>"

text \<open>After booting, after the schedule at 104 ms, and after a packet from above at 110 ms.\<close>

definition ex_vehicle0 :: "ref_state samac" where
  "ex_vehicle0 = \<lparr>kern = \<lparr>rk_now = 0, rk_fes = [], rk_next = 1\<rparr>, timers = [], ackTimer = 0,
     pendingQueue = [], inProgressFrames = [], registeredAtSatellite = False,
     receivedInitialWlanSchedule = False, qosStation = True, wlanBandwidth = 10000000,
     wlanBitrate = 3000000, address = 7, leoSatelliteMacAddress = 0, wlanScheduleInterval_s = 0,
     endOfCurrentWlanSchedule = 0, currentSatelliteLatency = 0, startRegistrationTimestamp = 0,
     lastUsefulRegistrationTime = 0, maxSatelliteProcDelay_s = 5000000000,
     expectedAck_Timestamp = 0, satelliteInterfaceEntry = Some 101, vehicleStatistics = [],
     sentDown = [], sentDirect = [], radioTransmitter = False\<rparr>"

definition ex_tx_spec :: "samac_callback TimerSpecification" where
  "ex_tx_spec = finalize 104000000000 (oneshot_spec 151000000000 TransmissionCallback)"

definition ex_reg_spec :: "samac_callback TimerSpecification" where
  "ex_reg_spec = finalize 104000000000 (oneshot_spec 595500000000 RegistrationCallback)"

definition ex_vehicle1 :: "ref_state samac" where
  "ex_vehicle1 = ex_vehicle0
     \<lparr>kern := \<lparr>rk_now = 104000000000, rk_fes = [(2, 595500000000), (1, 151000000000)], rk_next = 3\<rparr>,
      timers := [(1, ex_tx_spec), (2, ex_reg_spec)], receivedInitialWlanSchedule := True,
      leoSatelliteMacAddress := 0xFFFFFFFFFFFF, wlanScheduleInterval_s := 1000000000000,
      endOfCurrentWlanSchedule := 1100000000000, currentSatelliteLatency := 4000000000,
      lastUsefulRegistrationTime := 1087000000000,
      vehicleStatistics := [EmitLong receivedSatellitePackets 1, EmitLong receivedWlanSchedules 1,
        EmitTime applLayerSatelliteLatency 4000000000, EmitTime applLayerRoundTripTime 13000000000]\<rparr>"

definition ex_vehicle2 :: "ref_state samac" where
  "ex_vehicle2 = ex_vehicle1
     \<lparr>kern := (kern ex_vehicle1)\<lparr>rk_now := 110000000000\<rparr>, pendingQueue := [ex_data_packet]\<rparr>"

lemma ref_sel:
  "simTime ref_kernel = rk_now" "arrival ref_kernel k m = map_of (rk_fes k) m"
  "known ref_kernel k m = (m < rk_next k)"
  "scheduleAt ref_kernel t m k = (if t < rk_now k then Inl SchedulePast
        else if map_of (rk_fes k) m \<noteq> None then Inl AlreadyScheduled
        else Inr (k\<lparr>rk_fes := (m, t) # rk_fes k\<rparr>))"
  "cancelEvent ref_kernel m k = k\<lparr>rk_fes := sm_erase m (rk_fes k)\<rparr>"
  "newMessage ref_kernel k = (rk_next k, k\<lparr>rk_next := Suc (rk_next k)\<rparr>)"
  "uniform ref_kernel a b k = ((a + b) div 2, k)"
  "intuniform ref_kernel i j k = (i, k)"
  "deliver ref_kernel m k = k\<lparr>rk_now := (case map_of (rk_fes k) m of None \<Rightarrow> rk_now k | Some t \<Rightarrow> t),
                        rk_fes := sm_erase m (rk_fes k)\<rparr>"
  "advance ref_kernel t k = k\<lparr>rk_now := t\<rparr>"
  by (simp_all add: ref_kernel_def)

lemma ex_boot: "samac_boot ref_kernel ex_env ref_init = Inr ex_vehicle0"
  by (simp add: samac_boot_def SAMAC_initialize_def configureInterfaceEntry_def
      SAMAC_handleStartOperation_def ref_sel ex_env_def ex_vehicle0_def ref_init_def)

lemma ex_slot: "slot_ms (dbl_times 1 default_slot) = 1"
  by code_simp

lemma ex_handle: "handleWlanSchedule ref_kernel ex_schedule
    (ex_vehicle0\<lparr>kern := advance ref_kernel 104000000000 (kern ex_vehicle0),
       leoSatelliteMacAddress := 0xFFFFFFFFFFFF\<rparr>) = Inr (ex_vehicle1
      \<lparr>receivedInitialWlanSchedule := False,
       vehicleStatistics := [EmitTime applLayerSatelliteLatency 4000000000,
          EmitTime applLayerRoundTripTime 13000000000]\<rparr>)"
  by (simp add: handleWlanSchedule_def scheduleWlanTransmission_def create_oneshot_def oneshotAt_eq
      tm_create_def ex_schedule_def ex_vehicle0_def ex_vehicle1_def ref_sel sm_find_def ex_slot
      record_defs SIMTIME_MS_def ex_tx_spec_def ex_reg_spec_def sm_erase_def)

lemma ex_step1: "SAMAC_handleMessageWhenUp ref_kernel ex_env (PacketMsg LowerLayerIn ex_schedule_packet)
     (ex_vehicle0\<lparr>kern := advance ref_kernel 104000000000 (kern ex_vehicle0)\<rparr>) = Inr ex_vehicle1"
  using ex_handle
  by (simp add: SAMAC_handleMessageWhenUp_def tm_handleMessage_def handleLeoPacket_def
      processLeoPacket_def ex_schedule_packet_def has_chunk_def processWlanSchedule_def popAtFront_def
      peekAtFront_def record_defs ex_vehicle1_def)

lemma ex_step2: "SAMAC_handleMessageWhenUp ref_kernel ex_env (PacketMsg UpperLayerIn ex_data_packet)
     (ex_vehicle1\<lparr>kern := advance ref_kernel 110000000000 (kern ex_vehicle1)\<rparr>) = Inr ex_vehicle2"
  by (simp add: SAMAC_handleMessageWhenUp_def tm_handleMessage_def handleUpperPacket_def
      pushPacket_DropTail ex_vehicle2_def ex_vehicle1_def ex_vehicle0_def ref_sel)

lemma ex_reach:
  "samac_reachable ref_kernel ex_env ref_init ex_vehicle0"
  "samac_reachable ref_kernel ex_env ref_init ex_vehicle1"
  "samac_reachable ref_kernel ex_env ref_init ex_vehicle2"
proof -
  show 0: "samac_reachable ref_kernel ex_env ref_init ex_vehicle0"
    by (rule samac_reachable.boot) (rule ex_boot)
  have "samac_step ref_kernel ex_env ex_vehicle0 ex_vehicle1"
    by (rule samac_step.packet [OF _ _ ex_step1])
      (simp_all add: no_earlier_def ref_sel ex_vehicle0_def)
  with 0 show 1: "samac_reachable ref_kernel ex_env ref_init ex_vehicle1"
    by (rule samac_reachable.step)
  have "samac_step ref_kernel ex_env ex_vehicle1 ex_vehicle2"
    by (rule samac_step.packet [OF _ _ ex_step2])
      (auto simp: no_earlier_def ref_sel ex_vehicle1_def split: if_splits)
  with 1 show "samac_reachable ref_kernel ex_env ref_init ex_vehicle2"
    by (rule samac_reachable.step)
qed

lemma ref_init_empty: "arrival ref_kernel ref_init = Map.empty"
  by (simp add: fun_eq_iff ref_sel ref_init_def)

section \<open>The timers and what they account for\<close>

text \<open>C7: In every reachable state of the vehicle each timer of its timer manager has its message
  pending exactly at the start of the timer, no pending message is overdue, a pending message
  belongs to a timer or is the acknowledgement timer, and no timer runs the retry callback.\<close>

theorem vehicle_timers_pending:
  assumes "sim_kernel K" and "arrival K k = Map.empty" and "samac_reachable K E k s"
  shows "(\<forall>m spec. sm_find (timers s) m = Some spec \<longrightarrow>
            arrival K (kern s) m = Some (ts_start spec) \<and> simTime K (kern s) \<le> ts_start spec \<and>
            ts_callback spec \<noteq> RetryCallback \<and> m \<noteq> ackTimer s) \<and>
         (\<forall>m u. arrival K (kern s) m = Some u \<longrightarrow> simTime K (kern s) \<le> u \<and>
            (m = ackTimer s \<or> sm_find (timers s) m \<noteq> None))"
proof -
  have ti: "timers_inv K {} (timers s) (ackTimer s) (kern s)"
    by (rule samac_invD(1) [OF sim_kernel.samac_reachable_inv [OF assms(1,3,2)]])
  show ?thesis
  proof (intro conjI allI impI)
    fix m spec assume m: "sm_find (timers s) m = Some spec"
    from ti m obtain now t cb where "cb \<noteq> RetryCallback" "spec = finalize now (oneshot_spec t cb)"
      "m \<notin> {} \<Longrightarrow> arrival K (kern s) m = Some t" by (rule timers_inv_oneshot) blast
    then show a: "arrival K (kern s) m = Some (ts_start spec)" and "ts_callback spec \<noteq> RetryCallback"
      by simp_all
    from a ti show "simTime K (kern s) \<le> ts_start spec" unfolding timers_inv_def by blast
    show "m \<noteq> ackTimer s" using m timers_inv_ack [OF ti] by auto
  next
    fix m u assume "arrival K (kern s) m = Some u"
    with ti show "simTime K (kern s) \<le> u" "m = ackTimer s \<or> sm_find (timers s) m \<noteq> None"
      unfolding timers_inv_def by blast+
  qed
qed

lemma vehicle_timers_pending_witness:
  "samac_reachable ref_kernel ex_env ref_init ex_vehicle2 \<and>
   sm_find (timers ex_vehicle2) 1 = Some ex_tx_spec \<and>
   arrival ref_kernel (kern ex_vehicle2) 1 = Some (ts_start ex_tx_spec)"
proof -
  have f: "sm_find (timers ex_vehicle2) 1 = Some ex_tx_spec"
    by (simp add: ex_vehicle2_def ex_vehicle1_def sm_find_def)
  with vehicle_timers_pending [OF ref_sim_kernel ref_init_empty ex_reach(3)] ex_reach(3)
  show ?thesis by blast
qed

text \<open>C4: Every schedule a vehicle has received is accounted for by exactly one registration, sent or
  still waiting in a timer, and by at most one injected frame or waiting transmission timer; the
  packets sent to the satellite are exactly the registrations counted by the statistics.\<close>

theorem vehicle_accounting:
  assumes "sim_kernel K" and "arrival K k = Map.empty" and "samac_reachable K E k s"
  shows "length (sentDown s) + callback_count RegistrationCallback (timers s) =
           emitted receivedWlanSchedules (vehicleStatistics s) \<and>
         length (sentDirect s) + callback_count TransmissionCallback (timers s) \<le>
           emitted receivedWlanSchedules (vehicleStatistics s) \<and>
         length (sentDown s) = emitted sendSatelliteRegistrationMessages (vehicleStatistics s) \<and>
         (receivedInitialWlanSchedule s \<longleftrightarrow> 0 < emitted receivedWlanSchedules (vehicleStatistics s)) \<and>
         length (pendingQueue s) \<le> 100"
  using sim_kernel.samac_reachable_inv [OF assms(1,3,2)] by (simp add: samac_inv_def counts_def)

lemma vehicle_accounting_witness:
  "samac_reachable ref_kernel ex_env ref_init ex_vehicle2 \<and>
   emitted receivedWlanSchedules (vehicleStatistics ex_vehicle2) = 1 \<and>
   callback_count RegistrationCallback (timers ex_vehicle2) = 1"
proof -
  have 1: "emitted receivedWlanSchedules (vehicleStatistics ex_vehicle2) = 1" "sentDown ex_vehicle2 = []"
    by (simp_all add: ex_vehicle2_def ex_vehicle1_def ex_vehicle0_def emitted_def)
  then show ?thesis
    using vehicle_accounting [OF ref_sim_kernel ref_init_empty ex_reach(3)] ex_reach(3) by simp
qed

text \<open>C37: A due timer of a reachable vehicle never fails an assertion of the timer manager: its
  callback runs once and the timer and its message are gone, or the error is the callback's; a
  transmission timer that finds the queue empty always succeeds.\<close>

theorem vehicle_timer_fires_once:
  assumes "sim_kernel K" and "arrival K k = Map.empty" and "samac_reachable K E k s"
    and due: "arrival K (kern s) m = Some t" "m \<noteq> ackTimer s"
  shows "\<exists>spec. sm_find (timers s) m = Some spec \<and> ts_start spec = t \<and>
     (let s1 = s\<lparr>kern := deliver K m (kern s)\<rparr> in
      SAMAC_handleMessageWhenUp K E (SelfMsg (Some m) 0) s1 =
        rbind (samac_run_callback K E (ts_callback spec) s1) (\<lambda>s2.
          Inr (s2\<lparr>kern := cancelEvent K m (kern s2), timers := sm_erase m (timers s2)\<rparr>)) \<and>
      (ts_callback spec = TransmissionCallback \<and> pendingQueue s = [] \<longrightarrow>
         is_ok (SAMAC_handleMessageWhenUp K E (SelfMsg (Some m) 0) s1)))"
proof -
  have ti: "timers_inv K {} (timers s) (ackTimer s) (kern s)"
    by (rule samac_invD(1) [OF sim_kernel.samac_reachable_inv [OF assms(1,3,2)]])
  from assms(1) ti due obtain now cb where f: "sm_find (timers s) m = Some (finalize now (oneshot_spec t cb))"
    and eq: "SAMAC_handleMessageWhenUp K E (SelfMsg (Some m) 0) (s\<lparr>kern := deliver K m (kern s)\<rparr>) =
       rbind (samac_run_callback K E cb (s\<lparr>kern := deliver K m (kern s)\<rparr>)) (\<lambda>s'.
         Inr (s'\<lparr>kern := cancelEvent K m (kern s'), timers := sm_erase m (timers s')\<rparr>))"
    by (rule sim_kernel.samac_timer_eq)
  show ?thesis
    by (rule exI [of _ "finalize now (oneshot_spec t cb)"]) (simp add: f eq is_ok_def)
qed

lemma vehicle_timer_fires_once_witness:
  "\<exists>spec. sm_find (timers ex_vehicle1) 1 = Some spec \<and> ts_start spec = 151000000000 \<and>
     is_ok (SAMAC_handleMessageWhenUp ref_kernel ex_env (SelfMsg (Some 1) 0)
       (ex_vehicle1\<lparr>kern := deliver ref_kernel 1 (kern ex_vehicle1)\<rparr>))"
proof -
  have due: "arrival ref_kernel (kern ex_vehicle1) 1 = Some 151000000000" "(1::nat) \<noteq> ackTimer ex_vehicle1"
    by (simp_all add: ref_sel ex_vehicle1_def ex_vehicle0_def)
  have "sm_find (timers ex_vehicle1) 1 = Some ex_tx_spec" "ts_callback ex_tx_spec = TransmissionCallback"
    "pendingQueue ex_vehicle1 = []"
    by (simp_all add: ex_vehicle1_def ex_vehicle0_def sm_find_def ex_tx_spec_def)
  with vehicle_timer_fires_once [OF ref_sim_kernel ref_init_empty ex_reach(2) due]
  show ?thesis by (auto simp: Let_def)
qed

section \<open>Handling a schedule\<close>

lemma processWlanSchedule_chunks:
  assumes "pk_chunks pk = c1 # c2 # WlanScheduleChunk ws # cs" and "processWlanSchedule K pk s = Inr s'"
  shows "\<exists>b s1. handleWlanSchedule K ws (s\<lparr>leoSatelliteMacAddress := b\<rparr>) = Inr s1 \<and>
    s' = s1\<lparr>receivedInitialWlanSchedule := True,
             vehicleStatistics := EmitLong receivedSatellitePackets 1 #
               EmitLong receivedWlanSchedules 1 # vehicleStatistics s1\<rparr>"
proof -
  from assms(2) obtain a b where ab: "pk_macInd pk = Some (a, b)"
    by (auto simp: processWlanSchedule_def split: option.splits)
  with assms obtain s1 where h: "handleWlanSchedule K ws (s\<lparr>leoSatelliteMacAddress := b\<rparr>) = Inr s1"
    by (auto simp: processWlanSchedule_def popAtFront_def peekAtFront_def)
  with ab assms have "s' = s1\<lparr>receivedInitialWlanSchedule := True,
             vehicleStatistics := EmitLong receivedSatellitePackets 1 #
               EmitLong receivedWlanSchedules 1 # vehicleStatistics s1\<rparr>"
    by (cases s1) (simp add: processWlanSchedule_def popAtFront_def peekAtFront_def record_defs Let_def
        split: if_splits)
  with h show ?thesis by blast
qed

lemma schedule_effect:
  assumes "sim_kernel K" and ti: "timers_inv K {} (timers s) (ackTimer s) (kern s)"
    and h: "handleWlanSchedule K ws s = Inr s'"
  shows "\<exists>m1 m2 tx reg offset. m1 \<noteq> m2 \<and>
     sm_find (timers s) m1 = None \<and> sm_find (timers s) m2 = None \<and>
     timers s' = sm_insert m2 (finalize (simTime K (kern s)) (oneshot_spec reg RegistrationCallback))
       (sm_insert m1 (finalize (simTime K (kern s)) (oneshot_spec tx TransmissionCallback)) (timers s)) \<and>
     arrival K (kern s') = (arrival K (kern s))(m1 \<mapsto> tx, ackTimer s := None, m2 \<mapsto> reg) \<and>
     tx = ws_begin ws + offset \<and> simTime K (kern s) \<le> tx \<and>
     (case sm_find (ws_schedule ws) (address s) of
        Some d \<Rightarrow> offset = slot_ms d * SIMTIME_MS
      | None \<Rightarrow> if length (ws_schedule ws) < 100
               then \<exists>n. int (length (ws_schedule ws)) \<le> n \<and> n \<le> 99 \<and> offset = n * SIMTIME_MS
               else length (ws_schedule ws) = 100 \<and> offset = 0) \<and>
     simTime K (kern s) \<le> reg \<and>
     (simTime K (kern s) < lastUsefulRegistrationTime s' \<longrightarrow> reg < lastUsefulRegistrationTime s') \<and>
     \<not> registeredAtSatellite s'"
proof -
  have last: "lastUsefulRegistrationTime s' = ws_transmit ws + ws_interval ws
        - (2 * (simTime K (kern s) - ws_transmit ws) + maxSatelliteProcDelay_s s)"
    by (rule sim_kernel.handleWlanSchedule_last [OF assms(1) h ti])
  have reg0: "\<not> registeredAtSatellite s'"
    using sim_kernel.handleWlanSchedule_frame(7) [OF assms(1) h] by simp
  from assms(1) h ti obtain n k' m1 m2 t where
    d: "drawn_offset K (ws_schedule ws) (address s) (kern s) n k'" and
    rest: "simTime K (kern s) \<le> ws_begin ws + schedule_delta (ws_schedule ws) (address s) n"
    "simTime K (kern s) \<le> t"
    "simTime K (kern s) < lastUsefulRegistrationTime s' \<Longrightarrow> t < lastUsefulRegistrationTime s'"
    "m1 \<noteq> m2" "sm_find (timers s) m1 = None" "sm_find (timers s) m2 = None"
    "timers s' = sm_insert m2 (finalize (simTime K (kern s)) (oneshot_spec t RegistrationCallback))
       (sm_insert m1 (finalize (simTime K (kern s)) (oneshot_spec (ws_begin ws +
          schedule_delta (ws_schedule ws) (address s) n) TransmissionCallback)) (timers s))"
    "arrival K (kern s') = (arrival K (kern s))(m1 \<mapsto> ws_begin ws +
          schedule_delta (ws_schedule ws) (address s) n, ackTimer s := None, m2 \<mapsto> t)"
    unfolding last by (rule sim_kernel.handleWlanSchedule_timers) blast
  note off = sim_kernel.drawn_offset_delta [OF assms(1) d]
  show ?thesis
    by (intro exI [of _ m1] exI [of _ m2] exI [of _ t] exI conjI impI)
      (rule rest off reg0 refl | assumption)+
qed

text \<open>C11: A schedule packet that reaches a vehicle at time \<open>t\<close> creates exactly two timers: one transmission timer at the begin of the
  schedule plus the offset of the vehicle (its slot in whole milliseconds, or a random free
  slot between the size of the schedule and 99, or zero when 100 vehicles are registered), and
  one registration timer between now and the last useful registration time. The
  acknowledgement timer is cancelled and the vehicle counts as not registered.\<close>

theorem schedule_creates_two_timers:
  assumes "sim_kernel K" and "arrival K k = Map.empty" and "samac_reachable K E k s"
    and "no_earlier K (kern s) t"
    and pk: "pk_chunks pk = c1 # c2 # WlanScheduleChunk ws # cs" "\<not> has_chunk is_SatelliteAck pk"
    and h: "SAMAC_handleMessageWhenUp K E (PacketMsg LowerLayerIn pk) (s\<lparr>kern := advance K t (kern s)\<rparr>) = Inr s'"
  shows "\<exists>m1 m2 tx reg offset. m1 \<noteq> m2 \<and>
     sm_find (timers s) m1 = None \<and> sm_find (timers s) m2 = None \<and>
     timers s' = sm_insert m2 (finalize t (oneshot_spec reg RegistrationCallback))
       (sm_insert m1 (finalize t (oneshot_spec tx TransmissionCallback)) (timers s)) \<and>
     arrival K (kern s') = (arrival K (kern s))(m1 \<mapsto> tx, ackTimer s := None, m2 \<mapsto> reg) \<and>
     tx = ws_begin ws + offset \<and> t \<le> tx \<and>
     (case sm_find (ws_schedule ws) (address s) of
        Some d \<Rightarrow> offset = slot_ms d * SIMTIME_MS
      | None \<Rightarrow> if length (ws_schedule ws) < 100
               then \<exists>n. int (length (ws_schedule ws)) \<le> n \<and> n \<le> 99 \<and> offset = n * SIMTIME_MS
               else length (ws_schedule ws) = 100 \<and> offset = 0) \<and>
     t \<le> reg \<and>
     (t < lastUsefulRegistrationTime s' \<longrightarrow> reg < lastUsefulRegistrationTime s') \<and>
     \<not> registeredAtSatellite s' \<and> receivedInitialWlanSchedule s'"
proof -
  let ?s = "s\<lparr>kern := advance K t (kern s)\<rparr>"
  have ti: "timers_inv K {} (timers s) (ackTimer s) (advance K t (kern s))"
    using samac_invD(1) [OF sim_kernel.samac_reachable_inv [OF assms(1,3,2)]] assms(4)
    by (rule sim_kernel.timers_inv_advance [OF assms(1)])
  have "processWlanSchedule K pk ?s = Inr s'"
    using h pk by (simp add: SAMAC_handleMessageWhenUp_def tm_handleMessage_def handleLeoPacket_def
        processLeoPacket_def has_chunk_def)
  then obtain b s1 where h1: "handleWlanSchedule K ws (?s\<lparr>leoSatelliteMacAddress := b\<rparr>) = Inr s1"
    and s': "s' = s1\<lparr>receivedInitialWlanSchedule := True,
             vehicleStatistics := EmitLong receivedSatellitePackets 1 #
               EmitLong receivedWlanSchedules 1 # vehicleStatistics s1\<rparr>"
    using processWlanSchedule_chunks [OF pk(1)] by blast
  have "timers_inv K {} (timers (?s\<lparr>leoSatelliteMacAddress := b\<rparr>))
      (ackTimer (?s\<lparr>leoSatelliteMacAddress := b\<rparr>)) (kern (?s\<lparr>leoSatelliteMacAddress := b\<rparr>))"
    using ti by simp
  from schedule_effect [OF assms(1) this h1] show ?thesis
    by (simp add: s' sim_kernel.advance_time [OF assms(1)] sim_kernel.advance_arrival [OF assms(1)])
qed

lemma ex_schedule_packet_chunks:
  "pk_chunks ex_schedule_packet = Ipv4Header 0x0A000001 0xE0000001 P_udp 1 80 #
     UdpHeader 9001 9001 60 # WlanScheduleChunk ex_schedule # []"
  "\<not> has_chunk is_SatelliteAck ex_schedule_packet"
  by (simp_all add: ex_schedule_packet_def has_chunk_def)

lemma schedule_creates_two_timers_witness:
  "\<exists>m1 m2 tx reg. timers ex_vehicle1 =
       sm_insert m2 (finalize 104000000000 (oneshot_spec reg RegistrationCallback))
         (sm_insert m1 (finalize 104000000000 (oneshot_spec tx TransmissionCallback)) []) \<and>
     tx = ws_begin ex_schedule + 1 * SIMTIME_MS \<and> reg < lastUsefulRegistrationTime ex_vehicle1"
proof -
  have e: "no_earlier ref_kernel (kern ex_vehicle0) 104000000000"
    by (simp add: no_earlier_def ref_sel ex_vehicle0_def)
  have f: "sm_find (ws_schedule ex_schedule) (address ex_vehicle0) = Some (dbl_times 1 default_slot)"
    and t: "timers ex_vehicle0 = []"
    by (simp_all add: ex_schedule_def ex_vehicle0_def sm_find_def)
  have l: "104000000000 < lastUsefulRegistrationTime ex_vehicle1" by (simp add: ex_vehicle1_def)
  from schedule_creates_two_timers [OF ref_sim_kernel ref_init_empty ex_reach(1) e
        ex_schedule_packet_chunks ex_step1] f t l show ?thesis
    unfolding f t option.case ex_slot by blast
qed

text \<open>A schedule is accepted, no error is raised, when it begins no earlier than its arrival, the
  vehicle is in it or at most 100 vehicles are, and the registration window is still open.\<close>

theorem schedule_accepted:
  assumes "sim_kernel K" and "arrival K k = Map.empty" and "samac_reachable K E k s"
    and "no_earlier K (kern s) t"
    and "sm_find (ws_schedule ws) (address s) = None \<Longrightarrow> length (ws_schedule ws) \<le> 100"
    and "\<And>v d. sm_find (ws_schedule ws) v = Some d \<Longrightarrow> 0 \<le> mant d"
    and "t \<le> ws_begin ws"
    and "t + 2 * (t - ws_transmit ws) + maxSatelliteProcDelay_s s < ws_transmit ws + ws_interval ws"
  shows "\<exists>s'. handleWlanSchedule K ws (s\<lparr>kern := advance K t (kern s)\<rparr>) = Inr s'"
proof -
  have "timers_inv K {} (timers s) (ackTimer s) (advance K t (kern s))"
    using samac_invD(1) [OF sim_kernel.samac_reachable_inv [OF assms(1,3,2)]] assms(4)
    by (rule sim_kernel.timers_inv_advance [OF assms(1)])
  then show ?thesis
    using assms(5-8)
    by (intro sim_kernel.handleWlanSchedule_total [OF assms(1)])
      (auto simp: sim_kernel.advance_time [OF assms(1)])
qed

lemma schedule_accepted_witness:
  "\<exists>s'. handleWlanSchedule ref_kernel ex_schedule
     (ex_vehicle0\<lparr>kern := advance ref_kernel 104000000000 (kern ex_vehicle0)\<rparr>) = Inr s'"
proof -
  have "0 \<le> mant (dbl_times 0 default_slot)" "0 \<le> mant (dbl_times 1 default_slot)"
    by (simp_all add: mant_dbl_times_nonneg default_slot_def)
  then show ?thesis
    by (intro schedule_accepted [OF ref_sim_kernel ref_init_empty ex_reach(1)])
      (auto simp: ex_schedule_def ex_vehicle0_def no_earlier_def ref_sel sm_find_def split: if_splits)
qed

text \<open>A schedule is refused with an error, and nothing else happens, when more than 100 vehicles are
  in it and this vehicle is not, or when the slot of the vehicle already lies in the past.\<close>

theorem schedule_refused:
  assumes "sim_kernel K" and "arrival K k = Map.empty" and "samac_reachable K E k s"
    and "no_earlier K (kern s) t"
    and "(sm_find (ws_schedule ws) (address s) = None \<and> 100 < length (ws_schedule ws) \<and>
            e = RuntimeError ''myWlanSchedule size is too large'') \<or>
         (\<exists>d. sm_find (ws_schedule ws) (address s) = Some d \<and>
              ws_begin ws + slot_ms d * SIMTIME_MS < t \<and> e = SchedulePast)"
  shows "handleWlanSchedule K ws (s\<lparr>kern := advance K t (kern s)\<rparr>) = Inl e"
proof -
  have ti: "timers_inv K {} (timers s) (ackTimer s) (advance K t (kern s))"
    using samac_invD(1) [OF sim_kernel.samac_reachable_inv [OF assms(1,3,2)]] assms(4)
    by (rule sim_kernel.timers_inv_advance [OF assms(1)])
  from assms(5) show ?thesis
  proof
    assume "\<exists>d. sm_find (ws_schedule ws) (address s) = Some d \<and>
              ws_begin ws + slot_ms d * SIMTIME_MS < t \<and> e = SchedulePast"
    then obtain d where "sm_find (ws_schedule ws) (address s) = Some d"
      "ws_begin ws + slot_ms d * SIMTIME_MS < t" "e = SchedulePast" by blast
    with ti show ?thesis
      by (simp add: sim_kernel.handleWlanSchedule_late [OF assms(1)] sim_kernel.advance_time [OF assms(1)])
  qed (simp add: handleWlanSchedule_eq scheduleWlanTransmission_def throwr_def)
qed

lemma schedule_refused_witness:
  "handleWlanSchedule ref_kernel ex_schedule
     (ex_vehicle0\<lparr>kern := advance ref_kernel 152000000000 (kern ex_vehicle0)\<rparr>) = Inl SchedulePast"
  by (rule schedule_refused [OF ref_sim_kernel ref_init_empty ex_reach(1)])
    (auto simp: ex_schedule_def ex_vehicle0_def no_earlier_def ref_sel sm_find_def ex_slot SIMTIME_MS_def)

text \<open>When the acknowledgement timer expires nothing is sent and no timer is created, however much
  of the registration window is left: the specification of the retry never reaches the timer
  manager, so a lost registration or acknowledgement is not repeated before the next schedule.\<close>

theorem ack_timeout_never_retries:
  assumes "sim_kernel K" and "arrival K k = Map.empty" and "samac_reachable K E k s"
    and due: "arrival K (kern s) (ackTimer s) = Some t"
  shows "\<exists>k'. SAMAC_handleMessageWhenUp K E (SelfMsg None SATELLITE_REGISTRATION_ACK_TIMER)
            (s\<lparr>kern := deliver K (ackTimer s) (kern s)\<rparr>) = Inr (s\<lparr>kern := k'\<rparr>) \<and>
          arrival K k' = (arrival K (kern s))(ackTimer s := None)"
proof -
  let ?k = "deliver K (ackTimer s) (kern s)"
  obtain x k2 where u: "uniform K (simTime K ?k) (lastUsefulRegistrationTime s) ?k = (x, k2)"
    by fastforce
  have a: "arrival K ?k = (arrival K (kern s))(ackTimer s := None)"
    by (rule sim_kernel.deliver_arrival [OF assms(1)])
  have "arrival K k2 = arrival K ?k" by (rule sim_kernel.uniform_arrival [OF assms(1) u])
  with a u show ?thesis
    by (simp add: SAMAC_handleMessageWhenUp_def tm_handleMessage_def SAMAC_handleSelfMessage_def
        isScheduled_def oneshotAt_eq)
      (metis samac.surjective samac.update_convs(1))
qed

text \<open>A vehicle that has received a second schedule two milliseconds after the first: both
  registration timers stay, the later schedule only cancels the acknowledgement timer.\<close>

definition ex_clash1 :: "ref_state samac" where
  "ex_clash1 = ex_vehicle1
     \<lparr>kern := \<lparr>rk_now = 106000000000, rk_fes = [(4, 594500000000), (3, 151000000000),
        (2, 595500000000), (1, 151000000000)], rk_next = 5\<rparr>,
      timers := [(1, ex_tx_spec), (2, ex_reg_spec),
        (3, finalize 106000000000 (oneshot_spec 151000000000 TransmissionCallback)),
        (4, finalize 106000000000 (oneshot_spec 594500000000 RegistrationCallback))],
      currentSatelliteLatency := 6000000000, lastUsefulRegistrationTime := 1083000000000,
      vehicleStatistics := [EmitLong receivedSatellitePackets 1, EmitLong receivedWlanSchedules 1,
        EmitLong missedSatelliteRegistrationAcks 1,
        EmitTime applLayerSatelliteLatency 6000000000, EmitTime applLayerRoundTripTime 17000000000] @
        vehicleStatistics ex_vehicle1\<rparr>"

lemma ex_clash_handle: "handleWlanSchedule ref_kernel ex_schedule
    (ex_vehicle1\<lparr>kern := advance ref_kernel 106000000000 (kern ex_vehicle1),
       leoSatelliteMacAddress := 0xFFFFFFFFFFFF\<rparr>) = Inr (ex_clash1
      \<lparr>vehicleStatistics := [EmitLong missedSatelliteRegistrationAcks 1,
          EmitTime applLayerSatelliteLatency 6000000000,
          EmitTime applLayerRoundTripTime 17000000000] @ vehicleStatistics ex_vehicle1\<rparr>)"
  by (simp add: handleWlanSchedule_def scheduleWlanTransmission_def create_oneshot_def oneshotAt_eq
      tm_create_def ex_schedule_def ex_vehicle0_def ex_vehicle1_def ex_clash1_def ref_sel sm_find_def
      ex_slot record_defs SIMTIME_MS_def ex_tx_spec_def ex_reg_spec_def sm_erase_def)

lemma ex_clash_step1: "SAMAC_handleMessageWhenUp ref_kernel ex_env (PacketMsg LowerLayerIn ex_schedule_packet)
     (ex_vehicle1\<lparr>kern := advance ref_kernel 106000000000 (kern ex_vehicle1)\<rparr>) = Inr ex_clash1"
  using ex_clash_handle
  by (simp add: SAMAC_handleMessageWhenUp_def tm_handleMessage_def handleLeoPacket_def
      processLeoPacket_def ex_schedule_packet_def has_chunk_def processWlanSchedule_def popAtFront_def
      peekAtFront_def record_defs ex_clash1_def ex_vehicle1_def ex_vehicle0_def)

lemma ex_clash_reach1: "samac_reachable ref_kernel ex_env ref_init ex_clash1"
proof -
  have "samac_step ref_kernel ex_env ex_vehicle1 ex_clash1"
    by (rule samac_step.packet [OF _ _ ex_clash_step1])
      (auto simp: no_earlier_def ref_sel ex_vehicle1_def split: if_splits)
  with ex_reach(2) show ?thesis by (rule samac_reachable.step)
qed

text \<open>Both transmission timers fire at 151 ms and find the queue empty.\<close>

definition ex_clash2 :: "ref_state samac" where
  "ex_clash2 = ex_clash1
     \<lparr>kern := \<lparr>rk_now = 151000000000, rk_fes = [(4, 594500000000), (3, 151000000000),
        (2, 595500000000)], rk_next = 5\<rparr>,
      timers := [(2, ex_reg_spec),
        (3, finalize 106000000000 (oneshot_spec 151000000000 TransmissionCallback)),
        (4, finalize 106000000000 (oneshot_spec 594500000000 RegistrationCallback))]\<rparr>"

definition ex_clash3 :: "ref_state samac" where
  "ex_clash3 = ex_clash1
     \<lparr>kern := \<lparr>rk_now = 151000000000, rk_fes = [(4, 594500000000), (2, 595500000000)], rk_next = 5\<rparr>,
      timers := [(2, ex_reg_spec),
        (4, finalize 106000000000 (oneshot_spec 594500000000 RegistrationCallback))]\<rparr>"

lemmas ex_timer_simps = SAMAC_handleMessageWhenUp_def tm_handleMessage_def occurrence_oneshot
  Let_def ref_sel sm_find_def sm_erase_def ex_tx_spec_def ex_reg_spec_def

lemma ex_clash_step2: "SAMAC_handleMessageWhenUp ref_kernel ex_env (SelfMsg (Some 1) 0)
     (ex_clash1\<lparr>kern := deliver ref_kernel 1 (kern ex_clash1)\<rparr>) = Inr ex_clash2"
  by (simp add: ex_timer_simps ex_clash1_def ex_clash2_def ex_vehicle1_def ex_vehicle0_def
      SIMTIME_S_def SIMTIME_MS_def)

lemma ex_clash_step3: "SAMAC_handleMessageWhenUp ref_kernel ex_env (SelfMsg (Some 3) 0)
     (ex_clash2\<lparr>kern := deliver ref_kernel 3 (kern ex_clash2)\<rparr>) = Inr ex_clash3"
  by (simp add: ex_timer_simps ex_clash1_def ex_clash2_def ex_clash3_def ex_vehicle1_def ex_vehicle0_def
      SIMTIME_S_def SIMTIME_MS_def)

lemma ex_clash_reach3: "samac_reachable ref_kernel ex_env ref_init ex_clash3"
proof -
  have "samac_step ref_kernel ex_env ex_clash1 ex_clash2"
    by (rule samac_step.timer [where m = 1 and t = 151000000000])
      (use ex_clash_step2 in \<open>auto simp: no_earlier_def ref_sel ex_clash1_def ex_vehicle1_def
         ex_vehicle0_def split: if_splits\<close>)
  moreover have "samac_step ref_kernel ex_env ex_clash2 ex_clash3"
    by (rule samac_step.timer [where m = 3 and t = 151000000000])
      (use ex_clash_step3 in \<open>auto simp: no_earlier_def ref_sel ex_clash2_def ex_clash1_def ex_vehicle1_def
         ex_vehicle0_def split: if_splits\<close>)
  ultimately show ?thesis using ex_clash_reach1 by (blast intro: samac_reachable.step)
qed

section \<open>Registering\<close>

text \<open>A registration is one UDP datagram in one IPv4 packet: from port 12345 to the configured port,
  12 bytes of UDP and 32 bytes of IPv4 including the 4 bytes of the registration, with a time
  to live of 1 for a link-local multicast group and 32 otherwise; it carries the address of
  the vehicle and the current time, is addressed to the MAC address stored for the satellite,
  leaves through the satellite interface, and keeps no address or port request.\<close>

theorem registration_packet_structure:
  assumes "satelliteInterfaceEntry s = Some ifc"
    and "tryResolve E (satelliteIpAddress E) = L3_IPv4 src"
    and "tryResolve E (par_leoSatelliteSamacMulticastAddress E) = L3_IPv4 dst" "dst \<noteq> 0"
    and "0 < par_leoSatelliteSamacDestPort E" "par_leoSatelliteSamacDestPort E \<le> 65535"
  shows "\<exists>p. registration_packet K E s = Inr p \<and>
     pk_chunks p = [Ipv4Header src dst P_udp (if isLinkLocalMulticast dst then 1 else 32) 32,
                    UdpHeader 12345 (par_leoSatelliteSamacDestPort E) 12,
                    RegistrationChunk (address s) (simTime K (kern s))] \<and>
     packet_length p = 32 \<and> pk_protocol p = Some P_ipv4 \<and> pk_dispatch p = Some P_ipv4 \<and>
     pk_macReq p = Some (leoSatelliteMacAddress s) \<and> pk_interfaceReq p = Some ifc \<and>
     pk_l3Req p = None \<and> \<not> pk_portReq p \<and> pk_multicastLoop p = Some False"
  using assms
  by (simp add: registration_packet_def interfaceTag_def addUdpHeader_def addIpv4Header_def
      isUnspecified_def UDP_MAX_MESSAGE_SIZE_def IPv4_MAX_HEADER_LENGTH_def toIpv4_def ttl_of_def
      new_packet_def insertAtBack_def insertAtFront_def packet_length_def)

lemma registration_packet_structure_witness:
  "\<exists>p. registration_packet ref_kernel ex_env ex_vehicle1 = Inr p \<and>
     pk_chunks p = [Ipv4Header 0x0A000007 0xE0000001 P_udp 1 32, UdpHeader 12345 9001 12,
                    RegistrationChunk 7 104000000000]"
proof -
  have l: "isLinkLocalMulticast 0xE0000001" by (simp add: isLinkLocalMulticast_def)
  have "satelliteInterfaceEntry ex_vehicle1 = Some 101"
    "tryResolve ex_env (satelliteIpAddress ex_env) = L3_IPv4 0x0A000007"
    "tryResolve ex_env (par_leoSatelliteSamacMulticastAddress ex_env) = L3_IPv4 0xE0000001"
    "(0xE0000001 :: ipv4) \<noteq> 0"
    "0 < par_leoSatelliteSamacDestPort ex_env" "par_leoSatelliteSamacDestPort ex_env \<le> 65535"
    by (simp_all add: ex_vehicle1_def ex_vehicle0_def ex_env_def)
  from registration_packet_structure [OF this, of ref_kernel] l show ?thesis
    by (auto simp: ex_env_def ex_vehicle1_def ex_vehicle0_def ref_sel)
qed

text \<open>The earlier of the two registration timers fires at 594.5 ms.\<close>

definition ex_registration :: packet where
  "ex_registration = projr (registration_packet ref_kernel ex_env
     (ex_clash3\<lparr>kern := \<lparr>rk_now = 594500000000, rk_fes = [(2, 595500000000)], rk_next = 5\<rparr>\<rparr>))"

definition ex_clash4 :: "ref_state samac" where
  "ex_clash4 = ex_clash3
     \<lparr>kern := \<lparr>rk_now = 594500000000, rk_fes = [(0, 611500000000), (2, 595500000000)], rk_next = 5\<rparr>,
      timers := [(2, ex_reg_spec)], startRegistrationTimestamp := 594500000000,
      expectedAck_Timestamp := 611500000000, sentDown := [ex_registration],
      vehicleStatistics := EmitLong sendSatellitePackets 1 #
        EmitLong sendSatelliteRegistrationMessages 1 # vehicleStatistics ex_clash3\<rparr>"

lemma registration_packet_cong:
  assumes "satelliteInterfaceEntry s' = satelliteInterfaceEntry s"
    "leoSatelliteMacAddress s' = leoSatelliteMacAddress s" "address s' = address s"
    "simTime K (kern s') = simTime K (kern s)"
  shows "registration_packet K E s' = registration_packet K E s"
  using assms by (simp add: registration_packet_def addUdpHeader_def Let_def cong: if_cong)

lemma ex_clash_sel:
  "satelliteInterfaceEntry ex_clash3 = Some 101" "address ex_clash3 = 7"
  "currentSatelliteLatency ex_clash3 = 6000000000" "maxSatelliteProcDelay_s ex_clash3 = 5000000000"
  "ackTimer ex_clash3 = 0" "kern ex_clash3 = \<lparr>rk_now = 151000000000,
     rk_fes = [(4, 594500000000), (2, 595500000000)], rk_next = 5\<rparr>"
  "timers ex_clash3 = [(2, ex_reg_spec),
        (4, finalize 106000000000 (oneshot_spec 594500000000 RegistrationCallback))]"
  "sentDown ex_clash3 = []"
  by (simp_all add: ex_clash3_def ex_clash1_def ex_vehicle1_def ex_vehicle0_def)

lemma ex_env_resolve:
  "tryResolve ex_env (satelliteIpAddress ex_env) = L3_IPv4 0x0A000007"
  "tryResolve ex_env (par_leoSatelliteSamacMulticastAddress ex_env) = L3_IPv4 0xE0000001"
  "par_leoSatelliteSamacDestPort ex_env = 9001"
  by (simp_all add: ex_env_def)

lemma ex_env_registration:
  assumes "satelliteInterfaceEntry s = Some ifc"
  shows "registration_packet K ex_env s = Inr (projr (registration_packet K ex_env s))"
  using assms
  by (simp add: registration_packet_def interfaceTag_def addUdpHeader_def addIpv4Header_def
      isUnspecified_def UDP_MAX_MESSAGE_SIZE_def IPv4_MAX_HEADER_LENGTH_def toIpv4_def
      new_packet_def insertAtBack_def insertAtFront_def packet_length_def ex_env_resolve)

lemma ex_clash_register: "registerAtSatellite ref_kernel ex_env
     (ex_clash3\<lparr>kern := deliver ref_kernel 4 (kern ex_clash3), startRegistrationTimestamp := 594500000000\<rparr>) =
   Inr (ex_clash4\<lparr>timers := timers ex_clash3\<rparr>)"
proof -
  let ?s = "ex_clash3\<lparr>kern := \<lparr>rk_now = 594500000000, rk_fes = [(2, 595500000000)], rk_next = 5\<rparr>\<rparr>"
  have k: "deliver ref_kernel 4 (kern ex_clash3) = \<lparr>rk_now = 594500000000, rk_fes = [(2, 595500000000)], rk_next = 5\<rparr>"
    by (simp add: ref_sel ex_clash_sel sm_erase_def)
  have r: "registration_packet ref_kernel ex_env (?s\<lparr>startRegistrationTimestamp := 594500000000,
      expectedAck_Timestamp := 611500000000\<rparr>) = Inr ex_registration"
    unfolding ex_registration_def
    by (subst registration_packet_cong [of _ ?s], simp_all)
      (rule ex_env_registration, simp add: ex_clash_sel)
  show ?thesis
    using r by (simp add: registerAtSatellite_def k ref_sel ex_clash_sel sendSatellitePacket_def
        record_defs ex_clash4_def Let_def sm_erase_def)
qed

lemma ex_clash_step4: "SAMAC_handleMessageWhenUp ref_kernel ex_env (SelfMsg (Some 4) 0)
     (ex_clash3\<lparr>kern := deliver ref_kernel 4 (kern ex_clash3)\<rparr>) = Inr ex_clash4"
proof -
  have now: "simTime ref_kernel (deliver ref_kernel 4 (kern ex_clash3)) = 594500000000"
    by (simp add: ref_sel ex_clash_sel)
  have f: "sm_find (timers ex_clash3) 4 = Some (finalize 106000000000 (oneshot_spec 594500000000 RegistrationCallback))"
    by (simp add: ex_clash_sel sm_find_def)
  have "tm_handleMessage ref_kernel (samac_host ref_kernel ex_env) (Some 4) True
      (ex_clash3\<lparr>kern := deliver ref_kernel 4 (kern ex_clash3)\<rparr>) = Inr (True, ex_clash4)"
    using samac_ref.fire_oneshot [of ex_env "ex_clash3\<lparr>kern := deliver ref_kernel 4 (kern ex_clash3)\<rparr>" 4,
        OF _ ] f now ex_clash_register
    by (simp add: ex_clash4_def ref_sel sm_erase_def ex_clash_sel)
  then show ?thesis by (simp add: SAMAC_handleMessageWhenUp_def)
qed

lemma ex_clash_reach4: "samac_reachable ref_kernel ex_env ref_init ex_clash4"
proof -
  have "samac_step ref_kernel ex_env ex_clash3 ex_clash4"
    by (rule samac_step.timer [where m = 4 and t = 594500000000])
      (use ex_clash_step4 in \<open>auto simp: no_earlier_def ref_sel ex_clash_sel split: if_splits\<close>)
  with ex_clash_reach3 show ?thesis by (rule samac_reachable.step)
qed

lemma ack_timeout_never_retries_witness:
  "\<exists>k'. SAMAC_handleMessageWhenUp ref_kernel ex_env (SelfMsg None SATELLITE_REGISTRATION_ACK_TIMER)
      (ex_clash4\<lparr>kern := deliver ref_kernel (ackTimer ex_clash4) (kern ex_clash4)\<rparr>) =
    Inr (ex_clash4\<lparr>kern := k'\<rparr>)"
proof -
  have "arrival ref_kernel (kern ex_clash4) (ackTimer ex_clash4) = Some 611500000000"
    by (simp add: ref_sel ex_clash4_def ex_clash_sel)
  from ack_timeout_never_retries [OF ref_sim_kernel ref_init_empty ex_clash_reach4 this]
  show ?thesis by blast
qed

section \<open>The window of a schedule\<close>

text \<open>What a schedule tells the vehicle, and the messages handled until the next one is received.\<close>

definition schedule_data :: "'k samac \<Rightarrow> simtime \<times> simtime \<times> simtime \<times> simtime \<times> nat" where
  "schedule_data s = (endOfCurrentWlanSchedule s, currentSatelliteLatency s, lastUsefulRegistrationTime s,
     maxSatelliteProcDelay_s s, ackTimer s)"

lemma schedule_data_writes [simp]:
  "schedule_data (s\<lparr>kern := k\<rparr>) = schedule_data s" "schedule_data (s\<lparr>timers := ts\<rparr>) = schedule_data s"
  by (simp_all add: schedule_data_def)

inductive until_next_schedule :: "'k kernel_ops \<Rightarrow> samac_env \<Rightarrow> 'k samac \<Rightarrow> 'k samac \<Rightarrow> bool" for K E s where
  here: "until_next_schedule K E s s"
| later: "until_next_schedule K E s u \<Longrightarrow> samac_step K E u v \<Longrightarrow>
    emitted receivedWlanSchedules (vehicleStatistics v) = emitted receivedWlanSchedules (vehicleStatistics u) \<Longrightarrow>
    until_next_schedule K E s v"

lemma schedule_data_callback:
  assumes "samac_run_callback K E cb s = Inr s'" and "cb \<noteq> RetryCallback"
  shows "schedule_data s' = schedule_data s"
proof (cases cb)
  case RegistrationCallback
  from assms(1) [unfolded this] show ?thesis by (rule run_callback_RegistrationD) (simp add: schedule_data_def)
next
  case TransmissionCallback
  from assms(1) [unfolded this] show ?thesis by (rule run_callback_TransmissionD) (simp_all add: schedule_data_def)
qed (use assms(2) in simp)

lemma schedule_data_step:
  assumes K: "sim_kernel K" and "samac_step K E s s'" and inv: "samac_inv K s"
    and "emitted receivedWlanSchedules (vehicleStatistics s') = emitted receivedWlanSchedules (vehicleStatistics s)"
  shows "schedule_data s' = schedule_data s"
  using assms(2,4)
proof (cases rule: samac_step.cases)
  case (timer m t)
  from K samac_invD(1) [OF inv] timer(1,3) obtain now cb where "cb \<noteq> RetryCallback"
    and "SAMAC_handleMessageWhenUp K E (SelfMsg (Some m) 0) (s\<lparr>kern := deliver K m (kern s)\<rparr>) =
       rbind (samac_run_callback K E cb (s\<lparr>kern := deliver K m (kern s)\<rparr>)) (\<lambda>s'.
         Inr (s'\<lparr>kern := cancelEvent K m (kern s'), timers := sm_erase m (timers s')\<rparr>))"
    by (rule sim_kernel.samac_timer_eq)
  with timer(4) show ?thesis
    by (auto dest!: schedule_data_callback)
next
  case (ack_timer t)
  then show ?thesis
    by (auto simp: SAMAC_handleMessageWhenUp_def tm_handleMessage_def SAMAC_handleSelfMessage_def oneshotAt_eq Let_def
        schedule_data_def split: if_splits prod.splits)
next
  case (packet t g pk)
  let ?s = "s\<lparr>kern := advance K t (kern s)\<rparr>"
  have same: "schedule_data ?s = schedule_data s" by simp
  have "\<not> processWlanSchedule K pk ?s = Inr s'"
  proof
    assume "processWlanSchedule K pk ?s = Inr s'"
    then show False
      by (rule processWlanScheduleD)
        (use assms(4) sim_kernel.handleWlanSchedule_frame(9) [OF K] in \<open>force simp: emitted_Cons\<close>)
  qed
  then have "processLeoAck pk ?s = Inr s' \<or> s' = handleUpperPacket pk ?s \<or> s' = ?s"
    using packet(3) by (cases g) (auto simp: SAMAC_handleMessageWhenUp_def tm_handleMessage_def handleLeoPacket_def
        processLeoPacket_def split: if_splits)
  then show ?thesis
    unfolding same [symmetric]
    by (auto simp: schedule_data_def handleUpperPacket_def elim!: processLeoAckD)
qed

lemma until_next_schedule_data:
  assumes "sim_kernel K" and "arrival K k = Map.empty" and "samac_reachable K E k s" and "until_next_schedule K E s u"
  shows "samac_reachable K E k u \<and> schedule_data u = schedule_data s"
  using assms(4,3)
proof (induction rule: until_next_schedule.induct)
  case (later u v)
  then show ?case
    using schedule_data_step [OF assms(1) _ sim_kernel.samac_reachable_inv [OF assms(1) _ assms(2)]]
    by (metis samac_reachable.step)
qed simp

lemma registration_packet_chunk:
  "registration_packet K E s = Inr p \<Longrightarrow> RegistrationChunk (address s) (simTime K (kern s)) \<in> set (pk_chunks p)"
  by (auto simp: registration_packet_def interfaceTag_def addUdpHeader_def addIpv4Header_def new_packet_def
      insertAtBack_def insertAtFront_def Let_def split: option.splits if_splits prod.splits)

text \<open>The registration timer a schedule leaves, and what the schedule tells.\<close>

lemma schedule_registration_timer:
  assumes K: "sim_kernel K" and ti: "timers_inv K {} (timers s) (ackTimer s) (advance K t (kern s))"
    and pk: "pk_chunks pk = c1 # c2 # WlanScheduleChunk ws # cs" "\<not> has_chunk is_SatelliteAck pk"
    and h: "SAMAC_handleMessageWhenUp K E (PacketMsg LowerLayerIn pk) (s\<lparr>kern := advance K t (kern s)\<rparr>) = Inr s'"
    and win: "t < lastUsefulRegistrationTime s'"
    and new: "sm_find (timers s) m = None" "sm_find (timers s') m = Some spec" "ts_callback spec = RegistrationCallback"
  obtains reg where "spec = finalize t (oneshot_spec reg RegistrationCallback)" "t \<le> reg"
    "reg < ws_transmit ws + ws_interval ws - (2 * (t - ws_transmit ws) + maxSatelliteProcDelay_s s)"
    "schedule_data s' = (ws_transmit ws + ws_interval ws, t - ws_transmit ws,
      ws_transmit ws + ws_interval ws - (2 * (t - ws_transmit ws) + maxSatelliteProcDelay_s s),
      maxSatelliteProcDelay_s s, ackTimer s)"
proof -
  let ?s = "s\<lparr>kern := advance K t (kern s)\<rparr>"
  have now: "simTime K (advance K t (kern s)) = t" by (simp add: sim_kernel.advance_time [OF K])
  have "processWlanSchedule K pk ?s = Inr s'"
    using h pk by (simp add: SAMAC_handleMessageWhenUp_def tm_handleMessage_def handleLeoPacket_def
        processLeoPacket_def has_chunk_def)
  then obtain b s1 where h1: "handleWlanSchedule K ws (?s\<lparr>leoSatelliteMacAddress := b\<rparr>) = Inr s1"
    and s': "timers s' = timers s1" "schedule_data s' = schedule_data s1"
    using processWlanSchedule_chunks [OF pk(1)] by (force simp: schedule_data_def)
  let ?b = "?s\<lparr>leoSatelliteMacAddress := b\<rparr>"
  have ti1: "timers_inv K {} (timers ?b) (ackTimer ?b) (kern ?b)" using ti by simp
  have data: "schedule_data s' = (ws_transmit ws + ws_interval ws, t - ws_transmit ws,
      ws_transmit ws + ws_interval ws - (2 * (t - ws_transmit ws) + maxSatelliteProcDelay_s s),
      maxSatelliteProcDelay_s s, ackTimer s)"
    using sim_kernel.handleWlanSchedule_last [OF K h1 ti1] sim_kernel.handleWlanSchedule_frame(2,8) [OF K h1]
    unfolding s'(2) by (simp add: schedule_data_def now)
  obtain m1 m2 tx reg where
    ts: "timers s' = sm_insert m2 (finalize t (oneshot_spec reg RegistrationCallback))
       (sm_insert m1 (finalize t (oneshot_spec tx TransmissionCallback)) (timers s))" and
    reg: "t \<le> reg" "t < lastUsefulRegistrationTime s1 \<longrightarrow> reg < lastUsefulRegistrationTime s1"
    using schedule_effect [OF K ti1 h1] by (auto simp: now s'(1))
  have sm: "sm_inv (timers s)" by (rule timers_inv_sm [OF ti])
  have "spec = finalize t (oneshot_spec reg RegistrationCallback)"
    using new sm_inv_insert [OF sm] by (auto simp: ts sm_find_insert sm split: if_splits option.splits)
  moreover have "reg < ws_transmit ws + ws_interval ws - (2 * (t - ws_transmit ws) + maxSatelliteProcDelay_s s)"
    using reg(2) win data s'(2) by (simp add: schedule_data_def)
  ultimately show ?thesis using that reg(1) data by blast
qed

text \<open>A registration timer that fires sends a registration and sets the acknowledgement timer.\<close>

lemma registration_timer_fires:
  assumes K: "sim_kernel K" and ti: "timers_inv K {} (timers u) (ackTimer u) (kern u)"
    and f: "sm_find (timers u) m = Some (finalize t (oneshot_spec reg RegistrationCallback))"
    and fires: "SAMAC_handleMessageWhenUp K E (SelfMsg (Some m) 0) (u\<lparr>kern := deliver K m (kern u)\<rparr>) = Inr u'"
  shows "arrival K (kern u) m = Some reg \<and> schedule_data u' = schedule_data u \<and>
    (\<exists>p. sentDown u' = p # sentDown u \<and> RegistrationChunk (address u) reg \<in> set (pk_chunks p)) \<and>
    arrival K (kern u') (ackTimer u') = Some (expectedAck_Timestamp u') \<and>
    expectedAck_Timestamp u' = reg + 2 * currentSatelliteLatency u + maxSatelliteProcDelay_s u"
proof -
  let ?u = "u\<lparr>kern := deliver K m (kern u)\<rparr>"
  have a: "arrival K (kern u) m = Some reg"
    by (rule timers_inv_oneshot [OF ti f]) (drule arg_cong [where f = ts_start], simp)
  have m: "m \<noteq> ackTimer u" using timers_inv_ack [OF ti] f by auto
  have now: "simTime K (kern ?u) = reg" using sim_kernel.deliver_time [OF K a] by simp
  from K ti a m obtain t' cb where f': "sm_find (timers u) m = Some (finalize t' (oneshot_spec reg cb))"
    and eq: "SAMAC_handleMessageWhenUp K E (SelfMsg (Some m) 0) ?u =
       rbind (samac_run_callback K E cb ?u) (\<lambda>s'.
         Inr (s'\<lparr>kern := cancelEvent K m (kern s'), timers := sm_erase m (timers s')\<rparr>))"
    by (rule sim_kernel.samac_timer_eq)
  have cb: "cb = RegistrationCallback"
    using arg_cong [OF trans [OF f' [symmetric] f], of "\<lambda>x. ts_callback (the x)"] by simp
  from fires [unfolded eq cb] obtain v where
    v: "registerAtSatellite K E (?u\<lparr>startRegistrationTimestamp := simTime K (kern ?u)\<rparr>) = Inr v"
    and u': "u' = v\<lparr>kern := cancelEvent K m (kern v), timers := sm_erase m (timers v)\<rparr>" by auto
  from v show ?thesis
  proof (rule registerAtSatelliteD)
    fix p k
    assume p: "registration_packet K E (?u\<lparr>startRegistrationTimestamp := simTime K (kern ?u),
        expectedAck_Timestamp := simTime K (kern (?u\<lparr>startRegistrationTimestamp := simTime K (kern ?u)\<rparr>)) +
          2 * currentSatelliteLatency (?u\<lparr>startRegistrationTimestamp := simTime K (kern ?u)\<rparr>) +
          maxSatelliteProcDelay_s (?u\<lparr>startRegistrationTimestamp := simTime K (kern ?u)\<rparr>)\<rparr>) = Inr p"
    assume k: "scheduleAt K (simTime K (kern (?u\<lparr>startRegistrationTimestamp := simTime K (kern ?u)\<rparr>)) +
          2 * currentSatelliteLatency (?u\<lparr>startRegistrationTimestamp := simTime K (kern ?u)\<rparr>) +
          maxSatelliteProcDelay_s (?u\<lparr>startRegistrationTimestamp := simTime K (kern ?u)\<rparr>))
        (ackTimer (?u\<lparr>startRegistrationTimestamp := simTime K (kern ?u)\<rparr>))
        (kern (?u\<lparr>startRegistrationTimestamp := simTime K (kern ?u)\<rparr>)) = Inr k"
    then have "arrival K (cancelEvent K m k) (ackTimer u) =
        Some (reg + 2 * currentSatelliteLatency u + maxSatelliteProcDelay_s u)"
      using m now by (simp add: sim_kernel.cancel_arrival [OF K] sim_kernel.schedule_arrival [OF K])
    moreover have "RegistrationChunk (address u) reg \<in> set (pk_chunks p)"
      using registration_packet_chunk [OF p] now by simp
    moreover assume "v = ?u\<lparr>startRegistrationTimestamp := simTime K (kern ?u),
        expectedAck_Timestamp := simTime K (kern (?u\<lparr>startRegistrationTimestamp := simTime K (kern ?u)\<rparr>)) +
          2 * currentSatelliteLatency (?u\<lparr>startRegistrationTimestamp := simTime K (kern ?u)\<rparr>) +
          maxSatelliteProcDelay_s (?u\<lparr>startRegistrationTimestamp := simTime K (kern ?u)\<rparr>),
        sentDown := p # sentDown (?u\<lparr>startRegistrationTimestamp := simTime K (kern ?u)\<rparr>),
        vehicleStatistics := EmitLong sendSatellitePackets 1 # EmitLong sendSatelliteRegistrationMessages 1 #
          vehicleStatistics (?u\<lparr>startRegistrationTimestamp := simTime K (kern ?u)\<rparr>), kern := k\<rparr>"
    ultimately show ?thesis using a now unfolding u' by (simp add: schedule_data_def)
  qed
qed

text \<open>C30: A vehicle receives a schedule at time \<open>t\<close>, before its last useful registration time, and no further one
  until its registration timer fires. Then it sends the registration, with the time of the timer, and
  expects the acknowledgement at a time for which its timer is set: after two trips with the
  measured latency and the satellite's delay, and before the current schedule ends, which is when
  the satellite publishes the next one. A registration that travels as long as the schedule did arrives
  before that, too.\<close>

theorem registration_window_meets_deadline:
  assumes "sim_kernel K" and "arrival K k = Map.empty" and "samac_reachable K E k s"
    and t: "simTime K (kern s) \<le> t" "no_earlier K (kern s) t"
    and pk: "pk_chunks pk = c1 # c2 # WlanScheduleChunk ws # cs" "\<not> has_chunk is_SatelliteAck pk"
    and h: "SAMAC_handleMessageWhenUp K E (PacketMsg LowerLayerIn pk) (s\<lparr>kern := advance K t (kern s)\<rparr>) = Inr s'"
    and win: "t < lastUsefulRegistrationTime s'"
    and new: "sm_find (timers s) m = None" "sm_find (timers s') m = Some spec" "ts_callback spec = RegistrationCallback"
    and later: "until_next_schedule K E s' u" "sm_find (timers u) m = Some spec"
    and fires: "SAMAC_handleMessageWhenUp K E (SelfMsg (Some m) 0) (u\<lparr>kern := deliver K m (kern u)\<rparr>) = Inr u'"
    and delay: "0 \<le> maxSatelliteProcDelay_s s" "ws_transmit ws \<le> t"
  shows "arrival K (kern u) m = Some (ts_start spec) \<and> t \<le> ts_start spec \<and>
    (\<exists>p. sentDown u' = p # sentDown u \<and> RegistrationChunk (address u) (ts_start spec) \<in> set (pk_chunks p)) \<and>
    arrival K (kern u') (ackTimer u') = Some (expectedAck_Timestamp u') \<and>
    ts_start spec + 2 * (t - ws_transmit ws) + maxSatelliteProcDelay_s s \<le> expectedAck_Timestamp u' \<and>
    expectedAck_Timestamp u' < endOfCurrentWlanSchedule u' \<and>
    endOfCurrentWlanSchedule u' = ws_transmit ws + ws_interval ws \<and>
    ts_start spec + (t - ws_transmit ws) < ws_transmit ws + ws_interval ws"
proof -
  have ti: "timers_inv K {} (timers s) (ackTimer s) (advance K t (kern s))"
    using samac_invD(1) [OF sim_kernel.samac_reachable_inv [OF assms(1,3,2)]] t(2)
    by (rule sim_kernel.timers_inv_advance [OF assms(1)])
  from assms(1) ti pk h win new obtain reg where spec: "spec = finalize t (oneshot_spec reg RegistrationCallback)" "t \<le> reg"
    and reg: "reg < ws_transmit ws + ws_interval ws - (2 * (t - ws_transmit ws) + maxSatelliteProcDelay_s s)"
    and data: "schedule_data s' = (ws_transmit ws + ws_interval ws, t - ws_transmit ws,
      ws_transmit ws + ws_interval ws - (2 * (t - ws_transmit ws) + maxSatelliteProcDelay_s s),
      maxSatelliteProcDelay_s s, ackTimer s)"
    by (rule schedule_registration_timer)
  have "samac_reachable K E k s'"
    using assms(3) samac_step.packet [OF t h] by (rule samac_reachable.step)
  from until_next_schedule_data [OF assms(1,2) this later(1)]
  have u: "samac_reachable K E k u" "schedule_data u = schedule_data s'" by simp_all
  have tu: "timers_inv K {} (timers u) (ackTimer u) (kern u)"
    by (rule samac_invD(1) [OF sim_kernel.samac_reachable_inv [OF assms(1) u(1) assms(2)]])
  show ?thesis
    using registration_timer_fires [OF assms(1) tu later(2) [unfolded spec(1)] fires] spec reg delay u(2) data
    by (auto simp: schedule_data_def)
qed

text \<open>The vehicle of the example after its transmission timer, which finds nothing to send.\<close>

definition ex_vehicle3 :: "ref_state samac" where
  "ex_vehicle3 = ex_vehicle1
     \<lparr>kern := \<lparr>rk_now = 151000000000, rk_fes = [(2, 595500000000)], rk_next = 3\<rparr>, timers := [(2, ex_reg_spec)]\<rparr>"

lemma ex_vehicle3_later: "until_next_schedule ref_kernel ex_env ex_vehicle1 ex_vehicle3"
proof -
  have "SAMAC_handleMessageWhenUp ref_kernel ex_env (SelfMsg (Some 1) 0)
      (ex_vehicle1\<lparr>kern := deliver ref_kernel 1 (kern ex_vehicle1)\<rparr>) = Inr ex_vehicle3"
    by (simp add: ex_timer_simps ex_vehicle3_def ex_vehicle1_def ex_vehicle0_def SIMTIME_S_def SIMTIME_MS_def)
  then have "samac_step ref_kernel ex_env ex_vehicle1 ex_vehicle3"
    by (intro samac_step.timer [where m = 1 and t = 151000000000])
      (auto simp: no_earlier_def ref_sel ex_vehicle1_def ex_vehicle0_def split: if_splits)
  with until_next_schedule.here show ?thesis
    by (rule until_next_schedule.later) (simp add: ex_vehicle3_def)
qed

definition ex_vehicle4 :: "ref_state samac" where
  "ex_vehicle4 = projr (SAMAC_handleMessageWhenUp ref_kernel ex_env (SelfMsg (Some 2) 0)
     (ex_vehicle3\<lparr>kern := deliver ref_kernel 2 (kern ex_vehicle3)\<rparr>))"

lemma ex_vehicle4_fires: "SAMAC_handleMessageWhenUp ref_kernel ex_env (SelfMsg (Some 2) 0)
     (ex_vehicle3\<lparr>kern := deliver ref_kernel 2 (kern ex_vehicle3)\<rparr>) = Inr ex_vehicle4"
proof -
  let ?s = "ex_vehicle3\<lparr>kern := deliver ref_kernel 2 (kern ex_vehicle3)\<rparr>"
  have p: "registration_packet ref_kernel ex_env s = Inr (projr (registration_packet ref_kernel ex_env s))"
    if "satelliteInterfaceEntry s = satelliteInterfaceEntry ?s" for s
    using that by (intro ex_env_registration) (simp add: ex_vehicle3_def ex_vehicle1_def ex_vehicle0_def)
  have now: "simTime ref_kernel (kern ?s) = 595500000000" by (simp add: ref_sel ex_vehicle3_def)
  have f: "sm_find (timers ?s) 2 = Some (finalize 104000000000 (oneshot_spec 595500000000 RegistrationCallback))"
    by (simp add: ex_vehicle3_def sm_find_def ex_reg_spec_def)
  have "is_ok (registerAtSatellite ref_kernel ex_env (?s\<lparr>startRegistrationTimestamp := simTime ref_kernel (kern ?s)\<rparr>))"
    unfolding registerAtSatellite_def Let_def
    by (subst p) (simp_all add: is_ok_def sendSatellitePacket_def record_defs ref_sel ex_vehicle3_def ex_vehicle1_def
        ex_vehicle0_def sm_erase_def)
  then have "is_ok (SAMAC_handleMessageWhenUp ref_kernel ex_env (SelfMsg (Some 2) 0) ?s)"
    using samac_ref.fire_oneshot [of ex_env ?s 2, OF _ ] f now
    by (auto simp: SAMAC_handleMessageWhenUp_def is_ok_def split: sum.splits)
  then show ?thesis by (auto simp: is_ok_def ex_vehicle4_def split: sum.splits)
qed

lemma registration_window_meets_deadline_witness:
  "expectedAck_Timestamp ex_vehicle4 < endOfCurrentWlanSchedule ex_vehicle4 \<and>
   endOfCurrentWlanSchedule ex_vehicle4 = 1100000000000 \<and>
   arrival ref_kernel (kern ex_vehicle4) (ackTimer ex_vehicle4) = Some (expectedAck_Timestamp ex_vehicle4)"
proof -
  have pk: "pk_chunks ex_schedule_packet = Ipv4Header 0x0A000001 0xE0000001 P_udp 1 80 # UdpHeader 9001 9001 60 #
      WlanScheduleChunk ex_schedule # []" "\<not> has_chunk is_SatelliteAck ex_schedule_packet"
    by (simp_all add: ex_schedule_packet_def has_chunk_def)
  have "simTime ref_kernel (kern ex_vehicle0) \<le> 104000000000" "no_earlier ref_kernel (kern ex_vehicle0) 104000000000"
    "104000000000 < lastUsefulRegistrationTime ex_vehicle1" "sm_find (timers ex_vehicle0) 2 = None"
    "sm_find (timers ex_vehicle1) 2 = Some ex_reg_spec" "ts_callback ex_reg_spec = RegistrationCallback"
    "sm_find (timers ex_vehicle3) 2 = Some ex_reg_spec" "0 \<le> maxSatelliteProcDelay_s ex_vehicle0"
    "ws_transmit ex_schedule \<le> 104000000000"
    by (simp_all add: ref_sel no_earlier_def ex_vehicle0_def ex_vehicle1_def ex_vehicle3_def sm_find_def ex_reg_spec_def
        ex_schedule_def)
  from registration_window_meets_deadline [OF ref_sim_kernel ref_init_empty ex_reach(1) this(1,2) pk ex_step1 this(3-6)
      ex_vehicle3_later this(7) ex_vehicle4_fires this(8,9)]
  show ?thesis by (simp add: ex_schedule_def)
qed

text \<open>Two schedules received before the first registration leave two registration timers. When the
  second one fires while the acknowledgement of the first is still awaited, the kernel refuses
  to schedule the acknowledgement timer again: the handler ends with an error.\<close>

theorem second_registration_fails:
  assumes "sim_kernel K" and "arrival K k = Map.empty" and "samac_reachable K E k s"
    and due: "arrival K (kern s) m = Some t"
    and spec: "sm_find (timers s) m = Some spec" "ts_callback spec = RegistrationCallback"
    and waiting: "arrival K (kern s) (ackTimer s) = Some u"
    and pk: "registration_packet K E (s\<lparr>kern := deliver K m (kern s)\<rparr>) = Inr p"
    and delay: "0 \<le> currentSatelliteLatency s" "0 \<le> maxSatelliteProcDelay_s s"
  shows "SAMAC_handleMessageWhenUp K E (SelfMsg (Some m) 0) (s\<lparr>kern := deliver K m (kern s)\<rparr>) =
    Inl AlreadyScheduled"
proof -
  let ?s = "s\<lparr>kern := deliver K m (kern s)\<rparr>"
  have ti: "timers_inv K {} (timers s) (ackTimer s) (kern s)"
    by (rule samac_invD(1) [OF sim_kernel.samac_reachable_inv [OF assms(1,3,2)]])
  have ma: "m \<noteq> ackTimer s" using timers_inv_ack [OF ti] spec(1) by auto
  from assms(1) ti due ma obtain now cb where f: "sm_find (timers s) m = Some (finalize now (oneshot_spec t cb))"
    and eq: "SAMAC_handleMessageWhenUp K E (SelfMsg (Some m) 0) ?s =
       rbind (samac_run_callback K E cb ?s) (\<lambda>s'.
         Inr (s'\<lparr>kern := cancelEvent K m (kern s'), timers := sm_erase m (timers s')\<rparr>))"
    by (rule sim_kernel.samac_timer_eq)
  have cb: "cb = RegistrationCallback" using f spec by auto
  have a: "arrival K (deliver K m (kern s)) (ackTimer s) = Some u"
    using waiting ma by (simp add: sim_kernel.deliver_arrival [OF assms(1)])
  have p: "registration_packet K E (?s\<lparr>startRegistrationTimestamp := a, expectedAck_Timestamp := b\<rparr>) = Inr p" for a b
    using pk by (subst registration_packet_cong [of _ ?s]) simp_all
  have "scheduleAt K (simTime K (deliver K m (kern s)) + 2 * currentSatelliteLatency s +
      maxSatelliteProcDelay_s s) (ackTimer s) (deliver K m (kern s)) = Inl AlreadyScheduled"
    using delay by (intro sim_kernel.schedule_twice [OF assms(1) _ a]) simp
  then have "samac_run_callback K E RegistrationCallback ?s = Inl AlreadyScheduled"
    using p by (simp add: registerAtSatellite_def Let_def sendSatellitePacket_def)
  then show ?thesis by (simp add: eq cb)
qed

lemma second_registration_fails_witness:
  "samac_reachable ref_kernel ex_env ref_init ex_clash4 \<and>
   SAMAC_handleMessageWhenUp ref_kernel ex_env (SelfMsg (Some 2) 0)
     (ex_clash4\<lparr>kern := deliver ref_kernel 2 (kern ex_clash4)\<rparr>) = Inl AlreadyScheduled"
proof -
  have "registration_packet ref_kernel ex_env (ex_clash4\<lparr>kern := deliver ref_kernel 2 (kern ex_clash4)\<rparr>) =
    Inr (projr (registration_packet ref_kernel ex_env (ex_clash4\<lparr>kern := deliver ref_kernel 2 (kern ex_clash4)\<rparr>)))"
    by (rule ex_env_registration) (simp add: ex_clash4_def ex_clash_sel)
  then show ?thesis
    using ex_clash_reach4 second_registration_fails [OF ref_sim_kernel ref_init_empty ex_clash_reach4,
        of 2 595500000000 ex_reg_spec 611500000000]
    by (simp add: ex_clash4_def ref_sel ex_clash_sel sm_find_def ex_reg_spec_def)
qed

section \<open>Injecting a frame\<close>

text \<open>A due transmission takes the oldest packet of the queue and hands one frame to the 802.11 MAC:
  in an independent network the frame is the packet behind an EtherType header and a data
  header that is addressed to the requested MAC address, with a QoS part exactly for packets
  with a user priority, followed by the four bytes of the trailer. The rest of the queue keeps
  its order and the in-progress queue is empty again.\<close>

theorem injection_frame_structure:
  assumes "pendingQueue s = p # q" and "inProgressFrames s = []"
    and "pk_protocol p = Some proto" "findProtocolNumber E proto \<noteq> -1"
    and "pk_macReq p = Some dest" and "mib_mode (mib E) = INDEPENDENT"
    and "\<And>f. extractFramesToTransmit E [f] = Some ([f], [])"
  shows "\<exists>s' f h. samac_run_callback K E TransmissionCallback s = Inr s' \<and>
     sentDirect s' = f # sentDirect s \<and> pendingQueue s' = q \<and> inProgressFrames s' = [] \<and>
     radioTransmitter s' \<and>
     pk_chunks f = DataHeader h # EtherTypeHeader (findProtocolNumber E proto) # pk_chunks p @ [MacTrailer] \<and>
     dh_receiver h = dest \<and> dh_transmitter h = mib_address (mib E) \<and> \<not> dh_fromDS h \<and> \<not> dh_toDS h \<and>
     (dh_qos h \<longleftrightarrow> pk_userPriority p \<noteq> None) \<and>
     packet_length f = packet_length p + 30 + (if pk_userPriority p \<noteq> None then 2 else 0) \<and>
     pk_mode f = Some (9, wlanBandwidth s)"
  using assms
  by (cases "pk_userPriority p")
    (simp_all add: doPacketInjection_def popPacket_def encapsulate_def data_header_def pushPacket_DropTail
      DATAFRAME_HEADER_MINLENGTH_def QOSCONTROL_PART_LENGTH_def insertAtFront_def insertAtBack_def
      packet_length_def)

lemma injection_frame_structure_witness:
  "\<exists>s' f h. samac_run_callback ref_kernel ex_env TransmissionCallback ex_vehicle2 = Inr s' \<and>
     sentDirect s' = [f] \<and> pendingQueue s' = [] \<and>
     pk_chunks f = [DataHeader h, EtherTypeHeader 0x0800, PayloadChunk 42 200, MacTrailer] \<and>
     dh_receiver h = 0xFFFFFFFFFFFF \<and> packet_length f = 230"
proof -
  have "pendingQueue ex_vehicle2 = ex_data_packet # []" "inProgressFrames ex_vehicle2 = []"
    "pk_protocol ex_data_packet = Some P_ipv4" "findProtocolNumber ex_env P_ipv4 \<noteq> -1"
    "pk_macReq ex_data_packet = Some 0xFFFFFFFFFFFF" "mib_mode (mib ex_env) = INDEPENDENT"
    "\<And>f. extractFramesToTransmit ex_env [f] = Some ([f], [])"
    by (simp_all add: ex_vehicle2_def ex_vehicle1_def ex_vehicle0_def ex_data_packet_def new_packet_def ex_env_def)
  note inj = injection_frame_structure [OF this, of ref_kernel]
  have "sentDirect ex_vehicle2 = []" "findProtocolNumber ex_env P_ipv4 = 0x0800"
    "pk_chunks ex_data_packet = [PayloadChunk 42 200]" "pk_userPriority ex_data_packet = None"
    "packet_length ex_data_packet = 200"
    by (simp_all add: ex_vehicle2_def ex_vehicle1_def ex_vehicle0_def ex_data_packet_def new_packet_def
        ex_env_def packet_length_def)
  with inj show ?thesis by (simp del: samac_run_callback.simps) blast
qed

text \<open>A packet from above is dropped before the first schedule; afterwards it is appended to the queue,
  unless the queue already holds 100 packets, in which case it is the one dropped.\<close>

theorem upper_packet_admission:
  assumes "length (pendingQueue s) \<le> 100"
  shows "SAMAC_handleMessageWhenUp K E (PacketMsg UpperLayerIn pk) s =
    Inr (if receivedInitialWlanSchedule s \<and> length (pendingQueue s) < 100
         then s\<lparr>pendingQueue := pendingQueue s @ [pk]\<rparr> else s)"
  using assms
  by (cases "length (pendingQueue s) < 100")
    (simp_all add: SAMAC_handleMessageWhenUp_def tm_handleMessage_def handleUpperPacket_def
      pushPacket_DropTail)

lemma upper_packet_admission_witness:
  "SAMAC_handleMessageWhenUp ref_kernel ex_env (PacketMsg UpperLayerIn ex_data_packet) ex_vehicle0 = Inr ex_vehicle0 \<and>
   SAMAC_handleMessageWhenUp ref_kernel ex_env (PacketMsg UpperLayerIn ex_data_packet) ex_vehicle1 =
     Inr (ex_vehicle1\<lparr>pendingQueue := [ex_data_packet]\<rparr>)"
  using upper_packet_admission [of ex_vehicle0 ref_kernel ex_env ex_data_packet]
    upper_packet_admission [of ex_vehicle1 ref_kernel ex_env ex_data_packet]
  by (simp add: ex_vehicle1_def ex_vehicle0_def)

text \<open>An acknowledgement registers the vehicle exactly when it carries the address of the vehicle; an
  acknowledgement for another vehicle only counts as a received packet. No timer changes.\<close>

theorem ack_registers_addressee:
  assumes "pk_chunks pk = c1 # c2 # SatelliteAckChunk v t # cs"
  shows "\<exists>s'. SAMAC_handleMessageWhenUp K E (PacketMsg LowerLayerIn pk) s = Inr s' \<and>
     (registeredAtSatellite s' \<longleftrightarrow> registeredAtSatellite s \<or> v = address s) \<and>
     timers s' = timers s \<and> kern s' = kern s \<and> pendingQueue s' = pendingQueue s \<and>
     emitted receivedSatelliteRegistrationAcks (vehicleStatistics s') =
       emitted receivedSatelliteRegistrationAcks (vehicleStatistics s) + (if v = address s then 1 else 0) \<and>
     emitted receivedSatellitePackets (vehicleStatistics s') =
       emitted receivedSatellitePackets (vehicleStatistics s) + 1"
  using assms
  by (auto simp: SAMAC_handleMessageWhenUp_def tm_handleMessage_def handleLeoPacket_def
      processLeoPacket_def has_chunk_def processLeoAck_def popAtFront_def peekAtFront_def stat_simps)

lemma ack_registers_addressee_witness:
  "\<exists>s'. SAMAC_handleMessageWhenUp ref_kernel ex_env (PacketMsg LowerLayerIn (ex_schedule_packet
      \<lparr>pk_chunks := [Ipv4Header 1 7 P_udp 1 34, UdpHeader 9001 12345 14, SatelliteAckChunk 7 0]\<rparr>))
      ex_vehicle1 = Inr s' \<and> registeredAtSatellite s'"
  using ack_registers_addressee [of "ex_schedule_packet\<lparr>pk_chunks := [Ipv4Header 1 7 P_udp 1 34,
      UdpHeader 9001 12345 14, SatelliteAckChunk 7 0]\<rparr>" "Ipv4Header 1 7 P_udp 1 34" "UdpHeader 9001 12345 14"
      7 0 "[]" ref_kernel ex_env ex_vehicle1]
  by (auto simp: ex_vehicle1_def ex_vehicle0_def)

end
