(* ===== verification/SV_Protocol.thy ===== *)
theory SV_Protocol
  imports SV_Satellite SV_Vehicle
begin

text \<open>
  The protocol between a satellite and its vehicles: the satellite as a machine from boot,
  what its schedules promise, and when vehicles that act on the same schedule transmit.
\<close>

section \<open>The satellite from boot\<close>

definition sat_boot ::
    "'k kernel_ops \<Rightarrow> (string \<Rightarrow> L3Address) \<Rightarrow> (string \<Rightarrow> int option) \<Rightarrow> satellite_par \<Rightarrow> 'k \<Rightarrow> 'k satellite res" where
  "sat_boot K resolve findInterface p k =
     Sat_handleStartOperation K resolve findInterface p
       (Sat_initialize K p 0 \<lparr>sa_kern = k, wlanScheduleTimer = 0, wlanSchedule = [], wlanSlot_s = Dbl 0 0,
          sa_interval_s = 0, maxV2SLatency_s = 0, sa_destAddress = L3_NONE, sa_interfaceId = None,
          sa_stats = [], sa_sent = []\<rparr>)"

inductive sat_reachable ::
    "'k kernel_ops \<Rightarrow> (string \<Rightarrow> L3Address) \<Rightarrow> (string \<Rightarrow> int option) \<Rightarrow> satellite_par \<Rightarrow> 'k \<Rightarrow> 'k satellite \<Rightarrow> bool"
  for K resolve findInterface p k where
  boot: "sat_boot K resolve findInterface p k = Inr s \<Longrightarrow> sat_reachable K resolve findInterface p k s"
| step: "sat_reachable K resolve findInterface p k s \<Longrightarrow> sat_step K s s' \<Longrightarrow>
     sat_reachable K resolve findInterface p k s'"

context sim_kernel
begin

lemma sat_boot_inv:
  assumes b: "sat_boot K resolve findInterface p k = Inr s" and int0: "0 \<le> par_wlanScheduleInterval_s p"
  shows "sat_inv K s"
proof -
  obtain m k1 where n: "newMessage K k = (m, k1)" by fastforce
  from b obtain k2 i where sch: "scheduleAt K (simTime K k1 + par_wlanScheduleInterval_s p) m k1 = Inr k2"
    and s: "sa_kern s = k2" "wlanScheduleTimer s = m" "wlanSchedule s = []" "sa_interfaceId s = Some i"
      "sa_interval_s s = par_wlanScheduleInterval_s p"
    by (auto simp: sat_boot_def Sat_initialize_def n Sat_handleStartOperation_def startApplication_def Let_def)
  from sch s int0 show ?thesis
    by (auto simp: sat_inv_def schedule_arrival [OF sch] schedule_time [OF sch] intro: schedule_abs_empty)
qed

lemma sat_reachable_inv:
  "sat_reachable K resolve findInterface p k s \<Longrightarrow> 0 \<le> par_wlanScheduleInterval_s p \<Longrightarrow> sat_inv K s"
  by (induction rule: sat_reachable.induct) (blast intro: sat_boot_inv sat_step_inv)+

end

section \<open>A concrete satellite\<close>

definition ex_sat_par :: satellite_par where
  "ex_sat_par = \<lparr>par_wlanSlot_s = default_slot, par_maxV2SLatency_s = 50000000000,
     par_wlanScheduleInterval_s = 1000000000000, par_interface = ''wlan0''\<rparr>"

definition ex_resolve :: "string \<Rightarrow> L3Address" where
  "ex_resolve a = L3_IPv4 0xE0000001"

definition ex_find :: "string \<Rightarrow> int option" where
  "ex_find a = Some 5"

definition ex_sat0 :: "ref_state satellite" where
  "ex_sat0 = \<lparr>sa_kern = \<lparr>rk_now = 0, rk_fes = [(0, 1000000000000)], rk_next = 1\<rparr>, wlanScheduleTimer = 0,
     wlanSchedule = [], wlanSlot_s = default_slot, sa_interval_s = 1000000000000,
     maxV2SLatency_s = 50000000000, sa_destAddress = L3_IPv4 0xE0000001, sa_interfaceId = Some 5,
     sa_stats = [], sa_sent = []\<rparr>"

definition ex_reg :: "mac \<Rightarrow> packet" where
  "ex_reg v = insertAtBack (RegistrationChunk v 0) (new_packet ''registerAtSatellite'')"

definition ex_sat1 :: "ref_state satellite" where
  "ex_sat1 = projr (Sat_handleMessageWhenUp ref_kernel (SatData False (ex_reg 9))
     (ex_sat0\<lparr>sa_kern := advance ref_kernel 500000000000 (sa_kern ex_sat0)\<rparr>))"

lemma ex_sat_boot: "sat_boot ref_kernel ex_resolve ex_find ex_sat_par ref_init = Inr ex_sat0"
  by (simp add: sat_boot_def Sat_initialize_def Sat_handleStartOperation_def startApplication_def
      ex_resolve_def ex_find_def ex_sat_par_def isUnspecified_def ref_sel ref_init_def ex_sat0_def)

lemma ex_sat_step1: "Sat_handleMessageWhenUp ref_kernel (SatData False (ex_reg 9))
     (ex_sat0\<lparr>sa_kern := advance ref_kernel 500000000000 (sa_kern ex_sat0)\<rparr>) = Inr ex_sat1"
  by (simp add: ex_sat1_def socketDataArrived_def Sat_processPacket_def ex_reg_def has_chunk_def
      insertAtBack_def new_packet_def peekAtFront_def sendAck_eq ex_sat0_def)

lemma ex_sat1_sel: "wlanSchedule ex_sat1 = [(9, dbl_times 0 default_slot)]" "wlanSlot_s ex_sat1 = default_slot"
   "wlanScheduleTimer ex_sat1 = 0" "sa_interfaceId ex_sat1 = Some 5"
   "sa_kern ex_sat1 = \<lparr>rk_now = 500000000000, rk_fes = [(0, 1000000000000)], rk_next = 1\<rparr>"
  by (simp_all add: ex_sat1_def socketDataArrived_def Sat_processPacket_def ex_reg_def has_chunk_def
      insertAtBack_def new_packet_def peekAtFront_def sendAck_eq ex_sat0_def addToWlanSchedule_def ref_sel)

lemma ex_sat_reach:
  "sat_reachable ref_kernel ex_resolve ex_find ex_sat_par ref_init ex_sat0"
  "sat_reachable ref_kernel ex_resolve ex_find ex_sat_par ref_init ex_sat1"
proof -
  show 0: "sat_reachable ref_kernel ex_resolve ex_find ex_sat_par ref_init ex_sat0"
    by (rule sat_reachable.boot) (rule ex_sat_boot)
  have "sat_step ref_kernel ex_sat0 ex_sat1"
    by (rule sat_step.data [OF _ _ ex_sat_step1]) (simp_all add: ref_sel ex_sat0_def)
  with 0 show "sat_reachable ref_kernel ex_resolve ex_find ex_sat_par ref_init ex_sat1"
    by (rule sat_reachable.step)
qed

section \<open>What the satellite promises\<close>

text \<open>C6: In every reachable state of the satellite the schedule under construction is the list of the
  vehicles registered in this interval in some order without repetition, the \<open>i\<close>-th of them
  with offset \<open>i\<close> times the slot length, and the timer that publishes it is due within one
  interval.\<close>

theorem satellite_schedule_invariant:
  assumes "sim_kernel K" and "sat_reachable K resolve findInterface p k s"
    and "0 \<le> par_wlanScheduleInterval_s p"
  shows "(\<exists>regs. distinct regs \<and> dom (sm_find (wlanSchedule s)) = set regs \<and>
            length (wlanSchedule s) = length regs \<and>
            (\<forall>i < length regs. sm_find (wlanSchedule s) (regs ! i) = Some (dbl_times (int i) (wlanSlot_s s)))) \<and>
         (\<exists>t. arrival K (sa_kern s) (wlanScheduleTimer s) = Some t \<and> simTime K (sa_kern s) \<le> t \<and>
              t \<le> simTime K (sa_kern s) + sa_interval_s s)"
  using sim_kernel.sat_reachable_inv [OF assms] by (auto simp: sat_inv_def schedule_abs_def)

lemma satellite_schedule_invariant_witness:
  "\<exists>regs. distinct regs \<and> dom (sm_find (wlanSchedule ex_sat1)) = set regs \<and> set regs = {9}"
proof -
  have "dom (sm_find (wlanSchedule ex_sat1)) = {9}"
    by (auto simp: ex_sat1_sel sm_find_def split: if_splits)
  with satellite_schedule_invariant [OF ref_sim_kernel ex_sat_reach(2)] show ?thesis
    by (auto simp: ex_sat_par_def)
qed

text \<open>C12: When the schedule timer of a reachable satellite is due, the handler succeeds: one packet with
  the whole schedule, the publication time, the interval and a begin that leaves the maximal
  latency is sent, its length counts 14 bytes per vehicle and 24 bytes of times, the next
  schedule starts empty, and the timer is armed one interval later.\<close>

theorem satellite_publishes:
  assumes "sim_kernel K" and "sat_reachable K resolve findInterface p k s"
    and "0 \<le> par_wlanScheduleInterval_s p"
    and due: "arrival K (sa_kern s) (wlanScheduleTimer s) = Some t"
  shows "\<exists>s' pk ws. Sat_handleMessageWhenUp K (SatSelf WLAN_SCHEDULE_TIMER)
            (s\<lparr>sa_kern := deliver K (wlanScheduleTimer s) (sa_kern s)\<rparr>) = Inr s' \<and>
       sa_sent s' = (pk, sa_destAddress s, 9001) # sa_sent s \<and> pk_chunks pk = [WlanScheduleChunk ws] \<and>
       ws_schedule ws = wlanSchedule s \<and> ws_transmit ws = t \<and> ws_begin ws = t + maxV2SLatency_s s \<and>
       ws_interval ws = sa_interval_s s \<and> ws_length ws = length (wlanSchedule s) * 14 + 24 \<and>
       wlanSchedule s' = [] \<and>
       arrival K (sa_kern s') = (arrival K (sa_kern s))(wlanScheduleTimer s \<mapsto> t + sa_interval_s s)"
proof -
  have inv: "sat_inv K s" using sim_kernel.sat_reachable_inv [OF assms(1-3)] .
  then obtain i where i: "sa_interfaceId s = Some i" by (rule sat_invE)
  let ?k = "deliver K (wlanScheduleTimer s) (sa_kern s)"
  let ?s = "s\<lparr>sa_kern := ?k\<rparr>"
  have now: "simTime K ?k = t" using due by (rule sim_kernel.deliver_time [OF assms(1)])
  obtain s' where h: "Sat_handleMessageWhenUp K (SatSelf WLAN_SCHEDULE_TIMER) ?s = Inr s'"
    using sim_kernel.sat_timer_total [OF assms(1) inv] by blast
  then obtain k' where sch: "scheduleAt K (t + sa_interval_s s) (wlanScheduleTimer s) ?k = Inr k'"
    and s': "s' = s\<lparr>wlanSchedule := [], sa_stats := EmitLong sendSatellitePackets 1 #
         EmitLong sendWlanSchedules 1 #
         EmitLong registeredVehiclesPerSchedule (int (length (wlanSchedule s))) # sa_stats s,
       sa_sent := (schedule_packet K i ?s, sa_destAddress s, portNumber) # sa_sent s,
       sa_kern := k'\<rparr>"
    using i now by (auto simp: Sat_handleSelfMessage_def publish_eq)
  have "arrival K k' = (arrival K (sa_kern s))(wlanScheduleTimer s \<mapsto> t + sa_interval_s s)"
    by (simp add: sim_kernel.schedule_arrival [OF assms(1) sch] sim_kernel.deliver_arrival [OF assms(1)])
  with h show ?thesis
    by (intro exI [of _ s'] exI [of _ "schedule_packet K i ?s"] exI [of _ "schedule_message K ?s"])
      (simp add: s' now schedule_packet_def schedule_message_def insertAtBack_def new_packet_def portNumber_def)
qed

lemma satellite_publishes_witness:
  "\<exists>s' pk ws. Sat_handleMessageWhenUp ref_kernel (SatSelf WLAN_SCHEDULE_TIMER)
       (ex_sat1\<lparr>sa_kern := deliver ref_kernel (wlanScheduleTimer ex_sat1) (sa_kern ex_sat1)\<rparr>) = Inr s' \<and>
     sa_sent s' = (pk, sa_destAddress ex_sat1, 9001) # sa_sent ex_sat1 \<and>
     pk_chunks pk = [WlanScheduleChunk ws] \<and> ws_schedule ws = [(9, dbl_times 0 default_slot)] \<and>
     wlanSchedule s' = []"
proof -
  have "arrival ref_kernel (sa_kern ex_sat1) (wlanScheduleTimer ex_sat1) = Some 1000000000000"
    by (simp add: ref_sel ex_sat1_sel)
  moreover have "0 \<le> par_wlanScheduleInterval_s ex_sat_par" by (simp add: ex_sat_par_def)
  ultimately show ?thesis
    unfolding ex_sat1_sel(1) [symmetric]
    by (blast dest: satellite_publishes [OF ref_sim_kernel ex_sat_reach(2)])
qed

text \<open>C9: A registration refines the abstract schedule: the list of registered vehicles grows by the
  vehicle if it is new and stays as it is otherwise, so a repeated registration keeps its slot;
  one acknowledgement for the vehicle is sent, in either case.\<close>

theorem registration_refines_list:
  assumes "schedule_abs (wlanSlot_s s) (wlanSchedule s) regs" and "sa_interfaceId s = Some i"
    and "pk_chunks pk = RegistrationChunk v t # cs"
  shows "\<exists>s' ack. Sat_handleMessageWhenUp K (SatData False pk) s = Inr s' \<and>
     schedule_abs (wlanSlot_s s') (wlanSchedule s') (if v \<in> set regs then regs else regs @ [v]) \<and>
     sa_sent s' = (ack, sa_destAddress s, 9001) # sa_sent s \<and>
     pk_chunks ack = [SatelliteAckChunk v (simTime K (sa_kern s))] \<and> sa_kern s' = sa_kern s"
  using assms addToWlanSchedule_refines [OF assms(1), of v]
  by (simp add: socketDataArrived_def Sat_processPacket_def has_chunk_def peekAtFront_def sendAck_eq
      spec_register_def insertAtBack_def new_packet_def portNumber_def)

lemma registration_refines_list_witness:
  "\<exists>s'. Sat_handleMessageWhenUp ref_kernel (SatData False (ex_reg 4)) ex_sat1 = Inr s' \<and>
     schedule_abs (wlanSlot_s s') (wlanSchedule s') [9, 4]"
proof -
  have "schedule_abs (wlanSlot_s ex_sat1) (wlanSchedule ex_sat1) [9]"
    by (auto simp: schedule_abs_def ex_sat1_sel sm_inv_Cons sm_find_def split: if_splits)
  from registration_refines_list [OF this ex_sat1_sel(4), of "ex_reg 4" 4 0 "[]" ref_kernel]
  show ?thesis by (auto simp: ex_reg_def insertAtBack_def new_packet_def)
qed

section \<open>When vehicles transmit\<close>

text \<open>The slot arithmetic of one slot with the binades of both products given.\<close>

definition slot_check :: "nat \<Rightarrow> nat \<Rightarrow> int \<Rightarrow> bool" where
  "slot_check b c i =
     (let x = i * 4611686018427388; z = 1000 * (rne b x * 2 ^ b)
      in 2 ^ (52 + b) \<le> x \<and> x < 2 ^ (53 + b) \<and> 2 ^ (52 + c) \<le> z \<and> z < 2 ^ (53 + c) \<and>
         0 \<le> rne c z \<and> (rne c z * 2 ^ c) div 2 ^ 62 = i)"

lemma slot_check_sound: "slot_check b c i \<Longrightarrow> slot_ms (dbl_times i default_slot) = i"
  unfolding slot_check_def Let_def slot_ms_def dbl_times_def default_slot_def dbl_trunc_def dbl.sel
  by (metis (no_types, lifting) mult_nonneg_nonneg rnd53_binade zero_le_numeral zero_le_power)



text \<open>The binades of the products of slot \<open>i\<close>, for the slots of the protocol.\<close>

definition slot_binades :: "int \<Rightarrow> nat \<times> nat" where
  "slot_binades i =
     (if i < 2 then (0, 10) else if i < 4 then (1, 11) else if i < 8 then (2, 12)
      else if i < 16 then (3, 13) else if i < 32 then (4, 14) else if i < 63 then (5, 15)
      else if i < 64 then (6, 15) else (6, 16))"

lemma slot_checks: "list_all (\<lambda>i. case slot_binades i of (b, c) \<Rightarrow> slot_check b c i) [1..99]"
  by code_simp

lemma slot_ms_default:
  assumes "i < 100"
  shows "slot_ms (dbl_times (int i) default_slot) = int i"
proof (cases "i = 0")
  case True
  then show ?thesis
    by (simp add: dbl_times_zero slot_ms_def dbl_times_def rnd53_small dbl_trunc_def)
next
  case False
  with assms have "int i \<in> set [1..99]" by simp
  then have "case slot_binades (int i) of (b, c) \<Rightarrow> slot_check b c (int i)"
    using slot_checks by (simp only: list_all_iff)
  then show ?thesis by (auto intro: slot_check_sound split: prod.splits)
qed

text \<open>Larger slot numbers never give an earlier offset, whatever the slot length.\<close>

lemma slot_ms_mono:
  assumes "0 \<le> mant d" and "i \<le> j"
  shows "slot_ms (dbl_times (int i) d) \<le> slot_ms (dbl_times (int j) d)"
proof -
  have "rnd53 (int i * mant d) \<le> rnd53 (int j * mant d)"
    using assms by (intro rnd53_mono mult_right_mono) simp_all
  moreover have "0 \<le> rnd53 (int i * mant d)" using assms by (intro rnd53_nonneg) simp
  ultimately show ?thesis
    unfolding slot_ms_def dbl_times_def by (simp add: dbl_trunc_mono rnd53_mono rnd53_nonneg)
qed

text \<open>The transmission time a vehicle takes from a schedule.\<close>

lemma new_transmission_time:
  assumes K: "sim_kernel K" and ti: "timers_inv K {} (timers s) (ackTimer s) (kern s)"
    and h: "handleWlanSchedule K ws s = Inr s'"
    and m: "sm_find (timers s) m = None" "sm_find (timers s') m = Some spec"
      "ts_callback spec = TransmissionCallback"
  shows "case sm_find (ws_schedule ws) (address s) of
        Some d \<Rightarrow> ts_start spec = ws_begin ws + slot_ms d * SIMTIME_MS
      | None \<Rightarrow> if length (ws_schedule ws) < 100
               then \<exists>n. int (length (ws_schedule ws)) \<le> n \<and> n \<le> 99 \<and>
                        ts_start spec = ws_begin ws + n * SIMTIME_MS
               else ts_start spec = ws_begin ws"
proof -
  from schedule_effect [OF K ti h] obtain m1 m2 tx reg offset where
    ts: "timers s' = sm_insert m2 (finalize (simTime K (kern s)) (oneshot_spec reg RegistrationCallback))
       (sm_insert m1 (finalize (simTime K (kern s)) (oneshot_spec tx TransmissionCallback)) (timers s))" and
    tx: "tx = ws_begin ws + offset" and
    off: "case sm_find (ws_schedule ws) (address s) of
        Some d \<Rightarrow> offset = slot_ms d * SIMTIME_MS
      | None \<Rightarrow> if length (ws_schedule ws) < 100
               then \<exists>n. int (length (ws_schedule ws)) \<le> n \<and> n \<le> 99 \<and> offset = n * SIMTIME_MS
               else length (ws_schedule ws) = 100 \<and> offset = 0"
    by blast
  have sm: "sm_inv (timers s)" by (rule timers_inv_sm [OF ti])
  have "spec = finalize (simTime K (kern s)) (oneshot_spec tx TransmissionCallback)"
    using m sm_inv_insert [OF sm] by (auto simp: ts sm_find_insert sm split: if_splits option.splits)
  then have "ts_start spec = ws_begin ws + offset" by (simp add: tx)
  with off show ?thesis by (auto split: option.splits if_splits)
qed

text \<open>C1: With the default slot length, vehicles that act on the same schedule of fewer than 100 vehicles
  never transmit within the same millisecond slot as a registered vehicle: the transmission
  times of two registered vehicles, and of a registered and an unregistered one, are at least
  one millisecond apart.\<close>

theorem transmissions_do_not_collide:
  assumes K: "sim_kernel K" "arrival K k1 = Map.empty" "arrival K k2 = Map.empty"
    and r: "samac_reachable K E1 k1 s1" "samac_reachable K E2 k2 s2"
    and e: "no_earlier K (kern s1) t1" "no_earlier K (kern s2) t2"
    and h: "handleWlanSchedule K ws (s1\<lparr>kern := advance K t1 (kern s1)\<rparr>) = Inr s1'"
      "handleWlanSchedule K ws (s2\<lparr>kern := advance K t2 (kern s2)\<rparr>) = Inr s2'"
    and sched: "schedule_abs default_slot (ws_schedule ws) regs" "length regs < 100"
    and different: "address s1 \<noteq> address s2" "address s1 \<in> set regs"
    and m1: "sm_find (timers s1) m1 = None" "sm_find (timers s1') m1 = Some spec1"
      "ts_callback spec1 = TransmissionCallback"
    and m2: "sm_find (timers s2) m2 = None" "sm_find (timers s2') m2 = Some spec2"
      "ts_callback spec2 = TransmissionCallback"
  shows "SIMTIME_MS \<le> \<bar>ts_start spec1 - ts_start spec2\<bar>"
proof -
  have ti: "timers_inv K {} (timers s) (ackTimer s) (advance K t (kern s))"
    if "samac_reachable K E k s" "arrival K k = Map.empty" "no_earlier K (kern s) t" for E k s t
    using samac_invD(1) [OF sim_kernel.samac_reachable_inv [OF K(1) that(1,2)]] that(3)
    by (rule sim_kernel.timers_inv_advance [OF K(1)])
  have len: "length (ws_schedule ws) = length regs" using sched by (simp add: schedule_abs_def)
  obtain d1 where d1: "sm_find (ws_schedule ws) (address s1) = Some d1"
    using different(2) schedule_abs_dom [OF sched(1)] by blast
  then obtain i where i: "i < length regs" "regs ! i = address s1" and d1': "d1 = dbl_times (int i) default_slot"
    using schedule_abs_Some [OF sched(1)] by metis
  have 1: "ts_start spec1 = ws_begin ws + int i * SIMTIME_MS"
    using new_transmission_time [OF K(1) _ h(1)] ti [OF r(1) K(2) e(1)] m1 d1 i sched(2)
    by (simp add: d1' slot_ms_default)
  obtain n where n: "ts_start spec2 = ws_begin ws + n * SIMTIME_MS" and "n \<noteq> int i"
  proof (cases "sm_find (ws_schedule ws) (address s2)")
    case None
    then obtain n where l: "int (length regs) \<le> n" and n: "ts_start spec2 = ws_begin ws + n * SIMTIME_MS"
      using new_transmission_time [OF K(1) _ h(2) _ m2(2,3)] ti [OF r(2) K(3) e(2)] m2 sched(2) len by auto
    show ?thesis by (rule that [OF n]) (use i(1) l in linarith)
  next
    case (Some d2)
    then obtain j where j: "j < length regs" "regs ! j = address s2" and d2: "d2 = dbl_times (int j) default_slot"
      using schedule_abs_Some [OF sched(1)] by metis
    have "ts_start spec2 = ws_begin ws + int j * SIMTIME_MS"
      using new_transmission_time [OF K(1) _ h(2)] ti [OF r(2) K(3) e(2)] m2 Some j sched(2)
      by (simp add: d2 slot_ms_default)
    moreover have "int j \<noteq> int i" using i j different(1) by auto
    ultimately show ?thesis by (rule that)
  qed
  have "ts_start spec1 - ts_start spec2 = (int i - n) * SIMTIME_MS"
    by (simp add: 1 n left_diff_distrib)
  moreover have "1 \<le> \<bar>int i - n\<bar>" using \<open>n \<noteq> int i\<close> by linarith
  ultimately show ?thesis by (simp add: abs_mult SIMTIME_MS_def)
qed

text \<open>A second vehicle, with address 8, that is not in the schedule: it draws the first free slot.\<close>

definition ex_env8 :: samac_env where
  "ex_env8 = ex_env\<lparr>par_localMacAddress := 8\<rparr>"

definition ex_other0 :: "ref_state samac" where
  "ex_other0 = ex_vehicle0\<lparr>address := 8\<rparr>"

definition ex_other_tx :: "samac_callback TimerSpecification" where
  "ex_other_tx = finalize 104000000000 (oneshot_spec 152000000000 TransmissionCallback)"

lemma ex_other_boot: "samac_reachable ref_kernel ex_env8 ref_init ex_other0"
  by (rule samac_reachable.boot)
    (simp add: samac_boot_def SAMAC_initialize_def configureInterfaceEntry_def
      SAMAC_handleStartOperation_def ref_sel ex_env8_def ex_env_def ex_other0_def ex_vehicle0_def ref_init_def)

lemma ex_other_handle: "\<exists>s'. handleWlanSchedule ref_kernel ex_schedule
    (ex_other0\<lparr>kern := advance ref_kernel 104000000000 (kern ex_other0)\<rparr>) = Inr s' \<and>
    sm_find (timers s') 1 = Some ex_other_tx"
  by (simp add: handleWlanSchedule_def scheduleWlanTransmission_def create_oneshot_def oneshotAt_eq
      tm_create_def ex_schedule_def ex_other0_def ex_vehicle0_def ref_sel sm_find_def
      record_defs SIMTIME_MS_def ex_other_tx_def sm_erase_def)

lemma ex_first_handle: "\<exists>s'. handleWlanSchedule ref_kernel ex_schedule
    (ex_vehicle0\<lparr>kern := advance ref_kernel 104000000000 (kern ex_vehicle0)\<rparr>) = Inr s' \<and>
    sm_find (timers s') 1 = Some ex_tx_spec"
  by (simp add: handleWlanSchedule_def scheduleWlanTransmission_def create_oneshot_def oneshotAt_eq
      tm_create_def ex_schedule_def ex_vehicle0_def ref_sel sm_find_def ex_slot
      record_defs SIMTIME_MS_def ex_tx_spec_def sm_erase_def)

lemma ex_schedule_abs: "schedule_abs default_slot (ws_schedule ex_schedule) [3, 7]"
  by (auto simp: schedule_abs_def ex_schedule_def sm_inv_Cons sm_find_def less_Suc_eq split: if_splits)

lemma transmissions_do_not_collide_witness:
  "SIMTIME_MS \<le> \<bar>ts_start ex_tx_spec - ts_start ex_other_tx\<bar>"
proof -
  obtain s1' s2' where h: "handleWlanSchedule ref_kernel ex_schedule
      (ex_vehicle0\<lparr>kern := advance ref_kernel 104000000000 (kern ex_vehicle0)\<rparr>) = Inr s1'"
    "sm_find (timers s1') 1 = Some ex_tx_spec"
    "handleWlanSchedule ref_kernel ex_schedule
      (ex_other0\<lparr>kern := advance ref_kernel 104000000000 (kern ex_other0)\<rparr>) = Inr s2'"
    "sm_find (timers s2') 1 = Some ex_other_tx"
    using ex_first_handle ex_other_handle by blast
  have e: "no_earlier ref_kernel (kern ex_vehicle0) 104000000000"
    "no_earlier ref_kernel (kern ex_other0) 104000000000"
    by (simp_all add: no_earlier_def ref_sel ex_vehicle0_def ex_other0_def)
  show ?thesis
    by (rule transmissions_do_not_collide [OF ref_sim_kernel ref_init_empty ref_init_empty ex_reach(1)
          ex_other_boot e h(1) h(3) ex_schedule_abs _ _ _ _ h(2) _ _ h(4)])
      (simp_all add: ex_vehicle0_def ex_other0_def ex_tx_spec_def ex_other_tx_def)
qed

text \<open>When the schedule is full, with exactly 100 vehicles, a vehicle that is not in it transmits at the
  begin of the schedule, which is the slot of the first registered vehicle.\<close>

theorem full_schedule_collides:
  assumes K: "sim_kernel K" "arrival K k1 = Map.empty" "arrival K k2 = Map.empty"
    and r: "samac_reachable K E1 k1 s1" "samac_reachable K E2 k2 s2"
    and e: "no_earlier K (kern s1) t1" "no_earlier K (kern s2) t2"
    and h: "handleWlanSchedule K ws (s1\<lparr>kern := advance K t1 (kern s1)\<rparr>) = Inr s1'"
      "handleWlanSchedule K ws (s2\<lparr>kern := advance K t2 (kern s2)\<rparr>) = Inr s2'"
    and sched: "schedule_abs default_slot (ws_schedule ws) regs" "length regs = 100"
    and who: "address s1 = regs ! 0" "address s2 \<notin> set regs"
    and m1: "sm_find (timers s1) m1 = None" "sm_find (timers s1') m1 = Some spec1"
      "ts_callback spec1 = TransmissionCallback"
    and m2: "sm_find (timers s2) m2 = None" "sm_find (timers s2') m2 = Some spec2"
      "ts_callback spec2 = TransmissionCallback"
  shows "ts_start spec1 = ts_start spec2"
proof -
  have ti: "timers_inv K {} (timers s) (ackTimer s) (advance K t (kern s))"
    if "samac_reachable K E k s" "arrival K k = Map.empty" "no_earlier K (kern s) t" for E k s t
    using samac_invD(1) [OF sim_kernel.samac_reachable_inv [OF K(1) that(1,2)]] that(3)
    by (rule sim_kernel.timers_inv_advance [OF K(1)])
  have len: "length (ws_schedule ws) = 100" using sched by (simp add: schedule_abs_def)
  have "sm_find (ws_schedule ws) (address s1) = Some (dbl_times (int 0) default_slot)"
    using sched by (simp add: schedule_abs_def who)
  then have "ts_start spec1 = ws_begin ws"
    using new_transmission_time [OF K(1) _ h(1) _ m1(2,3)] ti [OF r(1) K(2) e(1)] m1(1)
      slot_ms_default [of 0] by simp
  moreover have "sm_find (ws_schedule ws) (address s2) = None"
    using schedule_abs_dom [OF sched(1)] who by blast
  then have "ts_start spec2 = ws_begin ws"
    using new_transmission_time [OF K(1) _ h(2) _ m2(2,3)] ti [OF r(2) K(3) e(2)] m2(1) len by simp
  ultimately show ?thesis by simp
qed

text \<open>Registering a list of distinct vehicles one after the other.\<close>

lemma register_all_abs:
  "schedule_abs (wlanSlot_s s) (wlanSchedule s) regs0 \<Longrightarrow> distinct (regs0 @ regs) \<Longrightarrow>
   schedule_abs (wlanSlot_s s) (wlanSchedule (fold addToWlanSchedule regs s)) (regs0 @ regs)"
proof (induction regs arbitrary: regs0 s)
  case Nil
  then show ?case by simp
next
  case (Cons v regs)
  have "schedule_abs (wlanSlot_s s) (wlanSchedule (addToWlanSchedule v s)) (regs0 @ [v])"
    using addToWlanSchedule_refines [OF Cons.prems(1), of v] Cons.prems(2) by (simp add: spec_register_def)
  then show ?case
    using Cons.IH [of "addToWlanSchedule v s" "regs0 @ [v]"] Cons.prems(2) by simp
qed

definition ex_regs :: "mac list" where
  "ex_regs = 7 # map (\<lambda>i. word_of_int i) [1000..1098]"

definition ex_full :: SpaceVeinsWlanScheduleMessage where
  "ex_full = ex_schedule\<lparr>ws_schedule := wlanSchedule (fold addToWlanSchedule ex_regs ex_sat0)\<rparr>"

lemma ex_regs_facts: "distinct ex_regs" "length ex_regs = 100" "8 \<notin> set ex_regs"
proof -
  have inj: "inj_on (word_of_int :: int \<Rightarrow> mac) {0..<2000}"
    by (rule inj_onI) (simp add: word_of_int_eq_iff take_bit_int_eq_self)
  have r: "ex_regs = map word_of_int (7 # [1000..1098])" by (simp add: ex_regs_def)
  have "distinct (8 # 7 # [1000..1098 :: int])" by simp
  moreover have "set (8 # 7 # [1000..1098]) \<subseteq> {0..<2000::int}" by auto
  ultimately have "distinct (map (word_of_int :: int \<Rightarrow> mac) (8 # 7 # [1000..1098]))"
    using inj by (metis distinct_map inj_on_subset)
  then have "distinct (8 # ex_regs)" unfolding r by simp
  then show "distinct ex_regs" "8 \<notin> set ex_regs" by simp_all
  show "length ex_regs = 100" by (simp add: ex_regs_def)
qed

lemma ex_full_abs: "schedule_abs default_slot (ws_schedule ex_full) ex_regs"
proof -
  have "schedule_abs (wlanSlot_s ex_sat0) (wlanSchedule ex_sat0) []"
    by (simp add: ex_sat0_def schedule_abs_empty)
  from register_all_abs [OF this, of ex_regs] show ?thesis
    by (simp add: ex_full_def ex_regs_facts ex_sat0_def)
qed

text \<open>Two vehicles that have just booted accept the full schedule.\<close>

lemma booted_accepts:
  assumes s: "samac_reachable ref_kernel E ref_init s" "timers s = []" "kern s = kern ex_vehicle0"
      "maxSatelliteProcDelay_s s = 5000000000"
    and ws: "schedule_abs default_slot (ws_schedule ws) regs" "length regs \<le> 100"
      "ws_begin ws = ws_begin ex_schedule" "ws_transmit ws = ws_transmit ex_schedule"
      "ws_interval ws = ws_interval ex_schedule"
  shows "\<exists>s' m spec. handleWlanSchedule ref_kernel ws (s\<lparr>kern := advance ref_kernel 104000000000 (kern s)\<rparr>) = Inr s' \<and>
     sm_find (timers s') m = Some spec \<and> ts_callback spec = TransmissionCallback"
proof -
  let ?s = "s\<lparr>kern := advance ref_kernel 104000000000 (kern s)\<rparr>"
  have e: "no_earlier ref_kernel (kern s) 104000000000"
    by (simp add: no_earlier_def ref_sel s ex_vehicle0_def)
  have ti: "timers_inv ref_kernel {} (timers ?s) (ackTimer ?s) (kern ?s)"
    using ref.timers_inv_advance [OF samac_invD(1) [OF ref.samac_reachable_inv [OF s(1) ref_init_empty]] e]
    by simp
  have mant: "0 \<le> mant d" if "sm_find (ws_schedule ws) v = Some d" for v d
    using schedule_abs_Some [OF ws(1) that] by (metis mant_dbl_times_nonneg dbl.sel(1) default_slot_def
        of_nat_0_le_iff zero_le_numeral)
  have "\<exists>s'. handleWlanSchedule ref_kernel ws ?s = Inr s'"
    by (rule ref.handleWlanSchedule_total [OF ti])
      (use ws mant s in \<open>auto simp: schedule_abs_def ref_sel ex_vehicle0_def ex_schedule_def\<close>)
  then obtain s' where h: "handleWlanSchedule ref_kernel ws ?s = Inr s'" by blast
  from schedule_effect [OF ref_sim_kernel ti h] obtain m1 m2 tx reg where "m1 \<noteq> m2" and
    ts: "timers s' = sm_insert m2 (finalize (simTime ref_kernel (kern ?s)) (oneshot_spec reg RegistrationCallback))
       (sm_insert m1 (finalize (simTime ref_kernel (kern ?s)) (oneshot_spec tx TransmissionCallback)) [])"
    using s(2) by auto
  have "sm_find (timers s') m1 = Some (finalize (simTime ref_kernel (kern ?s)) (oneshot_spec tx TransmissionCallback))"
    unfolding ts using \<open>m1 \<noteq> m2\<close> by (auto simp: sm_find_def)
  with h show ?thesis by (metis oneshot_sel(5))
qed

lemma full_schedule_collides_witness:
  "\<exists>s1' s2' m1 m2 spec1 spec2.
     handleWlanSchedule ref_kernel ex_full
       (ex_vehicle0\<lparr>kern := advance ref_kernel 104000000000 (kern ex_vehicle0)\<rparr>) = Inr s1' \<and>
     handleWlanSchedule ref_kernel ex_full
       (ex_other0\<lparr>kern := advance ref_kernel 104000000000 (kern ex_other0)\<rparr>) = Inr s2' \<and>
     sm_find (timers s1') m1 = Some spec1 \<and> ts_callback spec1 = TransmissionCallback \<and>
     sm_find (timers s2') m2 = Some spec2 \<and> ts_callback spec2 = TransmissionCallback \<and>
     ts_start spec1 = ts_start spec2"
proof -
  have ws: "ws_begin ex_full = ws_begin ex_schedule" "ws_transmit ex_full = ws_transmit ex_schedule"
      "ws_interval ex_full = ws_interval ex_schedule" "length ex_regs \<le> 100"
    by (simp_all add: ex_full_def ex_regs_facts)
  obtain s1' m1 spec1 where 1: "handleWlanSchedule ref_kernel ex_full
       (ex_vehicle0\<lparr>kern := advance ref_kernel 104000000000 (kern ex_vehicle0)\<rparr>) = Inr s1'"
     "sm_find (timers s1') m1 = Some spec1" "ts_callback spec1 = TransmissionCallback"
    using booted_accepts [OF ex_reach(1) _ _ _ ex_full_abs ws(4,1-3)] by (auto simp: ex_vehicle0_def)
  obtain s2' m2 spec2 where 2: "handleWlanSchedule ref_kernel ex_full
       (ex_other0\<lparr>kern := advance ref_kernel 104000000000 (kern ex_other0)\<rparr>) = Inr s2'"
     "sm_find (timers s2') m2 = Some spec2" "ts_callback spec2 = TransmissionCallback"
    using booted_accepts [OF ex_other_boot _ _ _ ex_full_abs ws(4,1-3)]
    by (auto simp: ex_other0_def ex_vehicle0_def)
  have e: "no_earlier ref_kernel (kern ex_vehicle0) 104000000000"
    "no_earlier ref_kernel (kern ex_other0) 104000000000"
    and t: "sm_find (timers ex_vehicle0) m1 = None" "sm_find (timers ex_other0) m2 = None"
    and a: "address ex_vehicle0 = ex_regs ! 0" "address ex_other0 = 8"
    by (simp_all add: no_earlier_def ref_sel ex_vehicle0_def ex_other0_def ex_regs_def)
  have "ts_start spec1 = ts_start spec2"
    by (rule full_schedule_collides [OF ref_sim_kernel ref_init_empty ref_init_empty ex_reach(1)
          ex_other_boot e 1(1) 2(1) ex_full_abs ex_regs_facts(2) a(1) _ t(1) 1(2,3) t(2) 2(2,3)])
      (simp add: a ex_regs_facts)
  with 1 2 show ?thesis by blast
qed

text \<open>For every slot length, vehicles of the same schedule transmit in the order of their
  registration: a later registration never gives an earlier transmission time. Whole
  milliseconds are all that is left of a slot: a slot of half a millisecond puts the first and
  the second vehicle at the same time.\<close>

theorem transmissions_in_registration_order:
  assumes "0 \<le> mant slot" and sched: "schedule_abs slot (ws_schedule ws) regs"
    and ij: "i < j" "j < length regs"
  shows "\<exists>d1 d2. sm_find (ws_schedule ws) (regs ! i) = Some d1 \<and> sm_find (ws_schedule ws) (regs ! j) = Some d2 \<and>
           schedule_delta (ws_schedule ws) (regs ! i) n1 = slot_ms d1 * SIMTIME_MS \<and>
           schedule_delta (ws_schedule ws) (regs ! j) n2 = slot_ms d2 * SIMTIME_MS \<and>
           schedule_delta (ws_schedule ws) (regs ! i) n1 \<le> schedule_delta (ws_schedule ws) (regs ! j) n2 \<and>
           (slot = Dbl 2305843009213694 62 \<and> i = 0 \<and> j = 1 \<longrightarrow>
              schedule_delta (ws_schedule ws) (regs ! i) n1 = schedule_delta (ws_schedule ws) (regs ! j) n2)"
proof -
  have f: "sm_find (ws_schedule ws) (regs ! i) = Some (dbl_times (int i) slot)"
    "sm_find (ws_schedule ws) (regs ! j) = Some (dbl_times (int j) slot)"
    using sched ij by (simp_all add: schedule_abs_def)
  have "slot_ms (dbl_times (int i) slot) \<le> slot_ms (dbl_times (int j) slot)"
    using assms(1) ij by (intro slot_ms_mono) simp_all
  moreover have "slot_ms (dbl_times 0 (Dbl 2305843009213694 62)) = slot_ms (dbl_times 1 (Dbl 2305843009213694 62))"
    by code_simp
  moreover have "schedule_delta (ws_schedule ws) (regs ! i) n1 = slot_ms (dbl_times (int i) slot) * SIMTIME_MS"
    "schedule_delta (ws_schedule ws) (regs ! j) n2 = slot_ms (dbl_times (int j) slot) * SIMTIME_MS"
    by (simp_all add: f schedule_delta_def)
  ultimately show ?thesis
    by - (rule exI [of _ "dbl_times (int i) slot"], rule exI [of _ "dbl_times (int j) slot"],
        auto simp: f SIMTIME_MS_def)
qed

lemma transmissions_in_registration_order_witness:
  "schedule_delta (ws_schedule ex_schedule) 3 0 \<le> schedule_delta (ws_schedule ex_schedule) 7 0"
proof -
  have "0 \<le> mant default_slot" by (simp add: default_slot_def)
  from transmissions_in_registration_order [OF this ex_schedule_abs, of 0 1 0 0] show ?thesis by auto
qed

end
