(* ===== verification/SV_Strings.thy ===== *)
theory SV_Strings
  imports SV_Prelude "HOL-Library.Word" "HOL-Library.Char_ord"
begin

text \<open>
  The C++ string operations the modules use: \<open>std::getline\<close>, \<open>find\<close>, \<open>substr\<close>, \<open>erase\<close>,
  \<open>find_first_not_of\<close>, \<open>std::stoul\<close> and the decimal form of \<open>std::stod\<close>. Positions are 64-bit
  words with \<open>npos\<close> as their largest value. Numbers are printed by \<open>print_nat\<close>, which is the
  reference the parsers are checked against.
\<close>

section \<open>Lines and fields\<close>

text \<open>\<open>while (std::getline(stream, s, delim))\<close>: a delimiter at the end opens no further field.\<close>

fun getline_all :: "char \<Rightarrow> string \<Rightarrow> string list" where
  "getline_all d [] = []"
| "getline_all d (c # cs) =
     (if c = d then [] # getline_all d cs
      else case getline_all d cs of
             [] \<Rightarrow> [[c]]
           | s # ss \<Rightarrow> (c # s) # ss)"

text \<open>A field in front of the rest.\<close>

lemma getline_all_field:
  "d \<notin> set f \<Longrightarrow> getline_all d (f @ d # cs) = f # getline_all d cs"
  by (induction f) auto

lemma getline_all_last: "d \<notin> set f \<Longrightarrow> f \<noteq> [] \<Longrightarrow> getline_all d f = [f]"
proof (induction f)
  case (Cons a f)
  then show ?case by (cases f) auto
qed simp

lemma getline_all_concat:
  "\<forall>f \<in> set fs. d \<notin> set f \<Longrightarrow> getline_all d (concat (map (\<lambda>f. f @ [d]) fs)) = fs"
  by (induction fs) (simp_all add: getline_all_field)

section \<open>Positions\<close>

type_synonym size_t = "64 word"

definition npos :: size_t where
  "npos = -1"

text \<open>\<open>s.find(c)\<close> for one character: the first position, or \<open>npos\<close>.\<close>

fun find_from :: "char \<Rightarrow> string \<Rightarrow> size_t \<Rightarrow> size_t" where
  "find_from c [] i = npos"
| "find_from c (x # xs) i = (if x = c then i else find_from c xs (i + 1))"

definition str_find :: "char \<Rightarrow> string \<Rightarrow> size_t" where
  "str_find c s = find_from c s 0"

fun find_not_from :: "char \<Rightarrow> string \<Rightarrow> size_t \<Rightarrow> size_t" where
  "find_not_from c [] i = npos"
| "find_not_from c (x # xs) i = (if x \<noteq> c then i else find_not_from c xs (i + 1))"

definition find_first_not_of :: "char \<Rightarrow> string \<Rightarrow> size_t" where
  "find_first_not_of c s = find_not_from c s 0"

definition str_substr :: "string \<Rightarrow> size_t \<Rightarrow> size_t \<Rightarrow> string res" where
  "str_substr s pos n =
     (if length s < unat pos then Inl OutOfRange else Inr (take (unat n) (drop (unat pos) s)))"

text \<open>\<open>s.erase(0, n)\<close>\<close>

definition erase_front :: "string \<Rightarrow> size_t \<Rightarrow> string" where
  "erase_front s n = drop (unat n) s"

text \<open>
  \<open>s[i]\<close>: the terminating null character at the end; past the end the language does not say,
  so what memory holds there is the argument \<open>stray\<close>.
\<close>

definition str_at :: "(string \<Rightarrow> size_t \<Rightarrow> char) \<Rightarrow> string \<Rightarrow> size_t \<Rightarrow> char" where
  "str_at stray s i = (if unat i < length s then s ! unat i else if unat i = length s then CHR 0x00 else stray s i)"

lemma unat_npos: "unat npos = 2 ^ 64 - 1"
  by (simp add: npos_def unsigned_minus_1_eq_mask mask_eq_exp_minus_1)

lemma find_from_found:
  "c \<notin> set xs \<Longrightarrow> find_from c (xs @ c # ys) i = i + of_nat (length xs)"
  by (induction xs arbitrary: i) (auto simp: add.assoc)

lemma find_from_absent: "c \<notin> set xs \<Longrightarrow> find_from c xs i = npos"
  by (induction xs arbitrary: i) auto

lemma str_find_found: "c \<notin> set xs \<Longrightarrow> str_find c (xs @ c # ys) = of_nat (length xs)"
  by (simp add: str_find_def find_from_found)

lemma str_find_absent: "c \<notin> set xs \<Longrightarrow> str_find c xs = npos"
  by (simp add: str_find_def find_from_absent)

lemma find_not_from_found:
  "set zs \<subseteq> {c} \<Longrightarrow> x \<noteq> c \<Longrightarrow> find_not_from c (zs @ x # xs) i = i + of_nat (length zs)"
  by (induction zs arbitrary: i) (simp_all add: add.assoc)

lemma find_not_from_absent: "set zs \<subseteq> {c} \<Longrightarrow> find_not_from c zs i = npos"
  by (induction zs arbitrary: i) auto

lemma find_first_not_of_head: "x \<noteq> c \<Longrightarrow> find_first_not_of c (x # xs) = 0"
  by (simp add: find_first_not_of_def)

section \<open>Numbers\<close>

definition is_digit :: "char \<Rightarrow> bool" where
  "is_digit c \<longleftrightarrow> 48 \<le> (of_char c :: nat) \<and> (of_char c :: nat) \<le> 57"

definition c_isspace :: "char \<Rightarrow> bool" where
  "c_isspace c \<longleftrightarrow> (of_char c :: nat) = 32 \<or> (9 \<le> (of_char c :: nat) \<and> (of_char c :: nat) \<le> 13)"

definition digit_value :: "char \<Rightarrow> nat" where
  "digit_value c = of_char c - 48"

definition digits_value :: "string \<Rightarrow> nat" where
  "digits_value s = foldl (\<lambda>a c. 10 * a + digit_value c) 0 s"

text \<open>An optional sign.\<close>

fun take_sign :: "string \<Rightarrow> bool \<times> string" where
  "take_sign (c # cs) = (if c = CHR ''-'' then (True, cs) else if c = CHR ''+'' then (False, cs) else (False, c # cs))"
| "take_sign [] = (False, [])"

text \<open>
  \<open>std::stoul(s)\<close> in base 10: leading white space, a sign (negation is modulo \<open>2^64\<close>), the
  longest run of digits; no digit is \<open>invalid_argument\<close>, a value past 64 bits is \<open>out_of_range\<close>.
\<close>

definition stoul :: "string \<Rightarrow> 64 word res" where
  "stoul s =
     (let (neg, s) = take_sign (dropWhile c_isspace s);
          ds = takeWhile is_digit s;
          v = digits_value ds
      in if ds = [] then Inl InvalidArgument
         else if 2 ^ 64 \<le> v then Inl OutOfRange
         else Inr (if neg then - of_nat v else of_nat v))"

fun digit_char :: "nat \<Rightarrow> char" where
  "digit_char n = char_of (48 + n mod 10)"

fun print_nat :: "nat \<Rightarrow> string" where
  "print_nat n = (if n < 10 then [digit_char n] else print_nat (n div 10) @ [digit_char n])"

declare print_nat.simps [simp del]

lemma digit_char_value [simp]: "digit_value (digit_char n) = n mod 10"
  by (simp add: digit_value_def)

lemma is_digit_char [simp]: "is_digit (digit_char n)"
proof -
  have "n mod 10 \<le> 9" by simp
  then show ?thesis by (simp add: is_digit_def)
qed

declare digit_char.simps [simp del]

lemma digits_value_snoc: "digits_value (s @ [c]) = 10 * digits_value s + digit_value c"
  by (simp add: digits_value_def)

lemma print_nat_nonempty: "print_nat n \<noteq> []"
  by (subst print_nat.simps) simp

lemma print_nat_value: "digits_value (print_nat n) = n"
proof (induction n rule: print_nat.induct)
  case (1 n)
  show ?case
  proof (cases "n < 10")
    case True
    then show ?thesis by (subst print_nat.simps) (simp add: digits_value_def)
  next
    case False
    with 1 show ?thesis by (subst print_nat.simps) (simp add: digits_value_snoc)
  qed
qed

lemma print_nat_digits: "c \<in> set (print_nat n) \<Longrightarrow> is_digit c"
proof (induction n rule: print_nat.induct)
  case (1 n)
  then show ?case by (subst (asm) (2) print_nat.simps) (auto split: if_splits)
qed

lemma print_nat_head: "0 < n \<Longrightarrow> hd (print_nat n) \<noteq> CHR ''0''"
proof (induction n rule: print_nat.induct)
  case (1 n)
  show ?case
  proof (cases "n < 10")
    case True
    have "digit_char n \<noteq> CHR ''0''"
    proof
      assume "digit_char n = CHR ''0''"
      then have "digit_value (digit_char n) = 0" by (simp add: digit_value_def)
      with True \<open>0 < n\<close> show False by simp
    qed
    with True show ?thesis by (subst print_nat.simps) simp
  next
    case False
    with 1 show ?thesis by (subst print_nat.simps) (simp add: print_nat_nonempty hd_append)
  qed
qed

lemma digit_not_sign: "is_digit c \<Longrightarrow> \<not> c_isspace c \<and> c \<noteq> CHR ''-'' \<and> c \<noteq> CHR ''+''"
  by (auto simp: is_digit_def c_isspace_def)

lemma stoul_digits:
  assumes "\<And>c. c \<in> set s \<Longrightarrow> is_digit c" and "s \<noteq> []" and "digits_value s < 2 ^ 64"
  shows "stoul s = Inr (of_nat (digits_value s))"
proof -
  obtain c cs where s: "s = c # cs" using assms(2) by (cases s) auto
  have "is_digit c" using assms(1) s by simp
  then have "dropWhile c_isspace s = s" "take_sign s = (False, s)"
    using digit_not_sign [of c] by (simp_all add: s)
  moreover have "takeWhile is_digit s = s"
    using assms(1) by (simp add: takeWhile_eq_all_conv)
  ultimately show ?thesis using assms(2,3) by (simp add: stoul_def Let_def del: takeWhile_eq_all_conv)
qed

lemma stoul_empty: "stoul [] = Inl InvalidArgument"
  by (simp add: stoul_def)

end
