(* ===== verification/SV_Inserter.thy ===== *)
theory SV_Inserter
  imports SV_Strings "HOL-Library.Sublist"
begin

text \<open>
  \<open>TLE\<close> and \<open>SatelliteInserter\<close>: the file of two-line elements is read in groups of three
  lines, the constellation and the number of a satellite are taken from its name, and one
  module per satellite is created in the vector of its constellation. A created module is an
  entry of \<open>created\<close>, latest first; what OMNeT++ answers (whether the parent and the module
  type exist), the contents of the file and memory past the end of a string are arguments.
\<close>

section \<open>TLE\<close>

record TLE =
  satellite_name :: string
  tle_line1 :: string
  tle_line2 :: string

definition TLE_empty :: TLE where
  "TLE_empty = \<lparr>satellite_name = [], tle_line1 = [], tle_line2 = []\<rparr>"

definition set_satellite_name :: "string \<Rightarrow> TLE \<Rightarrow> TLE" where
  "set_satellite_name name tle = tle\<lparr>satellite_name := name\<rparr>"

definition set_tle_line1 :: "string \<Rightarrow> TLE \<Rightarrow> TLE" where
  "set_tle_line1 line1 tle = tle\<lparr>tle_line1 := line1\<rparr>"

definition set_tle_line2 :: "string \<Rightarrow> TLE \<Rightarrow> TLE" where
  "set_tle_line2 line2 tle = tle\<lparr>tle_line2 := line2\<rparr>"

section \<open>Constellation and number\<close>

type_synonym uint32 = "32 word"

text \<open>
  The loop over the delimiters \<open>-\<close> and space: the position and the delimiter it stops with.
  The position is that of the last attempt when no attempt succeeded.
\<close>

fun find_delimiter ::
    "(string \<Rightarrow> size_t \<Rightarrow> char) \<Rightarrow> string \<Rightarrow> string list \<Rightarrow> size_t \<Rightarrow> size_t \<times> string" where
  "find_delimiter stray name [] pos = (pos, [])"
| "find_delimiter stray name (d # ds) pos =
     (let pos = str_find (hd d) name in
      if str_at stray name (pos - 1) = CHR ''['' \<and> str_at stray name (pos + 1) = CHR '']''
      then find_delimiter stray name ds npos
      else if pos \<noteq> npos then (pos, d)
      else find_delimiter stray name ds pos)"

text \<open>\<open>std::stoul(s, nullptr, 0)\<close>: the base is taken from the prefix.\<close>

definition char_value :: "char \<Rightarrow> nat" where
  "char_value c =
     (let n = of_char c in
      if 48 \<le> n \<and> n \<le> 57 then n - 48
      else if 97 \<le> n \<and> n \<le> 122 then n - 87
      else if 65 \<le> n \<and> n \<le> 90 then n - 55 else 99)"

fun number_base :: "string \<Rightarrow> nat \<times> string" where
  "number_base (c # x # y # s) =
     (if c = CHR ''0'' \<and> (x = CHR ''x'' \<or> x = CHR ''X'') \<and> char_value y < 16 then (16, y # s)
      else if c = CHR ''0'' then (8, c # x # y # s) else (10, c # x # y # s))"
| "number_base s = (if s \<noteq> [] \<and> hd s = CHR ''0'' then 8 else 10, s)"

definition stoul_auto :: "string \<Rightarrow> 64 word res" where
  "stoul_auto s =
     (let (neg, s) = take_sign (dropWhile c_isspace s);
          (b, s) = number_base s;
          ds = takeWhile (\<lambda>c. char_value c < b) s;
          v = foldl (\<lambda>a c. b * a + char_value c) 0 ds
      in if ds = [] then Inl InvalidArgument
         else if 2 ^ 64 \<le> v then Inl OutOfRange
         else Inr (if neg then - of_nat v else of_nat v))"

definition catalog_number :: "TLE \<Rightarrow> uint32 res" where
  "catalog_number tle =
     rbind (str_substr (tle_line1 tle) 2 5) (\<lambda>s. rbind (stoul s) (\<lambda>n. Inr (ucast n)))"

definition getConstellationAndSatNum ::
    "(string \<Rightarrow> size_t \<Rightarrow> char) \<Rightarrow> TLE \<Rightarrow> (string \<times> uint32) res" where
  "getConstellationAndSatNum stray tle =
     (let satelliteName = satellite_name tle;
          (posConstellation, delimiter) = find_delimiter stray satelliteName [''-'', '' ''] npos
      in rbind (str_substr satelliteName 0 posConstellation) (\<lambda>constellation.
         let satelliteName = erase_front satelliteName (posConstellation + of_nat (length delimiter));
             satelliteName = filter is_digit satelliteName;
             satelliteName = erase_front satelliteName (find_first_not_of CHR ''0'' satelliteName)
         in rbind
              (case stoul_auto satelliteName of
                 Inl InvalidArgument \<Rightarrow> catalog_number tle
               | Inl e \<Rightarrow> Inl e
               | Inr n \<Rightarrow> Inr (ucast n))
              (\<lambda>satNum. Inr (constellation, satNum))))"

section \<open>Creating modules\<close>

record inserter =
  satelliteVectorSize :: uint32
  starlinkVectorSize :: uint32
  iridiumVectorSize :: uint32
  onewebVectorSize :: uint32
  orbcommVectorSize :: uint32
  globalstarVectorSize :: uint32
  spacebeeVectorSize :: uint32
  spacebeenzVectorSize :: uint32
  created :: "(TLE \<times> uint32 \<times> uint32 \<times> string) list"   \<comment> \<open>TLE, index, vector size, vector name\<close>

record inserter_env =
  par_satelliteModuleDefaultName :: string
  par_ignoreUnknownSatellites :: bool
  parent_exists :: bool
  module_type_exists :: bool
  memory :: "string \<Rightarrow> size_t \<Rightarrow> char"

definition inserter_init :: inserter where
  "inserter_init = \<lparr>satelliteVectorSize = 0, starlinkVectorSize = 0, iridiumVectorSize = 0,
     onewebVectorSize = 0, orbcommVectorSize = 0, globalstarVectorSize = 0,
     spacebeeVectorSize = 0, spacebeenzVectorSize = 0, created = []\<rparr>"

definition createSatellite ::
    "inserter_env \<Rightarrow> TLE \<Rightarrow> uint32 \<Rightarrow> uint32 \<Rightarrow> string \<Rightarrow> inserter \<Rightarrow> inserter res" where
  "createSatellite E tle satNum vectorSize constellation s =
     (if \<not> parent_exists E then throwr ''Parent Module not found''
      else if \<not> module_type_exists E then throwr ''Module Type not found''
      else Inr (s\<lparr>created := (tle, satNum, vectorSize, ''leo'' @ constellation) # created s\<rparr>))"

definition instantiateSatellite :: "inserter_env \<Rightarrow> TLE \<Rightarrow> inserter \<Rightarrow> inserter res" where
  "instantiateSatellite E tle s =
     rbind (getConstellationAndSatNum (memory E) tle) (\<lambda>(first, second).
     if first = ''STARLINK'' then
       (let s = s\<lparr>starlinkVectorSize := max (starlinkVectorSize s) (second + 1)\<rparr>
        in createSatellite E tle second (starlinkVectorSize s) first s)
     else if first = ''IRIDIUM'' then
       (let s = s\<lparr>iridiumVectorSize := max (iridiumVectorSize s) (second + 1)\<rparr>
        in createSatellite E tle second (iridiumVectorSize s) first s)
     else if first = ''ORBCOMM'' then
       (let s = s\<lparr>orbcommVectorSize := max (orbcommVectorSize s) (second + 1)\<rparr>
        in createSatellite E tle second (orbcommVectorSize s) first s)
     else if first = ''SPACEBEE'' then
       (let s = s\<lparr>spacebeeVectorSize := max (spacebeeVectorSize s) (second + 1)\<rparr>
        in createSatellite E tle second (spacebeeVectorSize s) first s)
     else if first = ''SPACEBEENZ'' then
       (let s = s\<lparr>spacebeenzVectorSize := max (spacebeenzVectorSize s) (second + 1)\<rparr>
        in createSatellite E tle second (spacebeenzVectorSize s) first s)
     else if first = ''ONEWEB'' then
       (let s = s\<lparr>onewebVectorSize := max (onewebVectorSize s) (second + 1)\<rparr>
        in createSatellite E tle second (onewebVectorSize s) first s)
     else if first = ''GLOBALSTAR'' then
       (let s = s\<lparr>globalstarVectorSize := max (globalstarVectorSize s) (second + 1)\<rparr>
        in createSatellite E tle second (globalstarVectorSize s) first s)
     else if par_ignoreUnknownSatellites E then Inr s
     else
       rbind (catalog_number tle) (\<lambda>n.
       let s = s\<lparr>satelliteVectorSize := max (satelliteVectorSize s) (n + 1)\<rparr>
       in createSatellite E tle n (satelliteVectorSize s) (par_satelliteModuleDefaultName E) s))"

section \<open>The file\<close>

text \<open>The loop over the lines with its line counter and the element under construction.\<close>

fun parse_lines :: "inserter_env \<Rightarrow> string list \<Rightarrow> nat \<Rightarrow> TLE \<Rightarrow> inserter \<Rightarrow> (nat \<times> inserter) res" where
  "parse_lines E [] tleLineNumber tle s = Inr (tleLineNumber, s)"
| "parse_lines E (tleLine # ls) tleLineNumber tle s =
     (let tleLineNumber' = (if tleLineNumber < 2 then tleLineNumber + 1 else 0) in
      if tleLineNumber = 0 then parse_lines E ls tleLineNumber' (set_satellite_name tleLine tle) s
      else if tleLineNumber = 1 then parse_lines E ls tleLineNumber' (set_tle_line1 tleLine tle) s
      else if tleLineNumber = 2 then
        (let tle = set_tle_line2 tleLine tle
         in rbind (instantiateSatellite E tle s) (\<lambda>s. parse_lines E ls tleLineNumber' tle s))
      else parse_lines E ls tleLineNumber' tle s)"

text \<open>A file that cannot be opened (\<open>None\<close>) has no lines.\<close>

definition parseTleFile :: "inserter_env \<Rightarrow> string option \<Rightarrow> inserter \<Rightarrow> inserter res" where
  "parseTleFile E tleFile s =
     rbind (parse_lines E (getline_all CHR 0x0A (case tleFile of None \<Rightarrow> [] | Some f \<Rightarrow> f)) 0 TLE_empty s)
       (\<lambda>(tleLineNumber, s).
          if tleLineNumber \<noteq> 0 then throwr ''Incomplete satellite TLE'' else Inr s)"


section \<open>Reading the file in groups of three lines\<close>

fun tle_groups :: "string list \<Rightarrow> TLE list" where
  "tle_groups (n # l1 # l2 # ls) = \<lparr>satellite_name = n, tle_line1 = l1, tle_line2 = l2\<rparr> # tle_groups ls"
| "tle_groups _ = []"

fun instantiate_all :: "inserter_env \<Rightarrow> TLE list \<Rightarrow> inserter \<Rightarrow> inserter res" where
  "instantiate_all E [] s = Inr s"
| "instantiate_all E (t # ts) s = rbind (instantiateSatellite E t s) (instantiate_all E ts)"

lemma parse_lines_groups:
  "parse_lines E ls 0 tle s = rbind (instantiate_all E (tle_groups ls) s) (\<lambda>s. Inr (length ls mod 3, s))"
proof (induction ls arbitrary: tle s rule: tle_groups.induct)
  case (1 n l1 l2 ls)
  have "set_tle_line2 l2 (set_tle_line1 l1 (set_satellite_name n tle)) =
      \<lparr>satellite_name = n, tle_line1 = l1, tle_line2 = l2\<rparr>"
    by (cases tle) (simp add: set_satellite_name_def set_tle_line1_def set_tle_line2_def)
  moreover have "parse_lines E ls 0 t = (\<lambda>s. rbind (instantiate_all E (tle_groups ls) s) (\<lambda>s. Inr (length ls mod 3, s)))" for t
    using "1.IH" by (intro ext)
  ultimately show ?case
    by (auto simp: rbind_assoc Let_def)
qed (simp_all add: Let_def)

text \<open>A file of lines is read as the list of its groups of three lines: the satellites of all groups
  are instantiated in order, the first error ends the run, and the run ends with the error of
  an incomplete element exactly when lines are left over.\<close>

theorem tle_file_groups:
  assumes "\<forall>l \<in> set ls. CHR 0x0A \<notin> set l"
  shows "parseTleFile E (Some (concat (map (\<lambda>l. l @ [CHR 0x0A]) ls))) s =
    rbind (instantiate_all E (tle_groups ls) s) (\<lambda>s.
      if length ls mod 3 = 0 then Inr s else throwr ''Incomplete satellite TLE'')"
proof -
  have "getline_all CHR 0x0A (concat (map (\<lambda>l. l @ [CHR 0x0A]) ls)) = ls"
    using assms by (rule getline_all_concat)
  then show ?thesis
    by (cases "instantiate_all E (tle_groups ls) s") (auto simp: parseTleFile_def parse_lines_groups)
qed

section \<open>Names\<close>

lemma find_delimiter_dash:
  assumes "CHR ''-'' \<notin> set con" and "con \<noteq> []" and "length con + length rest + 2 < 2 ^ 64"
    and "\<not> (last con = CHR ''['' \<and> rest \<noteq> [] \<and> hd rest = CHR '']'')"
  shows "find_delimiter stray (con @ CHR ''-'' # rest) [''-'', '' ''] npos = (of_nat (length con), ''-'')"
proof -
  have f: "str_find CHR ''-'' (con @ CHR ''-'' # rest) = of_nat (length con)"
    using assms(1) by (rule str_find_found)
  have u: "unat (of_nat (length con) :: size_t) = length con"
    "unat (of_nat (length con) - 1 :: size_t) = length con - 1"
    "unat (of_nat (length con) + 1 :: size_t) = length con + 1"
  proof -
    show "unat (of_nat (length con) :: size_t) = length con"
      using assms(3) by (simp add: unsigned_of_nat take_bit_nat_eq_self)
    have "(of_nat (length con) - 1 :: size_t) = of_nat (length con - 1)"
      using assms(2) by (cases con) simp_all
    then show "unat (of_nat (length con) - 1 :: size_t) = length con - 1"
      using assms(3) by (simp add: unsigned_of_nat take_bit_nat_eq_self)
    have "(of_nat (length con) + 1 :: size_t) = of_nat (length con + 1)" by simp
    then show "unat (of_nat (length con) + 1 :: size_t) = length con + 1"
      using assms(3) by (simp only: unsigned_of_nat) (simp add: take_bit_nat_eq_self)
  qed
  have "str_at stray (con @ CHR ''-'' # rest) (of_nat (length con) - 1) = last con"
    using assms(2) u by (cases "length con") (simp_all add: str_at_def nth_append last_conv_nth)
  moreover have "str_at stray (con @ CHR ''-'' # rest) (of_nat (length con) + 1) = CHR '']'' \<longleftrightarrow>
      rest \<noteq> [] \<and> hd rest = CHR '']''"
    using u by (cases rest) (auto simp: str_at_def nth_append)
  moreover have "of_nat (length con) \<noteq> npos"
  proof
    assume "of_nat (length con) = npos"
    then have "unat (of_nat (length con) :: size_t) = 2 ^ 64 - 1" by (simp only: unat_npos)
    with u(1) assms(3) show False by simp
  qed
  ultimately show ?thesis
    using assms(4) by (auto simp: f)
qed

lemma filter_digits_print: "filter is_digit (print_nat n) = print_nat n"
  by (simp add: filter_id_conv print_nat_digits)

lemma erase_zeros_print: "0 < n \<Longrightarrow> erase_front (print_nat n) (find_first_not_of CHR ''0'' (print_nat n)) = print_nat n"
  using print_nat_head [of n] print_nat_nonempty [of n]
  by (cases "print_nat n") (simp_all add: find_first_not_of_head erase_front_def)

lemma char_value_digit: "is_digit c \<Longrightarrow> char_value c = digit_value c \<and> char_value c < 10"
  by (auto simp: char_value_def is_digit_def digit_value_def Let_def)

lemma number_base_decimal: "s \<noteq> [] \<Longrightarrow> hd s \<noteq> CHR ''0'' \<Longrightarrow> number_base s = (10, s)"
  by (cases s rule: number_base.cases) auto

lemma foldl_digits:
  "\<forall>c \<in> set s. is_digit c \<Longrightarrow> foldl (\<lambda>a c. 10 * a + char_value c) v s = foldl (\<lambda>a c. 10 * a + digit_value c) v s"
  by (induction s arbitrary: v) (simp_all add: char_value_digit)

text \<open>Digits without a leading zero are read in base 10.\<close>

lemma stoul_auto_print:
  assumes "0 < n" and "n < 2 ^ 64"
  shows "stoul_auto (print_nat n) = Inr (of_nat n)"
proof -
  let ?s = "print_nat n"
  have dig: "\<forall>c \<in> set ?s. is_digit c" by (simp add: print_nat_digits)
  have "is_digit (hd ?s)" using dig print_nat_nonempty by (metis hd_in_set)
  then have "dropWhile c_isspace ?s = ?s" "take_sign ?s = (False, ?s)"
    using digit_not_sign print_nat_nonempty [of n] by (cases ?s; simp)+
  moreover have "number_base ?s = (10, ?s)"
    using print_nat_nonempty print_nat_head [OF assms(1)] by (rule number_base_decimal)
  moreover have "takeWhile (\<lambda>c. char_value c < 10) ?s = ?s"
    using dig char_value_digit by (simp only: takeWhile_eq_all_conv) blast
  moreover have "foldl (\<lambda>a c. 10 * a + char_value c) 0 ?s = n"
    using foldl_digits [OF dig] print_nat_value [of n] by (simp add: digits_value_def)
  ultimately show ?thesis
    using assms(2) print_nat_nonempty [of n] by (simp add: stoul_auto_def Let_def del: takeWhile_eq_all_conv)
qed

lemma stoul_auto_empty: "stoul_auto [] = Inl InvalidArgument"
  by (simp add: stoul_auto_def)

lemma getConstellation_dash:
  assumes "CHR ''-'' \<notin> set con" and "con \<noteq> []" and "length con + length rest + 2 < 2 ^ 64"
    and "\<not> (last con = CHR ''['' \<and> rest \<noteq> [] \<and> hd rest = CHR '']'')"
    and "satellite_name tle = con @ CHR ''-'' # rest"
  shows "getConstellationAndSatNum stray tle =
      rbind (case stoul_auto (erase_front (filter is_digit rest) (find_first_not_of CHR ''0'' (filter is_digit rest))) of
               Inl InvalidArgument \<Rightarrow> catalog_number tle | Inl e \<Rightarrow> Inl e | Inr n \<Rightarrow> Inr (ucast n))
        (\<lambda>n. Inr (con, n))"
proof -
  have len: "unat (of_nat (length con) :: size_t) = length con"
      "unat (of_nat (length con + 1) :: size_t) = length con + 1"
    using assms(3) by (simp_all only: unsigned_of_nat) (simp_all add: take_bit_nat_eq_self)
  have head: "str_substr (satellite_name tle) 0 (of_nat (length con)) = Inr con"
    using len(1) by (simp add: str_substr_def assms(5))
  have tail: "erase_front (satellite_name tle) (of_nat (length con) + of_nat (length ''-'')) = rest"
    using len(2) by (simp add: erase_front_def add.commute assms(5))
  show ?thesis
    using find_delimiter_dash [OF assms(1-4), of stray] head tail
    by (simp add: getConstellationAndSatNum_def Let_def assms(5) del: find_delimiter.simps)
qed

lemma getConstellation_number:
  assumes "CHR ''-'' \<notin> set con" and "con \<noteq> []" and "length con + length (print_nat n) + 2 < 2 ^ 64"
    and "0 < n" and "n < 2 ^ 32" and "satellite_name tle = con @ CHR ''-'' # print_nat n"
  shows "getConstellationAndSatNum stray tle = Inr (con, of_nat n)"
proof -
  have "hd (print_nat n) \<noteq> CHR '']''"
    using print_nat_digits [OF hd_in_set [OF print_nat_nonempty], of n] by (auto simp: is_digit_def)
  then show ?thesis
    using assms by (subst getConstellation_dash [OF assms(1-3) _ assms(6)])
      (simp_all add: filter_digits_print erase_zeros_print stoul_auto_print unsigned_of_nat take_bit_nat_eq_self)
qed

text \<open>The name of constellation, a dash and a number is taken apart into the constellation and the
  number, whatever lies in memory past the name; a name without digits after the dash or with
  the number zero gets the catalog number of the first line.\<close>

theorem satellite_name_roundtrip:
  assumes "CHR ''-'' \<notin> set con" and "con \<noteq> []" and "length con + length rest + 2 < 2 ^ 64"
    and "\<not> (last con = CHR ''['' \<and> rest \<noteq> [] \<and> hd rest = CHR '']'')"
    and "satellite_name tle = con @ CHR ''-'' # rest"
  shows "(\<forall>n. rest = print_nat n \<and> 0 < n \<and> n < 2 ^ 32 \<longrightarrow>
        getConstellationAndSatNum stray tle = Inr (con, of_nat n)) \<and>
    (set (filter is_digit rest) \<subseteq> {CHR ''0''} \<longrightarrow>
        getConstellationAndSatNum stray tle = rbind (catalog_number tle) (\<lambda>n. Inr (con, n)))"
proof -
  let ?digits = "filter is_digit rest"
  have "getConstellationAndSatNum stray tle = Inr (con, of_nat n)"
    if "rest = print_nat n" "0 < n" "n < 2 ^ 32" for n
    using assms that by (intro getConstellation_number) simp_all
  moreover have "getConstellationAndSatNum stray tle = rbind (catalog_number tle) (\<lambda>n. Inr (con, n))"
    if "set ?digits \<subseteq> {CHR ''0''}"
  proof -
    have "length ?digits \<le> unat npos"
      using assms(3) le_trans [OF length_filter_le, of rest "2 ^ 64 - 1" is_digit] by (simp add: unat_npos)
    then have "erase_front ?digits (find_first_not_of CHR ''0'' ?digits) = []"
      using that by (simp add: find_first_not_of_def find_not_from_absent erase_front_def)
    then show ?thesis
      by (simp only: getConstellation_dash [OF assms] stoul_auto_empty) simp
  qed
  ultimately show ?thesis by simp
qed

theorem satellite_name_roundtrip_witness:
  "getConstellationAndSatNum (\<lambda>_ _. CHR 0x00) \<lparr>satellite_name = ''STARLINK-17'', tle_line1 = [], tle_line2 = []\<rparr> =
     Inr (''STARLINK'', 17)"
proof -
  have p: "print_nat 17 = ''17''" by code_simp
  show ?thesis
    using satellite_name_roundtrip [THEN conjunct1, of "''STARLINK''" "''17''"
        "\<lparr>satellite_name = ''STARLINK-17'', tle_line1 = [], tle_line2 = []\<rparr>" "\<lambda>_ _. CHR 0x00", THEN spec, of 17] p
    by simp
qed

section \<open>The vectors of modules\<close>

text \<open>The size variable of a constellation, and the constellations with a variable of their own.\<close>

definition vectorSize_of :: "string \<Rightarrow> inserter \<Rightarrow> uint32" where
  "vectorSize_of c s =
     (if c = ''STARLINK'' then starlinkVectorSize s else if c = ''IRIDIUM'' then iridiumVectorSize s
      else if c = ''ORBCOMM'' then orbcommVectorSize s else if c = ''SPACEBEE'' then spacebeeVectorSize s
      else if c = ''SPACEBEENZ'' then spacebeenzVectorSize s else if c = ''ONEWEB'' then onewebVectorSize s
      else if c = ''GLOBALSTAR'' then globalstarVectorSize s else satelliteVectorSize s)"

definition constellations :: "string set" where
  "constellations = {''STARLINK'', ''IRIDIUM'', ''ORBCOMM'', ''SPACEBEE'', ''SPACEBEENZ'', ''ONEWEB'', ''GLOBALSTAR''}"

text \<open>What one call does: nothing, or one module whose vector grows just enough for its index.\<close>

lemma createSatellite_step:
  assumes "createSatellite E t i n c s = Inr s'"
  shows "created s' = (t, i, n, ''leo'' @ c) # created s \<and> (\<forall>c'. vectorSize_of c' s' = vectorSize_of c' s)"
proof -
  have "s' = s\<lparr>created := (t, i, n, ''leo'' @ c) # created s\<rparr>"
    using assms by (auto simp: createSatellite_def split: if_splits)
  then show ?thesis by (simp add: vectorSize_of_def)
qed

definition grown :: "string \<Rightarrow> uint32 \<Rightarrow> inserter \<Rightarrow> inserter \<Rightarrow> bool" where
  "grown c i s s' \<longleftrightarrow> vectorSize_of c s' = max (vectorSize_of c s) (i + 1) \<and>
     (\<forall>c'. vectorSize_of c' s \<le> vectorSize_of c' s') \<and> created s' = created s"

lemma grown_cases:
  "grown ''STARLINK'' i s (s\<lparr>starlinkVectorSize := max (starlinkVectorSize s) (i + 1)\<rparr>)"
  "grown ''IRIDIUM'' i s (s\<lparr>iridiumVectorSize := max (iridiumVectorSize s) (i + 1)\<rparr>)"
  "grown ''ORBCOMM'' i s (s\<lparr>orbcommVectorSize := max (orbcommVectorSize s) (i + 1)\<rparr>)"
  "grown ''SPACEBEE'' i s (s\<lparr>spacebeeVectorSize := max (spacebeeVectorSize s) (i + 1)\<rparr>)"
  "grown ''SPACEBEENZ'' i s (s\<lparr>spacebeenzVectorSize := max (spacebeenzVectorSize s) (i + 1)\<rparr>)"
  "grown ''ONEWEB'' i s (s\<lparr>onewebVectorSize := max (onewebVectorSize s) (i + 1)\<rparr>)"
  "grown ''GLOBALSTAR'' i s (s\<lparr>globalstarVectorSize := max (globalstarVectorSize s) (i + 1)\<rparr>)"
  "c \<notin> constellations \<Longrightarrow> grown c i s (s\<lparr>satelliteVectorSize := max (satelliteVectorSize s) (i + 1)\<rparr>)"
  by (simp_all add: grown_def vectorSize_of_def constellations_def)

lemma vectorSize_of_cases:
  "vectorSize_of ''STARLINK'' s = starlinkVectorSize s" "vectorSize_of ''IRIDIUM'' s = iridiumVectorSize s"
  "vectorSize_of ''ORBCOMM'' s = orbcommVectorSize s" "vectorSize_of ''SPACEBEE'' s = spacebeeVectorSize s"
  "vectorSize_of ''SPACEBEENZ'' s = spacebeenzVectorSize s" "vectorSize_of ''ONEWEB'' s = onewebVectorSize s"
  "vectorSize_of ''GLOBALSTAR'' s = globalstarVectorSize s"
  "c \<notin> constellations \<Longrightarrow> vectorSize_of c s = satelliteVectorSize s"
  by (simp_all add: vectorSize_of_def constellations_def)

lemma instantiateSatellite_cases:
  assumes "instantiateSatellite E t s = Inr s'"
    and "par_satelliteModuleDefaultName E \<notin> constellations"
  shows "s' = s \<or> (\<exists>c i s1. grown c i s s1 \<and> createSatellite E t i (vectorSize_of c s1) c s1 = Inr s')"
proof -
  obtain c i where ci: "getConstellationAndSatNum (memory E) t = Inr (c, i)"
    using assms(1) by (auto simp: instantiateSatellite_def)
  note inst = assms(1) [unfolded instantiateSatellite_def ci rbind_simps prod.case Let_def]
  consider "c = ''STARLINK''" | "c = ''IRIDIUM''" | "c = ''ORBCOMM''" | "c = ''SPACEBEE''"
    | "c = ''SPACEBEENZ''" | "c = ''ONEWEB''" | "c = ''GLOBALSTAR''" | "c \<notin> constellations"
    by (auto simp: constellations_def)
  then show ?thesis
  proof cases
    case 1 then show ?thesis using inst grown_cases(1) [of i s] by (auto simp: vectorSize_of_cases intro!: exI)
  next
    case 2 then show ?thesis using inst grown_cases(2) [of i s] by (auto simp: vectorSize_of_cases intro!: exI)
  next
    case 3 then show ?thesis using inst grown_cases(3) [of i s] by (auto simp: vectorSize_of_cases intro!: exI)
  next
    case 4 then show ?thesis using inst grown_cases(4) [of i s] by (auto simp: vectorSize_of_cases intro!: exI)
  next
    case 5 then show ?thesis using inst grown_cases(5) [of i s] by (auto simp: vectorSize_of_cases intro!: exI)
  next
    case 6 then show ?thesis using inst grown_cases(6) [of i s] by (auto simp: vectorSize_of_cases intro!: exI)
  next
    case 7 then show ?thesis using inst grown_cases(7) [of i s] by (auto simp: vectorSize_of_cases intro!: exI)
  next
    case 8
    show ?thesis
    proof (cases "par_ignoreUnknownSatellites E")
      case True
      with 8 inst show ?thesis by (simp add: constellations_def)
    next
      case False
      with 8 inst obtain n where
        "createSatellite E t n (max (satelliteVectorSize s) (n + 1)) (par_satelliteModuleDefaultName E)
           (s\<lparr>satelliteVectorSize := max (satelliteVectorSize s) (n + 1)\<rparr>) = Inr s'"
        by (auto simp: constellations_def)
      with grown_cases(8) [OF assms(2), of n s] show ?thesis
        by (auto simp: vectorSize_of_cases(8) [OF assms(2)] intro!: exI)
    qed
  qed
qed

text \<open>The contract of the created modules: an index below the size its vector was created with, which the
  vector never falls below again. The index \<open>2^32 - 1\<close> wraps.\<close>

definition module_fits :: "inserter \<Rightarrow> TLE \<times> uint32 \<times> uint32 \<times> string \<Rightarrow> bool" where
  "module_fits s = (\<lambda>(t, i, n, nm). (i < n \<or> i = -1) \<and> (\<exists>c. nm = ''leo'' @ c \<and> n \<le> vectorSize_of c s))"

lemma word_less_Suc: "(i :: uint32) \<noteq> -1 \<Longrightarrow> i < max n (i + 1)"
proof -
  assume "i \<noteq> -1"
  then have "i + 1 \<noteq> 0" by (metis add.commute add_eq_0_iff)
  then have "unat (i + 1) = Suc (unat i)" by (metis unatSuc add.commute)
  then have "i < i + 1" by (simp add: word_less_nat_alt)
  then show ?thesis by (simp add: less_max_iff_disj)
qed

lemma created_fits_step:
  assumes "instantiateSatellite E t s = Inr s'" and "par_satelliteModuleDefaultName E \<notin> constellations"
    and "\<forall>m \<in> set (created s). module_fits s m"
  shows "\<forall>m \<in> set (created s'). module_fits s' m"
  using instantiateSatellite_cases [OF assms(1,2)]
proof (elim disjE exE conjE)
  fix c i s1
  assume grown: "grown c i s s1" and create: "createSatellite E t i (vectorSize_of c s1) c s1 = Inr s'"
  have "module_fits s' m" if "module_fits s m" for m
    using that grown createSatellite_step [OF create]
    by (auto simp: module_fits_def grown_def) (meson order_trans)+
  moreover have "module_fits s' (t, i, vectorSize_of c s1, ''leo'' @ c)"
    using grown createSatellite_step [OF create] word_less_Suc [of i]
    by (auto simp: module_fits_def grown_def)
  ultimately show ?thesis
    using assms(3) grown createSatellite_step [OF create] by (auto simp: grown_def)
qed (use assms(3) in simp)

lemma created_fits_all:
  assumes "instantiate_all E ts s = Inr s'" and "par_satelliteModuleDefaultName E \<notin> constellations"
    and "\<forall>m \<in> set (created s). module_fits s m"
  shows "\<forall>m \<in> set (created s'). module_fits s' m"
  using assms(1,3)
proof (induction ts arbitrary: s)
  case (Cons t ts)
  then show ?case using created_fits_step [OF _ assms(2)] by (auto elim!: rbind_InrE)
qed simp

lemma created_tles_all:
  assumes "instantiate_all E ts s = Inr s'" and "par_satelliteModuleDefaultName E \<notin> constellations"
  shows "\<exists>ms. created s' = ms @ created s \<and> subseq (rev (map fst ms)) ts"
  using assms(1)
proof (induction ts arbitrary: s)
  case (Cons t ts)
  then obtain s1 where s1: "instantiateSatellite E t s = Inr s1" "instantiate_all E ts s1 = Inr s'"
    by auto
  from Cons.IH [OF s1(2)] obtain ms where ms: "created s' = ms @ created s1" "subseq (rev (map fst ms)) ts"
    by blast
  from instantiateSatellite_cases [OF s1(1) assms(2)] show ?case
  proof (elim disjE exE conjE)
    fix c i s2
    assume "grown c i s s2" "createSatellite E t i (vectorSize_of c s2) c s2 = Inr s1"
    then have "created s1 = (t, i, vectorSize_of c s2, ''leo'' @ c) # created s"
      using createSatellite_step by (fastforce simp: grown_def)
    with ms show ?thesis
      by (intro exI [of _ "ms @ [(t, i, vectorSize_of c s2, ''leo'' @ c)]"]) simp
  qed (use ms in \<open>auto intro: list_emb_Cons\<close>)
qed simp

text \<open>After a file has been read, every module was created with an index below the size of its vector
  (the index \<open>2^32 - 1\<close> apart), no vector is smaller than a size a module was created with, and
  the modules belong to elements of the file in the order of the file.\<close>

theorem created_modules_fit:
  assumes "parseTleFile E f inserter_init = Inr s"
    and "par_satelliteModuleDefaultName E \<notin> constellations"
  shows "(\<forall>(t, i, n, nm) \<in> set (created s). (i < n \<or> i = -1) \<and>
      (\<exists>c. nm = ''leo'' @ c \<and> n \<le> vectorSize_of c s)) \<and>
    subseq (rev (map fst (created s)))
      (tle_groups (getline_all CHR 0x0A (case f of None \<Rightarrow> [] | Some t \<Rightarrow> t)))"
proof -
  let ?ts = "tle_groups (getline_all CHR 0x0A (case f of None \<Rightarrow> [] | Some t \<Rightarrow> t))"
  have all: "instantiate_all E ?ts inserter_init = Inr s"
    using assms(1) by (auto simp: parseTleFile_def parse_lines_groups split: if_splits)
  have none: "created inserter_init = []" by (simp add: inserter_init_def)
  from created_fits_all [OF all assms(2)] none have "\<forall>m \<in> set (created s). module_fits s m"
    by simp
  moreover from created_tles_all [OF all assms(2)] none have "subseq (rev (map fst (created s))) ?ts"
    by auto
  ultimately show ?thesis by (simp add: module_fits_def)
qed

definition ex_inserter_env :: inserter_env where
  "ex_inserter_env = \<lparr>par_satelliteModuleDefaultName = ''sat'', par_ignoreUnknownSatellites = False,
     parent_exists = True, module_type_exists = True, memory = (\<lambda>_ _. CHR 0x00)\<rparr>"

definition ex_tle_file :: string where
  "ex_tle_file = ''IRIDIUM-7'' @ [CHR 0x0A] @ ''1'' @ [CHR 0x0A] @ ''2'' @ [CHR 0x0A]"

lemma ex_parse:
  "parseTleFile ex_inserter_env (Some ex_tle_file) inserter_init =
     Inr (inserter_init\<lparr>iridiumVectorSize := 8,
       created := [(\<lparr>satellite_name = ''IRIDIUM-7'', tle_line1 = ''1'', tle_line2 = ''2''\<rparr>, 7, 8, ''leoIRIDIUM'')]\<rparr>)"
proof -
  let ?t = "\<lparr>satellite_name = ''IRIDIUM-7'', tle_line1 = ''1'', tle_line2 = ''2''\<rparr>"
  have p: "print_nat 7 = ''7''" by code_simp
  then have n: "getConstellationAndSatNum (memory ex_inserter_env) ?t = Inr (''IRIDIUM'', 7)"
    using getConstellation_number [of "''IRIDIUM''" 7 ?t] by simp
  have "getline_all CHR 0x0A ex_tle_file = [''IRIDIUM-7'', ''1'', ''2'']"
    by (simp add: ex_tle_file_def)
  moreover have "instantiateSatellite ex_inserter_env ?t inserter_init = Inr (inserter_init\<lparr>iridiumVectorSize := 8,
       created := [(?t, 7, 8, ''leoIRIDIUM'')]\<rparr>)"
    using n by (simp add: instantiateSatellite_def createSatellite_def ex_inserter_env_def inserter_init_def)
  ultimately show ?thesis by (simp add: parseTleFile_def parse_lines_groups)
qed

theorem created_modules_fit_witness:
  "(7 :: uint32) < 8 \<and> (8 :: uint32) \<le> vectorSize_of ''IRIDIUM''
     (inserter_init\<lparr>iridiumVectorSize := 8,
       created := [(\<lparr>satellite_name = ''IRIDIUM-7'', tle_line1 = ''1'', tle_line2 = ''2''\<rparr>, 7, 8, ''leoIRIDIUM'')]\<rparr>)"
proof -
  have "par_satelliteModuleDefaultName ex_inserter_env \<notin> constellations"
    by (simp add: ex_inserter_env_def constellations_def)
  from created_modules_fit [OF ex_parse this] show ?thesis by simp
qed

theorem tle_file_groups_witness:
  "parseTleFile ex_inserter_env (Some (concat (map (\<lambda>l. l @ [CHR 0x0A]) [''A'', ''B'']))) inserter_init =
     throwr ''Incomplete satellite TLE''"
  using tle_file_groups [of "[''A'', ''B'']" ex_inserter_env inserter_init] by simp

end
