(* ===== verification/SV_DoubleText.thy ===== *)
theory SV_DoubleText
  imports SV_Strings
begin

text \<open>
  Decimal text of doubles: reading (\<open>std::stod\<close>, the number part of \<open>%lf\<close>) and the six significant
  digits that \<open>operator<<\<close> of a stream writes by default. Hexadecimal numbers, infinities
  and not-a-number are not read; values that would round to infinity are out of range.
  What is written and read again is within five millionths of the value.
\<close>

section \<open>Reading\<close>

text \<open>A decimal number without exponent: digits, point, digits.\<close>

definition decimal_value :: "string \<Rightarrow> string \<Rightarrow> double" where
  "decimal_value ip fp = of_nat (digits_value ip) + of_nat (digits_value fp) / 10 ^ length fp"

fun split_point :: "string \<Rightarrow> string \<times> string" where
  "split_point (c # cs) = (if c = CHR ''.'' then ([c], cs) else ([], c # cs))"
| "split_point [] = ([], [])"

text \<open>The exponent: nothing, a value, or a letter without digits, which does not match.\<close>

definition scan_exponent :: "string \<Rightarrow> (int \<times> nat) option" where
  "scan_exponent s =
     (case s of [] \<Rightarrow> Some (0, 0)
      | c # cs \<Rightarrow>
          if c = CHR ''e'' \<or> c = CHR ''E'' then
            (let (neg, body) = take_sign cs; ds = takeWhile is_digit body;
                 v = int (digits_value ds)
             in if ds = [] then None
                else Some (if neg then - v else v, 1 + (length cs - length body) + length ds))
          else Some (0, 0))"

definition stod :: "string \<Rightarrow> double res" where
  "stod s =
     (let (neg, body) = take_sign (dropWhile c_isspace s);
          ip = takeWhile is_digit body;
          (pt, body2) = split_point (drop (length ip) body);
          fp = (if pt = [] then [] else takeWhile is_digit body2);
          x = (case scan_exponent (drop (length fp) body2) of None \<Rightarrow> 0 | Some (x, _) \<Rightarrow> x);
          v = decimal_value ip fp * 10 powr of_int x
      in if ip = [] \<and> fp = [] then Inl InvalidArgument
         else if 2 ^ 1024 - 2 ^ 970 \<le> v then Inl OutOfRange
         else Inr (if neg then - v else v))"

section \<open>Writing\<close>

definition round_even :: "double \<Rightarrow> int" where
  "round_even x =
     (let n = \<lfloor>x\<rfloor>; d = x - of_int n in if d < 1 / 2 \<or> (d = 1 / 2 \<and> even n) then n else n + 1)"

text \<open>Six significant digits and the decimal exponent of the first of them.\<close>

definition g6_normal :: "double \<Rightarrow> nat \<times> int" where
  "g6_normal x =
     (let e = \<lfloor>log 10 x\<rfloor>; m = nat (round_even (x / 10 powr of_int (e - 5)))
      in if m = 10 ^ 6 then (10 ^ 5, e + 1) else (m, e))"

definition strip_zeros :: "string \<Rightarrow> string" where
  "strip_zeros s = rev (dropWhile (\<lambda>c. c = CHR ''0'') (rev s))"

definition fraction_text :: "string \<Rightarrow> string" where
  "fraction_text s = (let s = strip_zeros s in if s = [] then [] else CHR ''.'' # s)"

definition exponent_text :: "int \<Rightarrow> string" where
  "exponent_text e =
     CHR ''e'' # (if e < 0 then CHR ''-'' else CHR ''+'') #
       (if \<bar>e\<bar> < 10 then CHR ''0'' # print_nat (nat \<bar>e\<bar>) else print_nat (nat \<bar>e\<bar>))"

fun g6_text :: "nat \<times> int \<Rightarrow> string" where
  "g6_text (m, e) =
     (let ds = print_nat m
      in if e < -4 \<or> 6 \<le> e then take 1 ds @ fraction_text (drop 1 ds) @ exponent_text e
         else if e < 0 then CHR ''0'' # fraction_text (replicate (nat (- e) - 1) CHR ''0'' @ ds)
         else take (nat e + 1) ds @ fraction_text (drop (nat e + 1) ds))"

definition print_double :: "double \<Rightarrow> string" where
  "print_double x =
     (if x = 0 then ''0'' else (if x < 0 then ''-'' else []) @ g6_text (g6_normal \<bar>x\<bar>))"

section \<open>What is written is read\<close>

lemma digits_value_Nil [simp]: "digits_value [] = 0"
  by (simp add: digits_value_def)

lemma digits_value_append: "digits_value (a @ b) = digits_value a * 10 ^ length b + digits_value b"
  by (induction b rule: rev_induct) (simp_all add: digits_value_snoc algebra_simps flip: append_assoc)

lemma digits_value_zeros: "digits_value (replicate n CHR ''0'') = 0"
  by (induction n) (simp_all add: digits_value_append [of "[_]", simplified] digits_value_def digit_value_def)

lemma strip_zeros_split: "\<exists>n. s = strip_zeros s @ replicate n CHR ''0''"
proof -
  let ?z = "takeWhile (\<lambda>c. c = CHR ''0'') (rev s)"
  have "rev s = ?z @ rev (strip_zeros s)" by (simp add: strip_zeros_def)
  then have "s = strip_zeros s @ rev ?z" by (metis rev_append rev_rev_ident)
  moreover have "?z = replicate (length ?z) CHR ''0''"
    by (rule replicate_eqI) (auto dest: set_takeWhileD)
  ultimately show ?thesis by (metis rev_replicate)
qed

lemma strip_zeros_subset: "set (strip_zeros s) \<subseteq> set s"
  using strip_zeros_split [of s] by (metis Un_upper1 set_append)

lemma decimal_value_strip: "decimal_value ip (strip_zeros fp) = decimal_value ip fp"
proof -
  obtain n where n: "fp = strip_zeros fp @ replicate n CHR ''0''" using strip_zeros_split by blast
  have "decimal_value ip fp = decimal_value ip (strip_zeros fp @ replicate n CHR ''0'')" using n by simp
  then show ?thesis
    by (simp add: decimal_value_def digits_value_append digits_value_zeros power_add)
qed

lemma decimal_value_append: "decimal_value ip fp = digits_value (ip @ fp) / 10 ^ length fp"
  by (simp add: decimal_value_def digits_value_append add_divide_distrib)

lemma print_nat_exp: "10 ^ n \<le> m \<Longrightarrow> m < 10 ^ Suc n \<Longrightarrow> length (print_nat m) = Suc n"
proof (induction n arbitrary: m)
  case 0
  then show ?case by (subst print_nat.simps) simp
next
  case (Suc n)
  have "(1::nat) \<le> 10 ^ n" by simp
  then have "\<not> m < 10" using Suc.prems(1) unfolding power_Suc by linarith
  moreover have "10 ^ n \<le> m div 10" "m div 10 < 10 ^ Suc n" using Suc.prems by auto
  ultimately show ?case using Suc.IH [of "m div 10"] by (subst print_nat.simps) simp
qed

lemma exponent_head: "exponent_text e = c # cs \<Longrightarrow> \<not> is_digit c \<and> c \<noteq> CHR ''.''"
  by (auto simp: exponent_text_def is_digit_def)

lemma scan_exponent_text: "\<exists>n. scan_exponent (exponent_text e) = Some (e, n)"
proof -
  define ds where "ds = (if \<bar>e\<bar> < 10 then CHR ''0'' # print_nat (nat \<bar>e\<bar>) else print_nat (nat \<bar>e\<bar>))"
  have digits: "takeWhile is_digit ds = ds"
    by (auto simp: ds_def takeWhile_eq_all_conv is_digit_def [of "CHR ''0''"] intro: print_nat_digits)
  have "digits_value (CHR ''0'' # xs) = digits_value xs" for xs
    using digits_value_append [of "[CHR ''0'']" xs] by (simp add: digits_value_def digit_value_def)
  then have v: "digits_value ds = nat \<bar>e\<bar>" by (simp add: ds_def print_nat_value)
  have "ds \<noteq> []" by (simp add: ds_def print_nat_nonempty)
  then show ?thesis
    by (simp add: exponent_text_def scan_exponent_def Let_def ds_def [symmetric] digits v)
qed

lemma scan_exponent_number:
  assumes "(ex = [] \<and> E = 0) \<or> ex = exponent_text E"
  shows "\<exists>n. scan_exponent ex = Some (E, n)"
  using assms scan_exponent_text [of E] by (auto simp: scan_exponent_def)

lemma takeWhile_digits:
  assumes "\<And>c. c \<in> set ds \<Longrightarrow> is_digit c" and "\<And>c cs. r = c # cs \<Longrightarrow> \<not> is_digit c"
  shows "takeWhile is_digit (ds @ r) = ds"
  using assms by (cases r) (simp_all add: takeWhile_append2)

lemma stod_text:
  assumes ip: "ip \<noteq> []" "\<And>c. c \<in> set ip \<Longrightarrow> is_digit c" and fp: "\<And>c. c \<in> set fp \<Longrightarrow> is_digit c"
    and ex: "(ex = [] \<and> E = 0) \<or> ex = exponent_text E"
    and small: "decimal_value ip fp * 10 powr of_int E < 2 ^ 1024 - 2 ^ 970"
  shows "stod ((if neg then ''-'' else []) @ ip @ fraction_text fp @ ex) =
    Inr ((if neg then -1 else 1) * (decimal_value ip fp * 10 powr of_int E))"
proof -
  let ?sf = "strip_zeros fp"
  let ?s = "(if neg then ''-'' else []) @ ip @ fraction_text fp @ ex"
  obtain c cs where c: "ip = c # cs" using ip(1) by (cases ip) auto
  have dc: "\<not> c_isspace c" "c \<noteq> CHR ''-''" "c \<noteq> CHR ''+''" using ip(2) digit_not_sign c by auto
  have front: "take_sign (dropWhile c_isspace ?s) = (neg, ip @ fraction_text fp @ ex)"
  proof -
    have "\<not> c_isspace CHR ''-''" by (simp add: c_isspace_def)
    then show ?thesis using dc by (simp add: c)
  qed
  have sf: "\<And>c. c \<in> set ?sf \<Longrightarrow> is_digit c" using strip_zeros_subset fp by blast
  have exd: "\<not> is_digit d \<and> d \<noteq> CHR ''.''" if "ex = d # ds" for d ds
  proof -
    from ex that have "exponent_text E = d # ds" by auto
    then show ?thesis by (rule exponent_head)
  qed
  have "\<not> is_digit d" if "fraction_text fp @ ex = d # ds" for d ds
    using that exd by (auto simp: fraction_text_def Let_def is_digit_def split: if_splits)
  then have ipw: "takeWhile is_digit (ip @ fraction_text fp @ ex) = ip"
    using ip(2) by (intro takeWhile_digits)
  have sp: "split_point ex = ([], ex)" using exd by (cases ex) auto
  have sfw: "takeWhile is_digit (?sf @ ex) = ?sf" using sf exd by (intro takeWhile_digits) auto
  obtain n where n: "scan_exponent ex = Some (E, n)" using scan_exponent_number [OF ex] by blast
  show ?thesis
  proof (cases "?sf = []")
    case True
    then have f: "fraction_text fp = []" by (simp add: fraction_text_def Let_def)
    have v: "decimal_value ip fp = decimal_value ip []"
      using decimal_value_strip [of ip fp] True by simp
    show ?thesis using small ip(1) front ipw by (simp add: stod_def f Let_def sp n v)
  next
    case False
    then have f: "fraction_text fp = CHR ''.'' # ?sf" by (simp add: fraction_text_def Let_def)
    show ?thesis
      using small ip(1) front ipw by (simp add: stod_def f Let_def sfw n decimal_value_strip)
  qed
qed

text \<open>The text of a significand of six digits and an exponent.\<close>

lemma g6_text_value:
  assumes m: "10 ^ 5 \<le> m" "m < 10 ^ 6" and small: "of_nat m * 10 powr of_int (e - 5) < (2 ^ 1024 - 2 ^ 970 :: real)"
  shows "stod ((if neg then ''-'' else []) @ g6_text (m, e)) =
    Inr ((if neg then -1 else 1) * (of_nat m * 10 powr of_int (e - 5)))"
proof -
  let ?ds = "print_nat m"
  have len: "length ?ds = 6" using print_nat_exp [of 5 m] m by simp
  have ne: "?ds \<noteq> []" by (rule print_nat_nonempty)
  have dig: "\<And>c. c \<in> set ?ds \<Longrightarrow> is_digit c" by (rule print_nat_digits)
  have split: "decimal_value (take k ?ds) (drop k ?ds) = of_nat m / 10 ^ (6 - k)" for k
    by (simp add: decimal_value_append print_nat_value len)
  have zero: "is_digit CHR ''0''" by (simp add: is_digit_def)
  consider (sci) "e < -4 \<or> 6 \<le> e" | (frac) "-4 \<le> e" "e < 0" | (whole) "0 \<le> e" "e < 6" by linarith
  then show ?thesis
  proof cases
    case sci
    have v: "decimal_value (take 1 ?ds) (drop 1 ?ds) * 10 powr of_int e = of_nat m * 10 powr of_int (e - 5)"
      by (simp only: split) (simp add: powr_diff)
    have "stod ((if neg then ''-'' else []) @ take 1 ?ds @ fraction_text (drop 1 ?ds) @ exponent_text e) =
        Inr ((if neg then -1 else 1) * (decimal_value (take 1 ?ds) (drop 1 ?ds) * 10 powr of_int e))"
      using ne dig small v by (intro stod_text) (auto dest: in_set_takeD in_set_dropD)
    with sci show ?thesis unfolding v by (auto simp: Let_def)
  next
    case frac
    let ?z = "replicate (nat (- e) - 1) CHR ''0''"
    have "decimal_value ''0'' (?z @ ?ds) = of_nat m / 10 ^ (nat (- e) + 5)"
      using frac len by (simp add: decimal_value_append digits_value_append digits_value_zeros print_nat_value
          digits_value_zeros [of 1, simplified] flip: append_Cons)
    moreover have "10 ^ (nat (- e) + 5) = (10::real) powr of_int (5 - e)"
      using frac by (simp add: powr_realpow [symmetric])
    ultimately have v: "decimal_value ''0'' (?z @ ?ds) * 10 powr of_int 0 = of_nat m * 10 powr of_int (e - 5)"
      using powr_minus_divide [of 10 "5 - real_of_int e"] by simp
    have "stod ((if neg then ''-'' else []) @ ''0'' @ fraction_text (?z @ ?ds) @ []) =
        Inr ((if neg then -1 else 1) * (decimal_value ''0'' (?z @ ?ds) * 10 powr of_int 0))"
      using dig small v zero by (intro stod_text) auto
    with frac show ?thesis unfolding v by (simp add: Let_def)
  next
    case whole
    let ?k = "nat e + 1"
    have "10 ^ (6 - ?k) = (10::real) powr of_int (5 - e)"
      using whole by (simp add: powr_realpow [symmetric])
    then have v: "decimal_value (take ?k ?ds) (drop ?k ?ds) * 10 powr of_int 0 = of_nat m * 10 powr of_int (e - 5)"
      by (simp only: split) (simp flip: powr_minus add: divide_inverse)
    have "stod ((if neg then ''-'' else []) @ take ?k ?ds @ fraction_text (drop ?k ?ds) @ []) =
        Inr ((if neg then -1 else 1) * (decimal_value (take ?k ?ds) (drop ?k ?ds) * 10 powr of_int 0))"
      using ne dig small v by (intro stod_text) (auto dest: in_set_takeD in_set_dropD)
    with whole show ?thesis unfolding v by (simp add: Let_def)
  qed
qed

section \<open>The error of six digits\<close>

lemma round_even_near: "\<bar>of_int (round_even x) - x\<bar> \<le> 1 / 2"
proof -
  have "of_int \<lfloor>x\<rfloor> \<le> x" "x < of_int \<lfloor>x\<rfloor> + 1" by linarith+
  then show ?thesis by (auto simp: round_even_def Let_def abs_le_iff)
qed

lemma round_even_bounds:
  assumes "of_int a \<le> x" "x < of_int b"
  shows "a \<le> round_even x \<and> round_even x \<le> b"
proof -
  have "a \<le> \<lfloor>x\<rfloor>" "\<lfloor>x\<rfloor> < b" using assms by (simp_all add: le_floor_iff floor_less_iff)
  then show ?thesis by (auto simp: round_even_def Let_def)
qed

lemma g6_normal_spec:
  assumes "0 < x" and "g6_normal x = (m, e)"
  shows "10 ^ 5 \<le> m \<and> m < 10 ^ 6 \<and> \<bar>of_nat m * 10 powr of_int (e - 5) - x\<bar> \<le> 5 / 10 ^ 6 * x"
proof -
  define k where "k = \<lfloor>log 10 x\<rfloor>"
  define p where "p = (10 powr of_int (k - 5) :: real)"
  define n where "n = round_even (x / p)"
  have pos: "0 < p" by (simp add: p_def)
  have pk: "10 powr of_int k = 10 ^ 5 * p" "10 powr of_int (k + 1) = 10 ^ 6 * p"
    "10 powr of_int (k + 1 - 5) = 10 * p"
    by (simp_all add: p_def powr_diff powr_add)
  have "10 powr of_int k \<le> x" using assms(1) by (simp add: powr_le_iff k_def)
  moreover have "log 10 x < of_int (k + 1)" unfolding k_def by linarith
  then have "x < 10 powr of_int (k + 1)" using assms(1) by (simp add: less_powr_iff)
  ultimately have x: "10 ^ 5 * p \<le> x" "x < 10 ^ 6 * p" unfolding pk by simp_all
  have y: "of_int (10 ^ 5) \<le> x / p" "x / p < of_int (10 ^ 6)"
    using x pos by (simp_all add: le_divide_eq divide_less_eq)
  have n: "10 ^ 5 \<le> n" "n \<le> 10 ^ 6" unfolding n_def using round_even_bounds [OF y] by simp_all
  have "of_int n * p - x = (of_int n - x / p) * p" using pos by (simp add: left_diff_distrib)
  then have "\<bar>of_int n * p - x\<bar> = \<bar>of_int n - x / p\<bar> * p" using pos by (simp add: abs_mult)
  also have "\<dots> \<le> 1 / 2 * p" unfolding n_def using round_even_near pos by (intro mult_right_mono) auto
  also have "\<dots> \<le> 5 / 10 ^ 6 * x" using x(1) by simp
  finally have near: "\<bar>of_int n * p - x\<bar> \<le> 5 / 10 ^ 6 * x" .
  have me: "(m, e) = (if nat n = 10 ^ 6 then (10 ^ 5, k + 1) else (nat n, k))"
    using assms(2) unfolding g6_normal_def Let_def n_def p_def k_def by (rule sym)
  have "of_nat m * 10 powr of_int (e - 5) = of_int n * p"
  proof (cases "nat n = 10 ^ 6")
    case True
    then have "n = 10 ^ 6" using n by simp
    with True me pk(3) show ?thesis by simp
  next
    case False
    with me have "m = nat n" "e = k" by auto
    then show ?thesis using n by (simp add: p_def)
  qed
  moreover have "10 ^ 5 \<le> m \<and> m < 10 ^ 6" using me n by (auto split: if_splits)
  ultimately show ?thesis using near by simp
qed

text \<open>The text of a double, read again, is a number within five millionths of it.\<close>

lemma stod_print_double:
  assumes "\<bar>x\<bar> \<le> 10 ^ 300"
  shows "\<exists>y. stod (print_double x) = Inr y \<and> \<bar>y - x\<bar> \<le> 5 / 10 ^ 6 * \<bar>x\<bar>"
proof (cases "x = 0")
  case True
  have "stod ''0'' = Inr 0" using stod_text [of "''0''" "[]" "[]" 0 False]
    by (simp add: is_digit_def fraction_text_def strip_zeros_def decimal_value_def digits_value_def digit_value_def)
  with True show ?thesis by (simp add: print_double_def)
next
  case False
  obtain m e where me: "g6_normal \<bar>x\<bar> = (m, e)" by (cases "g6_normal \<bar>x\<bar>")
  let ?v = "of_nat m * 10 powr of_int (e - 5) :: real"
  have spec: "10 ^ 5 \<le> m" "m < 10 ^ 6" "\<bar>?v - \<bar>x\<bar>\<bar> \<le> 5 / 10 ^ 6 * \<bar>x\<bar>"
    using g6_normal_spec [OF _ me] False by auto
  moreover have "5 / 10 ^ 6 * \<bar>x\<bar> \<le> \<bar>x\<bar>" by simp
  ultimately have "?v \<le> 2 * \<bar>x\<bar>" by linarith
  also have "\<dots> \<le> 2 * 10 ^ 300" using assms by simp
  also have "\<dots> < 2 ^ 1024 - 2 ^ 970" by simp
  finally have "stod (print_double x) = Inr ((if x < 0 then -1 else 1) * ?v)"
    using g6_text_value [OF spec(1,2), of e "x < 0"] False by (simp add: print_double_def me)
  moreover have "\<bar>(if x < 0 then -1 else 1) * ?v - x\<bar> = \<bar>?v - \<bar>x\<bar>\<bar>" by (cases "x < 0") (auto simp: abs_if)
  ultimately show ?thesis using spec(3) by metis
qed

end
