(* ===== verification/SV_Frames.thy ===== *)
theory SV_Frames
  imports SV_Prelude
begin

text \<open>
  \<open>TEME2ITRF.h\<close>: the rotation from the frame of the propagator (true equator, mean equinox) into
  the frame of the earth, with the \<open>std::vector\<close> arithmetic it is written with. An index past the
  end of a vector is the result \<open>OutOfRange\<close>; \<open>assert\<close> is active.
\<close>

section \<open>Constants\<close>

definition DAY_S :: double where
  "DAY_S = 86400.0"

definition PI :: double where
  "PI = 3.141592653589793"

definition TAU :: double where
  "TAU = 6.283185307179586476925287"

definition T0 :: double where
  "T0 = 2451545.0"

section \<open>Vectors with checked indices\<close>

definition vec_get :: "'a list \<Rightarrow> nat \<Rightarrow> 'a res" where
  "vec_get v i = (if i < length v then Inr (v ! i) else Inl OutOfRange)"

fun for_loop :: "nat list \<Rightarrow> (nat \<Rightarrow> 's \<Rightarrow> 's res) \<Rightarrow> 's \<Rightarrow> 's res" where
  "for_loop [] body s = Inr s"
| "for_loop (i # is) body s = rbind (body i s) (for_loop is body)"

type_synonym vec = "double list"
type_synonym mat = "double list list"

definition multiply_outer :: "vec \<Rightarrow> double \<Rightarrow> vec res" where
  "multiply_outer a b =
     rbind (assertr (length a > 0) ''a.size() > 0'') (\<lambda>_.
     let r = replicate (length a) 0 in
     for_loop [0..<length a] (\<lambda>i r. rbind (vec_get a i) (\<lambda>x. Inr (r[i := x * b]))) r)"

definition rot_x :: "double \<Rightarrow> mat" where
  "rot_x theta =
     (let c = cos theta; s = sin theta
      in [[1.0, 0.0, 0.0], [0.0, c, -1.0 * s], [0.0, s, c]])"

definition rot_y :: "double \<Rightarrow> mat" where
  "rot_y theta =
     (let c = cos theta; s = sin theta
      in [[c, 0.0, s], [0.0, 1.0, 0.0], [-1.0 * s, 0.0, c]])"

definition rot_z :: "double \<Rightarrow> mat" where
  "rot_z theta =
     (let c = cos theta; s = sin theta
      in [[c, - s, 0.0], [s, c, 0.0], [0.0, 0.0, 1.0]])"

definition vec_dot :: "vec \<Rightarrow> vec \<Rightarrow> double res" where
  "vec_dot a b =
     rbind (assertr (length a = length b) ''a.size() == b.size()'') (\<lambda>_.
     for_loop [0..<length a]
       (\<lambda>i r. rbind (vec_get a i) (\<lambda>x. rbind (vec_get b i) (\<lambda>y. Inr (r + x * y)))) 0)"

text \<open>
  \<open>std::vector<double> tmp(0, b[0].size())\<close> is a vector of \<open>0\<close> elements, so the rows of the result
  are empty when they are added to.
\<close>

definition mat_dot :: "mat \<Rightarrow> mat \<Rightarrow> mat res" where
  "mat_dot a b =
     rbind (vec_get a 0) (\<lambda>a0.
     rbind (assertr (length a0 = length b) ''a[0].size() == b.size()'') (\<lambda>_.
     rbind (for_loop [0..<length a]
              (\<lambda>i r. rbind (vec_get b 0) (\<lambda>b0.
                let tmp = replicate 0 (of_nat (length b0)) in Inr (r @ [tmp]))) []) (\<lambda>r.
     for_loop [0..<length a] (\<lambda>i r.
       rbind (vec_get b 0) (\<lambda>b0.
       for_loop [0..<length b0] (\<lambda>j r.
         for_loop [0..<length a] (\<lambda>k r.
           rbind (vec_get a i) (\<lambda>ai. rbind (vec_get ai k) (\<lambda>x.
           rbind (vec_get b k) (\<lambda>bk. rbind (vec_get bk j) (\<lambda>y.
           rbind (vec_get r i) (\<lambda>ri. rbind (vec_get ri j) (\<lambda>z.
             Inr (r[i := ri[j := z + x * y]])))))))) r) r)) r)))"

definition mxv :: "mat \<Rightarrow> vec \<Rightarrow> vec res" where
  "mxv m v =
     rbind (vec_get m 0) (\<lambda>m0.
     rbind (assertr (length m0 = length v) ''m[0].size() == v.size()'') (\<lambda>_.
     let r = replicate (length v) 0 in
     for_loop [0..<length m] (\<lambda>row r.
       for_loop [0..<length v] (\<lambda>col r.
         rbind (vec_get r row) (\<lambda>x. rbind (vec_get m row) (\<lambda>mr.
         rbind (vec_get mr col) (\<lambda>y. rbind (vec_get v col) (\<lambda>z.
           Inr (r[row := x + y * z])))))) r) r))"

definition v_plus_v :: "vec \<Rightarrow> vec \<Rightarrow> vec res" where
  "v_plus_v v1 v2 =
     rbind (assertr (length v1 = length v2) ''v1.size() == v2.size()'') (\<lambda>_.
     let r = replicate (length v1) 0 in
     for_loop [0..<length v1] (\<lambda>row r.
       rbind (vec_get v1 row) (\<lambda>x. rbind (vec_get v2 row) (\<lambda>y. Inr (r[row := x + y])))) r)"

definition cross_vec :: "vec \<Rightarrow> vec \<Rightarrow> vec res" where
  "cross_vec a b =
     rbind (assertr (length a = length b) ''a.size() == b.size()'') (\<lambda>_.
     rbind (vec_get a 0) (\<lambda>a0. rbind (vec_get a 1) (\<lambda>a1. rbind (vec_get a 2) (\<lambda>a2.
     rbind (vec_get b 0) (\<lambda>b0. rbind (vec_get b 1) (\<lambda>b1. rbind (vec_get b 2) (\<lambda>b2.
     let r = replicate (length a) 0 in
     Inr (r[0 := a1 * b2 - a2 * b1, 1 := a2 * b0 - a0 * b2, 2 := a0 * b1 - a1 * b0]))))))))"

section \<open>The rotation\<close>

definition pythonFmod :: "double \<Rightarrow> double \<Rightarrow> double" where
  "pythonFmod a b = a - (b * of_int \<lfloor>a / b\<rfloor>)"

definition theta_GMST1982 :: "double \<Rightarrow> double \<Rightarrow> double \<times> double" where
  "theta_GMST1982 jd_ut1 fraction_ut1 =
     (let t = (jd_ut1 - T0 + fraction_ut1) / 36525.0;
          g = 67310.54841 + (8640184.812866 + (0.093104 + (-0.0000062) * t) * t) * t;
          dg = 8640184.812866 + (0.093104 * 2.0 + (-0.0000062 * 3.0) * t) * t;
          theta = pythonFmod (pythonFmod jd_ut1 1.0 + fraction_ut1 + pythonFmod (g / DAY_S) 1.0) 1.0 * TAU;
          theta_dot = (1.0 + dg / (DAY_S * 36525.0)) * TAU
      in (theta, theta_dot))"

definition TEME_to_ITRF :: "double \<Rightarrow> vec \<Rightarrow> vec \<Rightarrow> double \<Rightarrow> double \<Rightarrow> double \<Rightarrow> (vec \<times> vec) res" where
  "TEME_to_ITRF jd_ut1 rTEME vTEME xp yp fraction_ut1 =
     (let (theta, theta_dot) = theta_GMST1982 jd_ut1 fraction_ut1 in
      rbind (multiply_outer [0.0, 0.0, -1.0] theta_dot) (\<lambda>angular_velocity.
      let R = rot_z (-1.0 * theta) in
      rbind (mxv R rTEME) (\<lambda>rPEF.
      rbind (cross_vec angular_velocity rPEF) (\<lambda>c_product.
      rbind (mxv R vTEME) (\<lambda>vPEF.
      rbind (cross_vec angular_velocity rPEF) (\<lambda>c.
      rbind (v_plus_v vPEF c) (\<lambda>vPEF.
      if xp = 0.0 \<and> yp = 0.0 then Inr (rPEF, vPEF)
      else
        rbind (mat_dot (rot_x yp) (rot_y xp)) (\<lambda>W.
        rbind (mxv W rPEF) (\<lambda>rITRF.
        rbind (mxv W vPEF) (\<lambda>vITRF. Inr (rITRF, vITRF)))))))))))"

section \<open>Facts\<close>

lemmas vec_simps = vec_get_def upt_conv_Cons numeral_nat Let_def

lemma mxv_3:
  "mxv [[a, b, c], [d, e, f], [g, h, i]] [x, y, z] =
     Inr [a * x + b * y + c * z, d * x + e * y + f * z, g * x + h * y + i * z]"
  by (simp add: mxv_def vec_simps)

lemma multiply_outer_3: "multiply_outer [x, y, z] b = Inr [x * b, y * b, z * b]"
  by (simp add: multiply_outer_def vec_simps)

lemma v_plus_v_3: "v_plus_v [a, b, c] [x, y, z] = Inr [a + x, b + y, c + z]"
  by (simp add: v_plus_v_def vec_simps)

lemma cross_vec_3:
  "cross_vec [a0, a1, a2] [b0, b1, b2] = Inr [a1 * b2 - a2 * b1, a2 * b0 - a0 * b2, a0 * b1 - a1 * b0]"
  by (simp add: cross_vec_def vec_simps)

lemma mat_dot_fails: "mat_dot (rot_x a) (rot_y b) = Inl OutOfRange"
  by (simp add: mat_dot_def rot_x_def rot_y_def vec_simps)

lemma rotate_square: "(c * a + s * b)\<^sup>2 + (c * b - s * a)\<^sup>2 = (s\<^sup>2 + c\<^sup>2) * (a\<^sup>2 + b\<^sup>2)" for a b c s :: double
  by (simp add: algebra_simps power2_eq_square)

text \<open>The floating-point modulo of Python, by one.\<close>

lemma pythonFmod_1: "pythonFmod a 1.0 = frac a"
  by (simp add: pythonFmod_def frac_def)

lemma frac_add_int: "frac (x + of_int k) = frac x"
  by (simp add: frac_def)

lemma frac_frac_add: "frac (frac x + y) = frac (x + y)"
  using frac_add_int [of "x + y" "- \<lfloor>x\<rfloor>"] by (simp add: frac_def algebra_simps)

definition sidereal_turns :: "double \<Rightarrow> double" where
  "sidereal_turns d =
     d + (67310.54841 + (8640184.812866 + (0.093104 + (-0.0000062) * ((d - T0) / 36525.0)) * ((d - T0) / 36525.0)) *
       ((d - T0) / 36525.0)) / DAY_S"

lemma theta_turns: "fst (theta_GMST1982 jd fr) = frac (sidereal_turns (jd + fr)) * TAU"
proof -
  have t: "jd - T0 + fr = jd + fr - T0" by simp
  have "frac (frac jd + fr + frac u) = frac (jd + fr + u)" for u
    using frac_frac_add [of jd "fr + frac u"] frac_frac_add [of u "jd + fr"] by (simp add: ac_simps)
  then show ?thesis
    by (simp only: theta_GMST1982_def Let_def fst_conv pythonFmod_1 t sidereal_turns_def)
qed

section \<open>Properties\<close>

text \<open>The sidereal angle lies in \<open>[0, TAU)\<close> and depends on the sum of the Julian date and the fraction
  only, however the instant is split into the two.\<close>

theorem theta_split_independent:
  "0 \<le> fst (theta_GMST1982 jd fr) \<and> fst (theta_GMST1982 jd fr) < TAU \<and>
   theta_GMST1982 (jd + x) (fr - x) = theta_GMST1982 jd fr"
proof -
  have "0 \<le> frac (sidereal_turns (jd + fr))" "frac (sidereal_turns (jd + fr)) < 1"
    by (simp_all add: frac_lt_1)
  then have "0 \<le> fst (theta_GMST1982 jd fr) \<and> fst (theta_GMST1982 jd fr) < TAU"
    unfolding theta_turns by (simp add: TAU_def)
  moreover have "fst (theta_GMST1982 (jd + x) (fr - x)) = fst (theta_GMST1982 jd fr)"
    by (simp add: theta_turns)
  moreover have "snd (theta_GMST1982 (jd + x) (fr - x)) = snd (theta_GMST1982 jd fr)"
  proof -
    have "jd + x - T0 + (fr - x) = jd - T0 + fr" by simp
    then show ?thesis by (simp only: theta_GMST1982_def Let_def snd_conv)
  qed
  ultimately show ?thesis by (simp add: prod_eq_iff)
qed

text \<open>The transformation without polar motion.\<close>

lemma TEME_to_ITRF_value:
  assumes "theta_GMST1982 jd fr = (th, w)"
  shows "TEME_to_ITRF jd [x, y, z] [u, v, vz] 0 0 fr =
    Inr ([cos th * x + sin th * y, cos th * y - sin th * x, z],
         [cos th * u + sin th * v + w * (cos th * y - sin th * x),
          cos th * v - sin th * u - w * (cos th * x + sin th * y), vz])"
  by (simp add: TEME_to_ITRF_def assms rot_z_def mxv_3 multiply_outer_3 cross_vec_3 v_plus_v_3 Let_def algebra_simps)

text \<open>C28: Without polar motion the transformation turns the position about the vertical axis by the sidereal
  angle, and the velocity by the same angle before it subtracts the velocity with which the earth turns at
  the new position. Vertical components and the distance are kept, and adding the rotation of the
  earth back gives a velocity of the old magnitude. With any polar motion the product of the
  two rotations indexes empty rows.\<close>

theorem teme_to_itrf_rotates:
  "(let (th, w) = theta_GMST1982 jd fr in
    \<exists>x' y' z' u' v' w'.
      TEME_to_ITRF jd [x, y, z] [u, v, vz] 0 0 fr = Inr ([x', y', z'], [u', v', w']) \<and>
      x' = cos th * x + sin th * y \<and> y' = cos th * y - sin th * x \<and> z' = z \<and>
      u' = cos th * u + sin th * v + w * y' \<and> v' = cos th * v - sin th * u - w * x' \<and> w' = vz \<and>
      x'\<^sup>2 + y'\<^sup>2 + z'\<^sup>2 = x\<^sup>2 + y\<^sup>2 + z\<^sup>2 \<and>
      (u' - w * y')\<^sup>2 + (v' + w * x')\<^sup>2 + w'\<^sup>2 = u\<^sup>2 + v\<^sup>2 + vz\<^sup>2) \<and>
   (xp \<noteq> 0 \<or> yp \<noteq> 0 \<longrightarrow> TEME_to_ITRF jd [x, y, z] [u, v, vz] xp yp fr = Inl OutOfRange)"
proof -
  obtain th w where tw: "theta_GMST1982 jd fr = (th, w)" by (cases "theta_GMST1982 jd fr")
  let ?x = "cos th * x + sin th * y"
  let ?y = "cos th * y - sin th * x"
  let ?u = "cos th * u + sin th * v + w * ?y"
  let ?v = "cos th * v - sin th * u - w * ?x"
  have rot: "(cos th * a + sin th * b)\<^sup>2 + (cos th * b - sin th * a)\<^sup>2 = a\<^sup>2 + b\<^sup>2" for a b
  proof -
    have "(cos th * a + sin th * b)\<^sup>2 + (cos th * b - sin th * a)\<^sup>2 = ((sin th)\<^sup>2 + (cos th)\<^sup>2) * (a\<^sup>2 + b\<^sup>2)"
      by (rule rotate_square)
    then show ?thesis by (simp only: sin_cos_squared_add mult_1)
  qed
  have pef: "TEME_to_ITRF jd [x, y, z] [u, v, vz] 0 0 fr = Inr ([?x, ?y, z], [?u, ?v, vz])"
    by (rule TEME_to_ITRF_value [OF tw])
  have "?x\<^sup>2 + ?y\<^sup>2 + z\<^sup>2 = x\<^sup>2 + y\<^sup>2 + z\<^sup>2" using rot [of x y] by simp
  moreover have "(?u - w * ?y)\<^sup>2 + (?v + w * ?x)\<^sup>2 + vz\<^sup>2 = u\<^sup>2 + v\<^sup>2 + vz\<^sup>2" using rot [of u v] by simp
  moreover have "TEME_to_ITRF jd [x, y, z] [u, v, vz] xp yp fr = Inl OutOfRange" if "xp \<noteq> 0 \<or> yp \<noteq> 0"
    using that by (simp add: TEME_to_ITRF_def tw rot_z_def mxv_3 multiply_outer_3 cross_vec_3 v_plus_v_3
        mat_dot_fails Let_def)
  ultimately show ?thesis
    unfolding tw Let_def prod.case using pef by blast
qed

theorem teme_to_itrf_rotates_witness:
  "(let (th, w) = theta_GMST1982 2451545 0 in
     TEME_to_ITRF 2451545 [1, 0, 0] [0, 1, 0] 0 0 0 =
       Inr ([cos th, - sin th, 0], [sin th - w * sin th, cos th - w * cos th, 0])) \<and>
   TEME_to_ITRF 2451545 [1, 0, 0] [0, 1, 0] 1 0 0 = Inl OutOfRange"
  using teme_to_itrf_rotates [of 2451545 0 1 0 0 0 1 0 1 0] by (auto simp: Let_def split: prod.splits)

end
