(* ===== verification/SV_SOP.thy ===== *)
theory SV_SOP
  imports SV_Statistics SV_Kernel SV_DoubleText SV_Frames
begin

text \<open>
  The satellite observation point of \<open>SatelliteObservationPoint.cc\<close>: it reads the location of the SUMO
  network, derives its own UTM, geodetic and geocentric coordinates and transforms
  OMNeT++ coordinates for the other modules.

  The PROJ library is a parameter: \<open>proj_ops\<close> holds the functions the module calls; a \<open>PJ*\<close> is an option,
  \<open>None\<close> the null pointer. A network file is the list of its \<open>location\<close> elements, an element the
  function from attribute names to values.
\<close>

record 'pj proj_ops =
  proj_create_crs_to_crs :: "string \<Rightarrow> string \<Rightarrow> 'pj option"
  proj_normalize_for_visualization :: "'pj \<Rightarrow> 'pj option"
  proj_create :: "string \<Rightarrow> 'pj option"
  proj_trans :: "'pj option \<Rightarrow> PJ_COORD \<Rightarrow> PJ_COORD"     \<comment> \<open>forward\<close>

definition proj_coord :: "double \<Rightarrow> double \<Rightarrow> double \<Rightarrow> PJ_COORD" where
  "proj_coord x y z = \<lparr>pj_x = x, pj_y = y, pj_z = z\<rparr>"

type_synonym location_element = "string \<Rightarrow> string option"

section \<open>The location of the network\<close>

definition location_attribute :: "string \<Rightarrow> location_element list option \<Rightarrow> string res" where
  "location_attribute name sumoNetXmlFile =
     (case sumoNetXmlFile of
        None \<Rightarrow> throwr ''No .net.xml file specified.''
      | Some locationList \<Rightarrow>
          if locationList = [] then throwr ''No location tag found in .net.xml file.''
          else if length locationList > 1 then throwr ''More than one location tag found in .net.xml file.''
          else (case hd locationList name of None \<Rightarrow> Inl NullPointer | Some v \<Rightarrow> Inr v))"

definition getProjectionString :: "location_element list option \<Rightarrow> string res" where
  "getProjectionString f = location_attribute ''projParameter'' f"

definition getConvBoundaryString :: "location_element list option \<Rightarrow> string res" where
  "getConvBoundaryString f = location_attribute ''convBoundary'' f"

definition getNetOffsetString :: "location_element list option \<Rightarrow> string res" where
  "getNetOffsetString f = location_attribute ''netOffset'' f"

text \<open>\<open>std::stod(coords[i])\<close>\<close>

definition coord_at :: "string list \<Rightarrow> nat \<Rightarrow> double res" where
  "coord_at cs i = (if i < length cs then stod (cs ! i) else Inl OutOfRange)"

definition convBoundary2TraCICoords :: "string \<Rightarrow> (TraCICoord \<times> TraCICoord) res" where
  "convBoundary2TraCICoords cb =
     (let coords = getline_all CHR '','' cb in
      rbind (coord_at coords 0) (\<lambda>x1.
      rbind (coord_at coords 1) (\<lambda>y1.
      rbind (coord_at coords 2) (\<lambda>x2.
      rbind (coord_at coords 3) (\<lambda>y2. Inr (mkTraCI x1 y1, mkTraCI x2 y2))))))"

definition netOffsetString2Coord :: "string \<Rightarrow> Coord res" where
  "netOffsetString2Coord no' =
     (let coords = getline_all CHR '','' no' in
      rbind (coord_at coords 0) (\<lambda>x.
      rbind (coord_at coords 1) (\<lambda>y. Inr (mkCoord x y 0))))"

section \<open>State\<close>

record 'pj sop_state =
  sop_mobility :: bool                     \<comment> \<open>submodule found\<close>
  sop_annotations :: "Coord list option"   \<comment> \<open>points drawn\<close>
  sop_display :: "double \<times> double"
  sop_omnet_coord :: Coord
  sop_traci_coord :: TraCICoord
  sop_utm_coord :: TraCICoord
  sop_wgs84 :: WGS84Coord
  sop_wgs84_proj_cart :: PJ_COORD
  sop_netOffset :: Coord
  sumo_to_wgs84_projection :: "'pj option"
  wgs84_to_wgs84cartesian_projection :: "'pj option"
  relativeToSOP_projection :: "'pj option"
  coordinateTransformation :: "TraCICoordinateTransformation option"

text \<open>What the module finds: its mobility's position, the annotation manager, its parameters.\<close>

record sop_env =
  env_mobility :: "Coord option"
  env_annotations :: bool
  env_sumoNetXmlFile :: "location_element list option"
  env_margin :: int

section \<open>Coordinates\<close>

definition omnet2UTM :: "'pj sop_state \<Rightarrow> Coord \<Rightarrow> TraCICoord res" where
  "omnet2UTM s toTransfer =
     (case coordinateTransformation s of
        None \<Rightarrow> Inl NullPointer
      | Some T \<Rightarrow>
          (let toTransferSUMO = omnet2traci T toTransfer
           in Inr (mkTraCI (tx toTransferSUMO - cx (sop_netOffset s)) (ty toTransferSUMO - cy (sop_netOffset s)))))"

definition omnet2WGS84 :: "'pj proj_ops \<Rightarrow> 'pj sop_state \<Rightarrow> Coord \<Rightarrow> WGS84Coord res" where
  "omnet2WGS84 P s toTransfer =
     rbind (omnet2UTM s toTransfer) (\<lambda>utm.
       let r = proj_trans P (sumo_to_wgs84_projection s) (proj_coord (tx utm) (ty utm) 0)
       in Inr (mkWGS84 (pj_y r) (pj_x r) 0))"

definition omnet2WGS84Cartesian :: "'pj proj_ops \<Rightarrow> 'pj sop_state \<Rightarrow> Coord \<Rightarrow> PJ_COORD res" where
  "omnet2WGS84Cartesian P s toTransfer =
     rbind (omnet2WGS84 P s toTransfer) (\<lambda>w.
       Inr (proj_trans P (wgs84_to_wgs84cartesian_projection s)
              (proj_coord (lon w * (PI / 180)) (lat w * (PI / 180)) (alt w))))"

definition omnetRelativeSOPCoord :: "'pj proj_ops \<Rightarrow> 'pj sop_state \<Rightarrow> Coord \<Rightarrow> Coord res" where
  "omnetRelativeSOPCoord P s toTransfer =
     rbind (omnet2WGS84Cartesian P s toTransfer) (\<lambda>c.
       let r = proj_trans P (relativeToSOP_projection s) c
       in Inr (mkCoord (pj_x r + cx (sop_omnet_coord s)) (- pj_y r + cy (sop_omnet_coord s))
                 (pj_z r + cz (sop_omnet_coord s))))"

text \<open>The description of the projection to coordinates relative to a geocentric point.\<close>

definition topocentric_text :: "PJ_COORD \<Rightarrow> string" where
  "topocentric_text c =
     ''+proj=topocentric +ellps=WGS84 +X_0='' @ print_double (pj_x c) @ '' +Y_0='' @ print_double (pj_y c) @
       '' +Z_0='' @ print_double (pj_z c)"

section \<open>Life cycle\<close>

definition sop_initialize_projections :: "'pj proj_ops \<Rightarrow> sop_env \<Rightarrow> 'pj sop_state \<Rightarrow> 'pj sop_state res" where
  "sop_initialize_projections P env s =
     rbind (getProjectionString (env_sumoNetXmlFile env)) (\<lambda>sumo_proj.
     case proj_create_crs_to_crs P sumo_proj ''EPSG:4326'' of
       None \<Rightarrow> throwr ''sumo_to_wgs84_projection initialization error''
     | Some pj \<Rightarrow>
         (case proj_normalize_for_visualization P pj of
            None \<Rightarrow> throwr ''sumo_to_wgs84_projection normalization error''
          | Some pj \<Rightarrow>
              Inr (s\<lparr>sumo_to_wgs84_projection := Some pj,
                     wgs84_to_wgs84cartesian_projection :=
                       proj_create P ''+proj=pipeline +step proj=cart +ellps=WGS84''\<rparr>)))"

definition sop_initialize_position :: "'pj proj_ops \<Rightarrow> sop_env \<Rightarrow> 'pj sop_state \<Rightarrow> 'pj sop_state res" where
  "sop_initialize_position P env s =
     (case env_mobility env of None \<Rightarrow> Inl NullPointer | Some pos \<Rightarrow>
      (let s = s\<lparr>sop_omnet_coord := mkCoord (cx pos) (cy pos) (cz pos)\<rparr>;
           s = s\<lparr>sop_display := (cx (sop_omnet_coord s), cy (sop_omnet_coord s))\<rparr>
       in rbind (getConvBoundaryString (env_sumoNetXmlFile env)) (\<lambda>convBoundary.
          rbind (convBoundary2TraCICoords convBoundary) (\<lambda>(nb1, nb2).
          rbind (getNetOffsetString (env_sumoNetXmlFile env)) (\<lambda>netOffsetStr.
          rbind (netOffsetString2Coord netOffsetStr) (\<lambda>offset.
          let s = s\<lparr>sop_netOffset := offset\<rparr>;
              T = mkTransformation nb1 nb2 (of_int (env_margin env));
              s = s\<lparr>coordinateTransformation := Some T\<rparr>;
              s = s\<lparr>sop_traci_coord := omnet2traci T (sop_omnet_coord s)\<rparr>;
              s = s\<lparr>sop_utm_coord := mkTraCI (tx (sop_traci_coord s) - cx (sop_netOffset s))
                                       (ty (sop_traci_coord s) - cy (sop_netOffset s))\<rparr>;
              sop_wgs84_proj = proj_trans P (sumo_to_wgs84_projection s)
                                 (proj_coord (tx (sop_utm_coord s)) (ty (sop_utm_coord s)) 0);
              s = s\<lparr>sop_wgs84 := mkWGS84 (pj_y sop_wgs84_proj) (pj_x sop_wgs84_proj) 0\<rparr>;
              sop_wgs84_proj_rad = proj_coord (lon (sop_wgs84 s) * (PI / 180))
                                     (lat (sop_wgs84 s) * (PI / 180)) (alt (sop_wgs84 s));
              s = s\<lparr>sop_wgs84_proj_cart := proj_trans P (wgs84_to_wgs84cartesian_projection s) sop_wgs84_proj_rad\<rparr>
          in Inr (s\<lparr>relativeToSOP_projection := proj_create P (topocentric_text (sop_wgs84_proj_cart s))\<rparr>)))))))"

text \<open>\<open>0.01\<close> seconds after the start the point is drawn; the message is of kind 0.\<close>

definition DRAW_DELAY :: simtime where
  "DRAW_DELAY = 10 * SIMTIME_MS"

definition sop_initialize ::
    "'pj proj_ops \<Rightarrow> 'k kernel_ops \<Rightarrow> sop_env \<Rightarrow> nat \<Rightarrow> 'pj sop_state \<times> 'k \<Rightarrow> ('pj sop_state \<times> 'k) res" where
  "sop_initialize P K env stage sk =
     (let (s, k) = sk in
      rbind (if stage = 0 then
               rbind (assertr (env_mobility env \<noteq> None) ''mobility'') (\<lambda>_.
               let s = s\<lparr>sop_mobility := True\<rparr> in
               rbind (assertr (env_annotations env) ''annotations'') (\<lambda>_.
               let s = s\<lparr>sop_annotations := Some []\<rparr>; (drawPosition, k) = newMessage K k in
               rbind (scheduleAt K (simTime K k + DRAW_DELAY) drawPosition k) (\<lambda>k. Inr (s, k))))
             else Inr (s, k)) (\<lambda>(s, k).
      if stage = 3 then
        rbind (sop_initialize_projections P env s) (\<lambda>s.
        rbind (sop_initialize_position P env s) (\<lambda>s. Inr (s, k)))
      else Inr (s, k)))"

definition sop_handleSelfMessage :: "int \<Rightarrow> 'pj sop_state \<Rightarrow> 'pj sop_state res" where
  "sop_handleSelfMessage kind s =
     (if kind = 0 then
        (case sop_annotations s of
           None \<Rightarrow> Inl NullPointer
         | Some ps \<Rightarrow> Inr (s\<lparr>sop_annotations := Some (sop_omnet_coord s # ps)\<rparr>))
      else Inr s)"

text \<open>Other messages are deleted.\<close>

definition sop_handleMessage :: "bool \<Rightarrow> int \<Rightarrow> 'pj sop_state \<Rightarrow> 'pj sop_state res" where
  "sop_handleMessage isSelfMessage kind s = (if isSelfMessage then sop_handleSelfMessage kind s else Inr s)"

end
