(* ===== verification/SV_SOP_Props.thy ===== *)
theory SV_SOP_Props
  imports SV_SOP
begin

text \<open>
  Properties of the observation point: when its initialisation succeeds, the agreement of the coordinates it
  keeps with the transformations it offers, and the offset of the relative coordinates that
  comes from writing the geocentric position with six digits.
\<close>

section \<open>Initialisation\<close>

text \<open>The numbers the module needs from the network file.\<close>

definition numbers_at :: "nat \<Rightarrow> string \<Rightarrow> bool" where
  "numbers_at n s \<longleftrightarrow> (\<forall>i < n. is_ok (coord_at (getline_all CHR '','' s) i))"

lemma numbers_at_simps: "numbers_at 0 s" "numbers_at (Suc n) s \<longleftrightarrow> numbers_at n s \<and> is_ok (coord_at (getline_all CHR '','' s) n)"
  by (auto simp: numbers_at_def less_Suc_eq)

lemma is_ok_rbind: "is_ok (rbind m f) \<longleftrightarrow> (\<exists>x. m = Inr x \<and> is_ok (f x))"
  by (cases m) (simp_all add: is_ok_def)

lemma is_ok_Inr [simp]: "is_ok (Inr x)"
  by (simp add: is_ok_def)

lemma is_ok_Inl [simp]: "\<not> is_ok (Inl e)"
  by (simp add: is_ok_def)

lemma is_ok_throwr [simp]: "\<not> is_ok (throwr m)"
  by (simp add: throwr_def)

lemma boundary_ok: "is_ok (convBoundary2TraCICoords cb) \<longleftrightarrow> numbers_at 4 cb"
  by (auto simp: convBoundary2TraCICoords_def Let_def is_ok_rbind numbers_at_simps numeral_eq_Suc is_ok_iff)

lemma offset_ok: "is_ok (netOffsetString2Coord cb) \<longleftrightarrow> numbers_at 2 cb"
  by (auto simp: netOffsetString2Coord_def Let_def is_ok_rbind numbers_at_simps numeral_eq_Suc is_ok_iff)

lemma location_attribute_ok: "is_ok (location_attribute a f) \<longleftrightarrow> (\<exists>l v. f = Some [l] \<and> l a = Some v)"
  by (cases f; cases "the f"; cases "tl (the f)") (auto simp: location_attribute_def split: option.splits)

lemma location_attribute_Inr: "location_attribute a f = Inr v \<longleftrightarrow> (\<exists>l. f = Some [l] \<and> l a = Some v)"
  by (cases f; cases "the f"; cases "tl (the f)") (auto simp: location_attribute_def throwr_def split: option.splits)

text \<open>The observation point initialises exactly when its mobility exists, the network file has one location
  element with the three attributes, the boundary has four and the offset two numbers, and
  PROJ makes and normalises the projection of the network.\<close>

theorem sop_initialize_succeeds:
  "is_ok (sop_initialize P K env 3 (s, k)) =
    (env_mobility env \<noteq> None \<and>
     (\<exists>l proj cb no' pj. env_sumoNetXmlFile env = Some [l] \<and> l ''projParameter'' = Some proj \<and>
        l ''convBoundary'' = Some cb \<and> l ''netOffset'' = Some no' \<and> numbers_at 4 cb \<and> numbers_at 2 no' \<and>
        proj_create_crs_to_crs P proj ''EPSG:4326'' = Some pj \<and> proj_normalize_for_visualization P pj \<noteq> None))"
proof -
  note numbers = boundary_ok [unfolded is_ok_iff, symmetric] offset_ok [unfolded is_ok_iff, symmetric]
  have pos: "is_ok (sop_initialize_position P env s) \<longleftrightarrow> env_mobility env \<noteq> None \<and>
      (\<exists>cb no'. getConvBoundaryString (env_sumoNetXmlFile env) = Inr cb \<and> numbers_at 4 cb \<and>
        getNetOffsetString (env_sumoNetXmlFile env) = Inr no' \<and> numbers_at 2 no')" for s :: "'a sop_state"
  proof (cases "env_mobility env")
    case (Some p)
    then show ?thesis
      by (simp add: sop_initialize_position_def Let_def numbers is_ok_rbind split_beta)
  qed (simp add: sop_initialize_position_def)
  have proj: "is_ok (rbind (sop_initialize_projections P env s) f) \<longleftrightarrow>
      (\<exists>proj pj pj'. getProjectionString (env_sumoNetXmlFile env) = Inr proj \<and>
        proj_create_crs_to_crs P proj ''EPSG:4326'' = Some pj \<and> proj_normalize_for_visualization P pj = Some pj' \<and>
        is_ok (f (s\<lparr>sumo_to_wgs84_projection := Some pj',
                     wgs84_to_wgs84cartesian_projection :=
                       proj_create P ''+proj=pipeline +step proj=cart +ellps=WGS84''\<rparr>)))"
    for f :: "'a sop_state \<Rightarrow> ('a sop_state \<times> 'b) res"
  proof (cases "getProjectionString (env_sumoNetXmlFile env)")
    case (Inr proj)
    then show ?thesis
      by (auto simp: sop_initialize_projections_def throwr_def split: option.split)
  qed (simp add: sop_initialize_projections_def)
  show ?thesis
    unfolding sop_initialize_def
    by (auto simp: proj is_ok_rbind [of "sop_initialize_position P env _"] pos [unfolded is_ok_iff]
        getProjectionString_def getConvBoundaryString_def getNetOffsetString_def location_attribute_Inr)
qed

section \<open>Agreement of the coordinates\<close>

lemma sop_position_agrees:
  assumes "sop_initialize_position P env s = Inr s'"
  shows "\<exists>pos. env_mobility env = Some pos \<and> sop_omnet_coord s' = pos \<and>
    omnet2UTM s' pos = Inr (sop_utm_coord s') \<and> omnet2WGS84 P s' pos = Inr (sop_wgs84 s') \<and>
    omnet2WGS84Cartesian P s' pos = Inr (sop_wgs84_proj_cart s') \<and>
    relativeToSOP_projection s' = proj_create P (topocentric_text (sop_wgs84_proj_cart s'))"
proof -
  have eta: "mkCoord (cx p) (cy p) (cz p) = p" for p by (simp add: mkCoord_def)
  show ?thesis
    using assms
    by (auto simp: sop_initialize_position_def Let_def eta omnet2UTM_def omnet2WGS84_def omnet2WGS84Cartesian_def
        split: option.splits)
qed

lemma sop_initialize_3:
  "sop_initialize P K env 3 (s, k) = Inr (s', k') \<Longrightarrow>
    \<exists>s1. sop_initialize_position P env s1 = Inr s' \<and> k' = k"
  by (auto simp: sop_initialize_def)

text \<open>After the initialisation the coordinates kept for the observation point are those its own
  transformations give for the position of its mobility, and the relative projection is the one around the
  geocentric position kept.\<close>

theorem sop_coordinates_agree:
  assumes "sop_initialize P K env 3 (s, k) = Inr (s', k')"
  shows "\<exists>pos. env_mobility env = Some pos \<and> sop_omnet_coord s' = pos \<and>
    omnet2UTM s' pos = Inr (sop_utm_coord s') \<and> omnet2WGS84 P s' pos = Inr (sop_wgs84 s') \<and>
    omnet2WGS84Cartesian P s' pos = Inr (sop_wgs84_proj_cart s') \<and>
    relativeToSOP_projection s' = proj_create P (topocentric_text (sop_wgs84_proj_cart s'))"
  using sop_initialize_3 [OF assms] sop_position_agrees by blast

section \<open>The offset of the relative coordinates\<close>

text \<open>A coordinate as PROJ reads it from the description.\<close>

definition read_back :: "double \<Rightarrow> double" where
  "read_back x = (case stod (print_double x) of Inl _ \<Rightarrow> x | Inr y \<Rightarrow> y)"

definition geocentric_radius :: "PJ_COORD \<Rightarrow> double" where
  "geocentric_radius c = sqrt (pj_x c * pj_x c + pj_y c * pj_y c + pj_z c * pj_z c)"

text \<open>
  What PROJ documents for a topocentric projection: a rotation of the difference to its origin, so the
  result is as long as that difference.
\<close>

definition topocentric_at :: "'pj proj_ops \<Rightarrow> 'pj option \<Rightarrow> PJ_COORD \<Rightarrow> bool" where
  "topocentric_at P pj org \<longleftrightarrow>
     (\<forall>c. geocentric_radius (proj_trans P pj c) =
        geocentric_radius (proj_coord (pj_x c - pj_x org) (pj_y c - pj_y org) (pj_z c - pj_z org)))"

lemma read_back_near: "\<bar>x\<bar> \<le> 10 ^ 300 \<Longrightarrow> \<bar>x - read_back x\<bar> \<le> 5 / 10 ^ 6 * \<bar>x\<bar>"
  using stod_print_double [of x] by (auto simp: read_back_def abs_minus_commute)

lemma radius_scale:
  assumes "\<bar>a\<bar> \<le> q * \<bar>x\<bar>" "\<bar>b\<bar> \<le> q * \<bar>y\<bar>" "\<bar>c\<bar> \<le> q * \<bar>z\<bar>" and "0 \<le> q"
  shows "sqrt (a * a + b * b + c * c) \<le> q * sqrt (x * x + y * y + z * z :: real)"
proof -
  have square: "u * u \<le> q * q * (v * v)" if "\<bar>u\<bar> \<le> q * \<bar>v\<bar>" for u v :: real
  proof -
    have "\<bar>u\<bar> * \<bar>u\<bar> \<le> q * \<bar>v\<bar> * (q * \<bar>v\<bar>)" using that by (intro mult_mono) auto
    then show ?thesis by (simp add: algebra_simps)
  qed
  have "a * a + b * b + c * c \<le> q * q * (x * x + y * y + z * z)"
    using square [OF assms(1)] square [OF assms(2)] square [OF assms(3)] by (simp add: algebra_simps)
  then have "sqrt (a * a + b * b + c * c) \<le> sqrt (q * q * (x * x + y * y + z * z))" by (rule real_sqrt_le_mono)
  also have "\<dots> = q * sqrt (x * x + y * y + z * z)" using assms(4) by (simp add: real_sqrt_mult)
  finally show ?thesis .
qed

text \<open>The coordinates of the observation point relative to itself are not exactly its OMNeT++ position but
  within five millionths of the distance to the centre of the earth, because the origin of the
  projection is written with six significant digits.\<close>

theorem sop_relative_offset:
  assumes "sop_initialize P K env 3 (s, k) = Inr (s', k')"
    and "c = sop_wgs84_proj_cart s'"
    and "\<bar>pj_x c\<bar> \<le> 10 ^ 300" "\<bar>pj_y c\<bar> \<le> 10 ^ 300" "\<bar>pj_z c\<bar> \<le> 10 ^ 300"
    and "topocentric_at P (relativeToSOP_projection s')
           (proj_coord (read_back (pj_x c)) (read_back (pj_y c)) (read_back (pj_z c)))"
  shows "\<exists>rel. omnetRelativeSOPCoord P s' (sop_omnet_coord s') = Inr rel \<and>
    Coord_distance rel (sop_omnet_coord s') \<le> 5 / 10 ^ 6 * geocentric_radius c"
proof -
  have cart: "omnet2WGS84Cartesian P s' (sop_omnet_coord s') = Inr c"
    using sop_initialize_3 [OF assms(1)] sop_position_agrees assms(2) by fastforce
  let ?r = "proj_trans P (relativeToSOP_projection s') c"
  have "geocentric_radius ?r \<le> 5 / 10 ^ 6 * geocentric_radius c"
    using radius_scale [OF read_back_near [OF assms(3)] read_back_near [OF assms(4)] read_back_near [OF assms(5)]]
      assms(6) by (simp add: topocentric_at_def geocentric_radius_def [of c] proj_coord_def geocentric_radius_def [of "_\<lparr>pj_x := _\<rparr>"])
      (simp add: geocentric_radius_def)
  then show ?thesis
    by (simp add: omnetRelativeSOPCoord_def cart Let_def Coord_distance_def Coord_length_def squareLength_def
        Coord_minus_def geocentric_radius_def [of ?r])
qed

section \<open>An observation point on the equator\<close>

text \<open>A PROJ whose projections translate; the geocentric one puts the point \<open>(0, 0)\<close> on the equator.\<close>

definition equator_proj :: "PJ_COORD proj_ops" where
  "equator_proj =
     \<lparr>proj_create_crs_to_crs = (\<lambda>_ _. Some (proj_coord 0 0 0)),
      proj_normalize_for_visualization = Some,
      proj_create = (\<lambda>d. if d = ''+proj=pipeline +step proj=cart +ellps=WGS84'' then Some (proj_coord (-6378137) 0 0)
                        else Some (proj_coord (read_back 6378137) (read_back 0) (read_back 0))),
      proj_trans = (\<lambda>pj c. case pj of None \<Rightarrow> c
                     | Some o' \<Rightarrow> proj_coord (pj_x c - pj_x o') (pj_y c - pj_y o') (pj_z c - pj_z o'))\<rparr>"

definition equator_env :: sop_env where
  "equator_env =
     \<lparr>env_mobility = Some (mkCoord 0 0 0), env_annotations = True,
      env_sumoNetXmlFile = Some [(\<lambda>a. Some (if a = ''projParameter'' then ''+proj=utm'' else
        if a = ''convBoundary'' then ''0,0,0,0'' else ''0,0''))], env_margin = 0\<rparr>"

definition blank_sop :: "PJ_COORD sop_state" where
  "blank_sop =
     \<lparr>sop_mobility = True, sop_annotations = Some [], sop_display = (0, 0), sop_omnet_coord = mkCoord 0 0 0,
      sop_traci_coord = mkTraCI 0 0, sop_utm_coord = mkTraCI 0 0, sop_wgs84 = mkWGS84 0 0 0,
      sop_wgs84_proj_cart = proj_coord 0 0 0, sop_netOffset = mkCoord 0 0 0, sumo_to_wgs84_projection = None,
      wgs84_to_wgs84cartesian_projection = None, relativeToSOP_projection = None, coordinateTransformation = None\<rparr>"

lemma stod_zero: "stod ''0'' = Inr 0"
  using stod_text [of "''0''" "[]" "[]" 0 False]
  by (simp add: is_digit_def fraction_text_def strip_zeros_def decimal_value_def digits_value_def digit_value_def)

lemma topocentric_not_pipeline: "topocentric_text c \<noteq> ''+proj=pipeline +step proj=cart +ellps=WGS84''"
  by (simp add: topocentric_text_def)

lemma equator_sop:
  "\<exists>s'. sop_initialize equator_proj ref_kernel equator_env 3 (blank_sop, ref_init) = Inr (s', ref_init) \<and>
     sop_wgs84_proj_cart s' = proj_coord 6378137 0 0 \<and> sop_omnet_coord s' = mkCoord 0 0 0 \<and>
     relativeToSOP_projection s' = Some (proj_coord (read_back 6378137) (read_back 0) (read_back 0))"
proof -
  have numbers: "convBoundary2TraCICoords ''0,0,0,0'' = Inr (mkTraCI 0 0, mkTraCI 0 0)"
    "netOffsetString2Coord ''0,0'' = Inr (mkCoord 0 0 0)"
    by (simp_all add: convBoundary2TraCICoords_def netOffsetString2Coord_def Let_def coord_at_def stod_zero)
  note defs = sop_initialize_def sop_initialize_projections_def sop_initialize_position_def getProjectionString_def
    getConvBoundaryString_def getNetOffsetString_def location_attribute_def equator_env_def numbers
  have trans: "proj_trans equator_proj (Some o') c = proj_coord (pj_x c - pj_x o') (pj_y c - pj_y o') (pj_z c - pj_z o')"
    "proj_create_crs_to_crs equator_proj a b = Some (proj_coord 0 0 0)"
    "proj_normalize_for_visualization equator_proj pj = Some pj"
    "proj_create equator_proj ''+proj=pipeline +step proj=cart +ellps=WGS84'' = Some (proj_coord (-6378137) 0 0)"
    "proj_create equator_proj (topocentric_text c) = Some (proj_coord (read_back 6378137) (read_back 0) (read_back 0))"
    for o' c a b pj
    using topocentric_not_pipeline by (simp_all add: equator_proj_def)
  show ?thesis
    by (simp add: defs trans Let_def blank_sop_def mkTransformation_def omnet2traci_def mkWGS84_def proj_coord_def
        mkCoord_def)
qed

theorem sop_coordinates_agree_witness:
  "\<exists>s'. sop_initialize equator_proj ref_kernel equator_env 3 (blank_sop, ref_init) = Inr (s', ref_init) \<and>
     omnet2WGS84Cartesian equator_proj s' (mkCoord 0 0 0) = Inr (proj_coord 6378137 0 0)"
  using equator_sop sop_coordinates_agree by metis

theorem sop_relative_offset_witness:
  "\<exists>s' rel. sop_initialize equator_proj ref_kernel equator_env 3 (blank_sop, ref_init) = Inr (s', ref_init) \<and>
     omnetRelativeSOPCoord equator_proj s' (mkCoord 0 0 0) = Inr rel \<and>
     Coord_distance rel (mkCoord 0 0 0) \<le> 5 / 10 ^ 6 * 6378137"
proof -
  obtain s' where i: "sop_initialize equator_proj ref_kernel equator_env 3 (blank_sop, ref_init) = Inr (s', ref_init)"
    and s': "sop_wgs84_proj_cart s' = proj_coord 6378137 0 0" "sop_omnet_coord s' = mkCoord 0 0 0"
      "relativeToSOP_projection s' = Some (proj_coord (read_back 6378137) (read_back 0) (read_back 0))"
    using equator_sop by blast
  have topo: "topocentric_at equator_proj (relativeToSOP_projection s')
      (proj_coord (read_back (pj_x (proj_coord 6378137 0 0))) (read_back (pj_y (proj_coord 6378137 0 0)))
        (read_back (pj_z (proj_coord 6378137 0 0))))"
    by (simp add: topocentric_at_def s' equator_proj_def proj_coord_def)
  have "geocentric_radius (proj_coord 6378137 0 0) = 6378137"
    by (simp add: geocentric_radius_def proj_coord_def)
  then show ?thesis
    using sop_relative_offset [OF i s'(1) [symmetric] _ _ _ topo] i s'(2) by (auto simp: proj_coord_def)
qed

end
