(* ===== verification/SV_Astro.thy ===== *)
theory SV_Astro
  imports SV_Prelude
begin

text \<open>
  The constants and the vector and orbit functions of \<open>SGP4.cc\<close>: \<open>getgravconst\<close>,
  \<open>gstime_SGP4\<close>, the functions on \<open>double[3]\<close>, \<open>newtonnu_SGP4\<close> (mean and eccentric anomaly from
  the true anomaly) and \<open>rv2coe_SGP4\<close> (orbital elements from position and velocity).

  Doubles are reals and the macro \<open>pi\<close> is \<^term>\<open>pi\<close>, so a result here is what the code computes
  up to rounding. Where the C functions would return not-a-number (a root of a negative
  number, an arc cosine outside \<open>[-1, 1]\<close>, a division by zero) the model has some real number, so the
  properties are about arguments inside the domains.
\<close>

section \<open>The C mathematics library\<close>

definition c_fmod :: "double \<Rightarrow> double \<Rightarrow> double" where
  "c_fmod x y = x - of_int (c_trunc (x / y)) * y"

definition c_atan2 :: "double \<Rightarrow> double \<Rightarrow> double" where
  "c_atan2 y x =
     (if 0 < x then arctan (y / x)
      else if x < 0 then (if 0 \<le> y then arctan (y / x) + pi else arctan (y / x) - pi)
      else if 0 < y then pi / 2 else if y < 0 then - (pi / 2) else 0)"

lemma c_fmod_multiple: "\<exists>k::int. c_fmod x y = x - of_int k * y"
  by (auto simp: c_fmod_def)

lemma c_fmod_nonneg: "0 < y \<Longrightarrow> 0 \<le> x \<Longrightarrow> 0 \<le> c_fmod x y \<and> c_fmod x y < y"
proof -
  assume y: "0 < y" and x: "0 \<le> x"
  have c: "c_trunc (x / y) = \<lfloor>x / y\<rfloor>" using x y by (simp add: c_trunc_nonneg)
  have "of_int \<lfloor>x / y\<rfloor> * y \<le> x" using y floor_divide_lower [OF y] by simp
  moreover have "x < (of_int \<lfloor>x / y\<rfloor> + 1) * y" using y floor_divide_upper [OF y] by simp
  ultimately show ?thesis by (simp add: c_fmod_def c algebra_simps)
qed

lemma c_fmod_neg: "0 < y \<Longrightarrow> x < 0 \<Longrightarrow> - y < c_fmod x y \<and> c_fmod x y \<le> 0"
  using c_fmod_nonneg [of y "- x"] by (simp add: c_fmod_def c_trunc_minus)

text \<open>The idiom \<open>x = fmod(x, y); if (x < 0.0) x += y\<close>.\<close>

definition wrap_positive :: "double \<Rightarrow> double \<Rightarrow> double" where
  "wrap_positive x y = (let t = c_fmod x y in if t < 0 then t + y else t)"

lemma wrap_positive_range: "0 < y \<Longrightarrow> 0 \<le> wrap_positive x y \<and> wrap_positive x y < y"
  using c_fmod_nonneg [of y x] c_fmod_neg [of y x]
  by (cases "0 \<le> x") (auto simp: wrap_positive_def Let_def)

lemma wrap_positive_multiple: "\<exists>k::int. wrap_positive x y = x - of_int k * y"
proof -
  obtain k :: int where "c_fmod x y = x - of_int k * y" using c_fmod_multiple by blast
  then have "wrap_positive x y = x - of_int k * y \<or> wrap_positive x y = x - of_int (k - 1) * y"
    by (simp add: wrap_positive_def Let_def algebra_simps)
  then show ?thesis by blast
qed

text \<open>\<open>atan2\<close> recovers an angle of a point of the unit circle.\<close>

lemma c_atan2_unit:
  assumes "s\<^sup>2 + c\<^sup>2 = 1"
  shows "cos (c_atan2 s c) = c \<and> sin (c_atan2 s c) = s"
proof -
  have r: "1 + (s / c)\<^sup>2 = 1 / c\<^sup>2" if "c \<noteq> 0"
    using that assms by (simp add: field_simps power2_eq_square)
  have ca: "cos (arctan (s / c)) = \<bar>c\<bar>" "sin (arctan (s / c)) = s / c * \<bar>c\<bar>" if "c \<noteq> 0"
    using that r [OF that] by (simp_all add: cos_arctan sin_arctan real_sqrt_divide)
  consider "0 < c" | "c < 0" | "c = 0" by linarith
  then show ?thesis
  proof cases
    case 1
    then show ?thesis using ca by (simp add: c_atan2_def)
  next
    case 2
    then show ?thesis using ca by (simp add: c_atan2_def cos_diff sin_diff)
  next
    case 3
    then have "s = 1 \<or> s = -1" using assms by (simp add: power2_eq_1_iff)
    with 3 show ?thesis by (auto simp: c_atan2_def)
  qed
qed

section \<open>Constants\<close>

datatype gravconsttype = wgs72old | wgs72 | wgs84

record gravconst =
  tumin :: double
  mus :: double
  radiusearthkm :: double
  xke :: double
  j2 :: double
  j3 :: double
  j4 :: double
  j3oj2 :: double

fun getgravconst :: "gravconsttype \<Rightarrow> gravconst" where
  "getgravconst wgs72old =
     (let mus = 398600.79964; radiusearthkm = 6378.135; xke = 0.0743669161; tumin = 1.0 / xke;
          j2 = 0.001082616; j3 = -0.00000253881; j4 = -0.00000165597; j3oj2 = j3 / j2
      in \<lparr>tumin = tumin, mus = mus, radiusearthkm = radiusearthkm, xke = xke, j2 = j2, j3 = j3, j4 = j4, j3oj2 = j3oj2\<rparr>)"
| "getgravconst wgs72 =
     (let mus = 398600.8; radiusearthkm = 6378.135;
          xke = 60.0 / sqrt (radiusearthkm * radiusearthkm * radiusearthkm / mus); tumin = 1.0 / xke;
          j2 = 0.001082616; j3 = -0.00000253881; j4 = -0.00000165597; j3oj2 = j3 / j2
      in \<lparr>tumin = tumin, mus = mus, radiusearthkm = radiusearthkm, xke = xke, j2 = j2, j3 = j3, j4 = j4, j3oj2 = j3oj2\<rparr>)"
| "getgravconst wgs84 =
     (let mus = 398600.5; radiusearthkm = 6378.137;
          xke = 60.0 / sqrt (radiusearthkm * radiusearthkm * radiusearthkm / mus); tumin = 1.0 / xke;
          j2 = 0.00108262998905; j3 = -0.00000253215306; j4 = -0.00000161098761; j3oj2 = j3 / j2
      in \<lparr>tumin = tumin, mus = mus, radiusearthkm = radiusearthkm, xke = xke, j2 = j2, j3 = j3, j4 = j4, j3oj2 = j3oj2\<rparr>)"

lemma getgravconst_pos: "0 < xke (getgravconst w) \<and> 0 < radiusearthkm (getgravconst w) \<and> 0 < j2 (getgravconst w)"
  by (cases w) (simp_all add: Let_def)

section \<open>Sidereal time\<close>

definition gstime_seconds :: "double \<Rightarrow> double" where
  "gstime_seconds jdut1 =
     (let tut1 = (jdut1 - 2451545.0) / 36525.0 in
      -0.0000062 * tut1 * tut1 * tut1 + 0.093104 * tut1 * tut1 +
        (876600.0 * 3600 + 8640184.812866) * tut1 + 67310.54841)"

definition gstime_SGP4 :: "double \<Rightarrow> double" where
  "gstime_SGP4 jdut1 =
     (let twopi = 2.0 * pi; deg2rad = pi / 180.0;
          temp = c_fmod (gstime_seconds jdut1 * deg2rad / 240.0) twopi
      in if temp < 0.0 then temp + twopi else temp)"

section \<open>Vectors\<close>

type_synonym vec3 = "double \<times> double \<times> double"

definition sgn_SGP4 :: "double \<Rightarrow> double" where
  "sgn_SGP4 x = (if x < 0.0 then -1.0 else 1.0)"

fun mag_SGP4 :: "vec3 \<Rightarrow> double" where
  "mag_SGP4 (x0, x1, x2) = sqrt (x0 * x0 + x1 * x1 + x2 * x2)"

fun cross_SGP4 :: "vec3 \<Rightarrow> vec3 \<Rightarrow> vec3" where
  "cross_SGP4 (a0, a1, a2) (b0, b1, b2) = (a1 * b2 - a2 * b1, a2 * b0 - a0 * b2, a0 * b1 - a1 * b0)"

fun dot_SGP4 :: "vec3 \<Rightarrow> vec3 \<Rightarrow> double" where
  "dot_SGP4 (x0, x1, x2) (y0, y1, y2) = x0 * y0 + x1 * y1 + x2 * y2"

definition angle_SGP4 :: "vec3 \<Rightarrow> vec3 \<Rightarrow> double" where
  "angle_SGP4 vec1 vec2 =
     (let small = 0.00000001; undefined' = 999999.1;
          magv1 = mag_SGP4 vec1; magv2 = mag_SGP4 vec2
      in if magv1 * magv2 > small * small then
           let temp = dot_SGP4 vec1 vec2 / (magv1 * magv2);
               temp = (if \<bar>temp\<bar> > 1.0 then sgn_SGP4 temp * 1.0 else temp)
           in arccos temp
         else undefined')"

definition asinh_SGP4 :: "double \<Rightarrow> double" where
  "asinh_SGP4 xval = ln (xval + sqrt (xval * xval + 1.0))"

section \<open>Anomalies\<close>

text \<open>Eccentric and mean anomaly from eccentricity and true anomaly.\<close>

definition newtonnu_SGP4 :: "double \<Rightarrow> double \<Rightarrow> double \<times> double" where
  "newtonnu_SGP4 ecc nu =
     (let small = 0.00000001;
          (e0, m) =
            (if \<bar>ecc\<bar> < small then (nu, nu)
             else if ecc < 1.0 - small then
               let sine = (sqrt (1.0 - ecc * ecc) * sin nu) / (1.0 + ecc * cos nu);
                   cose = (ecc + cos nu) / (1.0 + ecc * cos nu);
                   e0 = c_atan2 sine cose
               in (e0, e0 - ecc * sin e0)
             else if ecc > 1.0 + small then
               if ecc > 1.0 \<and> \<bar>nu\<bar> + 0.00001 < pi - arccos (1.0 / ecc) then
                 let sine = (sqrt (ecc * ecc - 1.0) * sin nu) / (1.0 + ecc * cos nu);
                     e0 = asinh_SGP4 sine
                 in (e0, ecc * sinh e0 - e0)
               else (999999.9, 999999.9)
             else if \<bar>nu\<bar> < 168.0 * pi / 180.0 then
               let e0 = tan (nu * 0.5) in (e0, e0 + (e0 * e0 * e0) / 3.0)
             else (999999.9, 999999.9))
      in if ecc < 1.0 then
           let m = c_fmod m (2.0 * pi);
               m = (if m < 0.0 then m + 2.0 * pi else m)
           in (c_fmod e0 (2.0 * pi), m)
         else (e0, m))"

section \<open>Orbital elements from position and velocity\<close>

record coe =
  coe_p :: double
  coe_a :: double
  coe_ecc :: double
  coe_incl :: double
  coe_omega :: double
  coe_argp :: double
  coe_nu :: double
  coe_m :: double
  coe_arglat :: double
  coe_truelon :: double
  coe_lonper :: double

text \<open>Orbits: 1 elliptical inclined, 2 circular equatorial, 3 circular inclined, 4 elliptical equatorial.\<close>

definition rv2coe_typeorbit :: "double \<Rightarrow> double \<Rightarrow> nat" where
  "rv2coe_typeorbit ecc incl =
     (let small = 0.00000001 in
      if ecc < small then (if incl < small \<or> \<bar>incl - pi\<bar> < small then 2 else 3)
      else if incl < small \<or> \<bar>incl - pi\<bar> < small then 4 else 1)"

definition rv2coe_omega :: "vec3 \<Rightarrow> double" where
  "rv2coe_omega nbar =
     (let small = 0.00000001; undefined' = 999999.1; twopi = 2.0 * pi;
          magn = mag_SGP4 nbar; (nbar0, nbar1, nbar2) = nbar
      in if magn > small then
           let temp = nbar0 / magn;
               temp = (if \<bar>temp\<bar> > 1.0 then sgn_SGP4 temp else temp);
               omega = arccos temp
           in if nbar1 < 0.0 then twopi - omega else omega
         else undefined')"

definition rv2coe_argp :: "nat \<Rightarrow> vec3 \<Rightarrow> vec3 \<Rightarrow> double" where
  "rv2coe_argp typeorbit nbar ebar =
     (let undefined' = 999999.1; twopi = 2.0 * pi in
      if typeorbit = 1 then
        let argp = angle_SGP4 nbar ebar
        in if snd (snd ebar) < 0.0 then twopi - argp else argp
      else undefined')"

definition rv2coe_nu :: "nat \<Rightarrow> vec3 \<Rightarrow> vec3 \<Rightarrow> double \<Rightarrow> double" where
  "rv2coe_nu typeorbit ebar r rdotv =
     (let undefined' = 999999.1; twopi = 2.0 * pi in
      if typeorbit = 1 \<or> typeorbit = 4 then
        let nu = angle_SGP4 ebar r
        in if rdotv < 0.0 then twopi - nu else nu
      else undefined')"

definition rv2coe_arglat :: "nat \<Rightarrow> vec3 \<Rightarrow> vec3 \<Rightarrow> double" where
  "rv2coe_arglat typeorbit nbar r =
     (let undefined' = 999999.1; twopi = 2.0 * pi in
      if typeorbit = 3 then
        let arglat = angle_SGP4 nbar r
        in if snd (snd r) < 0.0 then twopi - arglat else arglat
      else undefined')"

definition rv2coe_lonper :: "nat \<Rightarrow> vec3 \<Rightarrow> double \<Rightarrow> double \<Rightarrow> double" where
  "rv2coe_lonper typeorbit ebar ecc incl =
     (let small = 0.00000001; undefined' = 999999.1; twopi = 2.0 * pi; halfpi = 0.5 * pi in
      if ecc > small \<and> typeorbit = 4 then
        let temp = fst ebar / ecc;
            temp = (if \<bar>temp\<bar> > 1.0 then sgn_SGP4 temp else temp);
            lonper = arccos temp;
            lonper = (if fst (snd ebar) < 0.0 then twopi - lonper else lonper)
        in if incl > halfpi then twopi - lonper else lonper
      else undefined')"

definition rv2coe_truelon :: "nat \<Rightarrow> vec3 \<Rightarrow> double \<Rightarrow> double \<Rightarrow> double" where
  "rv2coe_truelon typeorbit r magr incl =
     (let small = 0.00000001; undefined' = 999999.1; twopi = 2.0 * pi; halfpi = 0.5 * pi in
      if magr > small \<and> typeorbit = 2 then
        let temp = fst r / magr;
            temp = (if \<bar>temp\<bar> > 1.0 then sgn_SGP4 temp else temp);
            truelon = arccos temp;
            truelon = (if fst (snd r) < 0.0 then twopi - truelon else truelon)
        in if incl > halfpi then twopi - truelon else truelon
      else undefined')"

text \<open>\<open>m0\<close> is the value of the reference argument \<open>m\<close> before the call.\<close>

definition rv2coe_ebar :: "vec3 \<Rightarrow> vec3 \<Rightarrow> double \<Rightarrow> vec3" where
  "rv2coe_ebar r v mu =
     (let magr = mag_SGP4 r; magv = mag_SGP4 v;
          c1 = magv * magv - mu / magr; rdotv = dot_SGP4 r v;
          (r0, r1, r2) = r; (v0, v1, v2) = v
      in ((c1 * r0 - rdotv * v0) / mu, (c1 * r1 - rdotv * v1) / mu, (c1 * r2 - rdotv * v2) / mu))"

definition rv2coe_SGP4 :: "vec3 \<Rightarrow> vec3 \<Rightarrow> double \<Rightarrow> double \<Rightarrow> coe" where
  "rv2coe_SGP4 r v mu m0 =
     (let undefined' = 999999.1; infinite = 999999.9; small = 0.00000001;
          magr = mag_SGP4 r; magv = mag_SGP4 v;
          hbar = cross_SGP4 r v; magh = mag_SGP4 hbar
      in if magh > small then
        (let nbar = (- fst (snd hbar), fst hbar, 0.0);
             rdotv = dot_SGP4 r v;
             ebar = rv2coe_ebar r v mu;
             ecc = mag_SGP4 ebar;
             sme = (magv * magv * 0.5) - (mu / magr);
             a = (if \<bar>sme\<bar> > small then - mu / (2.0 * sme) else infinite);
             p = magh * magh / mu;
             hk = snd (snd hbar) / magh;
             incl = arccos hk;
             typeorbit = rv2coe_typeorbit ecc incl;
             omega = rv2coe_omega nbar;
             argp = rv2coe_argp typeorbit nbar ebar;
             nu = rv2coe_nu typeorbit ebar r rdotv;
             arglat = rv2coe_arglat typeorbit nbar r;
             m = (if typeorbit = 3 then arglat else m0);
             lonper = rv2coe_lonper typeorbit ebar ecc incl;
             truelon = rv2coe_truelon typeorbit r magr incl;
             m = (if magr > small \<and> typeorbit = 2 then truelon else m);
             m = (if typeorbit = 1 \<or> typeorbit = 4 then snd (newtonnu_SGP4 ecc nu) else m)
         in \<lparr>coe_p = p, coe_a = a, coe_ecc = ecc, coe_incl = incl, coe_omega = omega, coe_argp = argp,
             coe_nu = nu, coe_m = m, coe_arglat = arglat, coe_truelon = truelon, coe_lonper = lonper\<rparr>)
      else
        \<lparr>coe_p = undefined', coe_a = undefined', coe_ecc = undefined', coe_incl = undefined',
         coe_omega = undefined', coe_argp = undefined', coe_nu = undefined', coe_m = undefined',
         coe_arglat = undefined', coe_truelon = undefined', coe_lonper = undefined'\<rparr>)"

section \<open>Facts on vectors\<close>

lemma mag_square: "mag_SGP4 x * mag_SGP4 x = dot_SGP4 x x"
  by (cases x) simp

lemma mag_nonneg: "0 \<le> mag_SGP4 x"
  by (cases x) simp

lemma cross_orthogonal: "dot_SGP4 (cross_SGP4 a b) a = 0" "dot_SGP4 (cross_SGP4 a b) b = 0"
  by (cases a; cases b; simp add: algebra_simps)+

text \<open>Lagrange's identity.\<close>

lemma cross_dot: "dot_SGP4 (cross_SGP4 a b) (cross_SGP4 a b) = dot_SGP4 a a * dot_SGP4 b b - (dot_SGP4 a b)\<^sup>2"
  by (cases a; cases b; simp add: algebra_simps power2_eq_square)

lemma dot_nonneg: "0 \<le> dot_SGP4 a a"
  by (cases a) simp

lemma dot_le_mag: "\<bar>dot_SGP4 a b\<bar> \<le> mag_SGP4 a * mag_SGP4 b"
proof -
  have "(dot_SGP4 a b)\<^sup>2 \<le> dot_SGP4 a a * dot_SGP4 b b"
    using cross_dot [of a b] dot_nonneg [of "cross_SGP4 a b"] by simp
  also have "\<dots> = (mag_SGP4 a * mag_SGP4 b)\<^sup>2"
    by (simp add: mag_square [symmetric] power2_eq_square)
  finally show ?thesis
    using mag_nonneg by (metis abs_le_square_iff abs_of_nonneg mult_nonneg_nonneg)
qed

lemma dot_cos_range: "0 < mag_SGP4 a * mag_SGP4 b \<Longrightarrow> \<bar>dot_SGP4 a b / (mag_SGP4 a * mag_SGP4 b)\<bar> \<le> 1"
  using dot_le_mag [of a b] by (simp add: abs_divide mag_nonneg divide_le_eq abs_mult)

lemma clamp_range: "\<bar>if \<bar>t\<bar> > 1.0 then sgn_SGP4 t * 1.0 else t\<bar> \<le> 1"
  by (auto simp: sgn_SGP4_def)

lemma clamp_range': "\<bar>if \<bar>t\<bar> > 1.0 then sgn_SGP4 t else t\<bar> \<le> 1"
  by (auto simp: sgn_SGP4_def)

lemma arccos_range: "\<bar>t\<bar> \<le> 1 \<Longrightarrow> 0 \<le> arccos t \<and> arccos t \<le> pi"
  by (intro conjI arccos_lbound arccos_ubound) linarith+

section \<open>Properties\<close>

text \<open>The sidereal time is an angle in \<open>[0, 2 pi)\<close> which differs from the polynomial in the Julian
  date, converted from seconds to radians, by whole turns only.\<close>

theorem gstime_whole_turns:
  "0 \<le> gstime_SGP4 jd \<and> gstime_SGP4 jd < 2 * pi \<and>
   (\<exists>k::int. gstime_SGP4 jd = gstime_seconds jd * (2 * pi) / 86400 - of_int k * (2 * pi))"
proof -
  have g: "gstime_SGP4 jd = wrap_positive (gstime_seconds jd * (2 * pi) / 86400) (2 * pi)"
    by (simp add: gstime_SGP4_def wrap_positive_def Let_def mult.commute)
  show ?thesis
    unfolding g using wrap_positive_range [of "2 * pi"] wrap_positive_multiple by simp
qed

lemma angle_big:
  assumes big: "1 / 10 ^ 16 < mag_SGP4 a * mag_SGP4 b"
  shows "0 \<le> angle_SGP4 a b \<and> angle_SGP4 a b \<le> pi \<and>
      mag_SGP4 a * mag_SGP4 b * cos (angle_SGP4 a b) = dot_SGP4 a b"
proof -
  have pos: "0 < mag_SGP4 a * mag_SGP4 b"
    by (rule less_trans [OF _ big]) simp
  let ?t = "dot_SGP4 a b / (mag_SGP4 a * mag_SGP4 b)"
  have t: "\<bar>?t\<bar> \<le> 1" using pos by (rule dot_cos_range)
  then have ang: "angle_SGP4 a b = arccos ?t"
    using big by (simp add: angle_SGP4_def Let_def)
  have "cos (arccos ?t) = ?t" using t by (intro cos_arccos_abs) simp
  then have "mag_SGP4 a * mag_SGP4 b * cos (angle_SGP4 a b) = mag_SGP4 a * mag_SGP4 b * ?t"
    by (simp only: ang)
  also have "\<dots> = dot_SGP4 a b" using pos by auto
  finally show ?thesis using arccos_range [OF t] by (simp only: ang)
qed

lemma angle_small: "\<not> 1 / 10 ^ 16 < mag_SGP4 a * mag_SGP4 b \<Longrightarrow> angle_SGP4 a b = 999999.1"
  by (simp add: angle_SGP4_def Let_def)

lemma angle_range: "0 \<le> angle_SGP4 a b \<and> angle_SGP4 a b \<le> pi \<or> angle_SGP4 a b = 999999.1"
  using angle_big angle_small by blast

lemma angle_symmetric: "angle_SGP4 a b = angle_SGP4 b a"
proof -
  define d m where "d = dot_SGP4 a b" and "m = mag_SGP4 a * mag_SGP4 b"
  have "d = dot_SGP4 b a" unfolding d_def by (cases a; cases b) simp
  moreover have "m = mag_SGP4 b * mag_SGP4 a" unfolding m_def by (rule mult.commute)
  ultimately show ?thesis by (simp only: angle_SGP4_def Let_def d_def [symmetric] m_def [symmetric])
qed

text \<open>The angle of two vectors that are not too short lies in \<open>[0, pi]\<close>, is symmetric and its cosine
  times the magnitudes is the dot product; otherwise the result is 999999.1.\<close>

theorem angle_of_vectors:
  "angle_SGP4 a b = angle_SGP4 b a \<and>
   (if 1 / 10 ^ 16 < mag_SGP4 a * mag_SGP4 b
    then 0 \<le> angle_SGP4 a b \<and> angle_SGP4 a b \<le> pi \<and>
      mag_SGP4 a * mag_SGP4 b * cos (angle_SGP4 a b) = dot_SGP4 a b
    else angle_SGP4 a b = 999999.1)"
proof (rule conjI [OF angle_symmetric], cases "1 / 10 ^ 16 < mag_SGP4 a * mag_SGP4 b", goal_cases)
  case 1
  then show ?case using angle_big [OF 1] by (simp only: if_True)
next
  case 2
  then show ?case using angle_small [OF 2] by (simp only: if_False)
qed

lemma kepler_unit:
  assumes "0 \<le> ecc" "ecc < 1"
  shows "0 < 1 + ecc * cos nu"
    and "((sqrt (1 - ecc * ecc) * sin nu) / (1 + ecc * cos nu))\<^sup>2 + ((ecc + cos nu) / (1 + ecc * cos nu))\<^sup>2 = 1"
proof -
  have "- ecc \<le> ecc * cos nu" using assms(1) mult_left_mono [of "-1" "cos nu" ecc] by simp
  with assms(2) show pos: "0 < 1 + ecc * cos nu" by linarith
  have e1: "ecc * ecc \<le> 1" using assms by (simp add: mult_le_one)
  have s: "(sin nu)\<^sup>2 = 1 - (cos nu)\<^sup>2" by (simp add: sin_squared_eq)
  have "(sqrt (1 - ecc * ecc) * sin nu)\<^sup>2 + (ecc + cos nu)\<^sup>2 = (1 + ecc * cos nu)\<^sup>2"
    using e1 by (simp add: power_mult_distrib s) (simp add: algebra_simps power2_eq_square)
  then show "((sqrt (1 - ecc * ecc) * sin nu) / (1 + ecc * cos nu))\<^sup>2 + ((ecc + cos nu) / (1 + ecc * cos nu))\<^sup>2 = 1"
    using pos by (simp add: power_divide add_divide_distrib [symmetric])
qed

lemma cos_sin_c_fmod: "cos (c_fmod x (2 * pi)) = cos x" "sin (c_fmod x (2 * pi)) = sin x"
proof -
  obtain k :: int where "c_fmod x (2 * pi) = x - of_int k * (2 * pi)" using c_fmod_multiple by blast
  then have x: "x = c_fmod x (2 * pi) + 2 * pi * of_int k" by simp
  have turn: "cos (2 * pi * of_int k) = 1" "sin (2 * pi * of_int k) = 0"
    by (simp_all only: cos_int_2pin sin_int_2pin)
  show "cos (c_fmod x (2 * pi)) = cos x" by (subst (2) x) (simp only: cos_add turn)
  show "sin (c_fmod x (2 * pi)) = sin x" by (subst (2) x) (simp only: sin_add turn)
qed

lemma newtonnu_elliptic:
  assumes "1 / 10 ^ 8 \<le> ecc" and "ecc < 1 - 1 / 10 ^ 8"
  shows "\<exists>e. newtonnu_SGP4 ecc nu = (c_fmod e (2 * pi), wrap_positive (e - ecc * sin e) (2 * pi)) \<and>
    cos e = (ecc + cos nu) / (1 + ecc * cos nu) \<and>
    sin e = (sqrt (1 - ecc * ecc) * sin nu) / (1 + ecc * cos nu)"
proof -
  have e: "0 \<le> ecc" "ecc < 1" using assms by simp_all
  let ?sine = "(sqrt (1 - ecc * ecc) * sin nu) / (1 + ecc * cos nu)"
  let ?cose = "(ecc + cos nu) / (1 + ecc * cos nu)"
  have "\<not> \<bar>ecc\<bar> < 0.00000001" "ecc < 1 - 0.00000001" using assms by simp_all
  then have "newtonnu_SGP4 ecc nu =
      (c_fmod (c_atan2 ?sine ?cose) (2 * pi),
       wrap_positive (c_atan2 ?sine ?cose - ecc * sin (c_atan2 ?sine ?cose)) (2 * pi))"
    using e by (simp add: newtonnu_SGP4_def Let_def wrap_positive_def)
  moreover have "cos (c_atan2 ?sine ?cose) = ?cose \<and> sin (c_atan2 ?sine ?cose) = ?sine"
    using kepler_unit(2) [OF e] by (rule c_atan2_unit)
  ultimately show ?thesis by blast
qed

text \<open>On an elliptical orbit the eccentric anomaly belongs to the true anomaly, and the mean anomaly
  lies in \<open>[0, 2 pi)\<close> and satisfies Kepler's equation up to whole turns.\<close>

theorem newtonnu_kepler:
  assumes "1 / 10 ^ 8 \<le> ecc" and "ecc < 1 - 1 / 10 ^ 8" and "newtonnu_SGP4 ecc nu = (E, M)"
  shows "(1 - ecc * cos E) * cos nu = cos E - ecc \<and>
    (1 - ecc * cos E) * sin nu = sqrt (1 - ecc * ecc) * sin E \<and>
    0 \<le> M \<and> M < 2 * pi \<and> (\<exists>k::int. M = E - ecc * sin E - of_int k * (2 * pi))"
proof -
  have e: "0 \<le> ecc" "ecc < 1" using assms(1,2) by simp_all
  from newtonnu_elliptic [OF assms(1,2), of nu] assms(3) obtain e where
    E: "E = c_fmod e (2 * pi)" and M: "M = wrap_positive (e - ecc * sin e) (2 * pi)" and
    ce: "cos e = (ecc + cos nu) / (1 + ecc * cos nu)" and
    se: "sin e = (sqrt (1 - ecc * ecc) * sin nu) / (1 + ecc * cos nu)" by auto
  have cE: "cos E = cos e" "sin E = sin e" by (simp_all add: E cos_sin_c_fmod)
  note pos = kepler_unit(1) [OF e, of nu]
  have e1: "ecc * ecc \<le> 1" using e by (simp add: mult_le_one)
  have r: "sqrt (1 - ecc * ecc) * sqrt (1 - ecc * ecc) = 1 - ecc * ecc" using e1 by simp
  have k1: "(1 - ecc * cos E) = (1 - ecc * ecc) / (1 + ecc * cos nu)"
    using pos by (simp add: cE ce field_simps)
  have k2: "(1 - ecc * cos E) * cos nu = cos E - ecc"
    using pos by (simp only: k1) (simp add: cE ce field_simps)
  have k3: "(1 - ecc * cos E) * sin nu = sqrt (1 - ecc * ecc) * sin E"
    by (simp only: k1) (simp only: cE se times_divide_eq_left times_divide_eq_right mult.assoc [symmetric] r)
  obtain k l :: int where "M = e - ecc * sin e - of_int k * (2 * pi)" "E = e - of_int l * (2 * pi)"
    using wrap_positive_multiple [of "e - ecc * sin e" "2 * pi"] c_fmod_multiple [of e "2 * pi"] M E by auto
  then have "M = E - ecc * sin E - of_int (k - l) * (2 * pi)"
    by (simp add: cE algebra_simps)
  moreover have "0 \<le> M \<and> M < 2 * pi" unfolding M by (rule wrap_positive_range) simp
  ultimately show ?thesis using k2 k3 by blast
qed

theorem newtonnu_kepler_witness:
  "\<exists>E M. newtonnu_SGP4 (1 / 2) 1 = (E, M) \<and> (1 - 1 / 2 * cos E) * cos 1 = cos E - 1 / 2 \<and> 0 \<le> M \<and> M < 2 * pi"
proof -
  obtain E M where EM: "newtonnu_SGP4 (1 / 2) 1 = (E, M)" by (cases "newtonnu_SGP4 (1 / 2) 1")
  show ?thesis using newtonnu_kepler [OF _ _ EM] EM by auto
qed

text \<open>The eccentricity vector: its square is \<open>1 + 2 E h^2 / mu^2\<close> with the orbital energy \<open>E\<close>.\<close>

lemma ebar_square:
  fixes r v :: vec3
  assumes "0 < mu" and "0 < mag_SGP4 r"
  defines "h2 \<equiv> dot_SGP4 (cross_SGP4 r v) (cross_SGP4 r v)"
  shows "dot_SGP4 (rv2coe_ebar r v mu) (rv2coe_ebar r v mu) =
    1 + (dot_SGP4 v v - 2 * mu / mag_SGP4 r) * h2 / (mu * mu)"
proof -
  let ?R = "mag_SGP4 r"
  let ?s = "dot_SGP4 r v"
  let ?V = "dot_SGP4 v v"
  let ?c = "?V - mu / ?R"
  have R: "dot_SGP4 r r = ?R * ?R" by (simp only: mag_square)
  have "dot_SGP4 (rv2coe_ebar r v mu) (rv2coe_ebar r v mu) =
      (?c * ?c * dot_SGP4 r r - 2 * ?c * ?s * ?s + ?s * ?s * ?V) / (mu * mu)"
  proof (cases r, cases v, goal_cases)
    case (1 r0 r1 r2 v0 v1 v2)
    define c where "c = ?c"
    define t where "t = ?s"
    have lhs: "rv2coe_ebar r v mu = ((c * r0 - t * v0) / mu, (c * r1 - t * v1) / mu, (c * r2 - t * v2) / mu)"
      by (simp add: rv2coe_ebar_def Let_def c_def t_def 1 mag_square [symmetric])
    have t: "t = r0 * v0 + r1 * v1 + r2 * v2" by (simp add: t_def 1)
    have "dot_SGP4 (rv2coe_ebar r v mu) (rv2coe_ebar r v mu) =
        (c * c * (r0 * r0 + r1 * r1 + r2 * r2) - 2 * c * t * (r0 * v0 + r1 * v1 + r2 * v2) +
          t * t * (v0 * v0 + v1 * v1 + v2 * v2)) / (mu * mu)"
      by (simp add: lhs add_divide_distrib [symmetric]) (simp add: algebra_simps)
    then show ?case
      by (simp only: c_def [symmetric] t_def [symmetric] t [symmetric]) (simp add: 1)
  qed
  also have "?c * ?c * dot_SGP4 r r - 2 * ?c * ?s * ?s + ?s * ?s * ?V =
      mu * mu + (?V - 2 * mu / ?R) * (?R * ?R * ?V - ?s * ?s)"
    using assms(2) by (simp add: R field_simps)
  also have "?R * ?R * ?V - ?s * ?s = h2"
    by (simp add: h2_def cross_dot R power2_eq_square)
  finally show ?thesis using assms(1) by (simp add: add_divide_distrib)
qed

text \<open>The elements of a position and a velocity that are not almost parallel: the semi-latus rectum is
  \<open>h^2 / mu\<close>, and while the energy is not almost zero it equals \<open>a (1 - e^2)\<close>; otherwise every
  element is 999999.1.\<close>

theorem rv2coe_conic:
  assumes "0 < mu" and "rv2coe_SGP4 r v mu m0 = el"
  shows "if mag_SGP4 (cross_SGP4 r v) > 1 / 10 ^ 8
    then coe_p el = (mag_SGP4 (cross_SGP4 r v))\<^sup>2 / mu \<and> 0 < coe_p el \<and> 0 \<le> coe_ecc el \<and>
      (\<bar>(mag_SGP4 v)\<^sup>2 / 2 - mu / mag_SGP4 r\<bar> > 1 / 10 ^ 8 \<longrightarrow>
        coe_p el = coe_a el * (1 - (coe_ecc el)\<^sup>2))
    else el = \<lparr>coe_p = 999999.1, coe_a = 999999.1, coe_ecc = 999999.1, coe_incl = 999999.1,
      coe_omega = 999999.1, coe_argp = 999999.1, coe_nu = 999999.1, coe_m = 999999.1,
      coe_arglat = 999999.1, coe_truelon = 999999.1, coe_lonper = 999999.1\<rparr>"
proof (cases "mag_SGP4 (cross_SGP4 r v) > 1 / 10 ^ 8")
  case False
  then have "\<not> mag_SGP4 (cross_SGP4 r v) > 0.00000001" by simp
  then show ?thesis using assms(2) False by (simp add: rv2coe_SGP4_def Let_def)
next
  case True
  let ?h = "mag_SGP4 (cross_SGP4 r v)"
  let ?sme = "mag_SGP4 v * mag_SGP4 v * 0.5 - mu / mag_SGP4 r"
  have h: "0 < ?h" by (rule less_trans [OF _ True]) simp
  have big: "?h > 0.00000001" using True by simp
  have p: "coe_p el = ?h * ?h / mu"
    and a: "coe_a el = (if \<bar>?sme\<bar> > 0.00000001 then - mu / (2.0 * ?sme) else 999999.9)"
    and e: "coe_ecc el = mag_SGP4 (rv2coe_ebar r v mu)"
    using big by (simp_all add: assms(2) [symmetric] rv2coe_SGP4_def Let_def)
  have R: "0 < mag_SGP4 r"
    using h mag_nonneg [of r] by (cases r; cases v) (fastforce simp: add_nonneg_eq_0_iff less_le)
  have "coe_p el = coe_a el * (1 - (coe_ecc el)\<^sup>2)" if sme: "\<bar>(mag_SGP4 v)\<^sup>2 / 2 - mu / mag_SGP4 r\<bar> > 1 / 10 ^ 8"
  proof -
    have s: "?sme = (mag_SGP4 v)\<^sup>2 / 2 - mu / mag_SGP4 r" by (simp add: power2_eq_square)
    have n0: "?sme \<noteq> 0" using sme unfolding s by auto
    have aa: "coe_a el = - mu / (2.0 * ?sme)" using sme unfolding s [symmetric] by (simp add: a)
    have "(coe_ecc el)\<^sup>2 = 1 + 2 * ?sme * (?h * ?h) / (mu * mu)"
      using ebar_square [OF assms(1) R, of v]
      by (simp add: e power2_eq_square mag_square [symmetric] algebra_simps)
    then have "1 - (coe_ecc el)\<^sup>2 = - (2 * ?sme * (?h * ?h) / (mu * mu))" by simp
    moreover have "x / mu = - mu / (2 * y) * - (2 * y * x / (mu * mu))" if "y \<noteq> 0" for x y
      using that assms(1) by (simp add: field_simps)
    ultimately show ?thesis using n0 by (simp only: aa p)
  qed
  moreover have "0 < coe_p el" using h assms(1) by (simp add: p)
  ultimately show ?thesis
    using True mag_nonneg by (simp add: p e power2_eq_square)
qed

theorem rv2coe_conic_witness:
  "coe_p (rv2coe_SGP4 (1, 0, 0) (0, 1, 0) 1 0) = 1"
  using rv2coe_conic [of 1 "(1, 0, 0)" "(0, 1, 0)" 0, OF _ refl] by simp

end
