(* ===== verification/SV_Antenna.thy ===== *)
theory SV_Antenna
  imports SV_Geometry SV_Astro
begin

text \<open>
  Quaternions of INET (\<open>Quaternion.cc\<close>, \<open>Quaternion.h\<close>) and \<open>SatelliteFacingAntennaMobility\<close>, which turns an
  antenna towards its satellite and keeps azimuth, elevation and distance. The inner product of INET's
  coordinates returns a \<open>float\<close>, so every quaternion product rounds one of its terms to 24 binary digits;
  that rounding is modelled, and what it does to the direction of the antenna is bounded.
\<close>

section \<open>Conversion to \<open>float\<close>\<close>

text \<open>To the nearest integer, halves to the even one.\<close>

definition round_even :: "real \<Rightarrow> int" where
  "round_even x =
     (let f = \<lfloor>x\<rfloor>; d = x - of_int f
      in if d < 1 / 2 \<or> d = 1 / 2 \<and> even f then f else f + 1)"

text \<open>
  The nearest binary32 number: 24 binary digits, exponents from -126, subnormal numbers below. Values from
  \<open>2\<^sup>1\<^sup>2\<^sup>8\<close> on, which would become infinite, are outside of the model.
\<close>

definition to_float :: "double \<Rightarrow> double" where
  "to_float x =
     (if x = 0 then 0
      else let e = max \<lfloor>log 2 \<bar>x\<bar>\<rfloor> (-126); ulp = 2 powr of_int (e - 23)
           in of_int (round_even (x / ulp)) * ulp)"

lemma round_even_error: "\<bar>of_int (round_even x) - x\<bar> \<le> 1 / 2"
proof -
  have "of_int \<lfloor>x\<rfloor> \<le> x" "x < of_int \<lfloor>x\<rfloor> + 1" by linarith+
  then show ?thesis by (auto simp: round_even_def Let_def abs_le_iff)
qed

lemma round_even_int [simp]: "round_even (of_int n) = n"
  by (simp add: round_even_def)

lemma to_float_0 [simp]: "to_float 0 = 0"
  by (simp add: to_float_def)

lemma to_float_error:
  assumes "\<bar>x\<bar> \<le> 1"
  shows "\<bar>to_float x - x\<bar> \<le> 1 / 2 ^ 24"
proof (cases "x = 0")
  case False
  define e where "e = max \<lfloor>log 2 \<bar>x\<bar>\<rfloor> (-126)"
  define u :: real where "u = 2 powr of_int (e - 23)"
  have u: "0 < u" by (simp add: u_def)
  have "log 2 \<bar>x\<bar> \<le> 0" using assms False by (simp add: log_le_zero_cancel_iff)
  then have "e \<le> 0" by (simp add: e_def floor_le_iff)
  then have "u \<le> 2 powr (- 23)" by (simp add: u_def)
  then have u24: "u / 2 \<le> 1 / 2 ^ 24" by (simp add: powr_minus powr_realpow [symmetric] divide_simps)
  have tf: "to_float x = of_int (round_even (x / u)) * u"
    using False unfolding to_float_def Let_def e_def u_def by simp
  have "to_float x - x = (of_int (round_even (x / u)) - x / u) * u"
    using False u by (simp add: tf algebra_simps)
  then have "\<bar>to_float x - x\<bar> = \<bar>of_int (round_even (x / u)) - x / u\<bar> * u"
    using u by (simp add: abs_mult)
  also have "\<dots> \<le> 1 / 2 * u" using round_even_error u by (intro mult_right_mono) simp_all
  finally show ?thesis using u24 by simp
qed simp

text \<open>One is a binary32 number.\<close>

lemma to_float_1 [simp]: "to_float 1 = 1"
proof -
  have "1 / 2 powr (- 23 :: real) = of_int 8388608" by (simp add: powr_minus powr_realpow [symmetric])
  then show ?thesis
    using round_even_int [of 8388608] by (simp add: to_float_def Let_def powr_minus)
qed

section \<open>Quaternions\<close>

record Quaternion =
  qs :: double
  qv :: Coord

definition mkQuaternion :: "double \<Rightarrow> double \<Rightarrow> double \<Rightarrow> double \<Rightarrow> Quaternion" where
  "mkQuaternion real' i j k = \<lparr>qs = real', qv = mkCoord i j k\<rparr>"

text \<open>From the angles about Z, Y' and X''.\<close>

definition Quaternion_EulerAngles :: "double \<Rightarrow> double \<Rightarrow> double \<Rightarrow> Quaternion" where
  "Quaternion_EulerAngles alpha beta gamma =
     (let cos_z_2 = cos (0.5 * alpha); cos_y_2 = cos (0.5 * beta); cos_x_2 = cos (0.5 * gamma);
          sin_z_2 = sin (0.5 * alpha); sin_y_2 = sin (0.5 * beta); sin_x_2 = sin (0.5 * gamma)
      in mkQuaternion
           (cos_z_2 * cos_y_2 * cos_x_2 + sin_z_2 * sin_y_2 * sin_x_2)
           (cos_z_2 * cos_y_2 * sin_x_2 - sin_z_2 * sin_y_2 * cos_x_2)
           (cos_z_2 * sin_y_2 * cos_x_2 + sin_z_2 * cos_y_2 * sin_x_2)
           (sin_z_2 * cos_y_2 * cos_x_2 - cos_z_2 * sin_y_2 * sin_x_2))"

text \<open>\<open>Coord::operator*\<close>, whose result type is \<open>float\<close>.\<close>

definition Coord_dot :: "Coord \<Rightarrow> Coord \<Rightarrow> double" where
  "Coord_dot a b = to_float (cx a * cx b + cy a * cy b + cz a * cz b)"

definition Quaternion_mult :: "Quaternion \<Rightarrow> Quaternion \<Rightarrow> Quaternion" where
  "Quaternion_mult p q =
     (let s = qs p; v = qv p; w = qv q in
      mkQuaternion (s * qs q - Coord_dot v w)
        (cy v * cz w - cz v * cy w + s * cx w + cx v * qs q)
        (cz v * cx w - cx v * cz w + s * cy w + cy v * qs q)
        (cx v * cy w - cy v * cx w + s * cz w + cz v * qs q))"

text \<open>\<open>*=\<close>, which keeps the old components it still needs.\<close>

definition Quaternion_mult_assign :: "Quaternion \<Rightarrow> Quaternion \<Rightarrow> Quaternion" where
  "Quaternion_mult_assign p q =
     (let x = cx (qv p); y = cy (qv p); z = cz (qv p); s = qs p; w = qv q;
          sn = s * qs q - Coord_dot (qv p) w;
          vx = y * cz w - z * cy w + s * cx w + x * qs q;
          vy = z * cx w - x * cz w + s * cy w + y * qs q;
          vz = x * cy w - y * cx w + s * cz w + z * qs q
      in \<lparr>qs = sn, qv = mkCoord vx vy vz\<rparr>)"

definition Coord_neg :: "Coord \<Rightarrow> Coord" where
  "Coord_neg a = mkCoord (- cx a) (- cy a) (- cz a)"

definition Quaternion_conjugate :: "Quaternion \<Rightarrow> Quaternion" where
  "Quaternion_conjugate q = q\<lparr>qv := Coord_neg (qv q)\<rparr>"

definition Quaternion_rotate :: "Quaternion \<Rightarrow> Coord \<Rightarrow> Coord" where
  "Quaternion_rotate q v =
     (let V = \<lparr>qs = 0, qv = v\<rparr>; conjugate = Quaternion_conjugate q
      in qv (Quaternion_mult (Quaternion_mult q V) conjugate))"

definition Quaternion_lengthSquared :: "Quaternion \<Rightarrow> double" where
  "Quaternion_lengthSquared q = qs q * qs q + Coord_dot (qv q) (qv q)"

lemmas quaternion_defs = mkQuaternion_def Quaternion_mult_def Quaternion_conjugate_def Quaternion_rotate_def
  Quaternion_lengthSquared_def Coord_dot_def Coord_neg_def Let_def

lemma mult_assign_mult: "Quaternion_mult_assign p q = Quaternion_mult p q"
  by (simp add: Quaternion_mult_assign_def quaternion_defs)

section \<open>The antenna\<close>

record antenna =
  azimuthDeg :: double
  elevationDeg :: double
  distanceMeter :: double
  lastOrientation :: Quaternion
  antenna_lastPosition :: Coord

definition rad2deg :: "double \<Rightarrow> double" where
  "rad2deg r = r * 180 / pi"

text \<open>\<open>Coord::normalize\<close>\<close>

definition Coord_normalize :: "Coord \<Rightarrow> Coord" where
  "Coord_normalize a = (let l = Coord_length a in mkCoord (cx a / l) (cy a / l) (cz a / l))"

definition getCurrentAngularPosition :: "Coord \<Rightarrow> Coord \<Rightarrow> antenna \<Rightarrow> Quaternion \<times> antenna" where
  "getCurrentAngularPosition target source a =
     (let direction = Coord_minus target source;
          a = a\<lparr>distanceMeter := Coord_length direction\<rparr>;
          direction = Coord_normalize direction;
          alpha = c_atan2 (cy direction) (cx direction);
          a = a\<lparr>azimuthDeg := rad2deg alpha\<rparr>;
          beta = - arcsin (cz direction);
          a = a\<lparr>elevationDeg := rad2deg (- beta)\<rparr>;
          gamma = 0.0;
          a = a\<lparr>lastOrientation := Quaternion_EulerAngles alpha beta gamma\<rparr>
      in (lastOrientation a, a))"

definition antenna_getCurrentPosition :: "Coord \<Rightarrow> antenna \<Rightarrow> Coord \<times> antenna" where
  "antenna_getCurrentPosition source a = (let a = a\<lparr>antenna_lastPosition := source\<rparr> in (antenna_lastPosition a, a))"

section \<open>Facing the satellite\<close>

text \<open>The rotation in the reals, and the error that the \<open>float\<close> in the first product adds.\<close>

definition exact_rotate :: "Quaternion \<Rightarrow> Coord \<Rightarrow> Coord" where
  "exact_rotate q a =
     (let s = qs q; u = qv q;
          d = cx u * cx a + cy u * cy a + cz u * cz a;
          x = cy u * cz a - cz u * cy a + s * cx a;
          y = cz u * cx a - cx u * cz a + s * cy a;
          z = cx u * cy a - cy u * cx a + s * cz a
      in mkCoord (z * cy u - y * cz u + d * cx u + x * s)
                 (x * cz u - z * cx u + d * cy u + y * s)
                 (y * cx u - x * cy u + d * cz u + z * s))"

lemma rotate_error:
  fixes q a
  defines "d \<equiv> cx (qv q) * cx a + cy (qv q) * cy a + cz (qv q) * cz a"
  shows "Quaternion_rotate q a =
    (let e = to_float d - d; r = exact_rotate q a
     in mkCoord (cx r + e * cx (qv q)) (cy r + e * cy (qv q)) (cz r + e * cz (qv q)))"
  unfolding d_def
  by (intro Coord_eqI) (simp_all add: exact_rotate_def quaternion_defs algebra_simps)

text \<open>The forward axis under a rotation by yaw and pitch.\<close>

lemma rotate_forward:
  "exact_rotate (Quaternion_EulerAngles alpha beta 0) (mkCoord 1 0 0) =
     mkCoord (cos alpha * cos beta) (sin alpha * cos beta) (- sin beta)"
proof -
  define a b where "a = 0.5 * alpha" and "b = 0.5 * beta"
  have ab: "alpha = 2 * a" "beta = 2 * b" by (simp_all add: a_def b_def)
  have ha: "(sin a)\<^sup>2 + (cos a)\<^sup>2 = 1" "(sin b)\<^sup>2 + (cos b)\<^sup>2 = 1" by simp_all
  have q: "Quaternion_EulerAngles alpha beta 0 =
      mkQuaternion (cos a * cos b) (- (sin a * sin b)) (cos a * sin b) (sin a * cos b)"
    by (simp add: Quaternion_EulerAngles_def Let_def ab)
  have c: "cos alpha = (cos a)\<^sup>2 - (sin a)\<^sup>2" "sin alpha = 2 * sin a * cos a"
    "cos beta = (cos b)\<^sup>2 - (sin b)\<^sup>2" "sin beta = 2 * sin b * cos b"
    by (simp_all only: ab cos_double sin_double)
  define sa ca sb cb where "sa = sin a" and "ca = cos a" and "sb = sin b" and "cb = cos b"
  note ha = ha [folded sa_def ca_def sb_def cb_def]
  show ?thesis
    unfolding q c sa_def [symmetric] ca_def [symmetric] sb_def [symmetric] cb_def [symmetric]
    unfolding exact_rotate_def mkQuaternion_def Let_def
    by (intro Coord_eqI) (simp_all, (use ha in algebra)+)
qed

definition vector_square :: "Quaternion \<Rightarrow> double" where
  "vector_square q = cx (qv q) * cx (qv q) + cy (qv q) * cy (qv q) + cz (qv q) * cz (qv q)"

lemma euler_unit:
  "qs (Quaternion_EulerAngles alpha beta gamma) * qs (Quaternion_EulerAngles alpha beta gamma) +
    vector_square (Quaternion_EulerAngles alpha beta gamma) = 1"
proof -
  define sa ca sb cb sg cg where "sa = sin (0.5 * alpha)" and "ca = cos (0.5 * alpha)" and "sb = sin (0.5 * beta)"
    and "cb = cos (0.5 * beta)" and "sg = sin (0.5 * gamma)" and "cg = cos (0.5 * gamma)"
  have "sa\<^sup>2 + ca\<^sup>2 = 1" "sb\<^sup>2 + cb\<^sup>2 = 1" "sg\<^sup>2 + cg\<^sup>2 = 1"
    by (simp_all only: sa_def ca_def sb_def cb_def sg_def cg_def sin_cos_squared_add)
  then show ?thesis
    unfolding Quaternion_EulerAngles_def Let_def sa_def [symmetric] ca_def [symmetric] sb_def [symmetric]
      cb_def [symmetric] sg_def [symmetric] cg_def [symmetric] vector_square_def mkQuaternion_def
    by simp algebra
qed

lemma euler_vector: "0 \<le> vector_square (Quaternion_EulerAngles alpha beta gamma)"
  "vector_square (Quaternion_EulerAngles alpha beta gamma) \<le> 1"
proof -
  let ?q = "Quaternion_EulerAngles alpha beta gamma"
  show "0 \<le> vector_square ?q" by (simp add: vector_square_def)
  have "0 \<le> qs ?q * qs ?q" by simp
  then show "vector_square ?q \<le> 1" using euler_unit [of alpha beta gamma] by linarith
qed

text \<open>What \<open>float\<close> costs: the length and the direction of the forward axis are off by \<open>2\<^sup>-\<^sup>2\<^sup>4\<close> at most.\<close>

lemma euler_length: "\<bar>Quaternion_lengthSquared (Quaternion_EulerAngles alpha beta gamma) - 1\<bar> \<le> 1 / 2 ^ 24"
proof -
  let ?q = "Quaternion_EulerAngles alpha beta gamma"
  have "Quaternion_lengthSquared ?q - 1 = to_float (vector_square ?q) - vector_square ?q"
    using euler_unit [of alpha beta gamma] by (simp add: Quaternion_lengthSquared_def Coord_dot_def vector_square_def)
  then show ?thesis using to_float_error [of "vector_square ?q"] euler_vector [of alpha beta gamma] by simp
qed

lemma rotate_forward_error:
  "Coord_distance (Quaternion_rotate (Quaternion_EulerAngles alpha beta 0) (mkCoord 1 0 0))
     (mkCoord (cos alpha * cos beta) (sin alpha * cos beta) (- sin beta)) \<le> 1 / 2 ^ 24"
proof -
  let ?q = "Quaternion_EulerAngles alpha beta 0"
  define e where "e = to_float (cx (qv ?q)) - cx (qv ?q)"
  have "(cx (qv ?q))\<^sup>2 \<le> vector_square ?q" by (simp add: vector_square_def power2_eq_square)
  then have "\<bar>cx (qv ?q)\<bar> \<le> 1" using euler_vector(2) [of alpha beta 0] abs_le_square_iff [of "cx (qv ?q)" 1] by simp
  then have e: "\<bar>e\<bar> \<le> 1 / 2 ^ 24" unfolding e_def by (rule to_float_error)
  have "Coord_distance (Quaternion_rotate ?q (mkCoord 1 0 0))
      (mkCoord (cos alpha * cos beta) (sin alpha * cos beta) (- sin beta)) = sqrt (e * e * vector_square ?q)"
    unfolding rotate_error [of ?q "mkCoord 1 0 0"] rotate_forward Let_def
    by (simp add: Coord_distance_def Coord_length_def squareLength_def Coord_minus_def vector_square_def e_def algebra_simps)
  also have "\<dots> \<le> sqrt (e * e * 1)"
    using euler_vector(2) [of alpha beta 0] by (intro real_sqrt_le_mono mult_left_mono) simp_all
  also have "\<dots> = \<bar>e\<bar>" by simp
  finally show ?thesis using e by linarith
qed

lemma length_square: "Coord_length a * Coord_length a = squareLength a"
  by (simp add: Coord_length_def squareLength_def)

lemma normalize_unit:
  assumes "0 < Coord_length a"
  shows "(cx (Coord_normalize a))\<^sup>2 + (cy (Coord_normalize a))\<^sup>2 + (cz (Coord_normalize a))\<^sup>2 = 1"
proof -
  let ?l = "Coord_length a"
  have "(cx (Coord_normalize a))\<^sup>2 + (cy (Coord_normalize a))\<^sup>2 + (cz (Coord_normalize a))\<^sup>2 =
      squareLength a / (?l * ?l)"
    by (simp add: Coord_normalize_def Let_def power2_eq_square squareLength_def add_divide_distrib)
  moreover have "squareLength a \<noteq> 0" using assms by (auto simp: Coord_length_def squareLength_def)
  ultimately show ?thesis by (simp add: length_square)
qed

text \<open>Direction of a unit vector given by azimuth and elevation.\<close>

lemma azimuth_elevation:
  fixes x y z :: real
  assumes "x\<^sup>2 + y\<^sup>2 + z\<^sup>2 = 1"
  shows "cos (c_atan2 y x) * cos (arcsin z) = x \<and> sin (c_atan2 y x) * cos (arcsin z) = y"
proof -
  have z1: "z\<^sup>2 \<le> 1" using assms zero_le_power2 [of x] zero_le_power2 [of y] by linarith
  then have z: "-1 \<le> z" "z \<le> 1" using abs_le_square_iff [of z 1] by (auto simp: abs_le_iff)
  have h: "cos (arcsin z) = sqrt (x\<^sup>2 + y\<^sup>2)"
    using assms z by (auto simp: cos_arcsin algebra_simps)
  show ?thesis
  proof (cases "x = 0 \<and> y = 0")
    case False
    then have pos: "0 < sqrt (x\<^sup>2 + y\<^sup>2)" by (auto simp: sum_power2_gt_zero_iff)
    let ?r = "sqrt (x\<^sup>2 + y\<^sup>2)"
    have r2: "?r * ?r = x\<^sup>2 + y\<^sup>2" by simp
    have "(y / ?r)\<^sup>2 + (x / ?r)\<^sup>2 = (y\<^sup>2 + x\<^sup>2) / (?r * ?r)"
      by (simp add: power_divide power2_eq_square add_divide_distrib)
    then have unit: "(y / ?r)\<^sup>2 + (x / ?r)\<^sup>2 = 1" using r2 pos False by (auto simp: add.commute)
    have same: "c_atan2 y x = c_atan2 (y / ?r) (x / ?r)"
      using pos by (simp add: c_atan2_def zero_less_divide_iff divide_less_0_iff zero_le_divide_iff)
    have "cos (c_atan2 y x) = x / ?r \<and> sin (c_atan2 y x) = y / ?r"
      unfolding same by (rule c_atan2_unit [OF unit])
    then show ?thesis using pos by (simp add: h)
  qed (simp add: h)
qed

text \<open>C14: For an antenna and a satellite at different places azimuth, elevation and distance, which are kept with the
  antenna together with the orientation, give exactly the vector to the satellite. The orientation returned
  is a unit quaternion and turns the forward axis of the antenna into that direction, both up to
  \<open>2\<^sup>-\<^sup>2\<^sup>4\<close>, the error of the \<open>float\<close> that INET's inner product returns.\<close>

theorem antenna_faces_satellite:
  assumes "0 < Coord_distance target source"
    and "getCurrentAngularPosition target source a = (q, a')"
  shows "lastOrientation a' = q \<and> distanceMeter a' = Coord_distance target source \<and>
    -90 \<le> elevationDeg a' \<and> elevationDeg a' \<le> 90 \<and>
    (let az = azimuthDeg a' * pi / 180; el = elevationDeg a' * pi / 180; d = distanceMeter a';
         n = mkCoord (cos az * cos el) (sin az * cos el) (sin el)
     in mkCoord (d * cx n) (d * cy n) (d * cz n) = Coord_minus target source \<and>
        \<bar>Quaternion_lengthSquared q - 1\<bar> \<le> 1 / 2 ^ 24 \<and>
        Coord_distance (Quaternion_rotate q (mkCoord 1 0 0)) n \<le> 1 / 2 ^ 24)"
proof -
  define n where "n = Coord_normalize (Coord_minus target source)"
  have pos: "0 < Coord_length (Coord_minus target source)" using assms(1) by (simp add: Coord_distance_def)
  have unit: "(cx n)\<^sup>2 + (cy n)\<^sup>2 + (cz n)\<^sup>2 = 1" unfolding n_def by (rule normalize_unit [OF pos])
  have z1: "(cz n)\<^sup>2 \<le> 1" using unit zero_le_power2 [of "cx n"] zero_le_power2 [of "cy n"] by linarith
  then have z: "-1 \<le> cz n" "cz n \<le> 1" using abs_le_square_iff [of "cz n" 1] by (auto simp: abs_le_iff)
  have q: "q = Quaternion_EulerAngles (c_atan2 (cy n) (cx n)) (- arcsin (cz n)) 0"
    and a': "distanceMeter a' = Coord_length (Coord_minus target source)" "lastOrientation a' = q"
      "azimuthDeg a' = rad2deg (c_atan2 (cy n) (cx n))" "elevationDeg a' = rad2deg (arcsin (cz n))"
    using assms(2) by (auto simp: getCurrentAngularPosition_def Let_def n_def)
  have span: "mkCoord (Coord_length (Coord_minus target source) * cx n) (Coord_length (Coord_minus target source) * cy n)
      (Coord_length (Coord_minus target source) * cz n) = Coord_minus target source"
    using pos by (intro Coord_eqI) (simp_all add: n_def Coord_normalize_def Let_def)
  have el: "-90 \<le> rad2deg (arcsin (cz n))" "rad2deg (arcsin (cz n)) \<le> 90"
    using arcsin_bounded [OF z] by (simp_all add: rad2deg_def field_simps)
  show ?thesis
    using rotate_forward_error [of "c_atan2 (cy n) (cx n)" "- arcsin (cz n)"] azimuth_elevation [OF unit] z el span
      euler_length [of "c_atan2 (cy n) (cx n)" "- arcsin (cz n)" 0]
    by (simp add: a' q Let_def rad2deg_def Coord_distance_def)
qed

theorem antenna_faces_satellite_witness:
  "Coord_distance
     (Quaternion_rotate
       (fst (getCurrentAngularPosition (mkCoord 3 0 6) (mkCoord 0 0 2)
         \<lparr>azimuthDeg = 0, elevationDeg = 0, distanceMeter = 0, lastOrientation = mkQuaternion 1 0 0 0,
          antenna_lastPosition = Coord_ZERO\<rparr>)) (mkCoord 1 0 0))
     (mkCoord (3 / 5) 0 (4 / 5)) \<le> 1 / 2 ^ 24"
proof -
  let ?a = "\<lparr>azimuthDeg = 0, elevationDeg = 0, distanceMeter = 0, lastOrientation = mkQuaternion 1 0 0 0,
        antenna_lastPosition = Coord_ZERO\<rparr>"
  obtain q a' where g: "getCurrentAngularPosition (mkCoord 3 0 6) (mkCoord 0 0 2) ?a = (q, a')"
    by (cases "getCurrentAngularPosition (mkCoord 3 0 6) (mkCoord 0 0 2) ?a")
  have "sqrt 25 = (5 :: real)" by (simp add: real_sqrt_unique)
  then have d: "Coord_distance (mkCoord 3 0 6) (mkCoord 0 0 2) = 5"
    by (simp add: Coord_distance_def Coord_length_def squareLength_def Coord_minus_def)
  have pos: "0 < Coord_distance (mkCoord 3 0 6) (mkCoord 0 0 2)" by (simp add: d)
  note faces = antenna_faces_satellite [OF pos g, unfolded Let_def]
  define az el where "az = azimuthDeg a' * pi / 180" and "el = elevationDeg a' * pi / 180"
  let ?n = "mkCoord (cos az * cos el) (sin az * cos el) (sin el)"
  have "distanceMeter a' = 5" using faces by (elim conjE) (simp only: d)
  then have "mkCoord (5 * cx ?n) (5 * cy ?n) (5 * cz ?n) = Coord_minus (mkCoord 3 0 6) (mkCoord 0 0 2)"
    using faces unfolding az_def el_def by (elim conjE) (simp only:)
  then have n: "?n = mkCoord (3 / 5) 0 (4 / 5)" by (intro Coord_eqI) (simp_all add: Coord_minus_def mkCoord_def)
  have "Coord_distance (Quaternion_rotate q (mkCoord 1 0 0)) ?n \<le> 1 / 2 ^ 24"
    using faces unfolding az_def el_def by (elim conjE)
  then show ?thesis by (simp only: g fst_conv n)
qed

end
