(* ===== verification/SV_Mobility.thy ===== *)
theory SV_Mobility
  imports SV_Antenna SV_Kernel SV_SOP
begin

text \<open>
  Mobility modules: the part of INET's \<open>MobilityBase\<close> and \<open>MovingMobilityBase\<close> that the satellites
  run (constraint area, timer, periodic update), \<open>VeinsInetMobility\<close>, whose position SUMO sets, and
  \<open>VeinsInetMobilityWGS84\<close>, which reports it in the coordinates of the observation point.

  A virtual function is an argument of the base operations that call it. Listeners of a mobility are the number
  of signals emitted; what is drawn is left out.
\<close>

section \<open>State of a moving mobility\<close>

record moving_mobility =
  constraintAreaMin :: Coord
  constraintAreaMax :: Coord
  mb_lastPosition :: Coord
  mb_lastOrientation :: Quaternion
  moveTimer :: "nat option"
  updateInterval :: simtime
  stationary :: bool
  mb_lastVelocity :: Coord
  lastUpdate :: simtime
  nextChange :: simtime
  faceForward :: bool
  stateChanged :: nat

record mobility_par =
  par_areaMin :: Coord
  par_areaMax :: Coord
  par_updateInterval :: simtime
  par_faceForward :: bool
  par_orientation :: "(double \<times> double \<times> double) option"   \<comment> \<open>heading, elevation, bank in degrees\<close>

definition Quaternion_IDENTITY :: Quaternion where
  "Quaternion_IDENTITY = mkQuaternion 1 0 0 0"

definition moving_mobility_new :: moving_mobility where
  "moving_mobility_new =
     \<lparr>constraintAreaMin = Coord_ZERO, constraintAreaMax = Coord_ZERO, mb_lastPosition = Coord_ZERO,
      mb_lastOrientation = Quaternion_IDENTITY, moveTimer = None, updateInterval = 0, stationary = False,
      mb_lastVelocity = Coord_ZERO, lastUpdate = 0, nextChange = -1, faceForward = False, stateChanged = 0\<rparr>"

section \<open>MobilityBase\<close>

definition isOutside :: "'a moving_mobility_scheme \<Rightarrow> bool" where
  "isOutside s \<longleftrightarrow>
     (let p = mb_lastPosition s; lo = constraintAreaMin s; hi = constraintAreaMax s in
      cx p < cx lo \<or> cx p > cx hi \<or> cy p < cy lo \<or> cy p > cy hi \<or> cz p < cz lo \<or> cz p > cz hi)"

text \<open>Real numbers are finite, so only the second of the two checks is left.\<close>

definition checkPosition :: "'a moving_mobility_scheme \<Rightarrow> unit res" where
  "checkPosition s = (if isOutside s then throwr ''Mobility position is outside the constraint area'' else Inr ())"

definition emitMobilityStateChangedSignal :: "'a moving_mobility_scheme \<Rightarrow> 'a moving_mobility_scheme" where
  "emitMobilityStateChangedSignal s = s\<lparr>stateChanged := stateChanged s + 1\<rparr>"

definition initializeOrientation :: "mobility_par \<Rightarrow> 'a moving_mobility_scheme \<Rightarrow> 'a moving_mobility_scheme" where
  "initializeOrientation p s =
     (case par_orientation p of
        None \<Rightarrow> s
      | Some (heading, elevation, bank) \<Rightarrow>
          s\<lparr>mb_lastOrientation :=
              Quaternion_EulerAngles (heading * pi / 180) (- elevation * pi / 180) (bank * pi / 180)\<rparr>)"

definition MobilityBase_initializePosition ::
    "('a moving_mobility_scheme \<Rightarrow> 'a moving_mobility_scheme) \<Rightarrow> 'a moving_mobility_scheme \<Rightarrow>
      'a moving_mobility_scheme res" where
  "MobilityBase_initializePosition setInitialPosition s =
     (let s = setInitialPosition s
      in rbind (checkPosition s) (\<lambda>_. Inr (emitMobilityStateChangedSignal s)))"

text \<open>The stages \<open>INITSTAGE_LOCAL\<close> and \<open>INITSTAGE_SINGLE_MOBILITY\<close>.\<close>

definition MobilityBase_initialize ::
    "mobility_par \<Rightarrow> ('a moving_mobility_scheme \<times> 'k \<Rightarrow> ('a moving_mobility_scheme \<times> 'k) res) \<Rightarrow> nat \<Rightarrow>
      'a moving_mobility_scheme \<times> 'k \<Rightarrow> ('a moving_mobility_scheme \<times> 'k) res" where
  "MobilityBase_initialize p initializePosition stage sk =
     (let (s, k) = sk in
      if stage = 0 then Inr (s\<lparr>constraintAreaMin := par_areaMin p, constraintAreaMax := par_areaMax p\<rparr>, k)
      else if stage = 2 then initializePosition (initializeOrientation p s, k)
      else Inr (s, k))"

definition MobilityBase_handleMessage ::
    "('s \<Rightarrow> 's res) \<Rightarrow> bool \<Rightarrow> 's \<Rightarrow> 's res" where
  "MobilityBase_handleMessage handleSelfMessage isSelfMessage s =
     (if isSelfMessage then handleSelfMessage s else throwr ''Mobility modules can only receive self messages'')"

section \<open>MovingMobilityBase\<close>

definition scheduleUpdate ::
    "'k kernel_ops \<Rightarrow> 'a moving_mobility_scheme \<times> 'k \<Rightarrow> ('a moving_mobility_scheme \<times> 'k) res" where
  "scheduleUpdate K sk =
     (let (s, k) = sk in
      case moveTimer s of
        None \<Rightarrow> Inl NullPointer
      | Some timer \<Rightarrow>
          (let k = cancelEvent K timer k in
           if \<not> stationary s \<and> updateInterval s \<noteq> 0 then
             (let nextUpdate = simTime K k + updateInterval s in
              if nextChange s \<noteq> -1 \<and> nextChange s < nextUpdate
              then rbind (scheduleAt K (nextChange s) timer k) (\<lambda>k. Inr (s, k))
              else rbind (scheduleAt K nextUpdate timer k) (\<lambda>k. Inr (s, k)))
           else if nextChange s \<noteq> -1
           then rbind (scheduleAt K (nextChange s) timer k) (\<lambda>k. Inr (s, k))
           else Inr (s, k)))"

definition MovingMobilityBase_initializePosition ::
    "'k kernel_ops \<Rightarrow> ('a moving_mobility_scheme \<Rightarrow> 'a moving_mobility_scheme) \<Rightarrow>
      'a moving_mobility_scheme \<times> 'k \<Rightarrow> ('a moving_mobility_scheme \<times> 'k) res" where
  "MovingMobilityBase_initializePosition K setInitialPosition sk =
     (let (s, k) = sk in
      rbind (MobilityBase_initializePosition setInitialPosition s) (\<lambda>s.
      let s = s\<lparr>lastUpdate := simTime K k\<rparr> in scheduleUpdate K (s, k)))"

definition MovingMobilityBase_initialize ::
    "'k kernel_ops \<Rightarrow> mobility_par \<Rightarrow> ('a moving_mobility_scheme \<times> 'k \<Rightarrow> ('a moving_mobility_scheme \<times> 'k) res) \<Rightarrow>
      nat \<Rightarrow> 'a moving_mobility_scheme \<times> 'k \<Rightarrow> ('a moving_mobility_scheme \<times> 'k) res" where
  "MovingMobilityBase_initialize K p initializePosition stage sk =
     rbind (MobilityBase_initialize p initializePosition stage sk) (\<lambda>(s, k).
     if stage = 0 then
       (let (timer, k) = newMessage K k
        in Inr (s\<lparr>moveTimer := Some timer, updateInterval := par_updateInterval p, faceForward := par_faceForward p\<rparr>, k))
     else Inr (s, k))"

text \<open>\<open>Coord::operator!=\<close> of INET holds two coordinates equal that differ by less than \<open>EPSILON\<close>.\<close>

definition EPSILON :: double where
  "EPSILON = 0.001"

definition Coord_close :: "Coord \<Rightarrow> Coord \<Rightarrow> bool" where
  "Coord_close a b \<longleftrightarrow> \<bar>cx a - cx b\<bar> < EPSILON \<and> \<bar>cy a - cy b\<bar> < EPSILON \<and> \<bar>cz a - cz b\<bar> < EPSILON"

definition orient :: "'a moving_mobility_scheme \<Rightarrow> 'a moving_mobility_scheme" where
  "orient s =
     (if faceForward s \<and> \<not> Coord_close (mb_lastVelocity s) Coord_ZERO then
        (let direction = Coord_normalize (mb_lastVelocity s);
             alpha = c_atan2 (cy direction) (cx direction);
             beta = - arcsin (cz direction);
             gamma = 0.0
         in s\<lparr>mb_lastOrientation := Quaternion_EulerAngles alpha beta gamma\<rparr>)
      else s)"

definition moveAndUpdate ::
    "(simtime \<Rightarrow> 'a moving_mobility_scheme \<Rightarrow> 'a moving_mobility_scheme res) \<Rightarrow> simtime \<Rightarrow>
      'a moving_mobility_scheme \<Rightarrow> 'a moving_mobility_scheme res" where
  "moveAndUpdate move now s =
     (if nextChange s = now \<or> lastUpdate s \<noteq> now then
        rbind (move now s) (\<lambda>s.
        let s = orient s; s = s\<lparr>lastUpdate := now\<rparr> in Inr (emitMobilityStateChangedSignal s))
      else Inr s)"

definition MovingMobilityBase_handleSelfMessage ::
    "'k kernel_ops \<Rightarrow> (simtime \<Rightarrow> 'a moving_mobility_scheme \<Rightarrow> 'a moving_mobility_scheme res) \<Rightarrow>
      'a moving_mobility_scheme \<times> 'k \<Rightarrow> ('a moving_mobility_scheme \<times> 'k) res" where
  "MovingMobilityBase_handleSelfMessage K move sk =
     (let (s, k) = sk in rbind (moveAndUpdate move (simTime K k) s) (\<lambda>s. scheduleUpdate K (s, k)))"

section \<open>Vehicles\<close>

record veins_mobility =
  vm_lastPosition :: Coord
  vm_lastVelocity :: Coord
  vm_lastOrientation :: Quaternion
  vm_external_id :: string
  vm_marker :: string                \<comment> \<open>tag of the display string\<close>
  vm_stateChanged :: nat

definition Coord_times :: "Coord \<Rightarrow> double \<Rightarrow> Coord" where
  "Coord_times a f = mkCoord (cx a * f) (cy a * f) (cz a * f)"

definition VeinsInetMobility_preInitialize ::
    "string \<Rightarrow> Coord \<Rightarrow> double \<Rightarrow> double \<Rightarrow> veins_mobility \<Rightarrow> veins_mobility" where
  "VeinsInetMobility_preInitialize external_id position speed angle s =
     s\<lparr>vm_external_id := external_id,
       vm_lastPosition := position,
       vm_lastVelocity := Coord_times (mkCoord (cos angle) (- sin angle) 0) speed,
       vm_lastOrientation := Quaternion_EulerAngles (- angle) 0.0 0.0\<rparr>"

definition VeinsInetMobility_nextPosition ::
    "Coord \<Rightarrow> double \<Rightarrow> double \<Rightarrow> veins_mobility \<Rightarrow> veins_mobility" where
  "VeinsInetMobility_nextPosition position speed angle s =
     (let s = s\<lparr>vm_lastPosition := position,
                vm_lastVelocity := Coord_times (mkCoord (cos angle) (- sin angle) 0) speed,
                vm_lastOrientation := Quaternion_EulerAngles (- angle) 0.0 0.0\<rparr>;
          s = s\<lparr>vm_marker := (if vm_marker s = ''. '' then '' .'' else ''. '')\<rparr>
      in s\<lparr>vm_stateChanged := vm_stateChanged s + 1\<rparr>)"

definition getExternalId :: "veins_mobility \<Rightarrow> string res" where
  "getExternalId s =
     (if vm_external_id s = [] then throwr ''TraCIMobility::getExternalId called with no external_id set yet''
      else Inr (vm_external_id s))"

text \<open>\<open>VeinsInetMobilityWGS84\<close>: the statistics are recorded in this order; \<open>sop\<close> is \<open>None\<close> before stage 1.\<close>

definition VeinsInetMobilityWGS84_nextPosition ::
    "'pj proj_ops \<Rightarrow> 'pj sop_state option \<Rightarrow> Coord \<Rightarrow> double \<Rightarrow> double \<Rightarrow> veins_mobility \<times> VehicleStatistics \<Rightarrow>
      (veins_mobility \<times> VehicleStatistics) res" where
  "VeinsInetMobilityWGS84_nextPosition P sop position speed angle sv =
     (let (s, st) = sv;
          s = VeinsInetMobility_nextPosition position speed angle s;
          p = mkCoord (cx (vm_lastPosition s)) (cy (vm_lastPosition s)) (cz (vm_lastPosition s));
          st = recordOmnetCoord p st
      in case sop of None \<Rightarrow> Inl NullPointer
         | Some sop \<Rightarrow>
             rbind (omnet2WGS84 P sop p) (\<lambda>w.
             let st = recordWGS84Coord w st in
             rbind (omnet2WGS84Cartesian P sop p) (\<lambda>c.
             let st = recordWGS84CartCoord c st in
             rbind (omnetRelativeSOPCoord P sop p) (\<lambda>r. Inr (s, recordSopRelativeCoord r st)))))"

end
