(* ===== verification/SV_Elsetrec.thy ===== *)
theory SV_Elsetrec
  imports SV_Astro
begin

text \<open>
  \<open>struct elsetrec\<close> of \<open>SGP4.h\<close>: the state of the propagator for one satellite. Its more than one
  hundred members are grouped into nested records by the comments and the lines of the
  declaration; the members keep their names behind the prefix \<open>sr_\<close>. Members that only
  describe the object (radar cross section, activity, revision numbers) are left out: no
  function reads them.
\<close>

record near_earth =
  sr_isimp :: int
  sr_aycof :: double
  sr_con41 :: double
  sr_cc1 :: double
  sr_cc4 :: double
  sr_cc5 :: double
  sr_d2 :: double
  sr_d3 :: double
  sr_d4 :: double
  sr_delmo :: double
  sr_eta :: double
  sr_argpdot :: double
  sr_omgcof :: double
  sr_sinmao :: double

record near_earth_more =
  sr_t2cof :: double
  sr_t3cof :: double
  sr_t4cof :: double
  sr_t5cof :: double
  sr_x1mth2 :: double
  sr_x7thm1 :: double
  sr_mdot :: double
  sr_nodedot :: double
  sr_xlcof :: double
  sr_xmcof :: double
  sr_nodecf :: double

text \<open>Deep space: resonance coefficients, rates, periodics of the sun and the moon, the integrator.\<close>

record resonance =
  sr_irez :: int
  sr_d2201 :: double
  sr_d2211 :: double
  sr_d3210 :: double
  sr_d3222 :: double
  sr_d4410 :: double
  sr_d4422 :: double
  sr_d5220 :: double
  sr_d5232 :: double
  sr_d5421 :: double
  sr_d5433 :: double
  sr_del1 :: double
  sr_del2 :: double
  sr_del3 :: double
  sr_xfact :: double
  sr_xlamo :: double

record rates =
  sr_dedt :: double
  sr_didt :: double
  sr_dmdt :: double
  sr_dnodt :: double
  sr_domdt :: double

record periodics =
  sr_peo :: double
  sr_pgho :: double
  sr_pho :: double
  sr_pinco :: double
  sr_plo :: double
  sr_zmol :: double
  sr_zmos :: double

record solar =
  sr_se2 :: double
  sr_se3 :: double
  sr_sgh2 :: double
  sr_sgh3 :: double
  sr_sgh4 :: double
  sr_sh2 :: double
  sr_sh3 :: double
  sr_si2 :: double
  sr_si3 :: double
  sr_sl2 :: double
  sr_sl3 :: double
  sr_sl4 :: double

record lunar =
  sr_e3 :: double
  sr_ee2 :: double
  sr_xgh2 :: double
  sr_xgh3 :: double
  sr_xgh4 :: double
  sr_xh2 :: double
  sr_xh3 :: double
  sr_xi2 :: double
  sr_xi3 :: double
  sr_xl2 :: double
  sr_xl3 :: double
  sr_xl4 :: double

record integrator =
  sr_atime :: double
  sr_xli :: double
  sr_xni :: double

record elements =
  sr_a :: double
  sr_altp :: double
  sr_alta :: double
  sr_nddot :: double
  sr_ndot :: double
  sr_bstar :: double
  sr_inclo :: double
  sr_nodeo :: double
  sr_ecco :: double
  sr_argpo :: double
  sr_mo :: double
  sr_no_kozai :: double
  sr_no_unkozai :: double
  sr_gsto :: double

text \<open>Singly averaged elements; \<open>sr_Node\<close> is the member \<open>Om\<close>.\<close>

record averaged =
  sr_am :: double
  sr_em :: double
  sr_im :: double
  sr_Node :: double
  sr_om :: double
  sr_mm :: double
  sr_nm :: double

record elsetrec =
  sr_satnum :: string
  sr_error :: int
  sr_operationmode :: char
  sr_init :: char
  sr_method :: char
  sr_time :: double                  \<comment> \<open>member \<open>t\<close>\<close>
  sr_near :: near_earth
  sr_more :: near_earth_more
  sr_res :: resonance
  sr_rates :: rates
  sr_per :: periodics
  sr_solar :: solar
  sr_lunar :: lunar
  sr_integ :: integrator
  sr_el :: elements
  sr_avg :: averaged
  sr_grav :: gravconst

end
