(* ===== verification/SV_SGP4_Deep.thy ===== *)
theory SV_SGP4_Deep
  imports SV_Elsetrec
begin

text \<open>
  The deep-space part of \<open>SGP4.cc\<close>: \<open>dpper\<close> (long-period periodics of sun and moon), \<open>dscom\<close>
  (their coefficients), \<open>dsinit\<close> (secular rates and resonance coefficients) and \<open>dspace\<close> (secular
  effects and the numerical integration of the resonances). Reference parameters are passed
  in and returned; assignments are \<open>let\<close> bindings in the order of the code.
\<close>

section \<open>Periodics\<close>

text \<open>The perturbations at time \<open>t\<close>: eccentricity, inclination, longitude, perigee and node.\<close>

definition dpper_terms ::
    "solar \<Rightarrow> lunar \<Rightarrow> periodics \<Rightarrow> double \<Rightarrow> char \<Rightarrow> double \<times> double \<times> double \<times> double \<times> double" where
  "dpper_terms so lu pe t init =
     (let se2 = sr_se2 so; se3 = sr_se3 so; sgh2 = sr_sgh2 so; sgh3 = sr_sgh3 so;
          sgh4 = sr_sgh4 so; sh2 = sr_sh2 so; sh3 = sr_sh3 so; si2 = sr_si2 so; si3 = sr_si3 so;
          sl2 = sr_sl2 so; sl3 = sr_sl3 so; sl4 = sr_sl4 so; e3 = sr_e3 lu; ee2 = sr_ee2 lu;
          xgh2 = sr_xgh2 lu; xgh3 = sr_xgh3 lu; xgh4 = sr_xgh4 lu; xh2 = sr_xh2 lu;
          xh3 = sr_xh3 lu; xi2 = sr_xi2 lu; xi3 = sr_xi3 lu; xl2 = sr_xl2 lu; xl3 = sr_xl3 lu;
          xl4 = sr_xl4 lu; zmol = sr_zmol pe; zmos = sr_zmos pe;
          zns = 0.0000119459;
          zes = 0.01675;
          znl = 0.00015835218;
          zel = 0.05490;
          zm = zmos + zns * t;
          zm = (if init = CHR ''y'' then zmos else zm);
          zf = zm + 2.0 * zes * sin zm;
          sinzf = sin zf;
          f2 = 0.5 * sinzf * sinzf - 0.25;
          f3 = -0.5 * sinzf * cos zf;
          ses = se2* f2 + se3 * f3;
          sis = si2 * f2 + si3 * f3;
          sls = sl2 * f2 + sl3 * f3 + sl4 * sinzf;
          sghs = sgh2 * f2 + sgh3 * f3 + sgh4 * sinzf;
          shs = sh2 * f2 + sh3 * f3;
          zm = zmol + znl * t;
          zm = (if init = CHR ''y'' then zmol else zm);
          zf = zm + 2.0 * zel * sin zm;
          sinzf = sin zf;
          f2 = 0.5 * sinzf * sinzf - 0.25;
          f3 = -0.5 * sinzf * cos zf;
          sel = ee2 * f2 + e3 * f3;
          sil = xi2 * f2 + xi3 * f3;
          sll = xl2 * f2 + xl3 * f3 + xl4 * sinzf;
          sghl = xgh2 * f2 + xgh3 * f3 + xgh4 * sinzf;
          shll = xh2 * f2 + xh3 * f3;
          pe = ses + sel;
          pinc = sis + sil;
          pl = sls + sll;
          pgh = sghs + sghl;
          ph = shs + shll
      in (pe, pinc, pl, pgh, ph))"

text \<open>Lyddane's modification for small inclinations.\<close>

definition dpper_lyddane ::
    "double \<times> double \<times> double \<times> double \<Rightarrow> char \<Rightarrow> double \<Rightarrow> double \<times> double \<times> double \<Rightarrow> double \<times> double \<times> double" where
  "dpper_lyddane terms opsmode inclp old =
     (let (pinc, pl, pgh, ph) = terms; (nodep, argpp, mp) = old;
          twopi = 2.0 * pi;
          sinip = sin inclp; cosip = cos inclp;
          sinop = sin nodep;
          cosop = cos nodep;
          alfdp = sinip * sinop;
          betdp = sinip * cosop;
          dalf = ph * cosop + pinc * cosip * sinop;
          dbet = -ph * sinop + pinc * cosip * cosop;
          alfdp = alfdp + dalf;
          betdp = betdp + dbet;
          nodep = c_fmod nodep twopi;
          nodep = (if nodep < 0.0 \<and> opsmode = CHR ''a'' then nodep + twopi else nodep);
          xls = mp + argpp + cosip * nodep;
          dls = pl + pgh - pinc * nodep * sinip;
          xls = xls + dls;
          xnoh = nodep;
          nodep = c_atan2 alfdp betdp;
          nodep = (if nodep < 0.0 \<and> opsmode = CHR ''a'' then nodep + twopi else nodep);
          nodep = (if \<bar>xnoh - nodep\<bar> > pi then (if nodep < xnoh then nodep + twopi else nodep - twopi) else nodep);
          mp = mp + pl;
          argpp = xls - mp - cosip * nodep
      in (nodep, argpp, mp))"

text \<open>Eccentricity, inclination, node, perigee and anomaly with the periodics applied.\<close>

definition dpper ::
    "solar \<Rightarrow> lunar \<Rightarrow> periodics \<Rightarrow> double \<Rightarrow> char \<Rightarrow> char \<Rightarrow> double \<times> double \<times> double \<times> double \<times> double \<Rightarrow>
      double \<times> double \<times> double \<times> double \<times> double" where
  "dpper so lu per t init opsmode old =
     (let (ep, inclp, nodep, argpp, mp) = old;
          (pe, pinc, pl, pgh, ph) = dpper_terms so lu per t init
      in if init = CHR ''n'' then
           (let pe = pe - sr_peo per; pinc = pinc - sr_pinco per; pl = pl - sr_plo per;
                pgh = pgh - sr_pgho per; ph = ph - sr_pho per;
                inclp = inclp + pinc; ep = ep + pe;
                sinip = sin inclp; cosip = cos inclp
            in if inclp \<ge> 0.2 then
                 (let ph = ph / sinip; pgh = pgh - cosip * ph;
                      argpp = argpp + pgh; nodep = nodep + ph; mp = mp + pl
                  in (ep, inclp, nodep, argpp, mp))
               else
                 (let (nodep, argpp, mp) = dpper_lyddane (pinc, pl, pgh, ph) opsmode inclp (nodep, argpp, mp)
                  in (ep, inclp, nodep, argpp, mp)))
         else old)"

section \<open>Coefficients of sun and moon\<close>

record third_body =
  tb_s1 :: double
  tb_s2 :: double
  tb_s3 :: double
  tb_s4 :: double
  tb_s5 :: double
  tb_s6 :: double
  tb_s7 :: double
  tb_z1 :: double
  tb_z2 :: double
  tb_z3 :: double
  tb_z11 :: double
  tb_z12 :: double
  tb_z13 :: double
  tb_z21 :: double
  tb_z22 :: double
  tb_z23 :: double
  tb_z31 :: double
  tb_z32 :: double
  tb_z33 :: double

record dscom_angles =
  da_snodm :: double
  da_cnodm :: double
  da_sinim :: double
  da_cosim :: double
  da_sinomm :: double
  da_cosomm :: double
  da_em :: double
  da_emsq :: double
  da_rtemsq :: double
  da_nm :: double

definition dscom_angles_of :: "double \<Rightarrow> double \<Rightarrow> double \<Rightarrow> double \<Rightarrow> double \<Rightarrow> dscom_angles" where
  "dscom_angles_of ep argpp inclp nodep np =
     (let nm = np; em = ep; snodm = sin nodep; cnodm = cos nodep; sinomm = sin argpp; cosomm = cos argpp;
          sinim = sin inclp; cosim = cos inclp; emsq = em * em; betasq = 1.0 - emsq; rtemsq = sqrt betasq
      in \<lparr>da_snodm = snodm, da_cnodm = cnodm, da_sinim = sinim, da_cosim = cosim, da_sinomm = sinomm,
          da_cosomm = cosomm, da_em = em, da_emsq = emsq, da_rtemsq = rtemsq, da_nm = nm\<rparr>)"

text \<open>One pass of the loop over the sun and the moon, with the six angles and the factor of the body.\<close>

definition dscom_pass ::
    "dscom_angles \<Rightarrow> double \<times> double \<times> double \<times> double \<times> double \<times> double \<Rightarrow> double \<Rightarrow> third_body" where
  "dscom_pass da z cc =
     (let (zcosg, zsing, zcosi, zsini, zcosh, zsinh) = z;
          sinim = da_sinim da; cosim = da_cosim da; sinomm = da_sinomm da; cosomm = da_cosomm da;
          em = da_em da; emsq = da_emsq da; betasq = 1.0 - emsq; rtemsq = da_rtemsq da;
          xnoi = 1.0 / da_nm da;
          a1 = zcosg * zcosh + zsing * zcosi * zsinh;
          a3 = -zsing * zcosh + zcosg * zcosi * zsinh;
          a7 = -zcosg * zsinh + zsing * zcosi * zcosh;
          a8 = zsing * zsini;
          a9 = zsing * zsinh + zcosg * zcosi * zcosh;
          a10 = zcosg * zsini;
          a2 = cosim * a7 + sinim * a8;
          a4 = cosim * a9 + sinim * a10;
          a5 = -sinim * a7 + cosim * a8;
          a6 = -sinim * a9 + cosim * a10;
          x1 = a1 * cosomm + a2 * sinomm;
          x2 = a3 * cosomm + a4 * sinomm;
          x3 = -a1 * sinomm + a2 * cosomm;
          x4 = -a3 * sinomm + a4 * cosomm;
          x5 = a5 * sinomm;
          x6 = a6 * sinomm;
          x7 = a5 * cosomm;
          x8 = a6 * cosomm;
          z31 = 12.0 * x1 * x1 - 3.0 * x3 * x3;
          z32 = 24.0 * x1 * x2 - 6.0 * x3 * x4;
          z33 = 12.0 * x2 * x2 - 3.0 * x4 * x4;
          z1 = 3.0 * (a1 * a1 + a2 * a2) + z31 * emsq;
          z2 = 6.0 * (a1 * a3 + a2 * a4) + z32 * emsq;
          z3 = 3.0 * (a3 * a3 + a4 * a4) + z33 * emsq;
          z11 = -6.0 * a1 * a5 + emsq * (-24.0 * x1 * x7 - 6.0 * x3 * x5);
          z12 = -6.0 * (a1 * a6 + a3 * a5) + emsq * (-24.0 * (x2 * x7 + x1 * x8) - 6.0 * (x3 * x6 + x4 * x5));
          z13 = -6.0 * a3 * a6 + emsq * (-24.0 * x2 * x8 - 6.0 * x4 * x6);
          z21 = 6.0 * a2 * a5 + emsq * (24.0 * x1 * x5 - 6.0 * x3 * x7);
          z22 = 6.0 * (a4 * a5 + a2 * a6) + emsq * (24.0 * (x2 * x5 + x1 * x6) - 6.0 * (x4 * x7 + x3 * x8));
          z23 = 6.0 * a4 * a6 + emsq * (24.0 * x2 * x6 - 6.0 * x4 * x8);
          z1 = z1 + z1 + betasq * z31;
          z2 = z2 + z2 + betasq * z32;
          z3 = z3 + z3 + betasq * z33;
          s3 = cc * xnoi;
          s2 = -0.5 * s3 / rtemsq;
          s4 = s3 * rtemsq;
          s1 = -15.0 * em * s4;
          s5 = x1 * x3 + x2 * x4;
          s6 = x2 * x3 + x1 * x4;
          s7 = x2 * x4 - x1 * x3
      in \<lparr>tb_s1 = s1, tb_s2 = s2, tb_s3 = s3, tb_s4 = s4, tb_s5 = s5, tb_s6 = s6, tb_s7 = s7,
          tb_z1 = z1, tb_z2 = z2, tb_z3 = z3, tb_z11 = z11, tb_z12 = z12, tb_z13 = z13,
          tb_z21 = z21, tb_z22 = z22, tb_z23 = z23, tb_z31 = z31, tb_z32 = z32, tb_z33 = z33\<rparr>)"

text \<open>The angles of the moon; \<open>day\<close> counts days.\<close>

definition dscom_moon ::
    "dscom_angles \<Rightarrow> double \<Rightarrow> (double \<times> double \<times> double \<times> double \<times> double \<times> double) \<times> double" where
  "dscom_moon da day =
     (let twopi = 2.0 * pi; snodm = da_snodm da; cnodm = da_cnodm da;
          xnodce = c_fmod (4.5236020 - 0.00092422029 * day) twopi;
          stem = sin xnodce;
          ctem = cos xnodce;
          zcosil = 0.91375164 - 0.03568096 * ctem;
          zsinil = sqrt (1.0 - zcosil * zcosil);
          zsinhl = 0.089683511 * stem / zsinil;
          zcoshl = sqrt (1.0 - zsinhl * zsinhl);
          gam = 5.8351514 + 0.0019443680 * day;
          zx = 0.39785416 * stem / zsinil;
          zy = zcoshl * ctem + 0.91744867 * zsinhl * stem;
          zx = c_atan2 zx zy;
          zx = gam + zx - xnodce;
          zcosgl = cos zx;
          zsingl = sin zx;
          zcosh = zcoshl * cnodm + zsinhl * snodm;
          zsinh = snodm * zcoshl - cnodm * zsinhl
      in ((zcosgl, zsingl, zcosil, zsinil, zcosh, zsinh), gam))"

definition dscom_solar :: "third_body \<Rightarrow> double \<Rightarrow> solar" where
  "dscom_solar sun emsq =
     (let zes = 0.01675;
          ss1 = tb_s1 sun; ss2 = tb_s2 sun; ss3 = tb_s3 sun; ss4 = tb_s4 sun; ss6 = tb_s6 sun; ss7 = tb_s7 sun;
          sz1 = tb_z1 sun; sz2 = tb_z2 sun; sz3 = tb_z3 sun; sz11 = tb_z11 sun; sz12 = tb_z12 sun;
          sz13 = tb_z13 sun; sz21 = tb_z21 sun; sz22 = tb_z22 sun; sz23 = tb_z23 sun; sz31 = tb_z31 sun;
          sz32 = tb_z32 sun; sz33 = tb_z33 sun;
          se2 = 2.0 * ss1 * ss6;
          se3 = 2.0 * ss1 * ss7;
          si2 = 2.0 * ss2 * sz12;
          si3 = 2.0 * ss2 * (sz13 - sz11);
          sl2 = -2.0 * ss3 * sz2;
          sl3 = -2.0 * ss3 * (sz3 - sz1);
          sl4 = -2.0 * ss3 * (-21.0 - 9.0 * emsq) * zes;
          sgh2 = 2.0 * ss4 * sz32;
          sgh3 = 2.0 * ss4 * (sz33 - sz31);
          sgh4 = -18.0 * ss4 * zes;
          sh2 = -2.0 * ss2 * sz22;
          sh3 = -2.0 * ss2 * (sz23 - sz21)
      in \<lparr>sr_se2 = se2, sr_se3 = se3, sr_sgh2 = sgh2, sr_sgh3 = sgh3, sr_sgh4 = sgh4, sr_sh2 = sh2,
          sr_sh3 = sh3, sr_si2 = si2, sr_si3 = si3, sr_sl2 = sl2, sr_sl3 = sl3, sr_sl4 = sl4\<rparr>)"

definition dscom_lunar :: "third_body \<Rightarrow> double \<Rightarrow> lunar" where
  "dscom_lunar moon emsq =
     (let zel = 0.05490;
          s1 = tb_s1 moon; s2 = tb_s2 moon; s3 = tb_s3 moon; s4 = tb_s4 moon; s6 = tb_s6 moon; s7 = tb_s7 moon;
          z1 = tb_z1 moon; z2 = tb_z2 moon; z3 = tb_z3 moon; z11 = tb_z11 moon; z12 = tb_z12 moon;
          z13 = tb_z13 moon; z21 = tb_z21 moon; z22 = tb_z22 moon; z23 = tb_z23 moon; z31 = tb_z31 moon;
          z32 = tb_z32 moon; z33 = tb_z33 moon;
          ee2 = 2.0 * s1 * s6;
          e3 = 2.0 * s1 * s7;
          xi2 = 2.0 * s2 * z12;
          xi3 = 2.0 * s2 * (z13 - z11);
          xl2 = -2.0 * s3 * z2;
          xl3 = -2.0 * s3 * (z3 - z1);
          xl4 = -2.0 * s3 * (-21.0 - 9.0 * emsq) * zel;
          xgh2 = 2.0 * s4 * z32;
          xgh3 = 2.0 * s4 * (z33 - z31);
          xgh4 = -18.0 * s4 * zel;
          xh2 = -2.0 * s2 * z22;
          xh3 = -2.0 * s2 * (z23 - z21)
      in \<lparr>sr_e3 = e3, sr_ee2 = ee2, sr_xgh2 = xgh2, sr_xgh3 = xgh3, sr_xgh4 = xgh4, sr_xh2 = xh2,
          sr_xh3 = xh3, sr_xi2 = xi2, sr_xi3 = xi3, sr_xl2 = xl2, sr_xl3 = xl3, sr_xl4 = xl4\<rparr>)"

definition dscom ::
    "double \<Rightarrow> double \<Rightarrow> double \<Rightarrow> double \<Rightarrow> double \<Rightarrow> double \<Rightarrow> double \<Rightarrow>
      dscom_angles \<times> third_body \<times> third_body \<times> solar \<times> lunar \<times> periodics" where
  "dscom epoch ep argpp tc inclp nodep np =
     (let twopi = 2.0 * pi;
          c1ss = 0.0000029864797; c1l = 0.00000047968065;
          zsinis = 0.39785416; zcosis = 0.91744867; zcosgs = 0.1945905; zsings = -0.98088458;
          da = dscom_angles_of ep argpp inclp nodep np;
          day = epoch + 18261.5 + tc / 1440.0;
          (zmoon, gam) = dscom_moon da day;
          sun = dscom_pass da (zcosgs, zsings, zcosis, zsinis, da_cnodm da, da_snodm da) c1ss;
          moon = dscom_pass da zmoon c1l;
          zmol = c_fmod (4.7199672 + 0.22997150 * day - gam) twopi;
          zmos = c_fmod (6.2565837 + 0.017201977 * day) twopi
      in (da, sun, moon, dscom_solar sun (da_emsq da), dscom_lunar moon (da_emsq da),
          \<lparr>sr_peo = 0.0, sr_pgho = 0.0, sr_pho = 0.0, sr_pinco = 0.0, sr_plo = 0.0, sr_zmol = zmol, sr_zmos = zmos\<rparr>))"

end
