(* ===== verification/SV_SGP4_Res.thy ===== *)
theory SV_SGP4_Res
  imports SV_SGP4_Deep
begin

text \<open>
  Resonances of orbits of about half a day and of a day: \<open>dsinit\<close> computes the rates of the
  mean elements due to sun and moon and the coefficients of the resonance, \<open>dspace\<close> applies the
  rates and integrates the resonance in steps of 720 minutes from the epoch or from where the
  last call left the integrator.
\<close>

section \<open>Initialisation\<close>

definition dsinit_irez :: "double \<Rightarrow> double \<Rightarrow> int" where
  "dsinit_irez nm em =
     (let irez = 0;
          irez = (if nm < 0.0052359877 \<and> nm > 0.0034906585 then 1 else irez)
      in if nm \<ge> 0.00826 \<and> nm \<le> 0.00924 \<and> em \<ge> 0.5 then 2 else irez)"

definition dsinit_rates :: "dscom_angles \<Rightarrow> third_body \<Rightarrow> third_body \<Rightarrow> double \<Rightarrow> rates" where
  "dsinit_rates da sun moon inclm =
     (let cosim = da_cosim da; sinim = da_sinim da; emsq = da_emsq da;
          ss1 = tb_s1 sun; ss2 = tb_s2 sun; ss3 = tb_s3 sun; ss4 = tb_s4 sun; ss5 = tb_s5 sun;
          sz1 = tb_z1 sun; sz3 = tb_z3 sun; sz11 = tb_z11 sun; sz13 = tb_z13 sun; sz21 = tb_z21 sun;
          sz23 = tb_z23 sun; sz31 = tb_z31 sun; sz33 = tb_z33 sun;
          s1 = tb_s1 moon; s2 = tb_s2 moon; s3 = tb_s3 moon; s4 = tb_s4 moon; s5 = tb_s5 moon;
          z1 = tb_z1 moon; z3 = tb_z3 moon; z11 = tb_z11 moon; z13 = tb_z13 moon; z21 = tb_z21 moon;
          z23 = tb_z23 moon; z31 = tb_z31 moon; z33 = tb_z33 moon;
          znl = 0.00015835218; zns = 0.0000119459;
          ses = ss1 * zns * ss5;
          sis = ss2 * zns * (sz11 + sz13);
          sls = -zns * ss3 * (sz1 + sz3 - 14.0 - 6.0 * emsq);
          sghs = ss4 * zns * (sz31 + sz33 - 6.0);
          shs = -zns * ss2 * (sz21 + sz23);
          shs = (if inclm < 0.052359877 \<or> inclm > pi - 0.052359877 then 0.0 else shs);
          shs = (if sinim \<noteq> 0.0 then shs / sinim else shs);
          sgs = sghs - cosim * shs;
          dedt = ses + s1 * znl * s5;
          didt = sis + s2 * znl * (z11 + z13);
          dmdt = sls - znl * s3 * (z1 + z3 - 14.0 - 6.0 * emsq);
          sghl = s4 * znl * (z31 + z33 - 6.0);
          shll = -znl * s2 * (z21 + z23);
          shll = (if inclm < 0.052359877 \<or> inclm > pi - 0.052359877 then 0.0 else shll);
          domdt = sgs + sghl;
          dnodt = shs;
          domdt = (if sinim \<noteq> 0.0 then domdt - cosim / sinim * shll else domdt);
          dnodt = (if sinim \<noteq> 0.0 then dnodt + shll / sinim else dnodt)
      in \<lparr>sr_dedt = dedt, sr_didt = didt, sr_dmdt = dmdt, sr_dnodt = dnodt, sr_domdt = domdt\<rparr>)"

text \<open>The polynomials in the eccentricity of the twelve hour resonance.\<close>

definition dsinit_g :: "double \<Rightarrow> double \<Rightarrow>
    double \<times> double \<times> double \<times> double \<times> double \<times> double \<times> double \<times> double \<times> double \<times> double" where
  "dsinit_g em emsq =
     (let eoc = em * emsq;
          g201 = -0.306 - (em - 0.64) * 0.440;
          (g211, g310, g322, g410, g422, g520) =
            (if em \<le> 0.65 then
              (let g211 = 3.616 - 13.2470 * em + 16.2900 * emsq;
                   g310 = -19.302 + 117.3900 * em - 228.4190 * emsq + 156.5910 * eoc;
                   g322 = -18.9068 + 109.7927 * em - 214.6334 * emsq + 146.5816 * eoc;
                   g410 = -41.122 + 242.6940 * em - 471.0940 * emsq + 313.9530 * eoc;
                   g422 = -146.407 + 841.8800 * em - 1629.014 * emsq + 1083.4350 * eoc;
                   g520 = -532.114 + 3017.977 * em - 5740.032 * emsq + 3708.2760 * eoc
               in (g211, g310, g322, g410, g422, g520))
             else
              (let g211 = -72.099 + 331.819 * em - 508.738 * emsq + 266.724 * eoc;
                   g310 = -346.844 + 1582.851 * em - 2415.925 * emsq + 1246.113 * eoc;
                   g322 = -342.585 + 1554.908 * em - 2366.899 * emsq + 1215.972 * eoc;
                   g410 = -1052.797 + 4758.686 * em - 7193.992 * emsq + 3651.957 * eoc;
                   g422 = -3581.690 + 16178.110 * em - 24462.770 * emsq + 12422.520 * eoc;
                   g520 = (if em > 0.715 then -5149.66 + 29936.92 * em - 54087.36 * emsq + 31324.56 * eoc
                           else 1464.74 - 4664.75 * em + 3763.64 * emsq)
               in (g211, g310, g322, g410, g422, g520)));
          (g533, g521, g532) =
            (if em < 0.7 then
              (let g533 = -919.22770 + 4988.6100 * em - 9064.7700 * emsq + 5542.21 * eoc;
                   g521 = -822.71072 + 4568.6173 * em - 8491.4146 * emsq + 5337.524 * eoc;
                   g532 = -853.66600 + 4690.2500 * em - 8624.7700 * emsq + 5341.4 * eoc
               in (g533, g521, g532))
             else
              (let g533 = -37995.780 + 161616.52 * em - 229838.20 * emsq + 109377.94 * eoc;
                   g521 = -51752.104 + 218913.95 * em - 309468.16 * emsq + 146349.42 * eoc;
                   g532 = -40023.880 + 170470.89 * em - 242699.48 * emsq + 115605.82 * eoc
               in (g533, g521, g532)))
      in (g201, g211, g310, g322, g410, g422, g520, g533, g521, g532))"

definition dsinit_half_day ::
    "double \<times> double \<times> double \<Rightarrow> double \<times> double \<Rightarrow> double \<times> double \<times> double \<Rightarrow> double \<Rightarrow> rates \<Rightarrow>
      double \<times> double \<times> double \<times> double \<times> double \<Rightarrow> resonance \<Rightarrow> resonance" where
  "dsinit_half_day angles ecc orbit theta rt el res =
     (let (cosim, sinim, nm) = angles; (ecco, eccsq) = ecc; (aonv, no, rptim) = orbit;
          (mo, nodeo, mdot, nodedot, argpo) = el; twopi = 2.0 * pi;
          root22 = 0.0000017891679; root44 = 0.0000000073636953; root54 = 0.0000000021765803;
          root32 = 0.00000037393792; root52 = 0.00000011428639;
          cosisq = cosim * cosim;
          em = ecco; emsq = eccsq;
          (g201, g211, g310, g322, g410, g422, g520, g533, g521, g532) = dsinit_g em emsq;
          sini2 = sinim * sinim;
          f220 = 0.75 * (1.0 + 2.0 * cosim + cosisq);
          f221 = 1.5 * sini2;
          f321 = 1.875 * sinim * (1.0 - 2.0 * cosim - 3.0 * cosisq);
          f322 = -1.875 * sinim * (1.0 + 2.0 * cosim - 3.0 * cosisq);
          f441 = 35.0 * sini2 * f220;
          f442 = 39.3750 * sini2 * sini2;
          f522 = 9.84375 * sinim * (sini2 * (1.0 - 2.0 * cosim - 5.0 * cosisq) + 0.33333333 * (-2.0 + 4.0 * cosim + 6.0 * cosisq));
          f523 = sinim * (4.92187512 * sini2 * (-2.0 - 4.0 * cosim + 10.0 * cosisq) + 6.56250012 * (1.0 + 2.0 * cosim - 3.0 * cosisq));
          f542 = 29.53125 * sinim * (2.0 - 8.0 * cosim + cosisq * (-12.0 + 8.0 * cosim + 10.0 * cosisq));
          f543 = 29.53125 * sinim * (-2.0 - 8.0 * cosim + cosisq * (12.0 + 8.0 * cosim - 10.0 * cosisq));
          xno2 = nm * nm;
          ainv2 = aonv * aonv;
          temp1 = 3.0 * xno2 * ainv2;
          temp = temp1 * root22;
          d2201 = temp * f220 * g201;
          d2211 = temp * f221 * g211;
          temp1 = temp1 * aonv;
          temp = temp1 * root32;
          d3210 = temp * f321 * g310;
          d3222 = temp * f322 * g322;
          temp1 = temp1 * aonv;
          temp = 2.0 * temp1 * root44;
          d4410 = temp * f441 * g410;
          d4422 = temp * f442 * g422;
          temp1 = temp1 * aonv;
          temp = temp1 * root52;
          d5220 = temp * f522 * g520;
          d5232 = temp * f523 * g532;
          temp = 2.0 * temp1 * root54;
          d5421 = temp * f542 * g521;
          d5433 = temp * f543 * g533;
          dmdt = sr_dmdt rt; dnodt = sr_dnodt rt;
          xlamo = c_fmod (mo + nodeo + nodeo - theta - theta) twopi;
          xfact = mdot + dmdt + 2.0 * (nodedot + dnodt - rptim) - no
      in res\<lparr>sr_d2201 := d2201, sr_d2211 := d2211, sr_d3210 := d3210, sr_d3222 := d3222, sr_d4410 := d4410,
             sr_d4422 := d4422, sr_d5220 := d5220, sr_d5232 := d5232, sr_d5421 := d5421, sr_d5433 := d5433,
             sr_xlamo := xlamo, sr_xfact := xfact\<rparr>)"

definition dsinit_sync ::
    "double \<times> double \<times> double \<Rightarrow> double \<Rightarrow> double \<times> double \<times> double \<Rightarrow> double \<Rightarrow> rates \<Rightarrow>
      double \<times> double \<times> double \<times> double \<times> double \<Rightarrow> resonance \<Rightarrow> resonance" where
  "dsinit_sync angles emsq orbit theta rt el res =
     (let (cosim, sinim, nm) = angles; (aonv, no, rptim) = orbit;
          (mo, nodeo, mdot, xpidot, argpo) = el; twopi = 2.0 * pi;
          q22 = 0.0000017891679; q31 = 0.0000021460748; q33 = 0.00000022123015;
          g200 = 1.0 + emsq * (-2.5 + 0.8125 * emsq);
          g310 = 1.0 + 2.0 * emsq;
          g300 = 1.0 + emsq * (-6.0 + 6.60937 * emsq);
          f220 = 0.75 * (1.0 + cosim) * (1.0 + cosim);
          f311 = 0.9375 * sinim * sinim * (1.0 + 3.0 * cosim) - 0.75 * (1.0 + cosim);
          f330 = 1.0 + cosim;
          f330 = 1.875 * f330 * f330 * f330;
          del1 = 3.0 * nm * nm * aonv * aonv;
          del2 = 2.0 * del1 * f220 * g200 * q22;
          del3 = 3.0 * del1 * f330 * g300 * q33 * aonv;
          del1 = del1 * f311 * g310 * q31 * aonv;
          dmdt = sr_dmdt rt; domdt = sr_domdt rt; dnodt = sr_dnodt rt;
          xlamo = c_fmod (mo + nodeo + argpo - theta) twopi;
          xfact = mdot + xpidot - rptim + dmdt + domdt + dnodt - no
      in res\<lparr>sr_del1 := del1, sr_del2 := del2, sr_del3 := del3, sr_xlamo := xlamo, sr_xfact := xfact\<rparr>)"

record mean_elements =
  me_em :: double
  me_argpm :: double
  me_inclm :: double
  me_mm :: double
  me_nm :: double
  me_nodem :: double

text \<open>The update of the mean elements by the rates, shared by \<open>dsinit\<close> and \<open>dspace\<close>.\<close>

definition secular_rates :: "rates \<Rightarrow> double \<Rightarrow> mean_elements \<Rightarrow> mean_elements" where
  "secular_rates rt t me = me\<lparr>me_em := me_em me + sr_dedt rt * t, me_inclm := me_inclm me + sr_didt rt * t,
     me_argpm := me_argpm me + sr_domdt rt * t, me_nodem := me_nodem me + sr_dnodt rt * t,
     me_mm := me_mm me + sr_dmdt rt * t\<rparr>"

definition rptim :: double where
  "rptim = 0.00437526908801129966"

record dsinit_in =
  di_argpo :: double
  di_t :: double
  di_tc :: double
  di_gsto :: double
  di_mo :: double
  di_mdot :: double
  di_no :: double
  di_nodeo :: double
  di_nodedot :: double
  di_xpidot :: double
  di_ecco :: double
  di_eccsq :: double

definition dsinit ::
    "double \<Rightarrow> dscom_angles \<Rightarrow> third_body \<Rightarrow> third_body \<Rightarrow> dsinit_in \<Rightarrow> mean_elements \<Rightarrow> resonance \<Rightarrow> integrator \<Rightarrow>
      mean_elements \<times> double \<times> rates \<times> resonance \<times> integrator" where
  "dsinit xke0 da sun moon d me res ig =
     (let twopi = 2.0 * pi; x2o3 = 2.0 / 3.0;
          irez = dsinit_irez (me_nm me) (me_em me);
          res = res\<lparr>sr_irez := irez\<rparr>;
          rt = dsinit_rates da sun moon (me_inclm me);
          dndt = 0.0;
          theta = c_fmod (di_gsto d + di_tc d * rptim) twopi;
          me = secular_rates rt (di_t d) me
      in if irez \<noteq> 0 then
           (let nm = me_nm me;
                aonv = (nm / xke0) powr x2o3;
                res = (if irez = 2 then
                         dsinit_half_day (da_cosim da, da_sinim da, nm) (di_ecco d, di_eccsq d) (aonv, di_no d, rptim)
                           theta rt (di_mo d, di_nodeo d, di_mdot d, di_nodedot d, di_argpo d) res
                       else res);
                res = (if irez = 1 then
                         dsinit_sync (da_cosim da, da_sinim da, nm) (da_emsq da) (aonv, di_no d, rptim)
                           theta rt (di_mo d, di_nodeo d, di_mdot d, di_xpidot d, di_argpo d) res
                       else res);
                ig = \<lparr>sr_atime = 0.0, sr_xli = sr_xlamo res, sr_xni = di_no d\<rparr>;
                nm = di_no d + dndt
            in (me\<lparr>me_nm := nm\<rparr>, dndt, rt, res, ig))
         else (me, dndt, rt, res, ig))"

section \<open>Propagation\<close>

text \<open>The derivatives \<open>xndt\<close>, \<open>xldot\<close>, \<open>xnddt\<close> at a state of the integrator.\<close>

definition dspace_dots_sync :: "resonance \<Rightarrow> integrator \<Rightarrow> double \<times> double \<times> double" where
  "dspace_dots_sync res ig =
     (let fasx2 = 0.13130908; fasx4 = 2.8843198; fasx6 = 0.37448087;
          del1 = sr_del1 res; del2 = sr_del2 res; del3 = sr_del3 res; xfact = sr_xfact res;
          xli = sr_xli ig; xni = sr_xni ig;
          xndt = del1 * sin (xli - fasx2) + del2 * sin (2.0 * (xli - fasx4)) + del3 * sin (3.0 * (xli - fasx6));
          xldot = xni + xfact;
          xnddt = del1 * cos (xli - fasx2) + 2.0 * del2 * cos (2.0 * (xli - fasx4)) + 3.0 * del3 * cos (3.0 * (xli - fasx6));
          xnddt = xnddt * xldot
      in (xndt, xldot, xnddt))"

definition dspace_dots_half_day :: "resonance \<Rightarrow> double \<Rightarrow> double \<Rightarrow> integrator \<Rightarrow> double \<times> double \<times> double" where
  "dspace_dots_half_day res argpo argpdot ig =
     (let g22 = 5.7686396; g32 = 0.95240898; g44 = 1.8014998; g52 = 1.0508330; g54 = 4.4108898;
          d2201 = sr_d2201 res; d2211 = sr_d2211 res; d3210 = sr_d3210 res; d3222 = sr_d3222 res;
          d4410 = sr_d4410 res; d4422 = sr_d4422 res; d5220 = sr_d5220 res; d5232 = sr_d5232 res;
          d5421 = sr_d5421 res; d5433 = sr_d5433 res; xfact = sr_xfact res;
          atime = sr_atime ig; xli = sr_xli ig; xni = sr_xni ig;
          xomi = argpo + argpdot * atime;
          x2omi = xomi + xomi;
          x2li = xli + xli;
          xndt = d2201 * sin (x2omi + xli - g22) + d2211 * sin (xli - g22) + d3210 * sin (xomi + xli - g32) + d3222 * sin (-xomi + xli - g32) + d4410 * sin (x2omi + x2li - g44) + d4422 * sin (x2li - g44) + d5220 * sin (xomi + xli - g52) + d5232 * sin (-xomi + xli - g52) + d5421 * sin (xomi + x2li - g54) + d5433 * sin (-xomi + x2li - g54);
          xldot = xni + xfact;
          xnddt = d2201 * cos (x2omi + xli - g22) + d2211 * cos (xli - g22) + d3210 * cos (xomi + xli - g32) + d3222 * cos (-xomi + xli - g32) + d5220 * cos (xomi + xli - g52) + d5232 * cos (-xomi + xli - g52) + 2.0 * (d4410 * cos (x2omi + x2li - g44) + d4422 * cos (x2li - g44) + d5421 * cos (xomi + x2li - g54) + d5433 * cos (-xomi + x2li - g54));
          xnddt = xnddt * xldot
      in (xndt, xldot, xnddt))"

definition dspace_dots :: "resonance \<Rightarrow> double \<Rightarrow> double \<Rightarrow> integrator \<Rightarrow> double \<times> double \<times> double" where
  "dspace_dots res argpo argpdot ig =
     (if sr_irez res \<noteq> 2 then dspace_dots_sync res ig else dspace_dots_half_day res argpo argpdot ig)"

definition dspace_step ::
    "(integrator \<Rightarrow> double \<times> double \<times> double) \<Rightarrow> double \<Rightarrow> integrator \<Rightarrow> integrator" where
  "dspace_step dots delt ig =
     (let step2 = 259200.0; (xndt, xldot, xnddt) = dots ig
      in ig\<lparr>sr_xli := sr_xli ig + xldot * delt + xndt * step2,
            sr_xni := sr_xni ig + xndt * delt + xnddt * step2,
            sr_atime := sr_atime ig + delt\<rparr>)"

text \<open>The loop \<open>while (iretn == 381)\<close>; \<open>None\<close> would be a loop that does not end.\<close>

partial_function (option) dspace_loop ::
    "(integrator \<Rightarrow> double \<times> double \<times> double) \<Rightarrow> double \<Rightarrow> double \<Rightarrow> integrator \<Rightarrow> integrator option" where
  "dspace_loop dots t delt ig =
     (let stepp = 720.0 in
      if \<bar>t - sr_atime ig\<bar> \<ge> stepp then dspace_loop dots t delt (dspace_step dots delt ig)
      else Some ig)"

definition dspace_restart :: "double \<Rightarrow> double \<Rightarrow> double \<Rightarrow> integrator \<Rightarrow> integrator" where
  "dspace_restart t no xlamo ig =
     (if sr_atime ig = 0.0 \<or> t * sr_atime ig \<le> 0.0 \<or> \<bar>t\<bar> < \<bar>sr_atime ig\<bar>
      then \<lparr>sr_atime = 0.0, sr_xli = xlamo, sr_xni = no\<rparr> else ig)"

definition dspace ::
    "resonance \<Rightarrow> rates \<Rightarrow> double \<Rightarrow> double \<Rightarrow> double \<Rightarrow> double \<Rightarrow> double \<Rightarrow> double \<Rightarrow> integrator \<Rightarrow> mean_elements \<Rightarrow>
      (integrator \<times> mean_elements \<times> double) option" where
  "dspace res rt argpo argpdot t tc gsto no ig me =
     (let twopi = 2.0 * pi; stepp = 720.0; stepn = -720.0;
          dndt = 0.0;
          theta = c_fmod (gsto + tc * rptim) twopi;
          me = secular_rates rt t me
      in if sr_irez res \<noteq> 0 then
           (let ig = dspace_restart t no (sr_xlamo res) ig;
                delt = (if t > 0.0 then stepp else stepn);
                dots = dspace_dots res argpo argpdot
            in case dspace_loop dots t delt ig of
                 None \<Rightarrow> None
               | Some ig \<Rightarrow>
                   (let (xndt, xldot, xnddt) = dots ig;
                        ft = t - sr_atime ig;
                        nm = sr_xni ig + xndt * ft + xnddt * ft * ft * 0.5;
                        xl = sr_xli ig + xldot * ft + xndt * ft * ft * 0.5;
                        mm = (if sr_irez res \<noteq> 1 then xl - 2.0 * me_nodem me + 2.0 * theta
                              else xl - me_nodem me - me_argpm me + theta);
                        dndt = nm - no;
                        nm = no + dndt
                    in Some (ig, me\<lparr>me_mm := mm, me_nm := nm\<rparr>, dndt)))
         else Some (ig, me, dndt))"

end
