(* ===== verification/SV_SGP4_Res_Props.thy ===== *)
theory SV_SGP4_Res_Props
  imports SV_SGP4_Res
begin

text \<open>
  The integrator of the resonances always stops, and what it computes does not depend on the
  calls made before: every state it is left in lies on the sequence of steps from the epoch.
\<close>

section \<open>Steps\<close>

definition dspace_delt :: "double \<Rightarrow> double" where
  "dspace_delt t = (if t > 0.0 then 720.0 else -720.0)"

definition epoch_state :: "double \<Rightarrow> double \<Rightarrow> integrator" where
  "epoch_state no xlamo = \<lparr>sr_atime = 0.0, sr_xli = xlamo, sr_xni = no\<rparr>"

lemma dspace_step_atime: "sr_atime (dspace_step dots delt ig) = sr_atime ig + delt"
  by (simp add: dspace_step_def Let_def split: prod.split)

lemma dspace_steps_atime: "sr_atime ((dspace_step dots delt ^^ n) ig) = sr_atime ig + of_nat n * delt"
  by (induction n) (simp_all add: dspace_step_atime algebra_simps)

lemma dspace_loop_unfold:
  "dspace_loop dots t delt ig =
     (if \<bar>t - sr_atime ig\<bar> \<ge> 720 then dspace_loop dots t delt (dspace_step dots delt ig) else Some ig)"
  by (subst dspace_loop.simps) (simp add: Let_def)

text \<open>The distance to the target falls by 720 in each step towards it.\<close>

lemma towards:
  assumes "\<bar>delt\<bar> = (720::real)" and "0 \<le> d * delt"
  shows "\<bar>d\<bar> \<ge> 720 \<Longrightarrow> 0 \<le> (d - delt) * delt \<and> \<bar>d - delt\<bar> = \<bar>d\<bar> - 720"
proof -
  assume "\<bar>d\<bar> \<ge> 720"
  from assms(1) have "delt = 720 \<or> delt = -720" by linarith
  then show ?thesis using assms(2) \<open>\<bar>d\<bar> \<ge> 720\<close> by auto
qed

lemma within_step:
  assumes "\<bar>delt\<bar> = 720" "0 \<le> (t - a) * delt" "k \<le> \<bar>t - a\<bar> / 720" "\<bar>t - a\<bar> / 720 < k + 1"
  shows "\<bar>t - (a + k * delt)\<bar> < (720 :: real)"
proof -
  from assms(1) have "delt = 720 \<or> delt = -720" by linarith
  then show ?thesis using assms(2-4) by (auto simp: abs_if split: if_splits)
qed

lemma floor_less_step: "720 \<le> (x::real) \<Longrightarrow> nat \<lfloor>x / 720\<rfloor> = Suc (nat \<lfloor>(x - 720) / 720\<rfloor>)"
proof -
  assume x: "720 \<le> x"
  have "\<lfloor>x / 720\<rfloor> = \<lfloor>(x - 720) / 720\<rfloor> + 1" by (simp add: diff_divide_distrib)
  moreover have "0 \<le> \<lfloor>(x - 720) / 720\<rfloor>" using x by simp
  ultimately show ?thesis by (simp only: Suc_nat_eq_nat_zadd1 add.commute)
qed

lemma dspace_loop_steps:
  assumes "\<bar>delt\<bar> = 720" and "0 \<le> (t - sr_atime ig) * delt"
  shows "dspace_loop dots t delt ig = Some ((dspace_step dots delt ^^ nat \<lfloor>\<bar>t - sr_atime ig\<bar> / 720\<rfloor>) ig)"
  using assms(2)
proof (induction "nat \<lfloor>\<bar>t - sr_atime ig\<bar> / 720\<rfloor>" arbitrary: ig)
  case 0
  have "\<not> \<bar>t - sr_atime ig\<bar> \<ge> 720"
    using 0(1) floor_less_step [of "\<bar>t - sr_atime ig\<bar>"] by auto
  then show ?case using 0(1) by (subst dspace_loop_unfold) simp
next
  case (Suc n)
  let ?ig = "dspace_step dots delt ig"
  have far: "\<bar>t - sr_atime ig\<bar> \<ge> 720"
  proof (rule ccontr)
    assume "\<not> \<bar>t - sr_atime ig\<bar> \<ge> 720"
    then have "\<lfloor>\<bar>t - sr_atime ig\<bar> / 720\<rfloor> = 0" by (intro floor_eq_iff [THEN iffD2]) simp
    with Suc(2) show False by simp
  qed
  have d: "t - sr_atime ?ig = (t - sr_atime ig) - delt" by (simp add: dspace_step_atime)
  note tw = towards [OF assms(1) Suc(3) far]
  have n: "nat \<lfloor>\<bar>t - sr_atime ig\<bar> / 720\<rfloor> = Suc (nat \<lfloor>\<bar>t - sr_atime ?ig\<bar> / 720\<rfloor>)"
    using floor_less_step [OF far] tw by (simp add: d)
  have "dspace_loop dots t delt ?ig = Some ((dspace_step dots delt ^^ nat \<lfloor>\<bar>t - sr_atime ?ig\<bar> / 720\<rfloor>) ?ig)"
    using Suc(2) n tw by (intro Suc(1)) (simp_all add: d)
  then show ?case
    using far n by (subst dspace_loop_unfold) (simp add: funpow_swap1)
qed

section \<open>The trajectory from the epoch\<close>

definition on_trajectory ::
    "(integrator \<Rightarrow> double \<times> double \<times> double) \<Rightarrow> double \<Rightarrow> double \<Rightarrow> integrator \<Rightarrow> bool" where
  "on_trajectory dots no xlamo ig \<longleftrightarrow>
     (\<exists>n delt. \<bar>delt\<bar> = 720 \<and> ig = (dspace_step dots delt ^^ n) (epoch_state no xlamo))"

lemma epoch_on_trajectory: "on_trajectory dots no xlamo (epoch_state no xlamo)"
  unfolding on_trajectory_def by (rule exI [of _ 0], rule exI [of _ 720]) simp

lemma dspace_restart_epoch: "dspace_restart t no xlamo (epoch_state no xlamo) = epoch_state no xlamo"
  by (simp add: dspace_restart_def epoch_state_def)

text \<open>After the restart the integrator is between the epoch and the target.\<close>

lemma restart_between: "0 \<le> (t - sr_atime (dspace_restart t no xlamo ig)) * dspace_delt t"
proof (cases "sr_atime ig = 0 \<or> t * sr_atime ig \<le> 0 \<or> \<bar>t\<bar> < \<bar>sr_atime ig\<bar>")
  case True
  then show ?thesis by (auto simp: dspace_restart_def dspace_delt_def)
next
  case False
  then have "dspace_restart t no xlamo ig = ig" by (simp add: dspace_restart_def)
  moreover have "0 < t \<and> 0 < sr_atime ig \<and> sr_atime ig \<le> t \<or> t < 0 \<and> sr_atime ig < 0 \<and> t \<le> sr_atime ig"
    using False by (auto simp: not_le zero_less_mult_iff)
  ultimately show ?thesis by (auto simp: dspace_delt_def)
qed

lemma abs_dspace_delt: "\<bar>dspace_delt t\<bar> = 720"
  by (simp add: dspace_delt_def)

text \<open>From a state on the trajectory the loop ends in the state with \<open>\<lfloor>|t| / 720\<rfloor>\<close> steps.\<close>

lemma dspace_loop_trajectory:
  assumes "on_trajectory dots no xlamo ig"
  shows "dspace_loop dots t (dspace_delt t) (dspace_restart t no xlamo ig) =
    Some ((dspace_step dots (dspace_delt t) ^^ nat \<lfloor>\<bar>t\<bar> / 720\<rfloor>) (epoch_state no xlamo))"
proof -
  let ?r = "dspace_restart t no xlamo ig"
  define k where "k = nat \<lfloor>\<bar>t - sr_atime ?r\<bar> / 720\<rfloor>"
  have loop: "dspace_loop dots t (dspace_delt t) ?r = Some ((dspace_step dots (dspace_delt t) ^^ k) ?r)"
    unfolding k_def by (rule dspace_loop_steps [OF abs_dspace_delt restart_between])
  obtain n delt where n: "\<bar>delt\<bar> = 720" "ig = (dspace_step dots delt ^^ n) (epoch_state no xlamo)"
    using assms by (auto simp: on_trajectory_def)
  have at: "sr_atime ig = of_nat n * delt"
    by (simp add: n(2) dspace_steps_atime epoch_state_def)
  show ?thesis
  proof (cases "sr_atime ig = 0 \<or> t * sr_atime ig \<le> 0 \<or> \<bar>t\<bar> < \<bar>sr_atime ig\<bar>")
    case True
    then have "?r = epoch_state no xlamo" by (simp add: dspace_restart_def epoch_state_def)
    then show ?thesis using loop by (simp add: epoch_state_def k_def)
  next
    case False
    then have r: "?r = ig" by (simp add: dspace_restart_def)
    have d: "delt = 720 \<or> delt = -720" using n(1) by linarith
    have same: "0 < t \<and> 0 < delt \<and> of_nat n * 720 \<le> t \<or> t < 0 \<and> delt < 0 \<and> of_nat n * 720 \<le> - t"
      using False d by (auto simp: at not_le zero_less_mult_iff mult_less_0_iff)
    then have delt: "delt = dspace_delt t" using d by (auto simp: dspace_delt_def)
    have "\<bar>t - sr_atime ig\<bar> / 720 = \<bar>t\<bar> / 720 - of_nat n"
      using same d by (auto simp: at)
    then have "\<lfloor>\<bar>t - sr_atime ig\<bar> / 720\<rfloor> = \<lfloor>\<bar>t\<bar> / 720 - of_int (int n)\<rfloor>" by (simp only: of_int_of_nat_eq)
    also have "\<dots> = \<lfloor>\<bar>t\<bar> / 720\<rfloor> - int n" by (rule floor_diff_of_int)
    finally have "\<lfloor>\<bar>t - sr_atime ig\<bar> / 720\<rfloor> = \<lfloor>\<bar>t\<bar> / 720\<rfloor> - int n" .
    moreover have "int n \<le> \<lfloor>\<bar>t\<bar> / 720\<rfloor>" using same by (auto simp: le_floor_iff)
    ultimately have k: "k + n = nat \<lfloor>\<bar>t\<bar> / 720\<rfloor>" unfolding k_def r by simp
    have "(dspace_step dots (dspace_delt t) ^^ k) ?r =
        (dspace_step dots (dspace_delt t) ^^ (k + n)) (epoch_state no xlamo)"
      by (simp only: r) (simp only: n(2) delt funpow_add comp_apply)
    then show ?thesis using loop by (simp only: k)
  qed
qed

section \<open>Propagation\<close>

lemma dspace_unfold:
  "dspace res rt argpo argpdot t tc gsto no ig me =
     (let me = secular_rates rt t me; theta = c_fmod (gsto + tc * rptim) (2.0 * pi);
          dots = dspace_dots res argpo argpdot
      in if sr_irez res \<noteq> 0 then
           (case dspace_loop dots t (dspace_delt t) (dspace_restart t no (sr_xlamo res) ig) of
              None \<Rightarrow> None
            | Some ig \<Rightarrow>
                (let (xndt, xldot, xnddt) = dots ig;
                     ft = t - sr_atime ig;
                     nm = sr_xni ig + xndt * ft + xnddt * ft * ft * 0.5;
                     xl = sr_xli ig + xldot * ft + xndt * ft * ft * 0.5;
                     mm = (if sr_irez res \<noteq> 1 then xl - 2.0 * me_nodem me + 2.0 * theta
                           else xl - me_nodem me - me_argpm me + theta);
                     dndt = nm - no
                 in Some (ig, me\<lparr>me_mm := mm, me_nm := no + dndt\<rparr>, dndt)))
         else Some (ig, me, 0.0))"
  by (simp only: dspace_def Let_def dspace_delt_def)

text \<open>C10: The integration of the resonances ends for every state of the integrator, within 720 minutes of
  the target.\<close>

theorem dspace_total:
  "\<exists>ig' me' dndt. dspace res rt argpo argpdot t tc gsto no ig me = Some (ig', me', dndt) \<and>
     (sr_irez res \<noteq> 0 \<longrightarrow> \<bar>t - sr_atime ig'\<bar> < 720) \<and> (sr_irez res = 0 \<longrightarrow> ig' = ig \<and> dndt = 0)"
proof (cases "sr_irez res = 0")
  case False
  let ?dots = "dspace_dots res argpo argpdot"
  let ?r = "dspace_restart t no (sr_xlamo res) ig"
  let ?k = "nat \<lfloor>\<bar>t - sr_atime ?r\<bar> / 720\<rfloor>"
  let ?ig = "(dspace_step ?dots (dspace_delt t) ^^ ?k) ?r"
  have loop: "dspace_loop ?dots t (dspace_delt t) ?r = Some ?ig"
    by (rule dspace_loop_steps [OF abs_dspace_delt restart_between])
  have "real ?k = of_int \<lfloor>\<bar>t - sr_atime ?r\<bar> / 720\<rfloor>" by simp
  then have k: "real ?k \<le> \<bar>t - sr_atime ?r\<bar> / 720" "\<bar>t - sr_atime ?r\<bar> / 720 < real ?k + 1"
    using of_int_floor_le [of "\<bar>t - sr_atime ?r\<bar> / 720"] real_of_int_floor_add_one_gt [of "\<bar>t - sr_atime ?r\<bar> / 720"]
    by (simp_all only:)
  have "\<bar>t - sr_atime ?ig\<bar> < 720"
    unfolding dspace_steps_atime using abs_dspace_delt restart_between k by (rule within_step)
  then show ?thesis
    using False by (auto simp: dspace_unfold loop Let_def split: prod.split)
qed (simp add: dspace_unfold Let_def)

text \<open>What the integration of the resonances yields does not depend on earlier calls: from any state the
  integrator can be left in it gives the mean elements it gives when started at the epoch, and
  it is left in such a state again.\<close>

lemma dspace_history:
  assumes "on_trajectory (dspace_dots res argpo argpdot) no (sr_xlamo res) ig"
    and "dspace res rt argpo argpdot t tc gsto no ig me = Some (ig', me', dndt)"
  shows "on_trajectory (dspace_dots res argpo argpdot) no (sr_xlamo res) ig' \<and>
    (\<exists>ig0. dspace res rt argpo argpdot t tc gsto no (epoch_state no (sr_xlamo res)) me = Some (ig0, me', dndt))"
proof (cases "sr_irez res = 0")
  case True
  then show ?thesis using assms by (auto simp: dspace_unfold Let_def)
next
  case False
  let ?dots = "dspace_dots res argpo argpdot"
  let ?e = "epoch_state no (sr_xlamo res)"
  let ?ig = "(dspace_step ?dots (dspace_delt t) ^^ nat \<lfloor>\<bar>t\<bar> / 720\<rfloor>) ?e"
  have "dspace_loop ?dots t (dspace_delt t) (dspace_restart t no (sr_xlamo res) ig) = Some ?ig"
    using assms(1) by (rule dspace_loop_trajectory)
  moreover have "dspace_loop ?dots t (dspace_delt t) (dspace_restart t no (sr_xlamo res) ?e) = Some ?ig"
    using epoch_on_trajectory by (rule dspace_loop_trajectory)
  ultimately have same: "dspace res rt argpo argpdot t tc gsto no ?e me = dspace res rt argpo argpdot t tc gsto no ig me"
    and ig': "ig' = ?ig"
    using False assms(2) by (auto simp: dspace_unfold Let_def split: prod.splits)
  have "on_trajectory ?dots no (sr_xlamo res) ?ig"
    unfolding on_trajectory_def using abs_dspace_delt by blast
  then show ?thesis using same assms(2) ig' by auto
qed

end
