(* ===== verification/SV_SGP4.thy ===== *)
theory SV_SGP4
  imports SV_SGP4_Res_Props
begin

text \<open>
  The propagator of \<open>SGP4.cc\<close>: \<open>initl\<close>, \<open>sgp4init\<close> and \<open>sgp4\<close>. The long bodies are cut at the
  comments of the code into one definition per part; what a part reads is its argument, what
  it leaves for the later ones its result. \<open>sgp4\<close> returns the new state, position and
  velocity (unchanged on an early return) and the code's boolean.
\<close>

section \<open>Initialisation\<close>

record initl_out =
  io_ao :: double
  io_con41 :: double
  io_con42 :: double
  io_cosio :: double
  io_cosio2 :: double
  io_eccsq :: double
  io_omeosq :: double
  io_posq :: double
  io_rp :: double
  io_rteosq :: double
  io_sinio :: double
  io_gsto :: double
  io_no_unkozai :: double

definition initl :: "double \<Rightarrow> double \<Rightarrow> double \<Rightarrow> double \<Rightarrow> double \<Rightarrow> double \<Rightarrow> initl_out" where
  "initl xke0 j20 ecco epoch inclo no_kozai =
     (let xke = xke0; j2 = j20; x2o3 = 2.0 / 3.0;
          eccsq = ecco * ecco;
          omeosq = 1.0 - eccsq;
          rteosq = sqrt omeosq;
          cosio = cos inclo;
          cosio2 = cosio * cosio;
          ak = (xke / no_kozai) powr x2o3;
          d1 = 0.75 * j2 * (3.0 * cosio2 - 1.0) / (rteosq * omeosq);
          del = d1 / (ak * ak);
          adel = ak * (1.0 - del * del - del * (1.0 / 3.0 + 134.0 * del * del / 81.0));
          del = d1 / (adel * adel);
          no_unkozai = no_kozai / (1.0 + del);
          ao = (xke / no_unkozai) powr x2o3;
          sinio = sin inclo;
          po = ao * omeosq;
          con42 = 1.0 - 5.0 * cosio2;
          con41 = -con42 - cosio2 - cosio2;
          posq = po * po;
          rp = ao * (1.0 - ecco);
          gsto = gstime_SGP4 (epoch + 2433281.5)
      in \<lparr>io_ao = ao, io_con41 = con41, io_con42 = con42, io_cosio = cosio, io_cosio2 = cosio2, io_eccsq = eccsq,
          io_omeosq = omeosq, io_posq = posq, io_rp = rp, io_rteosq = rteosq, io_sinio = sinio, io_gsto = gsto,
          io_no_unkozai = no_unkozai\<rparr>)"

text \<open>All coefficients zero.\<close>

definition near_zero :: near_earth where
  "near_zero = \<lparr>sr_isimp = 0, sr_aycof = 0.0, sr_con41 = 0.0, sr_cc1 = 0.0, sr_cc4 = 0.0, sr_cc5 = 0.0, sr_d2 = 0.0,
     sr_d3 = 0.0, sr_d4 = 0.0, sr_delmo = 0.0, sr_eta = 0.0, sr_argpdot = 0.0, sr_omgcof = 0.0, sr_sinmao = 0.0\<rparr>"

definition more_zero :: near_earth_more where
  "more_zero = \<lparr>sr_t2cof = 0.0, sr_t3cof = 0.0, sr_t4cof = 0.0, sr_t5cof = 0.0, sr_x1mth2 = 0.0, sr_x7thm1 = 0.0,
     sr_mdot = 0.0, sr_nodedot = 0.0, sr_xlcof = 0.0, sr_xmcof = 0.0, sr_nodecf = 0.0\<rparr>"

definition res_zero :: resonance where
  "res_zero = \<lparr>sr_irez = 0, sr_d2201 = 0.0, sr_d2211 = 0.0, sr_d3210 = 0.0, sr_d3222 = 0.0, sr_d4410 = 0.0, sr_d4422 = 0.0, sr_d5220 = 0.0,
     sr_d5232 = 0.0, sr_d5421 = 0.0, sr_d5433 = 0.0, sr_del1 = 0.0, sr_del2 = 0.0, sr_del3 = 0.0, sr_xfact = 0.0, sr_xlamo = 0.0\<rparr>"

definition rates_zero :: rates where
  "rates_zero = \<lparr>sr_dedt = 0.0, sr_didt = 0.0, sr_dmdt = 0.0, sr_dnodt = 0.0, sr_domdt = 0.0\<rparr>"

definition per_zero :: periodics where
  "per_zero = \<lparr>sr_peo = 0.0, sr_pgho = 0.0, sr_pho = 0.0, sr_pinco = 0.0, sr_plo = 0.0, sr_zmol = 0.0,
     sr_zmos = 0.0\<rparr>"

definition solar_zero :: solar where
  "solar_zero = \<lparr>sr_se2 = 0.0, sr_se3 = 0.0, sr_sgh2 = 0.0, sr_sgh3 = 0.0, sr_sgh4 = 0.0, sr_sh2 = 0.0,
     sr_sh3 = 0.0, sr_si2 = 0.0, sr_si3 = 0.0, sr_sl2 = 0.0, sr_sl3 = 0.0, sr_sl4 = 0.0\<rparr>"

definition lunar_zero :: lunar where
  "lunar_zero = \<lparr>sr_e3 = 0.0, sr_ee2 = 0.0, sr_xgh2 = 0.0, sr_xgh3 = 0.0, sr_xgh4 = 0.0, sr_xh2 = 0.0,
     sr_xh3 = 0.0, sr_xi2 = 0.0, sr_xi3 = 0.0, sr_xl2 = 0.0, sr_xl3 = 0.0, sr_xl4 = 0.0\<rparr>"

definition integ_zero :: integrator where
  "integ_zero = \<lparr>sr_atime = 0.0, sr_xli = 0.0, sr_xni = 0.0\<rparr>"

definition avg_zero :: averaged where
  "avg_zero = \<lparr>sr_am = 0.0, sr_em = 0.0, sr_im = 0.0, sr_Node = 0.0, sr_om = 0.0, sr_mm = 0.0,
     sr_nm = 0.0\<rparr>"

text \<open>The density function parameters, altered for perigees below 156 km.\<close>

definition sgp4init_density :: "double \<Rightarrow> double \<Rightarrow> double \<times> double" where
  "sgp4init_density radius rp =
     (let ss = 78.0 / radius + 1.0;
          qzms2ttemp = (120.0 - 78.0) / radius;
          qzms2t = qzms2ttemp * qzms2ttemp * qzms2ttemp * qzms2ttemp;
          sfour = ss;
          qzms24 = qzms2t;
          perige = (rp - 1.0) * radius
      in if perige < 156.0 then
           (let sfour = (if perige < 98.0 then 20.0 else perige - 78.0);
                qzms24temp = (120.0 - sfour) / radius;
                qzms24 = qzms24temp * qzms24temp * qzms24temp * qzms24temp
            in (sfour / radius + 1.0, qzms24))
         else (sfour, qzms24))"

text \<open>The coefficients of the near-earth theory.\<close>

definition sgp4init_near ::
    "gravconst \<Rightarrow> elements \<Rightarrow> initl_out \<Rightarrow> double \<times> double \<Rightarrow> near_earth \<times> near_earth_more \<times> double \<times> double" where
  "sgp4init_near gc el io dens =
     (let (sfour, qzms24) = dens;
          radiusearthkm = radiusearthkm gc; j2 = j2 gc; j4 = j4 gc; j3oj2 = j3oj2 gc;
          ao = io_ao io; con41 = io_con41 io; con42 = io_con42 io; cosio = io_cosio io; cosio2 = io_cosio2 io;
          omeosq = io_omeosq io; posq = io_posq io; rp = io_rp io; rteosq = io_rteosq io; sinio = io_sinio io;
          no_unkozai = io_no_unkozai io; ecco = sr_ecco el; argpo = sr_argpo el; mo = sr_mo el; bstar = sr_bstar el;
          x2o3 = 2.0 / 3.0; temp4 = 0.0000000000015;
          isimp = (if rp < (220.0 / radiusearthkm + 1.0) then 1 else 0);
          pinvsq = 1.0 / posq;
          tsi = 1.0 / (ao - sfour);
          eta = ao * ecco * tsi;
          etasq = eta * eta;
          eeta = ecco * eta;
          psisq = \<bar>1.0 - etasq\<bar>;
          coef = qzms24 * tsi ^ 4;
          coef1 = coef / psisq powr 3.5;
          cc2 = coef1 * no_unkozai * (ao * (1.0 + 1.5 * etasq + eeta * (4.0 + etasq)) + 0.375 * j2 * tsi / psisq * con41 * (8.0 + 3.0 * etasq * (8.0 + etasq)));
          cc1 = bstar * cc2;
          cc3 = (if ecco > 0.0001 then -2.0 * coef * tsi * j3oj2 * no_unkozai * sinio / ecco else 0.0);
          x1mth2 = 1.0 - cosio2;
          cc4 = 2.0* no_unkozai * coef1 * ao * omeosq * (eta * (2.0 + 0.5 * etasq) + ecco * (0.5 + 2.0 * etasq) - j2 * tsi / (ao * psisq) * (-3.0 * con41 * (1.0 - 2.0 * eeta + etasq * (1.5 - 0.5 * eeta)) + 0.75 * x1mth2 * (2.0 * etasq - eeta * (1.0 + etasq)) * cos (2.0 * argpo)));
          cc5 = 2.0 * coef1 * ao * omeosq * (1.0 + 2.75 * (etasq + eeta) + eeta * etasq);
          cosio4 = cosio2 * cosio2;
          temp1 = 1.5 * j2 * pinvsq * no_unkozai;
          temp2 = 0.5 * temp1 * j2 * pinvsq;
          temp3 = -0.46875 * j4 * pinvsq * pinvsq * no_unkozai;
          mdot = no_unkozai + 0.5 * temp1 * rteosq * con41 + 0.0625 * temp2 * rteosq * (13.0 - 78.0 * cosio2 + 137.0 * cosio4);
          argpdot = -0.5 * temp1 * con42 + 0.0625 * temp2 * (7.0 - 114.0 * cosio2 + 395.0 * cosio4) + temp3 * (3.0 - 36.0 * cosio2 + 49.0 * cosio4);
          xhdot1 = -temp1 * cosio;
          nodedot = xhdot1 + (0.5 * temp2 * (4.0 - 19.0 * cosio2) + 2.0 * temp3 * (3.0 - 7.0 * cosio2)) * cosio;
          xpidot = argpdot + nodedot;
          omgcof = bstar * cc3 * cos (argpo);
          xmcof = (if ecco > 0.0001 then -x2o3 * coef * bstar / eeta else 0.0);
          nodecf = 3.5 * omeosq * xhdot1 * cc1;
          t2cof = 1.5 * cc1;
          xlcof = (if \<bar>cosio + 1.0\<bar> > 0.0000000000015
                   then -0.25 * j3oj2 * sinio * (3.0 + 5.0 * cosio) / (1.0 + cosio)
                   else -0.25 * j3oj2 * sinio * (3.0 + 5.0 * cosio) / temp4);
          aycof = -0.5 * j3oj2 * sinio;
          delmotemp = 1.0 + eta * cos (mo);
          delmo = delmotemp * delmotemp * delmotemp;
          sinmao = sin (mo);
          x7thm1 = 7.0 * cosio2 - 1.0
      in (near_zero\<lparr>sr_isimp := isimp, sr_aycof := aycof, sr_con41 := con41, sr_cc1 := cc1, sr_cc4 := cc4, sr_cc5 := cc5,
            sr_delmo := delmo, sr_eta := eta, sr_argpdot := argpdot, sr_omgcof := omgcof, sr_sinmao := sinmao\<rparr>,
          more_zero\<lparr>sr_t2cof := t2cof, sr_x1mth2 := x1mth2, sr_x7thm1 := x7thm1, sr_mdot := mdot, sr_nodedot := nodedot,
            sr_xlcof := xlcof, sr_xmcof := xmcof, sr_nodecf := nodecf\<rparr>,
          tsi, xpidot))"

text \<open>The coefficients of higher order of the drag, for perigees from 220 km.\<close>

definition sgp4init_drag ::
    "double \<Rightarrow> double \<Rightarrow> double \<Rightarrow> near_earth \<times> near_earth_more \<Rightarrow> near_earth \<times> near_earth_more" where
  "sgp4init_drag ao tsi sfour nm =
     (let (ne, mo) = nm in
      if sr_isimp ne \<noteq> 1 then
        (let cc1 = sr_cc1 ne;
             cc1sq = cc1 * cc1;
             d2 = 4.0 * ao * tsi * cc1sq;
             temp = d2 * tsi * cc1 / 3.0;
             d3 = (17.0 * ao + sfour) * temp;
             d4 = 0.5 * temp * ao * tsi * (221.0 * ao + 31.0 * sfour) * cc1;
             t3cof = d2 + 2.0 * cc1sq;
             t4cof = 0.25 * (3.0 * d3 + cc1 * (12.0 * d2 + 10.0 * cc1sq));
             t5cof = 0.2 * (3.0 * d4 + 12.0 * cc1 * d3 + 6.0 * d2 * d2 + 15.0 * cc1sq * (2.0 * d2 + cc1sq))
         in (ne\<lparr>sr_d2 := d2, sr_d3 := d3, sr_d4 := d4\<rparr>, mo\<lparr>sr_t3cof := t3cof, sr_t4cof := t4cof, sr_t5cof := t5cof\<rparr>))
      else nm)"

text \<open>Deep space: the coefficients of sun, moon and resonance.\<close>

definition sgp4init_deep :: "double \<Rightarrow> initl_out \<Rightarrow> double \<Rightarrow> elsetrec \<Rightarrow> elsetrec" where
  "sgp4init_deep epoch io xpidot s =
     (let tc = 0.0; el = sr_el s; inclm = sr_inclo el;
          (da, sun, moon, so, lu, per) =
            dscom epoch (sr_ecco el) (sr_argpo el) tc (sr_inclo el) (sr_nodeo el) (sr_no_unkozai el);
          (ecco, inclo, nodeo, argpo, mo) =
            dpper so lu per (sr_time s) (sr_init s) (sr_operationmode s)
              (sr_ecco el, sr_inclo el, sr_nodeo el, sr_argpo el, sr_mo el);
          el = el\<lparr>sr_ecco := ecco, sr_inclo := inclo, sr_nodeo := nodeo, sr_argpo := argpo, sr_mo := mo\<rparr>;
          me = \<lparr>me_em = da_em da, me_argpm = 0.0, me_inclm = inclm, me_mm = 0.0, me_nm = da_nm da, me_nodem = 0.0\<rparr>;
          di = \<lparr>di_argpo = argpo, di_t = sr_time s, di_tc = tc, di_gsto = sr_gsto el, di_mo = mo,
                di_mdot = sr_mdot (sr_more s), di_no = sr_no_unkozai el, di_nodeo = nodeo,
                di_nodedot = sr_nodedot (sr_more s), di_xpidot = xpidot, di_ecco = ecco, di_eccsq = io_eccsq io\<rparr>;
          (me, dndt, rt, res, ig) = dsinit (xke (sr_grav s)) da sun moon di me (sr_res s) (sr_integ s)
      in s\<lparr>sr_method := CHR ''d'', sr_near := (sr_near s)\<lparr>sr_isimp := 1\<rparr>, sr_el := el, sr_solar := so, sr_lunar := lu,
           sr_per := per, sr_rates := rt, sr_res := res, sr_integ := ig\<rparr>)"

record tle_elements =
  te_bstar :: double
  te_ndot :: double
  te_nddot :: double
  te_ecco :: double
  te_argpo :: double
  te_inclo :: double
  te_mo :: double
  te_no :: double
  te_nodeo :: double

text \<open>\<open>sgp4init\<close> up to its last call, the propagation to the epoch.\<close>

definition sgp4init_state :: "gravconsttype \<Rightarrow> char \<Rightarrow> string \<Rightarrow> double \<Rightarrow> tle_elements \<Rightarrow> elsetrec" where
  "sgp4init_state whichconst opsmode satn epoch te =
     (let gc = getgravconst whichconst;
          io = initl (xke gc) (j2 gc) (te_ecco te) epoch (te_inclo te) (te_no te);
          a = (io_no_unkozai io * tumin gc) powr (-2.0 / 3.0);
          el = \<lparr>sr_a = a, sr_altp = a * (1.0 - te_ecco te) - 1.0, sr_alta = a * (1.0 + te_ecco te) - 1.0,
                sr_nddot = te_nddot te, sr_ndot = te_ndot te, sr_bstar = te_bstar te, sr_inclo = te_inclo te,
                sr_nodeo = te_nodeo te, sr_ecco = te_ecco te, sr_argpo = te_argpo te, sr_mo = te_mo te,
                sr_no_kozai = te_no te, sr_no_unkozai = io_no_unkozai io, sr_gsto = io_gsto io\<rparr>;
          s = \<lparr>sr_satnum = satn, sr_error = 0, sr_operationmode = opsmode, sr_init = CHR ''y'', sr_method = CHR ''n'',
               sr_time = 0.0, sr_near = near_zero\<lparr>sr_con41 := io_con41 io\<rparr>, sr_more = more_zero, sr_res = res_zero,
               sr_rates = rates_zero, sr_per = per_zero, sr_solar = solar_zero, sr_lunar = lunar_zero,
               sr_integ = integ_zero, sr_el = el, sr_avg = avg_zero, sr_grav = gc\<rparr>
      in if io_omeosq io \<ge> 0.0 \<or> io_no_unkozai io \<ge> 0.0 then
           (let dens = sgp4init_density (radiusearthkm gc) (io_rp io);
                (ne, mo, tsi, xpidot) = sgp4init_near gc el io dens;
                s = s\<lparr>sr_near := ne, sr_more := mo\<rparr>;
                s = (if 2 * pi / io_no_unkozai io \<ge> 225.0 then sgp4init_deep epoch io xpidot s else s);
                (ne, mo) = sgp4init_drag (io_ao io) tsi (fst dens) (sr_near s, sr_more s)
            in s\<lparr>sr_near := ne, sr_more := mo\<rparr>)
         else s)"

section \<open>Propagation\<close>

text \<open>Secular gravity and drag: mean anomaly, perigee, node and the three drag terms.\<close>

definition sgp4_secular ::
    "elements \<Rightarrow> near_earth \<Rightarrow> near_earth_more \<Rightarrow> double \<Rightarrow> double \<times> double \<times> double \<times> double \<times> double \<times> double" where
  "sgp4_secular el ne mo t =
     (let xmdf = sr_mo el + sr_mdot mo * t;
          argpdf = sr_argpo el + sr_argpdot ne * t;
          nodedf = sr_nodeo el + sr_nodedot mo * t;
          argpm = argpdf;
          mm = xmdf;
          t2 = t * t;
          nodem = nodedf + sr_nodecf mo * t2;
          tempa = 1.0 - sr_cc1 ne * t;
          tempe = sr_bstar el * sr_cc4 ne * t;
          templ = sr_t2cof mo * t2
      in if sr_isimp ne \<noteq> 1 then
           (let delomg = sr_omgcof ne * t;
                delmtemp = 1.0 + sr_eta ne * cos xmdf;
                delm = sr_xmcof mo * (delmtemp * delmtemp * delmtemp - sr_delmo ne);
                temp = delomg + delm;
                mm = xmdf + temp;
                argpm = argpdf - temp;
                t3 = t2 * t;
                t4 = t3 * t;
                tempa = tempa - sr_d2 ne * t2 - sr_d3 ne * t3 - sr_d4 ne * t4;
                tempe = tempe + sr_bstar el * sr_cc5 ne * (sin mm - sr_sinmao ne);
                templ = templ + sr_t3cof mo * t3 + t4 * (sr_t4cof mo + t * sr_t5cof mo)
            in (mm, argpm, nodem, tempa, tempe, templ))
         else (mm, argpm, nodem, tempa, tempe, templ))"

text \<open>Node, perigee and anomaly reduced to one turn.\<close>

definition sgp4_reduce :: "double \<Rightarrow> double \<Rightarrow> double \<Rightarrow> double \<times> double \<times> double" where
  "sgp4_reduce mm argpm nodem =
     (let twopi = 2.0 * pi;
          xlm = mm + argpm + nodem;
          nodem = c_fmod nodem twopi;
          argpm = c_fmod argpm twopi;
          xlm = c_fmod xlm twopi;
          mm = c_fmod (xlm - argpm - nodem) twopi
      in (mm, argpm, nodem))"

text \<open>The periodics of sun and moon with the repair of a negative inclination.\<close>

definition sgp4_dpper ::
    "elsetrec \<Rightarrow> double \<times> double \<times> double \<times> double \<times> double \<Rightarrow> double \<times> double \<times> double \<times> double \<times> double" where
  "sgp4_dpper s old =
     (let (ep, xincp, nodep, argpp, mp) =
            dpper (sr_solar s) (sr_lunar s) (sr_per s) (sr_time s) CHR ''n'' (sr_operationmode s) old
      in if xincp < 0.0 then (ep, -xincp, nodep + pi, argpp - pi, mp) else (ep, xincp, nodep, argpp, mp))"

text \<open>Coefficients of the long period periodics at an inclination.\<close>

definition sgp4_aycof :: "double \<Rightarrow> double \<Rightarrow> double" where
  "sgp4_aycof j3oj20 xincp = -0.5 * j3oj20 * sin xincp"

definition sgp4_xlcof :: "double \<Rightarrow> double \<Rightarrow> double" where
  "sgp4_xlcof j3oj20 xincp =
     (let temp4 = 0.0000000000015; sinip = sin xincp; cosip = cos xincp
      in if \<bar>cosip + 1.0\<bar> > 0.0000000000015
         then -0.25 * j3oj20 * sinip * (3.0 + 5.0 * cosip) / (1.0 + cosip)
         else -0.25 * j3oj20 * sinip * (3.0 + 5.0 * cosip) / temp4)"

text \<open>Kepler's equation.\<close>

definition kepler_correction :: "double \<Rightarrow> double \<Rightarrow> double \<Rightarrow> double \<Rightarrow> double \<Rightarrow> double \<Rightarrow> double" where
  "kepler_correction u axnl aynl eo1 sineo1 coseo1 =
     (let tem5 = 1.0 - coseo1 * axnl - sineo1 * aynl;
          tem5 = (u - aynl * coseo1 + axnl * sineo1 - eo1) / tem5
      in if \<bar>tem5\<bar> \<ge> 0.95 then (if tem5 > 0.0 then 0.95 else -0.95) else tem5)"

function kepler_loop ::
    "double \<Rightarrow> double \<Rightarrow> double \<Rightarrow> double \<Rightarrow> double \<Rightarrow> nat \<Rightarrow> double \<times> double \<Rightarrow> double \<times> double \<times> double \<times> double \<times> nat" where
  "kepler_loop u axnl aynl eo1 tem5 ktr sc =
     (if \<bar>tem5\<bar> \<ge> 0.000000000001 \<and> ktr \<le> 10 then
        (let sineo1 = sin eo1; coseo1 = cos eo1;
             tem5 = kepler_correction u axnl aynl eo1 sineo1 coseo1
         in kepler_loop u axnl aynl (eo1 + tem5) tem5 (ktr + 1) (sineo1, coseo1))
      else (fst sc, snd sc, eo1, tem5, ktr))"
  by pat_completeness auto
termination by (relation "measure (\<lambda>(_, _, _, _, _, ktr, _). 11 - ktr)") auto

declare kepler_loop.simps [simp del]

text \<open>Orientation: unit vectors of the position and of the transverse direction.\<close>

definition sgp4_orientation :: "double \<Rightarrow> double \<Rightarrow> double \<Rightarrow> vec3 \<times> vec3" where
  "sgp4_orientation su xnode xinc =
     (let sinsu = sin su;
          cossu = cos su;
          snod = sin xnode;
          cnod = cos xnode;
          sini = sin xinc;
          cosi = cos xinc;
          xmx = -snod * cosi;
          xmy = cnod * cosi;
          ux = xmx * sinsu + cnod * cossu;
          uy = xmy * sinsu + snod * cossu;
          uz = sini * sinsu;
          vx = xmx * cossu - cnod * sinsu;
          vy = xmy * cossu - snod * sinsu;
          vz = sini * cossu
      in ((ux, uy, uz), (vx, vy, vz)))"

definition sgp4_rv :: "double \<Rightarrow> double \<Rightarrow> vec3 \<times> vec3 \<Rightarrow> double \<Rightarrow> double \<Rightarrow> double \<Rightarrow> vec3 \<times> vec3" where
  "sgp4_rv radius vkmpersec uv mrt mvt rvdot =
     (let ((ux, uy, uz), (vx, vy, vz)) = uv
      in (((mrt * ux) * radius, (mrt * uy) * radius, (mrt * uz) * radius),
          ((mvt * ux + rvdot * vx) * vkmpersec, (mvt * uy + rvdot * vy) * vkmpersec,
           (mvt * uz + rvdot * vz) * vkmpersec)))"

text \<open>
  Short period: with the semi-latus rectum \<open>pl\<close> not negative, the radius, the transverse and radial rates
  and the orientation angles.
\<close>

definition sgp4_short ::
    "double \<times> double \<Rightarrow> double \<times> double \<times> double \<Rightarrow> double \<times> double \<Rightarrow> double \<times> double \<Rightarrow> double \<times> double \<Rightarrow>
      double \<times> double \<times> double \<Rightarrow> (double \<times> double \<times> double) \<times> (double \<times> double \<times> double)" where
  "sgp4_short gc coeffs orbit long_ec ecc plane =
     (let (j2, xke) = gc; (con41, x1mth2, x7thm1) = coeffs; (am, nm) = orbit; (axnl, aynl) = long_ec;
          (sineo1, coseo1) = ecc; (nodep, xincp, pl) = plane; sinip = sin xincp; cosip = cos xincp;
          ecose = axnl * coseo1 + aynl * sineo1;
          esine = axnl * sineo1 - aynl * coseo1;
          el2 = axnl * axnl + aynl * aynl;
          rl = am * (1.0 - ecose);
          rdotl = sqrt am * esine / rl;
          rvdotl = sqrt pl / rl;
          betal = sqrt (1.0 - el2);
          temp = esine / (1.0 + betal);
          sinu = am / rl * (sineo1 - aynl - axnl * temp);
          cosu = am / rl * (coseo1 - axnl + aynl * temp);
          su = c_atan2 sinu cosu;
          sin2u = (cosu + cosu) * sinu;
          cos2u = 1.0 - 2.0 * sinu * sinu;
          temp = 1.0 / pl;
          temp1 = 0.5 * j2 * temp;
          temp2 = temp1 * temp;
          mrt = rl * (1.0 - 1.5 * temp2 * betal * con41) + 0.5 * temp1 * x1mth2 * cos2u;
          su = su - 0.25 * temp2 * x7thm1 * sin2u;
          xnode = nodep + 1.5 * temp2 * cosip * sin2u;
          xinc = xincp + 1.5 * temp2 * cosip * sinip * cos2u;
          mvt = rdotl - nm * temp1 * x1mth2 * sin2u / xke;
          rvdot = rvdotl + nm * temp1 * (x1mth2 * cos2u + 1.5 * con41) / xke
      in ((mrt, mvt, rvdot), (su, xnode, xinc)))"

text \<open>Deep space: the coefficients that depend on the perturbed inclination.\<close>

definition sgp4_long_coeffs :: "elsetrec \<Rightarrow> double \<Rightarrow> elsetrec" where
  "sgp4_long_coeffs s xincp =
     (if sr_method s = CHR ''d''
      then s\<lparr>sr_near := (sr_near s)\<lparr>sr_aycof := sgp4_aycof (j3oj2 (sr_grav s)) xincp\<rparr>,
             sr_more := (sr_more s)\<lparr>sr_xlcof := sgp4_xlcof (j3oj2 (sr_grav s)) xincp\<rparr>\<rparr>
      else s)"

definition sgp4_short_coeffs :: "elsetrec \<Rightarrow> double \<Rightarrow> elsetrec" where
  "sgp4_short_coeffs s xincp =
     (if sr_method s = CHR ''d'' then
        (let cosip = cos xincp; cosisq = cosip * cosip
         in s\<lparr>sr_near := (sr_near s)\<lparr>sr_con41 := 3.0 * cosisq - 1.0\<rparr>,
              sr_more := (sr_more s)\<lparr>sr_x1mth2 := 1.0 - cosisq, sr_x7thm1 := 7.0 * cosisq - 1.0\<rparr>\<rparr>)
      else s)"

text \<open>The propagator.\<close>

definition sgp4_finish ::
    "elsetrec \<Rightarrow> vec3 \<Rightarrow> vec3 \<Rightarrow> double \<times> double \<Rightarrow> double \<times> double \<times> double \<times> double \<times> double \<Rightarrow>
      elsetrec \<times> vec3 \<times> vec3 \<times> bool" where
  "sgp4_finish s r v orbit perturbed =
     (let (am, nm) = orbit; (ep, xincp, nodep, argpp, mp) = perturbed; gc = sr_grav s; twopi = 2.0 * pi;
          s = sgp4_long_coeffs s xincp;
          axnl = ep * cos argpp;
          temp = 1.0 / (am * (1.0 - ep * ep));
          aynl = ep * sin argpp + temp * sr_aycof (sr_near s);
          xl = mp + argpp + nodep + temp * sr_xlcof (sr_more s) * axnl;
          u = c_fmod (xl - nodep) twopi;
          (sineo1, coseo1, eo1, tem5, ktr) = kepler_loop u axnl aynl u 9999.9 1 (0, 0);
          el2 = axnl * axnl + aynl * aynl;
          pl = am * (1.0 - el2)
      in if pl < 0.0 then (s\<lparr>sr_error := 4\<rparr>, r, v, False)
         else
           (let s = sgp4_short_coeffs s xincp;
                ((mrt, mvt, rvdot), (su, xnode, xinc)) =
                  sgp4_short (j2 gc, xke gc) (sr_con41 (sr_near s), sr_x1mth2 (sr_more s), sr_x7thm1 (sr_more s))
                    (am, nm) (axnl, aynl) (sineo1, coseo1) (nodep, xincp, pl);
                (r, v) = sgp4_rv (radiusearthkm gc) (radiusearthkm gc * xke gc / 60.0)
                           (sgp4_orientation su xnode xinc) mrt mvt rvdot
            in if mrt < 1.0 then (s\<lparr>sr_error := 6\<rparr>, r, v, False) else (s, r, v, True)))"

definition sgp4_mean ::
    "elsetrec \<Rightarrow> vec3 \<Rightarrow> vec3 \<Rightarrow> mean_elements \<Rightarrow> double \<times> double \<times> double \<Rightarrow> elsetrec \<times> vec3 \<times> vec3 \<times> bool" where
  "sgp4_mean s r v me drag =
     (let (tempa, tempe, templ) = drag; gc = sr_grav s; x2o3 = 2.0 / 3.0;
          nm = me_nm me
      in if nm \<le> 0.0 then (s\<lparr>sr_error := 2\<rparr>, r, v, False)
         else
           (let am = ((xke gc / nm) powr x2o3) * tempa * tempa;
                nm = xke gc / am powr 1.5;
                em = me_em me - tempe
            in if em \<ge> 1.0 \<or> em < -0.001 then (s\<lparr>sr_error := 1\<rparr>, r, v, False)
               else
                 (let em = (if em < 0.000001 then 0.000001 else em);
                      mm = me_mm me + sr_no_unkozai (sr_el s) * templ;
                      (mm, argpm, nodem) = sgp4_reduce mm (me_argpm me) (me_nodem me);
                      inclm = me_inclm me;
                      s = s\<lparr>sr_avg := \<lparr>sr_am = am, sr_em = em, sr_im = inclm, sr_Node = nodem, sr_om = argpm,
                                      sr_mm = mm, sr_nm = nm\<rparr>\<rparr>;
                      (ep, xincp, nodep, argpp, mp) =
                        (if sr_method s = CHR ''d'' then sgp4_dpper s (em, inclm, nodem, argpm, mm)
                         else (em, inclm, nodem, argpm, mm))
                  in if sr_method s = CHR ''d'' \<and> (ep < 0.0 \<or> ep > 1.0) then (s\<lparr>sr_error := 3\<rparr>, r, v, False)
                     else sgp4_finish s r v (am, nm) (ep, xincp, nodep, argpp, mp))))"

definition sgp4 :: "elsetrec \<Rightarrow> double \<Rightarrow> vec3 \<Rightarrow> vec3 \<Rightarrow> (elsetrec \<times> vec3 \<times> vec3 \<times> bool) option" where
  "sgp4 satrec tsince r v =
     (let s = satrec\<lparr>sr_time := tsince, sr_error := 0\<rparr>;
          el = sr_el s;
          (mm, argpm, nodem, tempa, tempe, templ) = sgp4_secular el (sr_near s) (sr_more s) tsince;
          me = \<lparr>me_em = sr_ecco el, me_argpm = argpm, me_inclm = sr_inclo el, me_mm = mm,
                me_nm = sr_no_unkozai el, me_nodem = nodem\<rparr>
      in case (if sr_method s = CHR ''d''
               then dspace (sr_res s) (sr_rates s) (sr_argpo el) (sr_argpdot (sr_near s)) tsince tsince (sr_gsto el)
                      (sr_no_unkozai el) (sr_integ s) me
               else Some (sr_integ s, me, 0.0)) of
           None \<Rightarrow> None
         | Some (ig, me, dndt) \<Rightarrow> Some (sgp4_mean (s\<lparr>sr_integ := ig\<rparr>) r v me (tempa, tempe, templ)))"

definition sgp4init ::
    "gravconsttype \<Rightarrow> char \<Rightarrow> string \<Rightarrow> double \<Rightarrow> tle_elements \<Rightarrow> vec3 \<Rightarrow> vec3 \<Rightarrow> (elsetrec \<times> bool) option" where
  "sgp4init whichconst opsmode satn epoch te r v =
     (case sgp4 (sgp4init_state whichconst opsmode satn epoch te) 0.0 r v of
        None \<Rightarrow> None
      | Some (s, _, _, _) \<Rightarrow> Some (s\<lparr>sr_init := CHR ''n''\<rparr>, True))"

end
