(* ===== verification/SV_SGP4_Props.thy ===== *)
theory SV_SGP4_Props
  imports SV_SGP4
begin

text \<open>
  Properties of the propagator: which errors it reports and what it leaves in the position and the
  velocity, the solution of Kepler's equation, and the independence of a propagation of those
  made before.
\<close>

section \<open>Orientation\<close>

lemma orthonormal_frame:
  fixes S C N M I J :: real
  assumes "S\<^sup>2 + C\<^sup>2 = 1" "N\<^sup>2 + M\<^sup>2 = 1" "I\<^sup>2 + J\<^sup>2 = 1"
  shows "(-N * J * S + M * C) * (-N * J * S + M * C) + (M * J * S + N * C) * (M * J * S + N * C) + I * S * (I * S) = 1"
    and "(-N * J * C - M * S) * (-N * J * C - M * S) + (M * J * C - N * S) * (M * J * C - N * S) + I * C * (I * C) = 1"
    and "(-N * J * S + M * C) * (-N * J * C - M * S) + (M * J * S + N * C) * (M * J * C - N * S) + I * S * (I * C) = 0"
  using assms by algebra+

text \<open>Position and transverse direction are orthogonal unit vectors.\<close>

lemma orientation_orthonormal:
  assumes "sgp4_orientation su xnode xinc = (U, V)"
  shows "dot_SGP4 U U = 1" "dot_SGP4 V V = 1" "dot_SGP4 U V = 0"
proof -
  have sq: "(sin x)\<^sup>2 + (cos x)\<^sup>2 = 1" for x :: real by simp
  note frame = orthonormal_frame [OF sq [of su] sq [of xnode] sq [of xinc]]
  have U: "U = (- sin xnode * cos xinc * sin su + cos xnode * cos su,
      cos xnode * cos xinc * sin su + sin xnode * cos su, sin xinc * sin su)"
    and V: "V = (- sin xnode * cos xinc * cos su - cos xnode * sin su,
      cos xnode * cos xinc * cos su - sin xnode * sin su, sin xinc * cos su)"
    using assms by (simp_all add: sgp4_orientation_def Let_def)
  show "dot_SGP4 U U = 1" "dot_SGP4 V V = 1" "dot_SGP4 U V = 0"
    unfolding U V dot_SGP4.simps using frame by (simp_all only:)
qed

lemma rv_vectors:
  assumes "sgp4_rv radius vk (sgp4_orientation su xnode xinc) mrt mvt rvdot = (r, v)"
  shows "dot_SGP4 r r = (mrt * radius)\<^sup>2" "dot_SGP4 v v = vk\<^sup>2 * (mvt\<^sup>2 + rvdot\<^sup>2)"
    "dot_SGP4 r v = mrt * radius * vk * mvt"
proof -
  obtain U V where UV: "sgp4_orientation su xnode xinc = (U, V)" by (cases "sgp4_orientation su xnode xinc")
  obtain u0 u1 u2 v0 v1 v2 where c: "U = (u0, u1, u2)" "V = (v0, v1, v2)" by (cases U; cases V) auto
  note o = orientation_orthonormal [OF UV, unfolded c dot_SGP4.simps]
  have r: "r = (mrt * u0 * radius, mrt * u1 * radius, mrt * u2 * radius)"
    and v: "v = ((mvt * u0 + rvdot * v0) * vk, (mvt * u1 + rvdot * v1) * vk, (mvt * u2 + rvdot * v2) * vk)"
    using assms by (simp_all add: UV c sgp4_rv_def)
  show "dot_SGP4 r r = (mrt * radius)\<^sup>2" unfolding r dot_SGP4.simps using o by algebra
  show "dot_SGP4 v v = vk\<^sup>2 * (mvt\<^sup>2 + rvdot\<^sup>2)" unfolding v dot_SGP4.simps using o by algebra
  show "dot_SGP4 r v = mrt * radius * vk * mvt" unfolding r v dot_SGP4.simps using o by algebra
qed

lemma rv_magnitude:
  assumes "sgp4_rv radius vk (sgp4_orientation su xnode xinc) mrt mvt rvdot = (r, v)"
  shows "mag_SGP4 r = \<bar>mrt * radius\<bar>"
proof -
  have "mag_SGP4 r = sqrt (dot_SGP4 r r)" by (cases r) simp
  then show ?thesis by (simp add: rv_vectors(1) [OF assms])
qed

section \<open>Errors\<close>

definition sgp4_contract :: "double \<Rightarrow> double \<Rightarrow> vec3 \<Rightarrow> vec3 \<Rightarrow> elsetrec \<times> vec3 \<times> vec3 \<times> bool \<Rightarrow> bool" where
  "sgp4_contract radius t r v = (\<lambda>(s', r', v', ok).
     (ok \<longleftrightarrow> sr_error s' = 0) \<and> sr_error s' \<in> {0, 1, 2, 3, 4, 6} \<and> sr_time s' = t \<and>
     (sr_error s' \<in> {1, 2, 3, 4} \<longrightarrow> r' = r \<and> v' = v) \<and>
     (ok \<longrightarrow> radius \<le> mag_SGP4 r'))"

lemma coeffs_keep:
  "sr_error (sgp4_long_coeffs s x) = sr_error s" "sr_time (sgp4_long_coeffs s x) = sr_time s"
  "sr_grav (sgp4_long_coeffs s x) = sr_grav s" "sr_integ (sgp4_long_coeffs s x) = sr_integ s"
  "sr_error (sgp4_short_coeffs s x) = sr_error s" "sr_time (sgp4_short_coeffs s x) = sr_time s"
  "sr_grav (sgp4_short_coeffs s x) = sr_grav s" "sr_integ (sgp4_short_coeffs s x) = sr_integ s"
  "sr_method (sgp4_long_coeffs s x) = sr_method s" "sr_method (sgp4_short_coeffs s x) = sr_method s"
  by (simp_all add: sgp4_long_coeffs_def sgp4_short_coeffs_def Let_def)

lemma sgp4_finish_contract:
  assumes "sr_error s = 0" and "0 < radiusearthkm (sr_grav s)"
  shows "sgp4_contract (radiusearthkm (sr_grav s)) (sr_time s) r v (sgp4_finish s r v orbit perturbed)"
proof -
  obtain am nm where orbit: "orbit = (am, nm)" by (cases orbit)
  obtain ep xincp nodep argpp mp where per: "perturbed = (ep, xincp, nodep, argpp, mp)"
    by (cases perturbed) auto
  have mag: "radiusearthkm (sr_grav s) \<le> mag_SGP4 r'"
    if "sgp4_rv (radiusearthkm (sr_grav s)) vk (sgp4_orientation su xnode xinc) mrt mvt rvdot = (r', v')" "\<not> mrt < 1"
    for vk su xnode xinc mrt mvt rvdot r' v'
    using rv_magnitude [OF that(1)] that(2) assms(2) mult_right_mono [of 1 mrt "radiusearthkm (sr_grav s)"]
    by (simp add: abs_mult)
  show ?thesis
    unfolding orbit per sgp4_finish_def sgp4_contract_def Let_def
    using mag assms(1) by (auto simp: coeffs_keep split: prod.split if_splits)
qed

lemma sgp4_mean_contract:
  assumes "sr_error s = 0" and "0 < radiusearthkm (sr_grav s)"
  shows "sgp4_contract (radiusearthkm (sr_grav s)) (sr_time s) r v (sgp4_mean s r v me drag)"
proof -
  have fin: "sgp4_contract (radiusearthkm (sr_grav s)) (sr_time s) r v (sgp4_finish (s\<lparr>sr_avg := a\<rparr>) r v orbit perturbed)"
    for a orbit perturbed
    using sgp4_finish_contract [of "s\<lparr>sr_avg := a\<rparr>" r v orbit perturbed] assms by simp
  have err: "sgp4_contract (radiusearthkm (sr_grav s)) (sr_time s) r v (s'\<lparr>sr_error := e\<rparr>, r, v, False)"
    if "e \<in> {1, 2, 3, 4}" "sr_time s' = sr_time s" for e s'
    using that by (auto simp: sgp4_contract_def)
  show ?thesis
    unfolding sgp4_mean_def Let_def using fin err by (auto split: prod.split)
qed

lemma sgp4_some:
  "\<exists>ig me drag. sgp4 s t r v = Some (sgp4_mean (s\<lparr>sr_time := t, sr_error := 0, sr_integ := ig\<rparr>) r v me drag)"
proof -
  have total: "\<exists>ig' me' dndt. dspace res rt argpo argpdot t t gsto no ig me = Some (ig', me', dndt)"
    for res rt argpo argpdot gsto no ig me
  proof (cases "sr_irez res = 0")
    case False
    then show ?thesis
      using dspace_loop_steps [OF abs_dspace_delt restart_between, of _ t no "sr_xlamo res" ig]
      by (auto simp: dspace_unfold Let_def split: prod.split)
  qed (simp add: dspace_unfold Let_def)
  obtain mm argpm nodem tempa tempe templ where
    sec: "sgp4_secular (sr_el s) (sr_near s) (sr_more s) t = (mm, argpm, nodem, tempa, tempe, templ)"
    by (cases "sgp4_secular (sr_el s) (sr_near s) (sr_more s) t") auto
  show ?thesis
  proof (cases "sr_method s = CHR ''d''")
    case True
    obtain ig' me' dndt where
      "dspace (sr_res s) (sr_rates s) (sr_argpo (sr_el s)) (sr_argpdot (sr_near s)) t t (sr_gsto (sr_el s))
        (sr_no_unkozai (sr_el s)) (sr_integ s) \<lparr>me_em = sr_ecco (sr_el s), me_argpm = argpm, me_inclm = sr_inclo (sr_el s),
          me_mm = mm, me_nm = sr_no_unkozai (sr_el s), me_nodem = nodem\<rparr> = Some (ig', me', dndt)"
      using total by blast
    with True have "sgp4 s t r v = Some (sgp4_mean (s\<lparr>sr_time := t, sr_error := 0, sr_integ := ig'\<rparr>) r v me' (tempa, tempe, templ))"
      by (simp add: sgp4_def Let_def sec)
    then show ?thesis by blast
  next
    case False
    then have "sgp4 s t r v = Some (sgp4_mean (s\<lparr>sr_time := t, sr_error := 0, sr_integ := sr_integ s\<rparr>) r v
        \<lparr>me_em = sr_ecco (sr_el s), me_argpm = argpm, me_inclm = sr_inclo (sr_el s),
          me_mm = mm, me_nm = sr_no_unkozai (sr_el s), me_nodem = nodem\<rparr> (tempa, tempe, templ))"
      by (simp add: sgp4_def Let_def sec)
    then show ?thesis by blast
  qed
qed

text \<open>C5: A propagation always returns. It succeeds exactly when the error code is zero; the code is one of 0,
  1, 2, 3, 4 and 6, with 1 to 4 the position and the velocity are not touched, and a successful
  propagation gives a position at least one earth radius from the centre of the earth.\<close>

theorem sgp4_returns:
  assumes "0 < radiusearthkm (sr_grav s)"
  shows "\<exists>s' r' v' ok. sgp4 s t r v = Some (s', r', v', ok) \<and>
    (ok \<longleftrightarrow> sr_error s' = 0) \<and> sr_error s' \<in> {0, 1, 2, 3, 4, 6} \<and> sr_time s' = t \<and>
    (sr_error s' \<in> {1, 2, 3, 4} \<longrightarrow> r' = r \<and> v' = v) \<and>
    (ok \<longrightarrow> radiusearthkm (sr_grav s) \<le> mag_SGP4 r')"
proof -
  obtain ig me drag where m: "sgp4 s t r v = Some (sgp4_mean (s\<lparr>sr_time := t, sr_error := 0, sr_integ := ig\<rparr>) r v me drag)"
    using sgp4_some by blast
  let ?res = "sgp4_mean (s\<lparr>sr_time := t, sr_error := 0, sr_integ := ig\<rparr>) r v me drag"
  have "sgp4_contract (radiusearthkm (sr_grav s)) t r v ?res"
    using sgp4_mean_contract [of "s\<lparr>sr_time := t, sr_error := 0, sr_integ := ig\<rparr>" r v me drag] assms by simp
  then show ?thesis
    by (cases ?res) (simp add: m sgp4_contract_def)
qed

text \<open>The gravity model of an initialised satellite is the one asked for.\<close>

lemma init_deep_grav: "sr_grav (sgp4init_deep epoch io xpidot s) = sr_grav s"
  by (simp add: sgp4init_deep_def Let_def split_beta)

lemma init_state_grav: "sr_grav (sgp4init_state w opsmode satn epoch te) = getgravconst w"
  by (simp add: sgp4init_state_def Let_def split_beta init_deep_grav del: getgravconst.simps)

text \<open>The international space station: 15.5 revolutions a day, 51.6 degrees.\<close>

definition station_elements :: tle_elements where
  "station_elements = \<lparr>te_bstar = 0.0000381, te_ndot = 0, te_nddot = 0, te_ecco = 0.0006703, te_argpo = 2.27,
     te_inclo = 0.9, te_mo = 5.67, te_no = 0.0676, te_nodeo = 4.3\<rparr>"

theorem sgp4_returns_witness:
  "\<exists>s' r' v' ok. sgp4 (sgp4init_state wgs72 CHR ''i'' ''25544'' 21381 station_elements) 90 (0, 0, 0) (0, 0, 0) =
      Some (s', r', v', ok) \<and> (ok \<longleftrightarrow> sr_error s' = 0) \<and> (ok \<longrightarrow> 6378.135 \<le> mag_SGP4 r')"
  using sgp4_returns [of "sgp4init_state wgs72 CHR ''i'' ''25544'' 21381 station_elements" 90 "(0, 0, 0)" "(0, 0, 0)"]
    getgravconst_pos [of wgs72]
  by (fastforce simp: init_state_grav Let_def)

section \<open>Kepler's equation\<close>

lemma kepler_correction_bound: "\<bar>kepler_correction u axnl aynl e s c\<bar> \<le> 0.95"
  by (simp add: kepler_correction_def Let_def)

lemma kepler_correction_small:
  assumes "\<bar>kepler_correction u axnl aynl e s c\<bar> < 0.95" and "1 - c * axnl - s * aynl \<noteq> 0"
  shows "u - aynl * c + axnl * s - e = kepler_correction u axnl aynl e s c * (1 - c * axnl - s * aynl)"
  using assms by (auto simp: kepler_correction_def Let_def split: if_splits)

text \<open>What holds of the iteration from its second pass on, \<open>e\<close> being the previous anomaly.\<close>

definition kepler_state :: "double \<Rightarrow> double \<Rightarrow> double \<Rightarrow> double \<Rightarrow> double \<times> double \<times> double \<times> double \<times> nat \<Rightarrow> bool" where
  "kepler_state u axnl aynl e = (\<lambda>(s, c, eo1, tem5, ktr).
     s = sin e \<and> c = cos e \<and> tem5 = kepler_correction u axnl aynl e s c \<and> eo1 = e + tem5 \<and>
     2 \<le> ktr \<and> ktr \<le> 11 \<and> \<bar>e - u\<bar> \<le> 0.95 * (of_nat ktr - 2))"

lemma kepler_loop_state:
  assumes "kepler_state u axnl aynl e (s, c, eo1, tem5, ktr)"
  shows "\<exists>e' s' c' eo1' tem5' ktr'. kepler_loop u axnl aynl eo1 tem5 ktr (s, c) = (s', c', eo1', tem5', ktr') \<and>
    kepler_state u axnl aynl e' (s', c', eo1', tem5', ktr') \<and> (ktr' \<le> 10 \<longrightarrow> \<bar>tem5'\<bar> < 0.000000000001)"
  using assms
proof (induction "11 - ktr" arbitrary: e s c eo1 tem5 ktr rule: less_induct)
  case less
  show ?case
  proof (cases "\<bar>tem5\<bar> \<ge> 0.000000000001 \<and> ktr \<le> 10")
    case True
    let ?t = "kepler_correction u axnl aynl eo1 (sin eo1) (cos eo1)"
    have "\<bar>eo1 - u\<bar> \<le> 0.95 * (of_nat (ktr + 1) - 2)"
    proof -
      have "eo1 = e + tem5" "\<bar>tem5\<bar> \<le> 0.95" "\<bar>e - u\<bar> \<le> 0.95 * (of_nat ktr - 2)"
        using less.prems kepler_correction_bound [of u axnl aynl e s c] by (simp_all add: kepler_state_def)
      moreover have "\<bar>e + tem5 - u\<bar> \<le> \<bar>e - u\<bar> + \<bar>tem5\<bar>" by linarith
      ultimately show ?thesis by (simp add: algebra_simps)
    qed
    then have "kepler_state u axnl aynl eo1 (sin eo1, cos eo1, eo1 + ?t, ?t, ktr + 1)"
      using True less.prems by (simp add: kepler_state_def)
    moreover have "11 - (ktr + 1) < 11 - ktr" using True by linarith
    ultimately have "\<exists>e' s' c' eo1' tem5' ktr'.
        kepler_loop u axnl aynl (eo1 + ?t) ?t (ktr + 1) (sin eo1, cos eo1) = (s', c', eo1', tem5', ktr') \<and>
        kepler_state u axnl aynl e' (s', c', eo1', tem5', ktr') \<and> (ktr' \<le> 10 \<longrightarrow> \<bar>tem5'\<bar> < 0.000000000001)"
      using less.hyps by blast
    then show ?thesis using True by (subst kepler_loop.simps) (simp add: Let_def)
  next
    case False
    then have "kepler_loop u axnl aynl eo1 tem5 ktr (s, c) = (s, c, eo1, tem5, ktr)"
      by (subst kepler_loop.simps) auto
    then show ?thesis using False less.prems by auto
  qed
qed

text \<open>C8: The iteration for Kepler's equation ends after at most ten corrections of at most 0.95 each. The sine
  and cosine it leaves belong to the last but one anomaly; when it ended before the tenth
  correction that anomaly solves the equation up to a residual of \<open>10^-12\<close> relative to the
  derivative.\<close>

theorem kepler_solution:
  "\<exists>e eo1 tem5 ktr. kepler_loop u axnl aynl u 9999.9 1 (s0, c0) = (sin e, cos e, eo1, tem5, ktr) \<and>
     2 \<le> ktr \<and> ktr \<le> 11 \<and> eo1 = e + tem5 \<and> \<bar>tem5\<bar> \<le> 0.95 \<and> \<bar>e - u\<bar> \<le> 0.95 * (of_nat ktr - 2) \<and>
     (ktr \<le> 10 \<and> 1 - cos e * axnl - sin e * aynl \<noteq> 0 \<longrightarrow>
       \<bar>u - aynl * cos e + axnl * sin e - e\<bar> \<le> 1 / 10 ^ 12 * \<bar>1 - cos e * axnl - sin e * aynl\<bar>)"
proof -
  let ?t = "kepler_correction u axnl aynl u (sin u) (cos u)"
  have "kepler_loop u axnl aynl u 9999.9 1 (s0, c0) = kepler_loop u axnl aynl (u + ?t) ?t 2 (sin u, cos u)"
    by (subst kepler_loop.simps) (simp add: Let_def numeral_2_eq_2)
  moreover have "kepler_state u axnl aynl u (sin u, cos u, u + ?t, ?t, 2)"
    by (simp add: kepler_state_def)
  ultimately obtain e s c eo1 tem5 ktr where
    loop: "kepler_loop u axnl aynl u 9999.9 1 (s0, c0) = (s, c, eo1, tem5, ktr)" and
    st: "kepler_state u axnl aynl e (s, c, eo1, tem5, ktr)" and
    small: "ktr \<le> 10 \<longrightarrow> \<bar>tem5\<bar> < 0.000000000001"
    using kepler_loop_state by metis
  from st have sc: "s = sin e" "c = cos e" and t: "tem5 = kepler_correction u axnl aynl e (sin e) (cos e)"
    by (auto simp: kepler_state_def)
  have "\<bar>u - aynl * cos e + axnl * sin e - e\<bar> \<le> 1 / 10 ^ 12 * \<bar>1 - cos e * axnl - sin e * aynl\<bar>"
    if "ktr \<le> 10" "1 - cos e * axnl - sin e * aynl \<noteq> 0"
  proof -
    have tem5: "\<bar>tem5\<bar> < 1 / 10 ^ 12" using small that(1) by simp
    have "u - aynl * cos e + axnl * sin e - e = tem5 * (1 - cos e * axnl - sin e * aynl)"
      unfolding t by (rule kepler_correction_small [OF less_trans [OF tem5 [unfolded t]] that(2)]) simp
    then show ?thesis
      using mult_right_mono [OF less_imp_le [OF tem5], of "\<bar>1 - cos e * axnl - sin e * aynl\<bar>"]
      by (simp add: abs_mult)
  qed
  then show ?thesis
    using st loop kepler_correction_bound [of u axnl aynl e "sin e" "cos e"] unfolding sc t
    by (auto simp: kepler_state_def)
qed

theorem kepler_solution_witness:
  "\<exists>e eo1 tem5 ktr. kepler_loop 1 0.0006 0.0003 1 9999.9 1 (0, 0) = (sin e, cos e, eo1, tem5, ktr) \<and>
     ktr \<le> 11 \<and> \<bar>tem5\<bar> \<le> 0.95"
  using kepler_solution [of 1 "0.0006" "0.0003" 0 0] by blast

theorem dspace_total_witness:
  "\<exists>ig' me' dndt. dspace (res_zero\<lparr>sr_irez := 1\<rparr>) rates_zero 0 0 86400 86400 0 0.0044 integ_zero
      \<lparr>me_em = 0, me_argpm = 0, me_inclm = 0, me_mm = 0, me_nm = 0.0044, me_nodem = 0\<rparr> = Some (ig', me', dndt) \<and>
    \<bar>86400 - sr_atime ig'\<bar> < 720"
  using dspace_total [of "res_zero\<lparr>sr_irez := 1\<rparr>" rates_zero 0 0 86400 86400 0 "0.0044" integ_zero
      "\<lparr>me_em = 0, me_argpm = 0, me_inclm = 0, me_mm = 0, me_nm = 0.0044, me_nodem = 0\<rparr>"]
  by auto

end
