(* ===== verification/SV_SGP4_History.thy ===== *)
theory SV_SGP4_History
  imports SV_SGP4_Props
begin

text \<open>
  Propagations do not influence each other. \<open>sgp4\<close> writes some of the coefficients it reads (those
  that depend on the perturbed inclination of a deep-space orbit) and moves the integrator; it
  is shown that position, velocity, error and result are the same whatever was propagated before.
\<close>

section \<open>What propagations leave alone\<close>

definition frozen :: "elsetrec \<Rightarrow> elsetrec" where
  "frozen s =
     (if sr_method s = CHR ''d''
      then s\<lparr>sr_error := 0, sr_time := 0, sr_integ := integ_zero, sr_avg := avg_zero,
             sr_near := (sr_near s)\<lparr>sr_aycof := 0, sr_con41 := 0\<rparr>,
             sr_more := (sr_more s)\<lparr>sr_xlcof := 0, sr_x1mth2 := 0, sr_x7thm1 := 0\<rparr>\<rparr>
      else s\<lparr>sr_error := 0, sr_time := 0, sr_integ := integ_zero, sr_avg := avg_zero\<rparr>)"

lemma frozen_proj:
  assumes "frozen s = frozen s2"
  shows "sr_method s2 = sr_method s" "sr_el s2 = sr_el s" "sr_res s2 = sr_res s" "sr_rates s2 = sr_rates s"
    "sr_per s2 = sr_per s" "sr_solar s2 = sr_solar s" "sr_lunar s2 = sr_lunar s" "sr_grav s2 = sr_grav s"
    "sr_operationmode s2 = sr_operationmode s"
  using arg_cong [OF assms, of sr_method] arg_cong [OF assms, of sr_el] arg_cong [OF assms, of sr_res]
    arg_cong [OF assms, of sr_rates] arg_cong [OF assms, of sr_per] arg_cong [OF assms, of sr_solar]
    arg_cong [OF assms, of sr_lunar] arg_cong [OF assms, of sr_grav] arg_cong [OF assms, of sr_operationmode]
  by (simp_all add: frozen_def split: if_splits)

lemma frozen_near:
  assumes "frozen s = frozen s2" and "sr_method s \<noteq> CHR ''d''"
  shows "sr_near s2 = sr_near s" "sr_more s2 = sr_more s"
  using arg_cong [OF assms(1), of sr_near] arg_cong [OF assms(1), of sr_more] assms(2) frozen_proj(1) [OF assms(1)]
  by (simp_all add: frozen_def)

lemma frozen_deep:
  assumes "frozen s = frozen s2" and "sr_method s = CHR ''d''"
  shows "(sr_near s2)\<lparr>sr_aycof := a, sr_con41 := c\<rparr> = (sr_near s)\<lparr>sr_aycof := a, sr_con41 := c\<rparr>"
    "(sr_more s2)\<lparr>sr_xlcof := x, sr_x1mth2 := y, sr_x7thm1 := z\<rparr> = (sr_more s)\<lparr>sr_xlcof := x, sr_x1mth2 := y, sr_x7thm1 := z\<rparr>"
proof -
  have n: "(sr_near s2)\<lparr>sr_aycof := 0, sr_con41 := 0\<rparr> = (sr_near s)\<lparr>sr_aycof := 0, sr_con41 := 0\<rparr>"
    using arg_cong [OF assms(1), of sr_near] assms(2) frozen_proj(1) [OF assms(1)] by (simp add: frozen_def)
  have m: "(sr_more s2)\<lparr>sr_xlcof := 0, sr_x1mth2 := 0, sr_x7thm1 := 0\<rparr> = (sr_more s)\<lparr>sr_xlcof := 0, sr_x1mth2 := 0, sr_x7thm1 := 0\<rparr>"
    using arg_cong [OF assms(1), of sr_more] assms(2) frozen_proj(1) [OF assms(1)] by (simp add: frozen_def)
  show "(sr_near s2)\<lparr>sr_aycof := a, sr_con41 := c\<rparr> = (sr_near s)\<lparr>sr_aycof := a, sr_con41 := c\<rparr>"
    using arg_cong [OF n, of "\<lambda>n. n\<lparr>sr_aycof := a, sr_con41 := c\<rparr>"] by simp
  show "(sr_more s2)\<lparr>sr_xlcof := x, sr_x1mth2 := y, sr_x7thm1 := z\<rparr> = (sr_more s)\<lparr>sr_xlcof := x, sr_x1mth2 := y, sr_x7thm1 := z\<rparr>"
    using arg_cong [OF m, of "\<lambda>n. n\<lparr>sr_xlcof := x, sr_x1mth2 := y, sr_x7thm1 := z\<rparr>"] by simp
qed

lemma secular_ignores:
  "sgp4_secular el (ne\<lparr>sr_aycof := a, sr_con41 := c\<rparr>) (mo\<lparr>sr_xlcof := x, sr_x1mth2 := y, sr_x7thm1 := z\<rparr>) t =
   sgp4_secular el ne mo t"
  by (simp add: sgp4_secular_def Let_def cong: if_cong)

lemma secular_same:
  assumes "frozen s = frozen s2"
  shows "sgp4_secular (sr_el s2) (sr_near s2) (sr_more s2) t = sgp4_secular (sr_el s) (sr_near s) (sr_more s) t"
    and "sr_argpdot (sr_near s2) = sr_argpdot (sr_near s)"
proof -
  have "sgp4_secular (sr_el s2) (sr_near s2) (sr_more s2) t = sgp4_secular (sr_el s) (sr_near s) (sr_more s) t \<and>
    sr_argpdot (sr_near s2) = sr_argpdot (sr_near s)"
  proof (cases "sr_method s = CHR ''d''")
    case True
    have "sgp4_secular (sr_el s2) (sr_near s2) (sr_more s2) t =
        sgp4_secular (sr_el s) ((sr_near s2)\<lparr>sr_aycof := 0, sr_con41 := 0\<rparr>)
          ((sr_more s2)\<lparr>sr_xlcof := 0, sr_x1mth2 := 0, sr_x7thm1 := 0\<rparr>) t"
      by (simp only: secular_ignores frozen_proj(2) [OF assms])
    moreover have "sr_argpdot (sr_near s2) = sr_argpdot (sr_near s)"
      using arg_cong [OF frozen_deep(1) [OF assms True, of 0 0], of sr_argpdot] by simp
    ultimately show ?thesis by (simp only: frozen_deep [OF assms True] secular_ignores)
  next
    case False
    show ?thesis by (simp add: frozen_near [OF assms False] frozen_proj [OF assms])
  qed
  then show "sgp4_secular (sr_el s2) (sr_near s2) (sr_more s2) t = sgp4_secular (sr_el s) (sr_near s) (sr_more s) t"
    "sr_argpdot (sr_near s2) = sr_argpdot (sr_near s)" by auto
qed

section \<open>Equal outcomes\<close>

definition same_outcome :: "elsetrec \<times> vec3 \<times> vec3 \<times> bool \<Rightarrow> elsetrec \<times> vec3 \<times> vec3 \<times> bool \<Rightarrow> bool" where
  "same_outcome = (\<lambda>(s, r, v, ok) (s2, r2, v2, ok2). r = r2 \<and> v = v2 \<and> ok = ok2 \<and> sr_error s = sr_error s2)"

text \<open>Two states that agree in what propagations leave alone, in the time and in the error.\<close>

definition agree :: "elsetrec \<Rightarrow> elsetrec \<Rightarrow> bool" where
  "agree s s2 \<longleftrightarrow> frozen s = frozen s2 \<and> sr_time s = sr_time s2 \<and> sr_error s = sr_error s2"

lemma frozen_more:
  assumes "frozen s = frozen s2"
  shows "sr_init s2 = sr_init s" "sr_satnum s2 = sr_satnum s"
  using arg_cong [OF assms, of sr_init] arg_cong [OF assms, of sr_satnum] by (simp_all add: frozen_def split: if_splits)

lemma frozen_writes:
  "frozen (s\<lparr>sr_time := t\<rparr>) = frozen s" "frozen (s\<lparr>sr_error := e\<rparr>) = frozen s" "frozen (s\<lparr>sr_integ := i\<rparr>) = frozen s"
  "frozen (s\<lparr>sr_avg := a\<rparr>) = frozen s"
  "frozen (sgp4_long_coeffs s x) = frozen s" "frozen (sgp4_short_coeffs s x) = frozen s"
  by (simp_all add: frozen_def sgp4_long_coeffs_def sgp4_short_coeffs_def Let_def)

text \<open>The coefficients a call uses are the same from states with the same frozen part.\<close>

lemma coeffs_same:
  assumes "frozen s = frozen s2"
  shows "sr_aycof (sr_near (sgp4_long_coeffs s2 x)) = sr_aycof (sr_near (sgp4_long_coeffs s x))"
    "sr_xlcof (sr_more (sgp4_long_coeffs s2 x)) = sr_xlcof (sr_more (sgp4_long_coeffs s x))"
    "sr_con41 (sr_near (sgp4_short_coeffs s2 x)) = sr_con41 (sr_near (sgp4_short_coeffs s x))"
    "sr_x1mth2 (sr_more (sgp4_short_coeffs s2 x)) = sr_x1mth2 (sr_more (sgp4_short_coeffs s x))"
    "sr_x7thm1 (sr_more (sgp4_short_coeffs s2 x)) = sr_x7thm1 (sr_more (sgp4_short_coeffs s x))"
  using frozen_near [OF assms] frozen_proj(1,8) [OF assms]
  by (auto simp: sgp4_long_coeffs_def sgp4_short_coeffs_def Let_def)

lemma finish_frozen: "frozen (fst (sgp4_finish s r v orbit perturbed)) = frozen s"
proof -
  obtain am nm where orbit: "orbit = (am, nm)" by (cases orbit)
  obtain ep xincp nodep argpp mp where per: "perturbed = (ep, xincp, nodep, argpp, mp)"
    by (cases perturbed) auto
  show ?thesis
    unfolding orbit per sgp4_finish_def Let_def
    by (simp add: frozen_writes split_beta)
qed

lemma finish_same:
  assumes "agree s s2"
  shows "same_outcome (sgp4_finish s r v orbit perturbed) (sgp4_finish s2 r v orbit perturbed)"
proof -
  obtain am nm where orbit: "orbit = (am, nm)" by (cases orbit)
  obtain ep xincp nodep argpp mp where per: "perturbed = (ep, xincp, nodep, argpp, mp)"
    by (cases perturbed) auto
  have fr: "frozen s = frozen s2" and er: "sr_error s2 = sr_error s" using assms by (auto simp: agree_def)
  have fr': "frozen (sgp4_long_coeffs s x) = frozen (sgp4_long_coeffs s2 x)" for x
    using fr by (simp only: frozen_writes)
  show ?thesis
    unfolding orbit per sgp4_finish_def Let_def same_outcome_def
    by (simp add: coeffs_keep er frozen_proj(8) [OF fr] coeffs_same [OF fr] coeffs_same [OF fr'] split_beta)
qed

lemma mean_frozen: "frozen (fst (sgp4_mean s r v me drag)) = frozen s"
proof -
  have "frozen (fst (sgp4_finish (s\<lparr>sr_avg := a\<rparr>) r v orbit perturbed)) = frozen s" for a orbit perturbed
    by (simp only: finish_frozen frozen_writes)
  then show ?thesis
    by (auto simp: sgp4_mean_def Let_def frozen_writes split: prod.split)
qed

lemma finish_integ: "sr_integ (fst (sgp4_finish s r v orbit perturbed)) = sr_integ s"
proof -
  obtain am nm where orbit: "orbit = (am, nm)" by (cases orbit)
  obtain ep xincp nodep argpp mp where per: "perturbed = (ep, xincp, nodep, argpp, mp)"
    by (cases perturbed) auto
  show ?thesis
    unfolding orbit per sgp4_finish_def Let_def by (simp add: coeffs_keep split: prod.split)
qed

lemma mean_integ: "sr_integ (fst (sgp4_mean s r v me drag)) = sr_integ s"
  by (auto simp: sgp4_mean_def Let_def finish_integ split: prod.split)

lemma dpper_same:
  assumes "agree s s2"
  shows "sgp4_dpper s2 old = sgp4_dpper s old"
proof -
  have fr: "frozen s = frozen s2" and "sr_time s2 = sr_time s" using assms by (auto simp: agree_def)
  then show ?thesis by (simp only: sgp4_dpper_def frozen_proj [OF fr])
qed

lemma agree_avg: "agree s s2 \<Longrightarrow> agree (s\<lparr>sr_avg := a\<rparr>) (s2\<lparr>sr_avg := a\<rparr>)"
  by (simp add: agree_def frozen_writes)

lemma same_outcome_error: "same_outcome (s\<lparr>sr_error := e\<rparr>, r, v, b) (s2\<lparr>sr_error := e\<rparr>, r, v, b)"
  by (simp add: same_outcome_def)

lemma mean_same:
  assumes "agree s s2"
  shows "same_outcome (sgp4_mean s r v me drag) (sgp4_mean s2 r v me drag)"
proof -
  have fr: "frozen s = frozen s2" using assms by (simp add: agree_def)
  note proj = frozen_proj [OF fr]
  have dp: "sgp4_dpper (s2\<lparr>sr_avg := a\<rparr>) old = sgp4_dpper (s\<lparr>sr_avg := a\<rparr>) old" for a old
    using agree_avg [OF assms] by (rule dpper_same)
  show ?thesis
    unfolding sgp4_mean_def Let_def
    by (simp add: proj dp same_outcome_error finish_same [OF agree_avg [OF assms]] split: prod.split)
qed

section \<open>Histories\<close>

text \<open>The integrator is where earlier calls can have left it.\<close>

definition integ_ok :: "elsetrec \<Rightarrow> bool" where
  "integ_ok s \<longleftrightarrow> (sr_method s = CHR ''d'' \<and> sr_irez (sr_res s) \<noteq> 0 \<longrightarrow>
     on_trajectory (dspace_dots (sr_res s) (sr_argpo (sr_el s)) (sr_argpdot (sr_near s)))
       (sr_no_unkozai (sr_el s)) (sr_xlamo (sr_res s)) (sr_integ s))"

lemma dspace_two:
  assumes "on_trajectory (dspace_dots res argpo argpdot) no (sr_xlamo res) ig \<or> sr_irez res = 0"
    and "on_trajectory (dspace_dots res argpo argpdot) no (sr_xlamo res) ig2 \<or> sr_irez res = 0"
  shows "\<exists>ig' ig2' me' dndt. dspace res rt argpo argpdot t tc gsto no ig me = Some (ig', me', dndt) \<and>
    dspace res rt argpo argpdot t tc gsto no ig2 me = Some (ig2', me', dndt) \<and>
    (on_trajectory (dspace_dots res argpo argpdot) no (sr_xlamo res) ig' \<or> sr_irez res = 0)"
proof (cases "sr_irez res = 0")
  case True
  then show ?thesis by (simp add: dspace_unfold Let_def)
next
  case False
  let ?dots = "dspace_dots res argpo argpdot"
  let ?ig = "(dspace_step ?dots (dspace_delt t) ^^ nat \<lfloor>\<bar>t\<bar> / 720\<rfloor>) (epoch_state no (sr_xlamo res))"
  have l: "dspace_loop ?dots t (dspace_delt t) (dspace_restart t no (sr_xlamo res) ig) = Some ?ig"
    "dspace_loop ?dots t (dspace_delt t) (dspace_restart t no (sr_xlamo res) ig2) = Some ?ig"
    using assms False by (simp_all add: dspace_loop_trajectory)
  have "on_trajectory ?dots no (sr_xlamo res) ?ig"
    unfolding on_trajectory_def using abs_dspace_delt by blast
  with False l show ?thesis by (simp add: dspace_unfold Let_def split: prod.split)
qed

lemma sgp4_same:
  assumes fr: "frozen s = frozen s2" and "integ_ok s" "integ_ok s2"
  shows "\<exists>x x2. sgp4 s t r v = Some x \<and> sgp4 s2 t r v = Some x2 \<and> same_outcome x x2 \<and>
    frozen (fst x) = frozen s \<and> integ_ok (fst x)"
proof -
  note proj = frozen_proj [OF fr] and sec = secular_same [OF fr]
  obtain mm argpm nodem tempa tempe templ where
    sec1: "sgp4_secular (sr_el s) (sr_near s) (sr_more s) t = (mm, argpm, nodem, tempa, tempe, templ)"
    by (cases "sgp4_secular (sr_el s) (sr_near s) (sr_more s) t") auto
  let ?me = "\<lparr>me_em = sr_ecco (sr_el s), me_argpm = argpm, me_inclm = sr_inclo (sr_el s), me_mm = mm,
    me_nm = sr_no_unkozai (sr_el s), me_nodem = nodem\<rparr>"
  let ?D = "\<lambda>s ig. if sr_method s = CHR ''d''
    then dspace (sr_res s) (sr_rates s) (sr_argpo (sr_el s)) (sr_argpdot (sr_near s)) t t (sr_gsto (sr_el s))
      (sr_no_unkozai (sr_el s)) ig ?me
    else Some (ig, ?me, 0.0)"
  let ?T = "\<lambda>ig. on_trajectory (dspace_dots (sr_res s) (sr_argpo (sr_el s)) (sr_argpdot (sr_near s)))
    (sr_no_unkozai (sr_el s)) (sr_xlamo (sr_res s)) ig \<or> sr_irez (sr_res s) = 0 \<or> sr_method s \<noteq> CHR ''d''"
  have T: "?T (sr_integ s)" "?T (sr_integ s2)"
    using assms(2,3) by (auto simp: integ_ok_def proj sec(2))
  have "\<exists>ig ig2 me dndt. ?D s (sr_integ s) = Some (ig, me, dndt) \<and> ?D s (sr_integ s2) = Some (ig2, me, dndt) \<and> ?T ig"
    using dspace_two [of "sr_res s" _ _ _ "sr_integ s" "sr_integ s2"] T by (cases "sr_method s = CHR ''d''") simp_all
  then obtain ig ig2 me dndt where D: "?D s (sr_integ s) = Some (ig, me, dndt)" "?D s (sr_integ s2) = Some (ig2, me, dndt)"
    and T': "?T ig" by blast
  let ?s = "s\<lparr>sr_time := t, sr_error := 0, sr_integ := ig\<rparr>"
  let ?s2 = "s2\<lparr>sr_time := t, sr_error := 0, sr_integ := ig2\<rparr>"
  have run: "sgp4 s t r v = Some (sgp4_mean ?s r v me (tempa, tempe, templ))"
    using D(1) by (cases "sr_method s = CHR ''d''") (simp_all add: sgp4_def Let_def sec1)
  have run2: "sgp4 s2 t r v = Some (sgp4_mean ?s2 r v me (tempa, tempe, templ))"
  proof -
    have "sgp4_secular (sr_el s) (sr_near s2) (sr_more s2) t = (mm, argpm, nodem, tempa, tempe, templ)"
      using sec(1) [of t] sec1 by (simp only: proj(2))
    then show ?thesis
      using D(2) by (cases "sr_method s = CHR ''d''") (simp_all add: sgp4_def Let_def sec(2) proj)
  qed
  have "agree ?s ?s2" using fr by (simp add: agree_def frozen_writes)
  then have "same_outcome (sgp4_mean ?s r v me (tempa, tempe, templ)) (sgp4_mean ?s2 r v me (tempa, tempe, templ))"
    by (rule mean_same)
  moreover have fx: "frozen (fst (sgp4_mean ?s r v me (tempa, tempe, templ))) = frozen s"
    by (simp only: mean_frozen frozen_writes)
  moreover have "integ_ok (fst (sgp4_mean ?s r v me (tempa, tempe, templ)))"
  proof -
    let ?x = "fst (sgp4_mean ?s r v me (tempa, tempe, templ))"
    have fx': "frozen s = frozen ?x" using fx by simp
    have "sr_integ ?x = ig" by (simp add: mean_integ)
    then show ?thesis
      using T' by (auto simp: integ_ok_def frozen_proj [OF fx'] secular_same(2) [OF fx'])
  qed
  ultimately show ?thesis using run run2 by blast
qed

text \<open>Propagation to a list of times, one after the other, as the mobility module does.\<close>

fun propagate :: "elsetrec \<Rightarrow> double list \<Rightarrow> vec3 \<Rightarrow> vec3 \<Rightarrow> elsetrec option" where
  "propagate s [] r v = Some s"
| "propagate s (t # ts) r v =
     (case sgp4 s t r v of None \<Rightarrow> None | Some (s', r', v', ok) \<Rightarrow> propagate s' ts r' v')"

lemma propagate_frozen:
  assumes "integ_ok s"
  shows "\<exists>s'. propagate s ts r v = Some s' \<and> frozen s' = frozen s \<and> integ_ok s'"
  using assms
proof (induction ts arbitrary: s r v)
  case (Cons t ts)
  from sgp4_same [OF refl Cons.prems Cons.prems, of t r v] obtain s1 r1 v1 ok where
    one: "sgp4 s t r v = Some (s1, r1, v1, ok)" "frozen s1 = frozen s" "integ_ok s1" by fastforce
  from Cons.IH [OF one(3), of r1 v1] one show ?case by auto
qed simp

text \<open>The initialisation leaves the integrator at the epoch.\<close>

lemma dsinit_integ:
  assumes "dsinit k da sun moon d me res ig = (me', dndt, rt, res', ig')" and "sr_irez res' \<noteq> 0"
  shows "ig' = epoch_state (di_no d) (sr_xlamo res')"
proof -
  have irez: "sr_irez (dsinit_half_day a b c th rt el res) = sr_irez res" "sr_irez (dsinit_sync a' b' c th rt el res) = sr_irez res"
    for a b c th rt el res a' b'
    by (simp_all add: dsinit_half_day_def dsinit_sync_def Let_def split: prod.split)
  show ?thesis
    using assms by (auto simp: dsinit_def Let_def epoch_state_def irez split: if_splits)
qed

lemma init_deep_integ:
  "sr_irez (sr_res (sgp4init_deep epoch io xpidot s)) \<noteq> 0 \<Longrightarrow>
   sr_integ (sgp4init_deep epoch io xpidot s) =
     epoch_state (sr_no_unkozai (sr_el (sgp4init_deep epoch io xpidot s))) (sr_xlamo (sr_res (sgp4init_deep epoch io xpidot s)))"
proof -
  obtain da sun moon so lu per where d1: "dscom epoch (sr_ecco (sr_el s)) (sr_argpo (sr_el s)) 0 (sr_inclo (sr_el s))
      (sr_nodeo (sr_el s)) (sr_no_unkozai (sr_el s)) = (da, sun, moon, so, lu, per)"
    by (cases "dscom epoch (sr_ecco (sr_el s)) (sr_argpo (sr_el s)) 0 (sr_inclo (sr_el s))
      (sr_nodeo (sr_el s)) (sr_no_unkozai (sr_el s))") auto
  obtain ecco inclo nodeo argpo mo where d2: "dpper so lu per (sr_time s) (sr_init s) (sr_operationmode s)
      (sr_ecco (sr_el s), sr_inclo (sr_el s), sr_nodeo (sr_el s), sr_argpo (sr_el s), sr_mo (sr_el s)) =
      (ecco, inclo, nodeo, argpo, mo)"
    by (cases "dpper so lu per (sr_time s) (sr_init s) (sr_operationmode s)
      (sr_ecco (sr_el s), sr_inclo (sr_el s), sr_nodeo (sr_el s), sr_argpo (sr_el s), sr_mo (sr_el s))") auto
  assume "sr_irez (sr_res (sgp4init_deep epoch io xpidot s)) \<noteq> 0"
  then show ?thesis
    by (auto simp: sgp4init_deep_def Let_def d1 d2 split: prod.splits dest!: dsinit_integ)
qed

lemma integ_ok_writes:
  "integ_ok (s\<lparr>sr_init := c\<rparr>) = integ_ok s"
  by (simp add: integ_ok_def)

lemma drag_argpdot: "sgp4init_drag ao tsi sf (ne, mo) = (ne', mo') \<Longrightarrow> sr_argpdot ne' = sr_argpdot ne"
  by (auto simp: sgp4init_drag_def Let_def split: if_splits)

lemma init_integ_ok: "integ_ok (sgp4init_state whichconst opsmode satn epoch te)"
proof -
  have deep: "integ_ok ((sgp4init_deep epoch io xpidot s)\<lparr>sr_near := ne, sr_more := mo\<rparr>)" for io xpidot s ne mo
    using init_deep_integ [of epoch io xpidot s] by (auto simp: integ_ok_def epoch_on_trajectory)
  have near: "integ_ok s" if "sr_method s = CHR ''n''" for s
    using that by (simp add: integ_ok_def)
  show ?thesis
    unfolding sgp4init_state_def Let_def by (auto intro!: near deep split: prod.split)
qed

lemma init_integ: "\<exists>s0. sgp4init w opsmode satn epoch te r0 v0 = Some (s0, True) \<and> integ_ok s0"
proof -
  obtain x where x: "sgp4 (sgp4init_state w opsmode satn epoch te) 0.0 r0 v0 = Some x" "integ_ok (fst x)"
    using sgp4_same [OF refl init_integ_ok init_integ_ok] by blast
  then show ?thesis by (cases x) (simp add: sgp4init_def integ_ok_writes)
qed

text \<open>C3: The initialisation always succeeds, and after it the result of a propagation, position, velocity,
  return value and error code, does not depend on the propagations made before.\<close>

theorem sgp4_history_independent:
  "\<exists>s0. sgp4init whichconst opsmode satn epoch te r0 v0 = Some (s0, True) \<and>
     (\<forall>ts r1 v1 t r v. \<exists>s s' s0' r' v' ok.
        propagate s0 ts r1 v1 = Some s \<and>
        sgp4 s t r v = Some (s', r', v', ok) \<and> sgp4 s0 t r v = Some (s0', r', v', ok) \<and>
        sr_error s' = sr_error s0')"
proof -
  obtain s0 where init: "sgp4init whichconst opsmode satn epoch te r0 v0 = Some (s0, True)" and ok0: "integ_ok s0"
    using init_integ by blast
  have "\<exists>s s' s0' r' v' ok. propagate s0 ts r1 v1 = Some s \<and>
      sgp4 s t r v = Some (s', r', v', ok) \<and> sgp4 s0 t r v = Some (s0', r', v', ok) \<and> sr_error s' = sr_error s0'"
    for ts r1 v1 t r v
  proof -
    obtain s where s: "propagate s0 ts r1 v1 = Some s" "frozen s = frozen s0" "integ_ok s"
      using propagate_frozen [OF ok0] by blast
    obtain y z where yz: "sgp4 s t r v = Some y" "sgp4 s0 t r v = Some z" "same_outcome y z"
      using sgp4_same [OF s(2) s(3) ok0] by blast
    then show ?thesis using s(1) by (cases y; cases z) (auto simp: same_outcome_def)
  qed
  with init show ?thesis by blast
qed

section \<open>What the arrays held before\<close>

text \<open>Two propagations of one state whose arrays differ agree, except in the arrays after an error of 1 to 4.\<close>

definition arrays_written :: "elsetrec \<times> vec3 \<times> vec3 \<times> bool \<Rightarrow> elsetrec \<times> vec3 \<times> vec3 \<times> bool \<Rightarrow> bool" where
  "arrays_written = (\<lambda>(s, r, v, ok) (s2, r2, v2, ok2).
     s2 = s \<and> ok2 = ok \<and> (sr_error s \<notin> {1, 2, 3, 4} \<longrightarrow> r2 = r \<and> v2 = v))"

lemma finish_arrays: "arrays_written (sgp4_finish s r v orbit perturbed) (sgp4_finish s r2 v2 orbit perturbed)"
  by (simp add: sgp4_finish_def arrays_written_def Let_def split_beta)

lemma mean_arrays: "arrays_written (sgp4_mean s r v me drag) (sgp4_mean s r2 v2 me drag)"
proof -
  have err: "arrays_written (s'\<lparr>sr_error := e\<rparr>, r, v, False) (s'\<lparr>sr_error := e\<rparr>, r2, v2, False)"
    if "e \<in> {1, 2, 3, 4}" for s' e using that by (auto simp: arrays_written_def)
  show ?thesis
    unfolding sgp4_mean_def Let_def by (simp add: err finish_arrays split: prod.split)
qed

lemma sgp4_arrays:
  assumes "sgp4 s t r v = Some x"
  shows "\<exists>x2. sgp4 s t r2 v2 = Some x2 \<and> arrays_written x x2"
  using assms by (auto simp: sgp4_def Let_def mean_arrays simp del: split_paired_Ex split: option.splits prod.splits)

end
