(* ===== verification/SV_Dates.thy ===== *)
theory SV_Dates
  imports SV_Prelude
begin

text \<open>
  The date functions of \<open>SGP4.cc\<close>: Julian date from a calendar date (\<open>jday_SGP4\<close>), calendar date
  from the day of a year (\<open>days2mdhms_SGP4\<close>) and from a Julian date (\<open>invjday_SGP4\<close>). They are
  checked against the calendar: a table of months and the number of leap years since 1901.
\<close>

section \<open>The functions\<close>

definition jday_SGP4 :: "int \<Rightarrow> int \<Rightarrow> int \<Rightarrow> int \<Rightarrow> int \<Rightarrow> double \<Rightarrow> double \<times> double" where
  "jday_SGP4 year mon day hr minute sec =
     (let jd = 367.0 * of_int year -
            of_int \<lfloor>(7 * (of_int year + of_int \<lfloor>of_int (mon + 9) / (12.0 :: double)\<rfloor>)) * (0.25 :: double)\<rfloor> +
            of_int \<lfloor>of_int (275 * mon) / (9.0 :: double)\<rfloor> +
            of_int day + 1721013.5;
          jdFrac = (sec + of_int minute * 60.0 + of_int hr * 3600.0) / 86400.0
      in if \<bar>jdFrac\<bar> > 1.0 then
           let dtt = of_int \<lfloor>jdFrac\<rfloor> in (jd + dtt, jdFrac - dtt)
         else (jd, jdFrac))"

definition lmonth :: "int \<Rightarrow> int list" where
  "lmonth year = [0, 31, (if year mod 4 = 0 then 29 else 28), 31, 30, 31, 30, 31, 31, 30, 31, 30, 31]"

function month_loop :: "int list \<Rightarrow> int \<Rightarrow> nat \<Rightarrow> int \<Rightarrow> nat \<times> int" where
  "month_loop lm dayofyr i inttemp =
     (if dayofyr > inttemp + lm ! i \<and> i < 12
      then month_loop lm dayofyr (i + 1) (inttemp + lm ! i)
      else (i, inttemp))"
  by pat_completeness auto
termination by (relation "measure (\<lambda>(_, _, i, _). 12 - i)") auto

declare month_loop.simps [simp del]

definition days2mdhms_SGP4 :: "int \<Rightarrow> double \<Rightarrow> int \<times> int \<times> int \<times> int \<times> double" where
  "days2mdhms_SGP4 year days =
     (let dayofyr = \<lfloor>days\<rfloor>;
          (i, inttemp) = month_loop (lmonth year) dayofyr 1 0;
          mon = int i;
          day = dayofyr - inttemp;
          temp = (days - of_int dayofyr) * 24.0;
          hr = \<lfloor>temp\<rfloor>;
          temp = (temp - of_int hr) * 60.0;
          minute = \<lfloor>temp\<rfloor>;
          sec = (temp - of_int minute) * 60.0
      in (mon, day, hr, minute, sec))"

definition invjday_SGP4 :: "double \<Rightarrow> double \<Rightarrow> int \<times> int \<times> int \<times> int \<times> int \<times> double" where
  "invjday_SGP4 jd jdfrac =
     (let (jd, jdfrac) =
            (if \<bar>jdfrac\<bar> \<ge> 1.0 then (jd + of_int \<lfloor>jdfrac\<rfloor>, jdfrac - of_int \<lfloor>jdfrac\<rfloor>) else (jd, jdfrac));
          dt = jd - of_int \<lfloor>jd\<rfloor> - 0.5;
          (jd, jdfrac) = (if \<bar>dt\<bar> > 0.00000001 then (jd - dt, jdfrac + dt) else (jd, jdfrac));
          temp = jd - 2415019.5;
          tu = temp / 365.25;
          year = 1900 + \<lfloor>tu\<rfloor>;
          leapyrs = \<lfloor>of_int (year - 1901) * (0.25 :: double)\<rfloor>;
          days = \<lfloor>temp - (of_int (year - 1900) * 365.0 + of_int leapyrs)\<rfloor>;
          (year, days) =
            (if of_int days + jdfrac < 1.0 then
               let year = year - 1;
                   leapyrs = \<lfloor>of_int (year - 1901) * (0.25 :: double)\<rfloor>
               in (year, \<lfloor>temp - (of_int (year - 1900) * 365.0 + of_int leapyrs)\<rfloor>)
             else (year, days))
      in (year, days2mdhms_SGP4 year (of_int days + jdfrac)))"

section \<open>The calendar\<close>

text \<open>Days of the year before a month, and a valid date of 1901 to 2099.\<close>

fun days_before :: "int \<Rightarrow> nat \<Rightarrow> int" where
  "days_before year 0 = 0"
| "days_before year (Suc n) = days_before year n + lmonth year ! n"

definition valid_date :: "int \<Rightarrow> nat \<Rightarrow> int \<Rightarrow> bool" where
  "valid_date year mon day \<longleftrightarrow>
     1901 \<le> year \<and> year \<le> 2099 \<and> 1 \<le> mon \<and> mon \<le> 12 \<and> 1 \<le> day \<and> day \<le> lmonth year ! mon"

definition day_of_year :: "int \<Rightarrow> nat \<Rightarrow> int \<Rightarrow> int" where
  "day_of_year year mon day = days_before year mon + day"

text \<open>Days since the last day of 1899, 1900 having 365 days.\<close>

definition day_number :: "int \<Rightarrow> nat \<Rightarrow> int \<Rightarrow> int" where
  "day_number year mon day = 365 * (year - 1900) + (year - 1901) div 4 + day_of_year year mon day"

definition valid_time :: "int \<Rightarrow> int \<Rightarrow> double \<Rightarrow> bool" where
  "valid_time hr minute sec \<longleftrightarrow> 0 \<le> hr \<and> hr \<le> 23 \<and> 0 \<le> minute \<and> minute \<le> 59 \<and> 0 \<le> sec \<and> sec < 60"

definition day_fraction :: "int \<Rightarrow> int \<Rightarrow> double \<Rightarrow> double" where
  "day_fraction hr minute sec = (sec + of_int minute * 60 + of_int hr * 3600) / 86400"

lemma month_cases:
  assumes "1 \<le> (m::nat)" "m \<le> 12"
  obtains "m = 1" | "m = 2" | "m = 3" | "m = 4" | "m = 5" | "m = 6"
    | "m = 7" | "m = 8" | "m = 9" | "m = 10" | "m = 11" | "m = 12"
  using assms by (auto simp: numeral_eq_Suc le_Suc_eq)

lemmas month_table = lmonth_def numeral_nat numeral_eq_Suc [symmetric]

lemma days_before_table:
  "days_before y 1 = 0" "days_before y 2 = 31"
  "days_before y 3 = (if y mod 4 = 0 then 60 else 59)" "days_before y 4 = (if y mod 4 = 0 then 91 else 90)"
  "days_before y 5 = (if y mod 4 = 0 then 121 else 120)" "days_before y 6 = (if y mod 4 = 0 then 152 else 151)"
  "days_before y 7 = (if y mod 4 = 0 then 182 else 181)" "days_before y 8 = (if y mod 4 = 0 then 213 else 212)"
  "days_before y 9 = (if y mod 4 = 0 then 244 else 243)" "days_before y 10 = (if y mod 4 = 0 then 274 else 273)"
  "days_before y 11 = (if y mod 4 = 0 then 305 else 304)" "days_before y 12 = (if y mod 4 = 0 then 335 else 334)"
  by (simp_all add: numeral_nat lmonth_def)

lemma lmonth_table:
  "lmonth y ! 1 = 31" "lmonth y ! 2 = (if y mod 4 = 0 then 29 else 28)" "lmonth y ! 3 = 31" "lmonth y ! 4 = 30"
  "lmonth y ! 5 = 31" "lmonth y ! 6 = 30" "lmonth y ! 7 = 31" "lmonth y ! 8 = 31" "lmonth y ! 9 = 30"
  "lmonth y ! 10 = 31" "lmonth y ! 11 = 30" "lmonth y ! 12 = 31"
  by (simp_all add: numeral_nat lmonth_def)

lemma lmonth_0: "lmonth y ! 0 = 0"
  by (simp add: lmonth_def)

lemma days_before_Suc_mono: "1 \<le> i \<Longrightarrow> i \<le> 12 \<Longrightarrow> days_before y i \<le> days_before y (Suc i)"
  by (erule (1) month_cases) (simp_all only: days_before.simps lmonth_table, simp_all)

lemma days_before_mono: "1 \<le> i \<Longrightarrow> i \<le> j \<Longrightarrow> j \<le> 12 \<Longrightarrow> days_before y i \<le> days_before y j"
proof (induction j)
  case (Suc j)
  show ?case
  proof (cases "i = Suc j")
    case False
    with Suc have "days_before y i \<le> days_before y j" by simp
    also have "\<dots> \<le> days_before y (Suc j)" using Suc.prems False by (intro days_before_Suc_mono) simp_all
    finally show ?thesis .
  qed simp
qed simp

text \<open>The loop over the months stops in the month of the day.\<close>

lemma month_loop_stops:
  assumes "1 \<le> i" "i \<le> m" "m \<le> 12" "1 \<le> d" "d \<le> lmonth y ! m"
  shows "month_loop (lmonth y) (days_before y m + d) i (days_before y i) = (m, days_before y m)"
  using assms(1,2)
proof (induction "m - i" arbitrary: i)
  case 0
  then have "i = m" by simp
  with assms(5) show ?case by (subst month_loop.simps) simp
next
  case (Suc n)
  then have i: "i < m" by simp
  have "days_before y (Suc i) \<le> days_before y m"
    using i Suc.prems assms(3) by (intro days_before_mono) simp_all
  with assms(3,4) i have "days_before y m + d > days_before y i + lmonth y ! i \<and> i < 12" by simp
  moreover have "month_loop (lmonth y) (days_before y m + d) (Suc i) (days_before y (Suc i)) = (m, days_before y m)"
    using Suc i by (intro Suc.hyps(1)) simp_all
  ultimately show ?case by (subst month_loop.simps) simp
qed

lemma month_loop_total: "i \<le> 12 \<Longrightarrow> fst (month_loop lm d i t) \<le> 12"
proof (induction lm d i t rule: month_loop.induct)
  case (1 lm d i t)
  then show ?case by (subst month_loop.simps) simp
qed

section \<open>Times of day\<close>

lemma floor_eq_int: "of_int n \<le> (x::real) \<Longrightarrow> x < of_int n + 1 \<Longrightarrow> \<lfloor>x\<rfloor> = n"
  by (simp add: floor_eq_iff)

lemma day_fraction_range: "valid_time h mi s \<Longrightarrow> 0 \<le> day_fraction h mi s \<and> day_fraction h mi s < 1"
proof -
  assume v: "valid_time h mi s"
  then have "real_of_int mi \<le> 59" "real_of_int h \<le> 23" by (simp_all add: valid_time_def)
  then show ?thesis using v by (simp add: valid_time_def day_fraction_def)
qed

lemma time_of_fraction:
  assumes "valid_time h mi s"
  shows "\<lfloor>day_fraction h mi s * 24\<rfloor> = h"
    and "\<lfloor>(day_fraction h mi s * 24 - of_int h) * 60\<rfloor> = mi"
    and "((day_fraction h mi s * 24 - of_int h) * 60 - of_int mi) * 60 = s"
proof -
  have v: "0 \<le> s" "s < 60" "0 \<le> real_of_int mi" "real_of_int mi \<le> 59"
    using assms by (simp_all add: valid_time_def)
  show "\<lfloor>day_fraction h mi s * 24\<rfloor> = h"
    using v by (intro floor_eq_int) (simp_all add: day_fraction_def field_simps)
  show "\<lfloor>(day_fraction h mi s * 24 - of_int h) * 60\<rfloor> = mi"
    using v by (intro floor_eq_int) (simp_all add: day_fraction_def field_simps)
  show "((day_fraction h mi s * 24 - of_int h) * 60 - of_int mi) * 60 = s"
    by (simp add: day_fraction_def field_simps)
qed

lemma days2mdhms_valid:
  assumes "valid_date y m d" and "valid_time h mi s"
  shows "days2mdhms_SGP4 y (of_int (day_of_year y m d) + day_fraction h mi s) = (int m, d, h, mi, s)"
proof -
  have fl: "\<lfloor>of_int (day_of_year y m d) + day_fraction h mi s\<rfloor> = day_of_year y m d"
    using day_fraction_range [OF assms(2)] by (intro floor_eq_int) simp_all
  have "month_loop (lmonth y) (day_of_year y m d) 1 0 = (m, days_before y m)"
    using month_loop_stops [of 1 m d y] assms(1) by (simp add: valid_date_def day_of_year_def lmonth_0)
  then show ?thesis
    using time_of_fraction [OF assms(2)]
    by (simp add: days2mdhms_SGP4_def Let_def fl) (simp add: day_of_year_def)
qed

section \<open>Julian dates\<close>

lemma floor_quarter: "\<lfloor>of_int n * (0.25 :: real)\<rfloor> = n div 4"
  using floor_divide_of_int_eq [of n 4, where 'a = real] by simp

lemma floor_ninth: "\<lfloor>of_int n / (9.0 :: real)\<rfloor> = n div 9"
  using floor_divide_of_int_eq [of n 9, where 'a = real] by simp

lemma floor_twelfth: "\<lfloor>of_int n / (12.0 :: real)\<rfloor> = n div 12"
  using floor_divide_of_int_eq [of n 12, where 'a = real] by simp

text \<open>The integer formula of \<open>jday_SGP4\<close> counts days.\<close>

lemma jday_days:
  assumes "1 \<le> m" "m \<le> 12"
  shows "367 * y - (7 * (y + (int m + 9) div 12)) div 4 + (275 * int m) div 9 + d + 1721013 =
    2415019 + day_number y m d"
  using assms
proof -
  define k where "k = y mod 4"
  have k: "k = 0 \<or> k = 1 \<or> k = 2 \<or> k = 3" unfolding k_def by presburger
  define q where "q = y div 4"
  have y: "y = 4 * q + k" by (simp add: q_def k_def)
  have a: "(7 * (y + c)) div 4 = 7 * q + (7 * (k + c)) div 4" for c
  proof -
    have "7 * (y + c) = 7 * (k + c) + 4 * (7 * q)" by (simp add: y)
    then show ?thesis by (simp only: div_mult_self2)
  qed
  have b: "(y - 1901) div 4 = q + (k - 1901) div 4"
  proof -
    have "y - 1901 = (k - 1901) + 4 * q" by (simp add: y)
    then show ?thesis by (simp only: div_mult_self2)
  qed
  have c: "y mod 4 = k" by (simp add: k_def)
  have e: "367 * y = 1468 * q + 367 * k" "365 * (y - 1900) = 1460 * q + 365 * k - 693500" by (simp_all add: y)
  show ?thesis
    using assms
  proof (rule month_cases)
  qed (use k in \<open>auto simp only: day_number_def day_of_year_def days_before_table a b c e\<close>, use k in auto)
qed

lemma jday_value:
  assumes "1 \<le> m" "m \<le> 12" and "valid_time h mi s"
  shows "jday_SGP4 y (int m) d h mi s = (of_int (2415019 + day_number y m d) + 0.5, day_fraction h mi s)"
proof -
  have f: "\<lfloor>(7 * (of_int y + of_int ((int m + 9) div 12))) * (0.25 :: double)\<rfloor> = (7 * (y + (int m + 9) div 12)) div 4"
    using floor_quarter [of "7 * (y + (int m + 9) div 12)"] by simp
  have "\<not> \<bar>day_fraction h mi s\<bar> > 1" using day_fraction_range [OF assms(3)] by simp
  moreover have "(s + of_int mi * 60 + of_int h * 3600) / 86400 = day_fraction h mi s"
    by (simp add: day_fraction_def)
  moreover have "367.0 * of_int y - of_int (7 * (y + (int m + 9) div 12) div 4) + of_int (275 * int m div 9) +
      of_int d + (1721013.5 :: double) = of_int (2415019 + day_number y m d) + 0.5"
    unfolding jday_days [OF assms(1,2), of y d, symmetric] by simp
  ultimately show ?thesis
    unfolding jday_SGP4_def Let_def floor_twelfth floor_ninth f by simp
qed

text \<open>The year of a day number.\<close>

lemma day_of_year_range:
  assumes "valid_date y m d"
  shows "1 \<le> day_of_year y m d \<and> day_of_year y m d \<le> (if y mod 4 = 0 then 366 else 365)"
proof -
  have "0 \<le> days_before y m"
    using days_before_mono [of 1 m y] assms by (simp add: valid_date_def lmonth_0)
  moreover have "days_before y m + lmonth y ! m \<le> (if y mod 4 = 0 then 366 else 365)"
    using assms unfolding valid_date_def
    by (elim conjE, elim month_cases) (simp_all only: days_before_table lmonth_table, simp_all)
  ultimately show ?thesis using assms by (auto simp: valid_date_def day_of_year_def)
qed

lemma year_of_day_number:
  assumes "valid_date y m d"
  shows "(4 * day_number y m d) div 1461 = y - 1900"
proof -
  define q where "q = (y - 1901) div 4"
  define r where "r = (y - 1901) mod 4"
  have y: "y = 1901 + 4 * q + r" "0 \<le> r" "r \<le> 3" by (simp_all add: q_def r_def)
  have leap: "y mod 4 = 0 \<longleftrightarrow> r = 3" using y by presburger
  have n: "4 * day_number y m d = 1461 * (y - 1900) + (4 * day_of_year y m d - r - 1)"
    unfolding day_number_def q_def [symmetric] using y by simp
  have "0 \<le> 4 * day_of_year y m d - r - 1" "4 * day_of_year y m d - r - 1 < 1461"
    using day_of_year_range [OF assms] y leap by (auto split: if_splits)
  then show ?thesis unfolding n by simp
qed

lemma invjday_value:
  assumes "valid_date y m d" and "0 \<le> f" "f < 1"
  shows "invjday_SGP4 (of_int (2415019 + day_number y m d) + 0.5) f =
    (y, days2mdhms_SGP4 y (of_int (day_of_year y m d) + f))"
proof -
  let ?N = "day_number y m d"
  have tu: "\<lfloor>(of_int ?N :: double) / 365.25\<rfloor> = y - 1900"
    using floor_divide_of_int_eq [of "4 * ?N" 1461, where 'a = real] year_of_day_number [OF assms(1)] by (simp add: mult.commute)
  have fl: "\<lfloor>(of_int (2415019 + ?N) :: double) + 0.5\<rfloor> = 2415019 + ?N"
    by (rule floor_eq_int) simp_all
  have days: "\<lfloor>(of_int ?N :: double) - (of_int (y - 1900) * 365.0 + of_int ((y - 1901) div 4))\<rfloor> = day_of_year y m d"
    by (rule floor_eq_int) (simp_all add: day_number_def)
  have late: "\<not> of_int (day_of_year y m d) + f < 1"
    using day_of_year_range [OF assms(1)] assms(2) by simp
  have big: "\<not> \<bar>f\<bar> \<ge> 1.0" using assms(2,3) by simp
  have dt: "(of_int (2415019 + ?N) :: double) + 0.5 - of_int (2415019 + ?N) - 0.5 = 0"
    "\<not> \<bar>0 :: double\<bar> > 0.00000001" by simp_all
  have temp: "(of_int (2415019 + ?N) :: double) + 0.5 - 2415019.5 = of_int ?N"
    by simp
  have y: "1900 + (y - 1900) = y" by simp
  have late': "\<not> of_int (day_of_year y m d) + f < 1.0" using late by simp
  show ?thesis
    by (simp only: invjday_SGP4_def Let_def big if_False prod.case fl dt temp tu y floor_quarter days late')
qed

text \<open>Every day of a year and every fraction of a day is a date and a time.\<close>

lemma exists_date:
  assumes "1901 \<le> y" "y \<le> 2099" "1 \<le> n" "n \<le> (if y mod 4 = 0 then 366 else 365)"
  shows "\<exists>m d. valid_date y m d \<and> day_of_year y m d = n"
proof -
  have step: "\<exists>m d. 1 \<le> m \<and> m \<le> 12 \<and> 1 \<le> d \<and> d \<le> lmonth y ! m \<and> days_before y m + d = n"
    if "1 \<le> k" "k \<le> 12" "n \<le> days_before y k + lmonth y ! k" for k
    using that
  proof (induction k rule: nat_induct_at_least)
    case base
    have "days_before y 1 = 0" by (simp add: lmonth_0)
    then show ?case using base assms(3) by (intro exI [of _ 1] exI [of _ n]) simp
  next
    case (Suc k)
    show ?case
    proof (cases "n \<le> days_before y (Suc k)")
      case True
      then show ?thesis using Suc by simp
    next
      case False
      then show ?thesis
        using Suc by (intro exI [of _ "Suc k"] exI [of _ "n - days_before y (Suc k)"]) simp
    qed
  qed
  have "days_before y 12 + lmonth y ! 12 = (if y mod 4 = 0 then 366 else 365)"
    by (simp only: days_before_table lmonth_table) simp
  then have "n \<le> days_before y 12 + lmonth y ! 12" using assms(4) by simp
  from step [OF _ _ this] show ?thesis
    using assms(1,2) by (auto simp: valid_date_def day_of_year_def)
qed

lemma exists_time:
  assumes "0 \<le> f" "f < (1 :: double)"
  shows "\<exists>h mi s. valid_time h mi s \<and> day_fraction h mi s = f"
proof -
  define h where "h = \<lfloor>f * 24\<rfloor>"
  define mi where "mi = \<lfloor>(f * 24 - of_int h) * 60\<rfloor>"
  define s where "s = ((f * 24 - of_int h) * 60 - of_int mi) * 60"
  have h: "of_int h \<le> f * 24" "f * 24 < of_int h + 1" unfolding h_def by linarith+
  have mi: "of_int mi \<le> (f * 24 - of_int h) * 60" "(f * 24 - of_int h) * 60 < of_int mi + 1"
    unfolding mi_def by linarith+
  have "0 \<le> h" unfolding h_def using assms(1) by simp
  moreover have "h < 24" unfolding h_def using assms(2) by (simp add: floor_less_iff)
  moreover have "0 \<le> mi" unfolding mi_def using h by simp
  moreover have "mi < 60" unfolding mi_def using h by (simp add: floor_less_iff)
  ultimately have "valid_time h mi s" using mi by (simp add: valid_time_def s_def)
  moreover have "day_fraction h mi s = f" unfolding day_fraction_def s_def by simp
  ultimately show ?thesis by blast
qed

text \<open>For the dates of 1901 to 2099 the Julian date counts the days of the calendar from the last day
  of 1899, with the time of day as the fraction; consecutive valid dates differ by one.\<close>

theorem jday_counts_days:
  assumes "valid_date y m d" and "valid_time h mi s"
  shows "jday_SGP4 y (int m) d h mi s = (2415019.5 + of_int (day_number y m d), day_fraction h mi s) \<and>
    (valid_date y m (d + 1) \<longrightarrow> fst (jday_SGP4 y (int m) (d + 1) h mi s) = fst (jday_SGP4 y (int m) d h mi s) + 1) \<and>
    (d = lmonth y ! m \<and> m < 12 \<longrightarrow> fst (jday_SGP4 y (int (m + 1)) 1 h mi s) = fst (jday_SGP4 y (int m) d h mi s) + 1) \<and>
    (m = 12 \<and> d = 31 \<longrightarrow> fst (jday_SGP4 (y + 1) 1 1 h mi s) = fst (jday_SGP4 y (int m) d h mi s) + 1)"
proof -
  note m = assms(1) [unfolded valid_date_def]
  have v: "jday_SGP4 y' (int m') d' h mi s = (of_int (2415019 + day_number y' m' d') + 0.5, day_fraction h mi s)"
    if "1 \<le> m'" "m' \<le> 12" for y' m' d' using that assms(2) by (rule jday_value)
  have "day_number (y + 1) 1 1 = day_number y 12 31 + 1"
  proof -
    have "(y - 1901) div 4 + (if y mod 4 = 0 then 1 else 0) = (y + 1 - 1901) div 4" by presburger
    then show ?thesis unfolding day_number_def day_of_year_def days_before_table by (simp split: if_splits)
  qed
  moreover have "day_number y (Suc m) 1 = day_number y m (lmonth y ! m) + 1"
    by (simp add: day_number_def day_of_year_def)
  moreover have "day_number y m (d + 1) = day_number y m d + 1"
    by (simp add: day_number_def day_of_year_def)
  ultimately show ?thesis
    using m v [of m y] v [of "Suc m" y 1] v [of 1 "y + 1" 1] v [of 12 y 31] by auto
qed

theorem jday_counts_days_witness:
  "jday_SGP4 2024 2 29 12 0 0 = (2415019.5 + 45350, 1 / 2) \<and>
   fst (jday_SGP4 2024 3 1 12 0 0) = fst (jday_SGP4 2024 2 29 12 0 0) + 1"
proof -
  have "valid_date 2024 2 29" "valid_time 12 0 0" "day_number 2024 2 29 = 45350" "lmonth 2024 ! 2 = 29"
    by (simp_all add: valid_date_def valid_time_def lmonth_table day_number_def day_of_year_def days_before_table)
  then show ?thesis
    using jday_counts_days [of 2024 2 29 12 0 0] by (simp add: day_fraction_def)
qed

section \<open>Back from a Julian date\<close>

definition seconds_of_day :: "int \<Rightarrow> int \<Rightarrow> double \<Rightarrow> double" where
  "seconds_of_day hr minute sec = sec + of_int minute * 60 + of_int hr * 3600"

lemma seconds_fraction: "seconds_of_day hr minute sec = 86400 * day_fraction hr minute sec"
  by (simp add: seconds_of_day_def day_fraction_def)

text \<open>C15: A date and time of 1901 to 2099 becomes the Julian date that counts the days of the calendar. Turning it back
  gives the same date, and a time of day that is off by no more than the fraction of the day was: the
  fraction is any within \<open>eps\<close> of the computed one, since the division of the seconds by 86400 and the sum of day
  and fraction are rounded in double arithmetic (what follows them is taken as exact). Hour, minute and second
  need not come back, as the next lemma shows.\<close>

theorem date_roundtrip:
  assumes "valid_date y m d" and "valid_time h mi s"
    and "jday_SGP4 y (int m) d h mi s = (jd, f)" and "0 \<le> fr" "fr < 1" "\<bar>fr - f\<bar> \<le> eps"
  shows "jd = 2415019.5 + of_int (day_number y m d) \<and>
    (\<exists>h' mi' s'. invjday_SGP4 jd fr = (y, int m, d, h', mi', s') \<and>
       days2mdhms_SGP4 y (of_int (day_of_year y m d) + fr) = (int m, d, h', mi', s') \<and>
       valid_time h' mi' s' \<and> \<bar>seconds_of_day h' mi' s' - seconds_of_day h mi s\<bar> \<le> 86400 * eps)"
proof -
  have "jday_SGP4 y (int m) d h mi s = (of_int (2415019 + day_number y m d) + 0.5, day_fraction h mi s)"
    using assms(1,2) by (intro jday_value) (simp_all add: valid_date_def)
  then have jd: "jd = of_int (2415019 + day_number y m d) + 0.5" and f: "f = day_fraction h mi s"
    using assms(3) by simp_all
  obtain h' mi' s' where t: "valid_time h' mi' s'" "day_fraction h' mi' s' = fr"
    using exists_time [OF assms(4,5)] by blast
  have md: "days2mdhms_SGP4 y (of_int (day_of_year y m d) + fr) = (int m, d, h', mi', s')"
    using days2mdhms_valid [OF assms(1) t(1)] by (simp only: t(2))
  have "seconds_of_day h' mi' s' - seconds_of_day h mi s = 86400 * (fr - f)"
    unfolding seconds_fraction t(2) f by (simp add: algebra_simps)
  then have "\<bar>seconds_of_day h' mi' s' - seconds_of_day h mi s\<bar> \<le> 86400 * eps"
    using assms(6) by (simp add: abs_mult)
  then show ?thesis
    using invjday_value [OF assms(1,4,5)] md t(1) by (auto simp: jd)
qed

text \<open>With a fraction just below that of a whole minute the minute before comes back.\<close>

lemma whole_minute_lost:
  assumes "valid_date y m d" and "valid_time h mi 0" and "1 \<le> mi" and "0 < eps" "eps < 1 / 1440"
  shows "invjday_SGP4 (2415019.5 + of_int (day_number y m d)) (day_fraction h mi 0 - eps) =
    (y, int m, d, h, mi - 1, 60 - 86400 * eps)"
proof -
  have t: "valid_time h (mi - 1) (60 - 86400 * eps)" using assms by (simp add: valid_time_def)
  have fr: "day_fraction h (mi - 1) (60 - 86400 * eps) = day_fraction h mi 0 - eps"
    by (simp add: day_fraction_def field_simps)
  have "(2415019.5 :: double) + of_int (day_number y m d) = of_int (2415019 + day_number y m d) + 0.5" by simp
  then show ?thesis
    using invjday_value [OF assms(1), of "day_fraction h mi 0 - eps"] day_fraction_range [OF t]
      days2mdhms_valid [OF assms(1) t] by (simp add: fr)
qed

text \<open>A fraction that is off by less than one part in \<open>10\<^sup>1\<^sup>2\<close>: 23:57:59.9999999 instead of 23:58.\<close>

theorem date_roundtrip_witness:
  "(\<exists>h mi s. invjday_SGP4 (fst (jday_SGP4 2021 6 15 23 58 0)) (719 / 720 - 1 / 10 ^ 12) = (2021, 6, 15, h, mi, s) \<and>
      valid_time h mi s \<and> \<bar>seconds_of_day h mi s - 86280\<bar> \<le> 86400 * (1 / 10 ^ 12)) \<and>
   invjday_SGP4 (fst (jday_SGP4 2021 6 15 23 58 0)) (719 / 720 - 1 / 10 ^ 12) =
     (2021, 6, 15, 23, 57, 60 - 86400 * (1 / 10 ^ 12))"
proof -
  have v: "valid_date 2021 6 15" "valid_time 23 58 0"
    by (simp_all add: valid_date_def valid_time_def lmonth_table)
  obtain jd f where j: "jday_SGP4 2021 (int 6) 15 23 58 0 = (jd, f)" by (cases "jday_SGP4 2021 (int 6) 15 23 58 0")
  have f: "f = 719 / 720" using j jday_value [of 6 23 58 0 2021 15] v(2) by (simp add: day_fraction_def)
  have close: "\<bar>719 / 720 - 1 / 10 ^ 12 - f\<bar> \<le> 1 / 10 ^ 12" by (simp add: f)
  note trip = date_roundtrip [OF v j _ _ close]
  have jd: "jd = 2415019.5 + of_int (day_number 2021 6 15)" using trip by simp
  have frac: "day_fraction 23 58 0 = 719 / 720" by (simp add: day_fraction_def)
  have "invjday_SGP4 jd (719 / 720 - 1 / 10 ^ 12) = (2021, 6, 15, 23, 57, 60 - 86400 * (1 / 10 ^ 12))"
    using whole_minute_lost [OF v, of "1 / 10 ^ 12"] unfolding jd frac by simp_all
  moreover have "\<exists>h mi s. invjday_SGP4 jd (719 / 720 - 1 / 10 ^ 12) = (2021, 6, 15, h, mi, s) \<and>
      valid_time h mi s \<and> \<bar>seconds_of_day h mi s - 86280\<bar> \<le> 86400 * (1 / 10 ^ 12)"
    using trip by (auto simp: seconds_of_day_def [of 23])
  ultimately show ?thesis using j by simp
qed

end
