(* ===== verification/SV_TLE_Parse.thy ===== *)
theory SV_TLE_Parse
  imports SV_SGP4 SV_Dates SV_DoubleText
begin

text \<open>
  \<open>twoline2rv\<close>: the two lines are repaired in place (missing digits, implied decimal points), read with
  \<open>sscanf\<close>, converted to the units of the propagator and given to \<open>sgp4init\<close>. The members of
  \<open>elsetrec\<close> that hold what was read are the record \<open>tle_fields\<close>. \<open>sscanf\<close> stops at the first field that
  does not match; fields it does not reach keep the values they had, which is what the first
  argument holds. Hexadecimal numbers, infinities and not-a-number are not read as \<open>%lf\<close>.
\<close>

section \<open>The character arrays\<close>

definition buf_get :: "string \<Rightarrow> nat \<Rightarrow> char res" where
  "buf_get s i = (if i < length s then Inr (s ! i) else if i = length s then Inr CHR 0x00 else Inl OutOfRange)"

definition buf_set :: "nat \<Rightarrow> char \<Rightarrow> string \<Rightarrow> string res" where
  "buf_set i c s = (if i < length s then Inr (s[i := c]) else Inl OutOfRange)"

text \<open>\<open>if (s[i] == ' ') s[i] = c\<close>, for one index and for a range of them.\<close>

definition buf_fill :: "char \<Rightarrow> nat \<Rightarrow> string \<Rightarrow> string res" where
  "buf_fill c i s = rbind (buf_get s i) (\<lambda>x. if x = CHR '' '' then buf_set i c s else Inr s)"

fun buf_fill_all :: "char \<Rightarrow> nat list \<Rightarrow> string \<Rightarrow> string res" where
  "buf_fill_all c [] s = Inr s"
| "buf_fill_all c (i # is) s = rbind (buf_fill c i s) (buf_fill_all c is)"

text \<open>\<open>if (s[i] != ' ') s[i - 1] = s[i]; s[i] = '.'\<close>\<close>

definition buf_point :: "nat \<Rightarrow> string \<Rightarrow> string res" where
  "buf_point i s =
     rbind (buf_get s i) (\<lambda>x.
     rbind (if x \<noteq> CHR '' '' then buf_set (i - 1) x s else Inr s) (\<lambda>s. buf_set i CHR ''.'' s))"

definition fix_line1 :: "string \<Rightarrow> string res" where
  "fix_line1 s =
     rbind (buf_fill_all CHR ''_'' [10..<16] s) (\<lambda>s.
     rbind (buf_point 44 s) (\<lambda>s.
     rbind (buf_fill CHR ''U'' 7 s) (\<lambda>s.
     rbind (buf_fill CHR ''.'' 9 s) (\<lambda>s.
     rbind (buf_fill_all CHR ''0'' [45..<50] s) (\<lambda>s.
     rbind (buf_fill CHR ''0'' 51 s) (\<lambda>s.
     rbind (buf_point 53 s) (\<lambda>s.
     rbind (buf_fill CHR ''0'' 62 s) (\<lambda>s.
     buf_fill CHR ''0'' 68 s))))))))"

definition fix_line2 :: "string \<Rightarrow> string res" where
  "fix_line2 s = rbind (buf_set 25 CHR ''.'' s) (buf_fill_all CHR ''0'' [26..<33])"

section \<open>Scanning\<close>

definition skip_space :: "string \<Rightarrow> string" where
  "skip_space s = dropWhile c_isspace s"

text \<open>\<open>%wd\<close>: value and rest, or no match.\<close>

definition scan_d :: "nat \<Rightarrow> string \<Rightarrow> (int \<times> string) option" where
  "scan_d w s =
     (let s = skip_space s;
          (neg, body) = take_sign (take w s);
          ds = takeWhile is_digit body;
          used = length (take w s) - length body + length ds
      in if ds = [] then None
         else Some ((if neg then - int (digits_value ds) else int (digits_value ds)), drop used s))"

text \<open>\<open>%ws\<close>\<close>

definition scan_s :: "nat \<Rightarrow> string \<Rightarrow> (string \<times> string) option" where
  "scan_s w s =
     (let s = skip_space s; t = takeWhile (\<lambda>c. \<not> c_isspace c) (take w s)
      in if t = [] then None else Some (t, drop (length t) s))"

text \<open>A space in the format and \<open>%1c\<close>\<close>

fun scan_c :: "string \<Rightarrow> (char \<times> string) option" where
  "scan_c s = (case skip_space s of [] \<Rightarrow> None | c # cs \<Rightarrow> Some (c, cs))"

definition scan_lf :: "nat \<Rightarrow> string \<Rightarrow> (double \<times> string) option" where
  "scan_lf w s =
     (let s = skip_space s;
          (neg, body) = take_sign (take w s);
          ip = takeWhile is_digit body;
          (pt, body2) = split_point (drop (length ip) body);
          fp = (if pt = [] then [] else takeWhile is_digit body2);
          used = (length (take w s) - length body) + length ip + length pt + length fp
      in if ip = [] \<and> fp = [] then None
         else case scan_exponent (drop (length fp) body2) of
                None \<Rightarrow> None
              | Some (x, n) \<Rightarrow>
                  (let v = decimal_value ip fp * 10 powr of_int x
                   in Some (if neg then - v else v, drop (used + n) s)))"

record tle_fields =
  tf_cardnumb :: int
  tf_satnum :: string
  tf_classification :: char
  tf_intldesg :: string
  tf_epochyr :: int
  tf_epochdays :: double
  tf_ndot :: double
  tf_nddot :: double
  tf_nexp :: int
  tf_bstar :: double
  tf_ibexp :: int
  tf_ephtype :: int
  tf_elnum :: int
  tf_inclo :: double
  tf_nodeo :: double
  tf_ecco :: double
  tf_argpo :: double
  tf_mo :: double
  tf_no_kozai :: double
  tf_revnum :: int

text \<open>One conversion: when an earlier one failed nothing more is assigned.\<close>

definition conv ::
    "(string \<Rightarrow> ('a \<times> string) option) \<Rightarrow> ('a \<Rightarrow> tle_fields \<Rightarrow> tle_fields) \<Rightarrow>
      tle_fields \<times> string option \<Rightarrow> tle_fields \<times> string option" where
  "conv scan put st =
     (case st of (f, None) \<Rightarrow> (f, None)
      | (f, Some s) \<Rightarrow> (case scan s of None \<Rightarrow> (f, None) | Some (x, s) \<Rightarrow> (put x f, Some s)))"

definition scan_line1 :: "string \<Rightarrow> tle_fields \<Rightarrow> tle_fields" where
  "scan_line1 s f =
     (let st = (f, Some s);
          st = conv (scan_d 2) (\<lambda>x. tf_cardnumb_update (\<lambda>_. x)) st;
          st = conv (scan_s 5) (\<lambda>x. tf_satnum_update (\<lambda>_. x)) st;
          st = conv scan_c (\<lambda>x. tf_classification_update (\<lambda>_. x)) st;
          st = conv (scan_s 10) (\<lambda>x. tf_intldesg_update (\<lambda>_. x)) st;
          st = conv (scan_d 2) (\<lambda>x. tf_epochyr_update (\<lambda>_. x)) st;
          st = conv (scan_lf 12) (\<lambda>x. tf_epochdays_update (\<lambda>_. x)) st;
          st = conv (scan_lf 11) (\<lambda>x. tf_ndot_update (\<lambda>_. x)) st;
          st = conv (scan_lf 7) (\<lambda>x. tf_nddot_update (\<lambda>_. x)) st;
          st = conv (scan_d 2) (\<lambda>x. tf_nexp_update (\<lambda>_. x)) st;
          st = conv (scan_lf 7) (\<lambda>x. tf_bstar_update (\<lambda>_. x)) st;
          st = conv (scan_d 2) (\<lambda>x. tf_ibexp_update (\<lambda>_. x)) st;
          st = conv (scan_d 2) (\<lambda>x. tf_ephtype_update (\<lambda>_. x)) st;
          st = conv (scan_d 6) (\<lambda>x. tf_elnum_update (\<lambda>_. x)) st
      in fst st)"

text \<open>\<open>w\<close> is the width of the mean motion, 10 or 11; the last component holds the three times of a verification run.\<close>

definition scan_line2 :: "string \<Rightarrow> nat \<Rightarrow> tle_fields \<Rightarrow> tle_fields \<times> string option" where
  "scan_line2 s w f =
     (let st = (f, Some s);
          st = conv (scan_d 2) (\<lambda>x. tf_cardnumb_update (\<lambda>_. x)) st;
          st = conv (scan_s 5) (\<lambda>x. tf_satnum_update (\<lambda>_. x)) st;
          st = conv (scan_lf 9) (\<lambda>x. tf_inclo_update (\<lambda>_. x)) st;
          st = conv (scan_lf 9) (\<lambda>x. tf_nodeo_update (\<lambda>_. x)) st;
          st = conv (scan_lf 8) (\<lambda>x. tf_ecco_update (\<lambda>_. x)) st;
          st = conv (scan_lf 9) (\<lambda>x. tf_argpo_update (\<lambda>_. x)) st;
          st = conv (scan_lf 9) (\<lambda>x. tf_mo_update (\<lambda>_. x)) st;
          st = conv (scan_lf w) (\<lambda>x. tf_no_kozai_update (\<lambda>_. x)) st
      in conv (scan_d 6) (\<lambda>x. tf_revnum_update (\<lambda>_. x)) st)"

definition scan_time :: "double \<Rightarrow> string option \<Rightarrow> double \<times> string option" where
  "scan_time old st =
     (case st of None \<Rightarrow> (old, None)
      | Some s \<Rightarrow> (case scan_lf (length s) s of None \<Rightarrow> (old, None) | Some (x, s) \<Rightarrow> (x, Some s)))"

section \<open>The function\<close>

text \<open>Units of the propagator.\<close>

definition tle_units :: "tle_fields \<Rightarrow> tle_fields" where
  "tle_units f =
     (let deg2rad = pi / 180.0; xpdotp = 1440.0 / (2.0 * pi)
      in f\<lparr>tf_no_kozai := tf_no_kozai f / xpdotp,
           tf_nddot := tf_nddot f * 10.0 powr of_int (tf_nexp f) / (xpdotp * 1440.0 * 1440),
           tf_bstar := tf_bstar f * 10.0 powr of_int (tf_ibexp f),
           tf_ndot := tf_ndot f / (xpdotp * 1440.0),
           tf_inclo := tf_inclo f * deg2rad, tf_nodeo := tf_nodeo f * deg2rad,
           tf_argpo := tf_argpo f * deg2rad, tf_mo := tf_mo f * deg2rad\<rparr>)"

definition tle_epoch_date :: "int \<Rightarrow> double \<Rightarrow> double \<times> double" where
  "tle_epoch_date epochyr epochdays =
     (let year = (if epochyr < 57 then epochyr + 2000 else epochyr + 1900);
          (mon, day, hr, minute, sec) = days2mdhms_SGP4 year epochdays
      in jday_SGP4 year mon day hr minute sec)"

text \<open>
  A run that is neither a verification (\<open>v\<close>) nor of the catalogue (\<open>c\<close>) asks on the terminal for its start, its
  stop and its step, as dates (\<open>e\<close>), days of a year (\<open>d\<close>) or minutes from the epoch (\<open>m\<close>). The record holds what
  is typed in.
\<close>

record manual_answers =
  ma_start :: "int \<times> int \<times> int \<times> int \<times> int \<times> double"
  ma_stop :: "int \<times> int \<times> int \<times> int \<times> int \<times> double"
  ma_startdayofyr :: "int \<times> double"
  ma_stopdayofyr :: "int \<times> double"
  ma_startmfe :: double
  ma_stopmfe :: double
  ma_deltamin :: double

definition minutes_from :: "double \<times> double \<Rightarrow> double \<times> double \<Rightarrow> double" where
  "minutes_from epoch t = (fst t - fst epoch) * 1440.0 + (snd t - snd epoch) * 1440.0"

definition manual_run ::
    "char \<Rightarrow> manual_answers \<Rightarrow> double \<times> double \<Rightarrow> double \<times> double \<times> double \<Rightarrow> double \<times> double \<times> double" where
  "manual_run typeinput ans epoch run =
     (let run =
            (if typeinput = CHR ''e'' then
               (let (startyear, startmon, startday, starthr, startmin, startsec) = ma_start ans;
                    start = jday_SGP4 startyear startmon startday starthr startmin startsec;
                    (stopyear, stopmon, stopday, stophr, stopmin, stopsec) = ma_stop ans;
                    stop = jday_SGP4 stopyear stopmon stopday stophr stopmin stopsec
                in (minutes_from epoch start, minutes_from epoch stop, ma_deltamin ans))
             else run);
          run =
            (if typeinput = CHR ''d'' then
               (let (startyear, startdayofyr) = ma_startdayofyr ans; (stopyear, stopdayofyr) = ma_stopdayofyr ans;
                    (mon, day, hr, minute, sec) = days2mdhms_SGP4 startyear startdayofyr;
                    start = jday_SGP4 startyear mon day hr minute sec;
                    (mon, day, hr, minute, sec) = days2mdhms_SGP4 stopyear stopdayofyr;
                    stop = jday_SGP4 stopyear mon day hr minute sec
                in (minutes_from epoch start, minutes_from epoch stop, ma_deltamin ans))
             else run)
      in if typeinput = CHR ''m'' then (ma_startmfe ans, ma_stopmfe ans, ma_deltamin ans) else run)"

text \<open>Start, stop and step of the run are returned last.\<close>

definition twoline2rv ::
    "manual_answers \<Rightarrow> string \<Rightarrow> string \<Rightarrow> char \<Rightarrow> char \<Rightarrow> char \<Rightarrow> gravconsttype \<Rightarrow>
      double \<times> double \<times> double \<Rightarrow> tle_fields \<Rightarrow>
      (tle_fields \<times> (double \<times> double) \<times> (elsetrec \<times> bool) option \<times> (double \<times> double \<times> double)) res" where
  "twoline2rv ans longstr1 longstr2 typerun typeinput opsmode whichconst run f =
     rbind (fix_line1 longstr1) (\<lambda>longstr1.
     rbind (fix_line2 longstr2) (\<lambda>longstr2.
     rbind (buf_get longstr2 52) (\<lambda>c52.
     let f = scan_line1 longstr1 f;
         (f, rest) = scan_line2 longstr2 (if c52 = CHR '' '' then 10 else 11) f;
         (startmfe, stopmfe, deltamin) = run;
         (startmfe, stopmfe, deltamin) =
           (if typerun = CHR ''v'' then
              (let (startmfe, rest) = scan_time startmfe rest;
                   (stopmfe, rest) = scan_time stopmfe rest;
                   (deltamin, rest) = scan_time deltamin rest
               in (startmfe, stopmfe, deltamin))
            else run);
         f = tle_units f;
         (jd, jdF) = tle_epoch_date (tf_epochyr f) (tf_epochdays f);
         run =
           (if typerun \<noteq> CHR ''v'' \<and> typerun \<noteq> CHR ''c'' then manual_run typeinput ans (jd, jdF) (startmfe, stopmfe, deltamin)
            else if typerun = CHR ''c'' then (-1440.0, 1440.0, 10.0)
            else (startmfe, stopmfe, deltamin));
         te = \<lparr>te_bstar = tf_bstar f, te_ndot = tf_ndot f, te_nddot = tf_nddot f, te_ecco = tf_ecco f,
               te_argpo = tf_argpo f, te_inclo = tf_inclo f, te_mo = tf_mo f, te_no = tf_no_kozai f,
               te_nodeo = tf_nodeo f\<rparr>
     in Inr (f, (jd, jdF),
          sgp4init whichconst opsmode (tf_satnum f) ((jd + jdF) - 2433281.5) te (0, 0, 0) (0, 0, 0),
          run))))"

section \<open>Length of the lines\<close>

text \<open>\<open>needs n f\<close>: \<open>f\<close> succeeds exactly on strings of at least \<open>n\<close> characters and keeps the length.\<close>

definition needs :: "nat \<Rightarrow> (string \<Rightarrow> string res) \<Rightarrow> bool" where
  "needs n f \<longleftrightarrow> (\<forall>s. if n \<le> length s then \<exists>s'. f s = Inr s' \<and> length s' = length s else f s = Inl OutOfRange)"

lemma needs_fill: "needs i (buf_fill c i)"
  by (auto simp: needs_def buf_fill_def buf_get_def buf_set_def)

lemma needs_run: "needs n f \<Longrightarrow> n \<le> length s \<Longrightarrow> \<exists>s'. f s = Inr s' \<and> length s' = length s"
  and needs_fail: "needs n f \<Longrightarrow> \<not> n \<le> length s \<Longrightarrow> f s = Inl OutOfRange"
  by (simp_all add: needs_def)

lemma needs_bind:
  assumes f: "needs m f" and g: "needs n g"
  shows "needs (max m n) (\<lambda>s. rbind (f s) g)"
  unfolding needs_def
proof (rule allI)
  fix s
  show "if max m n \<le> length s then \<exists>s'. rbind (f s) g = Inr s' \<and> length s' = length s else rbind (f s) g = Inl OutOfRange"
  proof (cases "m \<le> length s")
    case True
    then obtain s1 where s1: "f s = Inr s1" "length s1 = length s" using needs_run [OF f] by blast
    then show ?thesis
      using True needs_run [OF g, of s1] needs_fail [OF g, of s1] by (cases "n \<le> length s") auto
  qed (simp add: needs_fail [OF f])
qed

lemma needs_fill_all: "needs (fold max is 0) (buf_fill_all c is)"
proof -
  have "needs (fold max is k) (\<lambda>s. rbind (f s) (buf_fill_all c is))" if "needs k f" for k f
    using that
  proof (induction "is" arbitrary: k f)
    case Nil
    then show ?case
      by (simp add: needs_def) (metis rbind_simps)
  next
    case (Cons i "is")
    have "needs (max i k) (\<lambda>s. rbind (f s) (buf_fill c i))"
      using needs_bind [OF Cons.prems needs_fill] by (simp add: max.commute)
    from Cons.IH [OF this] show ?case by (simp add: rbind_assoc)
  qed
  from this [of 0 Inr] show ?thesis by (simp add: needs_def)
qed

lemma needs_point: "0 < i \<Longrightarrow> needs (i + 1) (buf_point i)"
  by (auto simp: needs_def buf_point_def buf_get_def buf_set_def)

lemma needs_set: "needs (i + 1) (buf_set i c)"
  by (auto simp: needs_def buf_set_def)

lemma triple_exists: "\<exists>a b c. x = (a, b, c)"
  by (cases x) auto

lemma needs_fix_line1: "needs 68 fix_line1"
proof -
  have a: "needs 15 (buf_fill_all CHR ''_'' [10..<16])" "needs 49 (buf_fill_all CHR ''0'' [45..<50])"
    using needs_fill_all [of "[10..<16]"] needs_fill_all [of "[45..<50]"] by (simp_all add: upt_conv_Cons del: buf_fill_all.simps)
  have b: "needs 45 (buf_point 44)" "needs 54 (buf_point 53)"
    using needs_point [of 44] needs_point [of 53] by simp_all
  have "needs (max 15 (max 45 (max 7 (max 9 (max 49 (max 51 (max 54 (max 62 68)))))))) fix_line1"
    unfolding fix_line1_def by (intro needs_bind needs_fill a b)
  then show ?thesis by simp
qed

lemma needs_fix_line2: "needs 32 fix_line2"
proof -
  have "needs 26 (buf_set 25 c)" for c
    using needs_set [of 25] by simp
  moreover have "needs 32 (buf_fill_all CHR ''0'' [26..<33])"
    using needs_fill_all [of "[26..<33]"] by (simp add: upt_conv_Cons del: buf_fill_all.simps)
  ultimately have "needs (max 26 32) fix_line2"
    unfolding fix_line2_def by (intro needs_bind)
  then show ?thesis by simp
qed

text \<open>What is returned for lines that are long enough.\<close>

lemma twoline2rv_reads:
  assumes "68 \<le> length l1" and "52 \<le> length l2"
  shows "\<exists>f te run'. twoline2rv ans l1 l2 typerun typeinput opsmode w run f0 =
    Inr (f, tle_epoch_date (tf_epochyr f) (tf_epochdays f),
         sgp4init w opsmode (tf_satnum f)
           (fst (tle_epoch_date (tf_epochyr f) (tf_epochdays f)) + snd (tle_epoch_date (tf_epochyr f) (tf_epochdays f)) -
             2433281.5) te (0, 0, 0) (0, 0, 0), run')"
proof -
  obtain s1 where s1: "fix_line1 l1 = Inr s1" using needs_run [OF needs_fix_line1 assms(1)] by blast
  obtain s2 where s2: "fix_line2 l2 = Inr s2" "length s2 = length l2"
    using needs_run [OF needs_fix_line2, of l2] assms(2) by auto
  have "\<exists>c. buf_get s2 52 = Inr c" using s2(2) assms(2) by (simp add: buf_get_def)
  then obtain c where c: "buf_get s2 52 = Inr c" by blast
  show ?thesis
    unfolding twoline2rv_def s1 s2(1) rbind_simps c Let_def split_beta prod.collapse by (intro exI) (rule refl)
qed

lemma twoline2rv_short:
  assumes "\<not> (68 \<le> length l1 \<and> 52 \<le> length l2)"
  shows "twoline2rv ans l1 l2 typerun typeinput opsmode w run f = Inl OutOfRange"
proof (cases "68 \<le> length l1")
  case False
  then show ?thesis by (simp add: twoline2rv_def needs_fail [OF needs_fix_line1])
next
  case l1: True
  obtain s1 where s1: "fix_line1 l1 = Inr s1" using needs_run [OF needs_fix_line1 l1] by blast
  show ?thesis
  proof (cases "32 \<le> length l2")
    case False
    then show ?thesis by (simp add: twoline2rv_def s1 needs_fail [OF needs_fix_line2])
  next
    case True
    then obtain s2 where s2: "fix_line2 l2 = Inr s2" "length s2 = length l2"
      using needs_run [OF needs_fix_line2] by blast
    then show ?thesis using l1 assms by (simp add: twoline2rv_def s1 buf_get_def)
  qed
qed

text \<open>The lines of an element set are read exactly when the first has at least 68 and the second at least
  52 characters; with shorter lines the function reads or writes past the end of a line.\<close>

theorem twoline2rv_line_lengths:
  "if 68 \<le> length l1 \<and> 52 \<le> length l2
   then \<exists>x. twoline2rv ans l1 l2 typerun typeinput opsmode w run f = Inr x
   else twoline2rv ans l1 l2 typerun typeinput opsmode w run f = Inl OutOfRange"
proof (cases "68 \<le> length l1 \<and> 52 \<le> length l2")
  case True
  then obtain x where "twoline2rv ans l1 l2 typerun typeinput opsmode w run f = Inr x" using twoline2rv_reads by blast
  with True show ?thesis by (simp del: split_paired_Ex)
next
  case False
  then show ?thesis unfolding if_not_P [OF False] by (rule twoline2rv_short)
qed

section \<open>The epoch\<close>

lemma epoch_year:
  assumes "1901 \<le> y" "y \<le> 2099" "1 \<le> days" "days < (if y mod 4 = 0 then 367 else 366)"
    and "lmonth y' = lmonth y"
  shows "\<exists>mon day hr minute sec. days2mdhms_SGP4 y' days = (mon, day, hr, minute, sec) \<and>
    jday_SGP4 y mon day hr minute sec =
      (2415019.5 + of_int (365 * (y - 1900) + (y - 1901) div 4 + \<lfloor>days\<rfloor>), days - of_int \<lfloor>days\<rfloor>)"
proof -
  have "1 \<le> \<lfloor>days\<rfloor>" "\<lfloor>days\<rfloor> \<le> (if y mod 4 = 0 then 366 else 365)"
    using assms(3,4) by (auto simp: le_floor_iff floor_less_iff floor_le_iff split: if_splits)
  then obtain m d where md: "valid_date y m d" "day_of_year y m d = \<lfloor>days\<rfloor>"
    using exists_date assms(1,2) by blast
  have "0 \<le> days - of_int \<lfloor>days\<rfloor>" "days - of_int \<lfloor>days\<rfloor> < 1" by linarith+
  then obtain h mi s where hms: "valid_time h mi s" "day_fraction h mi s = days - of_int \<lfloor>days\<rfloor>"
    using exists_time by blast
  have "days2mdhms_SGP4 y' days = days2mdhms_SGP4 y days"
    by (simp only: days2mdhms_SGP4_def assms(5))
  also have "\<dots> = (int m, d, h, mi, s)"
    using days2mdhms_valid [OF md(1) hms(1)] by (simp add: md(2) hms(2))
  finally have "days2mdhms_SGP4 y' days = (int m, d, h, mi, s)" .
  moreover have "jday_SGP4 y (int m) d h mi s = (of_int (2415019 + day_number y m d) + 0.5, days - of_int \<lfloor>days\<rfloor>)"
    using jday_value [OF _ _ hms(1), of m y d] md(1) by (simp add: valid_date_def hms(2))
  moreover have "day_number y m d = 365 * (y - 1900) + (y - 1901) div 4 + \<lfloor>days\<rfloor>"
    by (simp add: day_number_def md(2))
  ultimately show ?thesis by simp
qed

definition tle_year :: "int \<Rightarrow> int" where
  "tle_year epochyr = (if epochyr < 57 then epochyr + 2000 else epochyr + 1900)"

text \<open>The epoch of an element set, a two-digit year and a day of the year with its fraction, becomes the
  Julian date of that day of 1957 to 2056 with the same fraction.\<close>

theorem tle_epoch_julian:
  assumes "0 \<le> epochyr" "epochyr \<le> 99" and "1 \<le> days"
    and "days < (if tle_year epochyr mod 4 = 0 then 367 else 366)"
  shows "tle_epoch_date epochyr days =
    (2415019.5 + of_int (365 * (tle_year epochyr - 1900) + (tle_year epochyr - 1901) div 4 + \<lfloor>days\<rfloor>),
     days - of_int \<lfloor>days\<rfloor>)"
proof -
  have "1901 \<le> tle_year epochyr" "tle_year epochyr \<le> 2099" using assms(1,2) by (simp_all add: tle_year_def)
  from epoch_year [OF this assms(3,4) refl] show ?thesis
    by (auto simp: tle_epoch_date_def Let_def tle_year_def [symmetric])
qed

theorem tle_epoch_julian_witness: "tle_epoch_date 21 1.5 = (2459215.5, 0.5)"
proof -
  have "\<lfloor>1.5 :: double\<rfloor> = 1" by (simp add: floor_eq_iff)
  then show ?thesis using tle_epoch_julian [of 21 "1.5"] by (simp add: tle_year_def)
qed

end
