(* ===== verification/SV_SGP4Mobility.thy ===== *)
theory SV_SGP4Mobility
  imports SV_Mobility SV_SGP4_History SV_TLE_Parse SV_Inserter
begin

text \<open>
  The mobility of a satellite, \<open>SGP4Mobility.cc\<close>: its element set is read and propagated to the simulation
  time, the position is rotated into an earth fixed system, converted with PROJ and placed
  relative to the observation point. It is an INET moving mobility whose \<open>move\<close> is
  \<open>updateSatellitePosition\<close>.

  The observation point does not change after its initialisation, so the pointer to it is a copy of its
  state. The local arrays \<open>r_array\<close> and \<open>v_array\<close> are not initialised; what the stack holds at their place when an
  update begins, often what an earlier update left there, is an argument of that update.
\<close>

definition simtime_dbl :: "simtime \<Rightarrow> double" where
  "simtime_dbl t = of_int t / of_int SIMTIME_S"

section \<open>Reading the start time\<close>

record tm =
  tm_year :: int     \<comment> \<open>since 1900\<close>
  tm_mon :: int      \<comment> \<open>since January\<close>
  tm_mday :: int
  tm_hour :: int
  tm_min :: int
  tm_sec :: int

text \<open>
  \<open>std::get_time\<close> for numeric fields separated by a hyphen: width and range of each; reading stops at the
  first field or separator that does not match, and later members keep their values.
\<close>

fun tm_scan :: "(nat \<times> nat \<times> nat) list \<Rightarrow> string \<Rightarrow> nat list" where
  "tm_scan [] s = []"
| "tm_scan ((w, lo, hi) # fs) s =
     (let ds = takeWhile is_digit (take w s); v = digits_value ds
      in if ds = [] \<or> v < lo \<or> hi < v then []
         else v # (case drop (length ds) s of [] \<Rightarrow> [] | c # cs \<Rightarrow> if c = CHR ''-'' then tm_scan fs cs else []))"

definition get_time :: "tm \<Rightarrow> string \<Rightarrow> tm" where
  "get_time tm s =
     (let vs = tm_scan [(4, 0, 9999), (2, 1, 12), (2, 1, 31), (2, 0, 23), (2, 0, 59), (2, 0, 60)] (dropWhile c_isspace s);
          v = (\<lambda>i off old. if i < length vs then int (vs ! i) - off else old)
      in \<lparr>tm_year = v 0 1900 (tm_year tm), tm_mon = v 1 1 (tm_mon tm), tm_mday = v 2 0 (tm_mday tm),
          tm_hour = v 3 0 (tm_hour tm), tm_min = v 4 0 (tm_min tm), tm_sec = v 5 0 (tm_sec tm)\<rparr>)"

section \<open>State\<close>

record date_time_t =
  dt_year :: int
  dt_mon :: int
  dt_day :: int
  dt_hour :: int
  dt_min :: int
  dt_sec :: double

record 'pj sgp4_mobility = moving_mobility +
  isPreInitialized :: bool
  itrf2008_to_wgs84_projection :: "'pj option"
  sm_wgs84_to_wgs84cartesian_projection :: "'pj option"
  wgs84cartesian_to_topocentric_projection :: "'pj option"
  satrec :: elsetrec
  satrec_tle :: tle_fields
  sm_tle :: TLE
  sm_sop :: "'pj sop_state option"
  wall_clock_sim_start_time_utc :: string
  wall_clock_start_time :: date_time_t
  wall_clock_sim_start_time_jd :: double
  wall_clock_sim_start_time_frac :: double
  tle_epoch :: date_time_t
  tle_epoch_jd :: double
  tle_epoch_frac :: double
  current_wall_clock_time_jd :: double
  current_wall_clock_time_frac :: double
  diffTleEpochWctMin :: double
  vehicleStatistics :: "VehicleStatistics option"

section \<open>Life cycle\<close>

definition SGP4Mobility_preInitialize :: "TLE \<Rightarrow> string \<Rightarrow> 'pj sgp4_mobility \<Rightarrow> 'pj sgp4_mobility" where
  "SGP4Mobility_preInitialize pTle pStart s =
     s\<lparr>sm_tle := pTle, wall_clock_sim_start_time_utc := pStart, isPreInitialized := True\<rparr>"

definition SGP4Mobility_setInitialPosition :: "'pj sgp4_mobility \<Rightarrow> 'pj sgp4_mobility" where
  "SGP4Mobility_setInitialPosition s = s"

definition SGP4Mobility_initializePosition ::
    "'k kernel_ops \<Rightarrow> 'pj sgp4_mobility \<times> 'k \<Rightarrow> ('pj sgp4_mobility \<times> 'k) res" where
  "SGP4Mobility_initializePosition K sk = MovingMobilityBase_initializePosition K SGP4Mobility_setInitialPosition sk"

text \<open>Stage 0: the projections.\<close>

definition initialize_projections :: "'pj proj_ops \<Rightarrow> 'pj sgp4_mobility \<Rightarrow> 'pj sgp4_mobility res" where
  "initialize_projections P s =
     (case (case proj_create_crs_to_crs P ''EPSG:5332'' ''EPSG:4326'' of None \<Rightarrow> None
            | Some pj \<Rightarrow> proj_normalize_for_visualization P pj) of
        None \<Rightarrow> throwr ''itrf2008_to_wgs84_projection initialization error''
      | Some pj \<Rightarrow>
          Inr (s\<lparr>itrf2008_to_wgs84_projection := Some pj,
                 sm_wgs84_to_wgs84cartesian_projection :=
                   proj_create P ''+proj=pipeline +step proj=cart +ellps=WGS84''\<rparr>))"

text \<open>
  The element set: a catalogue run of \<open>twoline2rv\<close>, which never asks for input. The step \<open>1/600\<close> is an
  integer division, so it is 0; a catalogue run replaces it anyway.
\<close>

definition no_answers :: manual_answers where
  "no_answers = \<lparr>ma_start = (0, 0, 0, 0, 0, 0), ma_stop = (0, 0, 0, 0, 0, 0), ma_startdayofyr = (0, 0),
     ma_stopdayofyr = (0, 0), ma_startmfe = 0, ma_stopmfe = 0, ma_deltamin = 0\<rparr>"

definition initialize_satrec :: "'pj sgp4_mobility \<Rightarrow> 'pj sgp4_mobility res" where
  "initialize_satrec s =
     (let startmfe = -2880; stopmfe = 2880; deltamin = 0;
          line1 = tle_line1 (sm_tle s); line2 = tle_line2 (sm_tle s)
      in rbind (twoline2rv no_answers line1 line2 CHR ''c'' CHR ''d'' CHR ''i'' wgs72 (startmfe, stopmfe, deltamin)
                  (satrec_tle s)) (\<lambda>(f, epoch, sr, run).
         case sr of None \<Rightarrow> Inl NoReturn | Some (sr, _) \<Rightarrow> Inr (s\<lparr>satrec_tle := f, satrec := sr\<rparr>)))"

text \<open>The epoch of the element set as a Julian date; the year given to \<open>days2mdhms_SGP4\<close> has two digits.\<close>

definition initialize_epoch :: "'pj sgp4_mobility \<Rightarrow> 'pj sgp4_mobility" where
  "initialize_epoch s =
     (let f = satrec_tle s;
          year = (if tf_epochyr f \<ge> 57 then 1900 + tf_epochyr f else 2000 + tf_epochyr f);
          (mon, day, hour, minute, sec) = days2mdhms_SGP4 (tf_epochyr f) (tf_epochdays f);
          s = s\<lparr>tle_epoch := \<lparr>dt_year = year, dt_mon = mon, dt_day = day, dt_hour = hour, dt_min = minute,
                             dt_sec = sec\<rparr>\<rparr>;
          (jd, jdFrac) = jday_SGP4 year mon day hour minute sec
      in s\<lparr>tle_epoch_jd := jd, tle_epoch_frac := jdFrac\<rparr>)"

text \<open>The start of the simulation; \<open>tmp\<close> is the uninitialised \<open>std::tm\<close>.\<close>

definition initialize_start_time :: "tm \<Rightarrow> 'pj sgp4_mobility \<Rightarrow> 'pj sgp4_mobility" where
  "initialize_start_time tmp s =
     (let tmp = get_time tmp (wall_clock_sim_start_time_utc s);
          d = \<lparr>dt_year = tm_year tmp + 1900, dt_mon = tm_mon tmp + 1, dt_day = tm_mday tmp, dt_hour = tm_hour tmp,
               dt_min = tm_min tmp, dt_sec = of_int (tm_sec tmp)\<rparr>;
          (jd, jdFrac) = jday_SGP4 (dt_year d) (dt_mon d) (dt_day d) (dt_hour d) (dt_min d) (dt_sec d)
      in s\<lparr>wall_clock_start_time := d, wall_clock_sim_start_time_jd := jd, wall_clock_sim_start_time_frac := jdFrac\<rparr>)"

definition initialize_elapsed :: "'pj sgp4_mobility \<Rightarrow> 'pj sgp4_mobility" where
  "initialize_elapsed s =
     s\<lparr>diffTleEpochWctMin :=
         (wall_clock_sim_start_time_jd s - tle_epoch_jd s) * 1440 +
         (wall_clock_sim_start_time_frac s - tle_epoch_frac s) * 1440\<rparr>"

definition SGP4Mobility_initialize_local :: "'pj proj_ops \<Rightarrow> tm \<Rightarrow> 'pj sgp4_mobility \<Rightarrow> 'pj sgp4_mobility res" where
  "SGP4Mobility_initialize_local P tmp s =
     rbind (assertr (isPreInitialized s) ''isPreInitialized'') (\<lambda>_.
     rbind (initialize_projections P s) (\<lambda>s.
     rbind (initialize_satrec s) (\<lambda>s.
     let s = initialize_epoch s;
         s = initialize_start_time tmp s
     in Inr (initialize_elapsed s))))"

text \<open>Stage 4: the observation point and the statistics of the satellite.\<close>

definition SGP4Mobility_initialize_sop ::
    "'pj proj_ops \<Rightarrow> 'pj sop_state option \<Rightarrow> VehicleStatistics option \<Rightarrow> 'pj sgp4_mobility \<Rightarrow> 'pj sgp4_mobility res" where
  "SGP4Mobility_initialize_sop P sop vs s =
     (case sop of
        None \<Rightarrow> Inl (AssertFailed ''sop'')
      | Some so \<Rightarrow>
          (let s = s\<lparr>sm_sop := Some so,
                     wgs84cartesian_to_topocentric_projection :=
                       proj_create P (topocentric_text (sop_wgs84_proj_cart so))\<rparr>
           in case vs of None \<Rightarrow> Inl (AssertFailed ''vs'')
              | Some st \<Rightarrow> Inr (s\<lparr>vehicleStatistics := Some st\<rparr>)))"

definition SGP4Mobility_initialize ::
    "'pj proj_ops \<Rightarrow> 'k kernel_ops \<Rightarrow> mobility_par \<Rightarrow> tm \<Rightarrow> 'pj sop_state option \<Rightarrow> VehicleStatistics option \<Rightarrow> nat \<Rightarrow>
      'pj sgp4_mobility \<times> 'k \<Rightarrow> ('pj sgp4_mobility \<times> 'k) res" where
  "SGP4Mobility_initialize P K p tmp sop vs stage sk =
     rbind (MovingMobilityBase_initialize K p (SGP4Mobility_initializePosition K) stage sk) (\<lambda>(s, k).
     if stage = 0 then rbind (SGP4Mobility_initialize_local P tmp s) (\<lambda>s. Inr (s, k))
     else if stage = 4 then rbind (SGP4Mobility_initialize_sop P sop vs s) (\<lambda>s. Inr (s, k))
     else Inr (s, k))"

section \<open>Moving\<close>

text \<open>The Julian date for the rotation of the earth.\<close>

definition current_wall_clock :: "simtime \<Rightarrow> 'pj sgp4_mobility \<Rightarrow> 'pj sgp4_mobility" where
  "current_wall_clock now s =
     (let daysToAdd = of_int (c_trunc ((wall_clock_sim_start_time_frac s + simtime_dbl now) / 86400.0))
      in s\<lparr>current_wall_clock_time_frac := wall_clock_sim_start_time_frac s + simtime_dbl now / 86400.0,
           current_wall_clock_time_jd := wall_clock_sim_start_time_jd s + daysToAdd\<rparr>)"

text \<open>\<open>residue\<close>: the uninitialised arrays, which a propagation with an error of 1 to 4 leaves as they are.\<close>

definition updateSatellitePosition ::
    "'pj proj_ops \<Rightarrow> vec3 \<times> vec3 \<Rightarrow> simtime \<Rightarrow> 'pj sgp4_mobility \<Rightarrow> 'pj sgp4_mobility res" where
  "updateSatellitePosition P residue now s =
     (let t = diffTleEpochWctMin s + simtime_dbl now / 60; (r_array, v_array) = residue in
      case sgp4 (satrec s) t r_array v_array of
        None \<Rightarrow> Inl NoReturn
      | Some (sr, (rx, ry, rz), (vx, vy, vz), ret) \<Rightarrow>
          (let s = s\<lparr>satrec := sr\<rparr>;
               s = current_wall_clock now s
           in rbind (TEME_to_ITRF (current_wall_clock_time_jd s) [rx, ry, rz] [vx, vy, vz] 0.0 0.0
                       (current_wall_clock_time_frac s)) (\<lambda>(itrf, _).
              rbind (vec_get itrf 0) (\<lambda>x. rbind (vec_get itrf 1) (\<lambda>y. rbind (vec_get itrf 2) (\<lambda>z.
              let geo = proj_trans P (itrf2008_to_wgs84_projection s) (proj_coord (x * 1000) (y * 1000) (z * 1000));
                  w = mkWGS84 (pj_y geo) (pj_x geo) (pj_z geo);
                  geo_cart = proj_trans P (sm_wgs84_to_wgs84cartesian_projection s)
                               (proj_coord (lon w * (PI / 180)) (lat w * (PI / 180)) (alt w));
                  topo = proj_trans P (wgs84cartesian_to_topocentric_projection s) geo_cart
              in case (vehicleStatistics s, sm_sop s) of
                   (Some st, Some so) \<Rightarrow>
                     (let st = recordWGS84Coord w st;
                          st = recordWGS84CartCoord geo_cart st;
                          st = recordSopRelativeCoord (mkCoord (pj_x topo) (- pj_y topo) (pj_z topo)) st;
                          o' = sop_omnet_coord so;
                          p = mkCoord (pj_x topo + cx o') (- pj_y topo + cy o') (pj_z topo + cz o');
                          s = s\<lparr>mb_lastPosition := p\<rparr>
                      in Inr (s\<lparr>vehicleStatistics := Some (recordOmnetCoord p st)\<rparr>))
                 | _ \<Rightarrow> Inl NullPointer))))))"

definition SGP4Mobility_move ::
    "'pj proj_ops \<Rightarrow> vec3 \<times> vec3 \<Rightarrow> simtime \<Rightarrow> 'pj sgp4_mobility \<Rightarrow> 'pj sgp4_mobility res" where
  "SGP4Mobility_move P residue now s =
     rbind (updateSatellitePosition P residue now s) (\<lambda>s.
     Inr (s\<lparr>mb_lastVelocity := Coord_ZERO, lastUpdate := now, nextChange := now + updateInterval s\<rparr>))"

definition SGP4Mobility_handleSelfMessage ::
    "'pj proj_ops \<Rightarrow> 'k kernel_ops \<Rightarrow> vec3 \<times> vec3 \<Rightarrow> 'pj sgp4_mobility \<times> 'k \<Rightarrow> ('pj sgp4_mobility \<times> 'k) res" where
  "SGP4Mobility_handleSelfMessage P K residue sk = MovingMobilityBase_handleSelfMessage K (SGP4Mobility_move P residue) sk"

end
