(* ===== verification/SV_Mobility_Props.thy ===== *)
theory SV_Mobility_Props
  imports SV_SGP4Mobility SV_SOP_Props
begin

text \<open>
  Properties of the mobility of satellites: when the initialisation succeeds, which instant the element set and the
  start time denote, the Julian date used while moving, the periodic movement with a position that depends on
  the time only, and the coordinates a vehicle reports.
\<close>

section \<open>Initialisation\<close>

lemma satrec_reads:
  assumes "68 \<le> length (tle_line1 (sm_tle s))" and "52 \<le> length (tle_line2 (sm_tle s))"
  shows "\<exists>f sr. initialize_satrec s = Inr (s\<lparr>satrec_tle := f, satrec := sr\<rparr>) \<and> integ_ok sr"
proof -
  obtain f te run' where tl: "twoline2rv no_answers (tle_line1 (sm_tle s)) (tle_line2 (sm_tle s)) CHR ''c'' CHR ''d'' CHR ''i''
      wgs72 (-2880, 2880, 0) (satrec_tle s) = Inr (f, tle_epoch_date (tf_epochyr f) (tf_epochdays f),
        sgp4init wgs72 CHR ''i'' (tf_satnum f)
           (fst (tle_epoch_date (tf_epochyr f) (tf_epochdays f)) + snd (tle_epoch_date (tf_epochyr f) (tf_epochdays f)) -
             2433281.5) te (0, 0, 0) (0, 0, 0), run')"
    using twoline2rv_reads [OF assms, of no_answers] by blast
  obtain s1 where s1: "sgp4init wgs72 CHR ''i'' (tf_satnum f)
           (fst (tle_epoch_date (tf_epochyr f) (tf_epochdays f)) + snd (tle_epoch_date (tf_epochyr f) (tf_epochdays f)) -
             2433281.5) te (0, 0, 0) (0, 0, 0) = Some (s1, True)" "integ_ok s1"
    using init_integ by blast
  have "initialize_satrec s = Inr (s\<lparr>satrec_tle := f, satrec := s1\<rparr>)"
    unfolding initialize_satrec_def Let_def tl rbind_simps prod.case s1(1) option.case by (rule refl)
  then show ?thesis using s1(2) by blast
qed

lemma satrec_short:
  assumes "\<not> (68 \<le> length (tle_line1 (sm_tle s)) \<and> 52 \<le> length (tle_line2 (sm_tle s)))"
  shows "initialize_satrec s = Inl OutOfRange"
  using twoline2rv_short [OF assms] by (simp add: initialize_satrec_def Let_def)

lemma projections_ok:
  "(\<exists>s'. initialize_projections P s = Inr s') \<longleftrightarrow>
    (\<exists>pj. proj_create_crs_to_crs P ''EPSG:5332'' ''EPSG:4326'' = Some pj \<and> proj_normalize_for_visualization P pj \<noteq> None)"
  by (auto simp: initialize_projections_def throwr_def split: option.split)

lemma projections_keep:
  "initialize_projections P s = Inr s' \<Longrightarrow> sm_tle s' = sm_tle s \<and> isPreInitialized s' = isPreInitialized s \<and>
    moving_mobility.truncate s' = moving_mobility.truncate s"
  by (auto simp: initialize_projections_def throwr_def moving_mobility.truncate_def split: option.splits)

text \<open>C29: The first stage of a satellite's mobility succeeds exactly when the inserter has set its element set, PROJ
  makes and normalises the projection to geodetic coordinates, and the lines have 68 and 52
  characters.\<close>

theorem satellite_initializes:
  "(\<exists>s'. SGP4Mobility_initialize_local P tmp s = Inr s') =
    (isPreInitialized s \<and>
     (\<exists>pj. proj_create_crs_to_crs P ''EPSG:5332'' ''EPSG:4326'' = Some pj \<and> proj_normalize_for_visualization P pj \<noteq> None) \<and>
     68 \<le> length (tle_line1 (sm_tle s)) \<and> 52 \<le> length (tle_line2 (sm_tle s)))"
proof (cases "\<exists>s1. initialize_projections P s = Inr s1")
  case True
  then obtain s1 where s1: "initialize_projections P s = Inr s1" by blast
  have tle: "sm_tle s1 = sm_tle s" using projections_keep [OF s1] by simp
  show ?thesis
    unfolding projections_ok [of P s, symmetric] SGP4Mobility_initialize_local_def Let_def
    using satrec_reads [of s1] satrec_short [of s1] unfolding tle
    by (cases "68 \<le> length (tle_line1 (sm_tle s)) \<and> 52 \<le> length (tle_line2 (sm_tle s))"; cases "isPreInitialized s")
      (auto simp: s1)
next
  case False
  then show ?thesis
    unfolding projections_ok [of P s, symmetric] SGP4Mobility_initialize_local_def Let_def
    by (cases "initialize_projections P s"; cases "isPreInitialized s") auto
qed

section \<open>The epoch and the start\<close>

text \<open>Only the remainder of the year by four matters to \<open>days2mdhms_SGP4\<close>.\<close>

lemma two_digit_year:
  "days2mdhms_SGP4 y days = days2mdhms_SGP4 (if y \<ge> 57 then 1900 + y else 2000 + y) days"
proof -
  have "lmonth y = lmonth (if y \<ge> 57 then 1900 + y else 2000 + y)" by (simp add: lmonth_def) presburger
  then show ?thesis by (simp only: days2mdhms_SGP4_def)
qed

lemma epoch_julian:
  "(tle_epoch_jd (initialize_epoch s), tle_epoch_frac (initialize_epoch s)) =
    tle_epoch_date (tf_epochyr (satrec_tle s)) (tf_epochdays (satrec_tle s))"
proof -
  let ?y = "tf_epochyr (satrec_tle s)"
  have y: "(if ?y < 57 then ?y + 2000 else ?y + 1900) = (if ?y \<ge> 57 then 1900 + ?y else 2000 + ?y)" by simp
  obtain mon day hour minute sec where d: "days2mdhms_SGP4 ?y (tf_epochdays (satrec_tle s)) = (mon, day, hour, minute, sec)"
    by (cases "days2mdhms_SGP4 ?y (tf_epochdays (satrec_tle s))") auto
  show ?thesis
    unfolding initialize_epoch_def Let_def tle_epoch_date_def y two_digit_year [symmetric] d prod.case
    by (simp add: split_beta)
qed

text \<open>The epoch of the element set kept by the mobility is the one \<open>twoline2rv\<close> gave the propagator, although
  it is computed from the two-digit year, and the difference to the start of the simulation is
  the difference of the two Julian dates in minutes.\<close>

theorem satellite_epoch_agrees:
  assumes "SGP4Mobility_initialize_local P tmp s = Inr s'"
  shows "(tle_epoch_jd s', tle_epoch_frac s') =
      tle_epoch_date (tf_epochyr (satrec_tle s')) (tf_epochdays (satrec_tle s')) \<and>
    diffTleEpochWctMin s' =
      ((wall_clock_sim_start_time_jd s' + wall_clock_sim_start_time_frac s') - (tle_epoch_jd s' + tle_epoch_frac s')) * 1440"
proof -
  obtain s1 where s': "s' = initialize_elapsed (initialize_start_time tmp (initialize_epoch s1))"
    using assms by (auto simp: SGP4Mobility_initialize_local_def Let_def)
  have keep: "tle_epoch_jd (initialize_elapsed (initialize_start_time tmp u)) = tle_epoch_jd u"
    "tle_epoch_frac (initialize_elapsed (initialize_start_time tmp u)) = tle_epoch_frac u"
    "satrec_tle (initialize_elapsed (initialize_start_time tmp u)) = satrec_tle u" for u :: "'a sgp4_mobility"
    by (simp_all add: initialize_elapsed_def initialize_start_time_def Let_def split_beta)
  have "satrec_tle (initialize_epoch s1) = satrec_tle s1"
    by (simp add: initialize_epoch_def Let_def split_beta)
  then have "(tle_epoch_jd s', tle_epoch_frac s') = tle_epoch_date (tf_epochyr (satrec_tle s')) (tf_epochdays (satrec_tle s'))"
    using epoch_julian [of s1] by (simp add: s' keep)
  moreover have "diffTleEpochWctMin s' =
      ((wall_clock_sim_start_time_jd s' + wall_clock_sim_start_time_frac s') - (tle_epoch_jd s' + tle_epoch_frac s')) * 1440"
    by (simp add: s' initialize_elapsed_def algebra_simps)
  ultimately show ?thesis by blast
qed

section \<open>The date of the rotation\<close>

text \<open>The Julian date used for the rotation of the earth is the start plus the simulated time while fraction of
  the start plus simulated seconds stay below one day of seconds, and exactly then; afterwards every
  simulated day is counted twice, once in the day and once in the fraction.\<close>

theorem rotation_date_counts_days_twice:
  assumes "0 \<le> wall_clock_sim_start_time_frac s" and "0 \<le> now"
  shows "let s' = current_wall_clock now s; d = wall_clock_sim_start_time_frac s + simtime_dbl now;
      start = wall_clock_sim_start_time_jd s + wall_clock_sim_start_time_frac s;
      used = current_wall_clock_time_jd s' + current_wall_clock_time_frac s'
    in used = start + simtime_dbl now / 86400 + of_int \<lfloor>d / 86400\<rfloor> \<and>
       (used = start + simtime_dbl now / 86400 \<longleftrightarrow> d < 86400)"
proof -
  have now: "0 \<le> simtime_dbl now" using assms(2) by (simp add: simtime_dbl_def SIMTIME_S_def SIMTIME_MS_def)
  let ?d = "wall_clock_sim_start_time_frac s + simtime_dbl now"
  have d: "0 \<le> ?d / 86400" using assms(1) now by simp
  have trunc: "c_trunc (?d / 86400) = \<lfloor>?d / 86400\<rfloor>" using d by (rule c_trunc_nonneg)
  have "\<lfloor>?d / 86400\<rfloor> = 0 \<longleftrightarrow> ?d < 86400"
    using d by (simp add: floor_eq_iff)
  then show ?thesis
    by (simp add: current_wall_clock_def Let_def trunc)
qed

section \<open>Periodic movement\<close>

text \<open>\<open>like s0 s\<close>: \<open>s\<close> comes from \<open>s0\<close> by updates; the propagator's state agrees in what updates leave alone.\<close>

definition like :: "'pj sgp4_mobility \<Rightarrow> 'pj sgp4_mobility \<Rightarrow> bool" where
  "like s0 s \<longleftrightarrow>
     integ_ok (satrec s0) \<and> integ_ok (satrec s) \<and> frozen (satrec s) = frozen (satrec s0) \<and>
     diffTleEpochWctMin s = diffTleEpochWctMin s0 \<and>
     wall_clock_sim_start_time_jd s = wall_clock_sim_start_time_jd s0 \<and>
     wall_clock_sim_start_time_frac s = wall_clock_sim_start_time_frac s0 \<and>
     itrf2008_to_wgs84_projection s = itrf2008_to_wgs84_projection s0 \<and>
     sm_wgs84_to_wgs84cartesian_projection s = sm_wgs84_to_wgs84cartesian_projection s0 \<and>
     wgs84cartesian_to_topocentric_projection s = wgs84cartesian_to_topocentric_projection s0 \<and>
     sm_sop s = sm_sop s0 \<and> sm_sop s0 \<noteq> None \<and> vehicleStatistics s0 \<noteq> None \<and> vehicleStatistics s \<noteq> None \<and>
     moveTimer s = moveTimer s0 \<and> updateInterval s = updateInterval s0 \<and> stationary s = stationary s0"

lemma like_writes:
  "like s0 (s\<lparr>mb_lastVelocity := v\<rparr>) = like s0 s" "like s0 (s\<lparr>lastUpdate := t\<rparr>) = like s0 s"
  "like s0 (s\<lparr>nextChange := t\<rparr>) = like s0 s" "like s0 (emitMobilityStateChangedSignal s) = like s0 s"
  "like s0 (orient s) = like s0 s"
  by (simp_all add: like_def emitMobilityStateChangedSignal_def orient_def Let_def)

text \<open>Where an update puts the satellite.\<close>

definition topocentric_position ::
    "'pj proj_ops \<Rightarrow> 'pj sgp4_mobility \<Rightarrow> Coord \<Rightarrow> simtime \<Rightarrow> vec3 \<Rightarrow> Coord" where
  "topocentric_position P s sop_coord now r =
     (let s = current_wall_clock now s; (rx, ry, rz) = r;
          th = fst (theta_GMST1982 (current_wall_clock_time_jd s) (current_wall_clock_time_frac s));
          geo = proj_trans P (itrf2008_to_wgs84_projection s)
                  (proj_coord ((cos th * rx + sin th * ry) * 1000) ((cos th * ry - sin th * rx) * 1000) (rz * 1000));
          cart = proj_trans P (sm_wgs84_to_wgs84cartesian_projection s)
                   (proj_coord (pj_x geo * (PI / 180)) (pj_y geo * (PI / 180)) (pj_z geo));
          topo = proj_trans P (wgs84cartesian_to_topocentric_projection s) cart
      in mkCoord (pj_x topo + cx sop_coord) (- pj_y topo + cy sop_coord) (pj_z topo + cz sop_coord))"

lemma update_position:
  assumes "sgp4 (satrec s) (diffTleEpochWctMin s + simtime_dbl now / 60) (fst residue) (snd residue) =
      Some (sr, r, v, ok)"
    and "sm_sop s = Some so" and "vehicleStatistics s = Some st"
  shows "\<exists>st'. updateSatellitePosition P residue now s =
    Inr ((current_wall_clock now (s\<lparr>satrec := sr\<rparr>))
      \<lparr>mb_lastPosition := topocentric_position P s (sop_omnet_coord so) now r, vehicleStatistics := Some st'\<rparr>)"
proof -
  obtain rx ry rz where r: "r = (rx, ry, rz)" by (cases r)
  obtain vx vy vz where v: "v = (vx, vy, vz)" by (cases v)
  obtain r0 v0 where st: "residue = (r0, v0)" by (cases residue)
  let ?s = "current_wall_clock now (s\<lparr>satrec := sr\<rparr>)"
  obtain th w where tw: "theta_GMST1982 (current_wall_clock_time_jd ?s) (current_wall_clock_time_frac ?s) = (th, w)"
    by (cases "theta_GMST1982 (current_wall_clock_time_jd ?s) (current_wall_clock_time_frac ?s)")
  have same: "current_wall_clock_time_jd ?s = current_wall_clock_time_jd (current_wall_clock now s)"
    "current_wall_clock_time_frac ?s = current_wall_clock_time_frac (current_wall_clock now s)"
    by (simp_all add: current_wall_clock_def Let_def)
  have keep: "itrf2008_to_wgs84_projection (current_wall_clock now u) = itrf2008_to_wgs84_projection u"
    "sm_wgs84_to_wgs84cartesian_projection (current_wall_clock now u) = sm_wgs84_to_wgs84cartesian_projection u"
    "wgs84cartesian_to_topocentric_projection (current_wall_clock now u) = wgs84cartesian_to_topocentric_projection u"
    "sm_sop (current_wall_clock now u) = sm_sop u" "vehicleStatistics (current_wall_clock now u) = vehicleStatistics u"
    for u :: "'a sgp4_mobility"
    by (simp_all add: current_wall_clock_def Let_def)
  show ?thesis
    using assms(1)
    by (simp add: updateSatellitePosition_def st r v TEME_to_ITRF_value [OF tw, simplified] vec_get_def assms(2,3) keep
        topocentric_position_def tw [unfolded same] Let_def mkWGS84_def)
      (rule exI, rule refl)
qed

text \<open>The error code of the propagation of an update, whatever the arrays hold.\<close>

definition update_error :: "'pj sgp4_mobility \<Rightarrow> simtime \<Rightarrow> int" where
  "update_error s now =
     (case sgp4 (satrec s) (diffTleEpochWctMin s + simtime_dbl now / 60) (0, 0, 0) (0, 0, 0) of
        None \<Rightarrow> 0 | Some (sr, _) \<Rightarrow> sr_error sr)"

text \<open>
  \<open>placed P residue now s0 p\<close>: a single update of \<open>s0\<close> with these contents of the arrays gives the position \<open>p\<close>, and
  unless the propagation ends with an error of 1 to 4 it does so with any contents.
\<close>

definition placed :: "'pj proj_ops \<Rightarrow> vec3 \<times> vec3 \<Rightarrow> simtime \<Rightarrow> 'pj sgp4_mobility \<Rightarrow> Coord \<Rightarrow> bool" where
  "placed P residue now s0 p \<longleftrightarrow>
     (\<forall>residue'. residue' = residue \<or> update_error s0 now \<notin> {1, 2, 3, 4} \<longrightarrow>
        (\<exists>u. updateSatellitePosition P residue' now s0 = Inr u \<and> mb_lastPosition u = p))"

text \<open>An update from a state like \<open>s0\<close> succeeds and puts the satellite where an update from \<open>s0\<close> would.\<close>

lemma update_like:
  assumes "like s0 s"
  shows "\<exists>s'. updateSatellitePosition P residue now s = Inr s' \<and> placed P residue now s0 (mb_lastPosition s') \<and>
    like s0 s' \<and> stateChanged s' = stateChanged s \<and> nextChange s' = nextChange s"
proof -
  let ?t = "diffTleEpochWctMin s0 + simtime_dbl now / 60"
  obtain so st st0 where so: "sm_sop s = Some so" "sm_sop s0 = Some so" "vehicleStatistics s = Some st"
      "vehicleStatistics s0 = Some st0"
    using assms by (auto simp: like_def)
  have fr: "frozen (satrec s) = frozen (satrec s0)" and ok: "integ_ok (satrec s)" "integ_ok (satrec s0)"
    and t: "diffTleEpochWctMin s = diffTleEpochWctMin s0" using assms by (auto simp: like_def)
  obtain sr r v b sr0 where
    one: "sgp4 (satrec s) ?t (fst residue) (snd residue) = Some (sr, r, v, b)" "frozen sr = frozen (satrec s)"
      "integ_ok sr" and
    two: "sgp4 (satrec s0) ?t (fst residue) (snd residue) = Some (sr0, r, v, b)"
    using sgp4_same [OF fr ok, of ?t "fst residue" "snd residue"]
    by (fastforce simp: same_outcome_def)
  obtain st' where s': "updateSatellitePosition P residue now s =
      Inr ((current_wall_clock now (s\<lparr>satrec := sr\<rparr>))
        \<lparr>mb_lastPosition := topocentric_position P s (sop_omnet_coord so) now r, vehicleStatistics := Some st'\<rparr>)"
    using update_position [of s now residue sr r v b so st, OF one(1) [folded t] so(1,3)] by blast
  have err: "update_error s0 now = sr_error sr0"
    using sgp4_arrays [OF two, of "(0, 0, 0)" "(0, 0, 0)"] by (auto simp: update_error_def arrays_written_def)
  have same: "topocentric_position P s (sop_omnet_coord so) now r = topocentric_position P s0 (sop_omnet_coord so) now r"
    using assms by (simp add: topocentric_position_def current_wall_clock_def Let_def like_def)
  have "placed P residue now s0 (topocentric_position P s (sop_omnet_coord so) now r)"
    unfolding placed_def same
  proof (intro allI impI)
    fix residue'
    assume "residue' = residue \<or> update_error s0 now \<notin> {1, 2, 3, 4}"
    then have "\<exists>v'. sgp4 (satrec s0) ?t (fst residue') (snd residue') = Some (sr0, r, v', b)"
      using two sgp4_arrays [OF two, of "fst residue'" "snd residue'"] by (auto simp: err arrays_written_def)
    then show "\<exists>u. updateSatellitePosition P residue' now s0 = Inr u \<and>
        mb_lastPosition u = topocentric_position P s0 (sop_omnet_coord so) now r"
      using update_position [of s0 now residue' sr0 r _ b so st0, OF _ so(2,4)] by fastforce
  qed
  moreover have "like s0 ((current_wall_clock now (s\<lparr>satrec := sr\<rparr>))
        \<lparr>mb_lastPosition := p, vehicleStatistics := Some st'\<rparr>)" for p
    using assms one by (simp add: like_def current_wall_clock_def Let_def)
  ultimately show ?thesis
    unfolding s' by (simp add: current_wall_clock_def Let_def)
qed

text \<open>One delivery of the timer.\<close>

lemma delivery:
  assumes K: "sim_kernel K" and like: "like s0 s" and m: "moveTimer s = Some m" and arr: "arrival K k m = Some t"
    and due: "lastUpdate s < t" and "\<not> stationary s" "0 < updateInterval s" "0 \<le> t"
  shows "\<exists>s' k'. SGP4Mobility_handleSelfMessage P K residue (s, deliver K m k) = Inr (s', k') \<and> like s0 s' \<and>
    simTime K k' = t \<and> arrival K k' m = Some (t + updateInterval s) \<and> lastUpdate s' = t \<and>
    placed P residue t s0 (mb_lastPosition s') \<and>
    stateChanged s' = stateChanged s + 1"
proof -
  let ?k = "deliver K m k"
  have time: "simTime K ?k = t" by (rule sim_kernel.deliver_time [OF K arr])
  obtain s1 where s1: "updateSatellitePosition P residue t s = Inr s1" "placed P residue t s0 (mb_lastPosition s1)"
      "like s0 s1" "stateChanged s1 = stateChanged s"
    using update_like [OF like] by blast
  have frame: "moveTimer s1 = Some m" "updateInterval s1 = updateInterval s" "\<not> stationary s1"
    using s1(3) like m assms(6) by (simp_all add: like_def)
  define s2 where "s2 = orient (s1\<lparr>mb_lastVelocity := Coord_ZERO, lastUpdate := t, nextChange := t + updateInterval s1\<rparr>)"
  define s3 where "s3 = emitMobilityStateChangedSignal (s2\<lparr>lastUpdate := t\<rparr>)"
  have moved: "moveAndUpdate (SGP4Mobility_move P residue) t s = Inr s3"
    using due by (simp add: moveAndUpdate_def SGP4Mobility_move_def s1(1) Let_def s2_def s3_def)
  have s3: "moveTimer s3 = Some m" "updateInterval s3 = updateInterval s" "\<not> stationary s3"
      "nextChange s3 = t + updateInterval s" "lastUpdate s3 = t" "mb_lastPosition s3 = mb_lastPosition s1"
      "stateChanged s3 = stateChanged s + 1"
    using frame s1(4) by (simp_all add: s3_def s2_def emitMobilityStateChangedSignal_def orient_def Let_def)
  have l3: "like s0 s3" using s1(3) by (simp add: s3_def s2_def like_writes)
  let ?c = "cancelEvent K m ?k"
  have c: "simTime K ?c = t" "arrival K ?c m = None"
    using time by (simp_all add: sim_kernel.cancel_time [OF K] sim_kernel.cancel_arrival [OF K])
  obtain k' where k': "scheduleAt K (t + updateInterval s) m ?c = Inr k'"
    using sim_kernel.schedule_total [OF K, of ?c "t + updateInterval s" m] c assms(7) by auto
  have "scheduleUpdate K (s3, ?k) = Inr (s3, k')"
    using s3 assms(7) by (simp add: scheduleUpdate_def c k' Let_def)
  then have "SGP4Mobility_handleSelfMessage P K residue (s, ?k) = Inr (s3, k')"
    by (simp add: SGP4Mobility_handleSelfMessage_def MovingMobilityBase_handleSelfMessage_def time moved)
  moreover have "simTime K k' = t" "arrival K k' m = Some (t + updateInterval s)"
    using c k' by (simp_all add: sim_kernel.schedule_time [OF K k'] sim_kernel.schedule_arrival [OF K k'])
  moreover have "placed P residue t s0 (mb_lastPosition s3)" using s1(2) s3(6) by simp
  ultimately show ?thesis using l3 s3(5,7) by blast
qed

text \<open>\<open>n\<close> deliveries of the timer; at delivery \<open>i\<close> the uninitialised arrays hold \<open>stack i\<close>, which may be anything.\<close>

fun deliveries ::
    "'pj proj_ops \<Rightarrow> 'k kernel_ops \<Rightarrow> (nat \<Rightarrow> vec3 \<times> vec3) \<Rightarrow> nat \<Rightarrow> 'pj sgp4_mobility \<times> 'k \<Rightarrow>
      ('pj sgp4_mobility \<times> 'k) res" where
  "deliveries P K stack 0 sk = Inr sk"
| "deliveries P K stack (Suc n) sk =
     rbind (deliveries P K stack n sk) (\<lambda>(s, k).
     case moveTimer s of None \<Rightarrow> Inl NullPointer
     | Some m \<Rightarrow> SGP4Mobility_handleSelfMessage P K (stack n) (s, deliver K m k))"

lemma deliveries_periodic:
  assumes K: "sim_kernel K" and like: "like s0 s0" and m: "moveTimer s0 = Some m"
    and arr: "arrival K k0 m = Some (t0 + updateInterval s0)" and t0: "simTime K k0 = t0" "0 \<le> t0"
    and idle: "lastUpdate s0 = t0" "\<not> stationary s0" "0 < updateInterval s0"
  shows "\<exists>s k. deliveries P K stack n (s0, k0) = Inr (s, k) \<and> like s0 s \<and>
    simTime K k = t0 + int n * updateInterval s0 \<and> arrival K k m = Some (t0 + int (Suc n) * updateInterval s0) \<and>
    lastUpdate s = t0 + int n * updateInterval s0 \<and> stateChanged s = stateChanged s0 + n \<and>
    (n = 0 \<longrightarrow> s = s0) \<and>
    (0 < n \<longrightarrow> placed P (stack (n - 1)) (simTime K k) s0 (mb_lastPosition s))"
proof (induction n)
  case 0
  then show ?case using assms by simp
next
  case (Suc n)
  then obtain s k where sk: "deliveries P K stack n (s0, k0) = Inr (s, k)" "like s0 s"
      "arrival K k m = Some (t0 + int (Suc n) * updateInterval s0)" "lastUpdate s = t0 + int n * updateInterval s0"
      "stateChanged s = stateChanged s0 + n"
    by blast
  have s: "moveTimer s = Some m" "\<not> stationary s" "updateInterval s = updateInterval s0"
    using sk(2) m idle by (simp_all add: like_def)
  have "lastUpdate s < t0 + int (Suc n) * updateInterval s0" "0 \<le> t0 + int (Suc n) * updateInterval s0"
    using sk(4) idle(3) t0(2) by (simp_all add: algebra_simps)
  from delivery [OF K sk(2) s(1) sk(3) this(1) s(2) _ this(2), of P "stack n"] idle(3)
  obtain s' k' where "SGP4Mobility_handleSelfMessage P K (stack n) (s, deliver K m k) = Inr (s', k')" "like s0 s'"
    "simTime K k' = t0 + int (Suc n) * updateInterval s0"
    "arrival K k' m = Some (t0 + int (Suc n) * updateInterval s0 + updateInterval s0)"
    "lastUpdate s' = t0 + int (Suc n) * updateInterval s0"
    "placed P (stack n) (t0 + int (Suc n) * updateInterval s0) s0 (mb_lastPosition s')" "stateChanged s' = stateChanged s + 1"
    unfolding s(3) by blast
  then show ?case using sk(1,5) s(1) by (simp add: algebra_simps)
qed

section \<open>From the initialisation on\<close>

text \<open>The five stages of one satellite.\<close>

definition satellite_stages ::
    "'pj proj_ops \<Rightarrow> 'k kernel_ops \<Rightarrow> mobility_par \<Rightarrow> tm \<Rightarrow> 'pj sop_state option \<Rightarrow> VehicleStatistics option \<Rightarrow>
      'pj sgp4_mobility \<times> 'k \<Rightarrow> ('pj sgp4_mobility \<times> 'k) res" where
  "satellite_stages P K p tmp sop vs = for_loop [0..<5] (SGP4Mobility_initialize P K p tmp sop vs)"

text \<open>What the stages say about the part of the state inherited from \<open>MovingMobilityBase\<close>.\<close>

definition moving_part :: "'pj sgp4_mobility \<Rightarrow> nat option \<times> simtime \<times> bool \<times> simtime \<times> simtime \<times> nat \<times> Coord" where
  "moving_part s = (moveTimer s, updateInterval s, stationary s, lastUpdate s, nextChange s, stateChanged s, mb_lastPosition s)"

text \<open>Stage 0 sets nothing in the inherited part.\<close>

lemma truncate_parts:
  "moving_mobility.truncate s' = moving_mobility.truncate s \<Longrightarrow> moving_part s' = moving_part s \<and>
    constraintAreaMin s' = constraintAreaMin s \<and> constraintAreaMax s' = constraintAreaMax s"
  by (simp add: moving_mobility.truncate_def moving_part_def)

lemma local_keeps:
  assumes "SGP4Mobility_initialize_local P tmp s = Inr s'"
  shows "moving_mobility.truncate s' = moving_mobility.truncate s \<and> integ_ok (satrec s')"
proof -
  obtain s1 s2 where s1: "initialize_projections P s = Inr s1" and s2: "initialize_satrec s1 = Inr s2"
    and s': "s' = initialize_elapsed (initialize_start_time tmp (initialize_epoch s2))"
    using assms by (auto simp: SGP4Mobility_initialize_local_def Let_def)
  have "68 \<le> length (tle_line1 (sm_tle s1)) \<and> 52 \<le> length (tle_line2 (sm_tle s1))"
    using s2 satrec_short [of s1] by fastforce
  then obtain f sr where "s2 = s1\<lparr>satrec_tle := f, satrec := sr\<rparr>" "integ_ok sr" using satrec_reads [of s1] s2 by auto
  then have s2': "moving_mobility.truncate s2 = moving_mobility.truncate s1" "integ_ok (satrec s2)"
    by (simp_all add: moving_mobility.truncate_def)
  have "moving_mobility.truncate s' = moving_mobility.truncate s2" "satrec s' = satrec s2"
    by (simp_all add: s' initialize_elapsed_def initialize_start_time_def initialize_epoch_def Let_def split_beta
        moving_mobility.truncate_def)
  then show ?thesis using s2' projections_keep [OF s1] by simp
qed

lemma stage_0:
  assumes "SGP4Mobility_initialize P K p tmp sop vs 0 (s, k) = Inr (s', k')"
  shows "\<exists>m. newMessage K k = (m, k') \<and> integ_ok (satrec s') \<and>
    moving_part s' = (Some m, par_updateInterval p, stationary s, lastUpdate s, nextChange s, stateChanged s, mb_lastPosition s)"
proof -
  obtain m k1 where m: "newMessage K k = (m, k1)" by (cases "newMessage K k")
  obtain s1 where s1: "SGP4Mobility_initialize_local P tmp s1 = Inr s'" "k' = k1"
      "moving_part s1 = (Some m, par_updateInterval p, stationary s, lastUpdate s, nextChange s, stateChanged s, mb_lastPosition s)"
    using assms by (auto simp: SGP4Mobility_initialize_def MovingMobilityBase_initialize_def MobilityBase_initialize_def
        m moving_part_def Let_def)
  then show ?thesis using local_keeps [OF s1(1)] truncate_parts [of s' s1] m by auto
qed

lemma idle_stage:
  assumes "stage = 1 \<or> stage = 3"
  shows "SGP4Mobility_initialize P K p tmp sop vs stage (s, k) = Inr (s, k)"
  using assms by (auto simp: SGP4Mobility_initialize_def MovingMobilityBase_initialize_def MobilityBase_initialize_def)

lemma stage_2:
  assumes K: "sim_kernel K" and "SGP4Mobility_initialize P K p tmp sop vs 2 (s, k) = Inr (s', k')"
    and s: "moving_part s = (Some m, U, False, l, -1, c, q)" and U: "0 < U"
  shows "moving_part s' = (Some m, U, False, simTime K k, -1, c + 1, q) \<and> satrec s' = satrec s \<and>
    simTime K k' = simTime K k \<and> arrival K k' m = Some (simTime K k + U)"
proof -
  define s1 where "s1 = (emitMobilityStateChangedSignal (initializeOrientation p s))\<lparr>lastUpdate := simTime K k\<rparr>"
  have s1: "moving_part s1 = (Some m, U, False, simTime K k, -1, c + 1, q)" "satrec s1 = satrec s"
    using s by (simp_all add: s1_def moving_part_def emitMobilityStateChangedSignal_def initializeOrientation_def
        split: option.split)
  have "scheduleUpdate K (s1, k) = Inr (s', k')"
    using assms(2)
    by (auto simp: SGP4Mobility_initialize_def MovingMobilityBase_initialize_def MobilityBase_initialize_def Let_def
        SGP4Mobility_initializePosition_def MovingMobilityBase_initializePosition_def MobilityBase_initializePosition_def
        SGP4Mobility_setInitialPosition_def s1_def)
  then have up: "s' = s1" "scheduleAt K (simTime K k + U) m (cancelEvent K m k) = Inr k'"
    using s1 U by (auto simp: scheduleUpdate_def moving_part_def Let_def sim_kernel.cancel_time [OF K])
  then show ?thesis
    using s1 by (simp add: sim_kernel.schedule_time [OF K up(2)] sim_kernel.cancel_time [OF K]
        sim_kernel.schedule_arrival [OF K up(2)])
qed

lemma stage_4:
  assumes "SGP4Mobility_initialize P K p tmp sop vs 4 (s, k) = Inr (s', k')"
  shows "moving_part s' = moving_part s \<and> satrec s' = satrec s \<and> k' = k \<and> sm_sop s' \<noteq> None \<and> vehicleStatistics s' \<noteq> None"
  using assms
  by (auto simp: SGP4Mobility_initialize_def MovingMobilityBase_initialize_def MobilityBase_initialize_def
      SGP4Mobility_initialize_sop_def moving_part_def split: option.splits)

text \<open>C2: A satellite that has passed its five stages moves forever with its update interval: after any number of
  deliveries of its timer the timer is pending one interval later and the time of the last update is the current time.
  Unless the propagation to that time ends with an error of 1 to 4, the position is the one a single update at that
  time from the initial state gives, whatever the uninitialised arrays of both hold: it does not depend on
  the movements made before. With such an error the arrays are not written, and the position is the one
  of a single update with their contents at that delivery. Until the first delivery the position is the initial one.\<close>

theorem satellite_moves_periodically:
  assumes "sim_kernel K" and "satellite_stages P K p tmp sop vs (s, k) = Inr (s0, k0)"
    and "nextChange s = -1" "\<not> stationary s" "0 < par_updateInterval p" "0 \<le> simTime K k"
  shows "\<exists>s' k' m. deliveries P K stack n (s0, k0) = Inr (s', k') \<and> moveTimer s' = Some m \<and>
    simTime K k' = simTime K k + int n * par_updateInterval p \<and>
    arrival K k' m = Some (simTime K k' + par_updateInterval p) \<and> lastUpdate s' = simTime K k' \<and>
    (if n = 0 then mb_lastPosition s' = mb_lastPosition s
     else \<forall>residue. residue = stack (n - 1) \<or> update_error s0 (simTime K k') \<notin> {1, 2, 3, 4} \<longrightarrow>
       (\<exists>u. updateSatellitePosition P residue (simTime K k') s0 = Inr u \<and> mb_lastPosition u = mb_lastPosition s'))"
proof -
  obtain s1 k1 s2 where st: "SGP4Mobility_initialize P K p tmp sop vs 0 (s, k) = Inr (s1, k1)"
      "SGP4Mobility_initialize P K p tmp sop vs 2 (s1, k1) = Inr (s2, k0)"
      "SGP4Mobility_initialize P K p tmp sop vs 4 (s2, k0) = Inr (s0, k0)"
    using assms(2) stage_4
    by (fastforce simp: satellite_stages_def upt_conv_Cons numeral_eq_Suc idle_stage)
  obtain m where m: "newMessage K k = (m, k1)" "integ_ok (satrec s1)"
      "moving_part s1 = (Some m, par_updateInterval p, False, lastUpdate s, -1, stateChanged s, mb_lastPosition s)"
    using stage_0 [OF st(1)] assms(3,4) by auto
  have t1: "simTime K k1 = simTime K k" by (rule sim_kernel.new_time [OF assms(1) m(1)])
  note two = stage_2 [OF assms(1) st(2) m(3) assms(5), unfolded t1]
  note four = stage_4 [OF st(3)]
  have parts: "moveTimer s0 = Some m" "updateInterval s0 = par_updateInterval p" "\<not> stationary s0"
      "lastUpdate s0 = simTime K k" "mb_lastPosition s0 = mb_lastPosition s"
    using two four by (simp_all add: moving_part_def)
  have like: "like s0 s0" using two four m(2) by (auto simp: like_def)
  obtain s' k' where run: "deliveries P K stack n (s0, k0) = Inr (s', k')" "like s0 s'"
      "simTime K k' = simTime K k + int n * par_updateInterval p"
      "arrival K k' m = Some (simTime K k + int (Suc n) * par_updateInterval p)"
      "lastUpdate s' = simTime K k + int n * par_updateInterval p" "n = 0 \<longrightarrow> s' = s0"
      "0 < n \<longrightarrow> placed P (stack (n - 1)) (simTime K k') s0 (mb_lastPosition s')"
    using deliveries_periodic [OF assms(1) like parts(1), of k0 "simTime K k" P stack n] two parts assms(5,6) by auto
  have "moveTimer s' = Some m" using run(2) parts(1) by (simp add: like_def)
  then show ?thesis using run parts(5) by (auto simp: placed_def algebra_simps)
qed

section \<open>A satellite over the equator\<close>

definition example_tm :: tm where
  "example_tm = \<lparr>tm_year = 0, tm_mon = 0, tm_mday = 1, tm_hour = 0, tm_min = 0, tm_sec = 0\<rparr>"

definition example_par :: mobility_par where
  "example_par = \<lparr>par_areaMin = mkCoord (-1) (-1) (-1), par_areaMax = mkCoord 1 1 1, par_updateInterval = SIMTIME_S,
     par_faceForward = False, par_orientation = None\<rparr>"

definition example_fields :: tle_fields where
  "example_fields = \<lparr>tf_cardnumb = 0, tf_satnum = [], tf_classification = CHR ''U'', tf_intldesg = [], tf_epochyr = 0,
     tf_epochdays = 1, tf_ndot = 0, tf_nddot = 0, tf_nexp = 0, tf_bstar = 0, tf_ibexp = 0, tf_ephtype = 0, tf_elnum = 0,
     tf_inclo = 0, tf_nodeo = 0, tf_ecco = 0, tf_argpo = 0, tf_mo = 0, tf_no_kozai = 0, tf_revnum = 0\<rparr>"

definition station_tle :: TLE where
  "station_tle = \<lparr>satellite_name = ''ISS (ZARYA)'',
     tle_line1 = ''1 25544U 98067A   21001.50000000  .00001264  00000-0  29621-4 0  9993'',
     tle_line2 = ''2 25544  51.6461 339.8014 0002297 227.3231 234.5083 15.49275050 26289''\<rparr>"

definition station_new :: "PJ_COORD sgp4_mobility" where
  "station_new = moving_mobility.extend moving_mobility_new
     (sgp4_mobility.fields False None None None (sgp4init_state wgs72 CHR ''i'' [] 0 station_elements) example_fields
        \<lparr>satellite_name = [], tle_line1 = [], tle_line2 = []\<rparr> None []
        \<lparr>dt_year = 0, dt_mon = 0, dt_day = 0, dt_hour = 0, dt_min = 0, dt_sec = 0\<rparr> 0 0
        \<lparr>dt_year = 0, dt_mon = 0, dt_day = 0, dt_hour = 0, dt_min = 0, dt_sec = 0\<rparr> 0 0 0 0 0 None)"

definition station :: "PJ_COORD sgp4_mobility" where
  "station = SGP4Mobility_preInitialize station_tle ''2021-01-01-12-00-00'' station_new"

lemma station_parts:
  "sm_tle station = station_tle" "isPreInitialized station" "nextChange station = -1" "\<not> stationary station"
  "mb_lastPosition station = Coord_ZERO"
  by (simp_all add: station_def station_new_def SGP4Mobility_preInitialize_def moving_mobility.defs sgp4_mobility.defs
      moving_mobility_new_def)

lemma station_local:
  assumes "sm_tle s = station_tle" and "isPreInitialized s"
  shows "\<exists>s'. SGP4Mobility_initialize_local equator_proj example_tm s = Inr s'"
proof -
  obtain s1 where s1: "initialize_projections equator_proj s = Inr s1"
    by (simp add: initialize_projections_def equator_proj_def)
  then have "sm_tle s1 = station_tle" using projections_keep [OF s1] assms(1) by simp
  then obtain f sr where "initialize_satrec s1 = Inr (s1\<lparr>satrec_tle := f, satrec := sr\<rparr>)"
    using satrec_reads [of s1] by (auto simp: station_tle_def)
  then show ?thesis using assms(2) by (simp add: SGP4Mobility_initialize_local_def s1 Let_def)
qed

lemma station_stages:
  "\<exists>s0 k0. satellite_stages equator_proj ref_kernel example_par example_tm (Some blank_sop) (Some []) (station, ref_init) =
    Inr (s0, k0)"
proof -
  let ?init = "SGP4Mobility_initialize equator_proj ref_kernel example_par example_tm (Some blank_sop) (Some [])"
  let ?k = "ref_init\<lparr>rk_next := 1\<rparr>"
  have new: "newMessage ref_kernel ref_init = (0, ?k)" by (simp add: ref_kernel_def ref_init_def)
  define s1 where "s1 = station\<lparr>constraintAreaMin := par_areaMin example_par, constraintAreaMax := par_areaMax example_par,
      moveTimer := Some 0, updateInterval := par_updateInterval example_par, faceForward := par_faceForward example_par\<rparr>"
  obtain s2 where s2: "SGP4Mobility_initialize_local equator_proj example_tm s1 = Inr s2"
    using station_local [of s1] station_parts by (auto simp: s1_def)
  have base: "moving_part s2 = moving_part s1" "constraintAreaMin s2 = constraintAreaMin s1"
      "constraintAreaMax s2 = constraintAreaMax s1"
    using truncate_parts [of s2 s1] local_keeps [OF s2] by auto
  have zero: "?init 0 (station, ref_init) = Inr (s2, ?k)"
    using s2 by (simp add: SGP4Mobility_initialize_def MovingMobilityBase_initialize_def MobilityBase_initialize_def new
        s1_def Let_def)
  define s3 where "s3 = (emitMobilityStateChangedSignal s2)\<lparr>lastUpdate := 0\<rparr>"
  have parts: "moveTimer s2 = Some 0" "updateInterval s2 = SIMTIME_S" "\<not> stationary s2" "nextChange s2 = -1"
      "mb_lastPosition s2 = Coord_ZERO"
    using base(1) station_parts by (simp_all add: moving_part_def s1_def example_par_def)
  have "\<not> isOutside s2"
    using parts base by (simp add: isOutside_def Let_def s1_def example_par_def Coord_ZERO_def mkCoord_def)
  moreover have "scheduleUpdate ref_kernel (s3, ?k) = Inr (s3, ?k\<lparr>rk_fes := [(0, SIMTIME_S)]\<rparr>)"
    using parts by (simp add: s3_def scheduleUpdate_def emitMobilityStateChangedSignal_def ref_kernel_def ref_init_def Let_def
        sm_erase_def SIMTIME_S_def SIMTIME_MS_def)
  ultimately have two: "?init 2 (s2, ?k) = Inr (s3, ?k\<lparr>rk_fes := [(0, SIMTIME_S)]\<rparr>)"
    by (simp add: SGP4Mobility_initialize_def MovingMobilityBase_initialize_def MobilityBase_initialize_def Let_def
        SGP4Mobility_initializePosition_def MovingMobilityBase_initializePosition_def MobilityBase_initializePosition_def
        SGP4Mobility_setInitialPosition_def initializeOrientation_def example_par_def checkPosition_def s3_def
        ref_kernel_def ref_init_def)
  obtain s4 where "?init 4 (s3, ?k\<lparr>rk_fes := [(0, SIMTIME_S)]\<rparr>) = Inr (s4, ?k\<lparr>rk_fes := [(0, SIMTIME_S)]\<rparr>)"
    by (simp add: SGP4Mobility_initialize_def MovingMobilityBase_initialize_def MobilityBase_initialize_def
        SGP4Mobility_initialize_sop_def)
  then show ?thesis
    using zero two by (auto simp: satellite_stages_def upt_conv_Cons numeral_eq_Suc idle_stage)
qed

text \<open>Three deliveries with arrays that hold something else each time.\<close>

definition example_stack :: "nat \<Rightarrow> vec3 \<times> vec3" where
  "example_stack i = ((real i, 0, 0), (0, real i, 0))"

theorem satellite_moves_periodically_witness:
  "\<exists>s0 k0 s' k'. satellite_stages equator_proj ref_kernel example_par example_tm (Some blank_sop) (Some [])
      (station, ref_init) = Inr (s0, k0) \<and>
    deliveries equator_proj ref_kernel example_stack 3 (s0, k0) = Inr (s', k') \<and>
    simTime ref_kernel k' = 3 * SIMTIME_S \<and>
    (\<forall>residue. residue = ((2, 0, 0), (0, 2, 0)) \<or> update_error s0 (3 * SIMTIME_S) \<notin> {1, 2, 3, 4} \<longrightarrow>
       (\<exists>u. updateSatellitePosition equator_proj residue (3 * SIMTIME_S) s0 = Inr u \<and>
          mb_lastPosition u = mb_lastPosition s'))"
proof -
  obtain s0 k0 where st: "satellite_stages equator_proj ref_kernel example_par example_tm (Some blank_sop) (Some [])
      (station, ref_init) = Inr (s0, k0)"
    using station_stages by blast
  have now: "simTime ref_kernel ref_init = 0" "par_updateInterval example_par = SIMTIME_S"
    by (simp_all add: ref_kernel_def ref_init_def example_par_def)
  have third: "example_stack (3 - 1) = ((2, 0, 0), (0, 2, 0))" by (simp add: example_stack_def)
  have pos: "0 < par_updateInterval example_par" "0 \<le> simTime ref_kernel ref_init"
    by (simp_all add: now SIMTIME_S_def SIMTIME_MS_def)
  from satellite_moves_periodically [where n = 3 and stack = example_stack, OF ref_sim_kernel st station_parts(3,4) pos]
  obtain s' k' where "deliveries equator_proj ref_kernel example_stack 3 (s0, k0) = Inr (s', k')"
    "simTime ref_kernel k' = 3 * SIMTIME_S"
    "\<forall>residue. residue = example_stack (3 - 1) \<or> update_error s0 (simTime ref_kernel k') \<notin> {1, 2, 3, 4} \<longrightarrow>
       (\<exists>u. updateSatellitePosition equator_proj residue (simTime ref_kernel k') s0 = Inr u \<and>
          mb_lastPosition u = mb_lastPosition s')"
    by (auto simp: now)
  with st show ?thesis unfolding third by metis
qed

theorem satellite_epoch_agrees_witness:
  "\<exists>s'. SGP4Mobility_initialize_local equator_proj example_tm station = Inr s' \<and>
    (tle_epoch_jd s', tle_epoch_frac s') = tle_epoch_date (tf_epochyr (satrec_tle s')) (tf_epochdays (satrec_tle s'))"
  using station_local [of station] station_parts satellite_epoch_agrees by metis

theorem rotation_date_counts_days_twice_witness:
  "let s' = current_wall_clock (86400 * SIMTIME_S) (station_new\<lparr>wall_clock_sim_start_time_frac := 0.5\<rparr>) in
    current_wall_clock_time_jd s' + current_wall_clock_time_frac s' = 2.5"
proof -
  let ?s = "station_new\<lparr>wall_clock_sim_start_time_frac := 0.5\<rparr>"
  have jd: "wall_clock_sim_start_time_jd ?s = 0" by (simp add: station_new_def moving_mobility.defs sgp4_mobility.defs)
  have d: "simtime_dbl (86400 * SIMTIME_S) = 86400" by (simp add: simtime_dbl_def SIMTIME_S_def SIMTIME_MS_def)
  have "\<lfloor>(0.5 + 86400) / 86400 :: double\<rfloor> = 1" by (simp add: floor_eq_iff)
  then show ?thesis
    using rotation_date_counts_days_twice [of ?s "86400 * SIMTIME_S"] jd d
    by (simp add: Let_def SIMTIME_S_def SIMTIME_MS_def)
qed

end
