(* ===== verification/SV_TraCI_Buffer.thy ===== *)
theory SV_TraCI_Buffer
  imports SV_Prelude "HOL-Library.Word" "HOL-Library.Char_ord"
begin

text \<open>
  \<open>TraCIBuffer\<close>: the byte buffer of the TraCI protocol, in the byte order of the network on every host. A value
  in memory is the list of its bytes in the order of the host, \<open>host\<close> is \<open>True\<close> on a big-endian one. The buffer
  keeps the bytes and the index of the next one to read. A \<open>double\<close> on the wire is its 64-bit pattern;
  \<open>double_of_bits\<close> is the number it denotes. How OMNeT++ converts times is the record \<open>time_ops\<close>.
\<close>

type_synonym byte = "8 word"

record tbuf =
  bf_buf :: "byte list"
  bf_index :: nat

type_synonym 'a reader = "tbuf \<Rightarrow> ('a \<times> tbuf) res"

section \<open>Bytes in memory\<close>

fun le_bytes :: "nat \<Rightarrow> nat \<Rightarrow> byte list" where
  "le_bytes 0 v = []"
| "le_bytes (Suc n) v = word_of_nat v # le_bytes n (v div 256)"

fun le_value :: "byte list \<Rightarrow> nat" where
  "le_value [] = 0"
| "le_value (b # bs) = unat b + 256 * le_value bs"

definition mem_bytes :: "bool \<Rightarrow> nat \<Rightarrow> nat \<Rightarrow> byte list" where
  "mem_bytes host n v = (if host then rev (le_bytes n v) else le_bytes n v)"

definition mem_value :: "bool \<Rightarrow> byte list \<Rightarrow> nat" where
  "mem_value host bs = le_value (if host then rev bs else bs)"

lemma length_le_bytes [simp]: "length (le_bytes n v) = n"
  by (induction n arbitrary: v) auto

lemma length_mem_bytes [simp]: "length (mem_bytes host n v) = n"
  by (simp add: mem_bytes_def)

lemma le_value_bytes: "le_value (le_bytes n v) = v mod 256 ^ n"
proof (induction n arbitrary: v)
  case (Suc n)
  have "unat (word_of_nat v :: byte) = v mod 256" by (simp add: unat_of_nat)
  then show ?case using Suc mod_mult2_eq [of v 256 "256 ^ n"] by simp
qed simp

definition isBigEndian :: "bool \<Rightarrow> bool" where
  "isBigEndian host \<longleftrightarrow> mem_bytes host 2 0x0102 ! 0 = 0x01"

lemma isBigEndian_host [simp]: "isBigEndian host = host"
proof -
  have "le_bytes (Suc (Suc 0)) 0x0102 = [2, 1]" by simp
  then have "le_bytes 2 0x0102 = [2, 1]" by (simp only: numeral_2_eq_2)
  then show ?thesis by (simp add: isBigEndian_def mem_bytes_def)
qed

section \<open>The buffer\<close>

definition tbuf_new :: tbuf where
  "tbuf_new = \<lparr>bf_buf = [], bf_index = 0\<rparr>"

definition tbuf_of :: "byte list \<Rightarrow> tbuf" where
  "tbuf_of bs = \<lparr>bf_buf = bs, bf_index = 0\<rparr>"

definition tbuf_set :: "byte list \<Rightarrow> tbuf \<Rightarrow> tbuf" where
  "tbuf_set bs b = b\<lparr>bf_buf := bs, bf_index := 0\<rparr>"

definition tbuf_clear :: "tbuf \<Rightarrow> tbuf" where
  "tbuf_clear b = tbuf_set [] b"

definition eof :: "tbuf \<Rightarrow> bool" where
  "eof b \<longleftrightarrow> bf_index b = length (bf_buf b)"

definition next_byte :: "byte reader" where
  "next_byte b =
     (if eof b then throwr ''Attempted to read past end of byte buffer''
      else Inr (bf_buf b ! bf_index b, b\<lparr>bf_index := bf_index b + 1\<rparr>))"

fun read_bytes :: "nat \<Rightarrow> byte list reader" where
  "read_bytes 0 b = Inr ([], b)"
| "read_bytes (Suc n) b =
     rbind (next_byte b) (\<lambda>(x, b). rbind (read_bytes n b) (\<lambda>(xs, b). Inr (x # xs, b)))"

text \<open>\<open>read<T>()\<close>, \<open>write(T)\<close> and \<open>readBuffer\<close>: the loops over the bytes of a value.\<close>

definition readBuffer :: "bool \<Rightarrow> nat \<Rightarrow> byte list reader" where
  "readBuffer host sz b =
     rbind (read_bytes sz b) (\<lambda>(bs, b). Inr (if isBigEndian host then bs else rev bs, b))"

definition read_word :: "bool \<Rightarrow> 'w::len word reader" where
  "read_word host b =
     rbind (readBuffer host (LENGTH('w) div 8) b) (\<lambda>(p, b). Inr (word_of_nat (mem_value host p), b))"

definition write_word :: "bool \<Rightarrow> 'w::len word \<Rightarrow> tbuf \<Rightarrow> tbuf" where
  "write_word host val b =
     (let n = LENGTH('w) div 8; p = mem_bytes host n (unat val)
      in b\<lparr>bf_buf := bf_buf b @
             (if isBigEndian host then map (\<lambda>i. p ! i) [0..<n] else map (\<lambda>i. p ! (n - 1 - i)) [0..<n])\<rparr>)"

fun write_chars :: "bool \<Rightarrow> string \<Rightarrow> tbuf \<Rightarrow> tbuf" where
  "write_chars host [] b = b"
| "write_chars host (c # cs) b = write_chars host cs (write_word host (word_of_nat (of_char c) :: byte) b)"

fun read_chars :: "bool \<Rightarrow> nat \<Rightarrow> string reader" where
  "read_chars host 0 b = Inr ([], b)"
| "read_chars host (Suc n) b =
     rbind (read_word host b) (\<lambda>(c :: byte, b).
     rbind (read_chars host n b) (\<lambda>(cs, b). Inr (char_of (unat c) # cs, b)))"

definition write_string :: "bool \<Rightarrow> string \<Rightarrow> tbuf \<Rightarrow> tbuf" where
  "write_string host val b =
     (let len = word_of_nat (length val) :: 32 word
      in write_chars host (take (unat len) val) (write_word host len b))"

definition read_string :: "bool \<Rightarrow> string reader" where
  "read_string host b =
     rbind (read_word host b) (\<lambda>(len :: 32 word, b).
     if len = 0 then Inr ([], b) else read_chars host (unat len) b)"

fun write_strings :: "bool \<Rightarrow> string list \<Rightarrow> tbuf \<Rightarrow> tbuf" where
  "write_strings host [] b = b"
| "write_strings host (s # ss) b = write_strings host ss (write_string host s b)"

fun read_strings :: "bool \<Rightarrow> nat \<Rightarrow> string list reader" where
  "read_strings host 0 b = Inr ([], b)"
| "read_strings host (Suc n) b =
     rbind (read_string host b) (\<lambda>(s, b). rbind (read_strings host n b) (\<lambda>(ss, b). Inr (s # ss, b)))"

definition write_string_list :: "bool \<Rightarrow> string list \<Rightarrow> tbuf \<Rightarrow> tbuf" where
  "write_string_list host val b =
     write_strings host val (write_word host (word_of_nat (length val) :: 32 word) b)"

definition readTypeChecked :: "bool \<Rightarrow> (bool \<Rightarrow> 'a reader) \<Rightarrow> byte \<Rightarrow> 'a reader" where
  "readTypeChecked host read expected b =
     rbind (read_word host b) (\<lambda>(read_type :: byte, b).
     rbind (assertr (read_type = expected) ''read_type == static_cast<uint8_t>(expectedTraCIType)'') (\<lambda>_.
     read host b))"

text \<open>The specialisation for vectors of strings takes the number of strings from one byte.\<close>

definition readTypeChecked_strings :: "bool \<Rightarrow> byte \<Rightarrow> string list reader" where
  "readTypeChecked_strings host expected b =
     rbind (read_word host b) (\<lambda>(read_type :: byte, b).
     rbind (assertr (read_type = expected) ''read<uint8_t>() == static_cast<uint8_t>(expectedTraCIType)'') (\<lambda>_.
     rbind (read_word host b) (\<lambda>(nrOfElements :: byte, b). read_strings host (unat nrOfElements) b)))"

definition readByteOrFull :: "bool \<Rightarrow> 'w::len word reader" where
  "readByteOrFull host b =
     rbind (read_word host b) (\<lambda>(shortBuf :: byte, b).
     if 0 < shortBuf \<or> eof b then Inr (ucast shortBuf, b) else read_word host b)"

definition writeByteOrFull :: "bool \<Rightarrow> 'w::len word \<Rightarrow> tbuf \<Rightarrow> tbuf" where
  "writeByteOrFull host val b =
     (if unat val < 256 then write_word host (ucast val :: byte) b
      else write_word host val (write_word host (0 :: byte) b))"

text \<open>Coordinates are preceded by their type (major version 5).\<close>

definition POSITION_2D :: byte where
  "POSITION_2D = 0x01"

definition write_coord :: "bool \<Rightarrow> 64 word \<times> 64 word \<Rightarrow> tbuf \<Rightarrow> tbuf" where
  "write_coord host p b = write_word host (snd p) (write_word host (fst p) (write_word host POSITION_2D b))"

definition read_coord :: "bool \<Rightarrow> (64 word \<times> 64 word) reader" where
  "read_coord host b =
     rbind (read_word host b) (\<lambda>(posType :: byte, b).
     rbind (assertr (posType = POSITION_2D) ''posType == POSITION_2D'') (\<lambda>_.
     rbind (read_word host b) (\<lambda>(x, b). rbind (read_word host b) (\<lambda>(y, b). Inr ((x, y), b)))))"

text \<open>Simulation times: as double, or as a whole number of milliseconds.\<close>

record time_ops =
  tm_dbl :: "simtime \<Rightarrow> 64 word"     \<comment> \<open>\<open>SimTime::dbl()\<close>\<close>
  tm_of_dbl :: "64 word \<Rightarrow> simtime"  \<comment> \<open>\<open>SimTime(double)\<close>\<close>
  tm_max :: simtime                  \<comment> \<open>\<open>SimTime::getMaxTime()\<close>\<close>

definition write_time :: "time_ops \<Rightarrow> bool \<Rightarrow> bool \<Rightarrow> simtime \<Rightarrow> tbuf \<Rightarrow> tbuf" where
  "write_time T host timeAsDouble t b =
     (if timeAsDouble then write_word host (tm_dbl T t) b
      else write_word host (word_of_int (t div SIMTIME_MS) :: 32 word) b)"

definition read_time :: "time_ops \<Rightarrow> bool \<Rightarrow> bool \<Rightarrow> simtime reader" where
  "read_time T host timeAsDouble b =
     (if timeAsDouble then rbind (read_word host b) (\<lambda>(d, b). Inr (tm_of_dbl T d, b))
      else rbind (read_word host b) (\<lambda>(i :: 32 word, b). Inr (int (unat i) * SIMTIME_MS, b)))"

text \<open>The number a finite pattern denotes.\<close>

definition double_of_bits :: "64 word \<Rightarrow> double" where
  "double_of_bits w =
     (let m = unat w mod 2 ^ 52; e = unat w div 2 ^ 52 mod 2 ^ 11; s = unat w div 2 ^ 63;
          x = (if e = 0 then of_nat m / 2 ^ 1074
               else if 1075 \<le> e then of_nat (2 ^ 52 + m) * 2 ^ (e - 1075) else of_nat (2 ^ 52 + m) / 2 ^ (1075 - e))
      in if s = 0 then x else - x)"

section \<open>Reading back\<close>

text \<open>\<open>reads r bs x\<close>: wherever the next bytes are \<open>bs\<close>, \<open>r\<close> consumes exactly them and yields \<open>x\<close>.\<close>

definition at_bytes :: "tbuf \<Rightarrow> byte list \<Rightarrow> bool" where
  "at_bytes b bs \<longleftrightarrow> bf_index b \<le> length (bf_buf b) \<and> drop (bf_index b) (bf_buf b) = bs"

definition reads :: "'a reader \<Rightarrow> byte list \<Rightarrow> 'a \<Rightarrow> bool" where
  "reads r bs x \<longleftrightarrow> (\<forall>b rest. at_bytes b (bs @ rest) \<longrightarrow> r b = Inr (x, b\<lparr>bf_index := bf_index b + length bs\<rparr>))"

lemma readsD: "reads r bs x \<Longrightarrow> at_bytes b (bs @ rest) \<Longrightarrow> r b = Inr (x, b\<lparr>bf_index := bf_index b + length bs\<rparr>)"
  by (auto simp: reads_def)

lemma at_bytes_advance [intro]:
  assumes "at_bytes b (bs @ rest)" shows "at_bytes (b\<lparr>bf_index := bf_index b + length bs\<rparr>) rest"
proof -
  from assms have d: "drop (bf_index b) (bf_buf b) = bs @ rest" and le: "bf_index b \<le> length (bf_buf b)"
    by (auto simp: at_bytes_def)
  have "length (bf_buf b) - bf_index b = length bs + length rest" using arg_cong [OF d, of length] by simp
  moreover have "drop (bf_index b + length bs) (bf_buf b) = rest"
    using arg_cong [OF d, of "drop (length bs)"] by (simp add: add.commute)
  ultimately show ?thesis using le by (simp add: at_bytes_def)
qed

lemma eof_iff: "at_bytes b bs \<Longrightarrow> eof b \<longleftrightarrow> bs = []"
  by (auto simp: at_bytes_def eof_def)

lemma reads_return: "reads (\<lambda>b. Inr (x, b)) [] x"
  by (simp add: reads_def)

lemma reads_bind:
  assumes "reads r bs x" and "reads (f x) cs y"
  shows "reads (\<lambda>b. rbind (r b) (\<lambda>(x, b). f x b)) (bs @ cs) y"
proof -
  have "rbind (r b) (\<lambda>(x, b). f x b) = Inr (y, b\<lparr>bf_index := bf_index b + length (bs @ cs)\<rparr>)"
    if "at_bytes b ((bs @ cs) @ rest)" for b rest
  proof -
    from that have "at_bytes b (bs @ (cs @ rest))" by simp
    with readsD [OF assms(1) this] readsD [OF assms(2) at_bytes_advance [OF this]] show ?thesis by (simp add: add.assoc)
  qed
  then show ?thesis by (simp add: reads_def)
qed

lemma reads_map: "reads r bs x \<Longrightarrow> reads (\<lambda>b. rbind (r b) (\<lambda>(x, b). Inr (g x, b))) bs (g x)"
  using reads_bind [of r bs x "\<lambda>x b. Inr (g x, b)", OF _ reads_return] by simp

lemma reads_next_byte: "reads next_byte [x] x"
proof -
  have "bf_buf b ! bf_index b = x" if "at_bytes b ([x] @ rest)" for b rest
    using that by (metis append_Cons at_bytes_def hd_drop_conv_nth list.sel(1) list.simps(3) drop_all not_le)
  then show ?thesis by (auto simp: reads_def next_byte_def eof_iff)
qed

lemma reads_bytes: "reads (read_bytes (length bs)) bs bs"
proof (induction bs)
  case Nil
  show ?case by (simp add: reads_def)
next
  case (Cons x xs)
  have "reads (\<lambda>b. rbind (read_bytes (length xs) b) (\<lambda>(ys, b). Inr (x # ys, b))) (xs @ []) (x # xs)"
    by (rule reads_bind [OF Cons reads_return])
  from reads_bind [OF reads_next_byte, of "\<lambda>x b. rbind (read_bytes (length xs) b) (\<lambda>(xs, b). Inr (x # xs, b))", OF this]
  show ?case by (simp add: fun_eq_iff)
qed
lemma reads_readBuffer: "reads (readBuffer host (length bs)) (if host then bs else rev bs) bs"
  using reads_map [OF reads_bytes [of "if host then bs else rev bs"], of "\<lambda>bs. if host then bs else rev bs"]
  by (cases host) (simp_all add: readBuffer_def [abs_def])

text \<open>The bytes of a word on the wire.\<close>

definition word_bytes :: "'w::len word \<Rightarrow> byte list" where
  "word_bytes w = rev (le_bytes (LENGTH('w) div 8) (unat w))"

lemma write_word_eq: "write_word host w b = b\<lparr>bf_buf := bf_buf b @ word_bytes w\<rparr>"
proof -
  have rev_nth: "map (\<lambda>i. p ! (n - Suc i)) [0..<n] = rev p" if "length p = n" for p :: "byte list" and n
    using that by (intro nth_equalityI) (auto simp: rev_nth)
  have nth: "map (\<lambda>i. p ! i) [0..<n] = p" if "length p = n" for p :: "byte list" and n
    using that map_nth [of p] by simp
  show ?thesis by (cases host) (simp_all add: write_word_def Let_def word_bytes_def rev_nth nth mem_bytes_def)
qed

lemma reads_word:
  fixes w :: "'w::len word"
  assumes "LENGTH('w) mod 8 = 0"
  shows "reads (read_word host) (word_bytes w) w"
proof -
  let ?n = "LENGTH('w) div 8"
  have "8 * ?n = LENGTH('w)" using assms mult_div_mod_eq [of 8 "LENGTH('w)"] by linarith
  moreover have "(256 :: nat) ^ ?n = 2 ^ (8 * ?n)" by (simp add: power_mult)
  ultimately have "unat w < 256 ^ ?n" using unsigned_less [of w] by simp
  then have again: "le_value (le_bytes ?n (unat w)) = unat w" by (simp add: le_value_bytes)
  let ?p = "mem_bytes host ?n (unat w)"
  have p: "mem_value host ?p = unat w" using again by (simp add: mem_value_def mem_bytes_def)
  have "reads (readBuffer host ?n) (word_bytes w) ?p"
    using reads_readBuffer [of host ?p] by (cases host) (simp_all add: word_bytes_def mem_bytes_def)
  moreover have "(word_of_nat (unat w) :: 'w word) = w" by simp
  ultimately show ?thesis
    using reads_map [of "readBuffer host ?n" "word_bytes w" ?p "\<lambda>p. word_of_nat (mem_value host p) :: 'w word"]
    by (simp only: read_word_def [abs_def] p)
qed

lemma reads_word_map:
  "LENGTH('w::len) mod 8 = 0 \<Longrightarrow>
    reads (\<lambda>b. rbind (read_word host b) (\<lambda>(x, b). Inr (g x, b))) (word_bytes (w :: 'w word)) (g w)"
  by (intro reads_map reads_word)

section \<open>Types that can be sent\<close>

text \<open>
  A type of the protocol: what is written is appended to the buffer, and what was written is read back, whatever
  surrounds it. A pair of types gives the type of pairs, so messages are built from interpretations.
\<close>

locale wire_type =
  fixes put :: "'a \<Rightarrow> tbuf \<Rightarrow> tbuf" and get :: "'a reader" and encode :: "'a \<Rightarrow> byte list" and valid :: "'a \<Rightarrow> bool"
  assumes put_eq: "put x b = b\<lparr>bf_buf := bf_buf b @ encode x\<rparr>"
    and get_encode: "valid x \<Longrightarrow> reads get (encode x) x"
begin

lemma roundtrip:
  assumes "valid x" and "eof b"
  shows "get (put x b) = Inr (x, (put x b)\<lparr>bf_index := length (bf_buf (put x b))\<rparr>)"
proof -
  have "at_bytes (put x b) (encode x @ [])" using assms(2) by (simp add: put_eq at_bytes_def eof_def)
  from readsD [OF get_encode [OF assms(1)] this] show ?thesis using assms(2) by (simp add: put_eq eof_def)
qed

lemma get_put:
  assumes "valid x" and "eof b"
  shows "\<exists>b'. get (put x b) = Inr (x, b') \<and> eof b'"
  using roundtrip [OF assms] by (auto simp: eof_def)

end

lemma word_wire: "LENGTH('w::len) mod 8 = 0 \<Longrightarrow> wire_type (write_word host :: 'w word \<Rightarrow> _) (read_word host) word_bytes (\<lambda>_. True)"
  by unfold_locales (simp_all add: write_word_eq reads_word)

interpretation u8: wire_type "write_word host :: byte \<Rightarrow> _" "read_word host" word_bytes "\<lambda>_. True" for host
  by (rule word_wire) simp

interpretation u32: wire_type "write_word host :: 32 word \<Rightarrow> _" "read_word host" word_bytes "\<lambda>_. True" for host
  by (rule word_wire) simp

interpretation u64: wire_type "write_word host :: 64 word \<Rightarrow> _" "read_word host" word_bytes "\<lambda>_. True" for host
  by (rule word_wire) simp

definition char_byte :: "char \<Rightarrow> byte" where
  "char_byte c = word_of_nat (of_char c)"

lemma byte_char: "char_of (unat (char_byte c)) = c"
  by (simp add: char_byte_def unat_of_nat)

lemma word_bytes_byte [simp]: "word_bytes (w :: byte) = [w]"
  by (simp add: word_bytes_def)

lemma length_word_bytes [simp]: "length (word_bytes (w :: 'w::len word)) = LENGTH('w) div 8"
  by (simp add: word_bytes_def)

definition string_bytes :: "string \<Rightarrow> byte list" where
  "string_bytes s = word_bytes (word_of_nat (length s) :: 32 word) @ map char_byte (take (length s mod 2 ^ 32) s)"

definition short :: "'a list \<Rightarrow> bool" where
  "short s \<longleftrightarrow> length s < 2 ^ 32"

lemma write_chars_eq: "write_chars host cs b = b\<lparr>bf_buf := bf_buf b @ map char_byte cs\<rparr>"
  by (induction cs arbitrary: b) (simp_all add: write_word_eq char_byte_def)

lemma reads_chars: "reads (read_chars host (length cs)) (map char_byte cs) cs"
proof (induction cs)
  case Nil
  show ?case by (simp add: reads_return)
next
  case (Cons c cs)
  let ?f = "\<lambda>c b. rbind (read_chars host (length cs) b) (\<lambda>(cs, b). Inr (char_of (unat (c :: byte)) # cs, b))"
  have "reads (?f (char_byte c)) (map char_byte cs) (c # cs)"
    using reads_map [OF Cons, of "\<lambda>cs. c # cs"] by (simp add: byte_char)
  from reads_bind [OF u8.get_encode [OF TrueI], where f = ?f, OF this] show ?case
    by (simp add: fun_eq_iff reads_def)
qed

interpretation str: wire_type "write_string host" "read_string host" string_bytes short for host
proof
  show "write_string host x b = b\<lparr>bf_buf := bf_buf b @ string_bytes x\<rparr>" for x b
    by (simp add: write_string_def write_word_eq write_chars_eq string_bytes_def Let_def unat_of_nat)
  show "reads (read_string host) (string_bytes x) x" if "short x" for x
  proof -
    let ?len = "word_of_nat (length x) :: 32 word"
    have len: "unat ?len = length x" using that by (simp add: short_def unat_of_nat)
    have "reads (\<lambda>b. if ?len = 0 then Inr ([], b) else read_chars host (unat ?len) b) (map char_byte x) x"
    proof (cases "x = []")
      case False
      then have "?len \<noteq> 0" using len by auto
      then show ?thesis using reads_chars [of host x] len by simp
    qed (simp add: reads_return)
    from reads_bind [OF u32.get_encode [OF TrueI], where f = "\<lambda>len b. if len = 0 then Inr ([], b) else read_chars host (unat len) b", OF this]
    show ?thesis using that by (simp add: read_string_def [abs_def] string_bytes_def short_def)
  qed
qed

section \<open>Composed types\<close>

lemma write_strings_eq: "write_strings host ss b = b\<lparr>bf_buf := bf_buf b @ concat (map string_bytes ss)\<rparr>"
  by (induction ss arbitrary: b) (simp_all add: str.put_eq)

lemma reads_strings: "list_all short ss \<Longrightarrow> reads (read_strings host (length ss)) (concat (map string_bytes ss)) ss"
proof (induction ss)
  case Nil
  show ?case by (simp add: reads_return)
next
  case (Cons s ss)
  let ?f = "\<lambda>s b. rbind (read_strings host (length ss) b) (\<lambda>(ss, b). Inr (s # ss, b))"
  have "reads (?f s) (concat (map string_bytes ss)) (s # ss)" using Cons by (intro reads_map) simp
  from reads_bind [OF str.get_encode, where f = ?f, OF _ this] show ?case
    using Cons.prems by (simp add: fun_eq_iff reads_def)
qed

interpretation coord: wire_type "write_coord host" "read_coord host"
    "\<lambda>p. POSITION_2D # word_bytes (fst p) @ word_bytes (snd p)" "\<lambda>_. True" for host
proof
  show "write_coord host x b = b\<lparr>bf_buf := bf_buf b @ POSITION_2D # word_bytes (fst x) @ word_bytes (snd x)\<rparr>" for x b
    by (simp add: write_coord_def write_word_eq)
  show "reads (read_coord host) (POSITION_2D # word_bytes (fst x) @ word_bytes (snd x)) x" for x
  proof -
    let ?y = "\<lambda>x b. rbind (read_word host b) (\<lambda>(y :: 64 word, b). Inr ((x :: 64 word, y), b))"
    let ?t = "\<lambda>t b. rbind (assertr (t = POSITION_2D) ''posType == POSITION_2D'') (\<lambda>_.
                rbind (read_word host b) (\<lambda>(x, b). ?y x b))"
    have "reads (?y (fst x)) (word_bytes (snd x)) x"
      using reads_word_map [of host "Pair (fst x)" "snd x"] by simp
    from reads_bind [OF u64.get_encode [OF TrueI], where f = ?y, OF this]
    have "reads (?t POSITION_2D) (word_bytes (fst x) @ word_bytes (snd x)) x" by simp
    from reads_bind [OF u8.get_encode [OF TrueI], where f = ?t, OF this] show ?thesis
      by (simp add: read_coord_def [abs_def])
  qed
qed

text \<open>A time survives when OMNeT++ converts it exactly, or when it is a whole number of milliseconds below 2^32.\<close>

definition time_ok :: "time_ops \<Rightarrow> bool \<Rightarrow> simtime \<Rightarrow> bool" where
  "time_ok T timeAsDouble t \<longleftrightarrow>
     (if timeAsDouble then tm_of_dbl T (tm_dbl T t) = t
      else t mod SIMTIME_MS = 0 \<and> 0 \<le> t \<and> t < 2 ^ 32 * SIMTIME_MS)"

definition time_bytes :: "time_ops \<Rightarrow> bool \<Rightarrow> simtime \<Rightarrow> byte list" where
  "time_bytes T timeAsDouble t =
     (if timeAsDouble then word_bytes (tm_dbl T t) else word_bytes (word_of_int (t div SIMTIME_MS) :: 32 word))"

interpretation time: wire_type "write_time T host d" "read_time T host d" "time_bytes T d" "time_ok T d" for T host d
proof
  show "write_time T host d x b = b\<lparr>bf_buf := bf_buf b @ time_bytes T d x\<rparr>" for x b
    by (simp add: write_time_def time_bytes_def write_word_eq)
  show "reads (read_time T host d) (time_bytes T d x) x" if ok: "time_ok T d x" for x
  proof (cases d)
    case True
    from reads_word_map [of host "tm_of_dbl T" "tm_dbl T x"] show ?thesis
      using ok True by (simp add: read_time_def [abs_def] time_bytes_def time_ok_def)
  next
    case False
    let ?w = "word_of_int (x div SIMTIME_MS) :: 32 word"
    have "0 \<le> x div SIMTIME_MS" "x div SIMTIME_MS < 2 ^ 32"
      using ok False unfolding time_ok_def SIMTIME_MS_def by (simp, linarith)+
    then have "int (unat ?w) = x div SIMTIME_MS" by (simp add: uint_word_of_int flip: uint_nat)
    then have "int (unat ?w) * SIMTIME_MS = x"
      using ok False by (metis time_ok_def div_mult_mod_eq add.right_neutral)
    with reads_word_map [of host "\<lambda>i. int (unat i) * SIMTIME_MS" ?w] show ?thesis
      using False by (simp add: read_time_def [abs_def] time_bytes_def)
  qed
qed

section \<open>Properties\<close>

text \<open>What a host writes into a buffer any host reads back and then is at the end: words of one, four and
  eight bytes, strings shorter than \<open>2^32\<close>, coordinates, and times that the chosen representation can hold. Reading on is the error of
  reading past the end.\<close>

theorem traci_values_roundtrip:
  assumes "eof b"
  shows "(\<exists>b'. read_word h' (write_word h (w8 :: 8 word) b) = Inr (w8, b') \<and> eof b') \<and>
    (\<exists>b'. read_word h' (write_word h (w32 :: 32 word) b) = Inr (w32, b') \<and> eof b') \<and>
    (\<exists>b'. read_word h' (write_word h (w64 :: 64 word) b) = Inr (w64, b') \<and> eof b') \<and>
    (length s < 2 ^ 32 \<longrightarrow> (\<exists>b'. read_string h' (write_string h s b) = Inr (s, b') \<and> eof b')) \<and>
    (\<exists>b'. read_coord h' (write_coord h p b) = Inr (p, b') \<and> eof b') \<and>
    (time_ok T d t \<longrightarrow> (\<exists>b'. read_time T h' d (write_time T h d t b) = Inr (t, b') \<and> eof b')) \<and>
    read_word h' b = (throwr ''Attempted to read past end of byte buffer'' :: (8 word \<times> tbuf) res)"
proof (intro conjI impI)
  show "\<exists>b'. read_word h' (write_word h w8 b) = Inr (w8, b') \<and> eof b'"
    using u8.get_put [OF TrueI assms] by (simp add: write_word_eq)
  show "\<exists>b'. read_word h' (write_word h w32 b) = Inr (w32, b') \<and> eof b'"
    using u32.get_put [OF TrueI assms] by (simp add: write_word_eq)
  show "\<exists>b'. read_word h' (write_word h w64 b) = Inr (w64, b') \<and> eof b'"
    using u64.get_put [OF TrueI assms] by (simp add: write_word_eq)
  show "\<exists>b'. read_string h' (write_string h s b) = Inr (s, b') \<and> eof b'" if "length s < 2 ^ 32"
    using str.get_put [OF _ assms, of s h'] that by (simp add: str.put_eq short_def)
  show "\<exists>b'. read_coord h' (write_coord h p b) = Inr (p, b') \<and> eof b'"
    using coord.get_put [OF TrueI assms, of h' p] by (simp add: coord.put_eq)
  show "\<exists>b'. read_time T h' d (write_time T h d t b) = Inr (t, b') \<and> eof b'" if "time_ok T d t"
    using time.get_put [OF that assms, of h'] by (simp add: time.put_eq)
  show "read_word h' b = (throwr ''Attempted to read past end of byte buffer'' :: (8 word \<times> tbuf) res)"
    using assms by (simp add: read_word_def readBuffer_def next_byte_def throwr_def)
qed

theorem traci_values_roundtrip_witness:
  "(\<exists>b'. read_word False (write_word True (7 :: 8 word) tbuf_new) = Inr (7 :: 8 word, b') \<and> eof b') \<and>
   (\<exists>b'. read_string False (write_string True ''veh0'' tbuf_new) = Inr (''veh0'', b') \<and> eof b') \<and>
   (\<exists>b'. read_time \<lparr>tm_dbl = \<lambda>_. 0, tm_of_dbl = \<lambda>_. 0, tm_max = 0\<rparr> False False
      (write_time \<lparr>tm_dbl = \<lambda>_. 0, tm_of_dbl = \<lambda>_. 0, tm_max = 0\<rparr> True False SIMTIME_S tbuf_new) = Inr (SIMTIME_S, b') \<and> eof b')"
proof -
  have e: "eof tbuf_new" by (simp add: eof_def tbuf_new_def)
  have t: "time_ok \<lparr>tm_dbl = \<lambda>_. 0, tm_of_dbl = \<lambda>_. 0, tm_max = 0\<rparr> False SIMTIME_S"
    by (simp add: time_ok_def SIMTIME_S_def SIMTIME_MS_def)
  show ?thesis
    using traci_values_roundtrip [OF e, of False True 7 0 0 "''veh0''" "(0, 0)" _ False SIMTIME_S] t by simp
qed

end
