(* ===== verification/SV_TraCI_Link.thy ===== *)
theory SV_TraCI_Link
  imports SV_TraCI_Buffer
begin

text \<open>
  \<open>TraCIConnection\<close>: connecting, framing of messages on the TCP socket, commands and their status. The socket
  is a record: the bytes the peer will send, the bytes given to the kernel, and what the next calls of
  \<open>recv\<close> and \<open>send\<close> return (some number of bytes, interrupted, closed, failed). A call that nothing answers
  blocks, the result \<open>NoReturn\<close>.
\<close>

datatype sock_event =
    Moved nat     \<comment> \<open>the kernel moves at most that many bytes, at least one\<close>
  | Retry         \<comment> \<open>\<open>EINTR\<close> or \<open>EAGAIN\<close>\<close>
  | Closed        \<comment> \<open>\<open>recv\<close> returns 0\<close>
  | Failed

record sock =
  sk_in :: "byte list"
  sk_out :: "byte list"
  sk_events :: "sock_event list"

section \<open>Connecting\<close>

datatype attempt = NoSocket | Refused | Connected

definition sleep_duration :: "nat \<Rightarrow> nat" where
  "sleep_duration tries = nat (c_trunc (of_nat tries * 0.25 + 1))"

text \<open>The loop from a number of tries on; it returns the number of tries and the seconds slept.\<close>

function connect_loop :: "(nat \<Rightarrow> attempt) \<Rightarrow> nat \<Rightarrow> nat \<Rightarrow> (nat \<times> nat) res" where
  "connect_loop outcome tries slept =
     (if tries \<le> 10 then
        (case outcome tries of
           NoSocket \<Rightarrow> throwr ''Could not create socket to connect to TraCI server''
         | Connected \<Rightarrow> Inr (tries, slept)
         | Refused \<Rightarrow>
             if 10 \<le> tries then throwr ''Could not connect to TraCI server''
             else connect_loop outcome (tries + 1) (slept + sleep_duration tries))
      else Inr (tries, slept))"
  by pat_completeness auto
termination by (relation "measure (\<lambda>(_, tries, _). 11 - tries)") auto

declare connect_loop.simps [simp del]

definition TraCIConnection_connect :: "bool \<Rightarrow> 'addr option \<Rightarrow> (nat \<Rightarrow> attempt) \<Rightarrow> ('addr \<times> nat \<times> nat) res" where
  "TraCIConnection_connect socketlib address outcome =
     (if \<not> socketlib then throwr ''Could not init socketlib''
      else case address of
             None \<Rightarrow> throwr ''Invalid TraCI server address''
           | Some a \<Rightarrow> rbind (connect_loop outcome 1 0) (\<lambda>r. Inr (a, r)))"

section \<open>Messages\<close>

definition moved :: "nat \<Rightarrow> nat \<Rightarrow> nat" where
  "moved k wanted = max 1 (min k wanted)"

text \<open>\<open>while (bytesRead < n)\<close>: the events, the bytes to come, the number of bytes still wanted.\<close>

fun recv_loop :: "sock_event list \<Rightarrow> byte list \<Rightarrow> nat \<Rightarrow> (byte list \<times> byte list \<times> sock_event list) res" where
  "recv_loop es inp 0 = Inr ([], inp, es)"
| "recv_loop [] inp (Suc n) = Inl NoReturn"
| "recv_loop (e # es) inp (Suc n) =
     (case e of
        Moved k \<Rightarrow>
          (let m = moved k (Suc n)
           in if length inp < m then Inl NoReturn
              else rbind (recv_loop es (drop m inp) (Suc n - m)) (\<lambda>(bs, r). Inr (take m inp @ bs, r)))
      | Retry \<Rightarrow> recv_loop es inp (Suc n)
      | Closed \<Rightarrow> throwr ''Connection to TraCI server closed unexpectedly''
      | Failed \<Rightarrow> throwr ''Connection to TraCI server lost'')"

definition recv_bytes :: "nat \<Rightarrow> sock \<Rightarrow> (byte list \<times> sock) res" where
  "recv_bytes n s =
     rbind (recv_loop (sk_events s) (sk_in s) n) (\<lambda>(bs, inp, es). Inr (bs, s\<lparr>sk_in := inp, sk_events := es\<rparr>))"

definition receiveMessage :: "bool \<Rightarrow> sock option \<Rightarrow> (byte list \<times> sock) res" where
  "receiveMessage host socketPtr =
     (case socketPtr of
        None \<Rightarrow> throwr ''Not connected to TraCI server''
      | Some s \<Rightarrow>
          rbind (recv_bytes 4 s) (\<lambda>(buf2, s).
          rbind (read_word host (tbuf_of buf2)) (\<lambda>(msgLength :: 32 word, _).
          let bufLength = msgLength - 4 in recv_bytes (unat bufLength) s)))"

text \<open>A \<open>send\<close> of \<open>0\<close> bytes is not an error; the loop asks for the error number and, like for a failure, ends.\<close>

fun send_loop :: "sock_event list \<Rightarrow> byte list \<Rightarrow> sock_event list res" where
  "send_loop es [] = Inr es"
| "send_loop [] (b # bs) = Inl NoReturn"
| "send_loop (e # es) (b # bs) =
     (case e of
        Moved k \<Rightarrow> send_loop es (drop (moved k (Suc (length bs))) (b # bs))
      | Retry \<Rightarrow> send_loop es (b # bs)
      | Closed \<Rightarrow> throwr ''Connection to TraCI server lost''
      | Failed \<Rightarrow> throwr ''Connection to TraCI server lost'')"

definition send_bytes :: "byte list \<Rightarrow> sock \<Rightarrow> sock res" where
  "send_bytes bs s = rbind (send_loop (sk_events s) bs) (\<lambda>es. Inr (s\<lparr>sk_out := sk_out s @ bs, sk_events := es\<rparr>))"

definition sendMessage :: "bool \<Rightarrow> byte list \<Rightarrow> sock option \<Rightarrow> sock res" where
  "sendMessage host buf socketPtr =
     (case socketPtr of
        None \<Rightarrow> throwr ''Not connected to TraCI server''
      | Some s \<Rightarrow>
          (let msgLength = word_of_nat (4 + length buf) :: 32 word;
               buf2 = write_word host msgLength tbuf_new
           in rbind (send_bytes (bf_buf buf2) s) (send_bytes buf)))"

section \<open>Commands\<close>

definition makeTraCICommand :: "bool \<Rightarrow> byte \<Rightarrow> byte list \<Rightarrow> byte list" where
  "makeTraCICommand host commandId buf =
     (if 1 + 1 + length buf > 0xFF then
        (let len = word_of_nat (1 + 4 + 1 + length buf) :: 32 word
         in bf_buf (write_word host commandId (write_word host len (write_word host (0 :: byte) tbuf_new))) @ buf)
      else
        (let len = word_of_nat (1 + 1 + length buf) :: byte
         in bf_buf (write_word host commandId (write_word host len tbuf_new)) @ buf))"

record traci_result =
  rs_success :: bool
  rs_not_impl :: bool
  rs_message :: string

definition RTYPE_OK :: byte where "RTYPE_OK = 0x00"
definition RTYPE_NOTIMPLEMENTED :: byte where "RTYPE_NOTIMPLEMENTED = 0x01"
definition RTYPE_ERR :: byte where "RTYPE_ERR = 0xFF"

text \<open>What \<open>query\<close> does with the answer; it returns what the caller stores, the status and the rest of the buffer.\<close>

definition query_status :: "bool \<Rightarrow> byte \<Rightarrow> traci_result reader" where
  "query_status host commandId obuf =
     rbind (read_word host obuf) (\<lambda>(cmdLength :: byte, obuf).
     rbind (read_word host obuf) (\<lambda>(commandResp :: byte, obuf).
     rbind (assertr (commandResp = commandId) ''commandResp == commandId'') (\<lambda>_.
     rbind (read_word host obuf) (\<lambda>(resultCode :: byte, obuf).
     rbind (read_string host obuf) (\<lambda>(description, obuf).
     Inr (\<lparr>rs_success = (resultCode = RTYPE_OK), rs_not_impl = (resultCode = RTYPE_NOTIMPLEMENTED),
           rs_message = description\<rparr>, obuf))))))"

text \<open>The link is the function that sends a message and returns the answer.\<close>

definition query_result ::
    "bool \<Rightarrow> (byte list \<Rightarrow> 'c \<Rightarrow> (byte list \<times> 'c) res) \<Rightarrow> byte \<Rightarrow> tbuf \<Rightarrow> 'c \<Rightarrow> (traci_result \<times> tbuf \<times> 'c) res" where
  "query_result host link commandId buf c =
     rbind (link (makeTraCICommand host commandId (bf_buf buf)) c) (\<lambda>(answer, c).
     rbind (query_status host commandId (tbuf_of answer)) (\<lambda>(r, obuf). Inr (r, obuf, c)))"

definition query ::
    "bool \<Rightarrow> (byte list \<Rightarrow> 'c \<Rightarrow> (byte list \<times> 'c) res) \<Rightarrow> byte \<Rightarrow> tbuf \<Rightarrow> 'c \<Rightarrow> (tbuf \<times> 'c) res" where
  "query host link commandId buf c =
     rbind (query_result host link commandId buf c) (\<lambda>(r, obuf, c).
       if rs_not_impl r then throwr ''TraCI server reported command not implemented''
       else if \<not> rs_success r then throwr ''TraCI server reported status executing command''
       else Inr (obuf, c))"

definition socket_link :: "bool \<Rightarrow> byte list \<Rightarrow> sock option \<Rightarrow> (byte list \<times> sock option) res" where
  "socket_link host msg c =
     rbind (sendMessage host msg c) (\<lambda>s. rbind (receiveMessage host (Some s)) (\<lambda>(answer, s). Inr (answer, Some s)))"

section \<open>Properties of the socket loops\<close>

text \<open>Enough progress: no closed or failed connection, and a byte at least for each wanted one.\<close>

definition enough :: "nat \<Rightarrow> sock_event list \<Rightarrow> bool" where
  "enough n es \<longleftrightarrow> Closed \<notin> set es \<and> Failed \<notin> set es \<and> n \<le> length (filter (\<lambda>e. e \<noteq> Retry) es)"

lemma enough_simps [simp]:
  "enough n (Retry # es) \<longleftrightarrow> enough n es"
  "enough n (Moved k # es) \<longleftrightarrow> enough (n - 1) es"
  "\<not> enough n (Closed # es)" "\<not> enough n (Failed # es)" "\<not> enough (Suc n) []"
  by (auto simp: enough_def)

lemma enough_mono: "enough n es \<Longrightarrow> m \<le> n \<Longrightarrow> enough m es"
  by (auto simp: enough_def)

lemma moved_bounds [simp]: "1 \<le> moved k (Suc n)" "moved k (Suc n) \<le> Suc n"
  by (auto simp: moved_def)

lemma recv_loop_Moved:
  "Suc n = length bs \<Longrightarrow> recv_loop (Moved k # es) (bs @ rest) (Suc n) =
    rbind (recv_loop es (drop (moved k (Suc n)) bs @ rest) (length (drop (moved k (Suc n)) bs)))
      (\<lambda>(cs, r). Inr (take (moved k (Suc n)) bs @ cs, r))"
  using moved_bounds(2) [of k n] by (subst recv_loop.simps(3)) (simp add: Let_def)

lemma recv_loop_enough:
  "enough (length bs + m) es \<Longrightarrow>
    \<exists>es'. recv_loop es (bs @ rest) (length bs) = Inr (bs, rest, es') \<and> enough m es'"
proof (induction es arbitrary: bs)
  case Nil
  then show ?case by (cases bs) auto
next
  case (Cons e es)
  show ?case
  proof (cases bs)
    case Nil
    then show ?thesis using Cons.prems by simp
  next
    case (Cons b cs)
    then obtain n where n: "Suc n = length bs" by simp
    show ?thesis
    proof (cases e)
      case (Moved k)
      let ?m = "moved k (Suc n)"
      have "enough (length (drop ?m bs) + m) es"
        using Cons.prems Moved moved_bounds(1) [of k n] by (auto simp flip: n intro: enough_mono)
      then obtain es' where "recv_loop es (drop ?m bs @ rest) (length (drop ?m bs)) = Inr (drop ?m bs, rest, es')"
          "enough m es'"
        using Cons.IH by blast
      then show ?thesis by (simp add: Moved recv_loop_Moved [OF n] flip: n del: recv_loop.simps length_drop)
    next
      case Retry
      then show ?thesis using Cons.IH [of bs] Cons.prems by (simp flip: n)
    qed (use Cons.prems in auto)
  qed
qed

lemma send_loop_enough: "enough (length bs + m) es \<Longrightarrow> \<exists>es'. send_loop es bs = Inr es' \<and> enough m es'"
proof (induction es arbitrary: bs)
  case Nil
  then show ?case by (cases bs) auto
next
  case (Cons e es)
  show ?case
  proof (cases bs)
    case (Cons b cs)
    show ?thesis
    proof (cases e)
      case (Moved k)
      let ?m = "moved k (Suc (length cs))"
      have "enough (length (drop ?m bs) + m) es"
        using Cons.prems Moved Cons moved_bounds(1) [of k "length cs"] by (auto intro: enough_mono)
      then show ?thesis using Cons.IH [of "drop ?m bs"] Moved Cons by simp
    next
      case Retry
      then show ?thesis using Cons.IH [of bs] Cons.prems Cons by simp
    qed (use Cons.prems in auto)
  qed (use Cons.prems in simp)
qed

section \<open>Messages and commands arrive\<close>

lemma unat_small:
  "n < 2 ^ 32 \<Longrightarrow> unat (word_of_nat n :: 32 word) = n" "m < 256 \<Longrightarrow> unat (word_of_nat m :: byte) = m"
  by (simp_all add: unat_of_nat)

text \<open>A message with its header, as it travels.\<close>

definition frame :: "byte list \<Rightarrow> byte list" where
  "frame msg = word_bytes (word_of_nat (4 + length msg) :: 32 word) @ msg"

lemma length_frame [simp]: "length (frame msg) = 4 + length msg"
  by (simp add: frame_def)

lemma sendMessage_enough:
  assumes "enough (4 + length msg + m) (sk_events s)"
  shows "\<exists>es. sendMessage host msg (Some s) = Inr (s\<lparr>sk_out := sk_out s @ frame msg, sk_events := es\<rparr>) \<and> enough m es"
proof -
  let ?h = "word_bytes (word_of_nat (4 + length msg) :: 32 word)"
  obtain es where 1: "send_loop (sk_events s) ?h = Inr es" "enough (length msg + m) es"
    using send_loop_enough [of ?h "length msg + m" "sk_events s"] assms by (auto simp: add.assoc)
  obtain es' where "send_loop es msg = Inr es'" "enough m es'"
    using send_loop_enough [OF 1(2)] by blast
  with 1 show ?thesis
    by (intro exI [of _ es']) (simp add: sendMessage_def send_bytes_def Let_def write_word_eq tbuf_new_def frame_def)
qed

lemma receiveMessage_enough:
  assumes "length msg + 4 < 2 ^ 32" and "enough (4 + length msg + m) (sk_events s)" and "sk_in s = frame msg @ rest"
  shows "\<exists>es. receiveMessage host (Some s) = Inr (msg, s\<lparr>sk_in := rest, sk_events := es\<rparr>) \<and> enough m es"
proof -
  let ?w = "word_of_nat (4 + length msg) :: 32 word"
  have "unat ?w = 4 + length msg" using assms(1) by (intro unat_small) simp
  then have w: "unat (?w - 4) = length msg" by (simp add: unat_sub_if_size del: of_nat_add)
  obtain es where 1: "recv_loop (sk_events s) (sk_in s) 4 = Inr (word_bytes ?w, msg @ rest, es)" "enough (length msg + m) es"
    using recv_loop_enough [of "word_bytes ?w" "length msg + m" "sk_events s" "msg @ rest"] assms
    by (auto simp: frame_def add.assoc)
  obtain es' where 2: "recv_loop es (msg @ rest) (length msg) = Inr (msg, rest, es')" "enough m es'"
    using recv_loop_enough [OF 1(2)] by blast
  have "at_bytes (tbuf_of (word_bytes ?w)) (word_bytes ?w @ [])" by (simp add: at_bytes_def tbuf_of_def)
  from readsD [OF u32.get_encode [OF TrueI] this, of host] obtain b where
    3: "read_word host (tbuf_of (word_bytes ?w)) = Inr (?w, b)" by blast
  show ?thesis
    using 1 2 3 w by (intro exI [of _ es']) (simp add: receiveMessage_def recv_bytes_def Let_def)
qed

text \<open>How the peer cuts a command off a message: the length is one byte, or zero and four bytes.\<close>

definition parse_command :: "byte list \<Rightarrow> (byte \<times> byte list \<times> byte list) option" where
  "parse_command bs =
     (case bs of
        [] \<Rightarrow> None
      | l # bs' \<Rightarrow>
          (let (hd_len, len) = (if l = 0 then (5, le_value (rev (take 4 bs'))) else (1, unat l))
           in if len < hd_len + 1 \<or> length bs < len then None
              else Some (bs ! hd_len, drop (hd_len + 1) (take len bs), drop len bs)))"

lemma makeTraCICommand_eq:
  "makeTraCICommand host c buf =
     (if 255 < 2 + length buf then 0 # word_bytes (word_of_nat (6 + length buf) :: 32 word) @ c # buf
      else word_of_nat (2 + length buf) # c # buf)"
  by (simp add: makeTraCICommand_def Let_def write_word_eq tbuf_new_def)

lemma parse_makeTraCICommand:
  assumes "length buf + 6 < 2 ^ 32"
  shows "parse_command (makeTraCICommand host c buf @ rest) = Some (c, buf, rest)"
proof (cases "255 < 2 + length buf")
  case True
  let ?w = "word_of_nat (6 + length buf) :: 32 word"
  have u: "unat ?w = 6 + length buf" using assms by (intro unat_small) simp
  then have "le_value (rev (word_bytes ?w)) = 6 + length buf"
    using assms by (simp add: word_bytes_def le_value_bytes)
  moreover have "take 4 (word_bytes ?w @ c # buf @ rest) = word_bytes ?w" by simp
  ultimately show ?thesis
    using True by (simp add: makeTraCICommand_eq parse_command_def nth_append nth_Cons' take_Cons' drop_Cons')
next
  case False
  let ?l = "word_of_nat (2 + length buf) :: byte"
  have u: "unat ?l = 2 + length buf" using False by (intro unat_small) simp
  then have "?l \<noteq> 0" by (metis unat_0 add_is_0 zero_neq_numeral)
  then show ?thesis using False u by (simp add: makeTraCICommand_eq parse_command_def)
qed

text \<open>The status in front of an answer.\<close>

definition status_bytes :: "byte \<Rightarrow> byte \<Rightarrow> byte \<Rightarrow> string \<Rightarrow> byte list" where
  "status_bytes cmdLength commandId code description = [cmdLength, commandId, code] @ string_bytes description"

lemma query_status_reads:
  assumes "short description"
  shows "reads (query_status host commandId) (status_bytes l commandId code description)
    \<lparr>rs_success = (code = RTYPE_OK), rs_not_impl = (code = RTYPE_NOTIMPLEMENTED), rs_message = description\<rparr>"
proof -
  let ?r = "\<lambda>code description. \<lparr>rs_success = (code = RTYPE_OK), rs_not_impl = (code = RTYPE_NOTIMPLEMENTED),
              rs_message = description\<rparr>"
  let ?f3 = "\<lambda>(code :: byte) b. rbind (read_string host b) (\<lambda>(d, b). Inr (?r code d, b))"
  let ?f2 = "\<lambda>(c :: byte) b. rbind (assertr (c = commandId) ''commandResp == commandId'') (\<lambda>_.
               rbind (read_word host b) (\<lambda>(code, b). ?f3 code b))"
  let ?f1 = "\<lambda>(l :: byte) b. rbind (read_word host b) (\<lambda>(c, b). ?f2 c b)"
  have 3: "reads (?f3 code) (string_bytes description) (?r code description)"
    by (rule reads_map [OF str.get_encode [OF assms]])
  have 2: "reads (?f2 commandId) (word_bytes code @ string_bytes description) (?r code description)"
    using reads_bind [OF u8.get_encode [OF TrueI], where f = ?f3, OF 3] by simp
  have 1: "reads (?f1 l) (word_bytes commandId @ word_bytes code @ string_bytes description) (?r code description)"
    by (rule reads_bind [OF u8.get_encode [OF TrueI], where f = ?f2, OF 2])
  show ?thesis
    using reads_bind [OF u8.get_encode [OF TrueI], where f = ?f1, OF 1]
    by (simp add: query_status_def [abs_def] status_bytes_def)
qed

section \<open>Theorems\<close>

lemma connect_loop_spec:
  "1 \<le> tries \<Longrightarrow> tries \<le> 10 \<Longrightarrow> connect_loop outcome tries slept = Inr (n, secs) \<longleftrightarrow>
    tries \<le> n \<and> n \<le> 10 \<and> outcome n = Connected \<and> (\<forall>i\<in>{tries..<n}. outcome i = Refused) \<and>
    secs = slept + sum sleep_duration {tries..<n}"
proof (induction outcome tries slept rule: connect_loop.induct)
  case (1 outcome tries slept)
  show ?case
  proof (cases "outcome tries")
    case NoSocket
    then have "tries \<le> n \<and> outcome n = Connected \<and> (\<forall>i\<in>{tries..<n}. outcome i = Refused) \<longrightarrow> False"
      by (metis atLeastLessThan_iff attempt.distinct(1,3) le_less order_refl)
    then show ?thesis using 1(3) NoSocket by (subst connect_loop.simps) auto
  next
    case Connected
    then have "tries \<le> n \<and> (\<forall>i\<in>{tries..<n}. outcome i = Refused) \<longrightarrow> n = tries"
      by (metis atLeastLessThan_iff attempt.distinct(5) le_less order_refl)
    then show ?thesis using 1(3) Connected by (subst connect_loop.simps) auto
  next
    case Refused
    show ?thesis
    proof (cases "tries = 10")
      case True
      then have "tries \<le> n \<and> n \<le> 10 \<longrightarrow> outcome n \<noteq> Connected"
        using Refused by (metis attempt.distinct(6) le_antisym)
      then show ?thesis using True Refused by (subst connect_loop.simps) auto
    next
      case False
      then have lt: "Suc tries \<le> 10" using 1(3) by simp
      have IH: "connect_loop outcome tries slept = Inr (n, secs) \<longleftrightarrow>
          Suc tries \<le> n \<and> n \<le> 10 \<and> outcome n = Connected \<and> (\<forall>i\<in>{Suc tries..<n}. outcome i = Refused) \<and>
          secs = slept + sleep_duration tries + sum sleep_duration {Suc tries..<n}"
        using 1(1) [OF 1(3) Refused] lt Refused by (subst connect_loop.simps) simp
      show ?thesis
      proof (cases "Suc tries \<le> n")
        case True
        then have "{tries..<n} = insert tries {Suc tries..<n}" by auto
        then show ?thesis using IH True Refused by (simp add: add.assoc)
      next
        case False
        then have "tries \<le> n \<longrightarrow> outcome n \<noteq> Connected" using Refused by (metis attempt.distinct(6) not_less_eq_eq le_antisym)
        then show ?thesis using IH False by blast
      qed
    qed
  qed
qed

text \<open>Connecting ends: it succeeds exactly when one of the first ten attempts is answered and those before it are refused,
  having slept the waiting times of the refused ones, 17 seconds at most.\<close>

theorem connect_gives_up:
  "TraCIConnection_connect True (Some a) outcome = Inr (a', n, slept) \<longleftrightarrow>
     a' = a \<and> n \<in> {1..10} \<and> outcome n = Connected \<and> (\<forall>i \<in> {1..<n}. outcome i = Refused) \<and>
     slept = sum sleep_duration {1..<n} \<and> slept \<le> 17"
proof -
  have "sum sleep_duration {1..<n} \<le> sum sleep_duration {1..<10}" if "n \<le> 10"
    using that by (intro sum_mono2) auto
  moreover have "sum sleep_duration {1..<10} = 17"
    by (simp add: sleep_duration_def c_trunc_def eval_nat_numeral floor_eq_iff)
  ultimately show ?thesis
    using connect_loop_spec [of 1 outcome 0 n slept]
    by (auto simp: TraCIConnection_connect_def rbind_Inr_iff)
qed

theorem connect_gives_up_witness:
  "TraCIConnection_connect True (Some 7) (\<lambda>i. if i < 4 then Refused else Connected) = Inr (7 :: nat, 4, 3)"
proof -
  have "sum sleep_duration {1..<4} = 3"
    by (simp add: sleep_duration_def c_trunc_def eval_nat_numeral floor_eq_iff)
  then show ?thesis
    using connect_gives_up [of 7 "\<lambda>i. if i < 4 then Refused else Connected" 7 4 3] by simp
qed

text \<open>C16: A query over the socket, however the kernel cuts the bytes: the peer gets one framed command with the identifier and the
  parameters, the answer's status decides between the result and the error, and the result is the rest of the
  answer. Nothing of the next message is consumed.\<close>

theorem query_over_socket:
  assumes "length (bf_buf buf) + 10 < 2 ^ 32" and "length description < 2 ^ 32"
    and answer: "answer = status_bytes l commandId code description @ payload" "length answer + 4 < 2 ^ 32"
    and events: "Closed \<notin> set (sk_events s)" "Failed \<notin> set (sk_events s)"
      "length (bf_buf buf) + length answer + 14 \<le> length (filter (\<lambda>e. e \<noteq> Retry) (sk_events s))"
    and sk: "sk_in s = frame answer @ rest"
  shows "\<exists>cmd es obuf. parse_command cmd = Some (commandId, bf_buf buf, []) \<and>
     bf_buf obuf = answer \<and> drop (bf_index obuf) answer = payload \<and>
     query host (socket_link host) commandId buf (Some s) =
       (if code = RTYPE_OK
        then Inr (obuf, Some (s\<lparr>sk_out := sk_out s @ frame cmd, sk_in := rest, sk_events := es\<rparr>))
        else if code = RTYPE_NOTIMPLEMENTED then throwr ''TraCI server reported command not implemented''
        else throwr ''TraCI server reported status executing command'')"
proof -
  let ?cmd = "makeTraCICommand host commandId (bf_buf buf)"
  have cmd: "parse_command ?cmd = Some (commandId, bf_buf buf, [])"
    using parse_makeTraCICommand [of "bf_buf buf" host commandId "[]"] assms(1) by simp
  have "length ?cmd \<le> 6 + length (bf_buf buf)" by (simp add: makeTraCICommand_eq)
  then have "enough (4 + length ?cmd + (4 + length answer)) (sk_events s)"
    using events by (simp add: enough_def)
  from sendMessage_enough [OF this] obtain es where
    send: "sendMessage host ?cmd (Some s) = Inr (s\<lparr>sk_out := sk_out s @ frame ?cmd, sk_events := es\<rparr>)"
      "enough (4 + length answer + 0) es" by auto
  let ?s = "s\<lparr>sk_out := sk_out s @ frame ?cmd, sk_events := es\<rparr>"
  obtain es' where receive: "receiveMessage host (Some ?s) = Inr (answer, ?s\<lparr>sk_in := rest, sk_events := es'\<rparr>)"
    using receiveMessage_enough [OF answer(2), of 0 ?s rest host] send(2) sk by auto
  have at: "at_bytes (tbuf_of answer) (status_bytes l commandId code description @ payload)"
    by (simp add: at_bytes_def tbuf_of_def answer(1))
  let ?obuf = "(tbuf_of answer)\<lparr>bf_index := length (status_bytes l commandId code description)\<rparr>"
  have "short description" using assms(2) by (simp add: short_def)
  from readsD [OF query_status_reads [OF this] at, of host]
  have status: "query_status host commandId (tbuf_of answer) =
      Inr (\<lparr>rs_success = (code = RTYPE_OK), rs_not_impl = (code = RTYPE_NOTIMPLEMENTED), rs_message = description\<rparr>, ?obuf)"
    by (simp add: tbuf_of_def)
  have codes: "RTYPE_OK \<noteq> RTYPE_NOTIMPLEMENTED" by (simp add: RTYPE_OK_def RTYPE_NOTIMPLEMENTED_def)
  have "query host (socket_link host) commandId buf (Some s) =
      (if code = RTYPE_OK
       then Inr (?obuf, Some (s\<lparr>sk_out := sk_out s @ frame ?cmd, sk_in := rest, sk_events := es'\<rparr>))
       else if code = RTYPE_NOTIMPLEMENTED then throwr ''TraCI server reported command not implemented''
       else throwr ''TraCI server reported status executing command'')"
    using codes by (simp add: query_def query_result_def socket_link_def send receive status)
  then show ?thesis
    using cmd by (intro exI [of _ ?cmd] exI [of _ es'] exI [of _ ?obuf]) (simp add: tbuf_of_def answer(1))
qed

theorem query_over_socket_witness:
  "\<exists>cmd es obuf. parse_command cmd = Some (0x02, [], []) \<and>
     bf_buf obuf = status_bytes 7 0x02 RTYPE_OK [] @ [42] \<and> drop (bf_index obuf) (bf_buf obuf) = [42] \<and>
     query False (socket_link False) 0x02 tbuf_new
       (Some \<lparr>sk_in = frame (status_bytes 7 0x02 RTYPE_OK [] @ [42]) @ [1], sk_out = [],
              sk_events = Retry # replicate 40 (Moved 1)\<rparr>) =
       Inr (obuf, Some \<lparr>sk_in = [1], sk_out = frame cmd, sk_events = es\<rparr>)"
proof -
  have "length (status_bytes 7 0x02 RTYPE_OK [] @ [42]) = 8" by (simp add: status_bytes_def string_bytes_def)
  then show ?thesis
    using query_over_socket [of tbuf_new "[]" "status_bytes 7 0x02 RTYPE_OK [] @ [42]" 7 "0x02" RTYPE_OK "[42]"
      "\<lparr>sk_in = frame (status_bytes 7 0x02 RTYPE_OK [] @ [42]) @ [1], sk_out = [],
              sk_events = Retry # replicate 40 (Moved 1)\<rparr>" "[1]" False]
    by (auto simp: tbuf_new_def)
qed

end
