(* ===== verification/SV_TraCI_Manager.thy ===== *)
theory SV_TraCI_Manager
  imports SV_TraCI_Link SV_StdMap SV_Geometry SV_Kernel "HOL-Library.List_Lexorder"
begin

text \<open>
  \<open>TraCIScenarioManager\<close> with \<open>VeinsInetManagerBase\<close>: the modules of vehicles are created, moved and removed as the
  TraCI server reports. A managed module is its place in the module vector and its \<open>VeinsInetMobility\<close> submodules
  (\<open>'m\<close>); vehicles of this repository have no \<open>TraCIMobility\<close> submodule, so the loops over those only use the pointer to the
  module. Creation and initialisation of modules by OMNeT++, the link to the server, and the contents of local variables
  that are not initialised are the record \<open>traci_env\<close>. Traffic lights, obstacles and annotations are not configured.
\<close>

section \<open>State\<close>

record vehicle_vars =
  vv_px :: double
  vv_py :: double
  vv_edge :: string
  vv_speed :: double
  vv_angle :: double
  vv_signals :: "32 word"
  vv_length :: double
  vv_height :: double
  vv_width :: double

record ('m, 'c) traci_env =
  en_host :: bool
  en_time :: time_ops
  en_link :: "byte list \<Rightarrow> 'c \<Rightarrow> (byte list \<times> 'c) res"
  en_stack :: vehicle_vars
  en_create :: "string \<Rightarrow> string \<Rightarrow> nat \<Rightarrow> 'm list res"
  en_preInitialize :: "string \<Rightarrow> Coord \<Rightarrow> string \<Rightarrow> double \<Rightarrow> double \<Rightarrow> 'm \<Rightarrow> 'm"
  en_initialize :: "'m list \<Rightarrow> 'm list res"
  en_nextPosition :: "Coord \<Rightarrow> string \<Rightarrow> double \<Rightarrow> double \<Rightarrow> 'm \<Rightarrow> 'm res"

record 'm managed =
  md_type :: string
  md_name :: string
  md_display :: string
  md_index :: nat
  md_mobilities :: "'m list"

record version_config =
  vc_version :: nat
  vc_timeType :: byte
  vc_netBoundaryType :: byte
  vc_timeStepCmd :: byte

record roi =
  roiRoads :: "(string, unit) std_map"
  roiRects :: "(TraCICoord \<times> TraCICoord) list"

record 'm manager =
  mn_updateInterval :: simtime
  autoShutdown :: bool
  penetrationRate :: double
  moduleType :: "(string, string) std_map"
  moduleName :: "(string, string) std_map"
  moduleDisplayString :: "(string, string) std_map"
  mn_roi :: roi
  mn_coordinateTransformation :: "TraCICoordinateTransformation option"
  versionConfig :: version_config
  timeAsDouble :: bool
  nextNodeVectorIndex :: nat
  hosts :: "(string, 'm managed) std_map"
  unEquippedHosts :: "(string, unit) std_map"
  subscribedVehicles :: "(string, unit) std_map"
  activeVehicleCount :: "32 word"
  parkingVehicleCount :: "32 word"
  drivingVehicleCount :: "32 word"
  autoShutdownTriggered :: bool
  traciInitialized :: bool
  areaSum :: double

type_synonym ('m, 'c) mgr_link = "'m manager \<times> 'c"

abbreviation set_mem :: "string \<Rightarrow> (string, unit) std_map \<Rightarrow> bool" where
  "set_mem x S \<equiv> sm_find S x \<noteq> None"

section \<open>Region of interest\<close>

definition onAnyRectangle :: "roi \<Rightarrow> TraCICoord \<Rightarrow> bool" where
  "onAnyRectangle r position \<longleftrightarrow>
     list_ex (\<lambda>rect. (tx position \<ge> tx (fst rect) \<and> ty position \<ge> ty (fst rect)) \<and>
                     (tx position \<le> tx (snd rect) \<and> ty position \<le> ty (snd rect))) (roiRects r)"

definition partOfRoads :: "roi \<Rightarrow> string \<Rightarrow> bool" where
  "partOfRoads r road \<longleftrightarrow> set_mem road (roiRoads r)"

definition hasConstraints :: "roi \<Rightarrow> bool" where
  "hasConstraints r \<longleftrightarrow> roiRoads r \<noteq> [] \<or> roiRects r \<noteq> []"

section \<open>Modules\<close>

definition getManagedModule :: "string \<Rightarrow> 'm manager \<Rightarrow> 'm managed option" where
  "getManagedModule nodeId m = sm_find (hosts m) nodeId"

definition isModuleUnequipped :: "string \<Rightarrow> 'm manager \<Rightarrow> bool" where
  "isModuleUnequipped nodeId m = set_mem nodeId (unEquippedHosts m)"

definition deleteManagedModule :: "string \<Rightarrow> 'm manager \<Rightarrow> 'm manager res" where
  "deleteManagedModule nodeId m =
     (case getManagedModule nodeId m of
        None \<Rightarrow> throwr ''no vehicle with Id found''
      | Some _ \<Rightarrow> Inr (m\<lparr>hosts := sm_erase nodeId (hosts m)\<rparr>))"

definition forget_unequipped :: "string \<Rightarrow> 'm manager \<Rightarrow> 'm manager" where
  "forget_unequipped nodeId m =
     (if set_mem nodeId (unEquippedHosts m) then m\<lparr>unEquippedHosts := sm_erase nodeId (unEquippedHosts m)\<rparr> else m)"

definition preInitializeModule ::
    "('m, 'c) traci_env \<Rightarrow> string \<Rightarrow> Coord \<Rightarrow> string \<Rightarrow> double \<Rightarrow> double \<Rightarrow> 'm list \<Rightarrow> 'm list" where
  "preInitializeModule E nodeId position road_id speed heading mobs =
     map (en_preInitialize E nodeId (mkCoord (cx position) (cy position) 0) road_id speed heading) mobs"

fun update_all :: "('m \<Rightarrow> 'm res) \<Rightarrow> 'm list \<Rightarrow> 'm list res" where
  "update_all f [] = Inr []"
| "update_all f (x # xs) = rbind (f x) (\<lambda>y. rbind (update_all f xs) (\<lambda>ys. Inr (y # ys)))"

definition updateModulePosition ::
    "('m, 'c) traci_env \<Rightarrow> Coord \<Rightarrow> string \<Rightarrow> double \<Rightarrow> double \<Rightarrow> 'm managed \<Rightarrow> 'm managed res" where
  "updateModulePosition E p edge speed heading mod' =
     rbind (update_all (en_nextPosition E (mkCoord (cx p) (cy p) 0) edge speed heading) (md_mobilities mod'))
       (\<lambda>mobs. Inr (mod'\<lparr>md_mobilities := mobs\<rparr>))"

definition equip :: "double \<Rightarrow> nat \<Rightarrow> nat \<Rightarrow> bool" where
  "equip rate hosts_size unequipped_size =
     (let option1 = of_nat hosts_size / (of_nat hosts_size + of_nat unequipped_size + 1.0);
          option2 = of_nat (hosts_size + 1) / (of_nat hosts_size + of_nat unequipped_size + 1.0)
      in \<not> \<bar>option1 - rate\<bar> < \<bar>option2 - rate\<bar>)"

definition addModule ::
    "('m, 'c) traci_env \<Rightarrow> string \<Rightarrow> string \<Rightarrow> string \<Rightarrow> string \<Rightarrow> Coord \<Rightarrow> string \<Rightarrow> double \<Rightarrow> double \<Rightarrow>
      'm manager \<Rightarrow> 'm manager res" where
  "addModule E nodeId type name displayString position road_id speed heading m =
     (if sm_find (hosts m) nodeId \<noteq> None then throwr ''tried adding duplicate module''
      else if \<not> equip (penetrationRate m) (length (hosts m)) (length (unEquippedHosts m))
      then Inr (m\<lparr>unEquippedHosts := sm_insert nodeId () (unEquippedHosts m)\<rparr>)
      else
        (let nodeVectorIndex = nextNodeVectorIndex m;
             m = m\<lparr>nextNodeVectorIndex := nextNodeVectorIndex m + 1\<rparr>
         in rbind (en_create E type name nodeVectorIndex) (\<lambda>mobs.
            rbind (en_initialize E (preInitializeModule E nodeId position road_id speed heading mobs)) (\<lambda>mobs.
            Inr (m\<lparr>hosts := sm_insert nodeId
                   \<lparr>md_type = type, md_name = name, md_display = displayString, md_index = nodeVectorIndex,
                    md_mobilities = mobs\<rparr> (hosts m)\<rparr>)))))"

section \<open>Constants of the protocol\<close>

definition CMD_GETVERSION :: byte where "CMD_GETVERSION = 0x00"
definition CMD_SIMSTEP2 :: byte where "CMD_SIMSTEP2 = 0x02"
definition CMD_GET_VEHICLE_VARIABLE :: byte where "CMD_GET_VEHICLE_VARIABLE = 0xa4"
definition CMD_GET_SIM_VARIABLE :: byte where "CMD_GET_SIM_VARIABLE = 0xab"
definition CMD_SUBSCRIBE_VEHICLE_VARIABLE :: byte where "CMD_SUBSCRIBE_VEHICLE_VARIABLE = 0xd4"
definition CMD_SUBSCRIBE_SIM_VARIABLE :: byte where "CMD_SUBSCRIBE_SIM_VARIABLE = 0xdb"
definition RESPONSE_GET_VEHICLE_VARIABLE :: byte where "RESPONSE_GET_VEHICLE_VARIABLE = 0xb4"
definition RESPONSE_GET_SIM_VARIABLE :: byte where "RESPONSE_GET_SIM_VARIABLE = 0xbb"
definition RESPONSE_SUBSCRIBE_VEHICLE_VARIABLE :: byte where "RESPONSE_SUBSCRIBE_VEHICLE_VARIABLE = 0xe4"
definition RESPONSE_SUBSCRIBE_SIM_VARIABLE :: byte where "RESPONSE_SUBSCRIBE_SIM_VARIABLE = 0xeb"
definition RESPONSE_SUBSCRIBE_TL_VARIABLE :: byte where "RESPONSE_SUBSCRIBE_TL_VARIABLE = 0xe2"
definition TYPE_BOUNDINGBOX :: byte where "TYPE_BOUNDINGBOX = 0x05"
definition TYPE_POLYGON :: byte where "TYPE_POLYGON = 0x06"
definition TYPE_INTEGER :: byte where "TYPE_INTEGER = 0x09"
definition TYPE_DOUBLE :: byte where "TYPE_DOUBLE = 0x0B"
definition TYPE_STRING :: byte where "TYPE_STRING = 0x0C"
definition TYPE_STRINGLIST :: byte where "TYPE_STRINGLIST = 0x0E"
definition ID_LIST :: byte where "ID_LIST = 0x00"
definition VAR_SPEED :: byte where "VAR_SPEED = 0x40"
definition VAR_POSITION :: byte where "VAR_POSITION = 0x42"
definition VAR_ANGLE :: byte where "VAR_ANGLE = 0x43"
definition VAR_LENGTH :: byte where "VAR_LENGTH = 0x44"
definition VAR_WIDTH :: byte where "VAR_WIDTH = 0x4d"
definition VAR_TYPE :: byte where "VAR_TYPE = 0x4f"
definition VAR_ROAD_ID :: byte where "VAR_ROAD_ID = 0x50"
definition VAR_SIGNALS :: byte where "VAR_SIGNALS = 0x5b"
definition VAR_TIME :: byte where "VAR_TIME = 0x66"
definition VAR_PARKING_STARTING_VEHICLES_IDS :: byte where "VAR_PARKING_STARTING_VEHICLES_IDS = 0x6d"
definition VAR_PARKING_ENDING_VEHICLES_IDS :: byte where "VAR_PARKING_ENDING_VEHICLES_IDS = 0x6f"
definition VAR_TIME_STEP :: byte where "VAR_TIME_STEP = 0x70"
definition VAR_DEPARTED_VEHICLES_IDS :: byte where "VAR_DEPARTED_VEHICLES_IDS = 0x74"
definition VAR_TELEPORT_STARTING_VEHICLES_IDS :: byte where "VAR_TELEPORT_STARTING_VEHICLES_IDS = 0x76"
definition VAR_TELEPORT_ENDING_VEHICLES_IDS :: byte where "VAR_TELEPORT_ENDING_VEHICLES_IDS = 0x78"
definition VAR_ARRIVED_VEHICLES_IDS :: byte where "VAR_ARRIVED_VEHICLES_IDS = 0x7a"
definition VAR_NET_BOUNDING_BOX :: byte where "VAR_NET_BOUNDING_BOX = 0x7c"
definition VAR_COLLIDING_VEHICLES_IDS :: byte where "VAR_COLLIDING_VEHICLES_IDS = 0x81"
definition VAR_HEIGHT :: byte where "VAR_HEIGHT = 0xbc"

lemmas traci_constants =
  CMD_GETVERSION_def CMD_SIMSTEP2_def CMD_GET_VEHICLE_VARIABLE_def CMD_GET_SIM_VARIABLE_def
  CMD_SUBSCRIBE_VEHICLE_VARIABLE_def CMD_SUBSCRIBE_SIM_VARIABLE_def RESPONSE_GET_VEHICLE_VARIABLE_def
  RESPONSE_GET_SIM_VARIABLE_def RESPONSE_SUBSCRIBE_VEHICLE_VARIABLE_def RESPONSE_SUBSCRIBE_SIM_VARIABLE_def
  RESPONSE_SUBSCRIBE_TL_VARIABLE_def TYPE_BOUNDINGBOX_def TYPE_POLYGON_def TYPE_INTEGER_def TYPE_DOUBLE_def
  TYPE_STRING_def TYPE_STRINGLIST_def ID_LIST_def VAR_SPEED_def VAR_POSITION_def VAR_ANGLE_def VAR_LENGTH_def
  VAR_WIDTH_def VAR_TYPE_def VAR_ROAD_ID_def VAR_SIGNALS_def VAR_TIME_def
  VAR_PARKING_STARTING_VEHICLES_IDS_def VAR_PARKING_ENDING_VEHICLES_IDS_def VAR_TIME_STEP_def
  VAR_DEPARTED_VEHICLES_IDS_def VAR_TELEPORT_STARTING_VEHICLES_IDS_def VAR_TELEPORT_ENDING_VEHICLES_IDS_def
  VAR_ARRIVED_VEHICLES_IDS_def VAR_NET_BOUNDING_BOX_def VAR_COLLIDING_VEHICLES_IDS_def VAR_HEIGHT_def
  POSITION_2D_def RTYPE_OK_def RTYPE_NOTIMPLEMENTED_def

section \<open>Queries\<close>

text \<open>\<open>buf >> varType; ASSERT(varType == ...)\<close>\<close>

definition expect_type :: "bool \<Rightarrow> byte \<Rightarrow> tbuf \<Rightarrow> tbuf res" where
  "expect_type h expected b =
     rbind (read_word h b) (\<lambda>(varType :: byte, b). rbind (assertr (varType = expected) ''varType'') (\<lambda>_. Inr b))"

definition genericGetString ::
    "('m, 'c) traci_env \<Rightarrow> byte \<Rightarrow> string \<Rightarrow> byte \<Rightarrow> byte \<Rightarrow> 'c \<Rightarrow> (string \<times> 'c) res" where
  "genericGetString E commandId objectId variableId responseId c =
     (let h = en_host E in
      rbind (query h (en_link E) commandId (write_string h objectId (write_word h variableId tbuf_new)) c) (\<lambda>(buf, c).
      rbind (read_word h buf) (\<lambda>(cmdLength :: byte, buf).
      rbind (if cmdLength = 0 then rbind (read_word h buf) (\<lambda>(cmdLengthX :: 32 word, buf). Inr buf) else Inr buf) (\<lambda>buf.
      rbind (read_word h buf) (\<lambda>(commandId_r :: byte, buf).
      rbind (assertr (commandId_r = responseId) ''commandId_r == responseId'') (\<lambda>_.
      rbind (read_word h buf) (\<lambda>(varId :: byte, buf).
      rbind (assertr (varId = variableId) ''varId == variableId'') (\<lambda>_.
      rbind (read_string h buf) (\<lambda>(objectId_r, buf).
      rbind (assertr (objectId_r = objectId) ''objectId_r == objectId'') (\<lambda>_.
      rbind (expect_type h TYPE_STRING buf) (\<lambda>buf.
      rbind (read_string h buf) (\<lambda>(res, buf).
      rbind (assertr (eof buf) ''buf.eof()'') (\<lambda>_. Inr (res, c))))))))))))))"

definition getTypeId :: "('m, 'c) traci_env \<Rightarrow> string \<Rightarrow> 'c \<Rightarrow> (string \<times> 'c) res" where
  "getTypeId E nodeId = genericGetString E CMD_GET_VEHICLE_VARIABLE nodeId VAR_TYPE RESPONSE_GET_VEHICLE_VARIABLE"

text \<open>The parameters of a subscription: begin, end, object, number of variables, variables.\<close>

definition subscription :: "('m, 'c) traci_env \<Rightarrow> 'm manager \<Rightarrow> string \<Rightarrow> byte list \<Rightarrow> tbuf" where
  "subscription E m objectId variables =
     (let h = en_host E; T = en_time E;
          b = write_time T h (timeAsDouble m) (tm_max T) (write_time T h (timeAsDouble m) 0 tbuf_new);
          b = write_word h (word_of_nat (length variables) :: byte) (write_string h objectId b)
      in foldl (\<lambda>b v. write_word h v b) b variables)"

section \<open>Reports about the simulation\<close>

text \<open>\<open>for (i < count) { buf >> idstring; ... }\<close>\<close>

fun for_ids :: "bool \<Rightarrow> (string \<Rightarrow> 's \<Rightarrow> 's res) \<Rightarrow> nat \<Rightarrow> 's \<Rightarrow> tbuf \<Rightarrow> ('s \<times> tbuf) res" where
  "for_ids h f 0 s b = Inr (s, b)"
| "for_ids h f (Suc n) s b =
     rbind (read_string h b) (\<lambda>(idstring, b). rbind (f idstring s) (\<lambda>s. for_ids h f n s b))"

text \<open>A list of vehicles: its type, the number of its elements, the elements; \<open>f\<close> is the body of the loop.\<close>

definition vehicle_list ::
    "bool \<Rightarrow> (string \<Rightarrow> 's \<Rightarrow> 's res) \<Rightarrow> 's \<Rightarrow> tbuf \<Rightarrow> (32 word \<times> 's \<times> tbuf) res" where
  "vehicle_list h f s b =
     rbind (expect_type h TYPE_STRINGLIST b) (\<lambda>b.
     rbind (read_word h b) (\<lambda>(count :: 32 word, b).
     rbind (for_ids h f (unat count) s b) (\<lambda>(s, b). Inr (count, s, b))))"

definition vehicle_arrived :: "string \<Rightarrow> 'm manager \<Rightarrow> 'm manager res" where
  "vehicle_arrived idstring m =
     (let m = (if set_mem idstring (subscribedVehicles m)
               then m\<lparr>subscribedVehicles := sm_erase idstring (subscribedVehicles m)\<rparr> else m)
      in rbind (if getManagedModule idstring m \<noteq> None then deleteManagedModule idstring m else Inr m)
           (\<lambda>m. Inr (forget_unequipped idstring m)))"

definition vehicle_teleports :: "string \<Rightarrow> 'm manager \<Rightarrow> 'm manager res" where
  "vehicle_teleports idstring m =
     rbind (if getManagedModule idstring m \<noteq> None then deleteManagedModule idstring m else Inr m)
       (\<lambda>m. Inr (forget_unequipped idstring m))"

text \<open>The submodules of the managed module are visited without a test of the pointer.\<close>

definition visit_submodules :: "string \<Rightarrow> 'm manager \<Rightarrow> 'm manager res" where
  "visit_submodules idstring m = (case getManagedModule idstring m of None \<Rightarrow> Inl NullPointer | Some _ \<Rightarrow> Inr m)"

definition sim_variable ::
    "('m, 'c) traci_env \<Rightarrow> simtime \<Rightarrow> byte \<Rightarrow> 'm manager \<Rightarrow> tbuf \<Rightarrow> ('m manager \<times> tbuf) res" where
  "sim_variable E now variable1_resp m b =
     (let h = en_host E in
      if variable1_resp = VAR_DEPARTED_VEHICLES_IDS then
        rbind (vehicle_list h (\<lambda>_. Inr) m b) (\<lambda>(count, m, b).
          Inr (m\<lparr>activeVehicleCount := activeVehicleCount m + count,
                 drivingVehicleCount := drivingVehicleCount m + count\<rparr>, b))
      else if variable1_resp = VAR_ARRIVED_VEHICLES_IDS then
        rbind (vehicle_list h vehicle_arrived m b) (\<lambda>(count, m, b).
          let m = (if 0 < count \<and> activeVehicleCount m \<le> count \<and> autoShutdown m
                   then m\<lparr>autoShutdownTriggered := True\<rparr> else m)
          in Inr (m\<lparr>activeVehicleCount := activeVehicleCount m - count,
                    drivingVehicleCount := drivingVehicleCount m - count\<rparr>, b))
      else if variable1_resp = VAR_TELEPORT_STARTING_VEHICLES_IDS then
        rbind (vehicle_list h vehicle_teleports m b) (\<lambda>(count, m, b).
          Inr (m\<lparr>activeVehicleCount := activeVehicleCount m - count,
                 drivingVehicleCount := drivingVehicleCount m - count\<rparr>, b))
      else if variable1_resp = VAR_TELEPORT_ENDING_VEHICLES_IDS then
        rbind (vehicle_list h (\<lambda>_. Inr) m b) (\<lambda>(count, m, b).
          Inr (m\<lparr>activeVehicleCount := activeVehicleCount m + count,
                 drivingVehicleCount := drivingVehicleCount m + count\<rparr>, b))
      else if variable1_resp = VAR_PARKING_STARTING_VEHICLES_IDS then
        rbind (vehicle_list h visit_submodules m b) (\<lambda>(count, m, b).
          Inr (m\<lparr>parkingVehicleCount := parkingVehicleCount m + count,
                 drivingVehicleCount := drivingVehicleCount m - count\<rparr>, b))
      else if variable1_resp = VAR_PARKING_ENDING_VEHICLES_IDS then
        rbind (vehicle_list h visit_submodules m b) (\<lambda>(count, m, b).
          Inr (m\<lparr>parkingVehicleCount := parkingVehicleCount m - count,
                 drivingVehicleCount := drivingVehicleCount m + count\<rparr>, b))
      else if variable1_resp = vc_timeStepCmd (versionConfig m) then
        rbind (expect_type h (vc_timeType (versionConfig m)) b) (\<lambda>b.
        rbind (read_time (en_time E) h (timeAsDouble m) b) (\<lambda>(serverTimestep, b).
        rbind (assertr (now = serverTimestep) ''omnetTimestep == serverTimestep'') (\<lambda>_. Inr (m, b))))
      else if variable1_resp = VAR_COLLIDING_VEHICLES_IDS then
        rbind (vehicle_list h (\<lambda>_. Inr) m b) (\<lambda>(count, m, b). Inr (m, b))
      else throwr ''Received unhandled sim subscription result'')"

fun sim_variables ::
    "('m, 'c) traci_env \<Rightarrow> simtime \<Rightarrow> nat \<Rightarrow> 'm manager \<Rightarrow> tbuf \<Rightarrow> ('m manager \<times> tbuf) res" where
  "sim_variables E now 0 m b = Inr (m, b)"
| "sim_variables E now (Suc n) m b =
     (let h = en_host E in
      rbind (read_word h b) (\<lambda>(variable1_resp :: byte, b).
      rbind (read_word h b) (\<lambda>(isokay :: byte, b).
      if isokay \<noteq> RTYPE_OK then
        rbind (expect_type h TYPE_STRING b) (\<lambda>b.
        rbind (read_string h b) (\<lambda>(description, b).
        if isokay = RTYPE_NOTIMPLEMENTED then throwr ''TraCI server reported subscribing to variable not implemented''
        else throwr ''TraCI server reported error subscribing to variable''))
      else rbind (sim_variable E now variable1_resp m b) (\<lambda>(m, b). sim_variables E now n m b))))"

definition processSimSubscription ::
    "('m, 'c) traci_env \<Rightarrow> simtime \<Rightarrow> 'm manager \<Rightarrow> tbuf \<Rightarrow> ('m manager \<times> tbuf) res" where
  "processSimSubscription E now m b =
     rbind (read_word (en_host E) b) (\<lambda>(variableNumber_resp :: byte, b).
     sim_variables E now (unat variableNumber_resp) m b)"

section \<open>Reports about a vehicle\<close>

text \<open>\<open>std::set_difference\<close> of sorted sets, in their order.\<close>

definition set_difference :: "(string, unit) std_map \<Rightarrow> (string, unit) std_map \<Rightarrow> string list" where
  "set_difference A B = filter (\<lambda>x. \<not> set_mem x B) (map fst A)"

definition unsubscribeFromVehicleVariables ::
    "('m, 'c) traci_env \<Rightarrow> string \<Rightarrow> ('m, 'c) mgr_link \<Rightarrow> ('m, 'c) mgr_link res" where
  "unsubscribeFromVehicleVariables E vehicleId mc =
     (let (m, c) = mc in
      rbind (query (en_host E) (en_link E) CMD_SUBSCRIBE_VEHICLE_VARIABLE (subscription E m vehicleId []) c) (\<lambda>(buf, c).
      rbind (assertr (eof buf) ''buf.eof()'') (\<lambda>_. Inr (m, c))))"

fun subscribe_all ::
    "(string \<Rightarrow> ('m, 'c) mgr_link \<Rightarrow> ('m, 'c) mgr_link res) \<Rightarrow> string list \<Rightarrow> ('m, 'c) mgr_link \<Rightarrow>
      ('m, 'c) mgr_link res" where
  "subscribe_all sub [] mc = Inr mc"
| "subscribe_all sub (v # vs) (m, c) =
     rbind (sub v (m\<lparr>subscribedVehicles := sm_insert v () (subscribedVehicles m)\<rparr>, c)) (subscribe_all sub vs)"

fun unsubscribe_all ::
    "('m, 'c) traci_env \<Rightarrow> string list \<Rightarrow> ('m, 'c) mgr_link \<Rightarrow> ('m, 'c) mgr_link res" where
  "unsubscribe_all E [] mc = Inr mc"
| "unsubscribe_all E (v # vs) (m, c) =
     rbind (unsubscribeFromVehicleVariables E v (m\<lparr>subscribedVehicles := sm_erase v (subscribedVehicles m)\<rparr>, c))
       (unsubscribe_all E vs)"

text \<open>The list of all vehicles; \<open>sub\<close> is \<open>subscribeToVehicleVariables\<close>.\<close>

definition update_subscriptions ::
    "('m, 'c) traci_env \<Rightarrow> (string \<Rightarrow> ('m, 'c) mgr_link \<Rightarrow> ('m, 'c) mgr_link res) \<Rightarrow>
      ('m, 'c) mgr_link \<Rightarrow> tbuf \<Rightarrow> (('m, 'c) mgr_link \<times> tbuf) res" where
  "update_subscriptions E sub mc b =
     (let h = en_host E; (m, c) = mc in
      rbind (expect_type h TYPE_STRINGLIST b) (\<lambda>b.
      rbind (read_word h b) (\<lambda>(count :: 32 word, b).
      rbind (assertr (count = activeVehicleCount m) ''count == activeVehicleCount'') (\<lambda>_.
      rbind (for_ids h (\<lambda>idstring D. Inr (sm_insert idstring () D)) (unat count) [] b) (\<lambda>(drivingVehicles, b).
      rbind (subscribe_all sub (set_difference drivingVehicles (subscribedVehicles m)) (m, c)) (\<lambda>(m, c).
      rbind (unsubscribe_all E (set_difference (subscribedVehicles m) drivingVehicles) (m, c)) (\<lambda>mc.
      Inr (mc, b))))))))"

type_synonym ('m, 'c) vehicle_read = "('m, 'c) mgr_link \<times> vehicle_vars \<times> nat \<times> tbuf"

definition vehicle_variable ::
    "('m, 'c) traci_env \<Rightarrow> (string \<Rightarrow> ('m, 'c) mgr_link \<Rightarrow> ('m, 'c) mgr_link res) \<Rightarrow> byte \<Rightarrow>
      ('m, 'c) vehicle_read \<Rightarrow> ('m, 'c) vehicle_read res" where
  "vehicle_variable E sub variable1_resp st =
     (let h = en_host E; (mc, v, numRead, b) = st;
          dbl = (\<lambda>set. rbind (expect_type h TYPE_DOUBLE b) (\<lambda>b.
                 rbind (read_word h b) (\<lambda>(x :: 64 word, b). Inr (mc, set (double_of_bits x), numRead + 1, b))))
      in if variable1_resp = ID_LIST then
           rbind (update_subscriptions E sub mc b) (\<lambda>(mc, b). Inr (mc, v, numRead, b))
         else if variable1_resp = VAR_POSITION then
           rbind (expect_type h POSITION_2D b) (\<lambda>b.
           rbind (read_word h b) (\<lambda>(px :: 64 word, b).
           rbind (read_word h b) (\<lambda>(py :: 64 word, b).
           Inr (mc, v\<lparr>vv_px := double_of_bits px, vv_py := double_of_bits py\<rparr>, numRead + 1, b))))
         else if variable1_resp = VAR_ROAD_ID then
           rbind (expect_type h TYPE_STRING b) (\<lambda>b.
           rbind (read_string h b) (\<lambda>(edge, b). Inr (mc, v\<lparr>vv_edge := edge\<rparr>, numRead + 1, b)))
         else if variable1_resp = VAR_SPEED then dbl (\<lambda>x. v\<lparr>vv_speed := x\<rparr>)
         else if variable1_resp = VAR_ANGLE then dbl (\<lambda>x. v\<lparr>vv_angle := x\<rparr>)
         else if variable1_resp = VAR_SIGNALS then
           rbind (expect_type h TYPE_INTEGER b) (\<lambda>b.
           rbind (read_word h b) (\<lambda>(signals :: 32 word, b). Inr (mc, v\<lparr>vv_signals := signals\<rparr>, numRead + 1, b)))
         else if variable1_resp = VAR_LENGTH then dbl (\<lambda>x. v\<lparr>vv_length := x\<rparr>)
         else if variable1_resp = VAR_HEIGHT then dbl (\<lambda>x. v\<lparr>vv_height := x\<rparr>)
         else if variable1_resp = VAR_WIDTH then dbl (\<lambda>x. v\<lparr>vv_width := x\<rparr>)
         else throwr ''Received unhandled vehicle subscription result'')"

fun vehicle_variables ::
    "('m, 'c) traci_env \<Rightarrow> (string \<Rightarrow> ('m, 'c) mgr_link \<Rightarrow> ('m, 'c) mgr_link res) \<Rightarrow> bool \<Rightarrow> nat \<Rightarrow>
      ('m, 'c) vehicle_read \<Rightarrow> ('m, 'c) vehicle_read res" where
  "vehicle_variables E sub isSubscribed 0 st = Inr st"
| "vehicle_variables E sub isSubscribed (Suc n) (mc, v, numRead, b) =
     (let h = en_host E in
      rbind (read_word h b) (\<lambda>(variable1_resp :: byte, b).
      rbind (read_word h b) (\<lambda>(isokay :: byte, b).
      if isokay \<noteq> RTYPE_OK then
        rbind (expect_type h TYPE_STRING b) (\<lambda>b.
        rbind (read_string h b) (\<lambda>(errormsg, b).
        if isSubscribed then
          (if isokay = RTYPE_NOTIMPLEMENTED then throwr ''TraCI server reported subscribing to vehicle variable not implemented''
           else throwr ''TraCI server reported error subscribing to vehicle variable'')
        else vehicle_variables E sub isSubscribed n (mc, v, numRead, b)))
      else rbind (vehicle_variable E sub variable1_resp (mc, v, numRead, b))
             (vehicle_variables E sub isSubscribed n))))"

text \<open>The type, then \<open>*\<close>.\<close>

definition lookup_type :: "(string, string) std_map \<Rightarrow> string \<Rightarrow> string option" where
  "lookup_type tm vType = (case sm_find tm vType of None \<Rightarrow> sm_find tm ''*'' | Some t \<Rightarrow> Some t)"

definition orThrow :: "string \<Rightarrow> 'a option \<Rightarrow> 'a res" where
  "orThrow msg x = (case x of None \<Rightarrow> throwr msg | Some y \<Rightarrow> Inr y)"

definition create_vehicle ::
    "('m, 'c) traci_env \<Rightarrow> string \<Rightarrow> Coord \<Rightarrow> double \<Rightarrow> vehicle_vars \<Rightarrow> ('m, 'c) mgr_link \<Rightarrow> ('m, 'c) mgr_link res" where
  "create_vehicle E objectId p heading v mc =
     (let (m, c) = mc in
      rbind (getTypeId E objectId c) (\<lambda>(vType, c).
      rbind (orThrow ''cannot find a module type for vehicle type'' (lookup_type (moduleType m) vType)) (\<lambda>mType.
      rbind (orThrow ''cannot find a module name for vehicle type'' (lookup_type (moduleName m) vType)) (\<lambda>mName.
      rbind (if moduleDisplayString m \<noteq> []
             then orThrow ''cannot find a module display string for vehicle type'' (lookup_type (moduleDisplayString m) vType)
             else Inr []) (\<lambda>mDisplayString.
      if mType \<noteq> ''0'' then
        rbind (addModule E objectId mType mName mDisplayString p (vv_edge v) (vv_speed v) heading m) (\<lambda>m. Inr (m, c))
      else Inr (m, c))))))"

text \<open>What happens once all attributes were read.\<close>

definition apply_update ::
    "('m, 'c) traci_env \<Rightarrow> string \<Rightarrow> vehicle_vars \<Rightarrow> ('m, 'c) mgr_link \<Rightarrow> ('m, 'c) mgr_link res" where
  "apply_update E objectId v mc =
     (let (m, c) = mc in
      case mn_coordinateTransformation m of
        None \<Rightarrow> Inl (AssertFailed ''coordinateTransformation.get()'')
      | Some T \<Rightarrow>
          (let p = traci2omnet T (mkTraCI (vv_px v) (vv_py v)) in
           if cx p < 0 \<or> cy p < 0 then throwr ''received bad node position''
           else
             (let heading = traci2omnetHeading (vv_angle v);
                  mod' = getManagedModule objectId m;
                  inRoi = (if \<not> hasConstraints (mn_roi m) then True
                           else onAnyRectangle (mn_roi m) (mkTraCI (vv_px v) (vv_py v)) \<or> partOfRoads (mn_roi m) (vv_edge v))
              in if \<not> inRoi then
                   (if mod' \<noteq> None then rbind (deleteManagedModule objectId m) (\<lambda>m. Inr (m, c))
                    else Inr (forget_unequipped objectId m, c))
                 else if isModuleUnequipped objectId m then Inr (m, c)
                 else case mod' of
                        None \<Rightarrow> create_vehicle E objectId p heading v (m, c)
                      | Some md \<Rightarrow>
                          rbind (updateModulePosition E p (vv_edge v) (vv_speed v) heading md) (\<lambda>md.
                          Inr (m\<lparr>hosts := sm_insert objectId md (sm_erase objectId (hosts m))\<rparr>, c)))))"

definition processVehicleSubscription ::
    "('m, 'c) traci_env \<Rightarrow> (string \<Rightarrow> ('m, 'c) mgr_link \<Rightarrow> ('m, 'c) mgr_link res) \<Rightarrow> string \<Rightarrow>
      ('m, 'c) mgr_link \<Rightarrow> tbuf \<Rightarrow> (('m, 'c) mgr_link \<times> tbuf) res" where
  "processVehicleSubscription E sub objectId mc b =
     (let isSubscribed = set_mem objectId (subscribedVehicles (fst mc)) in
      rbind (read_word (en_host E) b) (\<lambda>(variableNumber_resp :: byte, b).
      rbind (vehicle_variables E sub isSubscribed (unat variableNumber_resp) (mc, en_stack E, 0, b)) (\<lambda>(mc, v, numRead, b).
      if \<not> isSubscribed then Inr (mc, b)
      else if numRead \<noteq> 8 then Inr (mc, b)
      else rbind (apply_update E objectId v mc) (\<lambda>mc. Inr (mc, b)))))"

definition processSubcriptionResult ::
    "('m, 'c) traci_env \<Rightarrow> simtime \<Rightarrow> (string \<Rightarrow> ('m, 'c) mgr_link \<Rightarrow> ('m, 'c) mgr_link res) \<Rightarrow>
      ('m, 'c) mgr_link \<Rightarrow> tbuf \<Rightarrow> (('m, 'c) mgr_link \<times> tbuf) res" where
  "processSubcriptionResult E now sub mc b =
     (let h = en_host E; (m, c) = mc in
      rbind (read_word h b) (\<lambda>(cmdLength_resp :: byte, b).
      rbind (read_word h b) (\<lambda>(cmdLengthExt_resp :: 32 word, b).
      rbind (read_word h b) (\<lambda>(commandId_resp :: byte, b).
      rbind (read_string h b) (\<lambda>(objectId_resp, b).
      if commandId_resp = RESPONSE_SUBSCRIBE_VEHICLE_VARIABLE then processVehicleSubscription E sub objectId_resp (m, c) b
      else if commandId_resp = RESPONSE_SUBSCRIBE_SIM_VARIABLE then
        rbind (processSimSubscription E now m b) (\<lambda>(m, b). Inr ((m, c), b))
      else if commandId_resp = RESPONSE_SUBSCRIBE_TL_VARIABLE then Inl NullPointer
      else throwr ''Received unhandled subscription result'')))))"

definition vehicle_variables_wanted :: "byte list" where
  "vehicle_variables_wanted =
     [VAR_POSITION, VAR_ROAD_ID, VAR_SPEED, VAR_ANGLE, VAR_SIGNALS, VAR_LENGTH, VAR_HEIGHT, VAR_WIDTH]"

text \<open>
  Subscribing processes an answer, which may list further vehicles to subscribe to. The first argument bounds the
  depth of this recursion.
\<close>

fun subscribeToVehicleVariables ::
    "nat \<Rightarrow> ('m, 'c) traci_env \<Rightarrow> simtime \<Rightarrow> string \<Rightarrow> ('m, 'c) mgr_link \<Rightarrow> ('m, 'c) mgr_link res" where
  "subscribeToVehicleVariables 0 E now vehicleId mc = Inl NoReturn"
| "subscribeToVehicleVariables (Suc n) E now vehicleId (m, c) =
     rbind (query (en_host E) (en_link E) CMD_SUBSCRIBE_VEHICLE_VARIABLE
              (subscription E m vehicleId vehicle_variables_wanted) c) (\<lambda>(buf, c).
     rbind (processSubcriptionResult E now (subscribeToVehicleVariables n E now) (m, c) buf) (\<lambda>(mc, buf).
     rbind (assertr (eof buf) ''buf.eof()'') (\<lambda>_. Inr mc)))"

section \<open>Steps of the simulation\<close>

fun process_results ::
    "nat \<Rightarrow> ('m, 'c) traci_env \<Rightarrow> simtime \<Rightarrow> nat \<Rightarrow> ('m, 'c) mgr_link \<Rightarrow> tbuf \<Rightarrow> (('m, 'c) mgr_link \<times> tbuf) res" where
  "process_results depth E now 0 mc b = Inr (mc, b)"
| "process_results depth E now (Suc n) mc b =
     rbind (processSubcriptionResult E now (subscribeToVehicleVariables depth E now) mc b) (\<lambda>(mc, b).
     process_results depth E now n mc b)"

text \<open>\<open>isConnected\<close> tells whether there is a connection, \<open>timer\<close> is \<open>executeOneTimestepTrigger\<close>.\<close>

definition executeOneTimestep ::
    "'k kernel_ops \<Rightarrow> nat \<Rightarrow> ('m, 'c) traci_env \<Rightarrow> bool \<Rightarrow> nat \<Rightarrow> ('m, 'c) mgr_link \<times> 'k \<Rightarrow> (('m, 'c) mgr_link \<times> 'k) res" where
  "executeOneTimestep K depth E isConnected timer st =
     (let ((m, c), k) = st; h = en_host E; targetTime = simTime K k in
      rbind (if isConnected then
               rbind (query h (en_link E) CMD_SIMSTEP2 (write_time (en_time E) h (timeAsDouble m) targetTime tbuf_new) c) (\<lambda>(buf, c).
               rbind (read_word h buf) (\<lambda>(count :: 32 word, buf).
               rbind (process_results depth E targetTime (unat count) (m, c) buf) (\<lambda>(mc, buf). Inr mc)))
             else Inr (m, c)) (\<lambda>(m, c).
      if \<not> autoShutdownTriggered m
      then rbind (scheduleAt K (simTime K k + mn_updateInterval m) timer k) (\<lambda>k. Inr ((m, c), k))
      else Inr ((m, c), k)))"

section \<open>Starting\<close>

definition getVersion :: "('m, 'c) traci_env \<Rightarrow> 'c \<Rightarrow> ((nat \<times> string) \<times> 'c) res" where
  "getVersion E c =
     (let h = en_host E in
      rbind (query_result h (en_link E) CMD_GETVERSION tbuf_new c) (\<lambda>(result, buf, c).
      if \<not> rs_success result then rbind (assertr (eof buf) ''buf.eof()'') (\<lambda>_. Inr ((0, ''(unknown)''), c))
      else
        rbind (read_word h buf) (\<lambda>(cmdLength :: byte, buf).
        rbind (read_word h buf) (\<lambda>(commandResp :: byte, buf).
        rbind (assertr (commandResp = CMD_GETVERSION) ''commandResp == CMD_GETVERSION'') (\<lambda>_.
        rbind (read_word h buf) (\<lambda>(apiVersion :: 32 word, buf).
        rbind (read_string h buf) (\<lambda>(serverVersion, buf).
        rbind (assertr (eof buf) ''buf.eof()'') (\<lambda>_. Inr ((unat apiVersion, serverVersion), c)))))))))"

definition versionConfigs :: "nat \<Rightarrow> version_config option" where
  "versionConfigs v =
     (if v \<in> {18, 19, 20}
      then Some \<lparr>vc_version = v, vc_timeType = TYPE_DOUBLE, vc_netBoundaryType = TYPE_POLYGON, vc_timeStepCmd = VAR_TIME\<rparr>
      else if v \<in> {15, 16, 17}
      then Some \<lparr>vc_version = v, vc_timeType = TYPE_INTEGER, vc_netBoundaryType = TYPE_BOUNDINGBOX,
                 vc_timeStepCmd = VAR_TIME_STEP\<rparr>
      else None)"

definition setTimeType :: "byte \<Rightarrow> bool res" where
  "setTimeType val =
     (if val \<noteq> TYPE_INTEGER \<and> val \<noteq> TYPE_DOUBLE then throwr ''Invalid time data type'' else Inr (val = TYPE_DOUBLE))"

definition setApiVersion :: "nat \<Rightarrow> 'm manager \<Rightarrow> 'm manager res" where
  "setApiVersion apiVersion m =
     rbind (orThrow ''TraCI server reports unsupported TraCI API version'' (versionConfigs apiVersion)) (\<lambda>vc.
     rbind (setTimeType (vc_timeType vc)) (\<lambda>d. Inr (m\<lparr>versionConfig := vc, timeAsDouble := d\<rparr>)))"

definition initNetworkBoundaries ::
    "('m, 'c) traci_env \<Rightarrow> int \<Rightarrow> ('m, 'c) mgr_link \<Rightarrow> ('m, 'c) mgr_link res" where
  "initNetworkBoundaries E mrg mc =
     (let h = en_host E; (m, c) = mc; bt = vc_netBoundaryType (versionConfig m) in
      rbind (query h (en_link E) CMD_GET_SIM_VARIABLE
               (write_string h ''sim0'' (write_word h VAR_NET_BOUNDING_BOX tbuf_new)) c) (\<lambda>(buf, c).
      rbind (read_word h buf) (\<lambda>(cmdLength_resp :: byte, buf).
      rbind (read_word h buf) (\<lambda>(commandId_resp :: byte, buf).
      rbind (assertr (commandId_resp = RESPONSE_GET_SIM_VARIABLE) ''commandId_resp == RESPONSE_GET_SIM_VARIABLE'') (\<lambda>_.
      rbind (read_word h buf) (\<lambda>(variableId_resp :: byte, buf).
      rbind (assertr (variableId_resp = VAR_NET_BOUNDING_BOX) ''variableId_resp == VAR_NET_BOUNDING_BOX'') (\<lambda>_.
      rbind (read_string h buf) (\<lambda>(simId, buf).
      rbind (expect_type h bt buf) (\<lambda>buf.
      rbind (if bt = TYPE_POLYGON
             then rbind (read_word h buf) (\<lambda>(npoints :: byte, buf). rbind (assertr (npoints = 2) ''npoints == 2'') (\<lambda>_. Inr buf))
             else Inr buf) (\<lambda>buf.
      rbind (read_word h buf) (\<lambda>(x1 :: 64 word, buf).
      rbind (read_word h buf) (\<lambda>(y1 :: 64 word, buf).
      rbind (read_word h buf) (\<lambda>(x2 :: 64 word, buf).
      rbind (read_word h buf) (\<lambda>(y2 :: 64 word, buf).
      rbind (assertr (eof buf) ''buf.eof()'') (\<lambda>_.
      Inr (m\<lparr>mn_coordinateTransformation := Some (mkTransformation (mkTraCI (double_of_bits x1) (double_of_bits y1))
             (mkTraCI (double_of_bits x2) (double_of_bits y2)) (of_int mrg))\<rparr>, c))))))))))))))))"

definition sim_variables_wanted :: "'m manager \<Rightarrow> byte list" where
  "sim_variables_wanted m =
     [VAR_DEPARTED_VEHICLES_IDS, VAR_ARRIVED_VEHICLES_IDS, vc_timeStepCmd (versionConfig m)] @
     (if 18 \<le> vc_version (versionConfig m) then [VAR_COLLIDING_VEHICLES_IDS] else []) @
     [VAR_TELEPORT_STARTING_VEHICLES_IDS, VAR_TELEPORT_ENDING_VEHICLES_IDS,
      VAR_PARKING_STARTING_VEHICLES_IDS, VAR_PARKING_ENDING_VEHICLES_IDS]"

text \<open>A subscription whose first answer is processed at once.\<close>

definition subscribe_and_process ::
    "nat \<Rightarrow> ('m, 'c) traci_env \<Rightarrow> simtime \<Rightarrow> byte \<Rightarrow> byte list \<Rightarrow> ('m, 'c) mgr_link \<Rightarrow> ('m, 'c) mgr_link res" where
  "subscribe_and_process depth E now command variables mc =
     (let (m, c) = mc in
      rbind (query (en_host E) (en_link E) command (subscription E m [] variables) c) (\<lambda>(buf, c).
      rbind (processSubcriptionResult E now (subscribeToVehicleVariables depth E now) (m, c) buf) (\<lambda>(mc, buf).
      rbind (assertr (eof buf) ''buf.eof()'') (\<lambda>_. Inr mc))))"

definition roi_area :: "TraCICoordinateTransformation \<Rightarrow> roi \<Rightarrow> double \<Rightarrow> double" where
  "roi_area T r area0 =
     foldl (\<lambda>area (first, second).
       let a = traci2omnet T first; b = traci2omnet T (mkTraCI (tx first) (ty second));
           d = traci2omnet T (mkTraCI (tx second) (ty first))
       in area + Coord_distance a b * Coord_distance a d) area0 (roiRects r)"

definition init_traci ::
    "nat \<Rightarrow> ('m, 'c) traci_env \<Rightarrow> simtime \<Rightarrow> int \<Rightarrow> ('m, 'c) mgr_link \<Rightarrow> ('m, 'c) mgr_link res" where
  "init_traci depth E now mrg mc =
     (let (m, c) = mc in
      rbind (getVersion E c) (\<lambda>((apiVersion, _), c).
      rbind (setApiVersion apiVersion m) (\<lambda>m.
      rbind (initNetworkBoundaries E mrg (m, c)) (\<lambda>(m, c).
      rbind (subscribe_and_process depth E now CMD_SUBSCRIBE_SIM_VARIABLE (sim_variables_wanted m) (m, c)) (\<lambda>mc.
      rbind (subscribe_and_process depth E now CMD_SUBSCRIBE_VEHICLE_VARIABLE [ID_LIST] mc) (\<lambda>(m, c).
      let m = m\<lparr>traciInitialized := True\<rparr>
      in if roiRects (mn_roi m) = [] then Inr (m, c)
         else case mn_coordinateTransformation m of
                None \<Rightarrow> Inl (AssertFailed ''coordinateTransformation.get()'')
              | Some T \<Rightarrow> Inr (m\<lparr>areaSum := roi_area T (mn_roi m) (areaSum m)\<rparr>, c)))))))"

text \<open>The members \<open>initialize\<close> sets in stage 1, after the parameters were read.\<close>

definition reset_manager :: "'m manager \<Rightarrow> 'm manager" where
  "reset_manager m =
     m\<lparr>areaSum := 0, nextNodeVectorIndex := 0, hosts := [], subscribedVehicles := [], activeVehicleCount := 0,
       parkingVehicleCount := 0, drivingVehicleCount := 0, autoShutdownTriggered := False\<rparr>"

fun finish_all :: "nat \<Rightarrow> 'm manager \<Rightarrow> 'm manager res" where
  "finish_all 0 m = (if hosts m = [] then Inr m else Inl NoReturn)"
| "finish_all (Suc n) m =
     (case hosts m of [] \<Rightarrow> Inr m | (nodeId, _) # _ \<Rightarrow> rbind (deleteManagedModule nodeId m) (finish_all n))"

definition preNetworkFinish :: "'m manager \<Rightarrow> 'm manager res" where
  "preNetworkFinish m = finish_all (length (hosts m)) m"

end
