(* ===== verification/SV_TraCI_Inv.thy ===== *)
theory SV_TraCI_Inv
  imports SV_TraCI_Manager
begin

text \<open>
  Invariants of the scenario manager. The contract \<open>manager_contract\<close> lists what a property of the managed
  modules has to survive: creation, removal and movement of one module. Whatever the server reports then keeps the
  property, which is proved once for every handler; the invariant of the reachable managers is an interpretation.
\<close>

lemma for_ids_invariant:
  assumes "for_ids h f n s b = Inr (s', b')" and "Q s" and "\<And>i s s'. Q s \<Longrightarrow> f i s = Inr s' \<Longrightarrow> Q s'"
  shows "Q s'"
  using assms by (induction h f n s b rule: for_ids.induct) auto

lemma vehicle_list_invariant:
  assumes "vehicle_list h f s b = Inr (count, s', b')" and "Q s" and "\<And>i s s'. Q s \<Longrightarrow> f i s = Inr s' \<Longrightarrow> Q s'"
  shows "Q s'"
  using assms(1) for_ids_invariant [where Q = Q, OF _ assms(2,3)] by (auto simp: vehicle_list_def)

text \<open>What an invariant of the modules may depend on.\<close>

definition core :: "'m manager \<Rightarrow> (string, 'm managed) std_map \<times> (string, unit) std_map \<times> nat" where
  "core m = (hosts m, unEquippedHosts m, nextNodeVectorIndex m)"

lemma core_simps [simp]:
  "core (m\<lparr>activeVehicleCount := a\<rparr>) = core m" "core (m\<lparr>drivingVehicleCount := a\<rparr>) = core m"
  "core (m\<lparr>parkingVehicleCount := a\<rparr>) = core m" "core (m\<lparr>subscribedVehicles := S\<rparr>) = core m"
  "core (m\<lparr>autoShutdownTriggered := x\<rparr>) = core m" "core (m\<lparr>traciInitialized := x\<rparr>) = core m"
  "core (m\<lparr>areaSum := r\<rparr>) = core m" "core (m\<lparr>versionConfig := vc\<rparr>) = core m"
  "core (m\<lparr>timeAsDouble := x\<rparr>) = core m" "core (m\<lparr>mn_coordinateTransformation := T\<rparr>) = core m"
  by (simp_all add: core_def)

locale manager_contract =
  fixes E :: "('m, 'c) traci_env" and P :: "'m manager \<Rightarrow> bool"
  assumes modules_only: "P m \<Longrightarrow> core m' = core m \<Longrightarrow> P m'"
    and delete: "P m \<Longrightarrow> deleteManagedModule i m = Inr m' \<Longrightarrow> P m'"
    and forget: "P m \<Longrightarrow> P (forget_unequipped i m)"
    and add: "P m \<Longrightarrow> getManagedModule i m = None \<Longrightarrow> \<not> isModuleUnequipped i m \<Longrightarrow>
          addModule E i typ nm ds p ed sp hd' m = Inr m' \<Longrightarrow> P m'"
    and move: "P m \<Longrightarrow> getManagedModule i m = Some md \<Longrightarrow> updateModulePosition E p ed sp hd' md = Inr md' \<Longrightarrow>
          P (m\<lparr>hosts := sm_insert i md' (sm_erase i (hosts m))\<rparr>)"
begin

lemma P_simps [simp]:
  "P m \<Longrightarrow> P (m\<lparr>activeVehicleCount := a\<rparr>)" "P m \<Longrightarrow> P (m\<lparr>drivingVehicleCount := a\<rparr>)"
  "P m \<Longrightarrow> P (m\<lparr>parkingVehicleCount := a\<rparr>)" "P m \<Longrightarrow> P (m\<lparr>subscribedVehicles := S\<rparr>)"
  "P m \<Longrightarrow> P (m\<lparr>autoShutdownTriggered := x\<rparr>)" "P m \<Longrightarrow> P (m\<lparr>traciInitialized := x\<rparr>)"
  "P m \<Longrightarrow> P (m\<lparr>areaSum := r\<rparr>)" "P m \<Longrightarrow> P (m\<lparr>versionConfig := vc\<rparr>)"
  "P m \<Longrightarrow> P (m\<lparr>timeAsDouble := x\<rparr>)" "P m \<Longrightarrow> P (m\<lparr>mn_coordinateTransformation := T\<rparr>)"
  by (erule modules_only, simp)+

lemma teleports: "P m \<Longrightarrow> vehicle_teleports i m = Inr m' \<Longrightarrow> P m'"
  by (auto simp: vehicle_teleports_def intro: forget delete split: if_splits)

lemma arrived: "P m \<Longrightarrow> vehicle_arrived i m = Inr m' \<Longrightarrow> P m'"
  using teleports [of "m\<lparr>subscribedVehicles := sm_erase i (subscribedVehicles m)\<rparr>" i m'] teleports [of m i m']
  by (auto simp: vehicle_arrived_def vehicle_teleports_def Let_def split: if_splits)

lemma visit: "P m \<Longrightarrow> visit_submodules i m = Inr m' \<Longrightarrow> P m'"
  by (auto simp: visit_submodules_def split: option.splits)

lemma lists:
  "vehicle_list h (\<lambda>_. Inr) m b = Inr (count, m', b') \<Longrightarrow> P m \<Longrightarrow> P m'"
  "vehicle_list h vehicle_arrived m b = Inr (count, m', b') \<Longrightarrow> P m \<Longrightarrow> P m'"
  "vehicle_list h vehicle_teleports m b = Inr (count, m', b') \<Longrightarrow> P m \<Longrightarrow> P m'"
  "vehicle_list h visit_submodules m b = Inr (count, m', b') \<Longrightarrow> P m \<Longrightarrow> P m'"
  by (erule vehicle_list_invariant; auto intro: arrived teleports visit)+

lemma sim_variable: "P m \<Longrightarrow> sim_variable E now v m b = Inr (m', b') \<Longrightarrow> P m'"
  by (auto simp: sim_variable_def Let_def split: if_splits dest: lists)

lemma sim_variables: "P m \<Longrightarrow> sim_variables E now n m b = Inr (m', b') \<Longrightarrow> P m'"
  by (induction n arbitrary: m b) (auto simp: Let_def split: if_splits dest!: sim_variable [rotated])

lemma sim_subscription: "P m \<Longrightarrow> processSimSubscription E now m b = Inr (m', b') \<Longrightarrow> P m'"
  by (auto simp: processSimSubscription_def intro: sim_variables)

text \<open>A function for subscribing that keeps the property.\<close>

definition sub_ok :: "(string \<Rightarrow> ('m, 'c) mgr_link \<Rightarrow> ('m, 'c) mgr_link res) \<Rightarrow> bool" where
  "sub_ok sub \<longleftrightarrow> (\<forall>v mc mc'. P (fst mc) \<longrightarrow> sub v mc = Inr mc' \<longrightarrow> P (fst mc'))"

lemma sub_okD: "sub_ok sub \<Longrightarrow> sub v mc = Inr mc' \<Longrightarrow> P (fst mc) \<Longrightarrow> P (fst mc')"
  unfolding sub_ok_def by blast

lemma subscribe_all:
  "sub_ok sub \<Longrightarrow> P (fst mc) \<Longrightarrow> subscribe_all sub vs mc = Inr mc' \<Longrightarrow> P (fst mc')"
proof (induction vs arbitrary: mc)
  case (Cons v vs)
  obtain m c where mc: "mc = (m, c)" by (cases mc)
  from Cons.prems(3) mc obtain mc1 where
    1: "sub v (m\<lparr>subscribedVehicles := sm_insert v () (subscribedVehicles m)\<rparr>, c) = Inr mc1"
      "subscribe_all sub vs mc1 = Inr mc'" by auto
  then show ?case using Cons.IH [OF Cons.prems(1) _ 1(2)] sub_okD [OF Cons.prems(1) 1(1)] Cons.prems(2) mc by simp
qed simp

lemma unsubscribe_all: "P (fst mc) \<Longrightarrow> unsubscribe_all E vs mc = Inr mc' \<Longrightarrow> P (fst mc')"
proof (induction vs arbitrary: mc)
  case (Cons v vs)
  obtain m c where mc: "mc = (m, c)" by (cases mc)
  from Cons.prems(2) mc obtain c' where
    "unsubscribe_all E vs (m\<lparr>subscribedVehicles := sm_erase v (subscribedVehicles m)\<rparr>, c') = Inr mc'"
    by (auto simp: unsubscribeFromVehicleVariables_def Let_def)
  then show ?case by (rule Cons.IH [rotated]) (use Cons.prems(1) mc in simp)
qed simp

lemma update_subscriptions:
  "sub_ok sub \<Longrightarrow> P (fst mc) \<Longrightarrow> update_subscriptions E sub mc b = Inr (mc', b') \<Longrightarrow> P (fst mc')"
  by (auto simp: update_subscriptions_def Let_def split: prod.splits
      dest!: subscribe_all [where mc = "(_, _)", rotated 2] unsubscribe_all [where mc = "(_, _)", rotated 1])

lemma vehicle_variable:
  "sub_ok sub \<Longrightarrow> vehicle_variable E sub var (mc, v, n, b) = Inr (mc', v', n', b') \<Longrightarrow> P (fst mc) \<Longrightarrow> P (fst mc')"
  by (auto simp: vehicle_variable_def Let_def split: if_splits dest!: update_subscriptions [rotated 2])

lemma vehicle_variables:
  "sub_ok sub \<Longrightarrow> vehicle_variables E sub is n (mc, v, k, b) = Inr (mc', v', k', b') \<Longrightarrow> P (fst mc) \<Longrightarrow> P (fst mc')"
  by (induction n arbitrary: mc v k b)
    (auto simp: Let_def split: if_splits dest!: vehicle_variable [rotated])

lemma create_vehicle:
  assumes "create_vehicle E i p hd' v (m, c) = Inr mc'" and "P m"
    and "getManagedModule i m = None" "\<not> isModuleUnequipped i m"
  shows "P (fst mc')"
  using assms add by (auto simp: create_vehicle_def Let_def split: if_splits)

lemma apply_update: "apply_update E i v (m, c) = Inr mc' \<Longrightarrow> P m \<Longrightarrow> P (fst mc')"
  by (auto simp: apply_update_def Let_def forget split: if_splits option.splits intro: delete move
      dest: create_vehicle)

lemma vehicle_subscription:
  assumes "processVehicleSubscription E sub i (m, c) b = Inr (mc', b')" and "sub_ok sub" and "P m"
  shows "P (fst mc')"
  using assms(1,3) by (auto simp: processVehicleSubscription_def Let_def split: if_splits
      dest!: vehicle_variables [OF assms(2)] dest: apply_update)

lemma subscription_result:
  assumes "sub_ok sub" and "P (fst mc)" and "processSubcriptionResult E now sub mc b = Inr (mc', b')"
  shows "P (fst mc')"
proof (cases mc)
  case (Pair m c)
  from assms(3) Pair consider i b1 where "processVehicleSubscription E sub i (m, c) b1 = Inr (mc', b')"
    | m' b1 where "processSimSubscription E now m b1 = Inr (m', b')" "mc' = (m', c)"
    by (auto simp: processSubcriptionResult_def Let_def split: if_splits)
  then show ?thesis
    using assms(1,2) Pair by cases (auto intro: vehicle_subscription sim_subscription)
qed

lemma subscribe_ok: "sub_ok (subscribeToVehicleVariables depth E now)"
proof (induction depth)
  case 0
  show ?case by (simp add: sub_ok_def)
next
  case (Suc n)
  then show ?case
    unfolding sub_ok_def by (auto dest!: subscription_result [OF Suc, rotated])
qed

lemma process_results:
  "P (fst mc) \<Longrightarrow> process_results depth E now n mc b = Inr (mc', b') \<Longrightarrow> P (fst mc')"
  by (induction n arbitrary: mc b) (auto dest!: subscription_result [OF subscribe_ok, rotated])

lemma one_timestep:
  assumes "executeOneTimestep K depth E isConnected timer (mc, k) = Inr (mc', k')" and "P (fst mc)"
  shows "P (fst mc')"
  using assms by (auto simp: executeOneTimestep_def Let_def split: if_splits prod.splits dest!: process_results [rotated])

lemma subscribe_and_process:
  "P (fst mc) \<Longrightarrow> subscribe_and_process depth E now cmd vars mc = Inr mc' \<Longrightarrow> P (fst mc')"
  by (auto simp: subscribe_and_process_def Let_def split: prod.splits dest!: subscription_result [OF subscribe_ok, rotated])

lemma init_traci:
  assumes "init_traci depth E now mrg mc = Inr mc'" and "P (fst mc)"
  shows "P (fst mc')"
  using assms
  by (auto simp: init_traci_def initNetworkBoundaries_def setApiVersion_def Let_def split: if_splits prod.splits option.splits
      dest!: subscribe_and_process [rotated])

lemma finish: "preNetworkFinish m = Inr m' \<Longrightarrow> P m \<Longrightarrow> P m'"
proof -
  have "finish_all n m = Inr m' \<Longrightarrow> P m \<Longrightarrow> P m'" for n m
    by (induction n arbitrary: m) (auto split: if_splits list.splits dest: delete)
  then show "preNetworkFinish m = Inr m' \<Longrightarrow> P m \<Longrightarrow> P m'" by (simp add: preNetworkFinish_def)
qed

end

section \<open>The invariant of the manager\<close>

text \<open>
  Vehicles with and without a module are apart, every module has a place of its own, and places to come are unused.
\<close>

definition places_ok ::
    "(string \<Rightarrow> 'm managed option) \<Rightarrow> (string \<Rightarrow> unit option) \<Rightarrow> nat \<Rightarrow> bool" where
  "places_ok h u n \<longleftrightarrow> dom h \<inter> dom u = {} \<and> (\<forall>i md. h i = Some md \<longrightarrow> md_index md < n) \<and>
     (\<forall>i j md md'. h i = Some md \<longrightarrow> h j = Some md' \<longrightarrow> md_index md = md_index md' \<longrightarrow> i = j)"

definition manager_ok :: "'m manager \<Rightarrow> bool" where
  "manager_ok m \<longleftrightarrow> sm_inv (hosts m) \<and> sm_inv (unEquippedHosts m) \<and>
     places_ok (sm_find (hosts m)) (sm_find (unEquippedHosts m)) (nextNodeVectorIndex m)"

lemma places_add:
  assumes "places_ok h u n" and "u i = None" and "md_index md = n"
  shows "places_ok (h(i \<mapsto> md)) u (Suc n)"
proof -
  have less: "md_index md' < n" if "h j = Some md'" for j md' using assms(1) that by (auto simp: places_ok_def)
  have "i' = j" if "h i' = Some a" "h j = Some b" "md_index a = md_index b" for i' j a b
    using assms(1) that unfolding places_ok_def by blast
  then show ?thesis
    using assms less unfolding places_ok_def by (auto simp: less_Suc_eq split: if_splits dest!: less)
qed

lemma places_move:
  assumes "places_ok h u n" and "h i = Some md" and "md_index md' = md_index md"
  shows "places_ok (h(i \<mapsto> md')) u n"
proof -
  have "dom (h(i \<mapsto> md')) = dom h" using assms(2) by auto
  moreover have "\<exists>b. h j = Some b \<and> md_index b = md_index a" if "(h(i \<mapsto> md')) j = Some a" for j a
    using that assms(2,3) by (auto split: if_splits)
  ultimately show ?thesis using assms(1) unfolding places_ok_def by metis
qed

lemma places_remove: "places_ok h u n \<Longrightarrow> places_ok (h(i := None)) u n" "places_ok h u n \<Longrightarrow> places_ok h (u(i := None)) n"
  unfolding places_ok_def by (auto split: if_splits)

lemma places_unequip: "places_ok h u n \<Longrightarrow> h i = None \<Longrightarrow> places_ok h (u(i \<mapsto> ())) n"
  unfolding places_ok_def by auto

lemma no_unit: "x \<noteq> Some () \<longleftrightarrow> x = None"
  by (cases x) auto

interpretation ok: manager_contract E manager_ok for E :: "('m, 'c) traci_env"
proof
  fix m m' :: "'m manager" and i tp nm ds p ed sp hd' md md'
  show "manager_ok m \<Longrightarrow> core m' = core m \<Longrightarrow> manager_ok m'"
    by (simp add: manager_ok_def core_def)
  show "manager_ok m \<Longrightarrow> deleteManagedModule i m = Inr m' \<Longrightarrow> manager_ok m'"
    by (auto simp: manager_ok_def deleteManagedModule_def sm_inv_erase sm_find_erase places_remove split: option.splits)
  show "manager_ok m \<Longrightarrow> manager_ok (forget_unequipped i m)"
    by (auto simp: manager_ok_def forget_unequipped_def sm_inv_erase sm_find_erase places_remove)
  show "manager_ok m \<Longrightarrow> getManagedModule i m = None \<Longrightarrow> \<not> isModuleUnequipped i m \<Longrightarrow>
      addModule E i tp nm ds p ed sp hd' m = Inr m' \<Longrightarrow> manager_ok m'"
    by (auto simp: addModule_def getManagedModule_def isModuleUnequipped_def manager_ok_def sm_inv_insert
        sm.find_insert_fresh Let_def no_unit places_unequip places_add split: if_splits)
  show "manager_ok m \<Longrightarrow> getManagedModule i m = Some md \<Longrightarrow> updateModulePosition E p ed sp hd' md = Inr md' \<Longrightarrow>
      manager_ok (m\<lparr>hosts := sm_insert i md' (sm_erase i (hosts m))\<rparr>)"
    by (auto simp: updateModulePosition_def getManagedModule_def manager_ok_def sm_inv_insert sm_inv_erase
        sm.find_insert_fresh sm_find_erase intro: places_move)
qed

text \<open>
  The manager as a machine: it starts without vehicles, connects, and executes steps with any answers of the server,
  at any time; at the end of the simulation the modules are removed.
\<close>

text \<open>The loop over the managed modules removes one per round and ends with none left.\<close>

lemma finish_all_returns:
  "sm_inv (hosts m) \<Longrightarrow> finish_all (length (hosts m)) m = Inr (m\<lparr>hosts := []\<rparr>)"
proof (induction "length (hosts m)" arbitrary: m)
  case 0
  then show ?case by simp
next
  case (Suc n)
  then obtain i x hs where h: "hosts m = (i, x) # hs" by (metis length_Suc_conv surj_pair)
  then have "sm_erase i (hosts m) = hs"
    using Suc(3) by (auto simp: sm_erase_def sm_inv_def filter_id_conv)
  then have d: "deleteManagedModule i m = Inr (m\<lparr>hosts := hs\<rparr>)"
    by (simp add: deleteManagedModule_def getManagedModule_def h sm_find_def)
  have "sm_inv hs" using Suc(3) by (simp add: h sm_inv_def)
  then show ?case using Suc(1) [of "m\<lparr>hosts := hs\<rparr>"] Suc(2) by (simp add: h d)
qed

lemma preNetworkFinish_returns: "sm_inv (hosts m) \<Longrightarrow> preNetworkFinish m = Inr (m\<lparr>hosts := []\<rparr>)"
  by (simp add: preNetworkFinish_def finish_all_returns)

inductive manager_reachable :: "'k kernel_ops \<Rightarrow> nat \<Rightarrow> ('m, 'c) traci_env \<Rightarrow> 'm manager \<Rightarrow> bool"
  for K :: "'k kernel_ops" and depth :: nat and E :: "('m, 'c) traci_env" where
  start: "unEquippedHosts m = [] \<Longrightarrow> manager_reachable K depth E (reset_manager m)"
| connect: "manager_reachable K depth E m \<Longrightarrow> init_traci depth E now mrg (m, c) = Inr (m', c') \<Longrightarrow>
    manager_reachable K depth E m'"
| step: "manager_reachable K depth E m \<Longrightarrow>
    executeOneTimestep K depth E isConnected timer ((m, c), k) = Inr ((m', c'), k') \<Longrightarrow> manager_reachable K depth E m'"
| finish: "manager_reachable K depth E m \<Longrightarrow> preNetworkFinish m = Inr m' \<Longrightarrow> manager_reachable K depth E m'"

lemma manager_reachable_ok: "manager_reachable K depth E m \<Longrightarrow> manager_ok m"
proof (induction rule: manager_reachable.induct)
  case (start m)
  then show ?case by (simp add: manager_ok_def reset_manager_def places_ok_def sm_find_Nil_eq)
next
  case (connect m now mrg c m' c')
  then show ?case using ok.init_traci [OF connect(2)] by simp
next
  case (step m isConnected timer c k m' c' k')
  then show ?case using ok.one_timestep [OF step(2)] by simp
next
  case (finish m m')
  then show ?case using ok.finish by blast
qed

end
