(* ===== verification/SV_TraCI_Props.thy ===== *)
theory SV_TraCI_Props
  imports SV_TraCI_Inv SV_Mobility
begin

text \<open>
  Properties of the scenario manager: its invariant, the share of equipped vehicles, the effect of the report about
  one vehicle, the depth of nested subscriptions, and the rhythm of the steps.
\<close>

section \<open>Equipped vehicles\<close>

lemma equip_nearest:
  assumes "0 \<le> rate" "rate \<le> 1" and "\<bar>of_nat h - rate * of_nat (h + u)\<bar> \<le> (1/2 :: real)"
  shows "\<bar>of_nat (if equip rate h u then Suc h else h) - rate * of_nat (Suc (h + u))\<bar> \<le> (1/2 :: real)"
proof -
  define r where "r = rate * of_nat (h + u)"
  let ?n = "of_nat h + of_nat u + 1 :: real"
  have n: "0 < ?n" by linarith
  have rn: "rate * ?n = r + rate" by (simp add: r_def algebra_simps)
  have scale: "\<bar>x / ?n - rate\<bar> = \<bar>x - (r + rate)\<bar> / ?n" for x
  proof -
    have "x / ?n - rate = (x - rate * ?n) / ?n" using n by (simp add: field_simps)
    then show ?thesis using n by (simp add: abs_divide rn)
  qed
  have e: "equip rate h u \<longleftrightarrow> \<not> \<bar>of_nat h - (r + rate)\<bar> < \<bar>of_nat h + 1 - (r + rate)\<bar>"
  proof -
    have "equip rate h u \<longleftrightarrow> \<not> \<bar>of_nat h / ?n - rate\<bar> < \<bar>(of_nat h + 1) / ?n - rate\<bar>"
      by (simp add: equip_def add.commute)
    also have "\<dots> \<longleftrightarrow> \<not> \<bar>of_nat h - (r + rate)\<bar> / ?n < \<bar>of_nat h + 1 - (r + rate)\<bar> / ?n"
      unfolding scale ..
    finally show ?thesis using n by (simp add: divide_less_cancel)
  qed
  have "rate * of_nat (Suc (h + u)) = r + rate" by (simp add: r_def algebra_simps)
  moreover have "\<bar>of_nat h - r\<bar> \<le> 1/2" using assms(3) by (simp add: r_def)
  ultimately show ?thesis using assms(1,2) e by (auto simp: abs_if split: if_splits)
qed

section \<open>The report about a vehicle\<close>

text \<open>The attributes of a vehicle on the wire: variable, status, type and value.\<close>

record vehicle_report =
  vr_px :: "64 word"
  vr_py :: "64 word"
  vr_edge :: string
  vr_speed :: "64 word"
  vr_angle :: "64 word"
  vr_signals :: "32 word"
  vr_length :: "64 word"
  vr_height :: "64 word"
  vr_width :: "64 word"

type_synonym item = "byte \<times> byte list \<times> (vehicle_vars \<Rightarrow> vehicle_vars)"

definition report_items :: "vehicle_report \<Rightarrow> item list" where
  "report_items r =
     [(VAR_POSITION, POSITION_2D # word_bytes (vr_px r) @ word_bytes (vr_py r),
         \<lambda>v. v\<lparr>vv_px := double_of_bits (vr_px r), vv_py := double_of_bits (vr_py r)\<rparr>),
      (VAR_ROAD_ID, TYPE_STRING # string_bytes (vr_edge r), \<lambda>v. v\<lparr>vv_edge := vr_edge r\<rparr>),
      (VAR_SPEED, TYPE_DOUBLE # word_bytes (vr_speed r), \<lambda>v. v\<lparr>vv_speed := double_of_bits (vr_speed r)\<rparr>),
      (VAR_ANGLE, TYPE_DOUBLE # word_bytes (vr_angle r), \<lambda>v. v\<lparr>vv_angle := double_of_bits (vr_angle r)\<rparr>),
      (VAR_SIGNALS, TYPE_INTEGER # word_bytes (vr_signals r), \<lambda>v. v\<lparr>vv_signals := vr_signals r\<rparr>),
      (VAR_LENGTH, TYPE_DOUBLE # word_bytes (vr_length r), \<lambda>v. v\<lparr>vv_length := double_of_bits (vr_length r)\<rparr>),
      (VAR_HEIGHT, TYPE_DOUBLE # word_bytes (vr_height r), \<lambda>v. v\<lparr>vv_height := double_of_bits (vr_height r)\<rparr>),
      (VAR_WIDTH, TYPE_DOUBLE # word_bytes (vr_width r), \<lambda>v. v\<lparr>vv_width := double_of_bits (vr_width r)\<rparr>)]"

definition item_bytes :: "item list \<Rightarrow> byte list" where
  "item_bytes its = concat (map (\<lambda>(var, bs, _). var # RTYPE_OK # bs) its)"

definition report_bytes :: "vehicle_report \<Rightarrow> byte list" where
  "report_bytes r = 8 # item_bytes (report_items r)"

definition report_vars :: "vehicle_report \<Rightarrow> vehicle_vars" where
  "report_vars r =
     \<lparr>vv_px = double_of_bits (vr_px r), vv_py = double_of_bits (vr_py r), vv_edge = vr_edge r,
      vv_speed = double_of_bits (vr_speed r), vv_angle = double_of_bits (vr_angle r), vv_signals = vr_signals r,
      vv_length = double_of_bits (vr_length r), vv_height = double_of_bits (vr_height r),
      vv_width = double_of_bits (vr_width r)\<rparr>"

lemma report_items_vars: "fold (\<lambda>(_, _, f). f) (report_items r) v = report_vars r"
  by (simp add: report_items_def report_vars_def)

text \<open>The code for a variable as a reader of the bytes behind its status.\<close>

definition variable_reader ::
    "('m, 'c) traci_env \<Rightarrow> (string \<Rightarrow> ('m, 'c) mgr_link \<Rightarrow> ('m, 'c) mgr_link res) \<Rightarrow> byte \<Rightarrow>
      ('m, 'c) mgr_link \<times> vehicle_vars \<times> nat \<Rightarrow> (('m, 'c) mgr_link \<times> vehicle_vars \<times> nat) reader" where
  "variable_reader E sub var st b =
     (case st of (mc, v, k) \<Rightarrow>
        rbind (vehicle_variable E sub var (mc, v, k, b)) (\<lambda>(mc, v, k, b). Inr ((mc, v, k), b)))"

lemma vehicle_variable_reader:
  "vehicle_variable E sub var (mc, v, k, b) =
     rbind (variable_reader E sub var (mc, v, k) b) (\<lambda>((mc, v, k), b). Inr (mc, v, k, b))"
  by (cases "vehicle_variable E sub var (mc, v, k, b)") (auto simp: variable_reader_def)

lemma reads_expect: "reads r bs x \<Longrightarrow> reads (\<lambda>b. rbind (expect_type h t b) r) (t # bs) x"
  using reads_bind [OF u8.get_encode [OF TrueI], where x = t and f = "\<lambda>t' b. rbind (assertr (t' = t) ''varType'') (\<lambda>_. r b)"]
  by (simp add: expect_type_def rbind_assoc case_prod_unfold)

lemma reads_word_fun:
  fixes w :: "'w::len word"
  assumes "LENGTH('w) mod 8 = 0"
  shows "reads (\<lambda>b. rbind (read_word h b) (\<lambda>x. Inr (g (fst x), snd x))) (word_bytes w) (g w)"
  using reads_word_map [OF assms, of h g w] by (simp add: case_prod_unfold)

lemma reads_item:
  assumes "(var, bs, f) \<in> set (report_items r)" and "short (vr_edge r)"
  shows "reads (variable_reader E sub var (mc, v, k)) bs (mc, f v, Suc k)"
proof -
  let ?h = "en_host E"
  note eqs = variable_reader_def vehicle_variable_def Let_def traci_constants rbind_assoc case_prod_unfold fun_eq_iff
  have word: "reads (variable_reader E sub x (mc, v, k)) (t # word_bytes (w :: 'w::len word)) (mc, g w, Suc k)"
    if "LENGTH('w) mod 8 = 0" and "variable_reader E sub x (mc, v, k) =
      (\<lambda>b. rbind (expect_type ?h t b) (\<lambda>b. rbind (read_word ?h b) (\<lambda>y. Inr ((mc, g (fst y), Suc k), snd y))))" for x t g w
    unfolding that(2) by (rule reads_expect, rule reads_word_fun [OF that(1)])
  have position: "reads (variable_reader E sub VAR_POSITION (mc, v, k)) (POSITION_2D # word_bytes a @ word_bytes b)
      (mc, v\<lparr>vv_px := double_of_bits a, vv_py := double_of_bits b\<rparr>, Suc k)" for a b :: "64 word"
  proof -
    let ?v = "\<lambda>x y. (mc, v\<lparr>vv_px := double_of_bits x, vv_py := double_of_bits y\<rparr>, Suc k)"
    have "reads (\<lambda>c. rbind (read_word ?h c) (\<lambda>(x, c). rbind (read_word ?h c) (\<lambda>y. Inr (?v x (fst y), snd y))))
        (word_bytes a @ word_bytes b) (?v a b)"
      by (rule reads_bind [OF u64.get_encode [OF TrueI]], rule reads_word_fun) simp
    then have "reads (\<lambda>c. rbind (expect_type ?h POSITION_2D c) (\<lambda>c. rbind (read_word ?h c) (\<lambda>(x, c).
        rbind (read_word ?h c) (\<lambda>y. Inr (?v x (fst y), snd y))))) (POSITION_2D # word_bytes a @ word_bytes b) (?v a b)"
      by (rule reads_expect)
    moreover have "variable_reader E sub VAR_POSITION (mc, v, k) = (\<lambda>c. rbind (expect_type ?h POSITION_2D c)
        (\<lambda>c. rbind (read_word ?h c) (\<lambda>(x, c). rbind (read_word ?h c) (\<lambda>y. Inr (?v x (fst y), snd y)))))"
      by (simp add: eqs)
    ultimately show ?thesis by simp
  qed
  have road: "reads (variable_reader E sub VAR_ROAD_ID (mc, v, k)) (TYPE_STRING # string_bytes (vr_edge r))
      (mc, v\<lparr>vv_edge := vr_edge r\<rparr>, Suc k)"
  proof -
    have "variable_reader E sub VAR_ROAD_ID (mc, v, k) = (\<lambda>b. rbind (expect_type ?h TYPE_STRING b)
        (\<lambda>b. rbind (read_string ?h b) (\<lambda>(e, b). Inr ((mc, v\<lparr>vv_edge := e\<rparr>, Suc k), b))))"
      by (simp add: eqs)
    then show ?thesis
      using reads_expect [OF reads_map [where g = "\<lambda>e. (mc, v\<lparr>vv_edge := e\<rparr>, Suc k)", OF str.get_encode [OF assms(2)]]] by simp
  qed
  have double: "reads (variable_reader E sub x (mc, v, k)) (TYPE_DOUBLE # word_bytes w) (mc, g (double_of_bits w), Suc k)"
    if "variable_reader E sub x (mc, v, k) = (\<lambda>b. rbind (expect_type ?h TYPE_DOUBLE b)
      (\<lambda>b. rbind (read_word ?h b) (\<lambda>y. Inr ((mc, g (double_of_bits (fst y)), Suc k), snd y))))" for x g and w :: "64 word"
    by (rule word [OF _ that]) simp
  have "reads (variable_reader E sub VAR_SIGNALS (mc, v, k)) (TYPE_INTEGER # word_bytes (vr_signals r))
      (mc, v\<lparr>vv_signals := vr_signals r\<rparr>, Suc k)"
    by (rule word [of VAR_SIGNALS TYPE_INTEGER "\<lambda>w. v\<lparr>vv_signals := w\<rparr>"]) (simp_all add: eqs)
  moreover have "reads (variable_reader E sub VAR_SPEED (mc, v, k)) (TYPE_DOUBLE # word_bytes w)
      (mc, v\<lparr>vv_speed := double_of_bits w\<rparr>, Suc k)" for w
    by (rule double [of VAR_SPEED "\<lambda>x. v\<lparr>vv_speed := x\<rparr>"]) (simp add: eqs)
  moreover have "reads (variable_reader E sub VAR_ANGLE (mc, v, k)) (TYPE_DOUBLE # word_bytes w)
      (mc, v\<lparr>vv_angle := double_of_bits w\<rparr>, Suc k)" for w
    by (rule double [of VAR_ANGLE "\<lambda>x. v\<lparr>vv_angle := x\<rparr>"]) (simp add: eqs)
  moreover have "reads (variable_reader E sub VAR_LENGTH (mc, v, k)) (TYPE_DOUBLE # word_bytes w)
      (mc, v\<lparr>vv_length := double_of_bits w\<rparr>, Suc k)" for w
    by (rule double [of VAR_LENGTH "\<lambda>x. v\<lparr>vv_length := x\<rparr>"]) (simp add: eqs)
  moreover have "reads (variable_reader E sub VAR_HEIGHT (mc, v, k)) (TYPE_DOUBLE # word_bytes w)
      (mc, v\<lparr>vv_height := double_of_bits w\<rparr>, Suc k)" for w
    by (rule double [of VAR_HEIGHT "\<lambda>x. v\<lparr>vv_height := x\<rparr>"]) (simp add: eqs)
  moreover have "reads (variable_reader E sub VAR_WIDTH (mc, v, k)) (TYPE_DOUBLE # word_bytes w)
      (mc, v\<lparr>vv_width := double_of_bits w\<rparr>, Suc k)" for w
    by (rule double [of VAR_WIDTH "\<lambda>x. v\<lparr>vv_width := x\<rparr>"]) (simp add: eqs)
  ultimately show ?thesis
    using assms(1) position road by (auto simp: report_items_def)
qed

lemma vehicle_variables_items:
  assumes "\<And>var bs f v k. (var, bs, f) \<in> set items \<Longrightarrow> reads (variable_reader E sub var (mc, v, k)) bs (mc, f v, Suc k)"
    and "at_bytes b (item_bytes items @ rest)"
  shows "vehicle_variables E sub is (length items) (mc, v, k, b) =
    Inr (mc, fold (\<lambda>(_, _, f). f) items v, k + length items, b\<lparr>bf_index := bf_index b + length (item_bytes items)\<rparr>)"
  using assms
proof (induction items arbitrary: v k b)
  case Nil
  then show ?case by (simp add: item_bytes_def)
next
  case (Cons it items)
  obtain var bs f where it: "it = (var, bs, f)" by (cases it)
  let ?r = "item_bytes items @ rest"
  have at: "at_bytes b (word_bytes var @ word_bytes RTYPE_OK @ bs @ ?r)"
    using Cons.prems(2) by (simp add: item_bytes_def it)
  let ?b1 = "b\<lparr>bf_index := bf_index b + length (word_bytes var)\<rparr>"
  have r1: "read_word (en_host E) b = Inr (var, ?b1)"
    by (rule readsD [OF u8.get_encode [OF TrueI] at])
  note at1 = at_bytes_advance [OF at]
  let ?b2 = "?b1\<lparr>bf_index := bf_index ?b1 + length (word_bytes RTYPE_OK)\<rparr>"
  have r2: "read_word (en_host E) ?b1 = Inr (RTYPE_OK, ?b2)"
    by (rule readsD [OF u8.get_encode [OF TrueI] at1])
  note at2 = at_bytes_advance [OF at1]
  let ?b3 = "?b2\<lparr>bf_index := bf_index ?b2 + length bs\<rparr>"
  have "variable_reader E sub var (mc, v, k) ?b2 = Inr ((mc, f v, Suc k), ?b3)"
    by (rule readsD [OF _ at2]) (use Cons.prems(1) it in simp)
  then have r3: "vehicle_variable E sub var (mc, v, k, ?b2) = Inr (mc, f v, Suc k, ?b3)"
    by (simp add: vehicle_variable_reader)
  have IH: "vehicle_variables E sub is (length items) (mc, f v, Suc k, ?b3) =
      Inr (mc, fold (\<lambda>(_, _, f). f) items (f v), Suc k + length items, ?b3\<lparr>bf_index := bf_index ?b3 + length (item_bytes items)\<rparr>)"
    by (rule Cons.IH) (use Cons.prems(1) at_bytes_advance [OF at2] in auto)
  show ?case
    using r1 r2 r3 IH by (simp add: it item_bytes_def add.assoc)
qed

lemma vehicle_variables_report:
  assumes "short (vr_edge r)" and "at_bytes b (report_bytes r @ rest)"
  shows "rbind (read_word (en_host E) b) (\<lambda>(n :: byte, b). vehicle_variables E sub is (unat n) (mc, v, 0, b)) =
    Inr (mc, report_vars r, 8, b\<lparr>bf_index := bf_index b + length (report_bytes r)\<rparr>)"
proof -
  have at: "at_bytes b (word_bytes (8 :: byte) @ item_bytes (report_items r) @ rest)"
    using assms(2) by (simp add: report_bytes_def)
  have len: "length (report_items r) = unat (8 :: byte)" by (simp add: report_items_def)
  let ?b = "b\<lparr>bf_index := bf_index b + length (word_bytes (8 :: byte))\<rparr>"
  have "vehicle_variables E sub is (length (report_items r)) (mc, v, 0, ?b) =
      Inr (mc, fold (\<lambda>(_, _, f). f) (report_items r) v, 0 + length (report_items r),
        ?b\<lparr>bf_index := bf_index ?b + length (item_bytes (report_items r))\<rparr>)"
    by (rule vehicle_variables_items [where rest = rest])
      (use reads_item assms(1) at_bytes_advance [OF at] in blast)+
  then have "vehicle_variables E sub is (unat (8 :: byte)) (mc, v, 0, ?b) =
      Inr (mc, report_vars r, 8, b\<lparr>bf_index := bf_index b + length (report_bytes r)\<rparr>)"
    by (simp add: report_items_vars report_bytes_def len del: unat_numeral)
  then show ?thesis using readsD [OF u8.get_encode [OF TrueI] at, of "en_host E"] by simp
qed

definition in_roi :: "'m manager \<Rightarrow> vehicle_report \<Rightarrow> bool" where
  "in_roi m r \<longleftrightarrow> (hasConstraints (mn_roi m) \<longrightarrow>
     onAnyRectangle (mn_roi m) (mkTraCI (double_of_bits (vr_px r)) (double_of_bits (vr_py r))) \<or>
     partOfRoads (mn_roi m) (vr_edge r))"

text \<open>The simulation's position and heading of a report.\<close>

definition report_position :: "TraCICoordinateTransformation \<Rightarrow> vehicle_report \<Rightarrow> Coord" where
  "report_position T r = traci2omnet T (mkTraCI (double_of_bits (vr_px r)) (double_of_bits (vr_py r)))"

definition report_heading :: "vehicle_report \<Rightarrow> double" where
  "report_heading r = traci2omnetHeading (double_of_bits (vr_angle r))"

lemma report_processed:
  assumes "short (vr_edge r)" and "at_bytes b (report_bytes r @ rest)"
  shows "processVehicleSubscription E sub i (m, c) b =
    (let b' = b\<lparr>bf_index := bf_index b + length (report_bytes r)\<rparr> in
     if set_mem i (subscribedVehicles m) then rbind (apply_update E i (report_vars r) (m, c)) (\<lambda>mc. Inr (mc, b'))
     else Inr ((m, c), b'))"
proof -
  let ?is = "set_mem i (subscribedVehicles m)"
  have "processVehicleSubscription E sub i (m, c) b =
      rbind (rbind (read_word (en_host E) b) (\<lambda>(n :: byte, b). vehicle_variables E sub ?is (unat n) ((m, c), en_stack E, 0, b)))
        (\<lambda>(mc, v, numRead, b). if \<not> ?is then Inr (mc, b) else if numRead \<noteq> 8 then Inr (mc, b)
           else rbind (apply_update E i v mc) (\<lambda>mc. Inr (mc, b)))"
    by (simp add: processVehicleSubscription_def Let_def rbind_assoc case_prod_unfold)
  then show ?thesis by (simp add: vehicle_variables_report [OF assms] Let_def)
qed

text \<open>C13: A complete report about a subscribed vehicle inside the playground: outside the region of interest its module is
  removed; without equipment nothing happens; a managed vehicle has every mobility of its module moved to the
  converted position, road, speed and heading; and a vehicle seen for the first time gets a module of its
  type's kind at the next index, initialised with the same values. Other vehicles are not touched, and a report about a
  vehicle without subscription changes nothing. Exactly the report is consumed.\<close>

theorem vehicle_report_effect:
  fixes E :: "('m, 'c) traci_env"
  assumes ok: "manager_ok m" and edge: "length (vr_edge r) < 2 ^ 32" and at: "at_bytes b (report_bytes r @ rest)"
    and T: "mn_coordinateTransformation m = Some T" "0 \<le> cx (report_position T r)" "0 \<le> cy (report_position T r)"
    and R: "result = processVehicleSubscription E sub i (m, c) b"
    and b': "b' = b\<lparr>bf_index := bf_index b + length (report_bytes r)\<rparr>"
  shows "(\<not> set_mem i (subscribedVehicles m) \<longrightarrow> result = Inr ((m, c), b')) \<and>
    (set_mem i (subscribedVehicles m) \<longrightarrow>
      (\<not> in_roi m r \<longrightarrow> (\<exists>m'. result = Inr ((m', c), b') \<and>
         sm_find (hosts m') = (sm_find (hosts m))(i := None) \<and>
         \<not> (getManagedModule i m = None \<and> isModuleUnequipped i m'))) \<and>
      (in_roi m r \<and> isModuleUnequipped i m \<longrightarrow> result = Inr ((m, c), b')) \<and>
      (\<forall>md mobs. in_roi m r \<and> getManagedModule i m = Some md \<and>
         update_all (en_nextPosition E (mkCoord (cx (report_position T r)) (cy (report_position T r)) 0) (vr_edge r)
           (double_of_bits (vr_speed r)) (report_heading r)) (md_mobilities md) = Inr mobs \<longrightarrow>
         (\<exists>m'. result = Inr ((m', c), b') \<and> unEquippedHosts m' = unEquippedHosts m \<and>
            sm_find (hosts m') = (sm_find (hosts m))(i \<mapsto> md\<lparr>md_mobilities := mobs\<rparr>))) \<and>
      (\<forall>vType c' mType mName mobs mobs'. in_roi m r \<and> getManagedModule i m = None \<and> \<not> isModuleUnequipped i m \<and>
         getTypeId E i c = Inr (vType, c') \<and> lookup_type (moduleType m) vType = Some mType \<and> mType \<noteq> ''0'' \<and>
         lookup_type (moduleName m) vType = Some mName \<and> moduleDisplayString m = [] \<and>
         equip (penetrationRate m) (length (hosts m)) (length (unEquippedHosts m)) \<and>
         en_create E mType mName (nextNodeVectorIndex m) = Inr mobs \<and>
         en_initialize E (preInitializeModule E i (report_position T r) (vr_edge r) (double_of_bits (vr_speed r))
           (report_heading r) mobs) = Inr mobs' \<longrightarrow>
         (\<exists>m' md. result = Inr ((m', c'), b') \<and> sm_find (hosts m') = (sm_find (hosts m))(i \<mapsto> md) \<and>
            md_type md = mType \<and> md_name md = mName \<and> md_index md = nextNodeVectorIndex m \<and> md_mobilities md = mobs' \<and>
            nextNodeVectorIndex m' = Suc (nextNodeVectorIndex m))))"
proof -
  have short: "short (vr_edge r)" using edge by (simp add: short_def)
  have R': "result = (if set_mem i (subscribedVehicles m)
      then rbind (apply_update E i (report_vars r) (m, c)) (\<lambda>mc. Inr (mc, b')) else Inr ((m, c), b'))"
    using report_processed [OF short at, of E sub i m c] by (simp add: R b')
  have roi: "(if \<not> hasConstraints (mn_roi m) then True
      else onAnyRectangle (mn_roi m) (mkTraCI (vv_px (report_vars r)) (vv_py (report_vars r))) \<or>
           partOfRoads (mn_roi m) (vv_edge (report_vars r))) = in_roi m r"
    by (simp add: in_roi_def report_vars_def)
  have pos: "traci2omnet T (mkTraCI (vv_px (report_vars r)) (vv_py (report_vars r))) = report_position T r"
    by (simp add: report_position_def report_vars_def)
  have sel: "vv_edge (report_vars r) = vr_edge r" "vv_speed (report_vars r) = double_of_bits (vr_speed r)"
      "traci2omnetHeading (vv_angle (report_vars r)) = report_heading r"
    by (simp_all add: report_vars_def report_heading_def)
  have A: "apply_update E i (report_vars r) (m, c) =
      (if \<not> in_roi m r then
         (if getManagedModule i m \<noteq> None then rbind (deleteManagedModule i m) (\<lambda>m. Inr (m, c))
          else Inr (forget_unequipped i m, c))
       else if isModuleUnequipped i m then Inr (m, c)
       else case getManagedModule i m of
              None \<Rightarrow> create_vehicle E i (report_position T r) (report_heading r) (report_vars r) (m, c)
            | Some md \<Rightarrow>
                rbind (updateModulePosition E (report_position T r) (vr_edge r) (double_of_bits (vr_speed r)) (report_heading r) md)
                  (\<lambda>md. Inr (m\<lparr>hosts := sm_insert i md (sm_erase i (hosts m))\<rparr>, c)))"
  proof -
    have near: "\<not> cx (report_position T r) < 0" "\<not> cy (report_position T r) < 0" using T(2,3) by simp_all
    show ?thesis
      unfolding apply_update_def Let_def prod.case T(1) option.case roi pos
      unfolding sel by (simp add: near)
  qed
  have erased: "sm_find (sm_insert i md (sm_erase i (hosts m))) = (sm_find (hosts m))(i \<mapsto> md)" for md
    using ok by (simp add: manager_ok_def sm.find_insert_fresh sm_inv_erase sm_find_erase)
  have apart: "isModuleUnequipped i m \<longrightarrow> getManagedModule i m = None"
    using ok by (auto simp: manager_ok_def places_ok_def isModuleUnequipped_def getManagedModule_def)
  show ?thesis
  proof (intro conjI impI allI)
    assume "\<not> set_mem i (subscribedVehicles m)"
    then show "result = Inr ((m, c), b')" by (simp add: R')
  next
    assume "set_mem i (subscribedVehicles m)" "\<not> in_roi m r"
    then show "\<exists>m'. result = Inr ((m', c), b') \<and> sm_find (hosts m') = (sm_find (hosts m))(i := None) \<and>
        \<not> (getManagedModule i m = None \<and> isModuleUnequipped i m')"
      by (auto simp: R' A deleteManagedModule_def sm_find_erase forget_unequipped_def isModuleUnequipped_def
          getManagedModule_def fun_upd_idem split: option.splits)
  next
    assume "set_mem i (subscribedVehicles m)" "in_roi m r \<and> isModuleUnequipped i m"
    then show "result = Inr ((m, c), b')" by (simp add: R' A)
  next
    fix md mobs
    assume "set_mem i (subscribedVehicles m)" and md: "in_roi m r \<and> getManagedModule i m = Some md \<and>
         update_all (en_nextPosition E (mkCoord (cx (report_position T r)) (cy (report_position T r)) 0) (vr_edge r)
           (double_of_bits (vr_speed r)) (report_heading r)) (md_mobilities md) = Inr mobs"
    then show "\<exists>m'. result = Inr ((m', c), b') \<and> unEquippedHosts m' = unEquippedHosts m \<and>
            sm_find (hosts m') = (sm_find (hosts m))(i \<mapsto> md\<lparr>md_mobilities := mobs\<rparr>)"
      using apart by (auto simp: R' A updateModulePosition_def erased)
  next
    fix vType c' mType mName mobs mobs'
    assume "set_mem i (subscribedVehicles m)" and new: "in_roi m r \<and> getManagedModule i m = None \<and> \<not> isModuleUnequipped i m \<and>
         getTypeId E i c = Inr (vType, c') \<and> lookup_type (moduleType m) vType = Some mType \<and> mType \<noteq> ''0'' \<and>
         lookup_type (moduleName m) vType = Some mName \<and> moduleDisplayString m = [] \<and>
         equip (penetrationRate m) (length (hosts m)) (length (unEquippedHosts m)) \<and>
         en_create E mType mName (nextNodeVectorIndex m) = Inr mobs \<and>
         en_initialize E (preInitializeModule E i (report_position T r) (vr_edge r) (double_of_bits (vr_speed r))
           (report_heading r) mobs) = Inr mobs'"
    then show "\<exists>m' md. result = Inr ((m', c'), b') \<and> sm_find (hosts m') = (sm_find (hosts m))(i \<mapsto> md) \<and>
            md_type md = mType \<and> md_name md = mName \<and> md_index md = nextNodeVectorIndex m \<and> md_mobilities md = mobs' \<and>
            nextNodeVectorIndex m' = Suc (nextNodeVectorIndex m)"
      using ok by (auto simp: R' A sel create_vehicle_def orThrow_def addModule_def Let_def
          getManagedModule_def manager_ok_def sm.find_insert_fresh)
  qed
qed

section \<open>Nested subscriptions\<close>

text \<open>The answer of a server that reports the attributes of one vehicle.\<close>

definition vehicle_answer :: "byte \<Rightarrow> string \<Rightarrow> 32 word \<Rightarrow> string \<Rightarrow> vehicle_report \<Rightarrow> byte list" where
  "vehicle_answer l desc le i r =
     status_bytes l CMD_SUBSCRIBE_VEHICLE_VARIABLE RTYPE_OK desc @
     [0] @ word_bytes le @ [RESPONSE_SUBSCRIBE_VEHICLE_VARIABLE] @ string_bytes i @ report_bytes r"

definition orderly :: "('m, 'c) traci_env \<Rightarrow> bool" where
  "orderly E \<longleftrightarrow> (\<forall>(m :: 'm manager) v c answer c'.
     en_link E (makeTraCICommand (en_host E) CMD_SUBSCRIBE_VEHICLE_VARIABLE
       (bf_buf (subscription E m v vehicle_variables_wanted))) c = Inr (answer, c') \<longrightarrow>
     (\<exists>l desc le i r. short desc \<and> short i \<and> short (vr_edge r) \<and> answer = vehicle_answer l desc le i r))"

lemma query_ok:
  assumes "en_link E (makeTraCICommand (en_host E) cmd (bf_buf buf)) c = Inr (answer, c')"
    and "answer = status_bytes l cmd RTYPE_OK desc @ payload" and "short desc"
  shows "\<exists>obuf. query (en_host E) (en_link E) cmd buf c = Inr (obuf, c') \<and> at_bytes obuf payload"
proof -
  have at: "at_bytes (tbuf_of answer) (status_bytes l cmd RTYPE_OK desc @ payload)"
    by (simp add: assms(2) at_bytes_def tbuf_of_def)
  have "RTYPE_OK \<noteq> RTYPE_NOTIMPLEMENTED" by (simp add: traci_constants)
  with readsD [OF query_status_reads [OF assms(3)] at, of "en_host E"] at_bytes_advance [OF at] show ?thesis
    by (auto simp: query_def query_result_def assms(1))
qed

lemma vehicle_result:
  fixes le :: "32 word"
  assumes at: "at_bytes b ([0] @ word_bytes le @ [RESPONSE_SUBSCRIBE_VEHICLE_VARIABLE] @ string_bytes i @ report_bytes r)"
    and short: "short i" "short (vr_edge r)"
  obtains b' where "at_bytes b' []"
    and "\<And>now sub m c. processSubcriptionResult E now sub (m, c) b =
      (if set_mem i (subscribedVehicles m) then rbind (apply_update E i (report_vars r) (m, c)) (\<lambda>mc. Inr (mc, b'))
       else Inr ((m, c), b'))"
proof -
  let ?h = "en_host E"
  have at0: "at_bytes b (word_bytes (0 :: byte) @ word_bytes le @ [RESPONSE_SUBSCRIBE_VEHICLE_VARIABLE] @ string_bytes i @ report_bytes r)"
    using at by simp
  obtain b1 where 1: "read_word ?h b = Inr (0 :: byte, b1)"
      "at_bytes b1 (word_bytes le @ [RESPONSE_SUBSCRIBE_VEHICLE_VARIABLE] @ string_bytes i @ report_bytes r)"
    using readsD [OF u8.get_encode [OF TrueI] at0] at_bytes_advance [OF at0] by blast
  obtain b2 where 2: "read_word ?h b1 = Inr (le, b2)"
      "at_bytes b2 (word_bytes RESPONSE_SUBSCRIBE_VEHICLE_VARIABLE @ string_bytes i @ report_bytes r)"
    using readsD [OF u32.get_encode [OF TrueI] 1(2)] at_bytes_advance [OF 1(2)] by auto
  obtain b3 where 3: "read_word ?h b2 = Inr (RESPONSE_SUBSCRIBE_VEHICLE_VARIABLE, b3)"
      "at_bytes b3 (string_bytes i @ report_bytes r)"
    using readsD [OF u8.get_encode [OF TrueI] 2(2)] at_bytes_advance [OF 2(2)] by blast
  obtain b4 where 4: "read_string ?h b3 = Inr (i, b4)" "at_bytes b4 (report_bytes r @ [])"
    using readsD [OF str.get_encode [OF short(1)] 3(2)] at_bytes_advance [OF 3(2)] by auto
  show ?thesis
    by (rule that [OF at_bytes_advance [OF 4(2)]])
      (simp add: processSubcriptionResult_def Let_def 1(1) 2(1) 3(1) 4(1) report_processed [OF short(2) 4(2)])
qed

lemma vehicle_result_sub:
  fixes le :: "32 word"
  assumes "at_bytes b ([0] @ word_bytes le @ [RESPONSE_SUBSCRIBE_VEHICLE_VARIABLE] @ string_bytes i @ report_bytes r)"
    and "short i" "short (vr_edge r)"
  shows "processSubcriptionResult E now sub mc b = processSubcriptionResult E now sub' mc b"
  by (cases mc, rule vehicle_result [OF assms, where E = E]) simp

lemma orderly_sub:
  fixes E :: "('m, 'c) traci_env"
  assumes "orderly E"
  shows "subscribeToVehicleVariables (Suc n) E now = subscribeToVehicleVariables 1 E now"
proof (intro ext)
  fix v and mc :: "('m, 'c) mgr_link"
  obtain m c where mc: "mc = (m, c)" by (cases mc)
  let ?msg = "makeTraCICommand (en_host E) CMD_SUBSCRIBE_VEHICLE_VARIABLE (bf_buf (subscription E m v vehicle_variables_wanted))"
  show "subscribeToVehicleVariables (Suc n) E now v mc = subscribeToVehicleVariables 1 E now v mc"
  proof (cases "en_link E ?msg c")
    case (Inl e)
    then show ?thesis by (simp add: mc query_def query_result_def)
  next
    case (Inr ac)
    obtain answer c' where ac: "ac = (answer, c')" by (cases ac)
    with assms Inr obtain l desc le i r where a: "short desc" "short i" "short (vr_edge r)" "answer = vehicle_answer l desc le i r"
      unfolding orderly_def by blast
    obtain obuf where q: "query (en_host E) (en_link E) CMD_SUBSCRIBE_VEHICLE_VARIABLE
          (subscription E m v vehicle_variables_wanted) c = Inr (obuf, c')"
        "at_bytes obuf ([0] @ word_bytes le @ [RESPONSE_SUBSCRIBE_VEHICLE_VARIABLE] @ string_bytes i @ report_bytes r)"
      using query_ok [OF Inr [unfolded ac] a(4) [unfolded vehicle_answer_def] a(1)] by blast
    show ?thesis
      using vehicle_result_sub [OF q(2) a(2,3), of E now "subscribeToVehicleVariables n E now" "(m, c')"
          "subscribeToVehicleVariables 0 E now"]
      by (simp add: mc q(1))
  qed
qed

text \<open>With a server that answers the subscription to a vehicle by a report about one vehicle, subscriptions do not nest: every
  step computes with depth one what it computes with any greater depth, so the recursion between subscribing and processing ends.\<close>

theorem subscriptions_do_not_nest:
  assumes "orderly E"
  shows "executeOneTimestep K (Suc n) E isConnected timer st = executeOneTimestep K 1 E isConnected timer st"
proof -
  have "process_results (Suc n) E now k mc b = process_results 1 E now k mc b" for now k mc b
  proof (induction k arbitrary: mc b)
    case (Suc k)
    then have "process_results (Suc n) E now k = process_results 1 E now k" by (intro ext)
    then show ?case by (simp only: process_results.simps orderly_sub [OF assms])
  qed simp
  then have "process_results (Suc n) E = process_results 1 E" by (intro ext)
  then show ?thesis by (simp only: executeOneTimestep_def)
qed

section \<open>The manager over time\<close>

text \<open>C17: In every reachable state of the scenario manager, whatever the server answered, no vehicle is both managed and unequipped,
  modules of different vehicles have different places in the module vector, and the places from the next index on are free.\<close>

theorem managed_modules_apart:
  assumes "manager_reachable K depth E m"
  shows "(\<forall>i. getManagedModule i m \<noteq> None \<longrightarrow> \<not> isModuleUnequipped i m) \<and>
    (\<forall>i j md md'. getManagedModule i m = Some md \<and> getManagedModule j m = Some md' \<and> i \<noteq> j \<longrightarrow>
       md_index md \<noteq> md_index md') \<and>
    (\<forall>i md. getManagedModule i m = Some md \<longrightarrow> md_index md < nextNodeVectorIndex m)"
proof -
  have "places_ok (sm_find (hosts m)) (sm_find (unEquippedHosts m)) (nextNodeVectorIndex m)"
    using manager_reachable_ok [OF assms] by (simp add: manager_ok_def)
  then show ?thesis
    unfolding places_ok_def getManagedModule_def isModuleUnequipped_def by (blast dest: domI)
qed

text \<open>C40: Creating a module for a new vehicle keeps the share of equipped vehicles within half a vehicle of the penetration
  rate, as long as vehicles only arrive, and counts the vehicle exactly once.\<close>

theorem penetration_rate_kept:
  assumes "sm_inv (hosts m)" "sm_inv (unEquippedHosts m)" and "0 \<le> penetrationRate m" "penetrationRate m \<le> 1"
    and "\<bar>real (length (hosts m)) - penetrationRate m * real (length (hosts m) + length (unEquippedHosts m))\<bar> \<le> 1/2"
    and "\<not> isModuleUnequipped i m" and add: "addModule E i mt nm ds p ed sp hd' m = Inr m'"
  shows "\<bar>real (length (hosts m')) - penetrationRate m * real (length (hosts m') + length (unEquippedHosts m'))\<bar> \<le> 1/2 \<and>
    length (hosts m') + length (unEquippedHosts m') = Suc (length (hosts m) + length (unEquippedHosts m)) \<and>
    penetrationRate m' = penetrationRate m"
proof -
  let ?e = "equip (penetrationRate m) (length (hosts m)) (length (unEquippedHosts m))"
  have sizes: "length (hosts m') = (if ?e then Suc (length (hosts m)) else length (hosts m))"
      "length (hosts m') + length (unEquippedHosts m') = Suc (length (hosts m) + length (unEquippedHosts m))"
      "penetrationRate m' = penetrationRate m"
    using assms(1,2,6) add
    by (auto simp: addModule_def Let_def isModuleUnequipped_def no_unit sm_size_insert split: if_splits)
  show ?thesis using equip_nearest [OF assms(3,4,5)] sizes by simp
qed

text \<open>After a step the trigger for the next one is pending exactly one update interval later, unless the automatic shutdown was
  triggered; then nothing is pending for it and the time stands.\<close>

theorem steps_repeat:
  assumes "sim_kernel K" and "arrival K k timer = None"
    and "executeOneTimestep K depth E isConnected timer ((m, c), k) = Inr ((m', c'), k')"
  shows "simTime K k' = simTime K k \<and>
    arrival K k' timer = (if autoShutdownTriggered m' then None else Some (simTime K k + mn_updateInterval m'))"
  using assms(2,3)
  by (auto simp: executeOneTimestep_def Let_def sim_kernel.schedule_time [OF assms(1)]
      sim_kernel.schedule_arrival [OF assms(1)] split: if_splits)

section \<open>An example\<close>

text \<open>A server that reports the same vehicle whatever it is asked, and vehicles whose mobility is \<open>VeinsInetMobility\<close>.\<close>

definition example_report :: vehicle_report where
  "example_report = \<lparr>vr_px = 0, vr_py = 0, vr_edge = ''e'', vr_speed = 0, vr_angle = 0, vr_signals = 0, vr_length = 0,
     vr_height = 0, vr_width = 0\<rparr>"

definition example_mobility :: veins_mobility where
  "example_mobility = \<lparr>vm_lastPosition = mkCoord 5 5 5, vm_lastVelocity = Coord_ZERO,
     vm_lastOrientation = Quaternion_EulerAngles 0 0 0, vm_external_id = ''v'', vm_marker = [], vm_stateChanged = 0\<rparr>"

definition example_env :: "(veins_mobility, nat) traci_env" where
  "example_env = \<lparr>en_host = False, en_time = \<lparr>tm_dbl = \<lambda>_. 0, tm_of_dbl = \<lambda>_. 0, tm_max = 0\<rparr>,
     en_link = (\<lambda>_ n. Inr (vehicle_answer 7 [] 0 ''v'' example_report, Suc n)),
     en_stack = report_vars example_report, en_create = (\<lambda>_ _ _. Inr [example_mobility]),
     en_preInitialize = (\<lambda>i p _ speed heading. VeinsInetMobility_preInitialize i p speed heading),
     en_initialize = Inr,
     en_nextPosition = (\<lambda>p _ speed heading s. Inr (VeinsInetMobility_nextPosition p speed heading s))\<rparr>"

definition example_manager :: "veins_mobility manager" where
  "example_manager = \<lparr>mn_updateInterval = SIMTIME_S, autoShutdown = True, penetrationRate = 1, moduleType = [(''*'', ''Car'')],
     moduleName = [(''*'', ''car'')], moduleDisplayString = [], mn_roi = \<lparr>roiRoads = [], roiRects = []\<rparr>,
     mn_coordinateTransformation = Some (mkTransformation (mkTraCI 0 0) (mkTraCI 10 10) 0),
     versionConfig = \<lparr>vc_version = 20, vc_timeType = TYPE_DOUBLE, vc_netBoundaryType = TYPE_POLYGON, vc_timeStepCmd = VAR_TIME\<rparr>,
     timeAsDouble = True, nextNodeVectorIndex = 1,
     hosts = [(''v'', \<lparr>md_type = ''Car'', md_name = ''car'', md_display = [], md_index = 0, md_mobilities = [example_mobility]\<rparr>)],
     unEquippedHosts = [], subscribedVehicles = [(''v'', ())], activeVehicleCount = 1, parkingVehicleCount = 0,
     drivingVehicleCount = 1, autoShutdownTriggered = False, traciInitialized = True, areaSum = 0\<rparr>"

lemma example_ok: "manager_ok example_manager"
  by (simp add: manager_ok_def example_manager_def sm_inv_def places_ok_def sm_find_def)

lemma double_of_bits_0 [simp]: "double_of_bits 0 = 0"
  by (simp add: double_of_bits_def)

text \<open>A first step in which vehicle \<open>v\<close> departs: the server answers the step with the departure and the list of
  vehicles, the subscription with the report, and the question for the type of the vehicle.\<close>

definition first_answer :: "byte list" where
  "first_answer = status_bytes 7 CMD_SIMSTEP2 RTYPE_OK [] @ [0, 0, 0, 2] @
     [0, 0, 0, 0, 0, RESPONSE_SUBSCRIBE_SIM_VARIABLE] @ string_bytes [] @
       [1, VAR_DEPARTED_VEHICLES_IDS, RTYPE_OK, TYPE_STRINGLIST, 0, 0, 0, 1] @ string_bytes ''v'' @
     [0, 0, 0, 0, 0, RESPONSE_SUBSCRIBE_VEHICLE_VARIABLE] @ string_bytes [] @
       [1, ID_LIST, RTYPE_OK, TYPE_STRINGLIST, 0, 0, 0, 1] @ string_bytes ''v''"

definition type_answer :: "byte list" where
  "type_answer = status_bytes 7 CMD_GET_VEHICLE_VARIABLE RTYPE_OK [] @ [9, RESPONSE_GET_VEHICLE_VARIABLE, VAR_TYPE] @
     string_bytes ''v'' @ [TYPE_STRING] @ string_bytes ''t''"

definition trip_env :: "(veins_mobility, nat) traci_env" where
  "trip_env = example_env\<lparr>en_link := (\<lambda>_ n.
     Inr (if n = 0 then first_answer else if n = 1 then vehicle_answer 7 [] 0 ''v'' example_report else type_answer, Suc n))\<rparr>"



definition start_manager :: "veins_mobility manager" where
  "start_manager = reset_manager example_manager"

lemma read_bytes_4: "read_bytes 4 b = rbind (next_byte b) (\<lambda>(x1, b). rbind (next_byte b) (\<lambda>(x2, b).
     rbind (next_byte b) (\<lambda>(x3, b). rbind (next_byte b) (\<lambda>(x4, b). Inr ([x1, x2, x3, x4], b)))))"
  by (simp add: eval_nat_numeral rbind_assoc split_def)

lemma read_bytes_8: "read_bytes 8 b = rbind (read_bytes 4 b) (\<lambda>(xs, b). rbind (read_bytes 4 b) (\<lambda>(ys, b). Inr (xs @ ys, b)))"
  by (simp add: eval_nat_numeral rbind_assoc split_def)

lemma le_bytes_0: "le_bytes n 0 = replicate n 0"
  by (induction n) auto

lemma word_bytes_01: "word_bytes (0 :: 32 word) = [0, 0, 0, 0]" "word_bytes (1 :: 32 word) = [0, 0, 0, 1]"
    "word_bytes (0 :: 64 word) = [0, 0, 0, 0, 0, 0, 0, 0]"
proof -
  have r: "replicate 4 (0 :: byte) = [0, 0, 0, 0]" "replicate 8 (0 :: byte) = [0, 0, 0, 0, 0, 0, 0, 0]" "replicate 3 (0 :: byte) = [0, 0, 0]"
    by (simp_all add: numeral_eq_Suc)
  have "le_bytes (Suc 3) 1 = 1 # replicate 3 0" by (simp only: le_bytes.simps) (simp add: le_bytes_0)
  then have "le_bytes 4 1 = [1, 0, 0, 0]" by (simp add: r)
  then show "word_bytes (1 :: 32 word) = [0, 0, 0, 1]" by (simp add: word_bytes_def)
  show "word_bytes (0 :: 32 word) = [0, 0, 0, 0]" "word_bytes (0 :: 64 word) = [0, 0, 0, 0, 0, 0, 0, 0]"
    by (simp_all add: word_bytes_def le_bytes_0 r)
qed

lemmas evaluate_query = query_def query_result_def query_status_def tbuf_of_def eof_def word_bytes_01 read_string_def read_word_def
  readBuffer_def mem_value_def next_byte_def read_bytes_4 read_bytes_8 traci_constants status_bytes_def string_bytes_def

lemma trip_type: "getTypeId trip_env ''v'' 2 = Inr (''t'', 3)"
  by (simp add: getTypeId_def genericGetString_def trip_env_def example_env_def type_answer_def Let_def evaluate_query expect_type_def
    byte_char)


lemma trip_sel: "en_host trip_env = False" "en_create trip_env t n i = Inr [example_mobility]" "en_initialize trip_env = Inr"
  by (simp_all add: trip_env_def example_env_def)

lemma trip_sub: "\<exists>m' md. subscribeToVehicleVariables 1 trip_env 0 ''v'' (start_manager\<lparr>activeVehicleCount := 1, drivingVehicleCount := 1,
     subscribedVehicles := [(''v'', ())]\<rparr>, 1) = Inr (m', 3) \<and> hosts m' = [(''v'', md)] \<and> subscribedVehicles m' = [(''v'', ())]
      \<and> autoShutdownTriggered m' = False \<and> mn_updateInterval m' = SIMTIME_S"
proof -
  let ?m = "start_manager\<lparr>activeVehicleCount := 1, drivingVehicleCount := 1, subscribedVehicles := [(''v'', ())]\<rparr>"
  have short: "short ([] :: string)" "short ''v''" "short (vr_edge example_report)" by (simp_all add: short_def example_report_def)
  have l: "en_link trip_env x 1 = Inr (vehicle_answer 7 [] 0 ''v'' example_report, 2)" for x by (simp add: trip_env_def)
  obtain obuf where q: "query (en_host trip_env) (en_link trip_env) CMD_SUBSCRIBE_VEHICLE_VARIABLE
      (subscription trip_env ?m ''v'' vehicle_variables_wanted) 1 = Inr (obuf, 2)"
      and at: "at_bytes obuf ([0] @ word_bytes (0 :: 32 word) @ [RESPONSE_SUBSCRIBE_VEHICLE_VARIABLE] @ string_bytes ''v'' @ report_bytes example_report)"
    using query_ok [OF l vehicle_answer_def short(1)] by metis
  obtain b' where b': "at_bytes b' []" and r: "processSubcriptionResult trip_env 0 sub (m, c) obuf =
      (if set_mem ''v'' (subscribedVehicles m) then rbind (apply_update trip_env ''v'' (report_vars example_report) (m, c)) (\<lambda>mc. Inr (mc, b'))
       else Inr ((m, c), b'))" for sub m c
    by (rule vehicle_result [OF at short(2,3), where E = trip_env]) blast
  have "eof b'" using b' by (simp add: eof_iff)
  have "\<exists>m' md. apply_update trip_env ''v'' (report_vars example_report) (?m, 2) = Inr (m', 3) \<and> hosts m' = [(''v'', md)] \<and>
     subscribedVehicles m' = [(''v'', ())] \<and> autoShutdownTriggered m' = False \<and> mn_updateInterval m' = SIMTIME_S"
    by (simp add: apply_update_def start_manager_def reset_manager_def example_manager_def report_vars_def example_report_def
        traci2omnet_def mkTransformation_def hasConstraints_def isModuleUnequipped_def getManagedModule_def create_vehicle_def
        trip_type orThrow_def lookup_type_def addModule_def equip_def Let_def sm_find_def trip_sel)
  then show ?thesis
    using q r \<open>eof b'\<close> by (auto simp: start_manager_def reset_manager_def example_manager_def sm_find_def)
qed



lemma start_sel: "subscribedVehicles start_manager = []" "activeVehicleCount start_manager = 0" "drivingVehicleCount start_manager = 0"
  by (simp_all add: start_manager_def reset_manager_def example_manager_def)

lemma trip_query: "query False (en_link trip_env) CMD_SIMSTEP2 buf 0 = Inr (\<lparr>bf_buf = first_answer, bf_index = 7\<rparr>, 1)"
  by (simp add: trip_env_def first_answer_def evaluate_query)

lemma trip_count: "read_word False \<lparr>bf_buf = first_answer, bf_index = 7\<rparr> = Inr (2 :: 32 word, \<lparr>bf_buf = first_answer, bf_index = 11\<rparr>)"
  by (simp add: first_answer_def evaluate_query)

lemma trip_departed: "processSubcriptionResult trip_env 0 sub (start_manager, 1) \<lparr>bf_buf = first_answer, bf_index = 11\<rparr> =
   Inr ((start_manager\<lparr>activeVehicleCount := 1, drivingVehicleCount := 1\<rparr>, 1), \<lparr>bf_buf = first_answer, bf_index = 34\<rparr>)"
  by (simp add: processSubcriptionResult_def Let_def trip_sel first_answer_def evaluate_query processSimSubscription_def sim_variable_def
      vehicle_list_def expect_type_def start_sel)

lemma trip_listed: 
  assumes "sub ''v'' (start_manager\<lparr>activeVehicleCount := 1, drivingVehicleCount := 1, subscribedVehicles := [(''v'', ())]\<rparr>, 1) = Inr (m', 3)"
     "subscribedVehicles m' = [(''v'', ())]"
  shows "processSubcriptionResult trip_env 0 sub (start_manager\<lparr>activeVehicleCount := 1, drivingVehicleCount := 1\<rparr>, 1) \<lparr>bf_buf = first_answer, bf_index = 34\<rparr> =
   Inr ((m', 3), \<lparr>bf_buf = first_answer, bf_index = 57\<rparr>)"
  using assms by (simp add: processSubcriptionResult_def Let_def trip_sel first_answer_def evaluate_query processVehicleSubscription_def
      vehicle_variable_def update_subscriptions_def set_difference_def expect_type_def start_sel byte_char sm_find_def)

lemma rbind_Inr_right: "rbind r Inr = r"
  by (cases r) simp_all

lemma trip_step:
  obtains m c k md where "executeOneTimestep ref_kernel 1 trip_env True 0 ((start_manager, 0), ref_init) = Inr ((m, c), k)"
    and "hosts m = [(''v'', md)]"
proof -
  obtain m' md where sub: "subscribeToVehicleVariables 1 trip_env 0 ''v'' (start_manager\<lparr>activeVehicleCount := 1,
        drivingVehicleCount := 1, subscribedVehicles := [(''v'', ())]\<rparr>, 1) = Inr (m', 3)"
      and m': "hosts m' = [(''v'', md)]" "subscribedVehicles m' = [(''v'', ())]" "autoShutdownTriggered m' = False"
        "mn_updateInterval m' = SIMTIME_S"
    using trip_sub by blast
  have two: "process_results 1 trip_env 0 2 mc b =
      rbind (processSubcriptionResult trip_env 0 (subscribeToVehicleVariables 1 trip_env 0) mc b) (\<lambda>(mc, b).
      processSubcriptionResult trip_env 0 (subscribeToVehicleVariables 1 trip_env 0) mc b)" for mc b
    by (simp add: numeral_2_eq_2 split_def rbind_Inr_right)
  have "simTime ref_kernel ref_init = 0" by (simp add: ref_kernel_def ref_init_def)
  moreover have "is_ok (scheduleAt ref_kernel SIMTIME_S 0 ref_init)"
    by (simp add: ref_kernel_def ref_init_def is_ok_def SIMTIME_S_def SIMTIME_MS_def)
  ultimately have "\<exists>c k. executeOneTimestep ref_kernel 1 trip_env True 0 ((start_manager, 0), ref_init) = Inr ((m', c), k)"
    unfolding executeOneTimestep_def Let_def
    by (auto simp: trip_sel trip_query trip_count two trip_departed trip_listed [where sub = "subscribeToVehicleVariables 1 trip_env 0", OF sub m'(2)] m' is_ok_iff
        simp del: One_nat_def)
  then show ?thesis using that m'(1) by blast
qed

theorem managed_modules_apart_witness:
  "\<exists>m md. manager_reachable ref_kernel 1 trip_env m \<and> getManagedModule ''v'' m = Some md \<and>
     md_index md < nextNodeVectorIndex m \<and> \<not> isModuleUnequipped ''v'' m"
proof -
  obtain m c k md where step: "executeOneTimestep ref_kernel 1 trip_env True 0 ((start_manager, 0), ref_init) = Inr ((m, c), k)"
      and h: "hosts m = [(''v'', md)]"
    by (rule trip_step)
  have "unEquippedHosts example_manager = []" by (simp add: example_manager_def)
  then have "manager_reachable ref_kernel 1 trip_env start_manager"
    unfolding start_manager_def by (rule manager_reachable.start)
  then have "manager_reachable ref_kernel 1 trip_env m" by (rule manager_reachable.step [OF _ step])
  with managed_modules_apart [OF this] h show ?thesis by (auto simp: getManagedModule_def sm_find_def)
qed

theorem penetration_rate_kept_witness:
  "\<exists>m'. addModule example_env ''w'' ''Car'' ''car'' [] Coord_ZERO [] 0 0 example_manager = Inr m' \<and>
     \<bar>real (length (hosts m')) - real (length (hosts m') + length (unEquippedHosts m'))\<bar> \<le> 1/2"
proof -
  have "is_ok (addModule example_env ''w'' ''Car'' ''car'' [] Coord_ZERO [] 0 0 example_manager)"
    by (simp add: addModule_def example_manager_def example_env_def sm_find_def equip_def Let_def is_ok_def)
  then obtain m' where m': "addModule example_env ''w'' ''Car'' ''car'' [] Coord_ZERO [] 0 0 example_manager = Inr m'"
    by (auto simp: is_ok_iff)
  have "sm_inv (hosts example_manager)" "sm_inv (unEquippedHosts example_manager)"
      "0 \<le> penetrationRate example_manager" "penetrationRate example_manager \<le> 1"
      "\<bar>real (length (hosts example_manager)) - penetrationRate example_manager *
         real (length (hosts example_manager) + length (unEquippedHosts example_manager))\<bar> \<le> 1/2"
      "\<not> isModuleUnequipped ''w'' example_manager"
    by (simp_all add: example_manager_def sm_inv_def isModuleUnequipped_def)
  from penetration_rate_kept [OF this m'] m' show ?thesis by (auto simp: example_manager_def)
qed

theorem vehicle_report_effect_witness:
  "\<exists>m' b' md. processVehicleSubscription example_env (\<lambda>_. Inr) ''v'' (example_manager, 0) (tbuf_of (report_bytes example_report)) =
       Inr ((m', 0), b') \<and> getManagedModule ''v'' m' = Some md \<and> map vm_lastPosition (md_mobilities md) = [mkCoord 0 10 0]"
proof -
  let ?T = "mkTransformation (mkTraCI 0 0) (mkTraCI 10 10) 0"
  have p: "report_position ?T example_report = mkCoord 0 10 0"
    by (simp add: report_position_def example_report_def traci2omnet_def mkTransformation_def)
  have at: "at_bytes (tbuf_of (report_bytes example_report)) (report_bytes example_report @ [])"
    by (simp add: at_bytes_def tbuf_of_def)
  have T: "mn_coordinateTransformation example_manager = Some ?T" by (simp add: example_manager_def)
  have edge: "length (vr_edge example_report) < 2 ^ 32" by (simp add: example_report_def)
  have "0 \<le> cx (report_position ?T example_report)" "0 \<le> cy (report_position ?T example_report)" by (simp_all add: p)
  note effect = vehicle_report_effect [where E = example_env and sub = "\<lambda>_. Inr" and i = "''v''" and c = 0,
      OF example_ok edge at T this refl refl]
  let ?md = "\<lparr>md_type = ''Car'', md_name = ''car'', md_display = [], md_index = 0, md_mobilities = [example_mobility]\<rparr>"
  have "set_mem ''v'' (subscribedVehicles example_manager)" "in_roi example_manager example_report"
      "getManagedModule ''v'' example_manager = Some ?md"
    by (simp_all add: example_manager_def sm_find_def in_roi_def hasConstraints_def getManagedModule_def)
  then obtain m' where "processVehicleSubscription example_env (\<lambda>_. Inr) ''v'' (example_manager, 0) (tbuf_of (report_bytes example_report)) =
        Inr ((m', 0), (tbuf_of (report_bytes example_report))\<lparr>bf_index := bf_index (tbuf_of (report_bytes example_report)) +
          length (report_bytes example_report)\<rparr>)"
      "sm_find (hosts m') = (sm_find (hosts example_manager))(''v'' \<mapsto> ?md\<lparr>md_mobilities :=
         [VeinsInetMobility_nextPosition (mkCoord 0 10 0) 0 (report_heading example_report) example_mobility]\<rparr>)"
    using effect by (auto simp: p example_env_def example_report_def [THEN arg_cong, of vr_speed])
  then show ?thesis
    by (auto simp: getManagedModule_def VeinsInetMobility_nextPosition_def Let_def)
qed

theorem subscriptions_do_not_nest_witness:
  "executeOneTimestep ref_kernel 9 example_env True 0 ((example_manager, 0), ref_init) =
   executeOneTimestep ref_kernel 1 example_env True 0 ((example_manager, 0), ref_init)"
proof -
  have "orderly example_env"
  proof -
    have "short ([] :: string)" "short ''v''" "short (vr_edge example_report)" by (simp_all add: short_def example_report_def)
    then show ?thesis unfolding orderly_def example_env_def by fastforce
  qed
  from subscriptions_do_not_nest [OF this, of ref_kernel 8] show ?thesis by simp
qed

theorem steps_repeat_witness:
  "\<exists>st k'. executeOneTimestep ref_kernel 1 example_env False 0 ((example_manager, 0), ref_init) = Inr (st, k') \<and>
     arrival ref_kernel k' 0 = Some SIMTIME_S"
proof -
  have "is_ok (executeOneTimestep ref_kernel 1 example_env False 0 ((example_manager, 0), ref_init))"
    by (simp add: executeOneTimestep_def Let_def example_manager_def ref_kernel_def ref_init_def is_ok_def SIMTIME_S_def SIMTIME_MS_def)
  then obtain m' c' k' where s: "executeOneTimestep ref_kernel 1 example_env False 0 ((example_manager, 0), ref_init) = Inr ((m', c'), k')"
    by (auto simp: is_ok_iff)
  then have "m' = example_manager" by (auto simp: executeOneTimestep_def Let_def split: if_splits)
  moreover have "arrival ref_kernel ref_init 0 = None" "simTime ref_kernel ref_init = 0" by (simp_all add: ref_kernel_def ref_init_def)
  ultimately show ?thesis
    using steps_repeat [OF ref.sim_kernel_axioms _ s] s by (auto simp: example_manager_def)
qed

end
