(* ===== verification/SV_TraCI_Config.thy ===== *)
theory SV_TraCI_Config
  imports SV_TraCI_Manager SV_Strings
begin

text \<open>
  The parameters of the scenario manager that map vehicle types to module types, module names and display strings. The
  tokenizer of OMNeT++ is the argument \<open>tok\<close>: the non-empty parts of a string between delimiters.
\<close>

definition find_at :: "char \<Rightarrow> string \<Rightarrow> size_t \<Rightarrow> size_t" where
  "find_at c s pos = (if length s < unat pos then npos else find_from c (drop (unat pos) s) pos)"

definition getMapping :: "(char \<Rightarrow> string \<Rightarrow> string list) \<Rightarrow> string \<Rightarrow> string list res" where
  "getMapping tok el =
     (let protection = CHR 0x27; first = str_find protection el in
      if first = npos then Inr (tok CHR ''='' el)
      else
        (let second = find_at protection el (first + 1) in
         if second = npos \<or> second \<noteq> word_of_nat (length el) - 1 then throwr ''invalid syntax for mapping''
         else
           rbind (str_substr el (first + 1) (second - first - 1)) (\<lambda>value'.
           if first = 0 then Inr [value']
           else
             (let eq = str_find CHR ''='' el in
              if eq = npos \<or> eq \<noteq> first - 1 then throwr ''invalid syntax for mapping''
              else rbind (str_substr el 0 eq) (\<lambda>typ'. Inr [typ', value'])))))"

fun add_mappings ::
    "(char \<Rightarrow> string \<Rightarrow> string list) \<Rightarrow> nat \<Rightarrow> string list \<Rightarrow> (string, string) std_map \<Rightarrow> (string, string) std_map res" where
  "add_mappings tok sz [] tm = Inr tm"
| "add_mappings tok sz (typeMapping # tms) tm =
     rbind (getMapping tok typeMapping) (\<lambda>mapping.
     if length mapping = 1 then
       (if sz \<noteq> 1 then throwr ''parameter includes multiple mappings, but one is not mapped to any vehicle type''
        else add_mappings tok sz tms (sm_insert ''*'' (mapping ! 0) (sm_erase ''*'' tm)))
     else if length mapping \<noteq> 2 then throwr ''invalid syntax for mapping''
     else if sm_find tm (mapping ! 0) \<noteq> None then throwr ''duplicated mapping for vehicle type''
     else add_mappings tok sz tms (sm_insert (mapping ! 0) (mapping ! 1) tm))"

definition parseMappings ::
    "(char \<Rightarrow> string \<Rightarrow> string list) \<Rightarrow> string \<Rightarrow> bool \<Rightarrow> (string, string) std_map res" where
  "parseMappings tok parameter allowEmpty =
     (let typeMappings = tok CHR '' '' parameter in
      if length typeMappings = 0 then (if \<not> allowEmpty then throwr ''parameter is empty'' else Inr [])
      else add_mappings tok (length typeMappings) typeMappings [])"

text \<open>\<open>std::set_intersection\<close> of sorted keys.\<close>

definition common_keys :: "(string, string) std_map \<Rightarrow> (string, string) std_map \<Rightarrow> string list" where
  "common_keys a b = filter (\<lambda>k. k \<in> set (map fst b)) (map fst a)"

definition parseModuleTypes ::
    "(char \<Rightarrow> string \<Rightarrow> string list) \<Rightarrow> string \<Rightarrow> string \<Rightarrow> string \<Rightarrow> 'm manager \<Rightarrow> 'm manager res" where
  "parseModuleTypes tok moduleTypes moduleNames moduleDisplayStrings m =
     rbind (parseMappings tok moduleTypes False) (\<lambda>types.
     rbind (parseMappings tok moduleNames False) (\<lambda>names.
     rbind (parseMappings tok moduleDisplayStrings True) (\<lambda>displays.
     let m = m\<lparr>moduleType := types, moduleName := names, moduleDisplayString := displays\<rparr> in
     if length (common_keys types names) \<noteq> length types \<or> length (common_keys types names) \<noteq> length names
     then throwr ''keys of mappings of moduleType and moduleName are not the same''
     else if length displays = 0 then Inr m
     else if length (common_keys types displays) \<noteq> length displays
     then throwr ''keys of mappings of moduleType and moduleDisplayString are not the same''
     else Inr m)))"

section \<open>Properties\<close>

lemma add_mappings_inv: "add_mappings tok sz tms tm = Inr tm' \<Longrightarrow> sm_inv tm \<Longrightarrow> sm_inv tm'"
  by (induction tok sz tms tm rule: add_mappings.induct) (auto simp: sm_inv_insert sm_inv_erase split: if_splits)

lemma parseMappings_inv: "parseMappings tok p e = Inr tm \<Longrightarrow> sm_inv tm"
  by (auto simp: parseMappings_def Let_def split: if_splits dest: add_mappings_inv)

lemma common_keys_all:
  assumes "sm_inv a" "sm_inv b" and "length (common_keys a b) = length b"
  shows "set (map fst b) \<subseteq> set (map fst a)"
proof -
  have "set (common_keys a b) \<subseteq> set (map fst b)" by (auto simp: common_keys_def)
  moreover have "card (set (common_keys a b)) = card (set (map fst b))"
  proof -
    have "distinct (common_keys a b)" using sm_inv_distinct [OF assms(1)] by (simp add: common_keys_def)
    then show ?thesis
      using distinct_card [of "common_keys a b"] distinct_card [OF sm_inv_distinct [OF assms(2)]] assms(3)
      by (simp del: set_map)
  qed
  ultimately have "set (common_keys a b) = set (map fst b)" by (intro card_subset_eq) auto
  then show ?thesis by (auto simp: common_keys_def)
qed

lemma common_keys_left:
  assumes "length (common_keys a b) = length a"
  shows "set (map fst a) \<subseteq> set (map fst b)"
proof
  fix k assume k: "k \<in> set (map fst a)"
  show "k \<in> set (map fst b)"
  proof (rule ccontr)
    assume "k \<notin> set (map fst b)"
    from length_filter_less [OF k, of "\<lambda>k. k \<in> set (map fst b)", OF this] assms show False
      by (simp add: common_keys_def)
  qed
qed

lemma parseModuleTypes_keys:
  assumes "parseModuleTypes tok mts mns mds m = Inr m'"
  shows "dom (sm_find (moduleType m')) = dom (sm_find (moduleName m'))"
    "dom (sm_find (moduleDisplayString m')) \<subseteq> dom (sm_find (moduleType m'))"
    "sm_inv (moduleType m')" "sm_inv (moduleName m')" "sm_inv (moduleDisplayString m')"
proof -
  from assms obtain t n d where p: "parseMappings tok mts False = Inr t" "parseMappings tok mns False = Inr n"
      "parseMappings tok mds True = Inr d" and m': "moduleType m' = t" "moduleName m' = n" "moduleDisplayString m' = d"
    and c: "length (common_keys t n) = length t" "length (common_keys t n) = length n"
      "d = [] \<or> length (common_keys t d) = length d"
    by (auto simp: parseModuleTypes_def Let_def split: if_splits)
  note inv = p [THEN parseMappings_inv]
  have keys: "dom (sm_find M) = set (map fst M)" for M :: "(string, string) std_map"
    by (simp add: sm_find_def dom_map_of_conv_image_fst)
  show "dom (sm_find (moduleType m')) = dom (sm_find (moduleName m'))"
    using common_keys_left [OF c(1)] common_keys_all [OF inv(1,2) c(2)] by (simp add: keys m' del: set_map)
  show "dom (sm_find (moduleDisplayString m')) \<subseteq> dom (sm_find (moduleType m'))"
    using c(3) common_keys_all [OF inv(1,3)] by (auto simp: keys m' simp del: set_map)
  show "sm_inv (moduleType m')" "sm_inv (moduleName m')" "sm_inv (moduleDisplayString m')"
    by (simp_all add: m' inv)
qed

text \<open>After the mappings were accepted, a vehicle type has a module type exactly when it has a module name, and every type
  with a display string has a module type. Conversely a display string may be missing: mappings for the
  types \<open>a\<close> and \<open>b\<close> with a display string for \<open>a\<close> only are accepted, and the first vehicle of type \<open>b\<close> ends the
  simulation.\<close>

theorem module_types_consistent:
  fixes m :: "'m manager"
  assumes "\<And>c s. tok c s = filter (\<lambda>t. t \<noteq> []) (getline_all c s)"
  shows "(parseModuleTypes tok mts mns mds m = Inr m' \<longrightarrow>
      (lookup_type (moduleType m') vType = None \<longleftrightarrow> lookup_type (moduleName m') vType = None) \<and>
      (sm_find (moduleDisplayString m') vType \<noteq> None \<longrightarrow> sm_find (moduleType m') vType \<noteq> None)) \<and>
    (\<exists>m'. parseModuleTypes tok ''a=A b=B'' ''a=x b=y'' ''a=z'' m = Inr m' \<and>
      (\<forall>(E :: ('m, 'c) traci_env) i p heading v c c'. getTypeId E i c = Inr (''b'', c') \<longrightarrow>
         create_vehicle E i p heading v (m', c) = throwr ''cannot find a module display string for vehicle type''))"
proof (intro conjI impI)
  assume ok: "parseModuleTypes tok mts mns mds m = Inr m'"
  note keys = parseModuleTypes_keys [OF ok]
  have same: "sm_find (moduleType m') k = None \<longleftrightarrow> sm_find (moduleName m') k = None" for k
    using keys(1) by (metis domIff)
  show "lookup_type (moduleType m') vType = None \<longleftrightarrow> lookup_type (moduleName m') vType = None"
    using same [of vType] same [of "''*''"] by (auto simp: lookup_type_def split: option.splits)
  show "sm_find (moduleType m') vType \<noteq> None" if "sm_find (moduleDisplayString m') vType \<noteq> None"
    using keys(2) that by auto
next
  let ?m = "m\<lparr>moduleType := [(''a'', ''A''), (''b'', ''B'')], moduleName := [(''a'', ''x''), (''b'', ''y'')],
      moduleDisplayString := [(''a'', ''z'')]\<rparr>"
  have "parseModuleTypes tok ''a=A b=B'' ''a=x b=y'' ''a=z'' m = Inr ?m"
    by (simp add: parseModuleTypes_def parseMappings_def assms getMapping_def str_find_def npos_def Let_def sm_find_def
        common_keys_def)
  moreover have "create_vehicle E i p heading v (?m, c) = throwr ''cannot find a module display string for vehicle type''"
    if "getTypeId E i c = Inr (''b'', c')" for E :: "('m, 'c) traci_env" and i p heading v c c'
    using that by (simp add: create_vehicle_def lookup_type_def sm_find_def orThrow_def throwr_def)
  ultimately show "\<exists>m'. parseModuleTypes tok ''a=A b=B'' ''a=x b=y'' ''a=z'' m = Inr m' \<and>
      (\<forall>(E :: ('m, 'c) traci_env) i p heading v c c'. getTypeId E i c = Inr (''b'', c') \<longrightarrow>
         create_vehicle E i p heading v (m', c) = throwr ''cannot find a module display string for vehicle type'')"
    by blast
qed

theorem module_types_consistent_witness:
  "\<forall>m :: nat manager. \<exists>m'. parseModuleTypes (\<lambda>c s. filter (\<lambda>t. t \<noteq> []) (getline_all c s)) ''a=A b=B'' ''a=x b=y'' ''a=z'' m = Inr m' \<and>
     lookup_type (moduleName m') ''c'' = None"
proof
  fix m :: "nat manager"
  let ?tok = "\<lambda>c s. filter (\<lambda>t. t \<noteq> []) (getline_all c s)"
  note all = module_types_consistent [where 'c = unit and tok = ?tok, OF refl]
  obtain m' where m': "parseModuleTypes ?tok ''a=A b=B'' ''a=x b=y'' ''a=z'' m = Inr m'" using all by blast
  moreover have "lookup_type (moduleType m') ''c'' = None"
    using m' by (auto simp: parseModuleTypes_def parseMappings_def getMapping_def str_find_def npos_def Let_def sm_find_def
        common_keys_def lookup_type_def)
  ultimately have "lookup_type (moduleName m') ''c'' = None"
    using all [of "''a=A b=B''" "''a=x b=y''" "''a=z''" m m' "''c''"] by simp
  with m' show "\<exists>m'. parseModuleTypes ?tok ''a=A b=B'' ''a=x b=y'' ''a=z'' m = Inr m' \<and> lookup_type (moduleName m') ''c'' = None"
    by blast
qed

end
