(* ===== verification/SV_Udp_Sockets.thy ===== *)
theory SV_Udp_Sockets
  imports SV_Packet SV_StdMap
begin

text \<open>
  The socket tables of INET's \<open>Udp\<close>: descriptors by identifier, descriptors by local port, binding,
  connecting, closing, ephemeral ports, and the selection of sockets for an arriving datagram. A descriptor is
  an object that both tables point to; it is created for an identifier that has none, so the identifier
  stands for the pointer and the table by identifier is the store. The lists of the table by port hold identifiers.
  Kinds of addresses other than IPv4 and IPv6 are classified by the arguments in \<open>address_class\<close>.
\<close>

section \<open>Maps with assignment\<close>

definition sm_put :: "'k::linorder \<Rightarrow> 'v \<Rightarrow> ('k, 'v) std_map \<Rightarrow> ('k, 'v) std_map" where
  "sm_put k v m = sm_insert k v (sm_erase k m)"

lemma sm_find_put [simp]: "sm_inv m \<Longrightarrow> sm_find (sm_put k v m) = (sm_find m)(k \<mapsto> v)"
  by (simp add: sm_put_def sm_inv_erase sm_find_erase sm.find_insert_fresh)

lemma sm_inv_put [simp]: "sm_inv m \<Longrightarrow> sm_inv (sm_put k v m)"
  by (simp add: sm_put_def sm_inv_insert sm_inv_erase)

section \<open>Addresses\<close>

record address_class =
  ac_multicast :: "nat \<Rightarrow> bool"
  ac_broadcast :: "nat \<Rightarrow> bool"

definition L3_isMulticast :: "address_class \<Rightarrow> L3Address \<Rightarrow> bool res" where
  "L3_isMulticast C a =
     (case a of L3_NONE \<Rightarrow> throwr ''Address contains no value'' | L3_IPv4 x \<Rightarrow> Inr (isMulticast x)
      | L3_IPv6 x \<Rightarrow> Inr (drop_bit 120 x = 0xFF) | L3_OTHER n \<Rightarrow> Inr (ac_multicast C n))"

definition L3_isBroadcast :: "address_class \<Rightarrow> L3Address \<Rightarrow> bool res" where
  "L3_isBroadcast C a =
     (case a of L3_NONE \<Rightarrow> throwr ''Address contains no value'' | L3_IPv4 x \<Rightarrow> Inr (x = 0xFFFFFFFF)
      | L3_IPv6 x \<Rightarrow> Inr False | L3_OTHER n \<Rightarrow> Inr (ac_broadcast C n))"

text \<open>\<open>operator<\<close>: by type, then by value. Two addresses without a value are not compared.\<close>

fun L3_less :: "L3Address \<Rightarrow> L3Address \<Rightarrow> bool" where
  "L3_less (L3_IPv4 x) (L3_IPv4 y) = (x < y)"
| "L3_less (L3_IPv6 x) (L3_IPv6 y) = (x < y)"
| "L3_less (L3_OTHER x) (L3_OTHER y) = (x < y)"
| "L3_less L3_NONE y = (y \<noteq> L3_NONE)"
| "L3_less (L3_IPv4 x) y = (y \<noteq> L3_NONE)"
| "L3_less (L3_IPv6 x) y = (case y of L3_OTHER _ \<Rightarrow> True | _ \<Rightarrow> False)"
| "L3_less (L3_OTHER x) y = False"

section \<open>State\<close>

datatype filter_mode = UDP_INCLUDE_MCAST_SOURCES | UDP_EXCLUDE_MCAST_SOURCES

record membership =
  mm_address :: L3Address
  mm_interface :: int
  mm_filter :: filter_mode
  mm_sources :: "L3Address list"

record sock_desc =
  sockId :: int
  isBound :: bool
  onlyLocalPortIsSet :: bool
  reuseAddr :: bool
  localAddr :: L3Address
  remoteAddr :: L3Address
  localPort :: int
  remotePort :: int
  isBroadcast :: bool
  multicastOutputInterfaceId :: int
  multicastLoop :: bool
  ttl :: int
  dscp :: int
  tos :: int
  multicastMembershipTable :: "membership list"

definition SockDesc :: "int \<Rightarrow> sock_desc" where
  "SockDesc sockId' =
     \<lparr>sockId = sockId', isBound = False, onlyLocalPortIsSet = False, reuseAddr = False, localAddr = L3_NONE,
      remoteAddr = L3_NONE, localPort = -1, remotePort = -1, isBroadcast = False, multicastOutputInterfaceId = -1,
      multicastLoop = True, ttl = -1, dscp = -1, tos = -1, multicastMembershipTable = []\<rparr>"

record udp_sockets =
  socketsByIdMap :: "(int, sock_desc) std_map"
  socketsByPortMap :: "(int, int list) std_map"
  lastEphemeralPort :: "16 word"

definition EPHEMERAL_PORTRANGE_START :: "16 word" where "EPHEMERAL_PORTRANGE_START = 1024"
definition EPHEMERAL_PORTRANGE_END :: "16 word" where "EPHEMERAL_PORTRANGE_END = 5000"

definition udp_sockets_new :: udp_sockets where
  "udp_sockets_new = \<lparr>socketsByIdMap = [], socketsByPortMap = [], lastEphemeralPort = EPHEMERAL_PORTRANGE_START\<rparr>"

definition clearAllSockets :: "udp_sockets \<Rightarrow> udp_sockets" where
  "clearAllSockets u = u\<lparr>socketsByIdMap := [], socketsByPortMap := []\<rparr>"

text \<open>\<open>socketsByPortMap[port]\<close> creates an empty list. The descriptors a list points to.\<close>

definition port_list :: "int \<Rightarrow> udp_sockets \<Rightarrow> int list" where
  "port_list port u = (case sm_find (socketsByPortMap u) port of None \<Rightarrow> [] | Some ids \<Rightarrow> ids)"

definition port_sockets :: "int \<Rightarrow> udp_sockets \<Rightarrow> sock_desc list" where
  "port_sockets port u = List.map_filter (sm_find (socketsByIdMap u)) (port_list port u)"

definition store_socket :: "sock_desc \<Rightarrow> udp_sockets \<Rightarrow> udp_sockets" where
  "store_socket sd u = u\<lparr>socketsByIdMap := sm_put (sockId sd) sd (socketsByIdMap u)\<rparr>"

section \<open>Ephemeral ports\<close>

definition next_ephemeral :: "16 word \<Rightarrow> 16 word" where
  "next_ephemeral p = (if p + 1 = EPHEMERAL_PORTRANGE_END then EPHEMERAL_PORTRANGE_START else p + 1)"

partial_function (option) ephemeral_loop :: "(16 word \<Rightarrow> bool) \<Rightarrow> 16 word \<Rightarrow> 16 word \<Rightarrow> 16 word res option" where
  "ephemeral_loop used searchUntil p =
     (if used p then
        (if p = searchUntil then Some (throwr ''Ephemeral port range exhausted, all ports occupied'')
         else ephemeral_loop used searchUntil (next_ephemeral p))
      else Some (Inr p))"

declare ephemeral_loop.simps [code]

definition port_used :: "udp_sockets \<Rightarrow> 16 word \<Rightarrow> bool" where
  "port_used u p \<longleftrightarrow> sm_find (socketsByPortMap u) (uint p) \<noteq> None"

definition getEphemeralPort :: "udp_sockets \<Rightarrow> (16 word \<times> udp_sockets) res" where
  "getEphemeralPort u =
     (let searchUntil = lastEphemeralPort u in
      case ephemeral_loop (port_used u) searchUntil (next_ephemeral searchUntil) of
        None \<Rightarrow> Inl NoReturn
      | Some r \<Rightarrow> rbind r (\<lambda>p. Inr (p, u\<lparr>lastEphemeralPort := p\<rparr>)))"

section \<open>Binding, connecting, closing\<close>

definition createSocket :: "int \<Rightarrow> L3Address \<Rightarrow> int \<Rightarrow> udp_sockets \<Rightarrow> (sock_desc \<times> udp_sockets) res" where
  "createSocket sockId' localAddr' localPort' u =
     rbind (if localPort' = -1 then rbind (getEphemeralPort u) (\<lambda>(p, u). Inr (uint p, u)) else Inr (localPort', u)) (\<lambda>(port, u).
     let sd = (SockDesc sockId')\<lparr>isBound := False, localAddr := localAddr', localPort := port,
                onlyLocalPortIsSet := isUnspecified localAddr'\<rparr>;
         u = store_socket sd u
     in Inr (sd, u\<lparr>socketsByPortMap := sm_put port (port_list port u @ [sockId']) (socketsByPortMap u)\<rparr>))"

definition getOrCreateSocket :: "int \<Rightarrow> udp_sockets \<Rightarrow> (sock_desc \<times> udp_sockets) res" where
  "getOrCreateSocket sockId' u =
     (if sockId' = -1 then throwr ''sockId in Udp command not filled in''
      else case sm_find (socketsByIdMap u) sockId' of
             Some sd \<Rightarrow> Inr (sd, u)
           | None \<Rightarrow> createSocket sockId' L3_NONE (-1) u)"

definition findFirstSocketByLocalAddress :: "L3Address \<Rightarrow> 16 word \<Rightarrow> udp_sockets \<Rightarrow> sock_desc option" where
  "findFirstSocketByLocalAddress localAddr' localPort' u =
     List.find (\<lambda>sd. isUnspecified (localAddr sd) \<or> localAddr sd = localAddr') (port_sockets (uint localPort') u)"

definition move_port :: "sock_desc \<Rightarrow> int \<Rightarrow> udp_sockets \<Rightarrow> udp_sockets" where
  "move_port sd port u =
     (let u = u\<lparr>socketsByPortMap := sm_put (localPort sd) (filter (\<lambda>i. i \<noteq> sockId sd) (port_list (localPort sd) u)) (socketsByPortMap u)\<rparr>;
          u = store_socket (sd\<lparr>localPort := port\<rparr>) u
      in u\<lparr>socketsByPortMap := sm_put port (port_list port u @ [sockId sd]) (socketsByPortMap u)\<rparr>)"

definition udp_bind :: "int \<Rightarrow> L3Address \<Rightarrow> int \<Rightarrow> udp_sockets \<Rightarrow> udp_sockets res" where
  "udp_bind sockId' localAddr' localPort' u =
     (if sockId' = -1 then throwr ''sockId in BIND message not filled in''
      else if localPort' < -1 \<or> localPort' > 65535 then throwr ''bind: invalid local port number''
      else
        (let sd' = sm_find (socketsByIdMap u) sockId';
             existing = findFirstSocketByLocalAddress localAddr' (word_of_int localPort') u
         in if (case existing of None \<Rightarrow> False
                | Some e \<Rightarrow> (case sd' of None \<Rightarrow> True | Some sd \<Rightarrow> \<not> reuseAddr sd \<or> \<not> reuseAddr e))
            then throwr ''bind: local address/port already taken''
            else case sd' of
                   Some sd \<Rightarrow>
                     if isBound sd then throwr ''bind: socket is already bound''
                     else (let sd = sd\<lparr>isBound := True, localAddr := localAddr'\<rparr>; u = store_socket sd u
                           in if localPort' \<noteq> -1 \<and> localPort sd \<noteq> localPort' then Inr (move_port sd localPort' u) else Inr u)
                 | None \<Rightarrow>
                     rbind (createSocket sockId' localAddr' localPort' u) (\<lambda>(sd, u). Inr (store_socket (sd\<lparr>isBound := True\<rparr>) u))))"

definition udp_connect :: "int \<Rightarrow> L3Address \<Rightarrow> int \<Rightarrow> udp_sockets \<Rightarrow> udp_sockets res" where
  "udp_connect sockId' remoteAddr' remotePort' u =
     (if isUnspecified remoteAddr' then throwr ''connect: unspecified remote address''
      else if remotePort' \<le> 0 \<or> remotePort' > 65535 then throwr ''connect: invalid remote port number''
      else rbind (getOrCreateSocket sockId' u) (\<lambda>(sd, u).
           Inr (store_socket (sd\<lparr>remoteAddr := remoteAddr', remotePort := remotePort', onlyLocalPortIsSet := False\<rparr>) u)))"

text \<open>\<open>close\<close> and \<open>destroySocket\<close> of an identifier.\<close>

definition destroySocket :: "int \<Rightarrow> udp_sockets \<Rightarrow> udp_sockets" where
  "destroySocket sockId' u =
     (case sm_find (socketsByIdMap u) sockId' of
        None \<Rightarrow> u
      | Some sd \<Rightarrow>
          (let u = u\<lparr>socketsByIdMap := sm_erase sockId' (socketsByIdMap u)\<rparr>;
               ids = remove1 sockId' (port_list (localPort sd) u)
           in u\<lparr>socketsByPortMap := (if ids = [] then sm_erase (localPort sd) (socketsByPortMap u)
                                     else sm_put (localPort sd) ids (socketsByPortMap u))\<rparr>))"

section \<open>Selecting sockets\<close>

definition remote_matches :: "L3Address \<Rightarrow> 16 word \<Rightarrow> sock_desc \<Rightarrow> bool" where
  "remote_matches remoteAddr' remotePort' sd \<longleftrightarrow>
     (remotePort sd = -1 \<or> remotePort sd = uint remotePort') \<and> (isUnspecified (remoteAddr sd) \<or> remoteAddr sd = remoteAddr')"

fun unicast_loop :: "L3Address \<Rightarrow> L3Address \<Rightarrow> 16 word \<Rightarrow> sock_desc option \<Rightarrow> sock_desc list \<Rightarrow> sock_desc option" where
  "unicast_loop la ra rp socketBoundToAnyAddress [] = socketBoundToAnyAddress"
| "unicast_loop la ra rp socketBoundToAnyAddress (sd # sds) =
     (if onlyLocalPortIsSet sd \<or>
         ((remotePort sd = -1 \<or> remotePort sd = uint rp) \<and> (isUnspecified (localAddr sd) \<or> localAddr sd = la) \<and>
          (isUnspecified (remoteAddr sd) \<or> remoteAddr sd = ra))
      then (if isUnspecified (localAddr sd) then unicast_loop la ra rp (Some sd) sds else Some sd)
      else unicast_loop la ra rp socketBoundToAnyAddress sds)"

definition findSocketForUnicastPacket ::
    "L3Address \<Rightarrow> 16 word \<Rightarrow> L3Address \<Rightarrow> 16 word \<Rightarrow> udp_sockets \<Rightarrow> sock_desc option" where
  "findSocketForUnicastPacket la lp ra rp u =
     (case sm_find (socketsByPortMap u) (uint lp) of
        None \<Rightarrow> None
      | Some _ \<Rightarrow> unicast_loop la ra rp None (rev (port_sockets (uint lp) u)))"

section \<open>Memberships\<close>

text \<open>\<open>std::lower_bound\<close>: the binary search of the library.\<close>

function lower_bound_loop :: "('a \<Rightarrow> bool) \<Rightarrow> 'a list \<Rightarrow> nat \<Rightarrow> nat \<Rightarrow> nat" where
  "lower_bound_loop lt xs lo len =
     (if len = 0 then lo
      else (let half = len div 2; mid = lo + half
            in if lt (xs ! mid) then lower_bound_loop lt xs (mid + 1) (len - half - 1)
               else lower_bound_loop lt xs lo half))"
  by pat_completeness auto
termination by (relation "measure (\<lambda>(_, _, _, len). len)") auto

declare lower_bound_loop.simps [simp del]

definition lower_bound :: "('a \<Rightarrow> 'a \<Rightarrow> bool) \<Rightarrow> 'a list \<Rightarrow> 'a \<Rightarrow> nat" where
  "lower_bound lt xs x = lower_bound_loop (\<lambda>y. lt y x) xs 0 (length xs)"

definition lessMembership :: "membership \<Rightarrow> membership \<Rightarrow> bool" where
  "lessMembership a b =
     (if mm_address a \<noteq> mm_address b then L3_less (mm_address a) (mm_address b)
      else \<not> (mm_interface a = -1 \<or> mm_interface a \<ge> mm_interface b))"

text \<open>The search key; its filter mode and sources are not looked at.\<close>

definition membership_key :: "L3Address \<Rightarrow> int \<Rightarrow> membership" where
  "membership_key multicastAddress interfaceId =
     \<lparr>mm_address = multicastAddress, mm_interface = interfaceId, mm_filter = UDP_INCLUDE_MCAST_SOURCES, mm_sources = []\<rparr>"

definition findFirstMulticastMembership :: "L3Address \<Rightarrow> membership list \<Rightarrow> nat option" where
  "findFirstMulticastMembership multicastAddress tbl =
     (let i = lower_bound lessMembership tbl (membership_key multicastAddress 0)
      in if i \<noteq> length tbl \<and> mm_address (tbl ! i) = multicastAddress then Some i else None)"

definition findMulticastMembership :: "L3Address \<Rightarrow> int \<Rightarrow> membership list \<Rightarrow> nat option" where
  "findMulticastMembership multicastAddress interfaceId tbl =
     (let i = lower_bound lessMembership tbl (membership_key multicastAddress interfaceId)
      in if i \<noteq> length tbl \<and> mm_address (tbl ! i) = multicastAddress \<and> mm_interface (tbl ! i) = interfaceId
         then Some i else None)"

definition addMulticastMembership :: "membership \<Rightarrow> membership list \<Rightarrow> membership list" where
  "addMulticastMembership m tbl = (let i = lower_bound lessMembership tbl m in take i tbl @ m # drop i tbl)"

text \<open>\<open>deleteMulticastMembership\<close> of the membership at a position.\<close>

definition deleteMulticastMembership :: "nat \<Rightarrow> membership list \<Rightarrow> membership list" where
  "deleteMulticastMembership i tbl = take i tbl @ drop (Suc i) tbl"

definition isSourceAllowed :: "L3Address \<Rightarrow> membership \<Rightarrow> bool" where
  "isSourceAllowed sourceAddr m \<longleftrightarrow>
     (mm_filter m = UDP_INCLUDE_MCAST_SOURCES \<and> sourceAddr \<in> set (mm_sources m)) \<or>
     (mm_filter m = UDP_EXCLUDE_MCAST_SOURCES \<and> sourceAddr \<notin> set (mm_sources m))"

definition findSocketsForMcastBcastPacket ::
    "L3Address \<Rightarrow> 16 word \<Rightarrow> L3Address \<Rightarrow> 16 word \<Rightarrow> bool \<Rightarrow> bool \<Rightarrow> udp_sockets \<Rightarrow> sock_desc list res" where
  "findSocketsForMcastBcastPacket la lp ra rp isMulticast' isBroadcast' u =
     rbind (assertr (isMulticast' \<or> isBroadcast') ''isMulticast || isBroadcast'') (\<lambda>_.
     Inr (filter (\<lambda>sd.
            if isBroadcast' then isBroadcast sd \<and> remote_matches ra rp sd
            else (case findFirstMulticastMembership la (multicastMembershipTable sd) of
                    None \<Rightarrow> False
                  | Some i \<Rightarrow> remote_matches ra rp sd \<and> isSourceAllowed ra (multicastMembershipTable sd ! i)))
          (port_sockets (uint lp) u)))"

end
