(* ===== verification/SV_Checksum.thy ===== *)
theory SV_Checksum
  imports SV_Packet
begin

text \<open>
  INET's Internet checksum (\<open>TcpIpChecksum\<close>): the two summation routines on 32-bit unsigned
  integers, with their early carries, and the ones' complement sum they compute. \<open>ck_sum\<close> is the
  unbounded sum of the 16-bit big-endian words, the last one padded with a zero byte; it is the
  reference the routines are compared with.
\<close>

type_synonym octet = "8 word"

section \<open>The routines\<close>

definition ck_fold :: "32 word \<Rightarrow> 32 word" where
  "ck_fold s = (s AND 0xFFFF) + drop_bit 16 s"

definition ck_carry :: "32 word \<Rightarrow> 32 word" where
  "ck_carry s = (if s AND 0x80000000 \<noteq> 0 then ck_fold s else s)"

definition ck_hi :: "octet \<Rightarrow> 32 word" where
  "ck_hi b = push_bit 8 (ucast b)"

lemma unat_and_FFFF: "unat ((s::32 word) AND 0xFFFF) = unat s mod 65536"
proof -
  have "s AND 0xFFFF = take_bit 16 s" by (simp add: take_bit_eq_mask mask_eq_exp_minus_1)
  then show ?thesis by (simp add: unat_mod take_bit_eq_mod)
qed

lemma unat_shift16: "unat (drop_bit 16 (s::32 word)) = unat s div 65536"
  by (simp add: drop_bit_eq_div unat_div)

lemma top_bit: "(s::32 word) AND 0x80000000 \<noteq> 0 \<longleftrightarrow> 2 ^ 31 \<le> unat s"
proof -
  have "s AND 0x80000000 \<noteq> 0 \<longleftrightarrow> bit s 31"
    using and_exp_eq_0_iff_not_bit [of s 31] by simp
  also have "\<dots> \<longleftrightarrow> odd (unat s div 2 ^ 31)"
  proof -
    have "bit (unat s) 31 \<longleftrightarrow> bit s 31" by (simp add: bit_unsigned_iff)
    then show ?thesis by (simp add: bit_iff_odd)
  qed
  also have "\<dots> \<longleftrightarrow> 2 ^ 31 \<le> unat s"
  proof -
    have "unat s < 2 ^ 32" using unsigned_less [of s] by simp
    then have "unat s div 2 ^ 31 < 2" by (simp add: less_mult_imp_div_less)
    then have "unat s div 2 ^ 31 = 0 \<or> unat s div 2 ^ 31 = 1" by linarith
    then show ?thesis by (auto simp: div_eq_0_iff)
  qed
  finally show ?thesis .
qed

lemma unat_fold: "unat (ck_fold s) = unat s mod 65536 + unat s div 65536"
proof -
  have "unat s < 2 ^ 32" using unsigned_less [of s] by simp
  then have "unat s div 65536 < 65536" by (simp add: less_mult_imp_div_less)
  moreover have "unat s mod 65536 < 65536" by simp
  ultimately show ?thesis
    unfolding ck_fold_def by (subst unat_add_lem [THEN iffD1]) (simp_all add: unat_and_FFFF unat_shift16)
qed

lemma unat_hi: "unat (ck_hi b) = 256 * unat b"
proof -
  have "unat b < 256" using unsigned_less [of b] by simp
  then show ?thesis
    by (simp add: ck_hi_def push_bit_eq_mult unat_word_ariths unsigned_ucast_eq mod_less take_bit_nat_eq_self)
qed

lemma fold_less: "drop_bit 16 s \<noteq> 0 \<Longrightarrow> unat (ck_fold s) < unat (s :: 32 word)"
proof -
  assume "drop_bit 16 s \<noteq> 0"
  then have "unat s div 65536 \<noteq> 0" by (metis unat_shift16 unat_eq_zero)
  moreover have "unat s = 65536 * (unat s div 65536) + unat s mod 65536" by simp
  ultimately show ?thesis unfolding unat_fold by linarith
qed

function ck_finish :: "32 word \<Rightarrow> 32 word" where
  "ck_finish s = (if drop_bit 16 s \<noteq> 0 then ck_finish (ck_fold s) else s)"
  by pat_completeness auto
termination
  by (relation "measure unat") (auto intro: fold_less)

declare ck_finish.simps [simp del]

fun ck_vec_loop :: "nat \<Rightarrow> 32 word \<Rightarrow> octet list \<Rightarrow> 32 word" where
  "ck_vec_loop i s [] = s"
| "ck_vec_loop i s (b # bs) = ck_vec_loop (i + 1) (ck_carry (s + (if odd i then ucast b else ck_hi b))) bs"

definition checksum_vec :: "octet list \<Rightarrow> 16 word" where
  "checksum_vec bs = ucast (ck_finish (ck_vec_loop 0 0 bs))"

fun ck_ptr_loop :: "32 word \<Rightarrow> octet list \<Rightarrow> 32 word" where
  "ck_ptr_loop s (a # b # bs) = ck_ptr_loop (ck_carry (s + (ck_hi a OR ucast b))) bs"
| "ck_ptr_loop s [a] = s + ck_hi a"
| "ck_ptr_loop s [] = s"

definition checksum_ptr :: "octet list \<Rightarrow> 16 word" where
  "checksum_ptr bs = ucast (ck_finish (ck_ptr_loop 0 bs))"

fun ck_sum :: "nat \<Rightarrow> octet list \<Rightarrow> nat" where
  "ck_sum i [] = 0"
| "ck_sum i (b # bs) = (if odd i then unat b else 256 * unat b) + ck_sum (i + 1) bs"

definition ck_norm :: "nat \<Rightarrow> nat" where
  "ck_norm n = (if n = 0 then 0 else (n - 1) mod 65535 + 1)"

definition ck_same :: "nat \<Rightarrow> nat \<Rightarrow> bool" where
  "ck_same m n \<longleftrightarrow> m mod 65535 = n mod 65535 \<and> (m = 0 \<longleftrightarrow> n = 0)"

lemma fold_same: "ck_same (unat (ck_fold s)) (unat s)"
proof -
  define q r where "q = unat s div 65536" and "r = unat s mod 65536"
  have s: "unat s = (r + q) + 65535 * q" by (simp add: q_def r_def)
  have "unat (ck_fold s) = r + q" by (simp add: unat_fold q_def r_def)
  moreover have "unat s mod 65535 = (r + q) mod 65535" unfolding s by (rule mod_mult_self2)
  ultimately show ?thesis using s by (simp add: ck_same_def) linarith
qed

lemma ck_same_norm:
  assumes "m < 65536" and "ck_same m n"
  shows "m = ck_norm n"
proof (cases "n = 0")
  case True
  with assms show ?thesis by (simp add: ck_same_def ck_norm_def)
next
  case False
  with assms have pos: "0 < m" "0 < n" and eq: "m mod 65535 = n mod 65535" by (auto simp: ck_same_def)
  have "(n - 1) mod 65535 = m - 1"
  proof (cases "m \<le> n")
    case True
    then obtain k where "n = m + 65535 * k" using eq by (metis mod_eq_nat1E)
    with pos have "n - 1 = (m - 1) + 65535 * k" by linarith
    moreover have "m - 1 < 65535" using assms(1) pos by linarith
    ultimately show ?thesis by (metis mod_less mod_mult_self2)
  next
    case False
    then obtain k where k: "m = n + 65535 * k" using eq by (metis mod_eq_nat2E nat_le_linear)
    with assms(1) pos have "k = 0" by linarith
    with k False show ?thesis by simp
  qed
  with pos show ?thesis by (simp add: ck_norm_def)
qed

lemma ck_same_refl [simp]: "ck_same n n" by (simp add: ck_same_def)

lemma ck_same_trans: "ck_same a b \<Longrightarrow> ck_same b c \<Longrightarrow> ck_same a c"
  by (simp add: ck_same_def)

lemma ck_same_add: "ck_same a b \<Longrightarrow> ck_same (a + c) (b + c)"
  by (auto simp: ck_same_def intro: mod_add_cong)

lemma unat_finish: "unat (ck_finish s) = ck_norm (unat s)"
proof -
  have "unat (ck_finish s) < 65536 \<and> ck_same (unat (ck_finish s)) (unat s)"
  proof (induction s rule: ck_finish.induct)
    case (1 s)
    show ?case
    proof (cases "drop_bit 16 s = 0")
      case True
      then have "unat s div 65536 = 0" by (metis unat_shift16 unsigned_0)
      with True show ?thesis by (simp add: ck_finish.simps [of s] div_eq_0_iff)
    next
      case False
      with 1 have "unat (ck_finish (ck_fold s)) < 65536 \<and> ck_same (unat (ck_finish (ck_fold s))) (unat (ck_fold s))"
        by simp
      with False show ?thesis
        by (auto simp: ck_finish.simps [of s] intro: ck_same_trans [OF _ fold_same])
    qed
  qed
  then show ?thesis by (auto intro: ck_same_norm)
qed

text \<open>The early carry keeps the sum below the sign bit, so that adding one more word does not overflow.\<close>

definition ck_rep :: "32 word \<Rightarrow> nat \<Rightarrow> bool" where
  "ck_rep s n \<longleftrightarrow> unat s < 2 ^ 31 \<and> ck_same (unat s) n"

lemma ck_rep_plus:
  assumes "ck_rep s n" and "unat w \<le> 65535"
  shows "ck_same (unat (s + w)) (n + unat w)" and "unat (s + w) = unat s + unat w"
proof -
  have "unat s + unat w < 2 ^ 32" using assms by (simp add: ck_rep_def)
  then show u: "unat (s + w) = unat s + unat w" by (simp add: unat_add_lem [THEN iffD1])
  show "ck_same (unat (s + w)) (n + unat w)"
    unfolding u using assms(1) by (auto simp: ck_rep_def intro: ck_same_add)
qed

lemma ck_rep_carry:
  assumes "ck_rep s n" and "unat w \<le> 65535"
  shows "ck_rep (ck_carry (s + w)) (n + unat w)"
proof (cases "(s + w) AND 0x80000000 \<noteq> 0")
  case True
  have "unat (s + w) < 2 ^ 32" using unsigned_less [of "s + w"] by simp
  then have "unat (s + w) div 65536 < 65536" by (simp add: less_mult_imp_div_less)
  then have "unat (ck_fold (s + w)) < 2 ^ 31"
    using mod_less_divisor [of 65536 "unat (s + w)"] unfolding unat_fold by simp
  then show ?thesis
    using True ck_rep_plus(1) [OF assms] fold_same [of "s + w"]
    by (auto simp: ck_rep_def ck_carry_def intro: ck_same_trans)
next
  case False
  then have "unat (s + w) < 2 ^ 31" using top_bit [of "s + w"] by auto
  with False show ?thesis
    using ck_rep_plus(1) [OF assms] by (auto simp: ck_rep_def ck_carry_def)
qed

lemma unat_octet_word [simp]: "unat (ucast (b :: octet) :: 32 word) = unat b"
  by (simp add: unsigned_ucast_eq take_bit_nat_eq_self unsigned_less [THEN less_trans])

lemma octet_less: "unat (b :: octet) < 256"
  using unsigned_less [of b] by simp

lemma ck_vec_loop_rep: "ck_rep s n \<Longrightarrow> ck_rep (ck_vec_loop i s bs) (n + ck_sum i bs)"
proof (induction bs arbitrary: i s n)
  case (Cons b bs)
  have "ck_rep (ck_carry (s + (if odd i then ucast b else ck_hi b))) (n + (if odd i then unat b else 256 * unat b))"
    using ck_rep_carry [OF Cons.prems, of "if odd i then ucast b else ck_hi b"] octet_less [of b]
    by (auto simp: unat_hi)
  from Cons.IH [OF this, of "i + 1"] show ?case by (simp add: add.assoc)
qed simp

lemma unat_pair: "unat (ck_hi a OR ucast (b :: octet)) = 256 * unat a + unat b"
proof -
  have "ck_hi a AND ucast b = 0"
  proof (rule bit_eqI)
    fix n
    show "bit (ck_hi a AND ucast b) n = bit (0 :: 32 word) n"
      by (auto simp: ck_hi_def bit_and_iff bit_push_bit_iff bit_ucast_iff dest: bit_imp_le_length)
  qed
  then have "ck_hi a OR ucast b = ck_hi a + ucast b"
    using word_plus_and_or [of "ck_hi a" "ucast b"] by simp
  moreover have "unat (ck_hi a + ucast b) = unat (ck_hi a) + unat (ucast b :: 32 word)"
    using octet_less [of a] octet_less [of b] by (simp add: unat_add_lem [THEN iffD1] unat_hi)
  ultimately show ?thesis by (simp add: unat_hi)
qed

lemma ck_ptr_loop_same: "even i \<Longrightarrow> ck_rep s n \<Longrightarrow> ck_same (unat (ck_ptr_loop s bs)) (n + ck_sum i bs)"
proof (induction s bs arbitrary: n i rule: ck_ptr_loop.induct)
  case (1 s a b bs)
  have "ck_rep (ck_carry (s + (ck_hi a OR ucast b))) (n + (256 * unat a + unat b))"
    using ck_rep_carry [OF "1.prems"(2), of "ck_hi a OR ucast b"] octet_less [of a] octet_less [of b]
    by (simp add: unat_pair)
  from "1.IH" [OF _ this, of "i + 2"] "1.prems"(1) show ?case by (simp add: add.assoc)
next
  case (2 s a)
  then show ?case
    using ck_rep_plus(1) [OF "2.prems"(2), of "ck_hi a"] octet_less [of a] by (simp add: unat_hi)
next
  case (3 s)
  then show ?case by (simp add: ck_rep_def)
qed

lemma ck_norm_less: "ck_norm n < 65536"
  by (simp add: ck_norm_def) 

lemma ck_norm_same: "ck_same (ck_norm n) n"
proof (cases "n = 0")
  case False
  then have "ck_norm n mod 65535 = (n - 1 + 1) mod 65535"
    unfolding ck_norm_def by (simp only: mod_add_left_eq if_False)
  with False show ?thesis by (simp add: ck_same_def ck_norm_def)
qed (simp add: ck_norm_def)

lemma ck_norm_cong: "ck_same m n \<Longrightarrow> ck_norm m = ck_norm n"
  by (rule ck_same_norm [OF ck_norm_less ck_same_trans [OF ck_norm_same]])

lemma unat_low16: "unat w < 65536 \<Longrightarrow> unat (ucast (w :: 32 word) :: 16 word) = unat w"
  by (simp add: unsigned_ucast_eq take_bit_nat_eq_self)

lemma checksum_vec_sum: "unat (checksum_vec bs) = ck_norm (ck_sum 0 bs)"
proof -
  have "ck_same (unat (ck_vec_loop 0 0 bs)) (ck_sum 0 bs)"
    using ck_vec_loop_rep [of 0 0 0 bs] by (simp add: ck_rep_def)
  then show ?thesis
    by (simp add: checksum_vec_def unat_low16 unat_finish ck_norm_less ck_norm_cong)
qed

lemma checksum_ptr_vec: "checksum_ptr bs = checksum_vec bs"
proof -
  have "ck_same (unat (ck_ptr_loop 0 bs)) (ck_sum 0 bs)"
    using ck_ptr_loop_same [of 0 0 0 bs] by (simp add: ck_rep_def)
  then have "unat (checksum_ptr bs) = ck_norm (ck_sum 0 bs)"
    by (simp add: checksum_ptr_def unat_low16 unat_finish ck_norm_less ck_norm_cong)
  then show ?thesis by (simp add: checksum_vec_sum word_unat_eq_iff)
qed

definition checksum :: "octet list \<Rightarrow> 16 word" where
  "checksum bs = NOT (checksum_vec bs)"

lemma unat_not16: "unat (NOT w :: 16 word) = 65535 - unat w"
proof -
  have "NOT w = 0xFFFF - w" by (simp add: not_eq_complement)
  moreover have "w \<le> 0xFFFF"
  proof -
    have "unat w < 65536" using unsigned_less [of w] by simp
    then show ?thesis by (simp add: word_le_nat_alt)
  qed
  ultimately show ?thesis by (simp add: unat_sub)
qed

lemma unat_checksum: "unat (checksum bs) = 65535 - ck_norm (ck_sum 0 bs)"
  by (simp add: checksum_def unat_not16 checksum_vec_sum)

text \<open>The ones' complement of the sum is zero or all ones exactly when the modulus divides the sum.\<close>

lemma ck_norm_divides: "ck_norm n = 0 \<or> ck_norm n = 65535 \<longleftrightarrow> 65535 dvd n"
proof -
  have "ck_norm n mod 65535 = n mod 65535" using ck_norm_same [of n] by (simp add: ck_same_def)
  moreover have "ck_norm n mod 65535 = 0 \<longleftrightarrow> ck_norm n = 0 \<or> ck_norm n = 65535"
    using ck_norm_less [of n] by (auto simp: mod_eq_0_iff_dvd elim!: dvdE)
  ultimately show ?thesis by (simp add: dvd_eq_mod_eq_0)
qed

lemma checksum_divides: "checksum bs = 0 \<or> checksum bs = 0xFFFF \<longleftrightarrow> 65535 dvd ck_sum 0 bs"
  using ck_norm_less [of "ck_sum 0 bs"]
  by (auto simp: word_unat_eq_iff unat_checksum simp flip: ck_norm_divides)

text \<open>C36: both routines, with their early carries in 32 bits, compute the ones' complement sum of the 16-bit words,
  for every number of bytes; the checksum is its complement, and vanishes or is all ones exactly when 65535 divides the sum.
\<close>

theorem checksum_routines_agree:
  "checksum_ptr bs = checksum_vec bs \<and> unat (checksum_vec bs) = ck_norm (ck_sum 0 bs) \<and>
   unat (checksum bs) = 65535 - ck_norm (ck_sum 0 bs) \<and>
   (checksum bs = 0 \<or> checksum bs = 0xFFFF) = (65535 dvd ck_sum 0 bs)"
  by (simp only: checksum_ptr_vec checksum_vec_sum unat_checksum checksum_divides)

end
