(* ===== verification/SV_UdpHeader.thy ===== *)
theory SV_UdpHeader
  imports SV_Checksum
begin

text \<open>
  The UDP header: its serializer, and the checksum the module inserts and verifies over the pseudo
  header, the header and the data (\<open>Udp::insertCrc\<close>, \<open>computeCrc\<close>, \<open>verifyCrc\<close>). The data of a datagram
  is a \<open>BytesChunk\<close>: its bytes and whether a bit error has been marked on it.
\<close>

section \<open>Header and data\<close>

datatype CrcMode = CRC_MODE_UNDEFINED | CRC_DISABLED | CRC_DECLARED_CORRECT | CRC_DECLARED_INCORRECT | CRC_COMPUTED

definition parseCrcMode :: "string \<Rightarrow> bool \<Rightarrow> CrcMode res" where
  "parseCrcMode s allowDisable =
     (if s = ''disabled'' then (if allowDisable then Inr CRC_DISABLED else throwr ''The 'disabled' CRC mode not allowed'')
      else if s = ''declared'' then Inr CRC_DECLARED_CORRECT
      else if s = ''declaredCorrect'' then Inr CRC_DECLARED_CORRECT
      else if s = ''declaredIncorrect'' then Inr CRC_DECLARED_INCORRECT
      else if s = ''computed'' then Inr CRC_COMPUTED
      else throwr ''Unknown CRC mode'')"

record udp_header =
  uh_srcPort :: "16 word"
  uh_destPort :: "16 word"
  uh_totalLength :: int         \<comment> \<open>bytes\<close>
  uh_crc :: "16 word"
  uh_crcMode :: CrcMode
  uh_correct :: bool            \<comment> \<open>\<open>isCorrect\<close>\<close>

definition new_udp_header :: udp_header where
  "new_udp_header = \<lparr>uh_srcPort = 0, uh_destPort = 0, uh_totalLength = -1, uh_crc = 0,
     uh_crcMode = CRC_MODE_UNDEFINED, uh_correct = True\<rparr>"

definition UDP_HEADER_LENGTH :: int where "UDP_HEADER_LENGTH = 8"
definition UDP_MAX_MESSAGE_SIZE :: int where "UDP_MAX_MESSAGE_SIZE = 65535"

record udp_data =
  ud_bytes :: "octet list"
  ud_correct :: bool

section \<open>Streams\<close>

definition writeUint16Be :: "16 word \<Rightarrow> octet list" where
  "writeUint16Be v = [ucast (drop_bit 8 v), ucast v]"

definition writeUint32Be :: "32 word \<Rightarrow> octet list" where
  "writeUint32Be v = [ucast (drop_bit 24 v), ucast (drop_bit 16 v), ucast (drop_bit 8 v), ucast v]"

definition writeIpv6Address :: "128 word \<Rightarrow> octet list" where
  "writeIpv6Address a =
     writeUint32Be (ucast (drop_bit 96 a)) @ writeUint32Be (ucast (drop_bit 64 a)) @
     writeUint32Be (ucast (drop_bit 32 a)) @ writeUint32Be (ucast a)"

fun readByte :: "octet list \<Rightarrow> octet \<times> octet list" where
  "readByte [] = (0, [])"
| "readByte (b # bs) = (b, bs)"

definition readUint16Be :: "octet list \<Rightarrow> 16 word \<times> octet list" where
  "readUint16Be bs = (let (hi, bs) = readByte bs; (lo, bs) = readByte bs in (push_bit 8 (ucast hi) OR ucast lo, bs))"

definition UdpHeader_serialize :: "udp_header \<Rightarrow> octet list res" where
  "UdpHeader_serialize h =
     (if uh_crcMode h \<noteq> CRC_DISABLED \<and> uh_crcMode h \<noteq> CRC_COMPUTED
      then throwr ''Cannot serialize UDP header without turned off or properly computed CRC''
      else Inr (writeUint16Be (uh_srcPort h) @ writeUint16Be (uh_destPort h) @
                writeUint16Be (word_of_int (uh_totalLength h)) @ writeUint16Be (uh_crc h)))"

definition UdpHeader_deserialize :: "octet list \<Rightarrow> udp_header \<times> octet list" where
  "UdpHeader_deserialize bs =
     (let (src, bs) = readUint16Be bs; (dest, bs) = readUint16Be bs; (len, bs) = readUint16Be bs; (crc, bs) = readUint16Be bs
      in (new_udp_header\<lparr>uh_srcPort := src, uh_destPort := dest, uh_totalLength := uint len, uh_crc := crc,
            uh_crcMode := (if crc = 0 then CRC_DISABLED else CRC_COMPUTED)\<rparr>, bs))"

section \<open>The checksum\<close>

definition toIpv6 :: "L3Address \<Rightarrow> 128 word res" where
  "toIpv6 a = (case a of L3_NONE \<Rightarrow> Inr 0 | L3_IPv6 x \<Rightarrow> Inr x | _ \<Rightarrow> throwr ''address is not of the given type'')"

definition IP_PROT_UDP :: octet where "IP_PROT_UDP = 17"

definition TransportPseudoHeader_serialize :: "protocol \<Rightarrow> L3Address \<Rightarrow> L3Address \<Rightarrow> octet \<Rightarrow> int \<Rightarrow> octet list res" where
  "TransportPseudoHeader_serialize networkProtocol src dest protocolId packetLength =
     (if networkProtocol = P_ipv4 then
        rbind (toIpv4 src) (\<lambda>s. rbind (toIpv4 dest) (\<lambda>d.
        Inr (writeUint32Be s @ writeUint32Be d @ [0, protocolId] @ writeUint16Be (word_of_int packetLength))))
      else if networkProtocol = P_ipv6 then
        rbind (toIpv6 src) (\<lambda>s. rbind (toIpv6 dest) (\<lambda>d.
        Inr (writeIpv6Address s @ writeIpv6Address d @ writeUint32Be (word_of_int packetLength) @ [0, 0, 0, protocolId])))
      else throwr ''Unknown network protocol'')"

definition computeCrc :: "protocol \<Rightarrow> L3Address \<Rightarrow> L3Address \<Rightarrow> udp_header \<Rightarrow> octet list \<Rightarrow> 16 word res" where
  "computeCrc networkProtocol src dest h udpData =
     (if networkProtocol \<noteq> P_ipv4 \<and> networkProtocol \<noteq> P_ipv6 then throwr ''Unknown network protocol''
      else
        rbind (TransportPseudoHeader_serialize networkProtocol src dest IP_PROT_UDP (UDP_HEADER_LENGTH + int (length udpData))) (\<lambda>ps.
        rbind (UdpHeader_serialize h) (\<lambda>hs.
        let crc = checksum (ps @ hs @ udpData)
        in Inr (if crc = 0 then 0xFFFF else crc))))"

text \<open>
  \<open>peekData(PF_ALLOW_EMPTY)\<close> of the whole data, and \<open>peekDataAt(0, length, PF_ALLOW_INCORRECT)\<close>: without
  \<open>PF_ALLOW_EMPTY\<close> an empty part is refused, and a proper part is a new chunk without an error mark.
\<close>

definition peekData :: "udp_data \<Rightarrow> octet list res" where
  "peekData d =
     (if ud_bytes d \<noteq> [] \<and> \<not> ud_correct d then throwr ''Returning an incorrect chunk is not allowed'' else Inr (ud_bytes d))"

definition peekDataAt :: "int \<Rightarrow> udp_data \<Rightarrow> udp_data res" where
  "peekDataAt n d =
     (if n < 0 \<or> n > int (length (ud_bytes d)) then throwr ''length is invalid''
      else if n = 0 then throwr ''Returning an empty chunk is not allowed''
      else if n = int (length (ud_bytes d)) then Inr d
      else Inr \<lparr>ud_bytes = take (nat n) (ud_bytes d), ud_correct = True\<rparr>)"

definition insertCrc :: "protocol \<Rightarrow> L3Address \<Rightarrow> L3Address \<Rightarrow> udp_header \<Rightarrow> udp_data \<Rightarrow> udp_header res" where
  "insertCrc networkProtocol src dest h d =
     (case uh_crcMode h of
        CRC_DISABLED \<Rightarrow> Inr (h\<lparr>uh_crc := 0\<rparr>)
      | CRC_DECLARED_CORRECT \<Rightarrow> Inr (h\<lparr>uh_crc := 0xC00D\<rparr>)
      | CRC_DECLARED_INCORRECT \<Rightarrow> Inr (h\<lparr>uh_crc := 0xBAAD\<rparr>)
      | CRC_COMPUTED \<Rightarrow>
          rbind (peekData d) (\<lambda>udpData.
          rbind (computeCrc networkProtocol src dest (h\<lparr>uh_crc := 0, uh_crcMode := CRC_DISABLED\<rparr>) udpData) (\<lambda>crc.
          Inr (h\<lparr>uh_crc := crc, uh_crcMode := CRC_COMPUTED\<rparr>)))
      | CRC_MODE_UNDEFINED \<Rightarrow> throwr ''Unknown CRC mode'')"

definition verifyCrc :: "protocol \<Rightarrow> L3Address \<Rightarrow> L3Address \<Rightarrow> udp_header \<Rightarrow> udp_data \<Rightarrow> bool res" where
  "verifyCrc networkProtocol src dest h d =
     (case uh_crcMode h of
        CRC_DISABLED \<Rightarrow> Inr (uh_crc h = 0)
      | CRC_DECLARED_CORRECT \<Rightarrow>
          rbind (peekDataAt (uh_totalLength h - UDP_HEADER_LENGTH) d) (\<lambda>part. Inr (uh_correct h \<and> ud_correct part))
      | CRC_DECLARED_INCORRECT \<Rightarrow> Inr False
      | CRC_COMPUTED \<Rightarrow>
          if uh_crc h = 0 then Inr True
          else rbind (peekDataAt (uh_totalLength h - UDP_HEADER_LENGTH) d) (\<lambda>part.
               rbind (computeCrc networkProtocol src dest h (ud_bytes part)) (\<lambda>computedCrc.
               Inr (computedCrc = 0xFFFF \<and> uh_correct h \<and> ud_correct part)))
      | CRC_MODE_UNDEFINED \<Rightarrow> throwr ''Unknown CRC mode'')"

section \<open>Sums of streams\<close>

lemma ck_sum_parity: "even i = even j \<Longrightarrow> ck_sum i bs = ck_sum j bs"
  by (induction bs arbitrary: i j) auto

lemma ck_sum_append: "ck_sum i (xs @ ys) = ck_sum i xs + ck_sum (i + length xs) ys"
  by (induction xs arbitrary: i) (auto simp: add.assoc)

lemma ck_sum_append_even: "even (length xs) \<Longrightarrow> even i \<Longrightarrow> ck_sum i (xs @ ys) = ck_sum i xs + ck_sum i ys"
  using ck_sum_parity [of "i + length xs" i ys] by (simp add: ck_sum_append)

lemma length_streams [simp]:
  "length (writeUint16Be v) = 2" "length (writeUint32Be w) = 4" "length (writeIpv6Address a) = 16"
  by (simp_all add: writeUint16Be_def writeUint32Be_def writeIpv6Address_def)

lemma ck_sum_writeUint16Be: "even i \<Longrightarrow> ck_sum i (writeUint16Be v) = unat v"
proof -
  have "unat v < 65536" using unsigned_less [of v] by simp
  then have "unat v div 256 < 256" by (simp add: less_mult_imp_div_less)
  then have "unat (ucast (drop_bit 8 v) :: octet) = unat v div 256"
    by (simp add: unsigned_ucast_eq take_bit_nat_eq_self drop_bit_eq_div unat_div)
  moreover have "unat (ucast v :: octet) = unat v mod 256"
    by (simp add: unsigned_ucast_eq take_bit_eq_mod)
  ultimately show "even i \<Longrightarrow> ck_sum i (writeUint16Be v) = unat v"
    by (simp add: writeUint16Be_def)
qed

lemma readUint16Be_write: "readUint16Be (writeUint16Be v @ bs) = (v, bs)"
proof -
  have "push_bit 8 (ucast (ucast (drop_bit 8 v) :: octet)) OR ucast (ucast v :: octet) = v"
    by (rule bit_eqI) (auto simp: bit_or_iff bit_push_bit_iff bit_ucast_iff bit_drop_bit_eq)
  then show ?thesis by (simp add: readUint16Be_def writeUint16Be_def)
qed

text \<open>Serializing and reading back.\<close>

lemma header_roundtrip:
  assumes "uh_correct h" and "0 \<le> uh_totalLength h" and "uh_totalLength h \<le> 65535"
    and "uh_crcMode h = (if uh_crc h = 0 then CRC_DISABLED else CRC_COMPUTED)"
  shows "\<exists>bs. UdpHeader_serialize h = Inr bs \<and> length bs = 8 \<and> UdpHeader_deserialize (bs @ rest) = (h, rest)"
  using assms
  by (cases h)
     (auto simp: UdpHeader_serialize_def UdpHeader_deserialize_def readUint16Be_write new_udp_header_def
        uint_word_of_int_eq take_bit_int_eq_self)

section \<open>What is inserted is accepted, and corruption is noticed\<close>

text \<open>The checksummed stream without the checksum field.\<close>

definition crc_stream :: "protocol \<Rightarrow> L3Address \<Rightarrow> L3Address \<Rightarrow> udp_header \<Rightarrow> octet list \<Rightarrow> (octet list \<times> octet list) res" where
  "crc_stream prot src dest h bs =
     rbind (TransportPseudoHeader_serialize prot src dest IP_PROT_UDP (UDP_HEADER_LENGTH + int (length bs))) (\<lambda>ps.
     Inr (ps @ writeUint16Be (uh_srcPort h) @ writeUint16Be (uh_destPort h) @ writeUint16Be (word_of_int (uh_totalLength h)), bs))"

lemma pseudo_even:
  "TransportPseudoHeader_serialize prot src dest p n = Inr ps \<Longrightarrow> even (length ps)"
  by (auto simp: TransportPseudoHeader_serialize_def split: if_splits)

lemma pseudo_prot:
  "TransportPseudoHeader_serialize prot src dest p n = Inr ps \<Longrightarrow> prot = P_ipv4 \<or> prot = P_ipv6"
  by (auto simp: TransportPseudoHeader_serialize_def split: if_splits)

lemma computeCrc_Inr:
  assumes "uh_crcMode h = CRC_DISABLED \<or> uh_crcMode h = CRC_COMPUTED"
  shows "computeCrc prot src dest h bs =
           rbind (crc_stream prot src dest h bs) (\<lambda>(xs, ys).
             let crc = checksum (xs @ writeUint16Be (uh_crc h) @ ys) in Inr (if crc = 0 then 0xFFFF else crc))"
proof (cases "prot = P_ipv4 \<or> prot = P_ipv6")
  case True
  then show ?thesis
    using assms
    by (cases "TransportPseudoHeader_serialize prot src dest IP_PROT_UDP (UDP_HEADER_LENGTH + int (length bs))")
       (auto simp: computeCrc_def crc_stream_def UdpHeader_serialize_def Let_def)
next
  case False
  then show ?thesis
    by (simp add: computeCrc_def crc_stream_def TransportPseudoHeader_serialize_def throwr_def)
qed

lemma crc_stream_even: "crc_stream prot src dest h bs = Inr (xs, ys) \<Longrightarrow> even (length xs) \<and> ys = bs"
  by (auto simp: crc_stream_def dest: pseudo_even)

lemma sum_with_crc:
  "even (length xs) \<Longrightarrow> ck_sum 0 (xs @ writeUint16Be c @ ys) = ck_sum 0 xs + ck_sum 0 ys + unat c"
  by (simp add: ck_sum_append_even ck_sum_writeUint16Be)

text \<open>The checksum completes the sum to a multiple of the modulus.\<close>

lemma crc_completes:
  assumes "even (length xs)" and "c = checksum (xs @ writeUint16Be 0 @ ys)" and "c' = (if c = 0 then 0xFFFF else c)"
  shows "65535 dvd ck_sum 0 (xs @ writeUint16Be c' @ ys)" and "c' \<noteq> 0"
proof -
  define n where "n = ck_sum 0 xs + ck_sum 0 ys"
  have c: "unat c = 65535 - ck_norm n"
    using assms(1,2) by (simp add: unat_checksum sum_with_crc n_def)
  have dvd: "65535 dvd (n + (65535 - ck_norm n))"
  proof -
    have "n mod 65535 = ck_norm n mod 65535" using ck_norm_same [of n] by (simp add: ck_same_def)
    then have "(n + (65535 - ck_norm n)) mod 65535 = (ck_norm n + (65535 - ck_norm n)) mod 65535"
      by (metis mod_add_left_eq)
    then show ?thesis using ck_norm_less [of n] by (simp add: dvd_eq_mod_eq_0)
  qed
  have "65535 dvd (n + unat c')"
  proof (cases "c = 0")
    case True
    then have "65535 dvd n" using dvd c by (simp add: unat_eq_zero)
    with True assms(3) show ?thesis by simp
  next
    case False
    with dvd c assms(3) show ?thesis by simp
  qed
  then show "65535 dvd ck_sum 0 (xs @ writeUint16Be c' @ ys)"
    using assms(1) by (simp add: sum_with_crc n_def)
  show "c' \<noteq> 0" using assms(3) by simp
qed

lemma computeCrc_accepts:
  assumes "uh_crcMode h = CRC_DISABLED \<or> uh_crcMode h = CRC_COMPUTED" and "crc_stream prot src dest h bs = Inr (xs, ys)"
  shows "computeCrc prot src dest h bs = Inr 0xFFFF \<longleftrightarrow> 65535 dvd ck_sum 0 (xs @ writeUint16Be (uh_crc h) @ ys)"
    and "\<exists>c. computeCrc prot src dest h bs = Inr c"
  using assms checksum_divides [of "xs @ writeUint16Be (uh_crc h) @ ys"]
  by (auto simp: computeCrc_Inr Let_def)

lemma crc_stream_field [simp]:
  "crc_stream prot src dest (h\<lparr>uh_crc := c, uh_crcMode := m\<rparr>) bs = crc_stream prot src dest h bs"
  by (simp add: crc_stream_def)

text \<open>What \<open>insertCrc\<close> stores in the computed mode.\<close>

lemma insertCrc_computed:
  assumes "insertCrc prot src dest h d = Inr h'" and "uh_crcMode h = CRC_COMPUTED"
  obtains c xs ys where "h' = h\<lparr>uh_crc := c, uh_crcMode := CRC_COMPUTED\<rparr>" "c \<noteq> 0"
    "crc_stream prot src dest h (ud_bytes d) = Inr (xs, ys)" "even (length xs)" "ys = ud_bytes d"
    "65535 dvd ck_sum 0 (xs @ writeUint16Be c @ ys)"
proof -
  from assms obtain c where c: "computeCrc prot src dest (h\<lparr>uh_crc := 0, uh_crcMode := CRC_DISABLED\<rparr>) (ud_bytes d) = Inr c"
    and h': "h' = h\<lparr>uh_crc := c, uh_crcMode := CRC_COMPUTED\<rparr>"
    by (auto simp: insertCrc_def peekData_def split: if_splits)
  from c obtain xs ys where xs: "crc_stream prot src dest h (ud_bytes d) = Inr (xs, ys)"
    and cs: "c = (if checksum (xs @ writeUint16Be 0 @ ys) = 0 then 0xFFFF else checksum (xs @ writeUint16Be 0 @ ys))"
    by (cases "crc_stream prot src dest h (ud_bytes d)") (auto simp: computeCrc_Inr Let_def)
  have ev: "even (length xs)" "ys = ud_bytes d" using crc_stream_even [OF xs] by simp_all
  show ?thesis
    using crc_completes [OF ev(1) refl cs] by (intro that [OF h' _ xs ev]) simp_all
qed

text \<open>Whatever follows the data as padding, a datagram is accepted with the checksum it was sent with.\<close>

theorem crc_accepted:
  assumes "insertCrc prot src dest h d = Inr h'" and "uh_correct h" and "ud_bytes d \<noteq> []" and "ud_correct d"
    and "uh_totalLength h = UDP_HEADER_LENGTH + int (length (ud_bytes d))"
  shows "verifyCrc prot src dest h' \<lparr>ud_bytes = ud_bytes d @ padding, ud_correct = True\<rparr> =
           Inr (uh_crcMode h \<noteq> CRC_DECLARED_INCORRECT)"
proof (cases "uh_crcMode h = CRC_COMPUTED")
  case True
  obtain c xs ys where h': "h' = h\<lparr>uh_crc := c, uh_crcMode := CRC_COMPUTED\<rparr>" and "c \<noteq> 0"
    and xs: "crc_stream prot src dest h (ud_bytes d) = Inr (xs, ys)" "ys = ud_bytes d"
    and "65535 dvd ck_sum 0 (xs @ writeUint16Be c @ ys)"
    by (rule insertCrc_computed [OF assms(1) True])
  then have "computeCrc prot src dest h' (ud_bytes d) = Inr 0xFFFF"
    by (subst computeCrc_accepts(1) [of h' prot src dest _ xs ys]) simp_all
  moreover have "uh_correct h'" "uh_crc h' \<noteq> 0" "uh_crcMode h' = CRC_COMPUTED" "uh_totalLength h' = uh_totalLength h"
    using h' \<open>c \<noteq> 0\<close> assms(2) by simp_all
  ultimately show ?thesis
    using assms(3,5) True by (simp add: verifyCrc_def peekDataAt_def)
next
  case False
  with assms show ?thesis
    by (auto simp: insertCrc_def verifyCrc_def peekDataAt_def throwr_def split: CrcMode.splits)
qed

lemma ck_sum_update:
  "k < length bs \<Longrightarrow> int (ck_sum i (bs[k := x])) =
     int (ck_sum i bs) + (if odd (i + k) then 1 else 256) * (int (unat x) - int (unat (bs ! k)))"
proof (induction bs arbitrary: i k)
  case (Cons b bs)
  show ?case
  proof (cases k)
    case 0
    then show ?thesis by (simp add: algebra_simps)
  next
    case (Suc n)
    with Cons.IH [of n "i + 1"] Cons.prems show ?thesis by simp
  qed
qed simp

lemma weight_bound:
  fixes a b :: nat
  assumes "a \<noteq> b" and "a < 256" and "b < 256"
  shows "(if P then 1 else 256) * (int a - int b) \<noteq> 0 \<and> \<bar>(if P then 1 else 256) * (int a - int b)\<bar> < 65535"
  using assms by (cases P) auto

text \<open>C35: A computed checksum notices every change of one byte of the data.\<close>

theorem crc_detects:
  assumes "insertCrc prot src dest h d = Inr h'" and "uh_crcMode h = CRC_COMPUTED"
    and "uh_totalLength h = UDP_HEADER_LENGTH + int (length (ud_bytes d))"
    and "k < length (ud_bytes d)" and "x \<noteq> ud_bytes d ! k"
  shows "verifyCrc prot src dest h' \<lparr>ud_bytes = (ud_bytes d)[k := x], ud_correct = True\<rparr> = Inr False"
proof -
  obtain c xs ys where h': "h' = h\<lparr>uh_crc := c, uh_crcMode := CRC_COMPUTED\<rparr>" and "c \<noteq> 0"
    and xs: "crc_stream prot src dest h (ud_bytes d) = Inr (xs, ys)" and ev: "even (length xs)" and ys: "ys = ud_bytes d"
    and dvd: "65535 dvd ck_sum 0 (xs @ writeUint16Be c @ ys)"
    by (rule insertCrc_computed [OF assms(1,2)])
  define zs where "zs = (ud_bytes d)[k := x]"
  define e where "e = (if odd k then 1 else 256) * (int (unat x) - int (unat (ud_bytes d ! k)))"
  have xs': "crc_stream prot src dest h' zs = Inr (xs, zs)"
    using xs h' by (auto simp: crc_stream_def zs_def)
  have "unat x \<noteq> unat (ud_bytes d ! k)" using assms(5) by (simp add: word_unat_eq_iff)
  then have e: "e \<noteq> 0 \<and> \<bar>e\<bar> < 65535"
    unfolding e_def by (rule weight_bound [OF _ octet_less octet_less])
  have "int (ck_sum 0 (xs @ writeUint16Be c @ zs)) = int (ck_sum 0 (xs @ writeUint16Be c @ ys)) + e"
    using ck_sum_update [OF assms(4), of 0 x] ev by (simp add: sum_with_crc zs_def ys e_def)
  moreover have "int 65535 dvd int (ck_sum 0 (xs @ writeUint16Be c @ ys))" using dvd by (simp only: int_dvd_int_iff)
  moreover have "\<not> int 65535 dvd e" using e dvd_imp_le_int [of e 65535] by auto
  ultimately have "\<not> int 65535 dvd int (ck_sum 0 (xs @ writeUint16Be c @ zs))"
    by (metis dvd_add_right_iff)
  then have nd: "\<not> 65535 dvd ck_sum 0 (xs @ writeUint16Be c @ zs)" by (simp only: int_dvd_int_iff) simp
  have m: "uh_crcMode h' = CRC_COMPUTED" "uh_crc h' = c" "uh_totalLength h' = uh_totalLength h"
    using h' by simp_all
  obtain r where r: "computeCrc prot src dest h' zs = Inr r"
    using computeCrc_accepts(2) [OF _ xs'] m(1) by auto
  with computeCrc_accepts(1) [OF _ xs'] m nd have "r \<noteq> 0xFFFF" by auto
  then show ?thesis
    using r m \<open>c \<noteq> 0\<close> assms(3,4) by (auto simp: verifyCrc_def peekDataAt_def zs_def)
qed

end
