(* ===== verification/SV_Udp_Options.thy ===== *)
theory SV_Udp_Options
  imports SV_Udp_Sockets SV_UdpHeader
begin

text \<open>
  The socket options of INET's \<open>Udp\<close>: time to live, broadcast, multicast groups and source filters. The
  interface table belongs to the network layer; the interfaces it lists are an argument, and what the
  module calls on them is logged in \<open>udp_out\<close>, with everything else that leaves the module.
\<close>

section \<open>What leaves the module\<close>

record iface =
  if_id :: int
  if_name :: string
  if_isMulticast :: bool

datatype mcast_mode = MCAST_INCLUDE_SOURCES | MCAST_EXCLUDE_SOURCES

datatype drop_reason = INCORRECTLY_RECEIVED | NO_PORT_FOUND

datatype udp_signal =
    packetReceivedFromUpperSignal | packetReceivedFromLowerSignal | packetReceivedSignal | packetSentSignal
  | packetSentToLowerSignal | packetSentToUpperSignal | packetDroppedSignal drop_reason

text \<open>
  A packet at the module: the UDP header at its front, if there is one, the data behind it, and the tags the
  module reads or writes. \<open>up_icmp\<close> is the content of an ICMP error: whether the ICMP checksum is right,
  whether the quoted datagram is its first fragment, and the quoted addresses and ports.
\<close>

record icmp_quote =
  iq_crcOk :: bool
  iq_dontFragment :: bool
  iq_fragmentOffset :: nat
  iq_src :: L3Address
  iq_dest :: L3Address
  iq_srcPort :: "16 word"
  iq_destPort :: "16 word"

record udp_packet =
  up_name :: string
  up_kind :: int
  up_header :: "udp_header option"
  up_data :: udp_data
  up_icmp :: "icmp_quote option"
  up_protocol :: "protocol option"                        \<comment> \<open>\<open>PacketProtocolTag\<close>\<close>
  up_dispatch :: "protocol option"                        \<comment> \<open>\<open>DispatchProtocolReq\<close>\<close>
  up_socketReq :: "int option"
  up_l3Req :: "(L3Address \<times> L3Address) option"            \<comment> \<open>source, destination\<close>
  up_portReq :: "(int \<times> int) option"                     \<comment> \<open>source, destination\<close>
  up_interfaceReq :: "int option"
  up_multicastReq :: "bool option"
  up_hopLimitReq :: "int option"
  up_dscpReq :: "int option"
  up_tosReq :: "int option"
  up_dontFragment :: "bool option"                        \<comment> \<open>\<open>FragmentationReq\<close>\<close>
  up_transportInd :: "(protocol \<times> udp_header) option"
  up_networkInd :: "(protocol \<times> nat) option"             \<comment> \<open>protocol and (the name of) the network header\<close>
  up_l3Ind :: "(L3Address \<times> L3Address) option"
  up_interfaceInd :: "int option"
  up_hopLimitInd :: "int option"
  up_socketInd :: "int option"
  up_portInd :: "(16 word \<times> 16 word) option"

datatype udp_out =
    JoinMulticastGroupIpv4 int ipv4                       \<comment> \<open>on the IPv4 data of the interface with this id\<close>
  | AssignAddressIpv6 int "128 word"
  | JoinMulticastGroup int L3Address
  | ChangeMulticastGroupMembership int L3Address mcast_mode "L3Address list" mcast_mode "L3Address list"
  | Emit udp_signal
  | SendIpOut udp_packet
  | SendAppOut udp_packet
  | ClosedIndication int                                  \<comment> \<open>\<open>UDP_I_SOCKET_CLOSED\<close> to this socket\<close>
  | ErrorIndication int L3Address L3Address int "16 word" \<comment> \<open>\<open>UDP_I_ERROR\<close>: socket, addresses, ports\<close>
  | SendErrorMessageIcmpv4 udp_packet nat int             \<comment> \<open>packet behind a network header, interface\<close>
  | SendErrorMessageIcmpv6 udp_packet nat

definition getInterfaceById :: "iface list \<Rightarrow> int \<Rightarrow> iface res" where
  "getInterfaceById ift i =
     (case List.find (\<lambda>ie. if_id ie = i) ift of None \<Rightarrow> throwr ''getInterfaceById(): no interface with this ID'' | Some ie \<Rightarrow> Inr ie)"

section \<open>Simple options\<close>

definition setTimeToLive :: "int \<Rightarrow> sock_desc \<Rightarrow> sock_desc" where "setTimeToLive v sd = sd\<lparr>ttl := v\<rparr>"
definition setDscp :: "int \<Rightarrow> sock_desc \<Rightarrow> sock_desc" where "setDscp v sd = sd\<lparr>dscp := v\<rparr>"
definition setTos :: "int \<Rightarrow> sock_desc \<Rightarrow> sock_desc" where "setTos v sd = sd\<lparr>tos := v\<rparr>"
definition setBroadcast :: "bool \<Rightarrow> sock_desc \<Rightarrow> sock_desc" where "setBroadcast v sd = sd\<lparr>isBroadcast := v\<rparr>"
definition setMulticastOutputInterface :: "int \<Rightarrow> sock_desc \<Rightarrow> sock_desc" where
  "setMulticastOutputInterface v sd = sd\<lparr>multicastOutputInterfaceId := v\<rparr>"
definition setMulticastLoop :: "bool \<Rightarrow> sock_desc \<Rightarrow> sock_desc" where "setMulticastLoop v sd = sd\<lparr>multicastLoop := v\<rparr>"
definition setReuseAddress :: "bool \<Rightarrow> sock_desc \<Rightarrow> sock_desc" where "setReuseAddress v sd = sd\<lparr>reuseAddr := v\<rparr>"

section \<open>Groups\<close>

definition addMulticastAddressToInterface :: "address_class \<Rightarrow> iface \<Rightarrow> L3Address \<Rightarrow> udp_out list res" where
  "addMulticastAddressToInterface C ie multicastAddr =
     rbind (assertr (if_isMulticast ie) ''ie && ie->isMulticast()'') (\<lambda>_.
     rbind (L3_isMulticast C multicastAddr) (\<lambda>m.
     rbind (assertr m ''multicastAddr.isMulticast()'') (\<lambda>_.
     Inr [case multicastAddr of
            L3_IPv4 a \<Rightarrow> JoinMulticastGroupIpv4 (if_id ie) a
          | L3_IPv6 a \<Rightarrow> AssignAddressIpv6 (if_id ie) a
          | _ \<Rightarrow> JoinMulticastGroup (if_id ie) multicastAddr])))"

fun addMulticastAddressToAll :: "address_class \<Rightarrow> iface list \<Rightarrow> L3Address \<Rightarrow> udp_out list res" where
  "addMulticastAddressToAll C [] multicastAddr = Inr []"
| "addMulticastAddressToAll C (ie # ies) multicastAddr =
     rbind (if if_isMulticast ie then addMulticastAddressToInterface C ie multicastAddr else Inr []) (\<lambda>out.
     rbind (addMulticastAddressToAll C ies multicastAddr) (\<lambda>out'. Inr (out @ out')))"

definition joinMulticastGroup :: "address_class \<Rightarrow> iface list \<Rightarrow> sock_desc \<Rightarrow> L3Address \<Rightarrow> int \<Rightarrow> (sock_desc \<times> udp_out list) res" where
  "joinMulticastGroup C ift sd multicastAddr interfaceId =
     rbind (L3_isMulticast C multicastAddr) (\<lambda>m.
     rbind (assertr m ''multicastAddr.isMulticast()'') (\<lambda>_.
     case findMulticastMembership multicastAddr interfaceId (multicastMembershipTable sd) of
       Some _ \<Rightarrow> rbind (getInterfaceById ift interfaceId) (\<lambda>_. throwr ''joinMulticastGroups(): group is already joined'')
     | None \<Rightarrow>
         (let membership = \<lparr>mm_address = multicastAddr, mm_interface = interfaceId,
                            mm_filter = UDP_EXCLUDE_MCAST_SOURCES, mm_sources = []\<rparr>;
              sd = sd\<lparr>multicastMembershipTable := addMulticastMembership membership (multicastMembershipTable sd)\<rparr>
          in if interfaceId \<noteq> -1
             then rbind (getInterfaceById ift interfaceId) (\<lambda>ie.
                  rbind (assertr (if_isMulticast ie) ''ie->isMulticast()'') (\<lambda>_.
                  rbind (addMulticastAddressToInterface C ie multicastAddr) (\<lambda>out. Inr (sd, out))))
             else rbind (addMulticastAddressToAll C ift multicastAddr) (\<lambda>out. Inr (sd, out)))))"

fun joinMulticastGroups ::
    "address_class \<Rightarrow> iface list \<Rightarrow> L3Address list \<Rightarrow> int list \<Rightarrow> sock_desc \<Rightarrow> (sock_desc \<times> udp_out list) res" where
  "joinMulticastGroups C ift [] interfaceIds sd = Inr (sd, [])"
| "joinMulticastGroups C ift (a # multicastAddresses) interfaceIds sd =
     rbind (joinMulticastGroup C ift sd a (case interfaceIds of [] \<Rightarrow> -1 | i # _ \<Rightarrow> i)) (\<lambda>(sd, out).
     rbind (joinMulticastGroups C ift multicastAddresses (tl interfaceIds) sd) (\<lambda>(sd, out'). Inr (sd, out @ out')))"

definition to_mcast_mode :: "filter_mode \<Rightarrow> mcast_mode" where
  "to_mcast_mode m = (if m = UDP_INCLUDE_MCAST_SOURCES then MCAST_INCLUDE_SOURCES else MCAST_EXCLUDE_SOURCES)"

text \<open>\<open>leaveMulticastGroups\<close>: the memberships of the group, from the first one found on.\<close>

definition leave_membership :: "iface list \<Rightarrow> membership \<Rightarrow> udp_out list res" where
  "leave_membership ift m =
     (let leave = (\<lambda>ie. ChangeMulticastGroupMembership (if_id ie) (mm_address m) (to_mcast_mode (mm_filter m)) (mm_sources m)
                          MCAST_INCLUDE_SOURCES [])
      in if mm_interface m \<noteq> -1 then rbind (getInterfaceById ift (mm_interface m)) (\<lambda>ie. Inr [leave ie])
         else Inr (map leave (filter if_isMulticast ift)))"

fun leave_loop :: "iface list \<Rightarrow> L3Address \<Rightarrow> membership list \<Rightarrow> (membership list \<times> udp_out list) res" where
  "leave_loop ift multicastAddress [] = Inr ([], [])"
| "leave_loop ift multicastAddress (m # ms) =
     (if mm_address m \<noteq> multicastAddress then Inr (m # ms, [])
      else rbind (leave_membership ift m) (\<lambda>out.
           rbind (leave_loop ift multicastAddress ms) (\<lambda>(ms, out'). Inr (ms, out @ out'))))"

fun leaveMulticastGroups :: "iface list \<Rightarrow> L3Address list \<Rightarrow> sock_desc \<Rightarrow> (sock_desc \<times> udp_out list) res" where
  "leaveMulticastGroups ift [] sd = Inr (sd, [])"
| "leaveMulticastGroups ift (a # multicastAddresses) sd =
     rbind (case findFirstMulticastMembership a (multicastMembershipTable sd) of
              None \<Rightarrow> Inr (sd, [])
            | Some i \<Rightarrow>
                rbind (leave_loop ift a (drop i (multicastMembershipTable sd))) (\<lambda>(ms, out).
                Inr (sd\<lparr>multicastMembershipTable := take i (multicastMembershipTable sd) @ ms\<rparr>, out))) (\<lambda>(sd, out).
     rbind (leaveMulticastGroups ift multicastAddresses sd) (\<lambda>(sd, out'). Inr (sd, out @ out')))"

section \<open>Source filters\<close>

text \<open>
  The checks the source filter options begin with; \<open>required\<close> tells the filter mode the membership must have. The
  position of the membership, which has to exist.
\<close>

definition member_position ::
    "address_class \<Rightarrow> iface \<Rightarrow> L3Address \<Rightarrow> (filter_mode \<Rightarrow> bool) \<Rightarrow> sock_desc \<Rightarrow> nat res" where
  "member_position C ie multicastAddress required sd =
     rbind (assertr (if_isMulticast ie) ''ie && ie->isMulticast()'') (\<lambda>_.
     rbind (L3_isMulticast C multicastAddress) (\<lambda>m.
     rbind (assertr m ''multicastAddress.isMulticast()'') (\<lambda>_.
     case findMulticastMembership multicastAddress (if_id ie) (multicastMembershipTable sd) of
       None \<Rightarrow> throwr ''not a member of this group on this interface''
     | Some i \<Rightarrow> if required (mm_filter (multicastMembershipTable sd ! i)) then Inr i
                 else throwr ''wrong filter mode of the membership'')))"

definition change_membership ::
    "nat \<Rightarrow> iface \<Rightarrow> mcast_mode \<Rightarrow> mcast_mode \<Rightarrow> L3Address list \<times> bool \<Rightarrow> sock_desc \<Rightarrow> sock_desc \<times> udp_out list" where
  "change_membership i ie oldMode newMode r sd =
     (let m = multicastMembershipTable sd ! i
      in (sd\<lparr>multicastMembershipTable := (multicastMembershipTable sd)[i := m\<lparr>mm_sources := fst r\<rparr>]\<rparr>,
          if snd r then [ChangeMulticastGroupMembership (if_id ie) (mm_address m) oldMode (mm_sources m) newMode (fst r)]
          else []))"

text \<open>The loops over the source list: the new sources and whether they changed.\<close>

fun push_found :: "L3Address list \<Rightarrow> L3Address list \<times> bool \<Rightarrow> L3Address list \<times> bool" where
  "push_found [] r = r"
| "push_found (a # sourceList) (sources, changed) =
     push_found sourceList (if a \<in> set sources then (sources @ [a], True) else (sources, changed))"

fun erase_found :: "L3Address list \<Rightarrow> L3Address list \<times> bool \<Rightarrow> L3Address list \<times> bool" where
  "erase_found [] r = r"
| "erase_found (a # sourceList) (sources, changed) =
     erase_found sourceList (if a \<in> set sources then (remove1 a sources, True) else (sources, changed))"

definition blockMulticastSources ::
    "address_class \<Rightarrow> iface \<Rightarrow> L3Address \<Rightarrow> L3Address list \<Rightarrow> sock_desc \<Rightarrow> (sock_desc \<times> udp_out list) res" where
  "blockMulticastSources C ie multicastAddress sourceList sd =
     rbind (member_position C ie multicastAddress (\<lambda>f. f = UDP_EXCLUDE_MCAST_SOURCES) sd) (\<lambda>i.
     Inr (change_membership i ie MCAST_EXCLUDE_SOURCES MCAST_EXCLUDE_SOURCES
            (push_found sourceList (mm_sources (multicastMembershipTable sd ! i), False)) sd))"

definition unblockMulticastSources ::
    "address_class \<Rightarrow> iface \<Rightarrow> L3Address \<Rightarrow> L3Address list \<Rightarrow> sock_desc \<Rightarrow> (sock_desc \<times> udp_out list) res" where
  "unblockMulticastSources C ie multicastAddress sourceList sd =
     rbind (member_position C ie multicastAddress (\<lambda>f. f = UDP_EXCLUDE_MCAST_SOURCES) sd) (\<lambda>i.
     Inr (change_membership i ie MCAST_EXCLUDE_SOURCES MCAST_EXCLUDE_SOURCES
            (erase_found sourceList (mm_sources (multicastMembershipTable sd ! i), False)) sd))"

definition leaveMulticastSources ::
    "address_class \<Rightarrow> iface \<Rightarrow> L3Address \<Rightarrow> L3Address list \<Rightarrow> sock_desc \<Rightarrow> (sock_desc \<times> udp_out list) res" where
  "leaveMulticastSources C ie multicastAddress sourceList sd =
     rbind (member_position C ie multicastAddress (\<lambda>f. f \<noteq> UDP_EXCLUDE_MCAST_SOURCES) sd) (\<lambda>i.
     let r = erase_found sourceList (mm_sources (multicastMembershipTable sd ! i), False);
         (sd, out) = change_membership i ie MCAST_EXCLUDE_SOURCES MCAST_EXCLUDE_SOURCES r sd
     in Inr (if fst r = [] then sd\<lparr>multicastMembershipTable := deleteMulticastMembership i (multicastMembershipTable sd)\<rparr>
             else sd, out))"

text \<open>\<open>joinMulticastSources\<close> and \<open>setMulticastSourceFilter\<close> create the membership when there is none.\<close>

definition ensure_membership :: "address_class \<Rightarrow> iface \<Rightarrow> L3Address \<Rightarrow> sock_desc \<Rightarrow> (nat \<times> sock_desc) res" where
  "ensure_membership C ie multicastAddress sd =
     rbind (assertr (if_isMulticast ie) ''ie && ie->isMulticast()'') (\<lambda>_.
     rbind (L3_isMulticast C multicastAddress) (\<lambda>m.
     rbind (assertr m ''multicastAddress.isMulticast()'') (\<lambda>_.
     case findMulticastMembership multicastAddress (if_id ie) (multicastMembershipTable sd) of
       Some i \<Rightarrow> Inr (i, sd)
     | None \<Rightarrow>
         (let membership = \<lparr>mm_address = multicastAddress, mm_interface = if_id ie,
                            mm_filter = UDP_INCLUDE_MCAST_SOURCES, mm_sources = []\<rparr>;
              tbl = multicastMembershipTable sd
          in Inr (lower_bound lessMembership tbl membership,
                  sd\<lparr>multicastMembershipTable := addMulticastMembership membership tbl\<rparr>)))))"

definition joinMulticastSources ::
    "address_class \<Rightarrow> iface \<Rightarrow> L3Address \<Rightarrow> L3Address list \<Rightarrow> sock_desc \<Rightarrow> (sock_desc \<times> udp_out list) res" where
  "joinMulticastSources C ie multicastAddress sourceList sd =
     rbind (ensure_membership C ie multicastAddress sd) (\<lambda>(i, sd).
     let m = multicastMembershipTable sd ! i
     in if mm_filter m = UDP_EXCLUDE_MCAST_SOURCES then throwr ''joinMulticastSources(): socket was joined to all sources''
        else Inr (change_membership i ie MCAST_INCLUDE_SOURCES MCAST_INCLUDE_SOURCES
                    (push_found sourceList (mm_sources m, False)) sd))"

definition setMulticastSourceFilter ::
    "address_class \<Rightarrow> iface \<Rightarrow> L3Address \<Rightarrow> filter_mode \<Rightarrow> L3Address list \<Rightarrow> sock_desc \<Rightarrow> (sock_desc \<times> udp_out list) res" where
  "setMulticastSourceFilter C ie multicastAddress filterMode sourceList sd =
     rbind (ensure_membership C ie multicastAddress sd) (\<lambda>(i, sd).
     let m = multicastMembershipTable sd ! i;
         changed = (mm_filter m \<noteq> filterMode \<or> mm_sources m \<noteq> sourceList)
     in if changed
        then Inr (sd\<lparr>multicastMembershipTable :=
                      (multicastMembershipTable sd)[i := m\<lparr>mm_filter := filterMode, mm_sources := sourceList\<rparr>]\<rparr>,
                  [ChangeMulticastGroupMembership (if_id ie) multicastAddress (to_mcast_mode (mm_filter m)) (mm_sources m)
                     (to_mcast_mode filterMode) sourceList])
        else Inr (sd, []))"

section \<open>The option command\<close>

datatype udp_option =
    OptTtl int | OptDscp int | OptTos int | OptBroadcast bool | OptMulticastInterface int | OptMulticastLoop bool
  | OptReuseAddress bool
  | OptJoinGroups "L3Address list" "int list"
  | OptLeaveGroups "L3Address list"
  | OptBlockSources int L3Address "L3Address list"
  | OptUnblockSources int L3Address "L3Address list"
  | OptLeaveSources int L3Address "L3Address list"
  | OptJoinSources int L3Address "L3Address list"
  | OptSourceFilter int L3Address filter_mode "L3Address list"
  | OptUnknown int

text \<open>The \<open>throw\<close> behind the last case of the source has no label and is never reached: an unknown code does nothing.\<close>

definition setOption :: "address_class \<Rightarrow> iface list \<Rightarrow> udp_option \<Rightarrow> sock_desc \<Rightarrow> (sock_desc \<times> udp_out list) res" where
  "setOption C ift opt sd =
     (case opt of
        OptTtl v \<Rightarrow> Inr (setTimeToLive v sd, [])
      | OptDscp v \<Rightarrow> Inr (setDscp v sd, [])
      | OptTos v \<Rightarrow> Inr (setTos v sd, [])
      | OptBroadcast v \<Rightarrow> Inr (setBroadcast v sd, [])
      | OptMulticastInterface v \<Rightarrow> Inr (setMulticastOutputInterface v sd, [])
      | OptMulticastLoop v \<Rightarrow> Inr (setMulticastLoop v sd, [])
      | OptReuseAddress v \<Rightarrow> Inr (setReuseAddress v sd, [])
      | OptJoinGroups addresses interfaceIds \<Rightarrow> joinMulticastGroups C ift addresses interfaceIds sd
      | OptLeaveGroups addresses \<Rightarrow> leaveMulticastGroups ift addresses sd
      | OptBlockSources i a s \<Rightarrow> rbind (getInterfaceById ift i) (\<lambda>ie. blockMulticastSources C ie a s sd)
      | OptUnblockSources i a s \<Rightarrow> rbind (getInterfaceById ift i) (\<lambda>ie. unblockMulticastSources C ie a s sd)
      | OptLeaveSources i a s \<Rightarrow> rbind (getInterfaceById ift i) (\<lambda>ie. leaveMulticastSources C ie a s sd)
      | OptJoinSources i a s \<Rightarrow> rbind (getInterfaceById ift i) (\<lambda>ie. joinMulticastSources C ie a s sd)
      | OptSourceFilter i a f s \<Rightarrow> rbind (getInterfaceById ift i) (\<lambda>ie. setMulticastSourceFilter C ie a f s sd)
      | OptUnknown _ \<Rightarrow> Inr (sd, []))"

end
