(* ===== verification/SV_Udp.thy ===== *)
theory SV_Udp
  imports SV_Udp_Options SV_Strings
begin

text \<open>
  INET's \<open>Udp\<close> module: the commands and packets of the applications, the packets and ICMP errors of the
  network layer, and the statistics. A handler takes the module's state and returns the new one with what
  left the module, in order; an exception is an error. \<open>udp_env\<close> holds what does not change: the
  checksum mode, the interfaces, and how addresses other than IPv4 and IPv6 are classified.
\<close>

record udp_env =
  ue_crcMode :: CrcMode
  ue_ift :: "iface list"
  ue_addresses :: address_class

record udp =
  sockets :: udp_sockets
  numSent :: nat
  numPassedUp :: nat
  numDroppedWrongPort :: nat
  numDroppedBadChecksum :: nat

definition udp_new :: udp where
  "udp_new = \<lparr>sockets = udp_sockets_new, numSent = 0, numPassedUp = 0, numDroppedWrongPort = 0, numDroppedBadChecksum = 0\<rparr>"

definition UDP_C_DATA :: int where "UDP_C_DATA = 0"
definition UDP_I_DATA :: int where "UDP_I_DATA = 0"

text \<open>\<open>getTag\<close>: a tag that has to be there.\<close>

definition getTag :: "'a option \<Rightarrow> 'a res" where
  "getTag t = (case t of None \<Rightarrow> throwr ''Tag is absent'' | Some x \<Rightarrow> Inr x)"

section \<open>Commands of the applications\<close>

datatype udp_command =
    UdpBindCommand L3Address int
  | UdpConnectCommand L3Address int
  | UdpSetOptionCommand udp_option
  | UdpCloseCommand
  | UdpDestroyCommand
  | UdpUnknownCommand int

definition set_option :: "udp_env \<Rightarrow> int \<Rightarrow> udp_option \<Rightarrow> udp_sockets \<Rightarrow> (udp_sockets \<times> udp_out list) res" where
  "set_option E socketId opt s =
     rbind (getOrCreateSocket socketId s) (\<lambda>(sd, s).
     rbind (setOption (ue_addresses E) (ue_ift E) opt sd) (\<lambda>(sd, out). Inr (store_socket sd s, out)))"

definition Udp_handleUpperCommand :: "udp_env \<Rightarrow> int option \<Rightarrow> udp_command \<Rightarrow> udp \<Rightarrow> (udp \<times> udp_out list) res" where
  "Udp_handleUpperCommand E socketReq cmd u =
     (case cmd of
        UdpBindCommand addr port \<Rightarrow>
          rbind (getTag socketReq) (\<lambda>socketId.
          rbind (udp_bind socketId addr port (sockets u)) (\<lambda>s. Inr (u\<lparr>sockets := s\<rparr>, [])))
      | UdpConnectCommand addr port \<Rightarrow>
          rbind (getTag socketReq) (\<lambda>socketId.
          rbind (udp_connect socketId addr port (sockets u)) (\<lambda>s. Inr (u\<lparr>sockets := s\<rparr>, [])))
      | UdpSetOptionCommand opt \<Rightarrow>
          rbind (getTag socketReq) (\<lambda>socketId.
          rbind (set_option E socketId opt (sockets u)) (\<lambda>(s, out). Inr (u\<lparr>sockets := s\<rparr>, out)))
      | UdpCloseCommand \<Rightarrow>
          rbind (getTag socketReq) (\<lambda>socketId.
          Inr (u\<lparr>sockets := destroySocket socketId (sockets u)\<rparr>, [ClosedIndication socketId]))
      | UdpDestroyCommand \<Rightarrow>
          rbind (getTag socketReq) (\<lambda>socketId.
          Inr (u\<lparr>sockets := destroySocket socketId (sockets u)\<rparr>, []))
      | UdpUnknownCommand _ \<Rightarrow> throwr ''Unknown command code (message kind) received from app'')"

section \<open>Packets of the applications\<close>

definition l3_protocol :: "L3Address \<Rightarrow> protocol" where
  "l3_protocol destAddr = (case destAddr of L3_IPv4 _ \<Rightarrow> P_ipv4 | L3_IPv6 _ \<Rightarrow> P_ipv6 | _ \<Rightarrow> P_nextHopForwarding)"

text \<open>Addresses and ports of a datagram: the requested ones, else those of the socket.\<close>

definition datagram_addresses :: "sock_desc \<Rightarrow> udp_packet \<Rightarrow> L3Address \<times> L3Address" where
  "datagram_addresses sd p =
     (let (src, dest) = (case up_l3Req p of None \<Rightarrow> (L3_NONE, L3_NONE) | Some r \<Rightarrow> r)
      in (if isUnspecified src then localAddr sd else src, if isUnspecified dest then remoteAddr sd else dest))"

definition datagram_ports :: "sock_desc \<Rightarrow> udp_packet \<Rightarrow> int \<times> int" where
  "datagram_ports sd p =
     (let (src, dest) = (case up_portReq p of None \<Rightarrow> (-1, -1) | Some r \<Rightarrow> r)
      in (if src = -1 then localPort sd else src, if dest = -1 then remotePort sd else dest))"

text \<open>The socket options become tags of the packet, unless the application set the tags itself.\<close>

definition option_tags :: "sock_desc \<Rightarrow> udp_packet \<Rightarrow> udp_packet res" where
  "option_tags sd p =
     (let p = (if up_multicastReq p = None then p\<lparr>up_multicastReq := Some (multicastLoop sd)\<rparr> else p);
          p = (if ttl sd \<noteq> -1 \<and> up_hopLimitReq p = None then p\<lparr>up_hopLimitReq := Some (ttl sd)\<rparr> else p);
          p = (if dscp sd \<noteq> -1 \<and> up_dscpReq p = None then p\<lparr>up_dscpReq := Some (dscp sd)\<rparr> else p)
      in if tos sd \<noteq> -1 \<and> up_tosReq p = None
         then (if up_dscpReq p \<noteq> None then throwr ''setting error: TOS and DSCP found together''
               else Inr (p\<lparr>up_tosReq := Some (tos sd)\<rparr>))
         else Inr p)"

definition Udp_handleUpperPacket :: "udp_env \<Rightarrow> udp_packet \<Rightarrow> udp \<Rightarrow> (udp \<times> udp_out list) res" where
  "Udp_handleUpperPacket E p u =
     rbind (if up_kind p \<noteq> UDP_C_DATA then throwr ''Unknown packet command code (message kind) received from app'' else Inr ()) (\<lambda>_.
     rbind (getTag (up_socketReq p)) (\<lambda>socketId.
     rbind (getOrCreateSocket socketId (sockets u)) (\<lambda>(sd, s).
     let (srcAddr, destAddr) = datagram_addresses sd p;
         (srcPort, destPort) = datagram_ports sd p;
         p = p\<lparr>up_socketReq := None, up_l3Req := Some (srcAddr, destAddr), up_portReq := None\<rparr>
     in rbind (assertr (up_interfaceReq p \<noteq> Some (-1)) ''interfaceReq == nullptr || interfaceReq->getInterfaceId() != -1'') (\<lambda>_.
     rbind (if up_interfaceReq p = None then L3_isMulticast (ue_addresses E) destAddr else Inr False) (\<lambda>mcast.
     let p = (if mcast \<and> multicastOutputInterfaceId sd \<noteq> -1
              then p\<lparr>up_interfaceReq := Some (multicastOutputInterfaceId sd)\<rparr> else p)
     in if isUnspecified destAddr then throwr ''send: unspecified destination address''
     else if destPort \<le> 0 \<or> destPort > 65535 then throwr ''send: invalid remote port number''
     else
     rbind (option_tags sd p) (\<lambda>p.
     let totalLength = UDP_HEADER_LENGTH + int (length (ud_bytes (up_data p)))
     in if totalLength > UDP_MAX_MESSAGE_SIZE then throwr ''send: total UDP message size exceeds 65535''
     else
     let h = new_udp_header\<lparr>uh_srcPort := word_of_int srcPort, uh_destPort := word_of_int destPort,
               uh_totalLength := totalLength, uh_crcMode := ue_crcMode E\<rparr>
     in rbind (if ue_crcMode E = CRC_COMPUTED then Inr (h\<lparr>uh_crc := 0\<rparr>)
               else insertCrc (l3_protocol destAddr) srcAddr destAddr h (up_data p)) (\<lambda>h.
     let p = p\<lparr>up_header := Some h, up_transportInd := Some (P_udp, h), up_protocol := Some P_udp,
               up_dispatch := Some (l3_protocol destAddr), up_kind := 0\<rparr>
     in Inr (u\<lparr>sockets := s, numSent := numSent u + 1\<rparr>,
             [Emit packetReceivedFromUpperSignal, Emit packetSentSignal, Emit packetSentToLowerSignal, SendIpOut p]))))))))"

text \<open>The hook behind the routing decision: the checksum of the packets this host sends.\<close>

definition datagramPostRoutingHook ::
    "protocol \<Rightarrow> L3Address \<Rightarrow> L3Address \<Rightarrow> bool \<Rightarrow> udp_packet \<Rightarrow> udp_packet res" where
  "datagramPostRoutingHook headerProtocol srcAddress destAddress isFragment p =
     (if up_interfaceInd p \<noteq> None then Inr p
      else rbind (getTag (up_protocol p)) (\<lambda>networkProtocol.
        if headerProtocol \<noteq> P_udp then Inr p
        else rbind (assertr (\<not> isFragment) ''!networkHeader->isFragment()'') (\<lambda>_.
             rbind (case up_header p of None \<Rightarrow> throwr ''no UdpHeader at the front'' | Some h \<Rightarrow> Inr h) (\<lambda>h.
             rbind (assertr (uh_crcMode h = CRC_COMPUTED) ''udpHeader->getCrcMode() == CRC_COMPUTED'') (\<lambda>_.
             rbind (insertCrc networkProtocol srcAddress destAddress h (up_data p)) (\<lambda>h.
             Inr (p\<lparr>up_header := Some h\<rparr>)))))))"

section \<open>Packets of the network layer\<close>

definition sendUp :: "udp_header \<Rightarrow> udp_packet \<Rightarrow> sock_desc \<Rightarrow> udp \<Rightarrow> udp \<times> udp_out list" where
  "sendUp h payload sd u =
     (u\<lparr>numPassedUp := numPassedUp u + 1\<rparr>,
      [Emit packetSentToUpperSignal,
       SendAppOut (payload\<lparr>up_kind := UDP_I_DATA, up_protocol := None, up_dispatch := None, up_socketInd := Some (sockId sd),
         up_transportInd := Some (P_udp, h), up_portInd := Some (uh_srcPort h, uh_destPort h)\<rparr>)])"

fun sendUp_all :: "udp_header \<Rightarrow> udp_packet \<Rightarrow> sock_desc list \<Rightarrow> udp \<Rightarrow> udp \<times> udp_out list" where
  "sendUp_all h payload [] u = (u, [])"
| "sendUp_all h payload (sd # sds) u =
     (let (u, out) = sendUp h payload sd u; (u, out') = sendUp_all h payload sds u in (u, out @ out'))"

text \<open>The packet has its UDP header at the front again.\<close>

definition processUndeliverablePacket :: "udp_packet \<Rightarrow> udp \<Rightarrow> (udp \<times> udp_out list) res" where
  "processUndeliverablePacket p u =
     rbind (case up_header p of None \<Rightarrow> throwr ''no UdpHeader at the front'' | Some h \<Rightarrow> Inr h) (\<lambda>h.
     let u = u\<lparr>numDroppedWrongPort := numDroppedWrongPort u + 1\<rparr>;
         p' = p\<lparr>up_name := ''Port '' @ print_nat (unat (uh_destPort h)) @ '' unreachable''\<rparr>
     in rbind (getTag (up_networkInd p)) (\<lambda>(protocol, networkHeader).
        rbind (getTag (up_interfaceInd p)) (\<lambda>inIe.
        if protocol = P_ipv4 then Inr (u, [Emit (packetDroppedSignal NO_PORT_FOUND), SendErrorMessageIcmpv4 p' networkHeader inIe])
        else if protocol = P_ipv6 then Inr (u, [Emit (packetDroppedSignal NO_PORT_FOUND), SendErrorMessageIcmpv6 p' networkHeader])
        else if protocol = P_nextHopForwarding then Inr (u, [Emit (packetDroppedSignal NO_PORT_FOUND)])
        else throwr ''packet arrived from lower layer with unrecognized NetworkProtocolInd'')))"

text \<open>\<open>totalLength\<close> includes the header, the data length it is compared with does not.\<close>

definition remove_padding :: "int \<Rightarrow> udp_data \<Rightarrow> udp_data" where
  "remove_padding totalLength d =
     (if totalLength < int (length (ud_bytes d)) then d\<lparr>ud_bytes := take (nat (totalLength - UDP_HEADER_LENGTH)) (ud_bytes d)\<rparr> else d)"

definition deliver_datagram ::
    "udp_env \<Rightarrow> udp_header \<Rightarrow> L3Address \<Rightarrow> L3Address \<Rightarrow> udp_packet \<Rightarrow> udp \<Rightarrow> (udp \<times> udp_out list) res" where
  "deliver_datagram E h srcAddr destAddr p u =
     rbind (L3_isMulticast (ue_addresses E) destAddr) (\<lambda>isMulticast'.
     rbind (L3_isBroadcast (ue_addresses E) destAddr) (\<lambda>isBroadcast'.
     if \<not> isMulticast' \<and> \<not> isBroadcast'
     then (case findSocketForUnicastPacket destAddr (uh_destPort h) srcAddr (uh_srcPort h) (sockets u) of
             None \<Rightarrow> processUndeliverablePacket (p\<lparr>up_header := Some h\<rparr>) u
           | Some sd \<Rightarrow> Inr (sendUp h p sd u))
     else
       rbind (findSocketsForMcastBcastPacket destAddr (uh_destPort h) srcAddr (uh_srcPort h) isMulticast' isBroadcast' (sockets u)) (\<lambda>sds.
       if sds = [] then processUndeliverablePacket (p\<lparr>up_header := Some h\<rparr>) u
       else Inr (sendUp_all h p sds u))))"

definition processUDPPacket :: "udp_env \<Rightarrow> udp_packet \<Rightarrow> udp \<Rightarrow> (udp \<times> udp_out list) res" where
  "processUDPPacket E p u =
     rbind (getTag (up_protocol p)) (\<lambda>_.
     rbind (case up_header p of None \<Rightarrow> throwr ''no UdpHeader at the front'' | Some h \<Rightarrow> Inr h) (\<lambda>h.
     rbind (getTag (up_l3Ind p)) (\<lambda>(srcAddr, destAddr).
     rbind (getTag (up_networkInd p)) (\<lambda>(networkProtocol, _).
     let p = p\<lparr>up_protocol := None, up_header := None\<rparr>;
         received = [Emit packetReceivedFromLowerSignal, Emit packetReceivedSignal];
         totalLength = uh_totalLength h;
         hasIncorrectLength = (totalLength < UDP_HEADER_LENGTH \<or> totalLength > UDP_HEADER_LENGTH + int (length (ud_bytes (up_data p))))
     in rbind (if hasIncorrectLength then Inr False else verifyCrc networkProtocol srcAddr destAddr h (up_data p)) (\<lambda>ok.
     if \<not> ok
     then Inr (u\<lparr>numDroppedBadChecksum := numDroppedBadChecksum u + 1\<rparr>, received @ [Emit (packetDroppedSignal INCORRECTLY_RECEIVED)])
     else rbind (deliver_datagram E h srcAddr destAddr (p\<lparr>up_data := remove_padding totalLength (up_data p)\<rparr>) u) (\<lambda>(u, out).
          Inr (u, received @ out)))))))"

text \<open>
  An ICMP error is reported to the socket that sent the quoted datagram, if that is its first fragment. For IPv6 the
  quote's \<open>iq_dontFragment\<close> means that it has no fragment header. An ICMP packet with a wrong checksum is dropped.
\<close>

definition processICMPError :: "icmp_quote \<Rightarrow> udp \<Rightarrow> udp_out list" where
  "processICMPError q u =
     (if \<not> iq_crcOk q then [Emit (packetDroppedSignal INCORRECTLY_RECEIVED)]
      else if iq_dontFragment q \<or> iq_fragmentOffset q = 0
      then (case findSocketForUnicastPacket (iq_src q) (iq_srcPort q) (iq_dest q) (iq_destPort q) (sockets u) of
              None \<Rightarrow> []
            | Some sd \<Rightarrow> [ErrorIndication (sockId sd) (iq_src q) (iq_dest q) (localPort sd) (iq_destPort q)])
      else [])"

definition Udp_handleLowerPacket :: "udp_env \<Rightarrow> udp_packet \<Rightarrow> udp \<Rightarrow> (udp \<times> udp_out list) res" where
  "Udp_handleLowerPacket E p u =
     rbind (getTag (up_protocol p)) (\<lambda>protocol.
     if protocol = P_udp then processUDPPacket E p u
     else if protocol = P_icmpv4 \<or> protocol = P_icmpv6 then
       (case up_icmp p of None \<Rightarrow> throwr ''no ICMP header at the front'' | Some q \<Rightarrow> Inr (u, processICMPError q u))
     else throwr ''Unknown protocol'')"

section \<open>Dispatch and lifecycle\<close>

datatype udp_message =
    AppCommand "int option" udp_command
  | AppPacket udp_packet
  | IpPacket udp_packet
  | IpCommand
  | SelfMessage
  | OtherGate

text \<open>\<open>LayeredProtocolBase::handleMessageWhenUp\<close>; the base class emits a signal of its own for a packet.\<close>

definition Udp_handleMessageWhenUp :: "udp_env \<Rightarrow> udp_message \<Rightarrow> udp \<Rightarrow> (udp \<times> udp_out list) res" where
  "Udp_handleMessageWhenUp E msg u =
     (case msg of
        SelfMessage \<Rightarrow> throwr ''Self message is not handled.''
      | AppCommand socketReq cmd \<Rightarrow> Udp_handleUpperCommand E socketReq cmd u
      | AppPacket p \<Rightarrow> rbind (Udp_handleUpperPacket E p u) (\<lambda>(u, out). Inr (u, Emit packetReceivedFromUpperSignal # out))
      | IpPacket p \<Rightarrow> rbind (Udp_handleLowerPacket E p u) (\<lambda>(u, out). Inr (u, Emit packetReceivedFromLowerSignal # out))
      | IpCommand \<Rightarrow> throwr ''Lower command is not handled.''
      | OtherGate \<Rightarrow> throwr ''Message received on unexpected gate'')"

definition Udp_handleStopOperation :: "udp \<Rightarrow> udp" where
  "Udp_handleStopOperation u = u\<lparr>sockets := clearAllSockets (sockets u)\<rparr>"

definition Udp_handleCrashOperation :: "udp \<Rightarrow> udp" where
  "Udp_handleCrashOperation u = u\<lparr>sockets := clearAllSockets (sockets u)\<rparr>"

definition Udp_handleStartOperation :: "udp \<Rightarrow> udp" where
  "Udp_handleStartOperation u = u"

end
