(* ===== verification/SV_Udp_Inv.thy ===== *)
theory SV_Udp_Inv
  imports SV_Udp
begin

text \<open>
  The invariant of the socket tables and its preservation by every operation of \<open>Udp\<close>: the two tables
  describe the same sockets, each socket is listed once, under its local port, and the ephemeral port stays
  in its range. A socket that counts as having only its local port set has no remote address. \<open>udp_reachable\<close> are the states the module can get into.
\<close>

section \<open>Ephemeral ports\<close>

lemma EPHEMERAL_vals [simp]: "EPHEMERAL_PORTRANGE_START = 1024" "EPHEMERAL_PORTRANGE_END = 5000"
  by (simp_all add: EPHEMERAL_PORTRANGE_START_def EPHEMERAL_PORTRANGE_END_def)

definition ephemeral :: "16 word \<Rightarrow> bool" where
  "ephemeral p \<longleftrightarrow> EPHEMERAL_PORTRANGE_START \<le> p \<and> p < EPHEMERAL_PORTRANGE_END"

text \<open>The distance the search still has to go, in the cyclic order of the range.\<close>

definition distance :: "16 word \<Rightarrow> 16 word \<Rightarrow> nat" where
  "distance p q = (if unat p \<le> unat q then unat q - unat p else unat q + 3976 - unat p)"

lemma unat_next:
  assumes "ephemeral p"
  shows "unat (next_ephemeral p) = (if unat p = 4999 then 1024 else unat p + 1)" and "ephemeral (next_ephemeral p)"
proof -
  have p: "1024 \<le> unat p" "unat p < 5000"
    using assms by (simp_all add: ephemeral_def word_le_nat_alt word_less_nat_alt)
  have s: "unat (p + 1) = unat p + 1" using p by (simp add: unat_plus_if')
  have "p + 1 = 5000 \<longleftrightarrow> unat p = 4999"
  proof -
    have "p + 1 = 5000 \<longleftrightarrow> unat (p + 1) = unat (5000 :: 16 word)" by (simp only: word_unat_eq_iff)
    then show ?thesis using s by simp
  qed
  then show u: "unat (next_ephemeral p) = (if unat p = 4999 then 1024 else unat p + 1)"
    using s by (simp add: next_ephemeral_def)
  show "ephemeral (next_ephemeral p)"
    using p by (simp add: ephemeral_def word_le_nat_alt word_less_nat_alt u)
qed

lemma ephemeral_unat: "ephemeral p \<longleftrightarrow> 1024 \<le> unat p \<and> unat p < 5000"
  by (simp add: ephemeral_def word_le_nat_alt word_less_nat_alt)

lemma distance_next:
  assumes "ephemeral p" and "ephemeral q" and "p \<noteq> q"
  shows "distance p q = Suc (distance (next_ephemeral p) q)"
proof -
  have "unat p \<noteq> unat q" using assms(3) by (simp add: word_unat_eq_iff)
  with assms(1,2) show ?thesis
    by (auto simp: distance_def unat_next(1) ephemeral_unat)
qed

text \<open>The search ends. It fails only if every port it looks at is in use, up to the one it stops at.\<close>

fun walk :: "nat \<Rightarrow> 16 word \<Rightarrow> 16 word list" where
  "walk 0 p = [p]"
| "walk (Suc n) p = p # walk n (next_ephemeral p)"

lemma ephemeral_loop_spec:
  assumes "ephemeral p" and "ephemeral q"
  shows "ephemeral_loop used q p =
           Some (case List.find (\<lambda>p. \<not> used p) (walk (distance p q) p) of
                   Some p' \<Rightarrow> Inr p'
                 | None \<Rightarrow> throwr ''Ephemeral port range exhausted, all ports occupied'')"
  using assms
proof (induction "distance p q" arbitrary: p)
  case 0
  then have "p = q" by (auto simp: distance_def ephemeral_unat word_unat_eq_iff split: if_splits)
  with 0 show ?case by (subst ephemeral_loop.simps) (simp add: distance_def)
next
  case (Suc n)
  then have ne: "p \<noteq> q" by (auto simp: distance_def)
  then have d: "distance p q = Suc (distance (next_ephemeral p) q)" using Suc.prems by (simp add: distance_next)
  with Suc have "ephemeral_loop used q (next_ephemeral p) =
      Some (case List.find (\<lambda>p. \<not> used p) (walk (distance (next_ephemeral p) q) (next_ephemeral p)) of
              Some p' \<Rightarrow> Inr p' | None \<Rightarrow> throwr ''Ephemeral port range exhausted, all ports occupied'')"
    by (intro Suc.hyps(1)) (simp_all add: unat_next(2))
  with ne d show ?case by (subst ephemeral_loop.simps) simp
qed

lemma walk_ephemeral: "ephemeral p \<Longrightarrow> p' \<in> set (walk n p) \<Longrightarrow> ephemeral p'"
  by (induction n p rule: walk.induct) (auto simp: unat_next(2))

lemma walk_unat:
  "ephemeral p \<Longrightarrow> p' \<in> set (walk n p) \<longleftrightarrow> ephemeral p' \<and> distance p p' \<le> n"
proof (induction n arbitrary: p)
  case 0
  then show ?case by (auto simp: distance_def ephemeral_unat word_unat_eq_iff split: if_splits)
next
  case (Suc n)
  then have "p' \<in> set (walk n (next_ephemeral p)) \<longleftrightarrow> ephemeral p' \<and> distance (next_ephemeral p) p' \<le> n"
    by (simp add: unat_next(2))
  moreover have "ephemeral p' \<and> distance p p' \<le> Suc n \<longleftrightarrow> p' = p \<or> ephemeral p' \<and> distance (next_ephemeral p) p' \<le> n"
  proof (cases "p' = p")
    case True
    with Suc.prems show ?thesis by (simp add: distance_def)
  next
    case False
    with Suc.prems show ?thesis by (auto simp: distance_next)
  qed
  ultimately show ?case by simp
qed

text \<open>Starting behind the last port, the search visits the whole range.\<close>

lemma walk_all:
  assumes "ephemeral q"
  shows "set (walk (distance (next_ephemeral q) q) (next_ephemeral q)) = {p. ephemeral p}"
proof -
  have "distance (next_ephemeral q) p \<le> distance (next_ephemeral q) q" if "ephemeral p" for p
    using that assms by (auto simp: distance_def unat_next(1) ephemeral_unat)
  then show ?thesis using walk_unat [OF unat_next(2) [OF assms]] by auto
qed

lemma getEphemeralPort_cases:
  assumes "ephemeral (lastEphemeralPort u)"
  obtains p where "getEphemeralPort u = Inr (p, u\<lparr>lastEphemeralPort := p\<rparr>)" "ephemeral p" "\<not> port_used u p"
  | "getEphemeralPort u = throwr ''Ephemeral port range exhausted, all ports occupied''" "\<forall>p. ephemeral p \<longrightarrow> port_used u p"
proof (cases "List.find (\<lambda>p. \<not> port_used u p)
         (walk (distance (next_ephemeral (lastEphemeralPort u)) (lastEphemeralPort u)) (next_ephemeral (lastEphemeralPort u)))")
  case None
  then have "\<forall>p. ephemeral p \<longrightarrow> port_used u p"
    using walk_all [OF assms] by (auto simp: find_None_iff)
  then show ?thesis
    using None by (intro that(2)) (simp_all add: getEphemeralPort_def ephemeral_loop_spec assms unat_next(2) throwr_def)
next
  case (Some p)
  then have "\<not> port_used u p" and "ephemeral p"
    using walk_all [OF assms] by (auto simp: find_Some_iff)
  then show ?thesis
    using Some by (intro that(1)) (simp_all add: getEphemeralPort_def ephemeral_loop_spec assms unat_next(2))
qed

section \<open>The invariant\<close>

definition udp_ok :: "udp_sockets \<Rightarrow> bool" where
  "udp_ok u \<longleftrightarrow>
     sm_inv (socketsByIdMap u) \<and> sm_inv (socketsByPortMap u) \<and> ephemeral (lastEphemeralPort u) \<and>
     (\<forall>i sd. sm_find (socketsByIdMap u) i = Some sd \<longrightarrow> sockId sd = i \<and> i \<in> set (port_list (localPort sd) u)) \<and>
     (\<forall>port i. i \<in> set (port_list port u) \<longrightarrow>
        (\<exists>sd. sm_find (socketsByIdMap u) i = Some sd \<and> localPort sd = port)) \<and>
     (\<forall>port. distinct (port_list port u))"

lemma udp_okI:
  assumes "sm_inv (socketsByIdMap u)" "sm_inv (socketsByPortMap u)" "ephemeral (lastEphemeralPort u)"
    and "\<And>i sd. sm_find (socketsByIdMap u) i = Some sd \<Longrightarrow> sockId sd = i"
    and "\<And>i sd. sm_find (socketsByIdMap u) i = Some sd \<Longrightarrow> i \<in> set (port_list (localPort sd) u)"
    and "\<And>port i. i \<in> set (port_list port u) \<Longrightarrow> \<exists>sd. sm_find (socketsByIdMap u) i = Some sd \<and> localPort sd = port"
    and "\<And>port. distinct (port_list port u)"
  shows "udp_ok u"
  using assms by (simp add: udp_ok_def)

lemma udp_okD:
  assumes "udp_ok u"
  shows "sm_inv (socketsByIdMap u)" "sm_inv (socketsByPortMap u)" "ephemeral (lastEphemeralPort u)"
    and "sm_find (socketsByIdMap u) i = Some sd \<Longrightarrow> sockId sd = i"
    and "sm_find (socketsByIdMap u) i = Some sd \<Longrightarrow> i \<in> set (port_list (localPort sd) u)"
    and "i \<in> set (port_list port u) \<Longrightarrow> \<exists>sd. sm_find (socketsByIdMap u) i = Some sd \<and> localPort sd = port"
    and "distinct (port_list port u)"
  using assms by (auto simp: udp_ok_def)

lemma udp_ok_new: "udp_ok udp_sockets_new"
  by (rule udp_okI) (simp_all add: udp_sockets_new_def port_list_def sm_find_def ephemeral_unat)

lemma udp_ok_clear: "udp_ok u \<Longrightarrow> udp_ok (clearAllSockets u)"
  by (rule udp_okI) (simp_all add: clearAllSockets_def port_list_def sm_find_def udp_okD)

lemma store_socket_simps [simp]:
  "socketsByPortMap (store_socket sd u) = socketsByPortMap u"
  "lastEphemeralPort (store_socket sd u) = lastEphemeralPort u"
  "port_list port (store_socket sd u) = port_list port u"
  "sm_inv (socketsByIdMap u) \<Longrightarrow> sm_find (socketsByIdMap (store_socket sd u)) = (sm_find (socketsByIdMap u))(sockId sd \<mapsto> sd)"
  "sm_inv (socketsByIdMap u) \<Longrightarrow> sm_inv (socketsByIdMap (store_socket sd u))"
  by (simp_all add: store_socket_def port_list_def)

lemma put_port_simps [simp]:
  "socketsByIdMap (u\<lparr>socketsByPortMap := sm_put port ids (socketsByPortMap u)\<rparr>) = socketsByIdMap u"
  "sm_inv (socketsByPortMap v) \<Longrightarrow>
     port_list port' (u\<lparr>socketsByPortMap := sm_put port ids (socketsByPortMap v)\<rparr>) = (if port' = port then ids else port_list port' v)"
  by (simp_all add: port_list_def)

text \<open>Changing a socket without moving it to another port.\<close>

lemma udp_ok_store:
  assumes "udp_ok u" and "sm_find (socketsByIdMap u) (sockId sd) = Some sd0" and "localPort sd = localPort sd0"
  shows "udp_ok (store_socket sd u)"
proof (rule udp_okI)
  fix i sd'
  assume "sm_find (socketsByIdMap (store_socket sd u)) i = Some sd'"
  then show "sockId sd' = i" "i \<in> set (port_list (localPort sd') (store_socket sd u))"
    using assms udp_okD [OF assms(1)] by (auto split: if_splits)
next
  fix port i
  assume "i \<in> set (port_list port (store_socket sd u))"
  then show "\<exists>sd'. sm_find (socketsByIdMap (store_socket sd u)) i = Some sd' \<and> localPort sd' = port"
    using assms udp_okD(6) [OF assms(1), of i port] udp_okD(1) [OF assms(1)] by auto
qed (use assms udp_okD [OF assms(1)] in simp_all)

lemma fresh_not_listed: "udp_ok u \<Longrightarrow> sm_find (socketsByIdMap u) i = None \<Longrightarrow> i \<notin> set (port_list port u)"
  using udp_okD(6) by fastforce

lemma getEphemeralPort_ok:
  assumes "udp_ok u" and "getEphemeralPort u = Inr (p, u')"
  shows "udp_ok u'" "socketsByIdMap u' = socketsByIdMap u" "socketsByPortMap u' = socketsByPortMap u"
    "ephemeral p" "\<not> port_used u p"
proof -
  have "u' = u\<lparr>lastEphemeralPort := p\<rparr> \<and> ephemeral p \<and> \<not> port_used u p"
    using assms by (cases rule: getEphemeralPort_cases [OF udp_okD(3) [OF assms(1)]]) auto
  then show "udp_ok u'" "socketsByIdMap u' = socketsByIdMap u" "socketsByPortMap u' = socketsByPortMap u"
    "ephemeral p" "\<not> port_used u p"
    using assms(1) by (auto simp: udp_ok_def port_list_def)
qed

text \<open>A new socket: its descriptor, and what the tables hold then.\<close>

lemma createSocket_ok:
  assumes "udp_ok u" and "sm_find (socketsByIdMap u) i = None" and "createSocket i la lp u = Inr (sd, u')"
  shows "udp_ok u'" "sm_find (socketsByIdMap u') = (sm_find (socketsByIdMap u))(i \<mapsto> sd)" "sockId sd = i"
    "port_list port u' = port_list port u @ (if port = localPort sd then [i] else [])"
    "lp \<noteq> -1 \<Longrightarrow> localPort sd = lp" "lp = -1 \<Longrightarrow> \<exists>p. localPort sd = uint p \<and> ephemeral p \<and> \<not> port_used u p"
proof -
  obtain lp' u1 where u1: "udp_ok u1" "socketsByIdMap u1 = socketsByIdMap u" "socketsByPortMap u1 = socketsByPortMap u"
    and lp': "lp \<noteq> -1 \<Longrightarrow> lp' = lp" "lp = -1 \<Longrightarrow> \<exists>p. lp' = uint p \<and> ephemeral p \<and> \<not> port_used u p"
    and sd: "sd = (SockDesc i)\<lparr>isBound := False, localAddr := la, localPort := lp', onlyLocalPortIsSet := isUnspecified la\<rparr>"
    and u': "u' = (let u = store_socket sd u1 in u\<lparr>socketsByPortMap := sm_put lp' (port_list lp' u @ [i]) (socketsByPortMap u)\<rparr>)"
  proof (cases "lp = -1")
    case True
    with assms(3) obtain p u1 where g: "getEphemeralPort u = Inr (p, u1)"
      by (auto simp: createSocket_def split: if_splits)
    note g_ok = getEphemeralPort_ok [OF assms(1) g]
    show ?thesis
      using True assms(3) g g_ok by (intro that [of u1 "uint p"]) (auto simp: createSocket_def Let_def)
  next
    case False
    then show ?thesis
      using assms by (intro that [of u lp]) (auto simp: createSocket_def Let_def)
  qed
  have sd_simps [simp]: "sockId sd = i" "localPort sd = lp'" by (simp_all add: sd SockDesc_def)
  have inv: "sm_inv (socketsByIdMap u)" "sm_inv (socketsByPortMap u)" using udp_okD [OF assms(1)] by simp_all
  have pl1: "port_list port u1 = port_list port u" for port by (simp add: port_list_def u1(3))
  show f: "sm_find (socketsByIdMap u') = (sm_find (socketsByIdMap u))(i \<mapsto> sd)"
    using inv by (simp add: u' Let_def u1(2))
  show pl: "port_list port u' = port_list port u @ (if port = localPort sd then [i] else [])" for port
    using inv by (simp add: u' Let_def u1(3) pl1)
  show "sockId sd = i" "lp \<noteq> -1 \<Longrightarrow> localPort sd = lp"
    "lp = -1 \<Longrightarrow> \<exists>p. localPort sd = uint p \<and> ephemeral p \<and> \<not> port_used u p"
    using lp' by simp_all
  show "udp_ok u'"
  proof (rule udp_okI)
    show "sm_inv (socketsByIdMap u')" "sm_inv (socketsByPortMap u')" "ephemeral (lastEphemeralPort u')"
      using inv udp_okD(3) [OF u1(1)] by (simp_all add: u' Let_def u1(2,3))
    show "distinct (port_list port u')" for port
      using udp_okD(7) [OF assms(1), of port] fresh_not_listed [OF assms(1,2), of port] by (auto simp: pl)
  next
    fix j sd'
    assume j: "sm_find (socketsByIdMap u') j = Some sd'"
    have "sockId sd' = j \<and> j \<in> set (port_list (localPort sd') u')"
    proof (cases "j = i")
      case True
      with j have "sd' = sd" by (simp add: f)
      with True show ?thesis by (simp add: pl)
    next
      case False
      with j show ?thesis using udp_okD(4,5) [OF assms(1), of j sd'] by (simp add: f pl)
    qed
    then show "sockId sd' = j" "j \<in> set (port_list (localPort sd') u')" by simp_all
  next
    fix port j
    assume "j \<in> set (port_list port u')"
    then show "\<exists>sd'. sm_find (socketsByIdMap u') j = Some sd' \<and> localPort sd' = port"
      using udp_okD(6) [OF assms(1), of j port] fresh_not_listed [OF assms(1,2), of port]
      by (auto simp: f pl split: if_splits)
  qed
qed

lemma getOrCreateSocket_ok:
  assumes "udp_ok u" and "getOrCreateSocket i u = Inr (sd, u')"
  shows "udp_ok u'" "sm_find (socketsByIdMap u') i = Some sd" "sockId sd = i"
    "j \<noteq> i \<Longrightarrow> sm_find (socketsByIdMap u') j = sm_find (socketsByIdMap u) j"
    "sm_find (socketsByIdMap u) i = Some sd0 \<Longrightarrow> sd = sd0 \<and> u' = u"
proof -
  have "udp_ok u' \<and> sm_find (socketsByIdMap u') i = Some sd \<and> sockId sd = i \<and>
      (j \<noteq> i \<longrightarrow> sm_find (socketsByIdMap u') j = sm_find (socketsByIdMap u) j) \<and>
      (sm_find (socketsByIdMap u) i = Some sd0 \<longrightarrow> sd = sd0 \<and> u' = u)"
  proof (cases "sm_find (socketsByIdMap u) i")
    case None
    with assms(2) have "createSocket i L3_NONE (-1) u = Inr (sd, u')"
      by (simp add: getOrCreateSocket_def split: if_splits)
    from createSocket_ok(1-3) [OF assms(1) None this] None show ?thesis by simp
  next
    case (Some sd')
    with assms show ?thesis by (auto simp: getOrCreateSocket_def dest: udp_okD(4) split: if_splits)
  qed
  then show "udp_ok u'" "sm_find (socketsByIdMap u') i = Some sd" "sockId sd = i"
    "j \<noteq> i \<Longrightarrow> sm_find (socketsByIdMap u') j = sm_find (socketsByIdMap u) j"
    "sm_find (socketsByIdMap u) i = Some sd0 \<Longrightarrow> sd = sd0 \<and> u' = u" by auto
qed

text \<open>A change of the descriptor that keeps its port may follow.\<close>

lemma getOrCreate_store_ok:
  assumes "udp_ok u" and "getOrCreateSocket i u = Inr (sd, u')" and "sockId sd' = sockId sd" and "localPort sd' = localPort sd"
  shows "udp_ok (store_socket sd' u')"
  using getOrCreateSocket_ok(1-3) [OF assms(1,2)] assms(3,4) by (auto intro: udp_ok_store)

lemma destroySocket_ok:
  assumes "udp_ok u"
  shows "udp_ok (destroySocket i u)"
    "sm_find (socketsByIdMap (destroySocket i u)) = (sm_find (socketsByIdMap u))(i := None)"
proof -
  have "udp_ok (destroySocket i u) \<and>
    sm_find (socketsByIdMap (destroySocket i u)) = (sm_find (socketsByIdMap u))(i := None)"
  proof (cases "sm_find (socketsByIdMap u) i")
    case None
    then show ?thesis using assms by (auto simp: destroySocket_def)
  next
    case (Some sd)
    define u' where "u' = destroySocket i u"
    have inv: "sm_inv (socketsByIdMap u)" "sm_inv (socketsByPortMap u)" using udp_okD [OF assms] by simp_all
    have f: "sm_find (socketsByIdMap u') = (sm_find (socketsByIdMap u))(i := None)"
      using Some inv by (simp add: u'_def destroySocket_def Let_def sm_find_erase)
    have pl: "port_list port u' = (if port = localPort sd then remove1 i (port_list port u) else port_list port u)" for port
      using Some inv by (auto simp: u'_def destroySocket_def Let_def sm_find_erase port_list_def)
    have d: "distinct (port_list port u)" for port using udp_okD(7) [OF assms] .
    have "udp_ok u'"
    proof (rule udp_okI)
      show "sm_inv (socketsByIdMap u')" "sm_inv (socketsByPortMap u')" "ephemeral (lastEphemeralPort u')"
        using Some inv udp_okD(3) [OF assms]
        by (simp_all add: u'_def destroySocket_def Let_def sm_inv_erase)
      show "distinct (port_list port u')" for port using d by (simp add: pl)
    next
      fix j sd'
      assume "sm_find (socketsByIdMap u') j = Some sd'"
      then show "sockId sd' = j" "j \<in> set (port_list (localPort sd') u')"
        using udp_okD(4,5) [OF assms, of j sd'] by (auto simp: f pl split: if_splits)
    next
      fix port j
      assume j: "j \<in> set (port_list port u')"
      then have "j \<in> set (port_list port u)" and ne: "port = localPort sd \<longrightarrow> j \<noteq> i"
        using d by (auto simp: pl split: if_splits)
      then obtain sd' where sd': "sm_find (socketsByIdMap u) j = Some sd'" "localPort sd' = port"
        using udp_okD(6) [OF assms] by blast
      then show "\<exists>sd'. sm_find (socketsByIdMap u') j = Some sd' \<and> localPort sd' = port"
        using ne Some by (auto simp: f)
    qed
    with f show ?thesis by (simp add: u'_def)
  qed
  then show "udp_ok (destroySocket i u)"
    "sm_find (socketsByIdMap (destroySocket i u)) = (sm_find (socketsByIdMap u))(i := None)" by simp_all
qed

text \<open>Moving a socket to the port it is bound to.\<close>

lemma move_port_ok:
  assumes "udp_ok u" and "sm_find (socketsByIdMap u) (sockId sd) = Some sd" and "port \<noteq> localPort sd"
  shows "udp_ok (move_port sd port u)"
    "sm_find (socketsByIdMap (move_port sd port u)) = (sm_find (socketsByIdMap u))(sockId sd \<mapsto> sd\<lparr>localPort := port\<rparr>)"
proof -
  define u' where "u' = move_port sd port u"
  have inv: "sm_inv (socketsByIdMap u)" "sm_inv (socketsByPortMap u)" using udp_okD [OF assms(1)] by simp_all
  have f: "sm_find (socketsByIdMap u') = (sm_find (socketsByIdMap u))(sockId sd \<mapsto> sd\<lparr>localPort := port\<rparr>)"
    using inv by (simp add: u'_def move_port_def Let_def store_socket_def)
  have pl: "port_list q u' = (if q = port then port_list q u @ [sockId sd]
      else if q = localPort sd then filter (\<lambda>i. i \<noteq> sockId sd) (port_list q u) else port_list q u)" for q
    using inv assms(3) by (auto simp: u'_def move_port_def Let_def store_socket_def port_list_def)
  have d: "distinct (port_list q u)" for q using udp_okD(7) [OF assms(1)] .
  have nin: "sockId sd \<notin> set (port_list port u)"
    using udp_okD(6) [OF assms(1), of "sockId sd" port] assms(2,3) by auto
  have "udp_ok u'"
  proof (rule udp_okI)
    show "sm_inv (socketsByIdMap u')" "sm_inv (socketsByPortMap u')" "ephemeral (lastEphemeralPort u')"
      using inv udp_okD(3) [OF assms(1)] by (simp_all add: u'_def move_port_def Let_def store_socket_def)
    show "distinct (port_list q u')" for q using d nin by (simp add: pl)
  next
    fix j sd'
    assume "sm_find (socketsByIdMap u') j = Some sd'"
    then show "sockId sd' = j" "j \<in> set (port_list (localPort sd') u')"
      using udp_okD(4,5) [OF assms(1), of j sd'] by (auto simp: f pl split: if_splits)
  next
    fix q j
    assume "j \<in> set (port_list q u')"
    then consider "j = sockId sd" "q = port" | "j \<noteq> sockId sd" "j \<in> set (port_list q u)"
      using udp_okD(6) [OF assms(1), of j q] assms(2)
      by (cases "j = sockId sd") (auto simp: pl split: if_splits)
    then show "\<exists>sd'. sm_find (socketsByIdMap u') j = Some sd' \<and> localPort sd' = q"
    proof cases
      case 1
      then show ?thesis by (simp add: f)
    next
      case 2
      then show ?thesis using udp_okD(6) [OF assms(1)] by (auto simp: f)
    qed
  qed
  with f show "udp_ok (move_port sd port u)"
    "sm_find (socketsByIdMap (move_port sd port u)) = (sm_find (socketsByIdMap u))(sockId sd \<mapsto> sd\<lparr>localPort := port\<rparr>)"
    by (simp_all add: u'_def)
qed

lemma udp_bind_ok:
  assumes "udp_ok u" and "udp_bind i la lp u = Inr u'"
  shows "udp_ok u'"
proof (cases "sm_find (socketsByIdMap u) i")
  case None
  with assms(2) obtain sd u1 where c: "createSocket i la lp u = Inr (sd, u1)" and u': "u' = store_socket (sd\<lparr>isBound := True\<rparr>) u1"
    by (auto simp: udp_bind_def Let_def split: if_splits option.splits)
  show ?thesis
    unfolding u' using createSocket_ok(1-3) [OF assms(1) None c] by (auto intro: udp_ok_store)
next
  case (Some sd)
  define sd' where "sd' = sd\<lparr>isBound := True, localAddr := la\<rparr>"
  have i: "sockId sd' = i" "localPort sd' = localPort sd"
    using udp_okD(4) [OF assms(1) Some] by (simp_all add: sd'_def)
  have s: "udp_ok (store_socket sd' u)" using Some i by (intro udp_ok_store [OF assms(1)]) simp_all
  have "u' = store_socket sd' u \<or> localPort sd' \<noteq> lp \<and> u' = move_port sd' lp (store_socket sd' u)"
    using assms(2) Some i by (auto simp: udp_bind_def Let_def sd'_def split: if_splits option.splits)
  then show ?thesis
    using s move_port_ok(1) [OF s, of sd' lp] udp_okD(1) [OF assms(1)] by auto
qed

lemma udp_connect_ok: "udp_ok u \<Longrightarrow> udp_connect i ra rp u = Inr u' \<Longrightarrow> udp_ok u'"
  by (auto simp: udp_connect_def split: if_splits elim!: getOrCreate_store_ok)

section \<open>Options keep a socket where it is\<close>

definition keeps :: "sock_desc \<Rightarrow> sock_desc \<Rightarrow> bool" where
  "keeps sd sd' \<longleftrightarrow> sockId sd' = sockId sd \<and> localPort sd' = localPort sd \<and> localAddr sd' = localAddr sd \<and>
     remoteAddr sd' = remoteAddr sd \<and> remotePort sd' = remotePort sd \<and> isBound sd' = isBound sd \<and>
     onlyLocalPortIsSet sd' = onlyLocalPortIsSet sd"

lemma keeps_refl [simp]: "keeps sd sd"
  by (simp add: keeps_def)

lemma keeps_trans: "keeps a b \<Longrightarrow> keeps b c \<Longrightarrow> keeps a c"
  by (simp add: keeps_def)

lemma keeps_table [simp]: "keeps sd (sd\<lparr>multicastMembershipTable := t\<rparr>)"
  by (simp add: keeps_def)

lemma joinMulticastGroup_keeps: "joinMulticastGroup C ift sd a i = Inr (sd', out) \<Longrightarrow> keeps sd sd'"
  by (auto simp: joinMulticastGroup_def Let_def split: option.splits if_splits)

lemma joinMulticastGroups_keeps: "joinMulticastGroups C ift as is sd = Inr (sd', out) \<Longrightarrow> keeps sd sd'"
proof (induction C ift as "is" sd arbitrary: sd' out rule: joinMulticastGroups.induct)
  case (2 C ift a as "is" sd)
  from "2.prems" obtain sd1 o1 o2 where "joinMulticastGroup C ift sd a (case is of [] \<Rightarrow> -1 | i # _ \<Rightarrow> i) = Inr (sd1, o1)"
    and "joinMulticastGroups C ift as (tl is) sd1 = Inr (sd', o2)" by auto
  with "2.IH" show ?case by (blast intro: keeps_trans joinMulticastGroup_keeps)
qed simp

lemma leaveMulticastGroups_keeps: "leaveMulticastGroups ift as sd = Inr (sd', out) \<Longrightarrow> keeps sd sd'"
proof (induction ift as sd arbitrary: sd' out rule: leaveMulticastGroups.induct)
  case (2 ift a as sd)
  from "2.prems" obtain sd1 o2 where "keeps sd sd1" and "leaveMulticastGroups ift as sd1 = Inr (sd', o2)"
    by (auto split: option.splits intro: that [OF keeps_refl] that [OF keeps_table])
  with "2.IH" show ?case by (blast intro: keeps_trans)
qed simp

lemma change_membership_keeps: "change_membership i ie m m' r sd = (sd', out) \<Longrightarrow> keeps sd sd'"
  by (auto simp: change_membership_def Let_def)

lemma ensure_membership_keeps: "ensure_membership C ie a sd = Inr (i, sd') \<Longrightarrow> keeps sd sd'"
  by (auto simp: ensure_membership_def Let_def split: option.splits)

lemma setOption_keeps:
  assumes "setOption C ift opt sd = Inr (sd', out)"
  shows "keeps sd sd'"
proof (cases opt)
  case (OptBlockSources i a s)
  with assms show ?thesis
    by (auto simp: setOption_def blockMulticastSources_def dest: change_membership_keeps)
next
  case (OptUnblockSources i a s)
  with assms show ?thesis
    by (auto simp: setOption_def unblockMulticastSources_def dest: change_membership_keeps)
next
  case (OptLeaveSources i a s)
  with assms show ?thesis
    by (auto simp: setOption_def leaveMulticastSources_def Let_def keeps_def
        dest!: change_membership_keeps split: prod.splits if_splits)
next
  case (OptJoinSources i a s)
  with assms show ?thesis
    by (auto simp: setOption_def joinMulticastSources_def Let_def split: if_splits
        intro: keeps_trans dest!: ensure_membership_keeps change_membership_keeps)
next
  case (OptSourceFilter i a f s)
  with assms show ?thesis
    by (auto simp: setOption_def setMulticastSourceFilter_def Let_def split: if_splits
        intro: keeps_trans [OF _ keeps_table] dest!: ensure_membership_keeps)
qed (use assms in \<open>auto simp: setOption_def keeps_def setTimeToLive_def setDscp_def setTos_def setBroadcast_def
        setMulticastOutputInterface_def setMulticastLoop_def setReuseAddress_def
        dest!: joinMulticastGroups_keeps leaveMulticastGroups_keeps\<close>)

section \<open>The handlers\<close>

lemma set_option_ok:
  assumes "udp_ok s" and "set_option E i opt s = Inr (s', out)"
  shows "udp_ok s'"
proof -
  from assms(2) obtain sd s1 sd' where g: "getOrCreateSocket i s = Inr (sd, s1)"
    and o: "setOption (ue_addresses E) (ue_ift E) opt sd = Inr (sd', out)" and s': "s' = store_socket sd' s1"
    by (auto simp: set_option_def)
  from setOption_keeps [OF o] show ?thesis
    unfolding s' by (intro getOrCreate_store_ok [OF assms(1) g]) (simp_all add: keeps_def)
qed

lemma handleUpperCommand_ok:
  "udp_ok (sockets u) \<Longrightarrow> Udp_handleUpperCommand E r cmd u = Inr (u', out) \<Longrightarrow> udp_ok (sockets u')"
  by (cases cmd)
     (auto simp: Udp_handleUpperCommand_def destroySocket_ok(1) intro: udp_bind_ok udp_connect_ok set_option_ok)

text \<open>What a datagram of an application becomes.\<close>

lemma option_tags_keep:
  "option_tags sd p = Inr p' \<Longrightarrow> up_data p' = up_data p \<and> up_l3Req p' = up_l3Req p \<and> up_name p' = up_name p \<and>
     up_multicastReq p' \<noteq> None \<and> up_interfaceInd p' = up_interfaceInd p"
  by (auto simp: option_tags_def Let_def split: if_splits)

lemma insertCrc_fields:
  "insertCrc prot src dest h d = Inr h' \<Longrightarrow>
     uh_srcPort h' = uh_srcPort h \<and> uh_destPort h' = uh_destPort h \<and> uh_totalLength h' = uh_totalLength h \<and>
     uh_crcMode h' = uh_crcMode h \<and> uh_correct h' = uh_correct h"
  by (auto simp: insertCrc_def split: CrcMode.splits)

lemma handleUpperPacket_Inr:
  assumes "Udp_handleUpperPacket E p u = Inr (u', out)"
  obtains i sd s p' h where "up_socketReq p = Some i" "getOrCreateSocket i (sockets u) = Inr (sd, s)"
    "u' = u\<lparr>sockets := s, numSent := numSent u + 1\<rparr>"
    "out = [Emit packetReceivedFromUpperSignal, Emit packetSentSignal, Emit packetSentToLowerSignal, SendIpOut p']"
    "up_header p' = Some h" "up_data p' = up_data p"
    "up_dispatch p' = Some (l3_protocol (snd (datagram_addresses sd p)))"
    "up_l3Req p' = Some (datagram_addresses sd p)" "\<not> isUnspecified (snd (datagram_addresses sd p))"
    "uh_srcPort h = word_of_int (fst (datagram_ports sd p))" "uh_destPort h = word_of_int (snd (datagram_ports sd p))"
    "0 < snd (datagram_ports sd p)" "snd (datagram_ports sd p) \<le> 65535"
    "uh_totalLength h = UDP_HEADER_LENGTH + int (length (ud_bytes (up_data p)))" "uh_totalLength h \<le> 65535"
    "uh_crcMode h = ue_crcMode E" "uh_correct h" "up_interfaceInd p' = up_interfaceInd p"
    "ue_crcMode E \<noteq> CRC_COMPUTED \<Longrightarrow> \<exists>h0 prot src dest. insertCrc prot src dest h0 (up_data p) = Inr h \<and> uh_correct h0 \<and>
       uh_totalLength h0 = uh_totalLength h \<and> uh_crcMode h0 = uh_crcMode h"
proof -
  from assms obtain i where i: "up_socketReq p = Some i"
    by (cases "up_socketReq p") (auto simp: Udp_handleUpperPacket_def getTag_def split: if_splits)
  from assms i obtain sd s where g: "getOrCreateSocket i (sockets u) = Inr (sd, s)"
    by (auto simp: Udp_handleUpperPacket_def getTag_def split: if_splits)
  obtain src dest where a: "datagram_addresses sd p = (src, dest)" by (cases "datagram_addresses sd p")
  obtain srcPort destPort where ports: "datagram_ports sd p = (srcPort, destPort)" by (cases "datagram_ports sd p")
  define n where "n = UDP_HEADER_LENGTH + int (length (ud_bytes (up_data p)))"
  define h0 where "h0 = new_udp_header\<lparr>uh_srcPort := word_of_int srcPort, uh_destPort := word_of_int destPort,
               uh_totalLength := n, uh_crcMode := ue_crcMode E\<rparr>"
  from assms i g a ports obtain mcast where
    m: "(if up_interfaceReq p = None then L3_isMulticast (ue_addresses E) dest else Inr False) = Inr mcast"
    by (auto simp: Udp_handleUpperPacket_def getTag_def Let_def split: if_splits)
  from assms have k: "up_kind p = UDP_C_DATA" "up_interfaceReq p \<noteq> Some (-1)"
    by (auto simp: Udp_handleUpperPacket_def Let_def split: if_splits prod.splits)
  define p0 where "p0 = p\<lparr>up_socketReq := None, up_l3Req := Some (src, dest), up_portReq := None\<rparr>"
  define p1 where "p1 = (if mcast \<and> multicastOutputInterfaceId sd \<noteq> -1
                    then p0\<lparr>up_interfaceReq := Some (multicastOutputInterfaceId sd)\<rparr> else p0)"
  have p0_simps: "up_interfaceReq p0 = up_interfaceReq p" "up_data p0 = up_data p" "up_data p1 = up_data p"
    "up_l3Req p1 = Some (src, dest)"
    by (simp_all add: p0_def p1_def)
  have "Udp_handleUpperPacket E p u = (if isUnspecified dest then throwr ''send: unspecified destination address''
     else if destPort \<le> 0 \<or> destPort > 65535 then throwr ''send: invalid remote port number''
     else rbind (option_tags sd p1) (\<lambda>p.
       let totalLength = UDP_HEADER_LENGTH + int (length (ud_bytes (up_data p)))
       in if totalLength > UDP_MAX_MESSAGE_SIZE then throwr ''send: total UDP message size exceeds 65535''
       else
       let h = new_udp_header\<lparr>uh_srcPort := word_of_int srcPort, uh_destPort := word_of_int destPort,
               uh_totalLength := totalLength, uh_crcMode := ue_crcMode E\<rparr>
       in rbind (if ue_crcMode E = CRC_COMPUTED then Inr (h\<lparr>uh_crc := 0\<rparr>)
               else insertCrc (l3_protocol dest) src dest h (up_data p)) (\<lambda>h.
       let p = p\<lparr>up_header := Some h, up_transportInd := Some (P_udp, h), up_protocol := Some P_udp,
               up_dispatch := Some (l3_protocol dest), up_kind := 0\<rparr>
       in Inr (u\<lparr>sockets := s, numSent := numSent u + 1\<rparr>,
             [Emit packetReceivedFromUpperSignal, Emit packetSentSignal, Emit packetSentToLowerSignal, SendIpOut p]))))"
    by (simp add: Udp_handleUpperPacket_def getTag_def i g a ports k m p0_simps(1) p1_def flip: p0_def)
  note rest = assms [unfolded this]
  from rest have bounds: "\<not> isUnspecified dest" "0 < destPort" "destPort \<le> 65535"
    by (auto split: if_splits)
  with rest obtain p2 where p2: "option_tags sd p1 = Inr p2"
    by (auto split: if_splits)
  have keep: "up_data p2 = up_data p" "up_l3Req p2 = Some (src, dest)" "up_interfaceInd p2 = up_interfaceInd p"
    using option_tags_keep [OF p2] by (simp_all add: p0_simps) (simp add: p1_def p0_def)
  have len: "n \<le> 65535"
    using rest bounds p2 keep by (simp add: n_def UDP_MAX_MESSAGE_SIZE_def Let_def split: if_splits)
  define r where "r = (if ue_crcMode E = CRC_COMPUTED then Inr (h0\<lparr>uh_crc := 0\<rparr>)
             else insertCrc (l3_protocol dest) src dest h0 (up_data p))"
  have "rbind r (\<lambda>h. Inr (u\<lparr>sockets := s, numSent := numSent u + 1\<rparr>,
      [Emit packetReceivedFromUpperSignal, Emit packetSentSignal, Emit packetSentToLowerSignal,
        SendIpOut (p2\<lparr>up_header := Some h, up_transportInd := Some (P_udp, h), up_protocol := Some P_udp,
               up_dispatch := Some (l3_protocol dest), up_kind := 0\<rparr>)])) = Inr (u', out)"
    using rest bounds p2 keep len unfolding r_def h0_def n_def
    by (cases "ue_crcMode E = CRC_COMPUTED") (simp_all add: UDP_MAX_MESSAGE_SIZE_def Let_def)
  then obtain h where h: "r = Inr h"
    and out: "out = [Emit packetReceivedFromUpperSignal, Emit packetSentSignal, Emit packetSentToLowerSignal,
        SendIpOut (p2\<lparr>up_header := Some h, up_transportInd := Some (P_udp, h), up_protocol := Some P_udp,
               up_dispatch := Some (l3_protocol dest), up_kind := 0\<rparr>)]"
    and u': "u' = u\<lparr>sockets := s, numSent := numSent u + 1\<rparr>"
    by (cases r) simp_all
  have hf: "uh_srcPort h = uh_srcPort h0" "uh_destPort h = uh_destPort h0" "uh_totalLength h = uh_totalLength h0"
      "uh_crcMode h = uh_crcMode h0" "uh_correct h = uh_correct h0"
    using h by (auto simp: r_def dest: insertCrc_fields split: if_splits)
  have crc: "\<exists>h0 prot src dest. insertCrc prot src dest h0 (up_data p) = Inr h \<and> uh_correct h0 \<and>
       uh_totalLength h0 = uh_totalLength h \<and> uh_crcMode h0 = uh_crcMode h" if "ue_crcMode E \<noteq> CRC_COMPUTED"
  proof -
    have "insertCrc (l3_protocol dest) src dest h0 (up_data p) = Inr h" "uh_correct h0"
      using that h by (simp_all add: r_def h0_def new_udp_header_def)
    with hf show ?thesis by metis
  qed
  show ?thesis
    using keep hf len bounds a ports crc
    by (intro that [where h = h, OF i g u' out]) (simp_all add: h0_def n_def new_udp_header_def)
qed

lemma handleUpperPacket_ok:
  "udp_ok (sockets u) \<Longrightarrow> Udp_handleUpperPacket E p u = Inr (u', out) \<Longrightarrow> udp_ok (sockets u')"
  by (erule handleUpperPacket_Inr) (auto dest: getOrCreateSocket_ok(1))

lemma sendUp_all_simps:
  "sendUp_all h p sds u = (u\<lparr>numPassedUp := numPassedUp u + length sds\<rparr>, concat (map (\<lambda>sd. snd (sendUp h p sd u)) sds))"
  by (induction sds arbitrary: u) (auto simp: sendUp_def Let_def)

lemma deliver_datagram_sockets:
  "deliver_datagram E h src dest p u = Inr (u', out) \<Longrightarrow> sockets u' = sockets u"
  by (auto simp: deliver_datagram_def processUndeliverablePacket_def Let_def sendUp_def sendUp_all_simps
      split: if_splits option.splits)

lemma handleLowerPacket_sockets:
  "Udp_handleLowerPacket E p u = Inr (u', out) \<Longrightarrow> sockets u' = sockets u"
  by (auto simp: Udp_handleLowerPacket_def processUDPPacket_def Let_def split: if_splits option.splits
      dest!: deliver_datagram_sockets)

lemma handleMessage_ok:
  assumes "udp_ok (sockets u)" and "Udp_handleMessageWhenUp E msg u = Inr (u', out)"
  shows "udp_ok (sockets u')"
  using assms
  by (cases msg) (auto simp: Udp_handleMessageWhenUp_def dest: handleUpperCommand_ok handleUpperPacket_ok handleLowerPacket_sockets)

text \<open>
  A socket that claims to have nothing but its local port set has no remote address and no remote port: \<open>connect\<close>
  withdraws the claim.
\<close>

definition remote_free :: "sock_desc \<Rightarrow> bool" where
  "remote_free sd \<longleftrightarrow> (onlyLocalPortIsSet sd \<longrightarrow> remotePort sd = -1 \<and> isUnspecified (remoteAddr sd))"

definition remotes_ok :: "udp_sockets \<Rightarrow> bool" where
  "remotes_ok u \<longleftrightarrow> (\<forall>i sd. sm_find (socketsByIdMap u) i = Some sd \<longrightarrow> remote_free sd)"

lemma remote_free_writes [simp]:
  "remote_free (sd\<lparr>isBound := b\<rparr>) = remote_free sd" "remote_free (sd\<lparr>localAddr := a\<rparr>) = remote_free sd"
  "remote_free (sd\<lparr>localPort := q\<rparr>) = remote_free sd" "remote_free (sd\<lparr>onlyLocalPortIsSet := False\<rparr>)"
  by (simp_all add: remote_free_def)

lemma remote_free_keeps: "keeps sd sd' \<Longrightarrow> remote_free sd' = remote_free sd"
  by (simp add: remote_free_def keeps_def)

lemma remotes_ok_store: "udp_ok u \<Longrightarrow> remotes_ok u \<Longrightarrow> remote_free sd \<Longrightarrow> remotes_ok (store_socket sd u)"
  using udp_okD(1) by (auto simp: remotes_ok_def)

lemma createSocket_remotes:
  assumes "udp_ok u" and "remotes_ok u" and "sm_find (socketsByIdMap u) i = None" and "createSocket i la lp u = Inr (sd, u')"
  shows "remote_free sd" "remotes_ok u'"
proof -
  show "remote_free sd"
    using assms(4) by (auto simp: createSocket_def remote_free_def SockDesc_def Let_def isUnspecified_def)
  then show "remotes_ok u'"
    using assms(2) unfolding remotes_ok_def createSocket_ok(2) [OF assms(1,3,4)] by simp
qed

lemma getOrCreateSocket_remotes:
  assumes "udp_ok u" and "remotes_ok u" and "getOrCreateSocket i u = Inr (sd, u')"
  shows "remote_free sd" "remotes_ok u'"
proof -
  have "remote_free sd \<and> remotes_ok u'"
  proof (cases "sm_find (socketsByIdMap u) i")
    case None
    with assms(3) have "createSocket i L3_NONE (-1) u = Inr (sd, u')"
      by (simp add: getOrCreateSocket_def split: if_splits)
    from createSocket_remotes [OF assms(1,2) None this] show ?thesis by simp
  next
    case (Some sd')
    with assms show ?thesis by (auto simp: getOrCreateSocket_def remotes_ok_def split: if_splits)
  qed
  then show "remote_free sd" "remotes_ok u'" by simp_all
qed

lemma udp_bind_remotes:
  assumes "udp_ok u" and "remotes_ok u" and "udp_bind i la lp u = Inr u'"
  shows "remotes_ok u'"
proof (cases "sm_find (socketsByIdMap u) i")
  case None
  with assms(3) obtain sd u1 where c: "createSocket i la lp u = Inr (sd, u1)" and u': "u' = store_socket (sd\<lparr>isBound := True\<rparr>) u1"
    by (auto simp: udp_bind_def Let_def split: if_splits option.splits)
  show ?thesis
    unfolding u' using createSocket_ok(1) [OF assms(1) None c] createSocket_remotes [OF assms(1,2) None c]
    by (intro remotes_ok_store) simp_all
next
  case (Some sd)
  define sd' where "sd' = sd\<lparr>isBound := True, localAddr := la\<rparr>"
  have free: "remote_free sd'" using Some assms(2) by (simp add: sd'_def remotes_ok_def)
  have i: "sockId sd' = i" "localPort sd' = localPort sd"
    using udp_okD(4) [OF assms(1) Some] by (simp_all add: sd'_def)
  have s: "udp_ok (store_socket sd' u)" using Some i by (intro udp_ok_store [OF assms(1)]) simp_all
  have r: "remotes_ok (store_socket sd' u)" using assms(1,2) free by (rule remotes_ok_store)
  have "u' = store_socket sd' u \<or> lp \<noteq> localPort sd' \<and> u' = move_port sd' lp (store_socket sd' u)"
    using assms(3) Some i by (auto simp: udp_bind_def Let_def sd'_def split: if_splits option.splits)
  moreover have "remotes_ok (move_port sd' lp (store_socket sd' u))" if "lp \<noteq> localPort sd'"
    using assms(2) free move_port_ok(2) [OF s, of sd' lp] udp_okD(1) [OF assms(1)] that by (simp add: remotes_ok_def)
  ultimately show ?thesis using r by blast
qed

lemma handleUpperCommand_remotes:
  assumes "udp_ok (sockets u)" and "remotes_ok (sockets u)" and "Udp_handleUpperCommand E r cmd u = Inr (u', out)"
  shows "remotes_ok (sockets u')"
proof -
  have connect: "remotes_ok s" if "udp_connect i ra rp (sockets u) = Inr s" for i ra rp s
    using that assms(1) getOrCreateSocket_ok(1) [OF assms(1)] getOrCreateSocket_remotes [OF assms(1,2)]
    by (auto simp: udp_connect_def remote_free_def split: if_splits intro!: remotes_ok_store)
  have option: "remotes_ok s" if "set_option E i opt (sockets u) = Inr (s, out)" for i opt s out
    using that getOrCreateSocket_ok(1) [OF assms(1)] getOrCreateSocket_remotes [OF assms(1,2)]
    by (auto simp: set_option_def intro!: remotes_ok_store dest!: setOption_keeps remote_free_keeps)
  have close: "remotes_ok (destroySocket i (sockets u))" for i
    using assms(2) by (simp add: remotes_ok_def destroySocket_ok(2) [OF assms(1)])
  show ?thesis
    using assms(3) connect option close udp_bind_remotes [OF assms(1,2)]
    by (cases cmd) (auto simp: Udp_handleUpperCommand_def)
qed

lemma handleMessage_remotes:
  assumes "udp_ok (sockets u)" and "remotes_ok (sockets u)" and "Udp_handleMessageWhenUp E msg u = Inr (u', out)"
  shows "remotes_ok (sockets u')"
  using assms
  by (cases msg) (auto simp: Udp_handleMessageWhenUp_def dest: handleUpperCommand_remotes handleLowerPacket_sockets
      elim!: handleUpperPacket_Inr intro: getOrCreateSocket_remotes)

inductive udp_reachable :: "udp_env \<Rightarrow> udp \<Rightarrow> bool" for E :: udp_env where
  start: "udp_reachable E udp_new"
| message: "udp_reachable E u \<Longrightarrow> Udp_handleMessageWhenUp E msg u = Inr (u', out) \<Longrightarrow> udp_reachable E u'"
| stop: "udp_reachable E u \<Longrightarrow> udp_reachable E (Udp_handleStopOperation u)"
| crash: "udp_reachable E u \<Longrightarrow> udp_reachable E (Udp_handleCrashOperation u)"
| restart: "udp_reachable E u \<Longrightarrow> udp_reachable E (Udp_handleStartOperation u)"

lemma udp_reachable_ok: "udp_reachable E u \<Longrightarrow> udp_ok (sockets u)"
  by (induction rule: udp_reachable.induct)
     (auto simp: udp_new_def udp_ok_new Udp_handleStopOperation_def Udp_handleCrashOperation_def
        Udp_handleStartOperation_def udp_ok_clear intro: handleMessage_ok)

lemma remotes_ok_empty: "socketsByIdMap u = [] \<Longrightarrow> remotes_ok u"
  by (simp add: remotes_ok_def sm_find_def)

lemma udp_reachable_remotes: "udp_reachable E u \<Longrightarrow> remotes_ok (sockets u)"
proof (induction rule: udp_reachable.induct)
  case (message u msg u' out)
  then show ?case using handleMessage_remotes udp_reachable_ok by blast
qed (simp_all add: remotes_ok_empty udp_new_def udp_sockets_new_def Udp_handleStopOperation_def
    Udp_handleCrashOperation_def Udp_handleStartOperation_def clearAllSockets_def)

text \<open>C24: in every reachable state the two tables agree: every descriptor is listed exactly once, under its own port,
  and every listed identifier has a descriptor with that port.
\<close>

theorem udp_tables:
  assumes "udp_reachable E u"
  shows "udp_ok (sockets u)"
  by (rule udp_reachable_ok [OF assms])

end
