(* ===== verification/SV_Udp_Props.thy ===== *)
theory SV_Udp_Props
  imports SV_Udp_Inv
begin

text \<open>
  Properties of INET's \<open>Udp\<close>: ephemeral ports, the socket a datagram is delivered to, what becomes of a
  datagram, sending over a network that delivers, and the multicast memberships.
\<close>

section \<open>Ephemeral ports\<close>

lemma port_used_iff: "port_used u p \<longleftrightarrow> sm_find (socketsByPortMap u) (uint p) \<noteq> None"
  by (simp add: port_used_def)

lemma ephemeral_uint: "ephemeral p \<longleftrightarrow> 1024 \<le> uint p \<and> uint p < 5000"
  by (simp add: ephemeral_def word_le_def word_less_def)

text \<open>A socket created without a port gets a free one of the range, unless all are in use.\<close>

theorem ephemeral_port_free:
  assumes "udp_ok u" and "sm_find (socketsByIdMap u) i = None"
  shows "(\<exists>sd u'. createSocket i la (-1) u = Inr (sd, u') \<and> 1024 \<le> localPort sd \<and> localPort sd < 5000 \<and>
            sm_find (socketsByPortMap u) (localPort sd) = None \<and> port_list (localPort sd) u' = [i]) \<or>
         (createSocket i la (-1) u = throwr ''Ephemeral port range exhausted, all ports occupied'' \<and>
            (\<forall>port \<in> {1024..<5000}. sm_find (socketsByPortMap u) port \<noteq> None))"
proof (cases rule: getEphemeralPort_cases [OF udp_okD(3) [OF assms(1)]])
  case (1 p)
  then obtain sd u' where c: "createSocket i la (-1) u = Inr (sd, u')" "localPort sd = uint p"
    by (simp add: createSocket_def Let_def)
  have free: "sm_find (socketsByPortMap u) (uint p) = None" using 1(3) by (simp add: port_used_iff)
  then have "port_list (localPort sd) u' = [i]"
    using createSocket_ok(4) [OF assms c(1), of "uint p"] c(2) by (simp add: port_list_def)
  with c free 1(2) show ?thesis by (auto simp: ephemeral_uint)
next
  case 2
  have "sm_find (socketsByPortMap u) port \<noteq> None" if "port \<in> {1024..<5000}" for port
  proof -
    have "uint (word_of_int port :: 16 word) = port" using that by (simp add: uint_word_of_int_eq take_bit_int_eq_self)
    with 2(2) that show ?thesis by (metis atLeastLessThan_iff ephemeral_uint port_used_iff)
  qed
  with 2(1) show ?thesis by (simp add: createSocket_def throwr_def)
qed

section \<open>The socket a datagram is for\<close>

definition accepts :: "L3Address \<Rightarrow> L3Address \<Rightarrow> 16 word \<Rightarrow> sock_desc \<Rightarrow> bool" where
  "accepts la ra rp sd \<longleftrightarrow> onlyLocalPortIsSet sd \<or>
     (isUnspecified (localAddr sd) \<or> localAddr sd = la) \<and> remote_matches ra rp sd"

definition is_specific :: "sock_desc \<Rightarrow> bool" where
  "is_specific sd \<longleftrightarrow> \<not> isUnspecified (localAddr sd)"

lemma unicast_loop_spec:
  "unicast_loop la ra rp any sds =
     (case filter (\<lambda>sd. accepts la ra rp sd \<and> is_specific sd) sds of
        sd # _ \<Rightarrow> Some sd
      | [] \<Rightarrow> (case filter (accepts la ra rp) sds of [] \<Rightarrow> any | sds' \<Rightarrow> Some (last sds')))"
  by (induction sds arbitrary: any)
     (auto simp: accepts_def is_specific_def remote_matches_def split: list.splits)

lemma case_rev_lists:
  "(case rev xs of x # _ \<Rightarrow> Some x | [] \<Rightarrow> (case rev ys of [] \<Rightarrow> None | zs \<Rightarrow> Some (last zs))) =
   (if xs \<noteq> [] then Some (last xs) else if ys \<noteq> [] then Some (hd ys) else None)"
proof -
  have "(case zs of [] \<Rightarrow> None | ws \<Rightarrow> Some (last ws)) = (if zs = [] then None else Some (last zs))" for zs :: "'a list"
    by (cases zs) simp_all
  then show ?thesis by (cases xs rule: rev_cases) (simp_all add: last_rev)
qed

text \<open>C31: among the sockets on the port that accept the datagram, the newest one with a local address is taken, and
  if there is none, the oldest of the others.
\<close>

theorem unicast_selection:
  "findSocketForUnicastPacket la lp ra rp u =
     (let sds = filter (accepts la ra rp) (port_sockets (uint lp) u); specific = filter is_specific sds
      in if specific \<noteq> [] then Some (last specific) else if sds \<noteq> [] then Some (hd sds) else None)"
proof -
  have "findSocketForUnicastPacket la lp ra rp u = unicast_loop la ra rp None (rev (port_sockets (uint lp) u))"
    by (auto simp: findSocketForUnicastPacket_def port_sockets_def port_list_def split: option.splits)
  also have "\<dots> = (case rev (filter (\<lambda>sd. accepts la ra rp sd \<and> is_specific sd) (port_sockets (uint lp) u)) of
        sd # _ \<Rightarrow> Some sd
      | [] \<Rightarrow> (case rev (filter (accepts la ra rp) (port_sockets (uint lp) u)) of [] \<Rightarrow> None | sds' \<Rightarrow> Some (last sds')))"
    by (simp only: unicast_loop_spec rev_filter)
  also have "\<dots> = (if filter (\<lambda>sd. accepts la ra rp sd \<and> is_specific sd) (port_sockets (uint lp) u) \<noteq> []
      then Some (last (filter (\<lambda>sd. accepts la ra rp sd \<and> is_specific sd) (port_sockets (uint lp) u)))
      else if filter (accepts la ra rp) (port_sockets (uint lp) u) \<noteq> []
      then Some (hd (filter (accepts la ra rp) (port_sockets (uint lp) u))) else None)"
    by (rule case_rev_lists)
  finally show ?thesis
    by (simp add: Let_def conj_commute)
qed

section \<open>What becomes of a datagram\<close>

definition sent_up :: "udp_out list \<Rightarrow> udp_packet list" where
  "sent_up out = List.map_filter (\<lambda>x. case x of SendAppOut p \<Rightarrow> Some p | _ \<Rightarrow> None) out"

lemma sent_up_simps [simp]:
  "sent_up [] = []" "sent_up (SendAppOut p # out) = p # sent_up out" "sent_up (Emit s # out) = sent_up out"
  "sent_up (SendErrorMessageIcmpv4 p n i # out) = sent_up out" "sent_up (SendErrorMessageIcmpv6 p n # out) = sent_up out"
  "sent_up (out @ out') = sent_up out @ sent_up out'"
  by (simp_all add: sent_up_def List.map_filter_def)

lemma sent_up_all:
  "sent_up (snd (sendUp_all h p sds u)) =
     map (\<lambda>sd. p\<lparr>up_kind := UDP_I_DATA, up_protocol := None, up_dispatch := None, up_socketInd := Some (sockId sd),
       up_transportInd := Some (P_udp, h), up_portInd := Some (uh_srcPort h, uh_destPort h)\<rparr>) sds"
  unfolding sendUp_all_simps snd_conv by (induction sds) (simp_all add: sendUp_def)

text \<open>The sockets a datagram goes up to.\<close>

definition receivers :: "udp_env \<Rightarrow> udp_header \<Rightarrow> L3Address \<Rightarrow> L3Address \<Rightarrow> udp_sockets \<Rightarrow> sock_desc list res" where
  "receivers E h src dest s =
     rbind (L3_isMulticast (ue_addresses E) dest) (\<lambda>m. rbind (L3_isBroadcast (ue_addresses E) dest) (\<lambda>b.
     if m \<or> b then findSocketsForMcastBcastPacket dest (uh_destPort h) src (uh_srcPort h) m b s
     else Inr (case findSocketForUnicastPacket dest (uh_destPort h) src (uh_srcPort h) s of None \<Rightarrow> [] | Some sd \<Rightarrow> [sd])))"

lemma deliver_datagram_receivers:
  "deliver_datagram E h src dest p u =
     rbind (receivers E h src dest (sockets u)) (\<lambda>sds.
     if sds = [] then processUndeliverablePacket (p\<lparr>up_header := Some h\<rparr>) u else Inr (sendUp_all h p sds u))"
proof (cases "L3_isMulticast (ue_addresses E) dest")
  case (Inr m)
  then show ?thesis
    by (cases "L3_isBroadcast (ue_addresses E) dest")
       (auto simp: deliver_datagram_def receivers_def Let_def split: option.splits)
qed (simp add: deliver_datagram_def receivers_def)

text \<open>Every receiver is an open socket on the destination port that the sender is not excluded from.\<close>

lemma port_sockets_mem:
  assumes "udp_ok s" and "sd \<in> set (port_sockets port s)"
  shows "sm_find (socketsByIdMap s) (sockId sd) = Some sd \<and> localPort sd = port"
proof -
  from assms(2) obtain i where i: "i \<in> set (port_list port s)" "sm_find (socketsByIdMap s) i = Some sd"
    by (auto simp: port_sockets_def List.map_filter_def)
  with udp_okD(4) [OF assms(1) i(2)] udp_okD(6) [OF assms(1) i(1)] show ?thesis by auto
qed

lemma receivers_mem:
  assumes "udp_ok s" and "receivers E h src dest s = Inr sds" and "sd \<in> set sds"
  shows "sm_find (socketsByIdMap s) (sockId sd) = Some sd \<and> localPort sd = uint (uh_destPort h) \<and>
     (onlyLocalPortIsSet sd \<or> remote_matches src (uh_srcPort h) sd)"
proof -
  have "sd \<in> set (port_sockets (uint (uh_destPort h)) s) \<and> (onlyLocalPortIsSet sd \<or> remote_matches src (uh_srcPort h) sd)"
    using assms(2,3)
    by (fastforce simp: receivers_def findSocketsForMcastBcastPacket_def unicast_selection accepts_def Let_def
        split: if_splits option.splits dest: last_in_set list.set_sel(1))
  with port_sockets_mem [OF assms(1)] show ?thesis by blast
qed

text \<open>The outcome of a datagram: dropped, undeliverable, or passed up.\<close>

lemma processUndeliverable_out:
  "processUndeliverablePacket p u = Inr (u', out) \<Longrightarrow>
     u' = u\<lparr>numDroppedWrongPort := numDroppedWrongPort u + 1\<rparr> \<and> sent_up out = []"
  by (auto simp: processUndeliverablePacket_def Let_def split: if_splits)

lemma processUDP_cases:
  assumes "Udp_handleLowerPacket E p u = Inr (u', out)" and "up_protocol p = Some P_udp"
  obtains (bad) h src dest where "up_header p = Some h" "up_l3Ind p = Some (src, dest)"
      "u' = u\<lparr>numDroppedBadChecksum := numDroppedBadChecksum u + 1\<rparr>" "sent_up out = []"
  | (undeliverable) h src dest where "up_header p = Some h" "up_l3Ind p = Some (src, dest)"
      "receivers E h src dest (sockets u) = Inr []"
      "u' = u\<lparr>numDroppedWrongPort := numDroppedWrongPort u + 1\<rparr>" "sent_up out = []"
  | (passed) h src dest sds where "up_header p = Some h" "up_l3Ind p = Some (src, dest)"
      "receivers E h src dest (sockets u) = Inr sds" "sds \<noteq> []"
      "u' = u\<lparr>numPassedUp := numPassedUp u + length sds\<rparr>"
      "sent_up out = map (\<lambda>sd. p\<lparr>up_data := remove_padding (uh_totalLength h) (up_data p), up_header := None, up_kind := UDP_I_DATA,
         up_protocol := None, up_dispatch := None, up_socketInd := Some (sockId sd),
         up_transportInd := Some (P_udp, h), up_portInd := Some (uh_srcPort h, uh_destPort h)\<rparr>) sds"
proof -
  from assms obtain h where h: "up_header p = Some h"
    by (auto simp: Udp_handleLowerPacket_def processUDPPacket_def getTag_def split: option.splits)
  with assms obtain src dest where a: "up_l3Ind p = Some (src, dest)"
    by (auto simp: Udp_handleLowerPacket_def processUDPPacket_def getTag_def split: option.splits)
  from assms h a obtain prot nh where n: "up_networkInd p = Some (prot, nh)"
    by (auto simp: Udp_handleLowerPacket_def processUDPPacket_def getTag_def split: option.splits)
  define q where "q = p\<lparr>up_protocol := None, up_header := None, up_data := remove_padding (uh_totalLength h) (up_data p)\<rparr>"
  from assms h a n consider
      "u' = u\<lparr>numDroppedBadChecksum := numDroppedBadChecksum u + 1\<rparr>" "sent_up out = []"
    | out' where "deliver_datagram E h src dest q u = Inr (u', out')" "sent_up out = sent_up out'"
    unfolding q_def
    by (auto simp: Udp_handleLowerPacket_def processUDPPacket_def getTag_def Let_def split: if_splits)
  then show ?thesis
  proof cases
    case 1
    then show ?thesis using bad h a by simp
  next
    case (2 out')
    then obtain sds where sds: "receivers E h src dest (sockets u) = Inr sds"
      and d: "(if sds = [] then processUndeliverablePacket (q\<lparr>up_header := Some h\<rparr>) u else Inr (sendUp_all h q sds u)) = Inr (u', out')"
      by (auto simp: deliver_datagram_receivers)
    show ?thesis
    proof (cases "sds = []")
      case True
      with d 2(2) sds h a show ?thesis by (intro undeliverable) (auto dest: processUndeliverable_out)
    next
      case False
      have "sent_up out' = map (\<lambda>sd. q\<lparr>up_kind := UDP_I_DATA, up_protocol := None, up_dispatch := None, up_socketInd := Some (sockId sd),
          up_transportInd := Some (P_udp, h), up_portInd := Some (uh_srcPort h, uh_destPort h)\<rparr>) sds"
        using d False sent_up_all [of h q sds u] by simp
      moreover have "u' = u\<lparr>numPassedUp := numPassedUp u + length sds\<rparr>"
        using d False by (simp add: sendUp_all_simps)
      ultimately show ?thesis
        using 2(2) sds h a False by (intro passed [of h src dest sds]) (simp_all add: q_def)
    qed
  qed
qed

text \<open>C26: a datagram of the network layer meets exactly one fate, and the statistics say which.\<close>

theorem datagram_fate:
  assumes "Udp_handleLowerPacket E p u = Inr (u', out)" and "up_protocol p = Some P_udp"
  shows "sockets u' = sockets u \<and> numSent u' = numSent u \<and>
     numPassedUp u' = numPassedUp u + length (sent_up out) \<and>
     numDroppedBadChecksum u' + numDroppedWrongPort u' =
       numDroppedBadChecksum u + numDroppedWrongPort u + (if sent_up out = [] then 1 else 0)"
  using assms by (cases rule: processUDP_cases) simp_all

text \<open>C27: a datagram only goes up to sockets that are open, that have its destination port, and whose remote address
  and port, as far as they are set, are those of the sender: a connected socket receives from its peer only. A socket
  of which only the local port counts receives without a look at its addresses, and \<open>connect\<close> has to withdraw that
  mark; in every state the module can get into it has.
\<close>

theorem datagram_reaches_open_sockets:
  assumes "udp_reachable E u" and "Udp_handleLowerPacket E p u = Inr (u', out)" and "up_protocol p = Some P_udp"
    and "q \<in> set (sent_up out)"
  shows "\<exists>i sd src dest h. up_socketInd q = Some i \<and> sm_find (socketsByIdMap (sockets u)) i = Some sd \<and>
     up_header p = Some h \<and> up_l3Ind p = Some (src, dest) \<and> localPort sd = uint (uh_destPort h) \<and>
     (remotePort sd = -1 \<or> remotePort sd = uint (uh_srcPort h)) \<and>
     (isUnspecified (remoteAddr sd) \<or> remoteAddr sd = src)"
  using assms(2,3)
proof (cases rule: processUDP_cases)
  case (passed h src dest sds)
  with assms(4) obtain sd where sd: "sd \<in> set sds" "up_socketInd q = Some (sockId sd)" by auto
  note mem = receivers_mem [OF udp_reachable_ok [OF assms(1)] passed(3) sd(1)]
  then have "remote_free sd" using udp_reachable_remotes [OF assms(1)] by (auto simp: remotes_ok_def)
  then have "remote_matches src (uh_srcPort h) sd" using mem by (auto simp: remote_free_def remote_matches_def)
  with mem sd(2) passed(1,2) show ?thesis unfolding remote_matches_def by blast
qed (use assms(4) in simp_all)

section \<open>From one module to another\<close>

text \<open>
  What a network that delivers does with the packet \<open>q\<close> of the sender: behind the routing decision the hook sees it
  with its final addresses, then a packet with the same header arrives, its data possibly padded, with the tags the
  network layer adds.
\<close>

definition carried ::
    "udp_env \<Rightarrow> protocol \<Rightarrow> L3Address \<Rightarrow> L3Address \<Rightarrow> octet list \<Rightarrow> udp_packet \<Rightarrow> udp_packet \<Rightarrow> bool" where
  "carried E prot src dest padding q r \<longleftrightarrow>
     (case (if ue_crcMode E = CRC_COMPUTED
            then datagramPostRoutingHook P_udp src dest False (q\<lparr>up_protocol := Some prot\<rparr>) else Inr q) of
        Inl _ \<Rightarrow> False
      | Inr q' \<Rightarrow> up_header r = up_header q' \<and>
          up_data r = \<lparr>ud_bytes = ud_bytes (up_data q') @ padding, ud_correct = True\<rparr> \<and>
          up_protocol r = Some P_udp \<and> up_l3Ind r = Some (src, dest) \<and> (\<exists>nh. up_networkInd r = Some (prot, nh)))"

lemma verifyCrc_env:
  "uh_crcMode h \<noteq> CRC_COMPUTED \<Longrightarrow> verifyCrc prot src dest h d = verifyCrc prot' src' dest' h d"
  by (cases "uh_crcMode h") (simp_all add: verifyCrc_def)

text \<open>The header that arrives is the sender's but for the checksum, and its checksum is accepted.\<close>

lemma carried_header:
  assumes "Udp_handleUpperPacket E p u = Inr (u', out)" and "SendIpOut q \<in> set out" and "carried E prot src dest padding q r"
    and "ud_bytes (up_data p) \<noteq> []" and "ud_correct (up_data p)" and "up_interfaceInd p = None"
  obtains h0 h where "up_header q = Some h0" "up_header r = Some h"
    "uh_srcPort h = uh_srcPort h0" "uh_destPort h = uh_destPort h0" "uh_correct h"
    "uh_totalLength h = UDP_HEADER_LENGTH + int (length (ud_bytes (up_data p)))"
    "up_data r = \<lparr>ud_bytes = ud_bytes (up_data p) @ padding, ud_correct = True\<rparr>"
    "verifyCrc prot src dest h (up_data r) = Inr (ue_crcMode E \<noteq> CRC_DECLARED_INCORRECT)"
  using assms(1)
proof (cases rule: handleUpperPacket_Inr)
  case (1 i sd s p' h0)
  with assms(2) have q: "up_header q = Some h0" "up_data q = up_data p" "up_interfaceInd q = None"
    using assms(6) by simp_all
  show ?thesis
  proof (cases "ue_crcMode E = CRC_COMPUTED")
    case True
    have c0: "uh_crcMode h0 = CRC_COMPUTED" using 1 True by simp
    from assms(3) True q obtain h where ins: "insertCrc prot src dest h0 (up_data p) = Inr h"
      and r: "up_header r = Some h" "up_data r = \<lparr>ud_bytes = ud_bytes (up_data p) @ padding, ud_correct = True\<rparr>"
      by (auto simp: carried_def datagramPostRoutingHook_def getTag_def c0 split: sum.splits)
    have acc: "verifyCrc prot src dest h (up_data r) = Inr True"
      unfolding r(2) using crc_accepted [OF ins, of padding] 1 True assms(4,5) by simp
    show ?thesis
      using insertCrc_fields [OF ins] 1 True q r acc by (intro that [of h0 h]) simp_all
  next
    case False
    with assms(3) q have r: "up_header r = Some h0" "up_data r = \<lparr>ud_bytes = ud_bytes (up_data p) @ padding, ud_correct = True\<rparr>"
      by (auto simp: carried_def)
    obtain g prot' src' dest' where g: "insertCrc prot' src' dest' g (up_data p) = Inr h0" "uh_correct g"
        "uh_totalLength g = uh_totalLength h0" "uh_crcMode g = uh_crcMode h0"
      using 1(19) [OF False] by blast
    have "verifyCrc prot' src' dest' h0 (up_data r) = Inr (uh_crcMode g \<noteq> CRC_DECLARED_INCORRECT)"
      unfolding r(2) using g 1(14) by (intro crc_accepted [OF g(1,2) assms(4,5)]) simp
    then have "verifyCrc prot src dest h0 (up_data r) = Inr (ue_crcMode E \<noteq> CRC_DECLARED_INCORRECT)"
      using verifyCrc_env [of h0 prot src dest "up_data r" prot' src' dest'] False g(4) 1 by simp
    then show ?thesis using 1 q r by (intro that [of h0 h0]) simp_all
  qed
qed

lemma udp_transfer:
  assumes "Udp_handleUpperPacket E p u = Inr (u', out)" and "SendIpOut q \<in> set out"
    and "carried E prot src dest padding q r" and "padding = [] \<or> 8 < length padding"
    and "ud_bytes (up_data p) \<noteq> []" and "ud_correct (up_data p)" and "up_interfaceInd p = None"
    and "ue_crcMode E \<noteq> CRC_DECLARED_INCORRECT"
    and "up_header r = Some h" and "receivers E2 h src dest (sockets v) = Inr sds" and "sds \<noteq> []"
  shows "\<exists>v' out'. Udp_handleLowerPacket E2 r v = Inr (v', out') \<and>
     map (\<lambda>x. (up_socketInd x, ud_bytes (up_data x), up_portInd x)) (sent_up out') =
       map (\<lambda>sd. (Some (sockId sd), ud_bytes (up_data p), Some (uh_srcPort h, uh_destPort h))) sds \<and>
     numPassedUp v' = numPassedUp v + length sds"
proof -
  obtain h0 where h: "uh_totalLength h = UDP_HEADER_LENGTH + int (length (ud_bytes (up_data p)))"
    and d: "up_data r = \<lparr>ud_bytes = ud_bytes (up_data p) @ padding, ud_correct = True\<rparr>"
    and ok: "verifyCrc prot src dest h (up_data r) = Inr True"
    using assms(8,9) by (cases rule: carried_header [OF assms(1-3,5-7)]) auto
  from assms(3) obtain nh where r: "up_protocol r = Some P_udp" "up_l3Ind r = Some (src, dest)" "up_networkInd r = Some (prot, nh)"
    by (auto simp: carried_def split: sum.splits)
  have len: "\<not> (uh_totalLength h < UDP_HEADER_LENGTH \<or> uh_totalLength h > UDP_HEADER_LENGTH + int (length (ud_bytes (up_data r))))"
    by (simp add: h d)
  have pad: "ud_bytes (remove_padding (uh_totalLength h) (up_data r)) = ud_bytes (up_data p)"
    using assms(4) by (auto simp: remove_padding_def h d UDP_HEADER_LENGTH_def)
  define x where "x = r\<lparr>up_protocol := None, up_header := None, up_data := remove_padding (uh_totalLength h) (up_data r)\<rparr>"
  have dd: "deliver_datagram E2 h src dest x v = Inr (sendUp_all h x sds v)"
    using assms(10,11) by (simp add: deliver_datagram_receivers)
  have "Udp_handleLowerPacket E2 r v =
      Inr (fst (sendUp_all h x sds v),
           Emit packetReceivedFromLowerSignal # Emit packetReceivedSignal # snd (sendUp_all h x sds v))"
    using dd len ok r assms(9)
    by (simp add: Udp_handleLowerPacket_def processUDPPacket_def getTag_def Let_def x_def sendUp_all_simps)
  moreover have "map (\<lambda>y. (up_socketInd y, ud_bytes (up_data y), up_portInd y)) (sent_up (snd (sendUp_all h x sds v))) =
       map (\<lambda>sd. (Some (sockId sd), ud_bytes (up_data p), Some (uh_srcPort h, uh_destPort h))) sds"
    by (simp add: sent_up_all x_def pad)
  moreover have "numPassedUp (fst (sendUp_all h x sds v)) = numPassedUp v + length sds"
    by (simp add: sendUp_all_simps)
  ultimately show ?thesis
    by (intro exI [of _ "fst (sendUp_all h x sds v)"]
          exI [of _ "Emit packetReceivedFromLowerSignal # Emit packetReceivedSignal # snd (sendUp_all h x sds v)"]) simp
qed

text \<open>
  Over a network that delivers, the data of a datagram arrives at every socket that accepts it as it was sent,
  with the sender's ports, if the padding is empty or more than eight bytes.
\<close>

theorem datagram_end_to_end:
  assumes "Udp_handleUpperPacket E p u = Inr (u', out)" and "SendIpOut q \<in> set out"
    and "carried E prot src dest padding q r" and "padding = [] \<or> 8 < length padding"
    and "ud_bytes (up_data p) \<noteq> []" and "ud_correct (up_data p)" and "up_interfaceInd p = None"
    and "ue_crcMode E \<noteq> CRC_DECLARED_INCORRECT"
    and "up_header r = Some h" and "receivers E2 h src dest (sockets v) = Inr sds" and "sds \<noteq> []"
  shows "\<exists>v' out'. Udp_handleLowerPacket E2 r v = Inr (v', out') \<and>
     map (\<lambda>x. (up_socketInd x, ud_bytes (up_data x), up_portInd x)) (sent_up out') =
       map (\<lambda>sd. (Some (sockId sd), ud_bytes (up_data p), Some (uh_srcPort h, uh_destPort h))) sds \<and>
     numPassedUp v' = numPassedUp v + length sds"
  using assms by (rule udp_transfer)

text \<open>
  A datagram without data stops the simulation at the receiver, when its checksum is declared correct or
  computed, though the sender accepts it.
\<close>

theorem empty_datagram_stops:
  assumes "up_protocol r = Some P_udp" and "up_header r = Some h" and "up_l3Ind r = Some a" and "up_networkInd r = Some n"
    and "ud_bytes (up_data r) = []" and "uh_totalLength h = UDP_HEADER_LENGTH"
    and "uh_crcMode h = CRC_DECLARED_CORRECT \<or> uh_crcMode h = CRC_COMPUTED \<and> uh_crc h \<noteq> 0"
  shows "Udp_handleLowerPacket E r v = throwr ''Returning an empty chunk is not allowed''"
  using assms
  by (cases a; cases n)
     (auto simp: Udp_handleLowerPacket_def processUDPPacket_def getTag_def verifyCrc_def peekDataAt_def throwr_def)

end
