(* ===== verification/SV_Udp_Members.thy ===== *)
theory SV_Udp_Members
  imports SV_Udp_Props
begin

text \<open>
  The multicast memberships of a socket. \<open>sorted_search\<close> is the contract of \<open>std::lower_bound\<close>, a strict weak order on
  the elements it is used on; \<open>lessMembership\<close> meets it for memberships of single interfaces. From it: lookups find what
  was inserted, every option keeps the table sorted, and a joined group is received.
\<close>

section \<open>Binary search\<close>

lemma lower_bound_loop_spec:
  assumes "lo + len \<le> length xs"
    and "\<And>j k. j \<le> k \<Longrightarrow> k < length xs \<Longrightarrow> P (xs ! k) \<Longrightarrow> P (xs ! j)"
    and "\<And>j. j < lo \<Longrightarrow> P (xs ! j)" and "\<And>j. lo + len \<le> j \<Longrightarrow> j < length xs \<Longrightarrow> \<not> P (xs ! j)"
  shows "lower_bound_loop P xs lo len \<le> length xs \<and>
     (\<forall>j < length xs. P (xs ! j) \<longleftrightarrow> j < lower_bound_loop P xs lo len)"
  using assms
proof (induction P xs lo len rule: lower_bound_loop.induct)
  case (1 P xs lo len)
  show ?case
  proof (cases "len = 0")
    case True
    then have "lower_bound_loop P xs lo len = lo" by (subst lower_bound_loop.simps) simp
    moreover have "P (xs ! j) \<longleftrightarrow> j < lo" if "j < length xs" for j
      using "1.prems"(3,4) [of j] that True by (cases "j < lo") auto
    ultimately show ?thesis using "1.prems"(1) by simp
  next
    case False
    define half where "half = len div 2"
    have half: "half < len" using False by (simp add: half_def)
    show ?thesis
    proof (cases "P (xs ! (lo + half))")
      case True
      have "lower_bound_loop P xs (lo + half + 1) (len - half - 1) \<le> length xs \<and>
        (\<forall>j < length xs. P (xs ! j) \<longleftrightarrow> j < lower_bound_loop P xs (lo + half + 1) (len - half - 1))"
      proof (rule "1.IH"(1) [OF False half_def refl True])
        show "lo + half + 1 + (len - half - 1) \<le> length xs" using "1.prems"(1) half by linarith
        show "P (xs ! j)" if "j < lo + half + 1" for j
          using "1.prems"(2) [of j "lo + half"] True that half "1.prems"(1) by simp
        show "\<not> P (xs ! j)" if "lo + half + 1 + (len - half - 1) \<le> j" "j < length xs" for j
          using "1.prems"(4) [of j] that half by simp
      qed (rule "1.prems"(2))
      with True False show ?thesis by (simp add: lower_bound_loop.simps [of P xs lo len] half_def Let_def)
    next
      case nP: False
      have "lower_bound_loop P xs lo half \<le> length xs \<and>
        (\<forall>j < length xs. P (xs ! j) \<longleftrightarrow> j < lower_bound_loop P xs lo half)"
      proof (rule "1.IH"(2) [OF False half_def refl nP])
        show "lo + half \<le> length xs" using "1.prems"(1) half by linarith
        show "\<not> P (xs ! j)" if "lo + half \<le> j" "j < length xs" for j
          using "1.prems"(2) [of "lo + half" j] nP that by blast
      qed (use "1.prems"(2,3) in auto)
      with nP False show ?thesis by (simp add: lower_bound_loop.simps [of P xs lo len] half_def Let_def)
    qed
  qed
qed

locale sorted_search =
  fixes lt :: "'a \<Rightarrow> 'a \<Rightarrow> bool" and ok :: "'a \<Rightarrow> bool"
  assumes lt_trans: "ok a \<Longrightarrow> ok b \<Longrightarrow> ok c \<Longrightarrow> lt a b \<Longrightarrow> lt b c \<Longrightarrow> lt a c"
    and lt_irrefl: "ok a \<Longrightarrow> \<not> lt a a"
    and lt_cotrans: "ok a \<Longrightarrow> ok b \<Longrightarrow> ok c \<Longrightarrow> lt a c \<Longrightarrow> lt a b \<or> lt b c"
begin

definition table :: "'a list \<Rightarrow> bool" where
  "table xs \<longleftrightarrow> sorted_wrt lt xs \<and> (\<forall>x \<in> set xs. ok x)"

lemma table_nth: "table xs \<Longrightarrow> j < k \<Longrightarrow> k < length xs \<Longrightarrow> lt (xs ! j) (xs ! k)"
  by (auto simp: table_def sorted_wrt_iff_nth_less)

lemma table_ok: "table xs \<Longrightarrow> k < length xs \<Longrightarrow> ok (xs ! k)"
  by (auto simp: table_def)

lemma lower_bound_spec:
  assumes "table xs" and "ok x"
  shows "lower_bound lt xs x \<le> length xs" "j < length xs \<Longrightarrow> lt (xs ! j) x \<longleftrightarrow> j < lower_bound lt xs x"
proof -
  have "lower_bound_loop (\<lambda>y. lt y x) xs 0 (length xs) \<le> length xs \<and>
     (\<forall>j < length xs. lt (xs ! j) x \<longleftrightarrow> j < lower_bound_loop (\<lambda>y. lt y x) xs 0 (length xs))"
  proof (rule lower_bound_loop_spec)
    fix j k
    assume "j \<le> k" "k < length xs" "lt (xs ! k) x"
    then show "lt (xs ! j) x"
      using table_nth [OF assms(1), of j k] table_ok [OF assms(1)] assms(2)
      using lt_trans [of "xs ! j" "xs ! k" x] by (cases "j = k") simp_all
  qed simp_all
  then show "lower_bound lt xs x \<le> length xs" "j < length xs \<Longrightarrow> lt (xs ! j) x \<longleftrightarrow> j < lower_bound lt xs x"
    by (auto simp: lower_bound_def)
qed

text \<open>An element equivalent to the key is at the position found, and inserting a new one keeps the order.\<close>

lemma lower_bound_hit:
  assumes "table xs" and "ok x" and "k < length xs" and "\<not> lt (xs ! k) x" and "\<not> lt x (xs ! k)"
  shows "lower_bound lt xs x = k"
proof (rule antisym)
  show "lower_bound lt xs x \<le> k"
    using lower_bound_spec(2) [OF assms(1,2,3)] assms(4) by simp
  show "k \<le> lower_bound lt xs x"
  proof (rule ccontr)
    assume "\<not> k \<le> lower_bound lt xs x"
    then have j: "lower_bound lt xs x < k" by simp
    then have "lt (xs ! lower_bound lt xs x) (xs ! k)" and "\<not> lt (xs ! lower_bound lt xs x) x"
      using table_nth [OF assms(1)] lower_bound_spec(2) [OF assms(1,2)] assms(3) by auto
    then show False
      using lt_cotrans [of "xs ! lower_bound lt xs x" x "xs ! k"] table_ok [OF assms(1)] assms(2,3,5) j by simp
  qed
qed

lemma insert_table:
  assumes "table xs" and "ok x" and "\<And>y. y \<in> set xs \<Longrightarrow> lt x y \<or> lt y x"
  shows "table (take (lower_bound lt xs x) xs @ x # drop (lower_bound lt xs x) xs)"
proof -
  define i where "i = lower_bound lt xs x"
  have i: "i \<le> length xs" and below: "\<And>j. j < length xs \<Longrightarrow> lt (xs ! j) x \<longleftrightarrow> j < i"
    using lower_bound_spec [OF assms(1,2)] by (simp_all add: i_def)
  have "lt y x" if "y \<in> set (take i xs)" for y
    using that below i by (auto simp: in_set_conv_nth)
  moreover have "lt x y" if y: "y \<in> set (drop i xs)" for y
  proof -
    obtain m where "m < length xs - i" "y = xs ! (i + m)"
      using y i by (auto simp: in_set_conv_nth)
    then obtain j where j: "j < length xs" "y = xs ! j" "i \<le> j"
      by (metis le_add1 less_diff_conv add.commute)
    with below [of j] assms(3) [of y] show ?thesis by auto
  qed
  moreover have "sorted_wrt lt (take i xs)" "sorted_wrt lt (drop i xs)"
    "\<And>y z. y \<in> set (take i xs) \<Longrightarrow> z \<in> set (drop i xs) \<Longrightarrow> lt y z"
    using assms(1) sorted_wrt_append [of lt "take i xs" "drop i xs"] by (auto simp: table_def)
  ultimately show ?thesis
    using assms(1,2) unfolding table_def i_def [symmetric]
    by (auto simp: sorted_wrt_append dest: in_set_takeD in_set_dropD)
qed

end

section \<open>Memberships of single interfaces\<close>

lemma L3_less_trans: "L3_less a b \<Longrightarrow> L3_less b c \<Longrightarrow> L3_less a c"
  by (cases a; cases b; cases c) auto

lemma L3_less_irrefl: "\<not> L3_less a a"
  by (cases a) auto

lemma L3_less_asym: "L3_less a b \<Longrightarrow> \<not> L3_less b a"
  using L3_less_trans L3_less_irrefl by blast

lemma L3_less_linear: "a \<noteq> b \<Longrightarrow> L3_less a b \<or> L3_less b a"
  by (cases a; cases b) auto

text \<open>Interface identifiers are positive; -1 stands for all interfaces.\<close>

definition single :: "membership \<Rightarrow> bool" where
  "single m \<longleftrightarrow> 0 \<le> mm_interface m"

lemma lessMembership_single:
  "single a \<Longrightarrow> lessMembership a b \<longleftrightarrow>
     (if mm_address a = mm_address b then mm_interface a < mm_interface b else L3_less (mm_address a) (mm_address b))"
  by (auto simp: lessMembership_def single_def)

interpretation ms: sorted_search lessMembership single
proof
  fix a b c
  assume "single a" "single b" "single c" "lessMembership a b" "lessMembership b c"
  then show "lessMembership a c"
    using L3_less_trans [of "mm_address a" "mm_address b" "mm_address c"] L3_less_asym [of "mm_address b" "mm_address c"]
    by (auto simp: lessMembership_single split: if_splits)
next
  fix a
  assume "single a"
  then show "\<not> lessMembership a a" by (simp add: lessMembership_single)
next
  fix a b c
  assume "single a" "single b" "single c" "lessMembership a c"
  then show "lessMembership a b \<or> lessMembership b c"
    using L3_less_trans [of "mm_address a" "mm_address c" "mm_address b"] L3_less_linear [of "mm_address b" "mm_address c"]
      L3_less_linear [of "mm_address a" "mm_address b"] L3_less_asym [of "mm_address b" "mm_address a"]
    by (auto simp: lessMembership_single split: if_splits)
qed

definition member_table :: "membership list \<Rightarrow> bool" where
  "member_table tbl \<longleftrightarrow> sorted_wrt lessMembership tbl \<and> (\<forall>m \<in> set tbl. single m)"

lemma member_table_iff: "member_table tbl \<longleftrightarrow> ms.table tbl"
  by (simp add: member_table_def ms.table_def)

text \<open>The table has the membership of a group on an interface exactly if the lookup finds it.\<close>

theorem membership_lookup:
  assumes tbl: "member_table tbl" and "0 \<le> i"
  shows "findMulticastMembership a i tbl =
     (if \<exists>m \<in> set tbl. mm_address m = a \<and> mm_interface m = i
      then Some (lower_bound lessMembership tbl (membership_key a i)) else None)"
proof (cases "\<exists>m \<in> set tbl. mm_address m = a \<and> mm_interface m = i")
  case True
  then obtain k where k: "k < length tbl" "mm_address (tbl ! k) = a" "mm_interface (tbl ! k) = i"
    by (auto simp: in_set_conv_nth)
  have key: "single (membership_key a i)" using assms(2) by (simp add: single_def membership_key_def)
  have "lower_bound lessMembership tbl (membership_key a i) = k"
    using k ms.table_ok [OF tbl [unfolded member_table_iff] k(1)] key
    by (intro ms.lower_bound_hit [OF tbl [unfolded member_table_iff] key k(1)]) (auto simp: lessMembership_single membership_key_def)
  with k True show ?thesis by (simp add: findMulticastMembership_def)
next
  case False
  have "lower_bound lessMembership tbl (membership_key a i) \<le> length tbl"
    using assms(2) by (intro ms.lower_bound_spec(1) [OF tbl [unfolded member_table_iff]]) (simp add: single_def membership_key_def)
  with False nth_mem [of "lower_bound lessMembership tbl (membership_key a i)" tbl] show ?thesis
    by (auto simp: findMulticastMembership_def Let_def)
qed

text \<open>The first membership of a group, and adding one.\<close>

lemma findFirst_lookup:
  assumes tbl: "member_table tbl"
  shows "findFirstMulticastMembership a tbl = Some k \<longleftrightarrow>
     k < length tbl \<and> mm_address (tbl ! k) = a \<and> (\<forall>j < k. mm_address (tbl ! j) \<noteq> a)"
    and "findFirstMulticastMembership a tbl = None \<longleftrightarrow> (\<forall>m \<in> set tbl. mm_address m \<noteq> a)"
proof -
  define i where "i = lower_bound lessMembership tbl (membership_key a 0)"
  have key: "single (membership_key a 0)" by (simp add: single_def membership_key_def)
  have i: "i \<le> length tbl"
    and below: "\<And>j. j < length tbl \<Longrightarrow> lessMembership (tbl ! j) (membership_key a 0) \<longleftrightarrow> j < i"
    using ms.lower_bound_spec [OF tbl [unfolded member_table_iff] key] by (simp_all add: i_def)
  have less: "lessMembership (tbl ! j) (membership_key a 0) \<longleftrightarrow> mm_address (tbl ! j) \<noteq> a \<and> L3_less (mm_address (tbl ! j)) a"
    if "j < length tbl" for j
    using ms.table_ok [OF tbl [unfolded member_table_iff] that]
    by (auto simp: lessMembership_single membership_key_def single_def)
  have first: "\<And>k. k < length tbl \<Longrightarrow> mm_address (tbl ! k) = a \<Longrightarrow> i \<le> k \<and> mm_address (tbl ! i) = a"
  proof -
    fix k
    assume k: "k < length tbl" "mm_address (tbl ! k) = a"
    then have ik: "i \<le> k" using below [of k] less [of k] by auto
    have "mm_address (tbl ! i) = a"
    proof (rule ccontr)
      assume ne: "mm_address (tbl ! i) \<noteq> a"
      then have "i < k" using ik k by (cases "i = k") auto
      then have "lessMembership (tbl ! i) (tbl ! k)" using ms.table_nth [OF tbl [unfolded member_table_iff]] k by simp
      then have "L3_less (mm_address (tbl ! i)) a"
        using ne k ms.table_ok [OF tbl [unfolded member_table_iff], of i] \<open>i < k\<close> by (simp add: lessMembership_single)
      then show False using below [of i] less [of i] ne \<open>i < k\<close> k by simp
    qed
    with ik show "i \<le> k \<and> mm_address (tbl ! i) = a" by simp
  qed
  have not_below: "\<And>j. j < i \<Longrightarrow> mm_address (tbl ! j) \<noteq> a"
    using below less i by (metis order.strict_trans2)
  have f: "findFirstMulticastMembership a tbl = (if i \<noteq> length tbl \<and> mm_address (tbl ! i) = a then Some i else None)"
    by (simp add: findFirstMulticastMembership_def i_def)
  show "findFirstMulticastMembership a tbl = Some k \<longleftrightarrow>
     k < length tbl \<and> mm_address (tbl ! k) = a \<and> (\<forall>j < k. mm_address (tbl ! j) \<noteq> a)" (is "_ \<longleftrightarrow> ?r")
  proof
    assume "findFirstMulticastMembership a tbl = Some k"
    with f not_below i show ?r by (auto split: if_splits)
  next
    assume r: ?r
    with first [of k] have "i \<le> k" "mm_address (tbl ! i) = a" by simp_all
    moreover from this r have "i = k" by (cases "i < k") auto
    ultimately show "findFirstMulticastMembership a tbl = Some k" using f r by simp
  qed
  show "findFirstMulticastMembership a tbl = None \<longleftrightarrow> (\<forall>m \<in> set tbl. mm_address m \<noteq> a)" (is "_ \<longleftrightarrow> ?n")
  proof
    assume none: "findFirstMulticastMembership a tbl = None"
    show ?n
    proof
      fix m
      assume "m \<in> set tbl"
      then obtain k where k: "k < length tbl" "m = tbl ! k" by (auto simp: in_set_conv_nth)
      with none f first [of k] i show "mm_address m \<noteq> a" by (auto split: if_splits)
    qed
  next
    assume ?n
    with f i show "findFirstMulticastMembership a tbl = None" by (auto simp: le_less)
  qed
qed

lemma addMulticastMembership_table:
  assumes "member_table tbl" and "0 \<le> mm_interface m"
    and "findMulticastMembership (mm_address m) (mm_interface m) tbl = None"
  shows "member_table (addMulticastMembership m tbl)" "set (addMulticastMembership m tbl) = insert m (set tbl)"
proof -
  have m: "single m" using assms(2) by (simp add: single_def)
  have "lessMembership m y \<or> lessMembership y m" if y: "y \<in> set tbl" for y
  proof -
    have "single y" using assms(1) y by (auto simp: member_table_def)
    moreover have "\<not> (mm_address y = mm_address m \<and> mm_interface y = mm_interface m)"
      using membership_lookup [OF assms(1,2), of "mm_address m"] assms(3) y by (auto split: if_splits)
    ultimately show ?thesis using m L3_less_linear by (auto simp: lessMembership_single)
  qed
  then show "member_table (addMulticastMembership m tbl)"
    using ms.insert_table [OF assms(1) [unfolded member_table_iff] m]
    by (simp add: member_table_iff addMulticastMembership_def Let_def)
  show "set (addMulticastMembership m tbl) = insert m (set tbl)"
    by (metis Un_insert_right addMulticastMembership_def append_take_drop_id list.simps(15) set_append)
qed

section \<open>Options keep the tables sorted\<close>

definition same_key :: "membership \<Rightarrow> membership \<Rightarrow> bool" where
  "same_key m m' \<longleftrightarrow> mm_address m' = mm_address m \<and> mm_interface m' = mm_interface m"

lemma member_table_update:
  assumes "member_table tbl" and "k < length tbl" and "same_key (tbl ! k) m"
  shows "member_table (tbl[k := m])"
proof -
  have key: "same_key (tbl ! j) (tbl[k := m] ! j)" if "j < length tbl" for j
    using assms(2,3) that by (cases "j = k") (simp_all add: same_key_def)
  have less: "lessMembership (tbl[k := m] ! i) (tbl[k := m] ! j) \<longleftrightarrow> lessMembership (tbl ! i) (tbl ! j)"
    if "i < length tbl" "j < length tbl" for i j
    using key [OF that(1)] key [OF that(2)] by (simp add: lessMembership_def same_key_def)
  have "single (tbl[k := m] ! j)" if "j < length tbl" for j
    using key [OF that] assms(1) that by (simp add: member_table_def single_def same_key_def)
  then have "\<forall>x \<in> set (tbl[k := m]). single x" by (metis in_set_conv_nth length_list_update)
  moreover have "sorted_wrt lessMembership (tbl[k := m])"
    using assms(1) less by (auto simp: member_table_def sorted_wrt_iff_nth_less)
  ultimately show ?thesis by (simp add: member_table_def)
qed

lemma member_table_drop_middle:
  assumes "member_table tbl" and "i \<le> j"
  shows "member_table (take i tbl @ drop j tbl)"
proof -
  have "sorted_wrt lessMembership (take i tbl @ drop j tbl)"
  proof -
    have s: "\<forall>x \<in> set (take i tbl). \<forall>y \<in> set (drop i tbl). lessMembership x y"
      using assms(1) sorted_wrt_append [of lessMembership "take i tbl" "drop i tbl"] by (simp add: member_table_def)
    have d: "set (drop j tbl) \<subseteq> set (drop i tbl)" using assms(2) by (rule set_drop_subset_set_drop)
    have "sorted_wrt lessMembership (drop j tbl)"
      using assms(1) by (simp add: member_table_def sorted_wrt_drop)
    moreover have "sorted_wrt lessMembership (take i tbl)"
      using assms(1) by (simp add: member_table_def sorted_wrt_take)
    ultimately show ?thesis using s d by (auto simp: sorted_wrt_append)
  qed
  moreover have "\<forall>m \<in> set (take i tbl @ drop j tbl). single m"
    using assms(1) by (auto simp: member_table_def dest: in_set_takeD in_set_dropD)
  ultimately show ?thesis by (simp add: member_table_def)
qed

lemma leave_loop_drop: "leave_loop ift a ms = Inr (ms', out) \<Longrightarrow> \<exists>j. ms' = drop j ms"
proof (induction ms arbitrary: ms' out)
  case (Cons m ms)
  show ?case
  proof (cases "mm_address m \<noteq> a")
    case True
    with Cons.prems show ?thesis by (intro exI [of _ 0]) simp
  next
    case False
    with Cons.prems obtain out' where "leave_loop ift a ms = Inr (ms', out')" by auto
    from Cons.IH [OF this] obtain j where "ms' = drop j ms" ..
    then show ?thesis by (intro exI [of _ "Suc j"]) simp
  qed
qed simp

abbreviation mtable :: "sock_desc \<Rightarrow> bool" where
  "mtable sd \<equiv> member_table (multicastMembershipTable sd)"

lemma joinMulticastGroup_table:
  assumes "joinMulticastGroup C ift sd a i = Inr (sd', out)" and "mtable sd" and "0 \<le> i"
  shows "mtable sd'" "findMulticastMembership a i (multicastMembershipTable sd) = None"
    "set (multicastMembershipTable sd') = insert \<lparr>mm_address = a, mm_interface = i, mm_filter = UDP_EXCLUDE_MCAST_SOURCES,
       mm_sources = []\<rparr> (set (multicastMembershipTable sd))"
    "sd' = sd\<lparr>multicastMembershipTable := multicastMembershipTable sd'\<rparr>"
proof -
  define m where "m = \<lparr>mm_address = a, mm_interface = i, mm_filter = UDP_EXCLUDE_MCAST_SOURCES, mm_sources = []\<rparr>"
  have none: "findMulticastMembership a i (multicastMembershipTable sd) = None"
    and sd': "sd' = sd\<lparr>multicastMembershipTable := addMulticastMembership m (multicastMembershipTable sd)\<rparr>"
    using assms(1) by (auto simp: joinMulticastGroup_def Let_def m_def split: option.splits if_splits)
  have "findMulticastMembership (mm_address m) (mm_interface m) (multicastMembershipTable sd) = None"
    using none by (simp add: m_def)
  note add = addMulticastMembership_table [OF assms(2) _ this]
  show "mtable sd'" "set (multicastMembershipTable sd') = insert \<lparr>mm_address = a, mm_interface = i, mm_filter = UDP_EXCLUDE_MCAST_SOURCES,
       mm_sources = []\<rparr> (set (multicastMembershipTable sd))"
    using add assms(3) by (simp_all add: sd' m_def)
  show "findMulticastMembership a i (multicastMembershipTable sd) = None" by (rule none)
  show "sd' = sd\<lparr>multicastMembershipTable := multicastMembershipTable sd'\<rparr>" by (simp add: sd')
qed

lemma joinMulticastGroups_table:
  "joinMulticastGroups C ift as is sd = Inr (sd', out) \<Longrightarrow> mtable sd \<Longrightarrow> length as \<le> length is \<Longrightarrow> \<forall>i \<in> set is. 0 \<le> i \<Longrightarrow> mtable sd'"
proof (induction C ift as "is" sd arbitrary: sd' out rule: joinMulticastGroups.induct)
  case (2 C ift a as "is" sd)
  from "2.prems" obtain i js where i: "is = i # js" by (cases "is") auto
  with "2.prems"(1) obtain sd1 o1 o2 where 1: "joinMulticastGroup C ift sd a i = Inr (sd1, o1)"
    and 2: "joinMulticastGroups C ift as js sd1 = Inr (sd', o2)" by auto
  have "mtable sd1" using joinMulticastGroup_table(1) [OF 1] "2.prems" i by simp
  with 1 2 "2.IH" "2.prems" i show ?case by fastforce
qed simp

lemma leaveMulticastGroups_table:
  "leaveMulticastGroups ift as sd = Inr (sd', out) \<Longrightarrow> mtable sd \<Longrightarrow> mtable sd'"
proof (induction ift as sd arbitrary: sd' out rule: leaveMulticastGroups.induct)
  case (2 ift a as sd)
  show ?case
  proof (cases "findFirstMulticastMembership a (multicastMembershipTable sd)")
    case None
    with "2.prems" "2.IH" show ?thesis by auto
  next
    case (Some i)
    with "2.prems"(1) obtain ms o1 o2 where l: "leave_loop ift a (drop i (multicastMembershipTable sd)) = Inr (ms, o1)"
      and r: "leaveMulticastGroups ift as (sd\<lparr>multicastMembershipTable := take i (multicastMembershipTable sd) @ ms\<rparr>) = Inr (sd', o2)"
      by auto
    from leave_loop_drop [OF l] obtain j where "ms = drop (j + i) (multicastMembershipTable sd)" by auto
    then have "mtable (sd\<lparr>multicastMembershipTable := take i (multicastMembershipTable sd) @ ms\<rparr>)"
      using member_table_drop_middle [OF "2.prems"(2)] by simp
    with "2.IH" Some l r show ?thesis by fastforce
  qed
qed simp

lemma findMulticastMembership_Some:
  "findMulticastMembership a i tbl = Some k \<Longrightarrow> k \<le> length tbl \<Longrightarrow>
     k < length tbl \<and> mm_address (tbl ! k) = a \<and> mm_interface (tbl ! k) = i"
  by (auto simp: findMulticastMembership_def Let_def split: if_splits)

lemma findMulticastMembership_bound:
  assumes "member_table tbl" and "0 \<le> i" and "findMulticastMembership a i tbl = Some k"
  shows "k < length tbl \<and> mm_address (tbl ! k) = a \<and> mm_interface (tbl ! k) = i"
proof -
  have "k = lower_bound lessMembership tbl (membership_key a i)"
    using assms(3) by (simp add: findMulticastMembership_def Let_def split: if_splits)
  then have "k \<le> length tbl"
    using ms.lower_bound_spec(1) [OF assms(1) [unfolded member_table_iff], of "membership_key a i"] assms(2)
    by (simp add: single_def membership_key_def)
  with assms(3) show ?thesis by (rule findMulticastMembership_Some)
qed

lemma member_position_bound:
  assumes "member_position C ie a f sd = Inr k" and "mtable sd" and "0 \<le> if_id ie"
  shows "k < length (multicastMembershipTable sd)"
  using assms findMulticastMembership_bound [OF assms(2,3), of a k]
  by (auto simp: member_position_def split: option.splits if_splits)

lemma change_membership_table:
  assumes "change_membership k ie m m' r sd = (sd', out)" and "mtable sd" and "k < length (multicastMembershipTable sd)"
  shows "mtable sd'"
  using assms member_table_update [OF assms(2,3)]
  by (auto simp: change_membership_def Let_def same_key_def)

lemma ensure_membership_table:
  assumes "ensure_membership C ie a sd = Inr (k, sd')" and "mtable sd" and "0 \<le> if_id ie"
  shows "mtable sd'" "k < length (multicastMembershipTable sd')"
proof -
  have "mtable sd' \<and> k < length (multicastMembershipTable sd')"
  proof (cases "findMulticastMembership a (if_id ie) (multicastMembershipTable sd)")
    case None
    define m where "m = \<lparr>mm_address = a, mm_interface = if_id ie, mm_filter = UDP_INCLUDE_MCAST_SOURCES, mm_sources = []\<rparr>"
    have sd': "sd' = sd\<lparr>multicastMembershipTable := addMulticastMembership m (multicastMembershipTable sd)\<rparr>"
      and k: "k = lower_bound lessMembership (multicastMembershipTable sd) m"
      using assms(1) None by (auto simp: ensure_membership_def Let_def m_def)
    have "k \<le> length (multicastMembershipTable sd)"
      unfolding k using assms(3) by (intro ms.lower_bound_spec(1) [OF assms(2) [unfolded member_table_iff]]) (simp add: single_def m_def)
    then show ?thesis
      using addMulticastMembership_table(1) [OF assms(2), of m] assms(3) None
      by (simp add: sd' m_def) (simp add: addMulticastMembership_def Let_def)
  next
    case (Some j)
    with assms(1) have "sd' = sd" "k = j" by (auto simp: ensure_membership_def)
    with findMulticastMembership_bound [OF assms(2,3) Some] assms(2) show ?thesis by simp
  qed
  then show "mtable sd'" "k < length (multicastMembershipTable sd')" by simp_all
qed

text \<open>Groups are joined on single interfaces: one identifier for each address.\<close>

fun single_joins :: "udp_option \<Rightarrow> bool" where
  "single_joins (OptJoinGroups as is) = (length as \<le> length is \<and> (\<forall>i \<in> set is. 0 \<le> i))"
| "single_joins _ = True"

lemma getInterfaceById_mem: "getInterfaceById ift i = Inr ie \<Longrightarrow> ie \<in> set ift"
  by (auto simp: getInterfaceById_def find_Some_iff split: option.splits)

text \<open>C38: no option breaks the order of the table, as long as groups are joined on single interfaces.\<close>

theorem options_keep_table:
  assumes "setOption C ift opt sd = Inr (sd', out)" and "member_table (multicastMembershipTable sd)"
    and "single_joins opt" and "list_all (\<lambda>ie. 0 \<le> if_id ie) ift"
  shows "member_table (multicastMembershipTable sd')"
proof -
  have ids: "0 \<le> if_id ie" if "getInterfaceById ift i = Inr ie" for i ie
    using getInterfaceById_mem [OF that] assms(4) by (auto simp: list_all_iff)
  show ?thesis
  proof (cases opt)
    case (OptJoinGroups as js)
    with assms show ?thesis by (auto simp: setOption_def dest: joinMulticastGroups_table)
  next
    case (OptLeaveGroups as)
    with assms show ?thesis by (auto simp: setOption_def dest: leaveMulticastGroups_table)
  next
    case (OptBlockSources i a s)
    with assms(1) obtain ie k where ie: "getInterfaceById ift i = Inr ie" and k: "member_position C ie a (\<lambda>f. f = UDP_EXCLUDE_MCAST_SOURCES) sd = Inr k"
      and "change_membership k ie MCAST_EXCLUDE_SOURCES MCAST_EXCLUDE_SOURCES
             (push_found s (mm_sources (multicastMembershipTable sd ! k), False)) sd = (sd', out)"
      by (auto simp: setOption_def blockMulticastSources_def)
    then show ?thesis using change_membership_table member_position_bound [OF k assms(2) ids [OF ie]] assms(2) by blast
  next
    case (OptUnblockSources i a s)
    with assms(1) obtain ie k where ie: "getInterfaceById ift i = Inr ie" and k: "member_position C ie a (\<lambda>f. f = UDP_EXCLUDE_MCAST_SOURCES) sd = Inr k"
      and "change_membership k ie MCAST_EXCLUDE_SOURCES MCAST_EXCLUDE_SOURCES
             (erase_found s (mm_sources (multicastMembershipTable sd ! k), False)) sd = (sd', out)"
      by (auto simp: setOption_def unblockMulticastSources_def)
    then show ?thesis using change_membership_table member_position_bound [OF k assms(2) ids [OF ie]] assms(2) by blast
  next
    case (OptLeaveSources i a s)
    with assms(1) obtain ie k sd1 o1 where ie: "getInterfaceById ift i = Inr ie"
      and k: "member_position C ie a (\<lambda>f. f \<noteq> UDP_EXCLUDE_MCAST_SOURCES) sd = Inr k"
      and c: "change_membership k ie MCAST_EXCLUDE_SOURCES MCAST_EXCLUDE_SOURCES
             (erase_found s (mm_sources (multicastMembershipTable sd ! k), False)) sd = (sd1, o1)"
      and sd': "multicastMembershipTable sd' = multicastMembershipTable sd1 \<or>
         multicastMembershipTable sd' = deleteMulticastMembership k (multicastMembershipTable sd1)"
      by (auto simp: setOption_def leaveMulticastSources_def Let_def split: prod.splits if_splits)
    have "mtable sd1" by (rule change_membership_table [OF c assms(2) member_position_bound [OF k assms(2) ids [OF ie]]])
    with sd' member_table_drop_middle [of "multicastMembershipTable sd1" k "Suc k"] show ?thesis
      by (auto simp: deleteMulticastMembership_def)
  next
    case (OptJoinSources i a s)
    with assms(1) obtain ie k sd1 where ie: "getInterfaceById ift i = Inr ie" and e: "ensure_membership C ie a sd = Inr (k, sd1)"
      and c: "change_membership k ie MCAST_INCLUDE_SOURCES MCAST_INCLUDE_SOURCES
             (push_found s (mm_sources (multicastMembershipTable sd1 ! k), False)) sd1 = (sd', out)"
      by (auto simp: setOption_def joinMulticastSources_def Let_def split: if_splits)
    show ?thesis using change_membership_table [OF c ensure_membership_table [OF e assms(2) ids [OF ie]]] .
  next
    case (OptSourceFilter i a f s)
    with assms(1) obtain ie k sd1 where ie: "getInterfaceById ift i = Inr ie" and e: "ensure_membership C ie a sd = Inr (k, sd1)"
      and sd': "sd' = sd1 \<or> sd' = sd1\<lparr>multicastMembershipTable := (multicastMembershipTable sd1)
         [k := (multicastMembershipTable sd1 ! k)\<lparr>mm_filter := f, mm_sources := s\<rparr>]\<rparr>"
      by (auto simp: setOption_def setMulticastSourceFilter_def Let_def split: if_splits)
    note t = ensure_membership_table [OF e assms(2) ids [OF ie]]
    show ?thesis using sd' t member_table_update [OF t] by (auto simp: same_key_def)
  qed (use assms(1,2) in \<open>auto simp: setOption_def setTimeToLive_def setDscp_def setTos_def setBroadcast_def
        setMulticastOutputInterface_def setMulticastLoop_def setReuseAddress_def\<close>)
qed

section \<open>A joined group is received\<close>

text \<open>C32: after joining a group it was not a member of, a socket receives the datagrams of the group on its port, from
  every source its remote address and port admit, and only those.
\<close>

theorem joined_group_received:
  assumes "udp_ok s" and "sm_find (socketsByIdMap s) (sockId sd) = Some sd" and "member_table (multicastMembershipTable sd)"
    and "\<forall>m \<in> set (multicastMembershipTable sd). mm_address m \<noteq> grp"
    and "joinMulticastGroup C ift sd grp i = Inr (sd', out)" and "0 \<le> i"
  shows "\<exists>sds. findSocketsForMcastBcastPacket grp port ra rp True False (store_socket sd' s) = Inr sds \<and>
     (sd' \<in> set sds \<longleftrightarrow> localPort sd = uint port \<and> remote_matches ra rp sd)"
proof -
  note j = joinMulticastGroup_table [OF assms(5,3,6)]
  define m where "m = \<lparr>mm_address = grp, mm_interface = i, mm_filter = UDP_EXCLUDE_MCAST_SOURCES, mm_sources = []\<rparr>"
  have sd': "sockId sd' = sockId sd" "localPort sd' = localPort sd" "remote_matches ra rp sd' = remote_matches ra rp sd"
    by (subst j(4), simp add: remote_matches_def)+
  obtain k where k: "findFirstMulticastMembership grp (multicastMembershipTable sd') = Some k"
    using findFirst_lookup(2) [OF j(1), of grp] j(3) by fastforce
  then have "mm_address (multicastMembershipTable sd' ! k) = grp" "multicastMembershipTable sd' ! k \<in> set (multicastMembershipTable sd')"
    using findFirst_lookup(1) [OF j(1)] by auto
  then have "multicastMembershipTable sd' ! k = m" using j(3) assms(4) by (auto simp: m_def)
  then have allowed: "isSourceAllowed ra (multicastMembershipTable sd' ! k)" by (simp add: m_def isSourceAllowed_def)
  have "udp_ok (store_socket sd' s)" using assms(1,2) sd' by (intro udp_ok_store) auto
  have in_port: "sd' \<in> set (port_sockets (uint port) (store_socket sd' s)) \<longleftrightarrow> localPort sd = uint port"
  proof
    assume "sd' \<in> set (port_sockets (uint port) (store_socket sd' s))"
    from port_sockets_mem [OF \<open>udp_ok (store_socket sd' s)\<close> this] sd' show "localPort sd = uint port" by simp
  next
    assume "localPort sd = uint port"
    then have "sockId sd \<in> set (port_list (uint port) s)" using udp_okD(5) [OF assms(1,2)] by simp
    then show "sd' \<in> set (port_sockets (uint port) (store_socket sd' s))"
      using udp_okD(1) [OF assms(1)] sd'(1)
      by (auto simp: port_sockets_def List.map_filter_def image_iff intro!: bexI [of _ "sockId sd"])
  qed
  show ?thesis
    using in_port sd'(3) k allowed by (auto simp: findSocketsForMcastBcastPacket_def)
qed

text \<open>Blocking or joining sources only ever repeats sources that are in the list already.\<close>

lemma push_found_set: "set (fst (push_found l r)) = set (fst r)"
  by (induction l r rule: push_found.induct) auto

end
