(* ===== verification/SV_Lifecycle.thy ===== *)
theory SV_Lifecycle
  imports SV_Kernel
begin

text \<open>
  INET's \<open>OperationalBase\<close>: the operational state of a module, lifecycle operations that may finish later,
  and the dispatch of messages. The virtual functions of the module are a record of functions; the module's
  own state \<open>'s\<close> has the lifecycle inside, reached by \<open>op_lc\<close> and \<open>op_put\<close>. A function returns
  the new state, the kernel and what left the module (\<open>'o\<close>), in order.
\<close>

datatype op_state =
    STARTING_OPERATION | OPERATING | STOPPING_OPERATION | CRASHING_OPERATION | NOT_OPERATING
  | INVALID_STATE      \<comment> \<open>\<open>(State)(-1)\<close>\<close>

datatype op_kind = ModuleStartOperation | ModuleStopOperation | ModuleCrashOperation | OtherOperation

record lifecycle =
  operationalState :: op_state
  lastChange :: simtime
  activeOperation :: "op_kind option"
  endState :: op_state
  isDelayedFinish :: bool
  activeOperationTimeout :: nat
  activeOperationExtraTimer :: nat

definition lifecycle_new :: "nat \<Rightarrow> nat \<Rightarrow> lifecycle" where
  "lifecycle_new timeout extra =
     \<lparr>operationalState = NOT_OPERATING, lastChange = 0, activeOperation = None, endState = INVALID_STATE, isDelayedFinish = False,
      activeOperationTimeout = timeout, activeOperationExtraTimer = extra\<rparr>"

definition setOperationalState :: "'k kernel_ops \<Rightarrow> op_state \<Rightarrow> 'k \<Rightarrow> lifecycle \<Rightarrow> lifecycle" where
  "setOperationalState K newState k l = l\<lparr>operationalState := newState, lastChange := simTime K k\<rparr>"

definition setupActiveOperation :: "op_kind \<Rightarrow> op_state \<Rightarrow> lifecycle \<Rightarrow> lifecycle res" where
  "setupActiveOperation operation endState' l =
     rbind (assertr (activeOperation l = None) ''activeOperation.operation == nullptr'') (\<lambda>_.
     Inr (l\<lparr>activeOperation := Some operation, endState := endState', isDelayedFinish := False\<rparr>))"

text \<open>The flag tells whether the callback of the operation is invoked.\<close>

definition finishActiveOperation :: "'k kernel_ops \<Rightarrow> lifecycle \<Rightarrow> 'k \<Rightarrow> lifecycle \<times> 'k \<times> bool" where
  "finishActiveOperation K l k =
     (let l = setOperationalState K (endState l) k l;
          k = (if isDelayedFinish l
               then cancelEvent K (activeOperationTimeout l) (cancelEvent K (activeOperationExtraTimer l) k) else k)
      in (l\<lparr>activeOperation := None, endState := INVALID_STATE, isDelayedFinish := False\<rparr>, k, isDelayedFinish l))"

definition scheduleOperationTimeout :: "'k kernel_ops \<Rightarrow> simtime \<Rightarrow> lifecycle \<Rightarrow> 'k \<Rightarrow> 'k res" where
  "scheduleOperationTimeout K timeout l k =
     rbind (assertr (isDelayedFinish l) ''activeOperation.isDelayedFinish'') (\<lambda>_.
     rbind (assertr (\<not> isScheduled K (activeOperationTimeout l) k) ''!activeOperationTimeout->isScheduled()'') (\<lambda>_.
     scheduleAt K (simTime K k + timeout) (activeOperationTimeout l) k))"

definition delayActiveOperationFinish :: "'k kernel_ops \<Rightarrow> simtime \<Rightarrow> lifecycle \<Rightarrow> 'k \<Rightarrow> (lifecycle \<times> 'k) res" where
  "delayActiveOperationFinish K timeout l k =
     rbind (assertr (activeOperation l \<noteq> None) ''activeOperation.operation != nullptr'') (\<lambda>_.
     let l = l\<lparr>isDelayedFinish := True\<rparr>
     in rbind (scheduleOperationTimeout K timeout l k) (\<lambda>k. Inr (l, k)))"

definition startActiveOperationExtraTime :: "'k kernel_ops \<Rightarrow> simtime \<Rightarrow> lifecycle \<Rightarrow> 'k \<Rightarrow> (lifecycle \<times> 'k) res" where
  "startActiveOperationExtraTime K extraTime l k =
     rbind (assertr (0 \<le> extraTime) ''extraTime >= SIMTIME_ZERO'') (\<lambda>_.
     rbind (assertr (\<not> isScheduled K (activeOperationExtraTimer l) k) ''!activeOperationExtraTimer->isScheduled()'') (\<lambda>_.
     let l = setOperationalState K (endState l) k (l\<lparr>isDelayedFinish := True\<rparr>)
     in rbind (scheduleAt K (simTime K k + extraTime) (activeOperationExtraTimer l) k) (\<lambda>k. Inr (l, k))))"

definition startActiveOperationExtraTimeOrFinish ::
    "'k kernel_ops \<Rightarrow> simtime \<Rightarrow> lifecycle \<Rightarrow> 'k \<Rightarrow> (lifecycle \<times> 'k \<times> bool) res" where
  "startActiveOperationExtraTimeOrFinish K extraTime l k =
     (if 0 \<le> extraTime then rbind (startActiveOperationExtraTime K extraTime l k) (\<lambda>(l, k). Inr (l, k, False))
      else Inr (finishActiveOperation K l k))"

section \<open>The module's virtual functions\<close>

record ('s, 'k, 'm, 'o) operational =
  op_lc :: "'s \<Rightarrow> lifecycle"
  op_put :: "lifecycle \<Rightarrow> 's \<Rightarrow> 's"
  op_done :: 'o                                                      \<comment> \<open>the callback of the operation is invoked\<close>
  op_start :: "'s \<Rightarrow> 'k \<Rightarrow> ('s \<times> 'k \<times> 'o list) res"
  op_stop :: "'s \<Rightarrow> 'k \<Rightarrow> ('s \<times> 'k \<times> 'o list) res"
  op_crash :: "'s \<Rightarrow> 'k \<Rightarrow> ('s \<times> 'k \<times> 'o list) res"
  op_self :: "nat \<Rightarrow> 's \<Rightarrow> 'k \<Rightarrow> ('s \<times> 'k \<times> 'o list) res"  \<comment> \<open>\<open>handleMessageWhenUp\<close> of a self message\<close>
  op_arrived :: "'m \<Rightarrow> 's \<Rightarrow> 'k \<Rightarrow> ('s \<times> 'k \<times> 'o list) res" \<comment> \<open>and of another message\<close>

definition op_finish :: "'k kernel_ops \<Rightarrow> ('s, 'k, 'm, 'o) operational \<Rightarrow> 's \<Rightarrow> 'k \<Rightarrow> 's \<times> 'k \<times> 'o list" where
  "op_finish K V s k =
     (case finishActiveOperation K (op_lc V s) k of (l, k, invoked) \<Rightarrow> (op_put V l s, k, if invoked then [op_done V] else []))"

definition op_initialize :: "'k kernel_ops \<Rightarrow> ('s, 'k, 'm, 'o) operational \<Rightarrow> bool \<Rightarrow> 's \<Rightarrow> 'k \<Rightarrow> ('s \<times> 'k \<times> 'o list) res" where
  "op_initialize K V nodeUp s k =
     (let state = (if nodeUp then OPERATING else NOT_OPERATING);
          s = op_put V (setOperationalState K state k (op_lc V s)) s
      in if state = OPERATING then op_start V s k else Inr (s, k, []))"

datatype 'm op_message = OwnMessage nat | Arrived 'm

definition handleMessageWhenDown :: "'k kernel_ops \<Rightarrow> 'm op_message \<Rightarrow> lifecycle \<Rightarrow> 'k \<Rightarrow> unit res" where
  "handleMessageWhenDown K msg l k =
     (case msg of
        OwnMessage _ \<Rightarrow> throwr ''Self message received when module is down''
      | Arrived _ \<Rightarrow> if simTime K k = lastChange l then Inr () else throwr ''Message received when module is down'')"

definition op_handleMessage ::
    "'k kernel_ops \<Rightarrow> ('s, 'k, 'm, 'o) operational \<Rightarrow> 'm op_message \<Rightarrow> 's \<Rightarrow> 'k \<Rightarrow> ('s \<times> 'k \<times> 'o list) res" where
  "op_handleMessage K V msg s k =
     (if msg = OwnMessage (activeOperationExtraTimer (op_lc V s)) then Inr (op_finish K V s k)
      else if msg = OwnMessage (activeOperationTimeout (op_lc V s)) then
        rbind (op_crash V s (cancelEvent K (activeOperationExtraTimer (op_lc V s)) k)) (\<lambda>(s, k, out).
        let (s, k, out') = op_finish K V s k in Inr (s, k, out @ out'))
      else case operationalState (op_lc V s) of
             CRASHING_OPERATION \<Rightarrow> throwr ''Invalid operational state''
           | INVALID_STATE \<Rightarrow> throwr ''Invalid operational state''
           | NOT_OPERATING \<Rightarrow> rbind (handleMessageWhenDown K msg (op_lc V s) k) (\<lambda>_. Inr (s, k, []))
           | _ \<Rightarrow> (case msg of OwnMessage m \<Rightarrow> op_self V m s k | Arrived x \<Rightarrow> op_arrived V x s k))"

text \<open>\<open>handleOperationStage\<close> in the stage of the module: what it returns tells whether the operation is over.\<close>

definition begin_operation :: "op_kind \<Rightarrow> op_state \<Rightarrow> op_state \<Rightarrow> ('s, 'k, 'm, 'o) operational \<Rightarrow> 's \<Rightarrow> 's res" where
  "begin_operation operation during endState' V s =
     rbind (setupActiveOperation operation endState' ((op_lc V s)\<lparr>operationalState := during\<rparr>)) (\<lambda>l. Inr (op_put V l s))"

definition finish_unless_delayed ::
    "'k kernel_ops \<Rightarrow> ('s, 'k, 'm, 'o) operational \<Rightarrow> 's \<Rightarrow> 'k \<Rightarrow> 's \<times> 'k \<times> 'o list" where
  "finish_unless_delayed K V s k =
     (if activeOperation (op_lc V s) \<noteq> None \<and> \<not> isDelayedFinish (op_lc V s) then op_finish K V s k else (s, k, []))"

definition handleOperationStage ::
    "'k kernel_ops \<Rightarrow> ('s, 'k, 'm, 'o) operational \<Rightarrow> op_kind \<Rightarrow> 's \<Rightarrow> 'k \<Rightarrow> (bool \<times> 's \<times> 'k \<times> 'o list) res" where
  "handleOperationStage K V operation s k =
     (case operation of
        ModuleStartOperation \<Rightarrow>
          rbind (begin_operation operation STARTING_OPERATION OPERATING V s) (\<lambda>s.
          rbind (op_start V s k) (\<lambda>(s, k, out).
          let (s, k, out') = finish_unless_delayed K V s k in Inr (activeOperation (op_lc V s) = None, s, k, out @ out')))
      | ModuleStopOperation \<Rightarrow>
          rbind (begin_operation operation STOPPING_OPERATION NOT_OPERATING V s) (\<lambda>s.
          rbind (op_stop V s k) (\<lambda>(s, k, out).
          let (s, k, out') = finish_unless_delayed K V s k in Inr (activeOperation (op_lc V s) = None, s, k, out @ out')))
      | ModuleCrashOperation \<Rightarrow>
          rbind (begin_operation operation CRASHING_OPERATION NOT_OPERATING V s) (\<lambda>s.
          rbind (op_crash V s k) (\<lambda>(s, k, out).
          let (s, k, out') = op_finish K V s k in Inr (True, s, k, out @ out')))
      | OtherOperation \<Rightarrow> throwr ''unaccepted Lifecycle operation'')"

end
