(* ===== verification/SV_UdpApp.thy ===== *)
theory SV_UdpApp
  imports SV_Udp SV_Lifecycle
begin

text \<open>
  The application of the example's vehicles, INET's \<open>UdpBasicApp\<close>, with its \<open>UdpSocket\<close>. What the application
  sends to its socket are the messages \<open>Udp\<close> handles (theory \<open>SV_Udp\<close>); its lifecycle is that of theory
  \<open>SV_Lifecycle\<close>. Parameters whose value is drawn each time they are read, and the resolution of addresses, are
  functions in \<open>app_par\<close>.
\<close>

section \<open>UdpSocket\<close>

datatype sock_state = CONNECTED | CLOSED

record udp_socket =
  us_id :: int
  us_callback :: bool           \<comment> \<open>\<open>setCallback\<close> has been called\<close>
  us_gate :: bool               \<comment> \<open>\<open>setOutputGate\<close> has been called\<close>
  us_state :: sock_state

definition UdpSocket :: "int \<Rightarrow> udp_socket" where
  "UdpSocket uniqueNumber = \<lparr>us_id = uniqueNumber, us_callback = False, us_gate = False, us_state = CLOSED\<rparr>"

text \<open>\<open>sendToUDP\<close> of a command.\<close>

definition sendCommand :: "udp_socket \<Rightarrow> udp_command \<Rightarrow> udp_message res" where
  "sendCommand us cmd =
     (if us_gate us then Inr (AppCommand (Some (us_id us)) cmd)
      else throwr ''UdpSocket: setOutputGate() must be invoked before socket can be used'')"

definition UdpSocket_bind :: "L3Address \<Rightarrow> int \<Rightarrow> udp_socket \<Rightarrow> (udp_socket \<times> udp_message) res" where
  "UdpSocket_bind addr port us =
     (if port < -1 \<or> port > 65535 then throwr ''UdpSocket::bind(): invalid port number''
      else rbind (sendCommand us (UdpBindCommand addr port)) (\<lambda>m. Inr (us\<lparr>us_state := CONNECTED\<rparr>, m)))"

definition UdpSocket_connect :: "L3Address \<Rightarrow> int \<Rightarrow> udp_socket \<Rightarrow> (udp_socket \<times> udp_message) res" where
  "UdpSocket_connect addr port us =
     (if isUnspecified addr then throwr ''UdpSocket::connect(): unspecified remote address''
      else if port \<le> 0 \<or> port > 65535 then throwr ''UdpSocket::connect(): invalid remote port number''
      else rbind (sendCommand us (UdpConnectCommand addr port)) (\<lambda>m. Inr (us\<lparr>us_state := CONNECTED\<rparr>, m)))"

text \<open>\<open>sendToUDP\<close> of a packet: the tags are added if they are absent.\<close>

definition sendPacketToUDP :: "udp_packet \<Rightarrow> udp_socket \<Rightarrow> (udp_socket \<times> udp_message) res" where
  "sendPacketToUDP p us =
     (if us_gate us
      then Inr (us\<lparr>us_state := CONNECTED\<rparr>,
                AppPacket (p\<lparr>up_dispatch := Some P_udp, up_socketReq := Some (us_id us)\<rparr>))
      else throwr ''UdpSocket: setOutputGate() must be invoked before socket can be used'')"

definition UdpSocket_sendTo :: "udp_packet \<Rightarrow> L3Address \<Rightarrow> int \<Rightarrow> udp_socket \<Rightarrow> (udp_socket \<times> udp_message) res" where
  "UdpSocket_sendTo p destAddr destPort us =
     (let p = p\<lparr>up_kind := UDP_C_DATA,
                up_l3Req := Some (case up_l3Req p of None \<Rightarrow> L3_NONE | Some (src, _) \<Rightarrow> src, destAddr)\<rparr>;
          p = (if destPort \<noteq> -1
               then p\<lparr>up_portReq := Some (case up_portReq p of None \<Rightarrow> -1 | Some (src, _) \<Rightarrow> src, destPort)\<rparr> else p)
      in sendPacketToUDP p us)"

definition UdpSocket_send :: "udp_packet \<Rightarrow> udp_socket \<Rightarrow> (udp_socket \<times> udp_message) res" where
  "UdpSocket_send p us = sendPacketToUDP (p\<lparr>up_kind := UDP_C_DATA\<rparr>) us"

definition UdpSocket_close :: "udp_socket \<Rightarrow> (udp_socket \<times> udp_message) res" where
  "UdpSocket_close us = rbind (sendCommand us UdpCloseCommand) (\<lambda>m. Inr (us\<lparr>us_state := CONNECTED\<rparr>, m))"

definition UdpSocket_destroy :: "udp_socket \<Rightarrow> udp_message res" where
  "UdpSocket_destroy us = sendCommand us UdpDestroyCommand"

text \<open>The options; \<open>short\<close> parameters are 16 bits wide.\<close>

definition to_short :: "int \<Rightarrow> int" where
  "to_short v = sint (word_of_int v :: 16 word)"

definition UdpSocket_setTimeToLive :: "int \<Rightarrow> udp_socket \<Rightarrow> udp_message res" where
  "UdpSocket_setTimeToLive v us = sendCommand us (UdpSetOptionCommand (OptTtl v))"

definition UdpSocket_setDscp :: "int \<Rightarrow> udp_socket \<Rightarrow> udp_message res" where
  "UdpSocket_setDscp v us = sendCommand us (UdpSetOptionCommand (OptDscp (to_short v)))"

definition UdpSocket_setTos :: "int \<Rightarrow> udp_socket \<Rightarrow> udp_message res" where
  "UdpSocket_setTos v us = sendCommand us (UdpSetOptionCommand (OptTos (to_short v)))"

definition UdpSocket_setBroadcast :: "bool \<Rightarrow> udp_socket \<Rightarrow> udp_message res" where
  "UdpSocket_setBroadcast v us = sendCommand us (UdpSetOptionCommand (OptBroadcast v))"

definition UdpSocket_setMulticastOutputInterface :: "int \<Rightarrow> udp_socket \<Rightarrow> udp_message res" where
  "UdpSocket_setMulticastOutputInterface v us = sendCommand us (UdpSetOptionCommand (OptMulticastInterface v))"

definition UdpSocket_setMulticastLoop :: "bool \<Rightarrow> udp_socket \<Rightarrow> udp_message res" where
  "UdpSocket_setMulticastLoop v us = sendCommand us (UdpSetOptionCommand (OptMulticastLoop v))"

definition UdpSocket_setReuseAddress :: "bool \<Rightarrow> udp_socket \<Rightarrow> udp_message res" where
  "UdpSocket_setReuseAddress v us = sendCommand us (UdpSetOptionCommand (OptReuseAddress v))"

definition UdpSocket_joinMulticastGroup :: "L3Address \<Rightarrow> int \<Rightarrow> udp_socket \<Rightarrow> udp_message res" where
  "UdpSocket_joinMulticastGroup addr interfaceId us = sendCommand us (UdpSetOptionCommand (OptJoinGroups [addr] [interfaceId]))"

definition UdpSocket_leaveMulticastGroup :: "L3Address \<Rightarrow> udp_socket \<Rightarrow> udp_message res" where
  "UdpSocket_leaveMulticastGroup addr us = sendCommand us (UdpSetOptionCommand (OptLeaveGroups [addr]))"

definition UdpSocket_blockMulticastSources :: "int \<Rightarrow> L3Address \<Rightarrow> L3Address list \<Rightarrow> udp_socket \<Rightarrow> udp_message res" where
  "UdpSocket_blockMulticastSources interfaceId addr sourceList us =
     sendCommand us (UdpSetOptionCommand (OptBlockSources interfaceId addr sourceList))"

definition UdpSocket_unblockMulticastSources :: "int \<Rightarrow> L3Address \<Rightarrow> L3Address list \<Rightarrow> udp_socket \<Rightarrow> udp_message res" where
  "UdpSocket_unblockMulticastSources interfaceId addr sourceList us =
     sendCommand us (UdpSetOptionCommand (OptUnblockSources interfaceId addr sourceList))"

definition UdpSocket_leaveMulticastSources :: "int \<Rightarrow> L3Address \<Rightarrow> L3Address list \<Rightarrow> udp_socket \<Rightarrow> udp_message res" where
  "UdpSocket_leaveMulticastSources interfaceId addr sourceList us =
     sendCommand us (UdpSetOptionCommand (OptLeaveSources interfaceId addr sourceList))"

definition UdpSocket_joinMulticastSources :: "int \<Rightarrow> L3Address \<Rightarrow> L3Address list \<Rightarrow> udp_socket \<Rightarrow> udp_message res" where
  "UdpSocket_joinMulticastSources interfaceId addr sourceList us =
     sendCommand us (UdpSetOptionCommand (OptJoinSources interfaceId addr sourceList))"

definition UdpSocket_setMulticastSourceFilter ::
    "int \<Rightarrow> L3Address \<Rightarrow> filter_mode \<Rightarrow> L3Address list \<Rightarrow> udp_socket \<Rightarrow> udp_message res" where
  "UdpSocket_setMulticastSourceFilter interfaceId addr filterMode sourceList us =
     sendCommand us (UdpSetOptionCommand (OptSourceFilter interfaceId addr filterMode sourceList))"

text \<open>A multicast group list: group and interface. Nothing is sent for an empty one.\<close>

definition joinLocalMulticastGroups :: "(L3Address \<times> int) list \<Rightarrow> udp_socket \<Rightarrow> udp_message list res" where
  "joinLocalMulticastGroups mgl us =
     (if mgl = [] then Inr []
      else rbind (sendCommand us (UdpSetOptionCommand (OptJoinGroups (map fst mgl) (map snd mgl)))) (\<lambda>m. Inr [m]))"

definition leaveLocalMulticastGroups :: "(L3Address \<times> int) list \<Rightarrow> udp_socket \<Rightarrow> udp_message list res" where
  "leaveLocalMulticastGroups mgl us =
     (if mgl = [] then Inr []
      else rbind (sendCommand us (UdpSetOptionCommand (OptLeaveGroups (map fst mgl)))) (\<lambda>m. Inr [m]))"

section \<open>What \<open>Udp\<close> sends to an application\<close>

datatype udp_indication =
    DataIndication udp_packet
  | SocketErrorIndication int
  | SocketClosedIndication int
  | UnknownIndication int int     \<comment> \<open>kind, socket\<close>

fun indication_socket :: "udp_indication \<Rightarrow> int option" where
  "indication_socket (DataIndication p) = up_socketInd p"
| "indication_socket (SocketErrorIndication i) = Some i"
| "indication_socket (SocketClosedIndication i) = Some i"
| "indication_socket (UnknownIndication _ i) = Some i"

definition belongsToSocket :: "udp_socket \<Rightarrow> udp_indication \<Rightarrow> bool" where
  "belongsToSocket us x \<longleftrightarrow> indication_socket x = Some (us_id us)"

section \<open>UdpBasicApp\<close>

record 'k app_par =
  ap_localPort :: int
  ap_destPort :: int
  ap_startTime :: simtime
  ap_stopTime :: simtime
  ap_packetName :: string
  ap_dontFragment :: bool
  ap_localAddress :: "L3Address option"         \<comment> \<open>\<open>localAddress\<close> resolved, if it is not empty\<close>
  ap_destAddresses :: "string list"             \<comment> \<open>the tokens of \<open>destAddresses\<close>\<close>
  ap_tryResolve :: "string \<Rightarrow> 'k \<Rightarrow> L3Address option"
  ap_isLinkLocal :: "L3Address \<Rightarrow> bool"
  ap_timeToLive :: int
  ap_dscp :: int
  ap_tos :: int
  ap_multicastInterface :: string
  ap_ift :: "iface list"
  ap_groups :: "(L3Address \<times> int) list"         \<comment> \<open>\<open>collectMulticastGroups\<close>\<close>
  ap_receiveBroadcast :: bool
  ap_joinLocalMulticastGroups :: bool
  ap_messageLength :: "'k \<Rightarrow> nat \<times> 'k"
  ap_sendInterval :: "'k \<Rightarrow> simtime \<times> 'k"
  ap_stopOperationExtraTime :: simtime
  ap_stopOperationTimeout :: simtime

datatype self_kind = NO_KIND | START | SEND | STOP

record basic_app =
  lifecycle :: lifecycle
  app_socket :: udp_socket
  destAddresses :: "(string \<times> L3Address) list"
  selfMsg :: nat
  selfKind :: self_kind
  app_numSent :: nat
  app_numReceived :: nat

datatype app_out = ToUdp udp_message | Done

text \<open>\<open>initialize\<close> in the first stage; the identifiers are those of the three messages and of the socket.\<close>

definition UdpBasicApp_new :: "'k app_par \<Rightarrow> int \<Rightarrow> nat \<Rightarrow> nat \<Rightarrow> nat \<Rightarrow> basic_app res" where
  "UdpBasicApp_new A sid self timeout extra =
     (if 0 \<le> ap_stopTime A \<and> ap_stopTime A < ap_startTime A then throwr ''Invalid startTime/stopTime parameters''
      else Inr \<lparr>lifecycle = lifecycle_new timeout extra, app_socket = UdpSocket sid, destAddresses = [], selfMsg = self,
                selfKind = NO_KIND, app_numSent = 0, app_numReceived = 0\<rparr>)"

definition opt_command :: "bool \<Rightarrow> udp_message res \<Rightarrow> udp_message list res" where
  "opt_command b m = (if b then rbind m (\<lambda>m. Inr [m]) else Inr [])"

definition setSocketOptions :: "'k app_par \<Rightarrow> udp_socket \<Rightarrow> (udp_socket \<times> udp_message list) res" where
  "setSocketOptions A us =
     rbind (opt_command (ap_timeToLive A \<noteq> -1) (UdpSocket_setTimeToLive (ap_timeToLive A) us)) (\<lambda>m1.
     rbind (opt_command (ap_dscp A \<noteq> -1) (UdpSocket_setDscp (ap_dscp A) us)) (\<lambda>m2.
     rbind (opt_command (ap_tos A \<noteq> -1) (UdpSocket_setTos (ap_tos A) us)) (\<lambda>m3.
     rbind (if ap_multicastInterface A = [] then Inr []
            else case List.find (\<lambda>ie. if_name ie = ap_multicastInterface A) (ap_ift A) of
                   None \<Rightarrow> throwr ''Wrong multicastInterface setting: no interface with this name''
                 | Some ie \<Rightarrow> rbind (UdpSocket_setMulticastOutputInterface (if_id ie) us) (\<lambda>m. Inr [m])) (\<lambda>m4.
     rbind (opt_command (ap_receiveBroadcast A) (UdpSocket_setBroadcast True us)) (\<lambda>m5.
     rbind (if ap_joinLocalMulticastGroups A then joinLocalMulticastGroups (ap_groups A) us else Inr []) (\<lambda>m6.
     Inr (us\<lparr>us_callback := True\<rparr>, m1 @ m2 @ m3 @ m4 @ m5 @ m6)))))))"

text \<open>A destination that is not known yet is resolved again; the result of the resolution is kept.\<close>

definition chooseDestAddr :: "'k kernel_ops \<Rightarrow> 'k app_par \<Rightarrow> basic_app \<Rightarrow> 'k \<Rightarrow> (L3Address \<times> basic_app \<times> 'k) res" where
  "chooseDestAddr K A s k =
     (let (n, k) = intuniform K 0 (int (length (destAddresses s)) - 1) k; i = nat n
      in if i \<ge> length (destAddresses s) then Inl OutOfRange
         else (let (str, a) = destAddresses s ! i;
                   a' = (if isUnspecified a \<or> ap_isLinkLocal A a
                         then (case ap_tryResolve A str k of None \<Rightarrow> a | Some r \<Rightarrow> r) else a)
               in Inr (a', s\<lparr>destAddresses := (destAddresses s)[i := (str, a')]\<rparr>, k)))"

text \<open>
  The payload: length, sequence number, and question marks. A payload too short for its two fields cannot be serialized; only
  its length matters then, to the modes that compute no checksum, and its bytes are zeros here.
\<close>

definition ApplicationPacket_serialize :: "nat \<Rightarrow> 32 word \<Rightarrow> octet list res" where
  "ApplicationPacket_serialize n sequenceNumber =
     (if n < 8 then throwr ''ApplicationPacket length smaller than required''
      else Inr (writeUint32Be (of_nat n) @ writeUint32Be sequenceNumber @ replicate (n - 8) 63))"

definition payload_bytes :: "nat \<Rightarrow> 32 word \<Rightarrow> octet list" where
  "payload_bytes n sequenceNumber =
     (case ApplicationPacket_serialize n sequenceNumber of Inl _ \<Rightarrow> replicate n 0 | Inr bs \<Rightarrow> bs)"

definition new_udp_packet :: "string \<Rightarrow> octet list \<Rightarrow> udp_packet" where
  "new_udp_packet nm bytes =
     \<lparr>up_name = nm, up_kind = 0, up_header = None, up_data = \<lparr>ud_bytes = bytes, ud_correct = True\<rparr>, up_icmp = None, up_protocol = None,
      up_dispatch = None, up_socketReq = None, up_l3Req = None, up_portReq = None, up_interfaceReq = None, up_multicastReq = None,
      up_hopLimitReq = None, up_dscpReq = None, up_tosReq = None, up_dontFragment = None, up_transportInd = None,
      up_networkInd = None, up_l3Ind = None, up_interfaceInd = None, up_hopLimitInd = None, up_socketInd = None, up_portInd = None\<rparr>"

definition sendPacket :: "'k kernel_ops \<Rightarrow> 'k app_par \<Rightarrow> basic_app \<Rightarrow> 'k \<Rightarrow> (basic_app \<times> 'k \<times> udp_message) res" where
  "sendPacket K A s k =
     (let (n, k) = ap_messageLength A k
      in if n = 0 then throwr ''chunk is empty''
         else
         let p = new_udp_packet (ap_packetName A @ ''-'' @ print_nat (app_numSent s))
                   (payload_bytes n (of_nat (app_numSent s)));
             p = (if ap_dontFragment A then p\<lparr>up_dontFragment := Some True\<rparr> else p)
         in rbind (chooseDestAddr K A s k) (\<lambda>(destAddr, s, k).
            rbind (UdpSocket_sendTo p destAddr (ap_destPort A) (app_socket s)) (\<lambda>(us, m).
            Inr (s\<lparr>app_socket := us, app_numSent := app_numSent s + 1\<rparr>, k, m))))"

definition schedule_self :: "'k kernel_ops \<Rightarrow> self_kind \<Rightarrow> simtime \<Rightarrow> basic_app \<Rightarrow> 'k \<Rightarrow> (basic_app \<times> 'k) res" where
  "schedule_self K kind t s k = rbind (scheduleAt K t (selfMsg s) k) (\<lambda>k. Inr (s\<lparr>selfKind := kind\<rparr>, k))"

definition processSend :: "'k kernel_ops \<Rightarrow> 'k app_par \<Rightarrow> basic_app \<Rightarrow> 'k \<Rightarrow> (basic_app \<times> 'k \<times> app_out list) res" where
  "processSend K A s k =
     rbind (sendPacket K A s k) (\<lambda>(s, k, m).
     let (interval, k) = ap_sendInterval A k; d = simTime K k + interval
     in rbind (if ap_stopTime A < 0 \<or> d < ap_stopTime A then schedule_self K SEND d s k
               else schedule_self K STOP (ap_stopTime A) s k) (\<lambda>(s, k). Inr (s, k, [ToUdp m])))"

definition resolve_all :: "'k app_par \<Rightarrow> 'k \<Rightarrow> string list \<Rightarrow> (string \<times> L3Address) list" where
  "resolve_all A k = map (\<lambda>token. (token, case ap_tryResolve A token k of None \<Rightarrow> L3_NONE | Some a \<Rightarrow> a))"

definition processStart :: "'k kernel_ops \<Rightarrow> 'k app_par \<Rightarrow> basic_app \<Rightarrow> 'k \<Rightarrow> (basic_app \<times> 'k \<times> app_out list) res" where
  "processStart K A s k =
     rbind (UdpSocket_bind (case ap_localAddress A of None \<Rightarrow> L3_NONE | Some a \<Rightarrow> a) (ap_localPort A)
              ((app_socket s)\<lparr>us_gate := True\<rparr>)) (\<lambda>(us, m).
     rbind (setSocketOptions A us) (\<lambda>(us, ms).
     let out = map ToUdp (m # ms);
         s = s\<lparr>app_socket := us, destAddresses := destAddresses s @ resolve_all A k (ap_destAddresses A)\<rparr>
     in if destAddresses s \<noteq> []
        then rbind (processSend K A (s\<lparr>selfKind := SEND\<rparr>) k) (\<lambda>(s, k, out'). Inr (s, k, out @ out'))
        else if 0 \<le> ap_stopTime A
        then rbind (schedule_self K STOP (ap_stopTime A) s k) (\<lambda>(s, k). Inr (s, k, out))
        else Inr (s, k, out)))"

definition processStop :: "basic_app \<Rightarrow> 'k \<Rightarrow> (basic_app \<times> 'k \<times> app_out list) res" where
  "processStop s k =
     rbind (UdpSocket_close (app_socket s)) (\<lambda>(us, m). Inr (s\<lparr>app_socket := us\<rparr>, k, [ToUdp m]))"

text \<open>\<open>handleMessageWhenUp\<close>: a self message, and a message of \<open>Udp\<close> through \<open>UdpSocket::processMessage\<close>.\<close>

definition app_self :: "'k kernel_ops \<Rightarrow> 'k app_par \<Rightarrow> nat \<Rightarrow> basic_app \<Rightarrow> 'k \<Rightarrow> (basic_app \<times> 'k \<times> app_out list) res" where
  "app_self K A msg s k =
     rbind (assertr (msg = selfMsg s) ''msg == selfMsg'') (\<lambda>_.
     case selfKind s of
       START \<Rightarrow> processStart K A s k
     | SEND \<Rightarrow> processSend K A s k
     | STOP \<Rightarrow> processStop s k
     | NO_KIND \<Rightarrow> throwr ''Invalid kind in self message'')"

text \<open>The callbacks of the socket, when the application has set itself.\<close>

definition socketClosed :: "'k kernel_ops \<Rightarrow> 'k app_par \<Rightarrow> basic_app \<Rightarrow> 'k \<Rightarrow> (basic_app \<times> 'k \<times> app_out list) res" where
  "socketClosed K A s k =
     (if operationalState (lifecycle s) = STOPPING_OPERATION
      then rbind (startActiveOperationExtraTimeOrFinish K (ap_stopOperationExtraTime A) (lifecycle s) k) (\<lambda>(l, k, invoked).
           Inr (s\<lparr>lifecycle := l\<rparr>, k, if invoked then [Done] else []))
      else Inr (s, k, []))"

definition processPacket :: "basic_app \<Rightarrow> basic_app" where
  "processPacket s = s\<lparr>app_numReceived := app_numReceived s + 1\<rparr>"

definition app_arrived ::
    "'k kernel_ops \<Rightarrow> 'k app_par \<Rightarrow> udp_indication \<Rightarrow> basic_app \<Rightarrow> 'k \<Rightarrow> (basic_app \<times> 'k \<times> app_out list) res" where
  "app_arrived K A x s k =
     rbind (assertr (belongsToSocket (app_socket s) x) ''belongsToSocket(msg)'') (\<lambda>_.
     case x of
       DataIndication p \<Rightarrow>
         Inr (if us_callback (app_socket s) then processPacket s else s, k, [])
     | SocketErrorIndication _ \<Rightarrow> Inr (s, k, [])
     | SocketClosedIndication _ \<Rightarrow>
         (let s = s\<lparr>app_socket := (app_socket s)\<lparr>us_state := CLOSED\<rparr>\<rparr>
          in if us_callback (app_socket s) then socketClosed K A s k else Inr (s, k, []))
     | UnknownIndication _ _ \<Rightarrow> throwr ''UdpSocket: invalid msg kind, one of the UDP_I_xxx constants expected'')"

section \<open>Lifecycle of the application\<close>

definition UdpBasicApp_handleStartOperation ::
    "'k kernel_ops \<Rightarrow> 'k app_par \<Rightarrow> basic_app \<Rightarrow> 'k \<Rightarrow> (basic_app \<times> 'k \<times> app_out list) res" where
  "UdpBasicApp_handleStartOperation K A s k =
     (let start = max (ap_startTime A) (simTime K k)
      in if ap_stopTime A < 0 \<or> start < ap_stopTime A \<or> start = ap_stopTime A \<and> ap_startTime A = ap_stopTime A
         then rbind (schedule_self K START start s k) (\<lambda>(s, k). Inr (s, k, []))
         else Inr (s, k, []))"

definition UdpBasicApp_handleStopOperation ::
    "'k kernel_ops \<Rightarrow> 'k app_par \<Rightarrow> basic_app \<Rightarrow> 'k \<Rightarrow> (basic_app \<times> 'k \<times> app_out list) res" where
  "UdpBasicApp_handleStopOperation K A s k =
     (let k = cancelEvent K (selfMsg s) k
      in rbind (UdpSocket_close (app_socket s)) (\<lambda>(us, m).
         rbind (delayActiveOperationFinish K (ap_stopOperationTimeout A) (lifecycle s) k) (\<lambda>(l, k).
         Inr (s\<lparr>app_socket := us, lifecycle := l\<rparr>, k, [ToUdp m]))))"

definition UdpBasicApp_handleCrashOperation ::
    "'k kernel_ops \<Rightarrow> basic_app \<Rightarrow> 'k \<Rightarrow> (basic_app \<times> 'k \<times> app_out list) res" where
  "UdpBasicApp_handleCrashOperation K s k =
     (let k = cancelEvent K (selfMsg s) k
      in rbind (UdpSocket_destroy (app_socket s)) (\<lambda>m. Inr (s, k, [ToUdp m])))"

definition UdpBasicApp :: "'k kernel_ops \<Rightarrow> 'k app_par \<Rightarrow> (basic_app, 'k, udp_indication, app_out) operational" where
  "UdpBasicApp K A =
     \<lparr>op_lc = lifecycle, op_put = (\<lambda>l s. s\<lparr>lifecycle := l\<rparr>), op_done = Done,
      op_start = UdpBasicApp_handleStartOperation K A, op_stop = UdpBasicApp_handleStopOperation K A,
      op_crash = UdpBasicApp_handleCrashOperation K, op_self = app_self K A, op_arrived = app_arrived K A\<rparr>"

section \<open>The application's commands at \<open>Udp\<close>\<close>

fun udp_run :: "udp_env \<Rightarrow> app_out list \<Rightarrow> udp \<Rightarrow> (udp \<times> udp_out list) res" where
  "udp_run E [] u = Inr (u, [])"
| "udp_run E (ToUdp m # ms) u =
     rbind (Udp_handleMessageWhenUp E m u) (\<lambda>(u, out). rbind (udp_run E ms u) (\<lambda>(u, out'). Inr (u, out @ out')))"
| "udp_run E (Done # ms) u = udp_run E ms u"

end
