(* ===== verification/SV_UdpApp_Props.thy ===== *)
theory SV_UdpApp_Props
  imports SV_UdpApp SV_Udp_Props
begin

text \<open>
  Properties of \<open>UdpBasicApp\<close>: when it sends, how it stops, and that the stop operation completes, with the
  socket's answer or without it. The simulation kernel is the interface \<open>sim_kernel\<close>.
\<close>

section \<open>Steady parameters\<close>

text \<open>Constant length and interval, and a destination that needs no resolution, as in the example.\<close>

definition steady :: "'k app_par \<Rightarrow> nat \<Rightarrow> simtime \<Rightarrow> bool" where
  "steady A n d \<longleftrightarrow> ap_messageLength A = (\<lambda>k. (n, k)) \<and> ap_sendInterval A = (\<lambda>k. (d, k)) \<and> 8 \<le> n \<and> 0 < d"

definition known_dests :: "'k app_par \<Rightarrow> (string \<times> L3Address) list \<Rightarrow> bool" where
  "known_dests A ds \<longleftrightarrow> ds \<noteq> [] \<and> list_all (\<lambda>(_, a). \<not> isUnspecified a \<and> \<not> ap_isLinkLocal A a) ds"

text \<open>The kind and time of the next self message after sending at some time.\<close>

definition after_send :: "'k app_par \<Rightarrow> simtime \<Rightarrow> self_kind \<times> simtime" where
  "after_send A t = (if ap_stopTime A < 0 \<or> t < ap_stopTime A then (SEND, t) else (STOP, ap_stopTime A))"

text \<open>What a packet of the application is.\<close>

definition app_packet :: "'k app_par \<Rightarrow> nat \<Rightarrow> nat \<Rightarrow> L3Address \<Rightarrow> int \<Rightarrow> udp_packet" where
  "app_packet A n seqno dest sid =
     (new_udp_packet (ap_packetName A @ ''-'' @ print_nat seqno) (payload_bytes n (of_nat seqno)))
       \<lparr>up_dontFragment := (if ap_dontFragment A then Some True else None), up_l3Req := Some (L3_NONE, dest),
        up_portReq := (if ap_destPort A \<noteq> -1 then Some (-1, ap_destPort A) else None),
        up_dispatch := Some P_udp, up_socketReq := Some sid\<rparr>"

text \<open>The parameters let the application start.\<close>

definition can_start :: "'b app_par \<Rightarrow> bool" where
  "can_start A \<longleftrightarrow> -1 \<le> ap_localPort A \<and> ap_localPort A \<le> 65535 \<and>
     (ap_multicastInterface A = [] \<or> (\<exists>ie \<in> set (ap_ift A). if_name ie = ap_multicastInterface A)) \<and>
     (\<forall>k. known_dests A (resolve_all A k (ap_destAddresses A)))"

text \<open>The application is up, and its self message is pending.\<close>

definition app_pending :: "'k kernel_ops \<Rightarrow> basic_app \<Rightarrow> 'k \<Rightarrow> self_kind \<Rightarrow> simtime \<Rightarrow> bool" where
  "app_pending K s k kind t \<longleftrightarrow> operationalState (lifecycle s) = OPERATING \<and> selfKind s = kind \<and> arrival K k (selfMsg s) = Some t \<and>
     selfMsg s \<noteq> activeOperationTimeout (lifecycle s) \<and> selfMsg s \<noteq> activeOperationExtraTimer (lifecycle s)"

context sim_kernel
begin

lemma choose_known:
  assumes "known_dests A (destAddresses s)"
  shows "\<exists>i k'. i < length (destAddresses s) \<and> chooseDestAddr K A s k = Inr (snd (destAddresses s ! i), s, k') \<and>
     simTime K k' = simTime K k \<and> arrival K k' = arrival K k"
proof -
  obtain n k' where n: "intuniform K 0 (int (length (destAddresses s)) - 1) k = (n, k')"
    by (cases "intuniform K 0 (int (length (destAddresses s)) - 1) k")
  have ne: "destAddresses s \<noteq> []" using assms by (simp add: known_dests_def)
  then have "0 \<le> n \<and> n \<le> int (length (destAddresses s)) - 1"
    by (intro intuniform_range [OF n]) (cases "destAddresses s"; simp)
  then have i: "nat n < length (destAddresses s)" using ne by (cases "destAddresses s") auto
  obtain str a where a: "destAddresses s ! nat n = (str, a)" by (cases "destAddresses s ! nat n")
  then have "\<not> (isUnspecified a \<or> ap_isLinkLocal A a)"
    using assms i by (auto simp: known_dests_def list_all_length)
  then have "chooseDestAddr K A s k = Inr (a, s, k')"
    using n i a list_update_id [of "destAddresses s" "nat n"] by (simp add: chooseDestAddr_def Let_def)
  with i a intuniform_time [OF n] intuniform_arrival [OF n] show ?thesis
    by (intro exI [of _ "nat n"] exI [of _ k']) simp
qed

text \<open>Sending a packet and scheduling what follows.\<close>

lemma processSend_steady:
  assumes "steady A n d" and "known_dests A (destAddresses s)" and "us_gate (app_socket s)"
    and "arrival K k (selfMsg s) = None" and "simTime K k \<le> snd (after_send A (simTime K k + d))"
  shows "\<exists>dest s' k'. processSend K A s k = Inr (s', k', [ToUdp (AppPacket (app_packet A n (app_numSent s) dest (us_id (app_socket s))))]) \<and>
     dest \<in> snd ` set (destAddresses s) \<and>
     s' = s\<lparr>app_socket := (app_socket s)\<lparr>us_state := CONNECTED\<rparr>, app_numSent := app_numSent s + 1,
            selfKind := fst (after_send A (simTime K k + d))\<rparr> \<and>
     simTime K k' = simTime K k \<and> arrival K k' = (arrival K k)(selfMsg s \<mapsto> snd (after_send A (simTime K k + d)))"
proof -
  obtain i k1 where i: "i < length (destAddresses s)" and c: "chooseDestAddr K A s k = Inr (snd (destAddresses s ! i), s, k1)"
    and k1: "simTime K k1 = simTime K k" "arrival K k1 = arrival K k"
    using choose_known [OF assms(2)] by blast
  let ?dest = "snd (destAddresses s ! i)"
  let ?s = "s\<lparr>app_socket := (app_socket s)\<lparr>us_state := CONNECTED\<rparr>, app_numSent := app_numSent s + 1\<rparr>"
  have send: "sendPacket K A s k = Inr (?s, k1, AppPacket (app_packet A n (app_numSent s) ?dest (us_id (app_socket s))))"
    using assms(1,3) c
    by (auto simp: sendPacket_def steady_def Let_def UdpSocket_sendTo_def sendPacketToUDP_def app_packet_def new_udp_packet_def UDP_C_DATA_def)
  obtain k2 where k2: "scheduleAt K (snd (after_send A (simTime K k + d))) (selfMsg s) k1 = Inr k2"
    using assms(4,5) k1 schedule_total [of k1 "snd (after_send A (simTime K k + d))" "selfMsg s"] by auto
  have "processSend K A s k = Inr (?s\<lparr>selfKind := fst (after_send A (simTime K k + d))\<rparr>, k2,
      [ToUdp (AppPacket (app_packet A n (app_numSent s) ?dest (us_id (app_socket s))))])"
    using send assms(1) k1 k2
    by (auto simp: processSend_def steady_def Let_def schedule_self_def after_send_def split: if_splits)
  moreover have "simTime K k2 = simTime K k" "arrival K k2 = (arrival K k)(selfMsg s \<mapsto> snd (after_send A (simTime K k + d)))"
    using schedule_time [OF k2] schedule_arrival [OF k2] k1 by simp_all
  ultimately show ?thesis using i by (intro exI [of _ ?dest]) auto
qed

lemma app_self_dispatch:
  assumes "app_pending K s k kind t"
  shows "op_handleMessage K (UdpBasicApp K A) (OwnMessage (selfMsg s)) s k' =
     (case kind of START \<Rightarrow> processStart K A s k' | SEND \<Rightarrow> processSend K A s k' | STOP \<Rightarrow> processStop s k'
      | NO_KIND \<Rightarrow> throwr ''Invalid kind in self message'')"
  using assms by (auto simp: op_handleMessage_def UdpBasicApp_def app_pending_def app_self_def)

lemma send_event:
  assumes "steady A n d" and "app_pending K s k SEND t" and "known_dests A (destAddresses s)" and "us_gate (app_socket s)"
    and "ap_stopTime A < 0 \<or> t \<le> ap_stopTime A"
  shows "\<exists>dest s' k'. op_handleMessage K (UdpBasicApp K A) (OwnMessage (selfMsg s)) s (deliver K (selfMsg s) k) =
       Inr (s', k', [ToUdp (AppPacket (app_packet A n (app_numSent s) dest (us_id (app_socket s))))]) \<and>
     app_numSent s' = app_numSent s + 1 \<and> destAddresses s' = destAddresses s \<and> us_gate (app_socket s') \<and> simTime K k' = t \<and>
     app_pending K s' k' (fst (after_send A (t + d))) (snd (after_send A (t + d)))"
proof -
  let ?k = "deliver K (selfMsg s) k"
  have arr: "arrival K k (selfMsg s) = Some t" using assms(2) by (simp add: app_pending_def)
  have t: "simTime K ?k = t" using deliver_time [OF arr] .
  have none: "arrival K ?k (selfMsg s) = None" by (simp add: deliver_arrival)
  have d: "0 < d" using assms(1) by (simp add: steady_def)
  have le: "simTime K ?k \<le> snd (after_send A (simTime K ?k + d))"
    using assms(5) d by (auto simp: t after_send_def)
  obtain dest s' k' where p: "processSend K A s ?k = Inr (s', k', [ToUdp (AppPacket (app_packet A n (app_numSent s) dest (us_id (app_socket s))))])"
    and s': "s' = s\<lparr>app_socket := (app_socket s)\<lparr>us_state := CONNECTED\<rparr>, app_numSent := app_numSent s + 1,
            selfKind := fst (after_send A (simTime K ?k + d))\<rparr>"
    and k': "simTime K k' = simTime K ?k" "arrival K k' = (arrival K ?k)(selfMsg s \<mapsto> snd (after_send A (simTime K ?k + d)))"
    using processSend_steady [OF assms(1,3,4) none le] by blast
  show ?thesis
    using assms(2,4) p k' t
    by (intro exI [of _ dest] exI [of _ s'] exI [of _ k']) (simp add: app_self_dispatch [OF assms(2)] s' app_pending_def)
qed

end

text \<open>The application under its own messages: each event delivers the pending self message.\<close>

primrec app_run :: "'k kernel_ops \<Rightarrow> 'k app_par \<Rightarrow> nat \<Rightarrow> basic_app \<Rightarrow> 'k \<Rightarrow> (basic_app \<times> 'k \<times> app_out list) res" where
  "app_run K A 0 s k = Inr (s, k, [])"
| "app_run K A (Suc m) s k =
     rbind (app_run K A m s k) (\<lambda>(s, k, out).
     rbind (op_handleMessage K (UdpBasicApp K A) (OwnMessage (selfMsg s)) s (deliver K (selfMsg s) k)) (\<lambda>(s, k, out').
     Inr (s, k, out @ out')))"

definition sent_packets :: "app_out list \<Rightarrow> (string \<times> octet list) list" where
  "sent_packets out = List.map_filter (\<lambda>x. case x of ToUdp (AppPacket p) \<Rightarrow> Some (up_name p, ud_bytes (up_data p)) | _ \<Rightarrow> None) out"

lemma sent_packets_simps [simp]:
  "sent_packets [] = []" "sent_packets (out @ out') = sent_packets out @ sent_packets out'"
  "sent_packets (ToUdp (AppPacket p) # out) = (up_name p, ud_bytes (up_data p)) # sent_packets out"
  "sent_packets (ToUdp (AppCommand r c) # out) = sent_packets out"
  by (simp_all add: sent_packets_def List.map_filter_def)

definition numbered :: "'k app_par \<Rightarrow> nat \<Rightarrow> nat \<Rightarrow> string \<times> octet list" where
  "numbered A n i = (ap_packetName A @ ''-'' @ print_nat i, payload_bytes n (of_nat i))"

lemma sent_app_packet [simp]:
  "(up_name (app_packet A n i dest sid), ud_bytes (up_data (app_packet A n i dest sid))) = numbered A n i"
  by (simp add: app_packet_def new_udp_packet_def numbered_def)

context sim_kernel
begin

lemma run_sends:
  assumes "steady A n d" and "app_pending K s k SEND t" and "known_dests A (destAddresses s)" and "us_gate (app_socket s)"
    and "ap_stopTime A < 0 \<or> t + int m * d < ap_stopTime A"
  shows "\<exists>s' k' out. app_run K A (Suc m) s k = Inr (s', k', out) \<and> simTime K k' = t + int m * d \<and>
     app_numSent s' = app_numSent s + Suc m \<and> sent_packets out = map (numbered A n) [app_numSent s..<app_numSent s + Suc m] \<and>
     destAddresses s' = destAddresses s \<and> us_gate (app_socket s') \<and>
     app_pending K s' k' (fst (after_send A (t + int (Suc m) * d))) (snd (after_send A (t + int (Suc m) * d)))"
  using assms(5)
proof (induction m)
  case 0
  then have "ap_stopTime A < 0 \<or> t \<le> ap_stopTime A" by auto
  from send_event [OF assms(1-4) this] obtain dest s' k' where
      "op_handleMessage K (UdpBasicApp K A) (OwnMessage (selfMsg s)) s (deliver K (selfMsg s) k) =
       Inr (s', k', [ToUdp (AppPacket (app_packet A n (app_numSent s) dest (us_id (app_socket s))))])"
    "app_numSent s' = app_numSent s + 1" "destAddresses s' = destAddresses s" "us_gate (app_socket s')" "simTime K k' = t"
    "app_pending K s' k' (fst (after_send A (t + d))) (snd (after_send A (t + d)))"
    by blast
  then show ?case by simp
next
  case (Suc m)
  have d: "0 < d" using assms(1) by (simp add: steady_def)
  have m: "t + int (Suc m) * d = t + int m * d + d" by (simp add: algebra_simps)
  with Suc.prems d have "ap_stopTime A < 0 \<or> t + int m * d < ap_stopTime A" by auto
  from Suc.IH [OF this] obtain s1 k1 out1 where 1: "app_run K A (Suc m) s k = Inr (s1, k1, out1)"
    "app_numSent s1 = app_numSent s + Suc m" "sent_packets out1 = map (numbered A n) [app_numSent s..<app_numSent s + Suc m]"
    "destAddresses s1 = destAddresses s" "us_gate (app_socket s1)"
    "app_pending K s1 k1 (fst (after_send A (t + int (Suc m) * d))) (snd (after_send A (t + int (Suc m) * d)))"
    by blast
  have as: "after_send A (t + int (Suc m) * d) = (SEND, t + int (Suc m) * d)"
    using Suc.prems by (simp add: after_send_def)
  have pend: "app_pending K s1 k1 SEND (t + int (Suc m) * d)" using 1(6) unfolding as fst_conv snd_conv .
  have "ap_stopTime A < 0 \<or> t + int (Suc m) * d \<le> ap_stopTime A" using Suc.prems by auto
  from send_event [OF assms(1) pend _ 1(5) this] assms(3) 1(4) obtain dest s' k' where
      2: "op_handleMessage K (UdpBasicApp K A) (OwnMessage (selfMsg s1)) s1 (deliver K (selfMsg s1) k1) =
       Inr (s', k', [ToUdp (AppPacket (app_packet A n (app_numSent s1) dest (us_id (app_socket s1))))])"
    "app_numSent s' = app_numSent s1 + 1" "destAddresses s' = destAddresses s1" "us_gate (app_socket s')"
    "simTime K k' = t + int (Suc m) * d"
    "app_pending K s' k' (fst (after_send A (t + int (Suc m) * d + d))) (snd (after_send A (t + int (Suc m) * d + d)))"
    by auto
  have m2: "t + int (Suc (Suc m)) * d = t + int (Suc m) * d + d" by (simp add: algebra_simps)
  have run: "app_run K A (Suc (Suc m)) s k =
      Inr (s', k', out1 @ [ToUdp (AppPacket (app_packet A n (app_numSent s1) dest (us_id (app_socket s1))))])"
    using 1(1) 2(1) by (simp only: app_run.simps(2) [of K A "Suc m"] rbind_simps split_conv)
  show ?case
    unfolding run m2 using 1 2 by simp
qed

lemma setSocketOptions_steady:
  assumes "us_gate us" and "ap_multicastInterface A = [] \<or> (\<exists>ie \<in> set (ap_ift A). if_name ie = ap_multicastInterface A)"
  shows "\<exists>opts. setSocketOptions A us = Inr (us\<lparr>us_callback := True\<rparr>, map (\<lambda>x. AppCommand (Some (us_id us)) (UdpSetOptionCommand x)) opts)"
proof -
  let ?c = "\<lambda>opts. map (\<lambda>x. AppCommand (Some (us_id us)) (UdpSetOptionCommand x)) opts"
  have cmd: "sendCommand us (UdpSetOptionCommand x) = Inr (AppCommand (Some (us_id us)) (UdpSetOptionCommand x))" for x
    using assms(1) by (simp add: sendCommand_def)
  have o: "\<exists>opts. opt_command b (Inr (AppCommand (Some (us_id us)) (UdpSetOptionCommand x))) = Inr (?c opts)" for b x
    by (cases b) (auto simp: opt_command_def intro: exI [of _ "[x]"])
  note u = UdpSocket_setTimeToLive_def UdpSocket_setDscp_def UdpSocket_setTos_def UdpSocket_setBroadcast_def cmd
  obtain o1 where "opt_command (ap_timeToLive A \<noteq> -1) (UdpSocket_setTimeToLive (ap_timeToLive A) us) = Inr (?c o1)"
    unfolding u using o [of "ap_timeToLive A \<noteq> -1" "OptTtl (ap_timeToLive A)"] ..
  moreover obtain o2 where "opt_command (ap_dscp A \<noteq> -1) (UdpSocket_setDscp (ap_dscp A) us) = Inr (?c o2)"
    unfolding u using o [of "ap_dscp A \<noteq> -1" "OptDscp (to_short (ap_dscp A))"] ..
  moreover obtain o3 where "opt_command (ap_tos A \<noteq> -1) (UdpSocket_setTos (ap_tos A) us) = Inr (?c o3)"
    unfolding u using o [of "ap_tos A \<noteq> -1" "OptTos (to_short (ap_tos A))"] ..
  moreover obtain o5 where "opt_command (ap_receiveBroadcast A) (UdpSocket_setBroadcast True us) = Inr (?c o5)"
    unfolding u using o [of "ap_receiveBroadcast A" "OptBroadcast True"] ..
  moreover obtain o4 where "(if ap_multicastInterface A = [] then Inr []
            else case List.find (\<lambda>ie. if_name ie = ap_multicastInterface A) (ap_ift A) of
                   None \<Rightarrow> throwr ''Wrong multicastInterface setting: no interface with this name''
                 | Some ie \<Rightarrow> rbind (UdpSocket_setMulticastOutputInterface (if_id ie) us) (\<lambda>m. Inr [m])) = Inr (?c o4)"
  proof (cases "ap_multicastInterface A = []")
    case True
    then show ?thesis by (intro that [of "[]"]) simp
  next
    case False
    with assms(2) obtain ie where "List.find (\<lambda>ie. if_name ie = ap_multicastInterface A) (ap_ift A) = Some ie"
      by (cases "List.find (\<lambda>ie. if_name ie = ap_multicastInterface A) (ap_ift A)") (auto simp: find_None_iff)
    with False show ?thesis
      by (intro that [of "[OptMulticastInterface (if_id ie)]"]) (simp add: UdpSocket_setMulticastOutputInterface_def cmd)
  qed
  moreover obtain o6 where "(if ap_joinLocalMulticastGroups A then joinLocalMulticastGroups (ap_groups A) us else Inr []) = Inr (?c o6)"
  proof (cases "ap_joinLocalMulticastGroups A \<and> ap_groups A \<noteq> []")
    case True
    then show ?thesis
      by (intro that [of "[OptJoinGroups (map fst (ap_groups A)) (map snd (ap_groups A))]"])
         (simp add: joinLocalMulticastGroups_def cmd)
  next
    case False
    then show ?thesis by (intro that [of "[]"]) (auto simp: joinLocalMulticastGroups_def)
  qed
  ultimately show ?thesis
    by (intro exI [of _ "o1 @ o2 @ o3 @ o4 @ o5 @ o6"]) (simp add: setSocketOptions_def)
qed

lemma sent_commands [simp]: "sent_packets (map (ToUdp \<circ> (\<lambda>x. AppCommand r (f x))) xs) = []"
  by (induction xs) simp_all

lemma start_event:
  assumes "steady A n d" and "app_pending K s k START t" and "can_start A" and "destAddresses s = []"
    and "ap_stopTime A < 0 \<or> t \<le> ap_stopTime A"
  shows "\<exists>opts dest s' k'. op_handleMessage K (UdpBasicApp K A) (OwnMessage (selfMsg s)) s (deliver K (selfMsg s) k) =
       Inr (s', k', ToUdp (AppCommand (Some (us_id (app_socket s))) (UdpBindCommand (case ap_localAddress A of None \<Rightarrow> L3_NONE | Some a \<Rightarrow> a) (ap_localPort A))) #
          map (ToUdp \<circ> (\<lambda>x. AppCommand (Some (us_id (app_socket s))) (UdpSetOptionCommand x))) opts @
          [ToUdp (AppPacket (app_packet A n (app_numSent s) dest (us_id (app_socket s))))]) \<and>
     app_numSent s' = app_numSent s + 1 \<and> known_dests A (destAddresses s') \<and> us_gate (app_socket s') \<and> simTime K k' = t \<and>
     app_pending K s' k' (fst (after_send A (t + d))) (snd (after_send A (t + d)))"
proof -
  let ?k = "deliver K (selfMsg s) k"
  have arr: "arrival K k (selfMsg s) = Some t" using assms(2) by (simp add: app_pending_def)
  have t: "simTime K ?k = t" using deliver_time [OF arr] .
  have none: "arrival K ?k (selfMsg s) = None" by (simp add: deliver_arrival)
  have d: "0 < d" using assms(1) by (simp add: steady_def)
  have le: "simTime K ?k \<le> snd (after_send A (simTime K ?k + d))"
    using assms(5) d by (auto simp: t after_send_def)
  let ?us = "(app_socket s)\<lparr>us_gate := True, us_state := CONNECTED\<rparr>"
  have iface: "ap_multicastInterface A = [] \<or> (\<exists>ie \<in> set (ap_ift A). if_name ie = ap_multicastInterface A)"
    using assms(3) by (simp add: can_start_def)
  have "\<exists>opts. setSocketOptions A ?us = Inr (?us\<lparr>us_callback := True\<rparr>, map (\<lambda>x. AppCommand (Some (us_id ?us)) (UdpSetOptionCommand x)) opts)"
    by (rule setSocketOptions_steady [OF _ iface]) simp
  then obtain opts where o: "setSocketOptions A ?us =
      Inr (?us\<lparr>us_callback := True\<rparr>, map (\<lambda>x. AppCommand (Some (us_id (app_socket s))) (UdpSetOptionCommand x)) opts)"
    by auto
  define s1 where "s1 = s\<lparr>app_socket := ?us\<lparr>us_callback := True\<rparr>, destAddresses := resolve_all A ?k (ap_destAddresses A), selfKind := SEND\<rparr>"
  have known: "known_dests A (destAddresses s1)" using assms(3) by (simp add: can_start_def s1_def)
  have s1: "us_gate (app_socket s1)" "arrival K ?k (selfMsg s1) = None" "app_numSent s1 = app_numSent s"
      "us_id (app_socket s1) = us_id (app_socket s)" "selfMsg s1 = selfMsg s" "lifecycle s1 = lifecycle s"
    using none by (simp_all add: s1_def)
  obtain dest s' k' where p: "processSend K A s1 ?k = Inr (s', k', [ToUdp (AppPacket (app_packet A n (app_numSent s) dest (us_id (app_socket s))))])"
    and s': "s' = s1\<lparr>app_socket := (app_socket s1)\<lparr>us_state := CONNECTED\<rparr>, app_numSent := app_numSent s1 + 1,
            selfKind := fst (after_send A (simTime K ?k + d))\<rparr>"
    and k': "simTime K k' = simTime K ?k" "arrival K k' = (arrival K ?k)(selfMsg s1 \<mapsto> snd (after_send A (simTime K ?k + d)))"
    using processSend_steady [OF assms(1) known s1(1,2) le] s1(3,4) by auto
  have ne: "resolve_all A ?k (ap_destAddresses A) \<noteq> []" using known by (simp add: known_dests_def s1_def)
  have bind: "UdpSocket_bind a (ap_localPort A) ((app_socket s)\<lparr>us_gate := True\<rparr>) =
      Inr (?us, AppCommand (Some (us_id (app_socket s))) (UdpBindCommand a (ap_localPort A)))" for a
    using assms(3) by (auto simp: UdpSocket_bind_def sendCommand_def can_start_def)
  have start: "processStart K A s ?k =
      Inr (s', k', ToUdp (AppCommand (Some (us_id (app_socket s))) (UdpBindCommand (case ap_localAddress A of None \<Rightarrow> L3_NONE | Some a \<Rightarrow> a) (ap_localPort A))) #
          map (ToUdp \<circ> (\<lambda>x. AppCommand (Some (us_id (app_socket s))) (UdpSetOptionCommand x))) opts @
          [ToUdp (AppPacket (app_packet A n (app_numSent s) dest (us_id (app_socket s))))])"
    using p ne by (simp add: processStart_def bind o assms(4) s1_def)
  have "app_pending K s' k' (fst (after_send A (t + d))) (snd (after_send A (t + d)))"
    using assms(2) k' s1 by (simp add: s' app_pending_def t)
  moreover have "known_dests A (destAddresses s')" "app_numSent s' = app_numSent s + 1" "us_gate (app_socket s')" "simTime K k' = t"
    using known k' t s1 by (simp_all add: s')
  ultimately show ?thesis
    using start app_self_dispatch [OF assms(2)] by (intro exI [of _ opts] exI [of _ dest] exI [of _ s'] exI [of _ k']) simp
qed

lemma app_run_front:
  "app_run K A (Suc m) s k =
     rbind (op_handleMessage K (UdpBasicApp K A) (OwnMessage (selfMsg s)) s (deliver K (selfMsg s) k)) (\<lambda>(s, k, out).
     rbind (app_run K A m s k) (\<lambda>(s, k, out'). Inr (s, k, out @ out')))"
proof (induction m)
  case 0
  show ?case by (cases "op_handleMessage K (UdpBasicApp K A) (OwnMessage (selfMsg s)) s (deliver K (selfMsg s) k)") auto
next
  case (Suc m)
  let ?step = "\<lambda>s k. op_handleMessage K (UdpBasicApp K A) (OwnMessage (selfMsg s)) s (deliver K (selfMsg s) k)"
  have "app_run K A (Suc (Suc m)) s k =
     rbind (app_run K A (Suc m) s k) (\<lambda>(s, k, out). rbind (?step s k) (\<lambda>(s, k, out'). Inr (s, k, out @ out')))"
    by simp
  also have "\<dots> = rbind (rbind (?step s k) (\<lambda>(s, k, out). rbind (app_run K A m s k) (\<lambda>(s, k, out'). Inr (s, k, out @ out'))))
      (\<lambda>(s, k, out). rbind (?step s k) (\<lambda>(s, k, out'). Inr (s, k, out @ out')))"
    by (simp only: Suc.IH)
  also have "\<dots> = rbind (?step s k) (\<lambda>(s, k, out). rbind (app_run K A (Suc m) s k) (\<lambda>(s, k, out'). Inr (s, k, out @ out')))"
    by (cases "?step s k") (auto simp: rbind_def split: sum.splits prod.splits)
  finally show ?case .
qed

lemma run_from_start:
  assumes "steady A n d" and "app_pending K s k START t" and "can_start A" and "destAddresses s = []"
    and "ap_stopTime A < 0 \<or> t + int m * d < ap_stopTime A"
  shows "\<exists>s' k' out. app_run K A (Suc m) s k = Inr (s', k', out) \<and> simTime K k' = t + int m * d \<and>
     app_numSent s' = app_numSent s + Suc m \<and> sent_packets out = map (numbered A n) [app_numSent s..<app_numSent s + Suc m] \<and>
     us_gate (app_socket s') \<and>
     app_pending K s' k' (fst (after_send A (t + int (Suc m) * d))) (snd (after_send A (t + int (Suc m) * d)))"
proof -
  have d: "0 < d" using assms(1) by (simp add: steady_def)
  have "ap_stopTime A < 0 \<or> t \<le> ap_stopTime A"
  proof -
    have "0 \<le> int m * d" using d by simp
    with assms(5) show ?thesis by linarith
  qed
  from start_event [OF assms(1-4) this] obtain r b opts dest s1 k1 where
      1: "op_handleMessage K (UdpBasicApp K A) (OwnMessage (selfMsg s)) s (deliver K (selfMsg s) k) =
       Inr (s1, k1, ToUdp (AppCommand r b) # map (ToUdp \<circ> (\<lambda>x. AppCommand r (UdpSetOptionCommand x))) opts @
          [ToUdp (AppPacket (app_packet A n (app_numSent s) dest (us_id (app_socket s))))])"
    "app_numSent s1 = app_numSent s + 1" "known_dests A (destAddresses s1)" "us_gate (app_socket s1)" "simTime K k1 = t"
    "app_pending K s1 k1 (fst (after_send A (t + d))) (snd (after_send A (t + d)))" by blast
  show ?thesis
  proof (cases m)
    case 0
    with 1 show ?thesis by (simp add: app_run_front del: app_run.simps(2))
  next
    case (Suc j)
    have tj: "t + int m * d = (t + d) + int j * d" "t + int (Suc m) * d = (t + d) + int (Suc j) * d"
      using Suc by (simp_all add: algebra_simps)
    have jd: "0 \<le> int j * d" using d by simp
    have as: "after_send A (t + d) = (SEND, t + d)"
      using assms(5) tj(1) jd by (auto simp: after_send_def)
    have pend: "app_pending K s1 k1 SEND (t + d)" using 1(6) unfolding as fst_conv snd_conv .
    have "ap_stopTime A < 0 \<or> t + d + int j * d < ap_stopTime A" using assms(5) tj(1) by simp
    from run_sends [OF assms(1) pend 1(3,4) this] obtain s' k' out where
      2: "app_run K A m s1 k1 = Inr (s', k', out)" "simTime K k' = t + d + int j * d"
       "app_numSent s' = app_numSent s1 + m" "sent_packets out = map (numbered A n) [app_numSent s1..<app_numSent s1 + m]"
       "us_gate (app_socket s')"
       "app_pending K s' k' (fst (after_send A (t + d + int (Suc j) * d))) (snd (after_send A (t + d + int (Suc j) * d)))"
      unfolding Suc by blast
    have run: "app_run K A (Suc m) s k = Inr (s', k',
       (ToUdp (AppCommand r b) # map (ToUdp \<circ> (\<lambda>x. AppCommand r (UdpSetOptionCommand x))) opts @
          [ToUdp (AppPacket (app_packet A n (app_numSent s) dest (us_id (app_socket s))))]) @ out)"
      unfolding app_run_front 1(1) rbind_simps split_conv 2(1) by simp
    have "sent_packets ((ToUdp (AppCommand r b) # map (ToUdp \<circ> (\<lambda>x. AppCommand r (UdpSetOptionCommand x))) opts @
          [ToUdp (AppPacket (app_packet A n (app_numSent s) dest (us_id (app_socket s))))]) @ out) =
        map (numbered A n) [app_numSent s..<app_numSent s + Suc m]"
      using 2(4) 1(2) by (simp add: upt_conv_Cons del: upt_Suc)
    with run 2 1(2) show ?thesis unfolding tj by (intro exI conjI) auto
  qed
qed

lemma stop_event:
  assumes "app_pending K s k STOP t" and "us_gate (app_socket s)"
  shows "op_handleMessage K (UdpBasicApp K A) (OwnMessage (selfMsg s)) s (deliver K (selfMsg s) k) =
     Inr (s\<lparr>app_socket := (app_socket s)\<lparr>us_state := CONNECTED\<rparr>\<rparr>, deliver K (selfMsg s) k,
          [ToUdp (AppCommand (Some (us_id (app_socket s))) UdpCloseCommand)])"
  using assms app_self_dispatch [OF assms(1)]
  by (simp add: processStop_def UdpSocket_close_def sendCommand_def)

lemma run_until_stop:
  assumes "steady A n d" and "app_pending K s k START t" and "can_start A" and "destAddresses s = []"
    and "t + int m * d < ap_stopTime A" and "ap_stopTime A \<le> t + int (Suc m) * d" and "0 \<le> ap_stopTime A"
  shows "\<exists>s' k' out sid. app_run K A (Suc (Suc m)) s k = Inr (s', k', out @ [ToUdp (AppCommand (Some sid) UdpCloseCommand)]) \<and>
     simTime K k' = ap_stopTime A \<and> app_numSent s' = app_numSent s + Suc m \<and> length (sent_packets out) = Suc m \<and>
     arrival K k' (selfMsg s') = None"
proof -
  have "ap_stopTime A < 0 \<or> t + int m * d < ap_stopTime A" using assms(5) by simp
  from run_from_start [OF assms(1-4) this] obtain s' k' out where
    1: "app_run K A (Suc m) s k = Inr (s', k', out)" "app_numSent s' = app_numSent s + Suc m"
      "sent_packets out = map (numbered A n) [app_numSent s..<app_numSent s + Suc m]" "us_gate (app_socket s')"
      "app_pending K s' k' (fst (after_send A (t + int (Suc m) * d))) (snd (after_send A (t + int (Suc m) * d)))"
    by blast
  have "after_send A (t + int (Suc m) * d) = (STOP, ap_stopTime A)" using assms(6,7) by (simp add: after_send_def)
  with 1(5) have pend: "app_pending K s' k' STOP (ap_stopTime A)" by (simp only: fst_conv snd_conv)
  then have arr: "arrival K k' (selfMsg s') = Some (ap_stopTime A)" by (simp add: app_pending_def)
  have "app_run K A (Suc (Suc m)) s k =
     Inr (s'\<lparr>app_socket := (app_socket s')\<lparr>us_state := CONNECTED\<rparr>\<rparr>, deliver K (selfMsg s') k',
          out @ [ToUdp (AppCommand (Some (us_id (app_socket s'))) UdpCloseCommand)])"
    unfolding app_run.simps(2) [of K A "Suc m"] 1(1) rbind_simps split_conv stop_event [OF pend 1(4)] by simp
  moreover have "length (sent_packets out) = Suc m" using 1(3) by simp
  ultimately show ?thesis
    using 1(2) deliver_time [OF arr] by (auto simp: deliver_arrival)
qed

end

text \<open>C33: an application that starts at \<open>t\<close> sends a packet every \<open>d\<close> ticks from then on, with consecutive sequence
  numbers in name and payload, and always has the next event pending.
\<close>

theorem app_schedule:
  assumes "sim_kernel K" and "steady A n d" and "app_pending K s k START t" and "can_start A" and "destAddresses s = []"
    and "ap_stopTime A < 0 \<or> t + int m * d < ap_stopTime A"
  shows "\<exists>s' k' out. app_run K A (Suc m) s k = Inr (s', k', out) \<and> simTime K k' = t + int m * d \<and>
     app_numSent s' = app_numSent s + Suc m \<and> sent_packets out = map (numbered A n) [app_numSent s..<app_numSent s + Suc m] \<and>
     app_pending K s' k' (fst (after_send A (t + int (Suc m) * d))) (snd (after_send A (t + int (Suc m) * d)))"
  using sim_kernel.run_from_start [OF assms] by blast

text \<open>C39: with a stop time, the application sends as many packets as fit before it, closes its socket at the stop time,
  and then has nothing pending.
\<close>

theorem app_sends_until_stop:
  assumes "sim_kernel K" and "steady A n d" and "app_pending K s k START t" and "can_start A" and "destAddresses s = []"
    and "t + int m * d < ap_stopTime A" and "ap_stopTime A \<le> t + int (Suc m) * d" and "0 \<le> ap_stopTime A"
  shows "\<exists>s' k' out sid. app_run K A (Suc (Suc m)) s k = Inr (s', k', out @ [ToUdp (AppCommand (Some sid) UdpCloseCommand)]) \<and>
     simTime K k' = ap_stopTime A \<and> app_numSent s' = app_numSent s + Suc m \<and> length (sent_packets out) = Suc m \<and>
     arrival K k' (selfMsg s') = None"
  using sim_kernel.run_until_stop [OF assms] .

section \<open>The stop operation\<close>

text \<open>The application is up with no operation under way; its three messages are different ones.\<close>

definition app_up :: "'k kernel_ops \<Rightarrow> basic_app \<Rightarrow> 'k \<Rightarrow> bool" where
  "app_up K s k \<longleftrightarrow> operationalState (lifecycle s) = OPERATING \<and> activeOperation (lifecycle s) = None \<and>
     arrival K k (activeOperationTimeout (lifecycle s)) = None \<and> arrival K k (activeOperationExtraTimer (lifecycle s)) = None \<and>
     distinct [selfMsg s, activeOperationTimeout (lifecycle s), activeOperationExtraTimer (lifecycle s)]"

text \<open>The operation is over and nothing of the application is pending.\<close>

definition app_down :: "'k kernel_ops \<Rightarrow> basic_app \<Rightarrow> 'k \<Rightarrow> bool" where
  "app_down K s k \<longleftrightarrow> operationalState (lifecycle s) = NOT_OPERATING \<and> activeOperation (lifecycle s) = None \<and>
     lastChange (lifecycle s) = simTime K k \<and> arrival K k (selfMsg s) = None \<and>
     arrival K k (activeOperationTimeout (lifecycle s)) = None \<and> arrival K k (activeOperationExtraTimer (lifecycle s)) = None"

text \<open>What the stop operation leaves while it waits for the socket's answer.\<close>

definition stopping :: "'k app_par \<Rightarrow> basic_app \<Rightarrow> basic_app" where
  "stopping A s = s\<lparr>app_socket := (app_socket s)\<lparr>us_state := CONNECTED\<rparr>,
     lifecycle := (lifecycle s)\<lparr>operationalState := STOPPING_OPERATION, activeOperation := Some ModuleStopOperation,
       endState := NOT_OPERATING, isDelayedFinish := True\<rparr>\<rparr>"

context sim_kernel
begin

lemma stop_waits:
  assumes "app_up K s k" and "us_gate (app_socket s)" and "0 \<le> ap_stopOperationTimeout A"
  shows "\<exists>k1. handleOperationStage K (UdpBasicApp K A) ModuleStopOperation s k =
       Inr (False, stopping A s, k1, [ToUdp (AppCommand (Some (us_id (app_socket s))) UdpCloseCommand)]) \<and>
     simTime K k1 = simTime K k \<and>
     arrival K k1 = (arrival K k)(selfMsg s := None, activeOperationTimeout (lifecycle s) := Some (simTime K k + ap_stopOperationTimeout A))"
proof -
  let ?m = "activeOperationTimeout (lifecycle s)"
  let ?k = "cancelEvent K (selfMsg s) k"
  have "arrival K ?k ?m = None" using assms(1) by (simp add: app_up_def cancel_arrival)
  then obtain k1 where k1: "scheduleAt K (simTime K ?k + ap_stopOperationTimeout A) ?m ?k = Inr k1"
    using assms(3) schedule_total [of ?k "simTime K ?k + ap_stopOperationTimeout A" ?m] by auto
  have "handleOperationStage K (UdpBasicApp K A) ModuleStopOperation s k =
       Inr (False, stopping A s, k1, [ToUdp (AppCommand (Some (us_id (app_socket s))) UdpCloseCommand)])"
    using assms k1 \<open>arrival K ?k ?m = None\<close>
    by (simp add: handleOperationStage_def begin_operation_def setupActiveOperation_def UdpBasicApp_def app_up_def
        UdpBasicApp_handleStopOperation_def UdpSocket_close_def sendCommand_def delayActiveOperationFinish_def
        scheduleOperationTimeout_def isScheduled_def finish_unless_delayed_def stopping_def Let_def)
  moreover have "simTime K k1 = simTime K k"
    "arrival K k1 = (arrival K k)(selfMsg s := None, ?m := Some (simTime K k + ap_stopOperationTimeout A))"
    using schedule_time [OF k1] schedule_arrival [OF k1] by (simp_all add: cancel_time cancel_arrival)
  ultimately show ?thesis by blast
qed

lemma stop_answered:
  assumes "app_up K s k" and "us_callback (app_socket s)" and "ap_stopOperationExtraTime A < 0"
    and "arrival K k1 (selfMsg s) = None"
  shows "\<exists>s2 k2. op_handleMessage K (UdpBasicApp K A) (Arrived (SocketClosedIndication (us_id (app_socket s)))) (stopping A s) k1 =
       Inr (s2, k2, [Done]) \<and> app_down K s2 k2 \<and> simTime K k2 = simTime K k1"
  using assms
  by (auto simp: op_handleMessage_def UdpBasicApp_def stopping_def app_arrived_def belongsToSocket_def socketClosed_def Let_def
      startActiveOperationExtraTimeOrFinish_def finishActiveOperation_def setOperationalState_def app_down_def
      cancel_arrival cancel_time)

lemma stop_times_out:
  assumes "app_up K s k" and "us_gate (app_socket s)"
    and "arrival K k1 (activeOperationTimeout (lifecycle s)) = Some t" and "arrival K k1 (selfMsg s) = None"
  shows "\<exists>s2 k2. op_handleMessage K (UdpBasicApp K A) (OwnMessage (activeOperationTimeout (lifecycle s))) (stopping A s)
         (deliver K (activeOperationTimeout (lifecycle s)) k1) =
       Inr (s2, k2, [ToUdp (AppCommand (Some (us_id (app_socket s))) UdpDestroyCommand), Done]) \<and> app_down K s2 k2 \<and> simTime K k2 = t"
  using assms
  by (auto simp: op_handleMessage_def UdpBasicApp_def stopping_def UdpBasicApp_handleCrashOperation_def UdpSocket_destroy_def
      sendCommand_def op_finish_def finishActiveOperation_def setOperationalState_def app_down_def app_up_def Let_def
      cancel_arrival cancel_time deliver_time deliver_arrival)

end

text \<open>C34: stopping a started application closes its socket at \<open>Udp\<close>, which answers; with the answer the operation
  completes, and if the answer does not come it completes at the time-out. Then nothing of the application is pending.
\<close>

theorem app_stop_completes:
  assumes "sim_kernel K" and "app_up K s k" and "us_gate (app_socket s)" and "us_callback (app_socket s)"
    and "0 \<le> ap_stopOperationTimeout A" and "ap_stopOperationExtraTime A < 0" and "udp_ok (sockets u)"
  shows "\<exists>k1 out u' s2 k2 s3 k3 out3.
     handleOperationStage K (UdpBasicApp K A) ModuleStopOperation s k = Inr (False, stopping A s, k1, out) \<and>
     udp_run E out u = Inr (u', [ClosedIndication (us_id (app_socket s))]) \<and>
     sm_find (socketsByIdMap (sockets u')) (us_id (app_socket s)) = None \<and>
     op_handleMessage K (UdpBasicApp K A) (Arrived (SocketClosedIndication (us_id (app_socket s)))) (stopping A s) k1 = Inr (s2, k2, [Done]) \<and>
     app_down K s2 k2 \<and> simTime K k2 = simTime K k \<and>
     op_handleMessage K (UdpBasicApp K A) (OwnMessage (activeOperationTimeout (lifecycle s))) (stopping A s)
       (deliver K (activeOperationTimeout (lifecycle s)) k1) = Inr (s3, k3, out3 @ [Done]) \<and>
     app_down K s3 k3 \<and> simTime K k3 = simTime K k + ap_stopOperationTimeout A"
proof -
  have ctx: "sim_kernel K" by (rule assms(1))
  obtain k1 where 1: "handleOperationStage K (UdpBasicApp K A) ModuleStopOperation s k =
       Inr (False, stopping A s, k1, [ToUdp (AppCommand (Some (us_id (app_socket s))) UdpCloseCommand)])"
    and k1: "simTime K k1 = simTime K k"
      "arrival K k1 = (arrival K k)(selfMsg s := None, activeOperationTimeout (lifecycle s) := Some (simTime K k + ap_stopOperationTimeout A))"
    using sim_kernel.stop_waits [OF ctx assms(2,3,5)] by blast
  have self: "arrival K k1 (selfMsg s) = None" using assms(2) by (simp add: k1 app_up_def)
  obtain s2 k2 where 2: "op_handleMessage K (UdpBasicApp K A) (Arrived (SocketClosedIndication (us_id (app_socket s)))) (stopping A s) k1 =
       Inr (s2, k2, [Done])" "app_down K s2 k2" "simTime K k2 = simTime K k1"
    using sim_kernel.stop_answered [OF ctx assms(2,4,6) self] by blast
  have arr: "arrival K k1 (activeOperationTimeout (lifecycle s)) = Some (simTime K k + ap_stopOperationTimeout A)"
    by (simp add: k1(2))
  obtain s3 k3 where 3: "op_handleMessage K (UdpBasicApp K A) (OwnMessage (activeOperationTimeout (lifecycle s))) (stopping A s)
         (deliver K (activeOperationTimeout (lifecycle s)) k1) =
       Inr (s3, k3, [ToUdp (AppCommand (Some (us_id (app_socket s))) UdpDestroyCommand), Done])" "app_down K s3 k3"
       "simTime K k3 = simTime K k + ap_stopOperationTimeout A"
    using sim_kernel.stop_times_out [OF ctx assms(2,3) arr self, of A] by blast
  let ?u = "u\<lparr>sockets := destroySocket (us_id (app_socket s)) (sockets u)\<rparr>"
  have "udp_run E [ToUdp (AppCommand (Some (us_id (app_socket s))) UdpCloseCommand)] u =
      Inr (?u, [ClosedIndication (us_id (app_socket s))])"
    by (simp add: Udp_handleMessageWhenUp_def Udp_handleUpperCommand_def getTag_def)
  moreover have "sm_find (socketsByIdMap (sockets ?u)) (us_id (app_socket s)) = None"
    using destroySocket_ok(2) [OF assms(7)] by simp
  moreover have "[ToUdp (AppCommand (Some (us_id (app_socket s))) UdpDestroyCommand), Done] =
      [ToUdp (AppCommand (Some (us_id (app_socket s))) UdpDestroyCommand)] @ [Done]" by simp
  ultimately show ?thesis using 1 2 3 k1(1) by metis
qed

text \<open>
  Stopping or crashing an application that has not started yet is an error, because its socket has no gate.
\<close>

theorem app_stop_before_start_fails:
  assumes "operationalState (lifecycle s) = OPERATING" and "activeOperation (lifecycle s) = None" and "\<not> us_gate (app_socket s)"
  shows "handleOperationStage K (UdpBasicApp K A) ModuleStopOperation s k =
           throwr ''UdpSocket: setOutputGate() must be invoked before socket can be used'' \<and>
         handleOperationStage K (UdpBasicApp K A) ModuleCrashOperation s k =
           throwr ''UdpSocket: setOutputGate() must be invoked before socket can be used''"
  using assms
  by (simp add: handleOperationStage_def begin_operation_def setupActiveOperation_def UdpBasicApp_def throwr_def
      UdpBasicApp_handleStopOperation_def UdpBasicApp_handleCrashOperation_def UdpSocket_close_def UdpSocket_destroy_def
      sendCommand_def Let_def)

section \<open>From application to application\<close>

text \<open>C25: a packet of one application that the network delivers to the host of another one, whose socket accepts it,
  reaches that application with its payload, and the application counts it.
\<close>

theorem app_to_app:
  assumes "Udp_handleUpperPacket E (app_packet A n i dest sid) u = Inr (u', out)" and "SendIpOut q \<in> set out" and "8 \<le> n"
    and "carried E prot src dst padding q r" and "padding = [] \<or> 8 < length padding"
    and "ue_crcMode E \<noteq> CRC_DECLARED_INCORRECT" and "up_header r = Some h"
    and "receivers E2 h src dst (sockets v) = Inr sds" and "sd \<in> set sds"
    and "operationalState (lifecycle s) = OPERATING" and "us_callback (app_socket s)" and "us_id (app_socket s) = sockId sd"
  shows "\<exists>v' out' x. Udp_handleLowerPacket E2 r v = Inr (v', out') \<and> x \<in> set (sent_up out') \<and>
     ud_bytes (up_data x) = snd (numbered A n i) \<and> up_portInd x = Some (uh_srcPort h, uh_destPort h) \<and>
     op_handleMessage K (UdpBasicApp K A2) (Arrived (DataIndication x)) s k =
       Inr (s\<lparr>app_numReceived := app_numReceived s + 1\<rparr>, k, [])"
proof -
  let ?p = "app_packet A n i dest sid"
  have len: "length (payload_bytes n (of_nat i)) = n"
    by (simp add: payload_bytes_def ApplicationPacket_serialize_def throwr_def)
  have p: "ud_bytes (up_data ?p) = snd (numbered A n i)" "ud_correct (up_data ?p)" "up_interfaceInd ?p = None"
    by (simp_all add: app_packet_def new_udp_packet_def numbered_def)
  have "length (snd (numbered A n i)) = n" by (simp add: numbered_def len)
  then have ne: "ud_bytes (up_data ?p) \<noteq> []" using assms(3) p(1) by auto
  have "sds \<noteq> []" using assms(9) by auto
  from udp_transfer [OF assms(1,2,4,5) ne p(2,3) assms(6,7,8) this] obtain v' out' where
    1: "Udp_handleLowerPacket E2 r v = Inr (v', out')"
    and m: "map (\<lambda>x. (up_socketInd x, ud_bytes (up_data x), up_portInd x)) (sent_up out') =
       map (\<lambda>sd. (Some (sockId sd), ud_bytes (up_data ?p), Some (uh_srcPort h, uh_destPort h))) sds" by blast
  from assms(9) have "(Some (sockId sd), ud_bytes (up_data ?p), Some (uh_srcPort h, uh_destPort h)) \<in>
      set (map (\<lambda>x. (up_socketInd x, ud_bytes (up_data x), up_portInd x)) (sent_up out'))"
    unfolding m by auto
  then obtain x where x: "x \<in> set (sent_up out')" "up_socketInd x = Some (sockId sd)" "ud_bytes (up_data x) = ud_bytes (up_data ?p)"
    "up_portInd x = Some (uh_srcPort h, uh_destPort h)" by auto
  have "op_handleMessage K (UdpBasicApp K A2) (Arrived (DataIndication x)) s k =
       Inr (s\<lparr>app_numReceived := app_numReceived s + 1\<rparr>, k, [])"
    using assms(10-12) x(2)
    by (simp add: op_handleMessage_def UdpBasicApp_def app_arrived_def belongsToSocket_def processPacket_def)
  with 1 x p(1) show ?thesis by (intro exI conjI) auto
qed

end
