(* ===== verification/SV_Udp_Examples.thy ===== *)
theory SV_Udp_Examples
  imports SV_Udp_Members SV_UdpApp_Props
begin

text \<open>
  Two hosts that evaluate: an application that sends a numbered packet every thousand ticks from one to a socket bound to port
  9001 of the other, over IPv4 with declared checksums. The properties of the UDP theories are applied to them.
\<close>

section \<open>The hosts\<close>

definition ex_env :: udp_env where
  "ex_env = \<lparr>ue_crcMode = CRC_DECLARED_CORRECT, ue_ift = [\<lparr>if_id = 101, if_name = ''wlan0'', if_isMulticast = True\<rparr>],
     ue_addresses = \<lparr>ac_multicast = (\<lambda>_. False), ac_broadcast = (\<lambda>_. False)\<rparr>\<rparr>"

definition ex_src :: L3Address where "ex_src = L3_IPv4 0x0A000001"
definition ex_dest :: L3Address where "ex_dest = L3_IPv4 0x0A000002"
definition ex_group :: L3Address where "ex_group = L3_IPv4 0xE0000005"

definition ex_par :: "simtime \<Rightarrow> ref_state app_par" where
  "ex_par stop = \<lparr>ap_localPort = 9000, ap_destPort = 9001, ap_startTime = 0, ap_stopTime = stop, ap_packetName = ''data'',
     ap_dontFragment = False, ap_localAddress = None, ap_destAddresses = [''host''],
     ap_tryResolve = (\<lambda>_ _. Some ex_dest), ap_isLinkLocal = (\<lambda>_. False), ap_timeToLive = -1, ap_dscp = -1,
     ap_tos = -1, ap_multicastInterface = [], ap_ift = [], ap_groups = [], ap_receiveBroadcast = False,
     ap_joinLocalMulticastGroups = False, ap_messageLength = (\<lambda>k. (12, k)), ap_sendInterval = (\<lambda>k. (1000, k)),
     ap_stopOperationExtraTime = -1, ap_stopOperationTimeout = 2000\<rparr>"

text \<open>The application behind its start operation, and the kernel.\<close>

definition ex_lifecycle :: lifecycle where
  "ex_lifecycle = (lifecycle_new 1 2)\<lparr>operationalState := OPERATING\<rparr>"

definition ex_app :: "udp_socket \<Rightarrow> self_kind \<Rightarrow> basic_app" where
  "ex_app us kind = \<lparr>lifecycle = ex_lifecycle, app_socket = us, destAddresses = [], selfMsg = 0, selfKind = kind,
     app_numSent = 0, app_numReceived = 0\<rparr>"

definition ex_socket :: udp_socket where
  "ex_socket = \<lparr>us_id = 7, us_callback = True, us_gate = True, us_state = CONNECTED\<rparr>"

definition ex_kernel :: ref_state where
  "ex_kernel = \<lparr>rk_now = 0, rk_fes = [(0, 5)], rk_next = 3\<rparr>"

text \<open>The receiving \<open>Udp\<close> module, its socket bound, and the packet that arrives there.\<close>

definition ex_desc :: sock_desc where
  "ex_desc = (SockDesc 7)\<lparr>isBound := True, onlyLocalPortIsSet := True, localPort := 9001\<rparr>"

definition ex_bound :: udp where
  "ex_bound = udp_new\<lparr>sockets := \<lparr>socketsByIdMap = [(7, ex_desc)], socketsByPortMap = [(9001, [7])], lastEphemeralPort = 1024\<rparr>\<rparr>"

definition ex_packet :: udp_packet where
  "ex_packet = app_packet (ex_par (-1)) 12 0 ex_dest 5"

definition ex_header :: udp_header where
  "ex_header = \<lparr>uh_srcPort = 1025, uh_destPort = 9001, uh_totalLength = 20, uh_crc = 0xC00D, uh_crcMode = CRC_DECLARED_CORRECT, uh_correct = True\<rparr>"

definition ex_bytes :: "octet list" where
  "ex_bytes = [0, 0, 0, 12, 0, 0, 0, 0, 63, 63, 63, 63]"

definition ex_tagged :: "udp_header \<Rightarrow> octet list \<Rightarrow> udp_packet" where
  "ex_tagged h bytes = (new_udp_packet ''data-0'' bytes)\<lparr>up_header := Some h, up_protocol := Some P_udp,
     up_l3Ind := Some (ex_src, ex_dest), up_networkInd := Some (P_ipv4, 0), up_interfaceInd := Some 101\<rparr>"

definition ex_arrived :: udp_packet where "ex_arrived = ex_tagged ex_header ex_bytes"

definition ex_up :: udp_packet where
  "ex_up = ex_arrived\<lparr>up_header := None, up_protocol := None, up_transportInd := Some (P_udp, ex_header), up_socketInd := Some 7,
     up_portInd := Some (1025, 9001)\<rparr>"

lemma ex_bind: "Udp_handleMessageWhenUp ex_env (AppCommand (Some 7) (UdpBindCommand L3_NONE 9001)) udp_new = Inr (ex_bound, [])"
  by code_simp

lemma ex_reachable: "udp_reachable ex_env ex_bound"
  by (rule udp_reachable.message [OF udp_reachable.start ex_bind])

lemma ex_deliver: "Udp_handleLowerPacket ex_env ex_arrived ex_bound =
   Inr (ex_bound\<lparr>numPassedUp := 1\<rparr>,
     [Emit packetReceivedFromLowerSignal, Emit packetReceivedSignal, Emit packetSentToUpperSignal, SendAppOut ex_up])"
  by code_simp

text \<open>The sending \<open>Udp\<close> module.\<close>

definition ex_sender :: udp where
  "ex_sender = udp_new\<lparr>sockets := \<lparr>socketsByIdMap = [(5, (SockDesc 5)\<lparr>onlyLocalPortIsSet := True, localPort := 1025\<rparr>)],
     socketsByPortMap = [(1025, [5])], lastEphemeralPort = 1025\<rparr>, numSent := 1\<rparr>"

definition ex_routed :: udp_packet where
  "ex_routed = (new_udp_packet ''data-0'' ex_bytes)\<lparr>up_header := Some ex_header, up_protocol := Some P_udp, up_dispatch := Some P_ipv4,
     up_l3Req := Some (L3_NONE, ex_dest), up_multicastReq := Some True, up_transportInd := Some (P_udp, ex_header)\<rparr>"

lemma ex_send: "Udp_handleUpperPacket ex_env ex_packet udp_new =
   Inr (ex_sender, [Emit packetReceivedFromUpperSignal, Emit packetSentSignal, Emit packetSentToLowerSignal, SendIpOut ex_routed])"
  by code_simp

lemma ex_carried: "carried ex_env P_ipv4 ex_src ex_dest [] ex_routed ex_arrived"
  by (simp add: carried_def ex_env_def ex_routed_def ex_arrived_def ex_tagged_def new_udp_packet_def)

section \<open>The properties at these hosts\<close>

lemma crc_detects_witness:
  "\<exists>h'. insertCrc P_ipv4 ex_src ex_dest (ex_header\<lparr>uh_crcMode := CRC_COMPUTED\<rparr>) \<lparr>ud_bytes = ex_bytes, ud_correct = True\<rparr> = Inr h' \<and>
     verifyCrc P_ipv4 ex_src ex_dest h' \<lparr>ud_bytes = ex_bytes[3 := 13], ud_correct = True\<rparr> = Inr False"
proof -
  obtain h' where h': "insertCrc P_ipv4 ex_src ex_dest (ex_header\<lparr>uh_crcMode := CRC_COMPUTED\<rparr>) \<lparr>ud_bytes = ex_bytes, ud_correct = True\<rparr> = Inr h'"
    by (simp add: insertCrc_def ex_header_def peekData_def computeCrc_def TransportPseudoHeader_serialize_def
        UdpHeader_serialize_def toIpv4_def ex_src_def ex_dest_def Let_def)
  have "verifyCrc P_ipv4 ex_src ex_dest h' \<lparr>ud_bytes = ex_bytes[3 := 13], ud_correct = True\<rparr> = Inr False"
    using crc_detects [OF h', of 3 13] by (simp add: ex_header_def ex_bytes_def UDP_HEADER_LENGTH_def)
  with h' show ?thesis by blast
qed

lemma udp_tables_witness: "udp_ok (sockets ex_bound)"
  by (rule udp_tables [OF ex_reachable])

lemma ephemeral_port_free_witness:
  "\<exists>sd u'. createSocket 7 L3_NONE (-1) udp_sockets_new = Inr (sd, u') \<and> 1024 \<le> localPort sd \<and> localPort sd < 5000 \<and>
     port_list (localPort sd) u' = [7]"
proof -
  have none: "sm_find (socketsByIdMap udp_sockets_new) 7 = None" "sm_find (socketsByPortMap udp_sockets_new) 1024 = None"
    by (simp_all add: udp_sockets_new_def sm_find_def)
  then have "\<not> (\<forall>port \<in> {1024..<5000}. sm_find (socketsByPortMap udp_sockets_new) port \<noteq> None)" by force
  then show ?thesis
    using ephemeral_port_free [OF udp_ok_new none(1), of L3_NONE] by blast
qed

lemma datagram_fate_witness:
  "sockets (ex_bound\<lparr>numPassedUp := 1\<rparr>) = sockets ex_bound \<and> (1 :: nat) = numPassedUp ex_bound + length (sent_up [SendAppOut ex_up])"
  using datagram_fate [OF ex_deliver] by (simp add: ex_arrived_def ex_tagged_def sent_up_def)

text \<open>The socket connected to the port of the sender.\<close>

definition ex_peer_desc :: sock_desc where
  "ex_peer_desc = ex_desc\<lparr>onlyLocalPortIsSet := False, remoteAddr := ex_src, remotePort := 1025\<rparr>"

definition ex_connected :: udp where
  "ex_connected = ex_bound\<lparr>sockets := (sockets ex_bound)\<lparr>socketsByIdMap := [(7, ex_peer_desc)]\<rparr>\<rparr>"

lemma ex_connect: "Udp_handleMessageWhenUp ex_env (AppCommand (Some 7) (UdpConnectCommand ex_src 1025)) ex_bound = Inr (ex_connected, [])"
  by code_simp

lemma ex_deliver_connected: "Udp_handleLowerPacket ex_env ex_arrived ex_connected =
   Inr (ex_connected\<lparr>numPassedUp := 1\<rparr>,
     [Emit packetReceivedFromLowerSignal, Emit packetReceivedSignal, Emit packetSentToUpperSignal, SendAppOut ex_up])"
  by code_simp

lemma datagram_reaches_open_sockets_witness:
  "\<exists>i sd. up_socketInd ex_up = Some i \<and> sm_find (socketsByIdMap (sockets ex_connected)) i = Some sd \<and> localPort sd = 9001 \<and>
     (remotePort sd = -1 \<or> remotePort sd = 1025) \<and> (isUnspecified (remoteAddr sd) \<or> remoteAddr sd = ex_src)"
  using datagram_reaches_open_sockets [OF udp_reachable.message [OF ex_reachable ex_connect] ex_deliver_connected, of ex_up]
  by (auto simp: ex_arrived_def ex_tagged_def ex_header_def sent_up_def)

lemma empty_datagram_stops_witness:
  "Udp_handleLowerPacket ex_env (ex_tagged (ex_header\<lparr>uh_totalLength := 8\<rparr>) []) ex_bound =
     throwr ''Returning an empty chunk is not allowed''"
  by (rule empty_datagram_stops [where h = "ex_header\<lparr>uh_totalLength := 8\<rparr>" and a = "(ex_src, ex_dest)" and n = "(P_ipv4, 0)"])
     (simp_all add: ex_tagged_def new_udp_packet_def ex_header_def UDP_HEADER_LENGTH_def)

text \<open>Joining a group.\<close>

definition ex_joined :: sock_desc where
  "ex_joined = ex_desc\<lparr>multicastMembershipTable :=
     [\<lparr>mm_address = ex_group, mm_interface = 101, mm_filter = UDP_EXCLUDE_MCAST_SOURCES, mm_sources = []\<rparr>]\<rparr>"

lemma ex_join: "joinMulticastGroup (ue_addresses ex_env) (ue_ift ex_env) ex_desc ex_group 101 =
   Inr (ex_joined, [JoinMulticastGroupIpv4 101 0xE0000005])"
  by code_simp

lemma ex_no_groups: "multicastMembershipTable ex_desc = []" "member_table []"
  by (simp_all add: ex_desc_def SockDesc_def member_table_def)

lemma options_keep_table_witness: "member_table (multicastMembershipTable ex_joined)"
proof -
  have "setOption (ue_addresses ex_env) (ue_ift ex_env) (OptJoinGroups [ex_group] [101]) ex_desc =
      Inr (ex_joined, [JoinMulticastGroupIpv4 101 0xE0000005])"
    by (simp add: setOption_def ex_join)
  then show ?thesis
    by (rule options_keep_table) (simp_all add: ex_no_groups ex_env_def)
qed

lemma joined_group_received_witness:
  "\<exists>sds. findSocketsForMcastBcastPacket ex_group 9001 ex_src 1025 True False (store_socket ex_joined (sockets ex_bound)) = Inr sds \<and>
     ex_joined \<in> set sds"
proof -
  have sd: "sm_find (socketsByIdMap (sockets ex_bound)) (sockId ex_desc) = Some ex_desc"
    by (simp add: ex_bound_def ex_desc_def SockDesc_def sm_find_def)
  show ?thesis
    using joined_group_received [OF udp_reachable_ok [OF ex_reachable] sd _ _ ex_join, of 9001 ex_src 1025]
    by (auto simp: ex_no_groups ex_desc_def SockDesc_def remote_matches_def isUnspecified_def)
qed

section \<open>The application at a kernel that evaluates\<close>

lemma ex_steady: "steady (ex_par stop) 12 1000"
  by (simp add: steady_def ex_par_def)

lemma ex_can_start: "can_start (ex_par stop)"
  by (simp add: can_start_def ex_par_def known_dests_def resolve_all_def ex_dest_def isUnspecified_def)

lemma ex_pending: "app_pending ref_kernel (ex_app (UdpSocket 7) START) ex_kernel START 5"
  by (simp add: app_pending_def ex_app_def ex_lifecycle_def lifecycle_new_def ref_kernel_def ex_kernel_def)

lemma ex_app_fields [simp]:
  "app_numSent (ex_app us kind) = 0" "destAddresses (ex_app us kind) = []" "ap_stopTime (ex_par stop) = stop"
  by (simp_all add: ex_app_def ex_par_def)

lemma app_schedule_witness:
  "\<exists>s' k' out. app_run ref_kernel (ex_par (-1)) (Suc 2) (ex_app (UdpSocket 7) START) ex_kernel = Inr (s', k', out) \<and>
     simTime ref_kernel k' = 2005 \<and> app_numSent s' = 3 \<and> sent_packets out = map (numbered (ex_par (-1)) 12) [0..<3] \<and>
     app_pending ref_kernel s' k' SEND 3005"
  using app_schedule [OF ref_sim_kernel ex_steady ex_pending ex_can_start, of "-1" 2]
  by (simp add: after_send_def del: upt_Suc)

lemma app_sends_until_stop_witness:
  "\<exists>s' k' out sid. app_run ref_kernel (ex_par 1500) (Suc (Suc 1)) (ex_app (UdpSocket 7) START) ex_kernel =
       Inr (s', k', out @ [ToUdp (AppCommand (Some sid) UdpCloseCommand)]) \<and>
     simTime ref_kernel k' = 1500 \<and> app_numSent s' = 2 \<and> arrival ref_kernel k' (selfMsg s') = None"
  using app_sends_until_stop [OF ref_sim_kernel ex_steady ex_pending ex_can_start, of 1 1500]
  by fastforce

lemma app_stop_completes_witness:
  "\<exists>k1 out u' s2 k2. handleOperationStage ref_kernel (UdpBasicApp ref_kernel (ex_par (-1))) ModuleStopOperation (ex_app ex_socket SEND) ex_kernel =
       Inr (False, stopping (ex_par (-1)) (ex_app ex_socket SEND), k1, out) \<and>
     udp_run ex_env out ex_bound = Inr (u', [ClosedIndication 7]) \<and> sm_find (socketsByIdMap (sockets u')) 7 = None \<and>
     op_handleMessage ref_kernel (UdpBasicApp ref_kernel (ex_par (-1))) (Arrived (SocketClosedIndication 7))
       (stopping (ex_par (-1)) (ex_app ex_socket SEND)) k1 = Inr (s2, k2, [Done]) \<and> app_down ref_kernel s2 k2"
proof -
  have "app_up ref_kernel (ex_app ex_socket SEND) ex_kernel"
    by (simp add: app_up_def ex_app_def ex_lifecycle_def lifecycle_new_def ref_kernel_def ex_kernel_def)
  moreover have "us_id (app_socket (ex_app ex_socket SEND)) = 7" "us_gate (app_socket (ex_app ex_socket SEND))"
    "us_callback (app_socket (ex_app ex_socket SEND))" "0 \<le> ap_stopOperationTimeout (ex_par (-1))" "ap_stopOperationExtraTime (ex_par (-1)) < 0"
    by (simp_all add: ex_app_def ex_socket_def ex_par_def)
  ultimately show ?thesis
    using app_stop_completes [OF ref_sim_kernel, of "ex_app ex_socket SEND" ex_kernel "ex_par (-1)" ex_bound ex_env]
      udp_reachable_ok [OF ex_reachable]
    by metis
qed

lemma app_to_app_witness:
  "\<exists>v' out' x. Udp_handleLowerPacket ex_env ex_arrived ex_bound = Inr (v', out') \<and> x \<in> set (sent_up out') \<and>
     ud_bytes (up_data x) = snd (numbered (ex_par (-1)) 12 0) \<and>
     op_handleMessage ref_kernel (UdpBasicApp ref_kernel (ex_par (-1))) (Arrived (DataIndication x)) (ex_app ex_socket SEND) ex_kernel =
       Inr ((ex_app ex_socket SEND)\<lparr>app_numReceived := 1\<rparr>, ex_kernel, [])"
proof -
  have r: "receivers ex_env ex_header ex_src ex_dest (sockets ex_bound) = Inr [ex_desc]"
    by code_simp
  have "SendIpOut ex_routed \<in> set [Emit packetReceivedFromUpperSignal, Emit packetSentSignal, Emit packetSentToLowerSignal, SendIpOut ex_routed]"
    by simp
  from app_to_app [OF ex_send [unfolded ex_packet_def] this _ ex_carried _ _ _ r, of ex_desc "ex_app ex_socket SEND" ref_kernel "ex_par (-1)" ex_kernel]
  show ?thesis
    by (auto simp: ex_env_def ex_arrived_def ex_tagged_def ex_app_def ex_lifecycle_def ex_socket_def ex_desc_def SockDesc_def)
qed

end
