(* ===== verification/SV_TraCI_Constants.thy ===== *)
theory SV_TraCI_Constants
  imports SV_TraCI_Manager
begin

text \<open>
  The constants of \<open>TraCIConstants.h\<close> that the command interface uses for applications: commands, responses,
  variables and types. Those of the scenario manager are in theory \<open>SV_TraCI_Manager\<close>.
\<close>

definition ADD :: byte where "ADD = 0x80"
definition CMD_CHANGETARGET :: byte where "CMD_CHANGETARGET = 0x31"
definition CMD_GET_EDGE_VARIABLE :: byte where "CMD_GET_EDGE_VARIABLE = 0xaa"
definition CMD_GET_GUI_VARIABLE :: byte where "CMD_GET_GUI_VARIABLE = 0xac"
definition CMD_GET_JUNCTION_VARIABLE :: byte where "CMD_GET_JUNCTION_VARIABLE = 0xa9"
definition CMD_GET_LANEAREA_VARIABLE :: byte where "CMD_GET_LANEAREA_VARIABLE = 0xad"
definition CMD_GET_LANE_VARIABLE :: byte where "CMD_GET_LANE_VARIABLE = 0xa3"
definition CMD_GET_POI_VARIABLE :: byte where "CMD_GET_POI_VARIABLE = 0xa7"
definition CMD_GET_POLYGON_VARIABLE :: byte where "CMD_GET_POLYGON_VARIABLE = 0xa8"
definition CMD_GET_ROUTE_VARIABLE :: byte where "CMD_GET_ROUTE_VARIABLE = 0xa6"
definition CMD_GET_TL_VARIABLE :: byte where "CMD_GET_TL_VARIABLE = 0xa2"
definition CMD_GET_VEHICLETYPE_VARIABLE :: byte where "CMD_GET_VEHICLETYPE_VARIABLE = 0xa5"
definition CMD_REROUTE_TRAVELTIME :: byte where "CMD_REROUTE_TRAVELTIME = 0x90"
definition CMD_SET_GUI_VARIABLE :: byte where "CMD_SET_GUI_VARIABLE = 0xcc"
definition CMD_SET_LANE_VARIABLE :: byte where "CMD_SET_LANE_VARIABLE = 0xc3"
definition CMD_SET_POI_VARIABLE :: byte where "CMD_SET_POI_VARIABLE = 0xc7"
definition CMD_SET_POLYGON_VARIABLE :: byte where "CMD_SET_POLYGON_VARIABLE = 0xc8"
definition CMD_SET_ROUTE_VARIABLE :: byte where "CMD_SET_ROUTE_VARIABLE = 0xc6"
definition CMD_SET_TL_VARIABLE :: byte where "CMD_SET_TL_VARIABLE = 0xc2"
definition CMD_SET_VEHICLETYPE_VARIABLE :: byte where "CMD_SET_VEHICLETYPE_VARIABLE = 0xc5"
definition CMD_SET_VEHICLE_VARIABLE :: byte where "CMD_SET_VEHICLE_VARIABLE = 0xc4"
definition CMD_SLOWDOWN :: byte where "CMD_SLOWDOWN = 0x14"
definition CMD_STOP :: byte where "CMD_STOP = 0x12"
definition DISTANCE_REQUEST :: byte where "DISTANCE_REQUEST = 0x83"
definition LANE_DISALLOWED :: byte where "LANE_DISALLOWED = 0x35"
definition LANE_EDGE_ID :: byte where "LANE_EDGE_ID = 0x31"
definition LAST_STEP_MEAN_SPEED :: byte where "LAST_STEP_MEAN_SPEED = 0x11"
definition LAST_STEP_VEHICLE_NUMBER :: byte where "LAST_STEP_VEHICLE_NUMBER = 0x10"
definition POSITION_CONVERSION :: byte where "POSITION_CONVERSION = 0x82"
definition POSITION_LON_LAT :: byte where "POSITION_LON_LAT = 0x00"
definition POSITION_ROADMAP :: byte where "POSITION_ROADMAP = 0x04"
definition REMOVE :: byte where "REMOVE = 0x81"
definition REQUEST_AIRDIST :: byte where "REQUEST_AIRDIST = 0x00"
definition REQUEST_DRIVINGDIST :: byte where "REQUEST_DRIVINGDIST = 0x01"
definition RESPONSE_GET_EDGE_VARIABLE :: byte where "RESPONSE_GET_EDGE_VARIABLE = 0xba"
definition RESPONSE_GET_GUI_VARIABLE :: byte where "RESPONSE_GET_GUI_VARIABLE = 0xbc"
definition RESPONSE_GET_JUNCTION_VARIABLE :: byte where "RESPONSE_GET_JUNCTION_VARIABLE = 0xb9"
definition RESPONSE_GET_LANEAREA_VARIABLE :: byte where "RESPONSE_GET_LANEAREA_VARIABLE = 0xbd"
definition RESPONSE_GET_LANE_VARIABLE :: byte where "RESPONSE_GET_LANE_VARIABLE = 0xb3"
definition RESPONSE_GET_POI_VARIABLE :: byte where "RESPONSE_GET_POI_VARIABLE = 0xb7"
definition RESPONSE_GET_POLYGON_VARIABLE :: byte where "RESPONSE_GET_POLYGON_VARIABLE = 0xb8"
definition RESPONSE_GET_ROUTE_VARIABLE :: byte where "RESPONSE_GET_ROUTE_VARIABLE = 0xb6"
definition RESPONSE_GET_TL_VARIABLE :: byte where "RESPONSE_GET_TL_VARIABLE = 0xb2"
definition RESPONSE_GET_VEHICLETYPE_VARIABLE :: byte where "RESPONSE_GET_VEHICLETYPE_VARIABLE = 0xb5"
definition TL_COMPLETE_DEFINITION_RYG :: byte where "TL_COMPLETE_DEFINITION_RYG = 0x2b"
definition TL_COMPLETE_PROGRAM_RYG :: byte where "TL_COMPLETE_PROGRAM_RYG = 0x2c"
definition TL_CONTROLLED_LANES :: byte where "TL_CONTROLLED_LANES = 0x26"
definition TL_CONTROLLED_LINKS :: byte where "TL_CONTROLLED_LINKS = 0x27"
definition TL_CURRENT_PHASE :: byte where "TL_CURRENT_PHASE = 0x28"
definition TL_CURRENT_PROGRAM :: byte where "TL_CURRENT_PROGRAM = 0x29"
definition TL_NEXT_SWITCH :: byte where "TL_NEXT_SWITCH = 0x2d"
definition TL_PHASE_DURATION :: byte where "TL_PHASE_DURATION = 0x24"
definition TL_PHASE_INDEX :: byte where "TL_PHASE_INDEX = 0x22"
definition TL_PROGRAM :: byte where "TL_PROGRAM = 0x23"
definition TL_RED_YELLOW_GREEN_STATE :: byte where "TL_RED_YELLOW_GREEN_STATE = 0x20"
definition TYPE_BYTE :: byte where "TYPE_BYTE = 0x08"
definition TYPE_COLOR :: byte where "TYPE_COLOR = 0x11"
definition TYPE_COMPOUND :: byte where "TYPE_COMPOUND = 0x0F"
definition TYPE_UBYTE :: byte where "TYPE_UBYTE = 0x07"
definition VAR_ACCEL :: byte where "VAR_ACCEL = 0x46"
definition VAR_ACCELERATION :: byte where "VAR_ACCELERATION = 0x72"
definition VAR_CO2EMISSION :: byte where "VAR_CO2EMISSION = 0x60"
definition VAR_COEMISSION :: byte where "VAR_COEMISSION = 0x61"
definition VAR_COLOR :: byte where "VAR_COLOR = 0x45"
definition VAR_CURRENT_TRAVELTIME :: byte where "VAR_CURRENT_TRAVELTIME = 0x5a"
definition VAR_DECEL :: byte where "VAR_DECEL = 0x47"
definition VAR_DISTANCE :: byte where "VAR_DISTANCE = 0x84"
definition VAR_EDGES :: byte where "VAR_EDGES = 0x54"
definition VAR_EDGE_TRAVELTIME :: byte where "VAR_EDGE_TRAVELTIME = 0x58"
definition VAR_ELECTRICITYCONSUMPTION :: byte where "VAR_ELECTRICITYCONSUMPTION = 0x71"
definition VAR_FUELCONSUMPTION :: byte where "VAR_FUELCONSUMPTION = 0x65"
definition VAR_HCEMISSION :: byte where "VAR_HCEMISSION = 0x62"
definition VAR_LANEPOSITION :: byte where "VAR_LANEPOSITION = 0x56"
definition VAR_LANE_ID :: byte where "VAR_LANE_ID = 0x51"
definition VAR_LANE_INDEX :: byte where "VAR_LANE_INDEX = 0x52"
definition VAR_LEADER :: byte where "VAR_LEADER = 0x68"
definition VAR_MAXSPEED :: byte where "VAR_MAXSPEED = 0x41"
definition VAR_NAME :: byte where "VAR_NAME = 0x1b"
definition VAR_NEXT_TLS :: byte where "VAR_NEXT_TLS = 0x70"
definition VAR_NOISEEMISSION :: byte where "VAR_NOISEEMISSION = 0x66"
definition VAR_NOXEMISSION :: byte where "VAR_NOXEMISSION = 0x64"
definition VAR_PARAMETER :: byte where "VAR_PARAMETER = 0x7e"
definition VAR_PMXEMISSION :: byte where "VAR_PMXEMISSION = 0x63"
definition VAR_ROUTE :: byte where "VAR_ROUTE = 0x57"
definition VAR_ROUTE_ID :: byte where "VAR_ROUTE_ID = 0x53"
definition VAR_SCREENSHOT :: byte where "VAR_SCREENSHOT = 0xa5"
definition VAR_SHAPE :: byte where "VAR_SHAPE = 0x4e"
definition VAR_SPEEDSETMODE :: byte where "VAR_SPEEDSETMODE = 0xb3"
definition VAR_STOPSTATE :: byte where "VAR_STOPSTATE = 0xb5"
definition VAR_TRACK_VEHICLE :: byte where "VAR_TRACK_VEHICLE = 0xa6"
definition VAR_VIEW_BOUNDARY :: byte where "VAR_VIEW_BOUNDARY = 0xa3"
definition VAR_VIEW_SCHEMA :: byte where "VAR_VIEW_SCHEMA = 0xa2"
definition VAR_VIEW_ZOOM :: byte where "VAR_VIEW_ZOOM = 0xa0"
definition VAR_WAITING_TIME :: byte where "VAR_WAITING_TIME = 0x7a"
definition VAR_WAITING_TIME_ACCUMULATED :: byte where "VAR_WAITING_TIME_ACCUMULATED = 0x87"

lemmas traci_types =
  TYPE_INTEGER_def TYPE_DOUBLE_def TYPE_STRING_def TYPE_STRINGLIST_def TYPE_POLYGON_def TYPE_BOUNDINGBOX_def
  POSITION_2D_def TYPE_BYTE_def TYPE_UBYTE_def TYPE_COLOR_def TYPE_COMPOUND_def

end
