(* ===== verification/SV_TraCI_Commands.thy ===== *)
theory SV_TraCI_Commands
  imports SV_TraCI_Constants SV_Double SV_DoubleText
begin

text \<open>
  \<open>TraCICommandInterface\<close> for applications: the commands that change SUMO's objects and the requests for their
  variables. What does not change while commands are given is the record \<open>traci_ci\<close>, with the link to the server; the state
  of the connection is threaded. A \<open>double\<close> that is only passed on is its 64-bit pattern; \<open>ci_bits\<close> is the pattern of a
  computed coordinate. Constructors like \<open>vehicle(id)\<close> only keep the identifier, which is an argument here.
\<close>

record 'c traci_ci =
  ci_host :: bool
  ci_time :: time_ops
  ci_link :: "byte list \<Rightarrow> 'c \<Rightarrow> (byte list \<times> 'c) res"
  ci_bits :: "double \<Rightarrow> 64 word"
  ci_version :: version_config
  ci_timeAsDouble :: bool                        \<comment> \<open>what \<open>TraCIBuffer::setTimeType\<close> was told\<close>
  ci_transformation :: "TraCICoordinateTransformation option"
  ci_ignoreGui :: bool

section \<open>Messages\<close>

text \<open>The overloads of \<open>operator<<\<close>, and a chain of them on a new buffer.\<close>

datatype wire_item =
    U8 byte | U32 "32 word" | U64 "64 word" | Txt string | Txts "string list" | Tim simtime | Pos "64 word \<times> 64 word"

fun put_item :: "'c traci_ci \<Rightarrow> wire_item \<Rightarrow> tbuf \<Rightarrow> tbuf" where
  "put_item C (U8 w) b = write_word (ci_host C) w b"
| "put_item C (U32 w) b = write_word (ci_host C) w b"
| "put_item C (U64 w) b = write_word (ci_host C) w b"
| "put_item C (Txt s) b = write_string (ci_host C) s b"
| "put_item C (Txts ss) b = write_string_list (ci_host C) ss b"
| "put_item C (Tim t) b = write_time (ci_time C) (ci_host C) (ci_timeAsDouble C) t b"
| "put_item C (Pos p) b = write_coord (ci_host C) p b"

definition put_items :: "'c traci_ci \<Rightarrow> wire_item list \<Rightarrow> tbuf" where
  "put_items C xs = foldl (\<lambda>b x. put_item C x b) tbuf_new xs"

text \<open>A command whose answer has nothing behind the status.\<close>

definition set_command :: "'c traci_ci \<Rightarrow> byte \<Rightarrow> wire_item list \<Rightarrow> 'c \<Rightarrow> 'c res" where
  "set_command C commandId xs c =
     rbind (query (ci_host C) (ci_link C) commandId (put_items C xs) c) (\<lambda>(buf, c).
     rbind (assertr (eof buf) ''buf.eof()'') (\<lambda>_. Inr c))"

definition ci_omnet2traci :: "'c traci_ci \<Rightarrow> Coord \<Rightarrow> (64 word \<times> 64 word) res" where
  "ci_omnet2traci C p =
     (case ci_transformation C of
        None \<Rightarrow> throwr ''coordinateTransformation.get()''
      | Some T \<Rightarrow> (let q = omnet2traci T p in Inr (ci_bits C (tx q), ci_bits C (ty q))))"

definition ci_traci2omnet :: "'c traci_ci \<Rightarrow> 64 word \<times> 64 word \<Rightarrow> Coord res" where
  "ci_traci2omnet C p =
     (case ci_transformation C of
        None \<Rightarrow> throwr ''coordinateTransformation.get()''
      | Some T \<Rightarrow> Inr (traci2omnet T (mkTraCI (double_of_bits (fst p)) (double_of_bits (snd p)))))"

fun map_res :: "('a \<Rightarrow> 'b res) \<Rightarrow> 'a list \<Rightarrow> 'b list res" where
  "map_res f [] = Inr []"
| "map_res f (x # xs) = rbind (f x) (\<lambda>y. rbind (map_res f xs) (\<lambda>ys. Inr (y # ys)))"

section \<open>Answers\<close>

text \<open>The header of an answer: its length, the response, the variable and the object.\<close>

definition read_length :: "bool \<Rightarrow> tbuf \<Rightarrow> tbuf res" where
  "read_length h buf =
     rbind (read_word h buf) (\<lambda>(cmdLength :: byte, buf).
     if cmdLength = 0 then rbind (read_word h buf) (\<lambda>(cmdLengthX :: 32 word, buf). Inr buf) else Inr buf)"

definition answer_header :: "bool \<Rightarrow> byte \<Rightarrow> byte \<Rightarrow> string \<Rightarrow> tbuf \<Rightarrow> tbuf res" where
  "answer_header h responseId variableId objectId buf =
     rbind (read_length h buf) (\<lambda>buf.
     rbind (expect_type h responseId buf) (\<lambda>buf.
     rbind (expect_type h variableId buf) (\<lambda>buf.
     rbind (read_string h buf) (\<lambda>(objectId_r, buf).
     rbind (assertr (objectId_r = objectId) ''objectId_r == objectId'') (\<lambda>_. Inr buf)))))"

text \<open>The functions \<open>genericGet...\<close> for a type of the protocol; no caller passes them a \<open>Result\<close>.\<close>

definition genericGet ::
    "'c traci_ci \<Rightarrow> 'a reader \<Rightarrow> byte \<Rightarrow> byte \<Rightarrow> string \<Rightarrow> byte \<Rightarrow> byte \<Rightarrow> 'c \<Rightarrow> ('a \<times> 'c) res" where
  "genericGet C read resultTypeId commandId objectId variableId responseId c =
     (let h = ci_host C in
      rbind (query h (ci_link C) commandId (put_items C [U8 variableId, Txt objectId]) c) (\<lambda>(buf, c).
      rbind (answer_header h responseId variableId objectId buf) (\<lambda>buf.
      rbind (expect_type h resultTypeId buf) (\<lambda>buf.
      rbind (read buf) (\<lambda>(res, buf).
      rbind (assertr (eof buf) ''buf.eof()'') (\<lambda>_. Inr (res, c)))))))"

definition genericGetText :: "'c traci_ci \<Rightarrow> byte \<Rightarrow> string \<Rightarrow> byte \<Rightarrow> byte \<Rightarrow> 'c \<Rightarrow> (string \<times> 'c) res" where
  "genericGetText C = genericGet C (read_string (ci_host C)) TYPE_STRING"

definition genericGetDouble :: "'c traci_ci \<Rightarrow> byte \<Rightarrow> string \<Rightarrow> byte \<Rightarrow> byte \<Rightarrow> 'c \<Rightarrow> (64 word \<times> 'c) res" where
  "genericGetDouble C = genericGet C (read_word (ci_host C)) TYPE_DOUBLE"

definition genericGetInt :: "'c traci_ci \<Rightarrow> byte \<Rightarrow> string \<Rightarrow> byte \<Rightarrow> byte \<Rightarrow> 'c \<Rightarrow> (32 word \<times> 'c) res" where
  "genericGetInt C = genericGet C (read_word (ci_host C)) TYPE_INTEGER"

definition genericGetUnsignedByte :: "'c traci_ci \<Rightarrow> byte \<Rightarrow> string \<Rightarrow> byte \<Rightarrow> byte \<Rightarrow> 'c \<Rightarrow> (byte \<times> 'c) res" where
  "genericGetUnsignedByte C = genericGet C (read_word (ci_host C)) TYPE_UBYTE"

definition genericGetTime :: "'c traci_ci \<Rightarrow> byte \<Rightarrow> string \<Rightarrow> byte \<Rightarrow> byte \<Rightarrow> 'c \<Rightarrow> (simtime \<times> 'c) res" where
  "genericGetTime C =
     genericGet C (read_time (ci_time C) (ci_host C) (ci_timeAsDouble C)) (vc_timeType (ci_version C))"

definition read_text_list :: "bool \<Rightarrow> string list reader" where
  "read_text_list h b = rbind (read_word h b) (\<lambda>(count :: 32 word, b). read_strings h (unat count) b)"

definition genericGetStringList :: "'c traci_ci \<Rightarrow> byte \<Rightarrow> string \<Rightarrow> byte \<Rightarrow> byte \<Rightarrow> 'c \<Rightarrow> (string list \<times> 'c) res" where
  "genericGetStringList C = genericGet C (read_text_list (ci_host C)) TYPE_STRINGLIST"

definition read_pair :: "bool \<Rightarrow> (64 word \<times> 64 word) reader" where
  "read_pair h b = rbind (read_word h b) (\<lambda>(x, b). rbind (read_word h b) (\<lambda>(y, b). Inr ((x, y), b)))"

definition genericGetCoord :: "'c traci_ci \<Rightarrow> byte \<Rightarrow> string \<Rightarrow> byte \<Rightarrow> byte \<Rightarrow> 'c \<Rightarrow> (Coord \<times> 'c) res" where
  "genericGetCoord C commandId objectId variableId responseId c =
     rbind (genericGet C (read_pair (ci_host C)) POSITION_2D commandId objectId variableId responseId c) (\<lambda>(p, c).
     rbind (ci_traci2omnet C p) (\<lambda>p. Inr (p, c)))"

fun read_pairs :: "bool \<Rightarrow> nat \<Rightarrow> (64 word \<times> 64 word) list reader" where
  "read_pairs h 0 b = Inr ([], b)"
| "read_pairs h (Suc n) b = rbind (read_pair h b) (\<lambda>(p, b). rbind (read_pairs h n b) (\<lambda>(ps, b). Inr (p # ps, b)))"

definition read_polygon :: "bool \<Rightarrow> (64 word \<times> 64 word) list reader" where
  "read_polygon h b = rbind (readByteOrFull h b) (\<lambda>(count :: 32 word, b). read_pairs h (unat count) b)"

text \<open>The coordinates are converted while they are read; without a transformation the first one is an error.\<close>

definition genericGetCoordList :: "'c traci_ci \<Rightarrow> byte \<Rightarrow> string \<Rightarrow> byte \<Rightarrow> byte \<Rightarrow> 'c \<Rightarrow> (Coord list \<times> 'c) res" where
  "genericGetCoordList C commandId objectId variableId responseId c =
     rbind (genericGet C (read_polygon (ci_host C)) TYPE_POLYGON commandId objectId variableId responseId c) (\<lambda>(ps, c).
     rbind (map_res (ci_traci2omnet C) ps) (\<lambda>ps. Inr (ps, c)))"

definition genericSetDouble :: "'c traci_ci \<Rightarrow> byte \<Rightarrow> string \<Rightarrow> byte \<Rightarrow> 64 word \<Rightarrow> 'c \<Rightarrow> 'c res" where
  "genericSetDouble C commandId objectId variableId value =
     set_command C commandId [U8 variableId, Txt objectId, U8 TYPE_DOUBLE, U64 value]"

end
