(* ===== verification/SV_TraCI_Getters.thy ===== *)
theory SV_TraCI_Getters
  imports SV_TraCI_Commands
begin

text \<open>
  The requests for one variable of one object: each calls one of the functions \<open>genericGet...\<close> with the command, the
  variable and the response of its class of objects. The others, with answers of their own, follow.
\<close>

definition getVehicleTypeIds :: "'c traci_ci \<Rightarrow> 'c \<Rightarrow> (string list \<times> 'c) res" where
  "getVehicleTypeIds C = genericGetStringList C CMD_GET_VEHICLETYPE_VARIABLE [] ID_LIST RESPONSE_GET_VEHICLETYPE_VARIABLE"

definition getVehicleTypeMaxSpeed :: "'c traci_ci \<Rightarrow> string \<Rightarrow> 'c \<Rightarrow> (64 word \<times> 'c) res" where
  "getVehicleTypeMaxSpeed C typeId = genericGetDouble C CMD_GET_VEHICLETYPE_VARIABLE typeId VAR_MAXSPEED RESPONSE_GET_VEHICLETYPE_VARIABLE"

definition getRouteIds :: "'c traci_ci \<Rightarrow> 'c \<Rightarrow> (string list \<times> 'c) res" where
  "getRouteIds C = genericGetStringList C CMD_GET_ROUTE_VARIABLE [] ID_LIST RESPONSE_GET_ROUTE_VARIABLE"

definition getRoadIds :: "'c traci_ci \<Rightarrow> 'c \<Rightarrow> (string list \<times> 'c) res" where
  "getRoadIds C = genericGetStringList C CMD_GET_EDGE_VARIABLE [] ID_LIST RESPONSE_GET_EDGE_VARIABLE"

definition Road_getCurrentTravelTime :: "'c traci_ci \<Rightarrow> string \<Rightarrow> 'c \<Rightarrow> (64 word \<times> 'c) res" where
  "Road_getCurrentTravelTime C roadId = genericGetDouble C CMD_GET_EDGE_VARIABLE roadId VAR_CURRENT_TRAVELTIME RESPONSE_GET_EDGE_VARIABLE"

definition Road_getMeanSpeed :: "'c traci_ci \<Rightarrow> string \<Rightarrow> 'c \<Rightarrow> (64 word \<times> 'c) res" where
  "Road_getMeanSpeed C roadId = genericGetDouble C CMD_GET_EDGE_VARIABLE roadId LAST_STEP_MEAN_SPEED RESPONSE_GET_EDGE_VARIABLE"

definition Vehicle_getRoadId :: "'c traci_ci \<Rightarrow> string \<Rightarrow> 'c \<Rightarrow> (string \<times> 'c) res" where
  "Vehicle_getRoadId C nodeId = genericGetText C CMD_GET_VEHICLE_VARIABLE nodeId VAR_ROAD_ID RESPONSE_GET_VEHICLE_VARIABLE"

definition Vehicle_getLaneId :: "'c traci_ci \<Rightarrow> string \<Rightarrow> 'c \<Rightarrow> (string \<times> 'c) res" where
  "Vehicle_getLaneId C nodeId = genericGetText C CMD_GET_VEHICLE_VARIABLE nodeId VAR_LANE_ID RESPONSE_GET_VEHICLE_VARIABLE"

definition Vehicle_getLaneIndex :: "'c traci_ci \<Rightarrow> string \<Rightarrow> 'c \<Rightarrow> (32 word \<times> 'c) res" where
  "Vehicle_getLaneIndex C nodeId = genericGetInt C CMD_GET_VEHICLE_VARIABLE nodeId VAR_LANE_INDEX RESPONSE_GET_VEHICLE_VARIABLE"

definition Vehicle_getTypeId :: "'c traci_ci \<Rightarrow> string \<Rightarrow> 'c \<Rightarrow> (string \<times> 'c) res" where
  "Vehicle_getTypeId C nodeId = genericGetText C CMD_GET_VEHICLE_VARIABLE nodeId VAR_TYPE RESPONSE_GET_VEHICLE_VARIABLE"

definition Vehicle_getMaxSpeed :: "'c traci_ci \<Rightarrow> string \<Rightarrow> 'c \<Rightarrow> (64 word \<times> 'c) res" where
  "Vehicle_getMaxSpeed C nodeId = genericGetDouble C CMD_GET_VEHICLE_VARIABLE nodeId VAR_MAXSPEED RESPONSE_GET_VEHICLE_VARIABLE"

definition Vehicle_getLanePosition :: "'c traci_ci \<Rightarrow> string \<Rightarrow> 'c \<Rightarrow> (64 word \<times> 'c) res" where
  "Vehicle_getLanePosition C nodeId = genericGetDouble C CMD_GET_VEHICLE_VARIABLE nodeId VAR_LANEPOSITION RESPONSE_GET_VEHICLE_VARIABLE"

definition Vehicle_getPlannedRoadIds :: "'c traci_ci \<Rightarrow> string \<Rightarrow> 'c \<Rightarrow> (string list \<times> 'c) res" where
  "Vehicle_getPlannedRoadIds C nodeId = genericGetStringList C CMD_GET_VEHICLE_VARIABLE nodeId VAR_EDGES RESPONSE_GET_VEHICLE_VARIABLE"

definition Vehicle_getRouteId :: "'c traci_ci \<Rightarrow> string \<Rightarrow> 'c \<Rightarrow> (string \<times> 'c) res" where
  "Vehicle_getRouteId C nodeId = genericGetText C CMD_GET_VEHICLE_VARIABLE nodeId VAR_ROUTE_ID RESPONSE_GET_VEHICLE_VARIABLE"

definition Route_getRoadIds :: "'c traci_ci \<Rightarrow> string \<Rightarrow> 'c \<Rightarrow> (string list \<times> 'c) res" where
  "Route_getRoadIds C routeId = genericGetStringList C CMD_GET_ROUTE_VARIABLE routeId VAR_EDGES RESPONSE_GET_ROUTE_VARIABLE"

definition Vehicle_getLength :: "'c traci_ci \<Rightarrow> string \<Rightarrow> 'c \<Rightarrow> (64 word \<times> 'c) res" where
  "Vehicle_getLength C nodeId = genericGetDouble C CMD_GET_VEHICLE_VARIABLE nodeId VAR_LENGTH RESPONSE_GET_VEHICLE_VARIABLE"

definition Vehicle_getWidth :: "'c traci_ci \<Rightarrow> string \<Rightarrow> 'c \<Rightarrow> (64 word \<times> 'c) res" where
  "Vehicle_getWidth C nodeId = genericGetDouble C CMD_GET_VEHICLE_VARIABLE nodeId VAR_WIDTH RESPONSE_GET_VEHICLE_VARIABLE"

definition Vehicle_getHeight :: "'c traci_ci \<Rightarrow> string \<Rightarrow> 'c \<Rightarrow> (64 word \<times> 'c) res" where
  "Vehicle_getHeight C nodeId = genericGetDouble C CMD_GET_VEHICLE_VARIABLE nodeId VAR_HEIGHT RESPONSE_GET_VEHICLE_VARIABLE"

definition Vehicle_getAccel :: "'c traci_ci \<Rightarrow> string \<Rightarrow> 'c \<Rightarrow> (64 word \<times> 'c) res" where
  "Vehicle_getAccel C nodeId = genericGetDouble C CMD_GET_VEHICLE_VARIABLE nodeId VAR_ACCEL RESPONSE_GET_VEHICLE_VARIABLE"

definition Vehicle_getDeccel :: "'c traci_ci \<Rightarrow> string \<Rightarrow> 'c \<Rightarrow> (64 word \<times> 'c) res" where
  "Vehicle_getDeccel C nodeId = genericGetDouble C CMD_GET_VEHICLE_VARIABLE nodeId VAR_DECEL RESPONSE_GET_VEHICLE_VARIABLE"

definition Vehicle_getSpeed :: "'c traci_ci \<Rightarrow> string \<Rightarrow> 'c \<Rightarrow> (64 word \<times> 'c) res" where
  "Vehicle_getSpeed C nodeId = genericGetDouble C CMD_GET_VEHICLE_VARIABLE nodeId VAR_SPEED RESPONSE_GET_VEHICLE_VARIABLE"

definition Vehicle_getAngle :: "'c traci_ci \<Rightarrow> string \<Rightarrow> 'c \<Rightarrow> (64 word \<times> 'c) res" where
  "Vehicle_getAngle C nodeId = genericGetDouble C CMD_GET_VEHICLE_VARIABLE nodeId VAR_ANGLE RESPONSE_GET_VEHICLE_VARIABLE"

definition Vehicle_getAcceleration :: "'c traci_ci \<Rightarrow> string \<Rightarrow> 'c \<Rightarrow> (64 word \<times> 'c) res" where
  "Vehicle_getAcceleration C nodeId = genericGetDouble C CMD_GET_VEHICLE_VARIABLE nodeId VAR_ACCELERATION RESPONSE_GET_VEHICLE_VARIABLE"

definition Vehicle_getDistanceTravelled :: "'c traci_ci \<Rightarrow> string \<Rightarrow> 'c \<Rightarrow> (64 word \<times> 'c) res" where
  "Vehicle_getDistanceTravelled C nodeId = genericGetDouble C CMD_GET_VEHICLE_VARIABLE nodeId VAR_DISTANCE RESPONSE_GET_VEHICLE_VARIABLE"

definition Vehicle_getCO2Emissions :: "'c traci_ci \<Rightarrow> string \<Rightarrow> 'c \<Rightarrow> (64 word \<times> 'c) res" where
  "Vehicle_getCO2Emissions C nodeId = genericGetDouble C CMD_GET_VEHICLE_VARIABLE nodeId VAR_CO2EMISSION RESPONSE_GET_VEHICLE_VARIABLE"

definition Vehicle_getCOEmissions :: "'c traci_ci \<Rightarrow> string \<Rightarrow> 'c \<Rightarrow> (64 word \<times> 'c) res" where
  "Vehicle_getCOEmissions C nodeId = genericGetDouble C CMD_GET_VEHICLE_VARIABLE nodeId VAR_COEMISSION RESPONSE_GET_VEHICLE_VARIABLE"

definition Vehicle_getHCEmissions :: "'c traci_ci \<Rightarrow> string \<Rightarrow> 'c \<Rightarrow> (64 word \<times> 'c) res" where
  "Vehicle_getHCEmissions C nodeId = genericGetDouble C CMD_GET_VEHICLE_VARIABLE nodeId VAR_HCEMISSION RESPONSE_GET_VEHICLE_VARIABLE"

definition Vehicle_getPMxEmissions :: "'c traci_ci \<Rightarrow> string \<Rightarrow> 'c \<Rightarrow> (64 word \<times> 'c) res" where
  "Vehicle_getPMxEmissions C nodeId = genericGetDouble C CMD_GET_VEHICLE_VARIABLE nodeId VAR_PMXEMISSION RESPONSE_GET_VEHICLE_VARIABLE"

definition Vehicle_getNOxEmissions :: "'c traci_ci \<Rightarrow> string \<Rightarrow> 'c \<Rightarrow> (64 word \<times> 'c) res" where
  "Vehicle_getNOxEmissions C nodeId = genericGetDouble C CMD_GET_VEHICLE_VARIABLE nodeId VAR_NOXEMISSION RESPONSE_GET_VEHICLE_VARIABLE"

definition Vehicle_getFuelConsumption :: "'c traci_ci \<Rightarrow> string \<Rightarrow> 'c \<Rightarrow> (64 word \<times> 'c) res" where
  "Vehicle_getFuelConsumption C nodeId = genericGetDouble C CMD_GET_VEHICLE_VARIABLE nodeId VAR_FUELCONSUMPTION RESPONSE_GET_VEHICLE_VARIABLE"

definition Vehicle_getNoiseEmission :: "'c traci_ci \<Rightarrow> string \<Rightarrow> 'c \<Rightarrow> (64 word \<times> 'c) res" where
  "Vehicle_getNoiseEmission C nodeId = genericGetDouble C CMD_GET_VEHICLE_VARIABLE nodeId VAR_NOISEEMISSION RESPONSE_GET_VEHICLE_VARIABLE"

definition Vehicle_getElectricityConsumption :: "'c traci_ci \<Rightarrow> string \<Rightarrow> 'c \<Rightarrow> (64 word \<times> 'c) res" where
  "Vehicle_getElectricityConsumption C nodeId = genericGetDouble C CMD_GET_VEHICLE_VARIABLE nodeId VAR_ELECTRICITYCONSUMPTION RESPONSE_GET_VEHICLE_VARIABLE"

definition Vehicle_getWaitingTime :: "'c traci_ci \<Rightarrow> string \<Rightarrow> 'c \<Rightarrow> (64 word \<times> 'c) res" where
  "Vehicle_getWaitingTime C nodeId = genericGetDouble C CMD_GET_VEHICLE_VARIABLE nodeId VAR_WAITING_TIME RESPONSE_GET_VEHICLE_VARIABLE"

definition getTrafficlightIds :: "'c traci_ci \<Rightarrow> 'c \<Rightarrow> (string list \<times> 'c) res" where
  "getTrafficlightIds C = genericGetStringList C CMD_GET_TL_VARIABLE [] ID_LIST RESPONSE_GET_TL_VARIABLE"

definition Trafficlight_getCurrentState :: "'c traci_ci \<Rightarrow> string \<Rightarrow> 'c \<Rightarrow> (string \<times> 'c) res" where
  "Trafficlight_getCurrentState C trafficLightId = genericGetText C CMD_GET_TL_VARIABLE trafficLightId TL_RED_YELLOW_GREEN_STATE RESPONSE_GET_TL_VARIABLE"

definition Trafficlight_getDefaultCurrentPhaseDuration :: "'c traci_ci \<Rightarrow> string \<Rightarrow> 'c \<Rightarrow> (simtime \<times> 'c) res" where
  "Trafficlight_getDefaultCurrentPhaseDuration C trafficLightId = genericGetTime C CMD_GET_TL_VARIABLE trafficLightId TL_PHASE_DURATION RESPONSE_GET_TL_VARIABLE"

definition Trafficlight_getControlledLanes :: "'c traci_ci \<Rightarrow> string \<Rightarrow> 'c \<Rightarrow> (string list \<times> 'c) res" where
  "Trafficlight_getControlledLanes C trafficLightId = genericGetStringList C CMD_GET_TL_VARIABLE trafficLightId TL_CONTROLLED_LANES RESPONSE_GET_TL_VARIABLE"

definition Trafficlight_getCurrentPhaseIndex :: "'c traci_ci \<Rightarrow> string \<Rightarrow> 'c \<Rightarrow> (32 word \<times> 'c) res" where
  "Trafficlight_getCurrentPhaseIndex C trafficLightId = genericGetInt C CMD_GET_TL_VARIABLE trafficLightId TL_CURRENT_PHASE RESPONSE_GET_TL_VARIABLE"

definition Trafficlight_getCurrentProgramID :: "'c traci_ci \<Rightarrow> string \<Rightarrow> 'c \<Rightarrow> (string \<times> 'c) res" where
  "Trafficlight_getCurrentProgramID C trafficLightId = genericGetText C CMD_GET_TL_VARIABLE trafficLightId TL_CURRENT_PROGRAM RESPONSE_GET_TL_VARIABLE"

definition Trafficlight_getAssumedNextSwitchTime :: "'c traci_ci \<Rightarrow> string \<Rightarrow> 'c \<Rightarrow> (simtime \<times> 'c) res" where
  "Trafficlight_getAssumedNextSwitchTime C trafficLightId = genericGetTime C CMD_GET_TL_VARIABLE trafficLightId TL_NEXT_SWITCH RESPONSE_GET_TL_VARIABLE"

definition getPolygonIds :: "'c traci_ci \<Rightarrow> 'c \<Rightarrow> (string list \<times> 'c) res" where
  "getPolygonIds C = genericGetStringList C CMD_GET_POLYGON_VARIABLE [] ID_LIST RESPONSE_GET_POLYGON_VARIABLE"

definition Polygon_getTypeId :: "'c traci_ci \<Rightarrow> string \<Rightarrow> 'c \<Rightarrow> (string \<times> 'c) res" where
  "Polygon_getTypeId C polyId = genericGetText C CMD_GET_POLYGON_VARIABLE polyId VAR_TYPE RESPONSE_GET_POLYGON_VARIABLE"

definition Polygon_getShape :: "'c traci_ci \<Rightarrow> string \<Rightarrow> 'c \<Rightarrow> (Coord list \<times> 'c) res" where
  "Polygon_getShape C polyId = genericGetCoordList C CMD_GET_POLYGON_VARIABLE polyId VAR_SHAPE RESPONSE_GET_POLYGON_VARIABLE"

definition getPoiIds :: "'c traci_ci \<Rightarrow> 'c \<Rightarrow> (string list \<times> 'c) res" where
  "getPoiIds C = genericGetStringList C CMD_GET_POI_VARIABLE [] ID_LIST RESPONSE_GET_POI_VARIABLE"

definition Poi_getPosition :: "'c traci_ci \<Rightarrow> string \<Rightarrow> 'c \<Rightarrow> (Coord \<times> 'c) res" where
  "Poi_getPosition C poiId = genericGetCoord C CMD_GET_POI_VARIABLE poiId VAR_POSITION RESPONSE_GET_POI_VARIABLE"

definition getLaneIds :: "'c traci_ci \<Rightarrow> 'c \<Rightarrow> (string list \<times> 'c) res" where
  "getLaneIds C = genericGetStringList C CMD_GET_LANE_VARIABLE [] ID_LIST RESPONSE_GET_LANE_VARIABLE"

definition Lane_getShape :: "'c traci_ci \<Rightarrow> string \<Rightarrow> 'c \<Rightarrow> (Coord list \<times> 'c) res" where
  "Lane_getShape C laneId = genericGetCoordList C CMD_GET_LANE_VARIABLE laneId VAR_SHAPE RESPONSE_GET_LANE_VARIABLE"

definition Lane_getRoadId :: "'c traci_ci \<Rightarrow> string \<Rightarrow> 'c \<Rightarrow> (string \<times> 'c) res" where
  "Lane_getRoadId C laneId = genericGetText C CMD_GET_LANE_VARIABLE laneId LANE_EDGE_ID RESPONSE_GET_LANE_VARIABLE"

definition Lane_getLength :: "'c traci_ci \<Rightarrow> string \<Rightarrow> 'c \<Rightarrow> (64 word \<times> 'c) res" where
  "Lane_getLength C laneId = genericGetDouble C CMD_GET_LANE_VARIABLE laneId VAR_LENGTH RESPONSE_GET_LANE_VARIABLE"

definition Lane_getMaxSpeed :: "'c traci_ci \<Rightarrow> string \<Rightarrow> 'c \<Rightarrow> (64 word \<times> 'c) res" where
  "Lane_getMaxSpeed C laneId = genericGetDouble C CMD_GET_LANE_VARIABLE laneId VAR_MAXSPEED RESPONSE_GET_LANE_VARIABLE"

definition Lane_getMeanSpeed :: "'c traci_ci \<Rightarrow> string \<Rightarrow> 'c \<Rightarrow> (64 word \<times> 'c) res" where
  "Lane_getMeanSpeed C laneId = genericGetDouble C CMD_GET_LANE_VARIABLE laneId LAST_STEP_MEAN_SPEED RESPONSE_GET_LANE_VARIABLE"

definition Lane_getWidth :: "'c traci_ci \<Rightarrow> string \<Rightarrow> 'c \<Rightarrow> (64 word \<times> 'c) res" where
  "Lane_getWidth C laneId = genericGetDouble C CMD_GET_LANE_VARIABLE laneId VAR_WIDTH RESPONSE_GET_LANE_VARIABLE"

definition getLaneAreaDetectorIds :: "'c traci_ci \<Rightarrow> 'c \<Rightarrow> (string list \<times> 'c) res" where
  "getLaneAreaDetectorIds C = genericGetStringList C CMD_GET_LANEAREA_VARIABLE [] ID_LIST RESPONSE_GET_LANEAREA_VARIABLE"

definition LaneAreaDetector_getLastStepVehicleNumber :: "'c traci_ci \<Rightarrow> string \<Rightarrow> 'c \<Rightarrow> (32 word \<times> 'c) res" where
  "LaneAreaDetector_getLastStepVehicleNumber C laneAreaDetectorId = genericGetInt C CMD_GET_LANEAREA_VARIABLE laneAreaDetectorId LAST_STEP_VEHICLE_NUMBER RESPONSE_GET_LANEAREA_VARIABLE"

definition getJunctionIds :: "'c traci_ci \<Rightarrow> 'c \<Rightarrow> (string list \<times> 'c) res" where
  "getJunctionIds C = genericGetStringList C CMD_GET_JUNCTION_VARIABLE [] ID_LIST RESPONSE_GET_JUNCTION_VARIABLE"

definition Junction_getPosition :: "'c traci_ci \<Rightarrow> string \<Rightarrow> 'c \<Rightarrow> (Coord \<times> 'c) res" where
  "Junction_getPosition C junctionId = genericGetCoord C CMD_GET_JUNCTION_VARIABLE junctionId VAR_POSITION RESPONSE_GET_JUNCTION_VARIABLE"

definition Junction_getShape :: "'c traci_ci \<Rightarrow> string \<Rightarrow> 'c \<Rightarrow> (Coord list \<times> 'c) res" where
  "Junction_getShape C junctionId = genericGetCoordList C CMD_GET_JUNCTION_VARIABLE junctionId VAR_SHAPE RESPONSE_GET_JUNCTION_VARIABLE"

definition Vehicle_getVType :: "'c traci_ci \<Rightarrow> string \<Rightarrow> 'c \<Rightarrow> (string \<times> 'c) res" where
  "Vehicle_getVType C nodeId = genericGetText C CMD_GET_VEHICLE_VARIABLE nodeId VAR_TYPE RESPONSE_GET_VEHICLE_VARIABLE"

text \<open>Those that depend on the version of the interface, or do nothing for a GUI that is ignored.\<close>

definition Road_getName :: "'c traci_ci \<Rightarrow> string \<Rightarrow> 'c \<Rightarrow> (string \<times> 'c) res" where
  "Road_getName C roadId c =
     (if vc_version (ci_version C) \<le> 18 then throwr ''TraCICommandInterface::Road::getName requires SUMO 1.1.0 or newer''
      else genericGetText C CMD_GET_EDGE_VARIABLE roadId VAR_NAME RESPONSE_GET_EDGE_VARIABLE c)"

definition Vehicle_getAccumulatedWaitingTime :: "'c traci_ci \<Rightarrow> string \<Rightarrow> 'c \<Rightarrow> (64 word \<times> 'c) res" where
  "Vehicle_getAccumulatedWaitingTime C nodeId c =
     (if vc_version (ci_version C) \<le> 15
      then throwr ''TraCICommandInterface::Vehicle::getAccumulatedWaitingTime requires SUMO 0.31.0 or newer''
      else genericGetDouble C CMD_GET_VEHICLE_VARIABLE nodeId VAR_WAITING_TIME_ACCUMULATED RESPONSE_GET_VEHICLE_VARIABLE c)"

definition Vehicle_getStopState :: "'c traci_ci \<Rightarrow> string \<Rightarrow> 'c \<Rightarrow> (byte \<times> 'c) res" where
  "Vehicle_getStopState C nodeId c =
     (if vc_version (ci_version C) < 18
      then genericGetUnsignedByte C CMD_GET_VEHICLE_VARIABLE nodeId VAR_STOPSTATE RESPONSE_GET_VEHICLE_VARIABLE c
      else rbind (genericGetInt C CMD_GET_VEHICLE_VARIABLE nodeId VAR_STOPSTATE RESPONSE_GET_VEHICLE_VARIABLE c) (\<lambda>(r, c).
           Inr (ucast r, c)))"

definition Vehicle_isStopReached :: "'c traci_ci \<Rightarrow> string \<Rightarrow> 'c \<Rightarrow> (bool \<times> 'c) res" where
  "Vehicle_isStopReached C nodeId c = rbind (Vehicle_getStopState C nodeId c) (\<lambda>(r, c). Inr (bit r 0, c))"

definition getGuiViewIds :: "'c traci_ci \<Rightarrow> 'c \<Rightarrow> (string list \<times> 'c) res" where
  "getGuiViewIds C c =
     (if ci_ignoreGui C then Inr ([], c)
      else genericGetStringList C CMD_GET_GUI_VARIABLE [] ID_LIST RESPONSE_GET_GUI_VARIABLE c)"

definition GuiView_getScheme :: "'c traci_ci \<Rightarrow> string \<Rightarrow> 'c \<Rightarrow> (string \<times> 'c) res" where
  "GuiView_getScheme C viewId c =
     (if ci_ignoreGui C then Inr ([], c)
      else genericGetText C CMD_GET_GUI_VARIABLE viewId VAR_VIEW_SCHEMA RESPONSE_GET_GUI_VARIABLE c)"

definition GuiView_getZoom :: "'c traci_ci \<Rightarrow> string \<Rightarrow> 'c \<Rightarrow> (64 word \<times> 'c) res" where
  "GuiView_getZoom C viewId c =
     (if ci_ignoreGui C then Inr (0, c)
      else genericGetDouble C CMD_GET_GUI_VARIABLE viewId VAR_VIEW_ZOOM RESPONSE_GET_GUI_VARIABLE c)"

section \<open>Requests with parameters or compound answers\<close>

definition simId :: string where
  "simId = ''sim0''"

definition Vehicle_getColor :: "'c traci_ci \<Rightarrow> string \<Rightarrow> 'c \<Rightarrow> ((byte \<times> byte \<times> byte \<times> byte) \<times> 'c) res" where
  "Vehicle_getColor C nodeId c =
     (let h = ci_host C in
      rbind (query h (ci_link C) CMD_GET_VEHICLE_VARIABLE (put_items C [U8 VAR_COLOR, Txt nodeId]) c) (\<lambda>(buf, c).
      rbind (answer_header h RESPONSE_GET_VEHICLE_VARIABLE VAR_COLOR nodeId buf) (\<lambda>buf.
      rbind (expect_type h TYPE_COLOR buf) (\<lambda>buf.
      rbind (read_word h buf) (\<lambda>(red, buf).
      rbind (read_word h buf) (\<lambda>(green, buf).
      rbind (read_word h buf) (\<lambda>(blue, buf).
      rbind (read_word h buf) (\<lambda>(alpha, buf).
      rbind (assertr (eof buf) ''buf.eof()'') (\<lambda>_. Inr ((red, green, blue, alpha), c))))))))))"

definition REQUEST_type :: "bool \<Rightarrow> byte" where
  "REQUEST_type returnDrivingDistance = (if returnDrivingDistance then REQUEST_DRIVINGDIST else REQUEST_AIRDIST)"

text \<open>The length of the answer is one byte here.\<close>

definition getDistance :: "'c traci_ci \<Rightarrow> Coord \<Rightarrow> Coord \<Rightarrow> bool \<Rightarrow> 'c \<Rightarrow> (64 word \<times> 'c) res" where
  "getDistance C p1 p2 returnDrivingDistance c =
     (let h = ci_host C in
      rbind (ci_omnet2traci C p1) (\<lambda>q1. rbind (ci_omnet2traci C p2) (\<lambda>q2.
      rbind (query h (ci_link C) CMD_GET_SIM_VARIABLE
        (put_items C [U8 DISTANCE_REQUEST, Txt simId, U8 TYPE_COMPOUND, U32 3, Pos q1, Pos q2, U8 (REQUEST_type returnDrivingDistance)])
        c) (\<lambda>(buf, c).
      rbind (read_word h buf) (\<lambda>(cmdLength_resp :: byte, buf).
      rbind (expect_type h RESPONSE_GET_SIM_VARIABLE buf) (\<lambda>buf.
      rbind (expect_type h DISTANCE_REQUEST buf) (\<lambda>buf.
      rbind (read_string h buf) (\<lambda>(simId_resp, buf).
      rbind (assertr (simId_resp = simId) ''simId_resp == simId'') (\<lambda>_.
      rbind (expect_type h TYPE_DOUBLE buf) (\<lambda>buf.
      rbind (read_word h buf) (\<lambda>(distance, buf).
      rbind (assertr (eof buf) ''buf.eof()'') (\<lambda>_. Inr (distance, c)))))))))))))"

text \<open>\<open>strcmp(a.c_str(), b.c_str()) == 0\<close>\<close>

definition same_c_str :: "string \<Rightarrow> string \<Rightarrow> bool" where
  "same_c_str a b \<longleftrightarrow> takeWhile (\<lambda>x. x \<noteq> CHR 0x00) a = takeWhile (\<lambda>x. x \<noteq> CHR 0x00) b"

definition vehicle_header :: "bool \<Rightarrow> byte \<Rightarrow> string \<Rightarrow> tbuf \<Rightarrow> tbuf res" where
  "vehicle_header h variable nodeId buf =
     rbind (read_length h buf) (\<lambda>buf.
     rbind (expect_type h RESPONSE_GET_VEHICLE_VARIABLE buf) (\<lambda>buf.
     rbind (expect_type h variable buf) (\<lambda>buf.
     rbind (read_string h buf) (\<lambda>(rspNodeId, buf).
     rbind (assertr (same_c_str rspNodeId nodeId) ''strcmp(rspNodeId.c_str(), nodeId.c_str()) == 0'') (\<lambda>_.
     expect_type h TYPE_COMPOUND buf)))))"

definition Vehicle_getLeader :: "'c traci_ci \<Rightarrow> string \<Rightarrow> 64 word \<Rightarrow> 'c \<Rightarrow> ((string \<times> 64 word) \<times> 'c) res" where
  "Vehicle_getLeader C nodeId distance c =
     (let h = ci_host C in
      rbind (query h (ci_link C) CMD_GET_VEHICLE_VARIABLE
        (put_items C [U8 VAR_LEADER, Txt nodeId, U8 TYPE_DOUBLE, U64 distance]) c) (\<lambda>(response, c).
      rbind (vehicle_header h VAR_LEADER nodeId response) (\<lambda>response.
      rbind (read_word h response) (\<lambda>(numElements :: 32 word, response).
      rbind (assertr (numElements = 2) ''numElements == 2'') (\<lambda>_.
      rbind (readTypeChecked h read_string TYPE_STRING response) (\<lambda>(leaderId, response).
      rbind (readTypeChecked h read_word TYPE_DOUBLE response) (\<lambda>(distanceToLeader, response).
      rbind (assertr (eof response) ''response.eof()'') (\<lambda>_. Inr ((leaderId, distanceToLeader), c)))))))))"

fun read_next_tls :: "bool \<Rightarrow> nat \<Rightarrow> (string \<times> 32 word \<times> 64 word \<times> byte) list reader" where
  "read_next_tls h 0 b = Inr ([], b)"
| "read_next_tls h (Suc n) b =
     rbind (readTypeChecked h read_string TYPE_STRING b) (\<lambda>(tlsId, b).
     rbind (readTypeChecked h read_word TYPE_INTEGER b) (\<lambda>(tlsLinkIndex, b).
     rbind (readTypeChecked h read_word TYPE_DOUBLE b) (\<lambda>(distanceToTls, b).
     rbind (readTypeChecked h read_word TYPE_BYTE b) (\<lambda>(linkState, b).
     rbind (read_next_tls h n b) (\<lambda>(result, b). Inr ((tlsId, tlsLinkIndex, distanceToTls, linkState) # result, b))))))"

definition Vehicle_getNextTls ::
    "'c traci_ci \<Rightarrow> string \<Rightarrow> 'c \<Rightarrow> ((string \<times> 32 word \<times> 64 word \<times> byte) list \<times> 'c) res" where
  "Vehicle_getNextTls C nodeId c =
     (let h = ci_host C in
      rbind (query h (ci_link C) CMD_GET_VEHICLE_VARIABLE (put_items C [U8 VAR_NEXT_TLS, Txt nodeId]) c) (\<lambda>(response, c).
      rbind (vehicle_header h VAR_NEXT_TLS nodeId response) (\<lambda>response.
      rbind (read_word h response) (\<lambda>(numElements :: 32 word, response).
      rbind (assertr ((numElements - 1) mod 4 = 0) ''(numElements - 1) % 4 == 0'') (\<lambda>_.
      rbind (readTypeChecked h read_word TYPE_INTEGER response) (\<lambda>(numLinks :: 32 word, response).
      rbind (assertr (numLinks * 4 + 1 = numElements) ''numLinks * 4 + 1 == numElements'') (\<lambda>_.
      rbind (read_next_tls h (unat numLinks) response) (\<lambda>(result, response).
      rbind (assertr (eof response) ''response.eof()'') (\<lambda>_. Inr (result, c))))))))))"

definition Vehicle_getParameter :: "'c traci_ci \<Rightarrow> string \<Rightarrow> string \<Rightarrow> 'c \<Rightarrow> (string \<times> 'c) res" where
  "Vehicle_getParameter C nodeId parameter c =
     (let h = ci_host C in
      rbind (query h (ci_link C) CMD_GET_VEHICLE_VARIABLE
        (put_items C [U8 VAR_PARAMETER, Txt nodeId, U8 TYPE_STRING, Txt parameter]) c) (\<lambda>(response, c).
      rbind (read_word h response) (\<lambda>(cmdLength :: byte, response).
      rbind (expect_type h RESPONSE_GET_VEHICLE_VARIABLE response) (\<lambda>response.
      rbind (expect_type h VAR_PARAMETER response) (\<lambda>response.
      rbind (read_string h response) (\<lambda>(id, response).
      rbind (assertr (id = nodeId) ''id == nodeId'') (\<lambda>_.
      rbind (expect_type h TYPE_STRING response) (\<lambda>response.
      rbind (read_string h response) (\<lambda>(value, response). Inr (value, c))))))))))"

text \<open>
  \<open>ParBuffer::next\<close>: the text up to the first separator. \<open>sscanf\<close> leaves the value as it was when the text is no
  number; numbers that the type cannot hold are undefined in C, an error here.
\<close>

definition par_next :: "string \<Rightarrow> string" where
  "par_next inBuffer = takeWhile (\<lambda>x. x \<noteq> CHR '':'') inBuffer"

definition scan_int :: "string \<Rightarrow> int \<Rightarrow> int res" where
  "scan_int s old =
     (let (neg, body) = take_sign (dropWhile c_isspace s);
          ds = takeWhile is_digit body;
          v = (if neg then - int (digits_value ds) else int (digits_value ds))
      in if ds = [] then Inr old else if - (2 ^ 31) \<le> v \<and> v < 2 ^ 31 then Inr v else Inl OutOfRange)"

definition scan_double :: "string \<Rightarrow> double \<Rightarrow> double res" where
  "scan_double s old =
     (let body = snd (take_sign (dropWhile c_isspace s));
          ip = takeWhile is_digit body;
          (pt, body2) = split_point (drop (length ip) body);
          fp = (if pt = [] then [] else takeWhile is_digit body2)
      in if ip = [] \<and> fp = [] \<or> scan_exponent (drop (length fp) body2) = None then Inr old else stod s)"

definition Vehicle_getParameter_int :: "'c traci_ci \<Rightarrow> string \<Rightarrow> string \<Rightarrow> int \<Rightarrow> 'c \<Rightarrow> (int \<times> 'c) res" where
  "Vehicle_getParameter_int C nodeId parameter value c =
     rbind (Vehicle_getParameter C nodeId parameter c) (\<lambda>(v, c). rbind (scan_int (par_next v) value) (\<lambda>x. Inr (x, c)))"

definition Vehicle_getParameter_double :: "'c traci_ci \<Rightarrow> string \<Rightarrow> string \<Rightarrow> double \<Rightarrow> 'c \<Rightarrow> (double \<times> 'c) res" where
  "Vehicle_getParameter_double C nodeId parameter value c =
     rbind (Vehicle_getParameter C nodeId parameter c) (\<lambda>(v, c). rbind (scan_double (par_next v) value) (\<lambda>x. Inr (x, c)))"

text \<open>Conversions of positions: the identifier of the answer is not compared, and nothing is said of bytes behind it.\<close>

definition position_conversion :: "'c traci_ci \<Rightarrow> byte \<Rightarrow> Coord \<Rightarrow> 'c \<Rightarrow> (tbuf \<times> 'c) res" where
  "position_conversion C resultType coord c =
     (let h = ci_host C in
      rbind (ci_omnet2traci C coord) (\<lambda>q.
      rbind (query h (ci_link C) CMD_GET_SIM_VARIABLE
        (put_items C [U8 POSITION_CONVERSION, Txt simId, U8 TYPE_COMPOUND, U32 2, Pos q, U8 TYPE_UBYTE, U8 resultType]) c)
        (\<lambda>(response, c).
      rbind (read_length h response) (\<lambda>response.
      rbind (expect_type h RESPONSE_GET_SIM_VARIABLE response) (\<lambda>response.
      rbind (expect_type h POSITION_CONVERSION response) (\<lambda>response.
      rbind (read_string h response) (\<lambda>(id, response).
      rbind (expect_type h resultType response) (\<lambda>response. Inr (response, c)))))))))"

definition getLonLat :: "'c traci_ci \<Rightarrow> Coord \<Rightarrow> 'c \<Rightarrow> ((64 word \<times> 64 word) \<times> 'c) res" where
  "getLonLat C coord c =
     rbind (position_conversion C POSITION_LON_LAT coord c) (\<lambda>(response, c).
     rbind (read_word (ci_host C) response) (\<lambda>(convPosLon, response).
     rbind (read_word (ci_host C) response) (\<lambda>(convPosLat, response). Inr ((convPosLon, convPosLat), c))))"

definition getRoadMapPos :: "'c traci_ci \<Rightarrow> Coord \<Rightarrow> 'c \<Rightarrow> ((string \<times> 64 word \<times> byte) \<times> 'c) res" where
  "getRoadMapPos C coord c =
     rbind (position_conversion C POSITION_ROADMAP coord c) (\<lambda>(response, c).
     rbind (read_string (ci_host C) response) (\<lambda>(convRoadId, response).
     rbind (read_word (ci_host C) response) (\<lambda>(convPos, response).
     rbind (read_word (ci_host C) response) (\<lambda>(convLaneId, response). Inr ((convRoadId, convPos, convLaneId), c)))))"

end
