(* ===== verification/SV_TraCI_Setters.thy ===== *)
theory SV_TraCI_Setters
  imports SV_TraCI_Getters
begin

text \<open>
  The commands: a variable of an object and its typed value, or a compound of typed values. The integers that the code
  passes (layers, bit sets, indexes) are the words that are sent.
\<close>

section \<open>Vehicles\<close>

definition vehicle_command :: "'c traci_ci \<Rightarrow> byte \<Rightarrow> string \<Rightarrow> wire_item list \<Rightarrow> 'c \<Rightarrow> 'c res" where
  "vehicle_command C variableId nodeId xs = set_command C CMD_SET_VEHICLE_VARIABLE ([U8 variableId, Txt nodeId] @ xs)"

definition Vehicle_setSpeedMode :: "'c traci_ci \<Rightarrow> string \<Rightarrow> 32 word \<Rightarrow> 'c \<Rightarrow> 'c res" where
  "Vehicle_setSpeedMode C nodeId bitset = vehicle_command C VAR_SPEEDSETMODE nodeId [U8 TYPE_INTEGER, U32 bitset]"

definition Vehicle_setSpeed :: "'c traci_ci \<Rightarrow> string \<Rightarrow> 64 word \<Rightarrow> 'c \<Rightarrow> 'c res" where
  "Vehicle_setSpeed C nodeId speed = vehicle_command C VAR_SPEED nodeId [U8 TYPE_DOUBLE, U64 speed]"

definition Vehicle_setMaxSpeed :: "'c traci_ci \<Rightarrow> string \<Rightarrow> 64 word \<Rightarrow> 'c \<Rightarrow> 'c res" where
  "Vehicle_setMaxSpeed C nodeId speed = vehicle_command C VAR_MAXSPEED nodeId [U8 TYPE_DOUBLE, U64 speed]"

fun color_items :: "byte \<times> byte \<times> byte \<times> byte \<Rightarrow> wire_item list" where
  "color_items (red, green, blue, alpha) = [U8 TYPE_COLOR, U8 red, U8 green, U8 blue, U8 alpha]"

definition Vehicle_setColor :: "'c traci_ci \<Rightarrow> string \<Rightarrow> byte \<times> byte \<times> byte \<times> byte \<Rightarrow> 'c \<Rightarrow> 'c res" where
  "Vehicle_setColor C nodeId color = vehicle_command C VAR_COLOR nodeId (color_items color)"

definition Vehicle_slowDown :: "'c traci_ci \<Rightarrow> string \<Rightarrow> 64 word \<Rightarrow> simtime \<Rightarrow> 'c \<Rightarrow> 'c res" where
  "Vehicle_slowDown C nodeId speed time =
     vehicle_command C CMD_SLOWDOWN nodeId
       [U8 TYPE_COMPOUND, U32 2, U8 TYPE_DOUBLE, U64 speed, U8 (vc_timeType (ci_version C)), Tim time]"

definition Vehicle_newRoute :: "'c traci_ci \<Rightarrow> string \<Rightarrow> string \<Rightarrow> 'c \<Rightarrow> 'c res" where
  "Vehicle_newRoute C nodeId roadId = vehicle_command C LANE_EDGE_ID nodeId [U8 TYPE_STRING, Txt roadId]"

definition Vehicle_setParking :: "'c traci_ci \<Rightarrow> string \<Rightarrow> 'c \<Rightarrow> 'c res" where
  "Vehicle_setParking C nodeId c = throwr ''TraCICommandInterface::Vehicle::setParking is non-functional as of SUMO 1.0.0''"

definition Vehicle_changeRoute :: "'c traci_ci \<Rightarrow> string \<Rightarrow> string \<Rightarrow> simtime \<Rightarrow> 'c \<Rightarrow> 'c res" where
  "Vehicle_changeRoute C nodeId roadId travelTime c =
     rbind (if 0 \<le> travelTime
            then vehicle_command C VAR_EDGE_TRAVELTIME nodeId
                   [U8 TYPE_COMPOUND, U32 2, U8 TYPE_STRING, Txt roadId, U8 TYPE_DOUBLE, U64 (tm_dbl (ci_time C) travelTime)] c
            else vehicle_command C VAR_EDGE_TRAVELTIME nodeId [U8 TYPE_COMPOUND, U32 1, U8 TYPE_STRING, Txt roadId] c)
       (vehicle_command C CMD_REROUTE_TRAVELTIME nodeId [U8 TYPE_COMPOUND, U32 0])"

definition Vehicle_changeTarget :: "'c traci_ci \<Rightarrow> string \<Rightarrow> string \<Rightarrow> 'c \<Rightarrow> 'c res" where
  "Vehicle_changeTarget C nodeId newTarget = vehicle_command C CMD_CHANGETARGET nodeId [U8 TYPE_STRING, Txt newTarget]"

text \<open>The radius is not sent.\<close>

definition Vehicle_stopAt ::
    "'c traci_ci \<Rightarrow> string \<Rightarrow> string \<Rightarrow> 64 word \<Rightarrow> byte \<Rightarrow> 64 word \<Rightarrow> simtime \<Rightarrow> 'c \<Rightarrow> 'c res" where
  "Vehicle_stopAt C nodeId roadId pos laneid radius waittime =
     vehicle_command C CMD_STOP nodeId
       [U8 TYPE_COMPOUND, U32 4, U8 TYPE_STRING, Txt roadId, U8 TYPE_DOUBLE, U64 pos, U8 TYPE_BYTE, U8 laneid,
        U8 (vc_timeType (ci_version C)), Tim waittime]"

text \<open>
  \<open>(emitTime_st < 0) ? round(emitTime_st.dbl()) : floor(emitTime_st.dbl() * 1000)\<close>, on binary64 values, as a 32-bit
  number; what it cannot hold is undefined in C++, an error here.
\<close>

definition dbl_of_bits :: "64 word \<Rightarrow> dbl" where
  "dbl_of_bits w =
     (let m = int (unat w mod 2 ^ 52); e = unat w div 2 ^ 52 mod 2 ^ 11; s = unat w div 2 ^ 63;
          sg = (if s = 0 then 1 else - 1)
      in if e = 0 then Dbl (sg * m) 1074
         else if 1075 \<le> e then Dbl (sg * ((2 ^ 52 + m) * 2 ^ (e - 1075))) 0 else Dbl (sg * (2 ^ 52 + m)) (1075 - e))"

definition dbl_floor :: "dbl \<Rightarrow> int" where
  "dbl_floor d = mant d div 2 ^ scale d"

definition dbl_round :: "dbl \<Rightarrow> int" where
  "dbl_round d = (let a = (2 * \<bar>mant d\<bar> + 2 ^ scale d) div 2 ^ (scale d + 1) in if mant d < 0 then - a else a)"

definition emit_time :: "time_ops \<Rightarrow> simtime \<Rightarrow> int" where
  "emit_time T emitTime_st =
     (let d = dbl_of_bits (tm_dbl T emitTime_st)
      in if emitTime_st < 0 then dbl_round d else dbl_floor (dbl_times 1000 d))"

definition addVehicle ::
    "'c traci_ci \<Rightarrow> string \<Rightarrow> string \<Rightarrow> string \<Rightarrow> simtime \<Rightarrow> 64 word \<Rightarrow> 64 word \<Rightarrow> byte \<Rightarrow> 'c \<Rightarrow> (bool \<times> 'c) res" where
  "addVehicle C vehicleId vehicleTypeId routeId emitTime_st emitPosition emitSpeed emitLane c =
     (let emitTime = emit_time (ci_time C) emitTime_st in
      if emitTime < - (2 ^ 31) \<or> 2 ^ 31 \<le> emitTime then Inl OutOfRange
      else rbind (query_result (ci_host C) (ci_link C) CMD_SET_VEHICLE_VARIABLE
             (put_items C
                [U8 ADD, Txt vehicleId, U8 TYPE_COMPOUND, U32 6, U8 TYPE_STRING, Txt vehicleTypeId, U8 TYPE_STRING, Txt routeId,
                 U8 TYPE_INTEGER, U32 (word_of_int emitTime), U8 TYPE_DOUBLE, U64 emitPosition, U8 TYPE_DOUBLE, U64 emitSpeed,
                 U8 TYPE_BYTE, U8 emitLane]) c) (\<lambda>(result, buf, c).
           rbind (assertr (eof buf) ''buf.eof()'') (\<lambda>_. Inr (rs_success result, c))))"

text \<open>The front of an empty list is undefined in C++, an error here.\<close>

definition Vehicle_changeVehicleRoute :: "'c traci_ci \<Rightarrow> string \<Rightarrow> string list \<Rightarrow> 'c \<Rightarrow> (bool \<times> 'c) res" where
  "Vehicle_changeVehicleRoute C nodeId edges c =
     rbind (Vehicle_getRoadId C nodeId c) (\<lambda>(roadId, c).
     if CHR '':'' \<in> set roadId then Inr (False, c)
     else case edges of
            [] \<Rightarrow> Inl OutOfRange
          | front # _ \<Rightarrow>
              rbind (Vehicle_getRoadId C nodeId c) (\<lambda>(roadId, c).
              if front \<noteq> roadId then Inr (False, c)
              else rbind (vehicle_command C VAR_ROUTE nodeId [U8 TYPE_STRINGLIST, Txts edges] c) (\<lambda>c. Inr (True, c))))"

definition Vehicle_setParameter :: "'c traci_ci \<Rightarrow> string \<Rightarrow> string \<Rightarrow> string \<Rightarrow> 'c \<Rightarrow> 'c res" where
  "Vehicle_setParameter C nodeId parameter value =
     vehicle_command C VAR_PARAMETER nodeId
       [U8 TYPE_COMPOUND, U32 2, U8 TYPE_STRING, Txt parameter, U8 TYPE_STRING, Txt value]"

text \<open>The text that a stream makes of an integer.\<close>

definition print_int :: "int \<Rightarrow> string" where
  "print_int i = (if i < 0 then CHR ''-'' # print_nat (nat (- i)) else print_nat (nat i))"

definition Vehicle_setParameter_int :: "'c traci_ci \<Rightarrow> string \<Rightarrow> string \<Rightarrow> int \<Rightarrow> 'c \<Rightarrow> 'c res" where
  "Vehicle_setParameter_int C nodeId parameter value = Vehicle_setParameter C nodeId parameter (print_int value)"

definition Vehicle_setParameter_double :: "'c traci_ci \<Rightarrow> string \<Rightarrow> string \<Rightarrow> double \<Rightarrow> 'c \<Rightarrow> 'c res" where
  "Vehicle_setParameter_double C nodeId parameter value = Vehicle_setParameter C nodeId parameter (print_double value)"

section \<open>Vehicle types, routes, lanes\<close>

definition setVehicleTypeMaxSpeed :: "'c traci_ci \<Rightarrow> string \<Rightarrow> 64 word \<Rightarrow> 'c \<Rightarrow> 'c res" where
  "setVehicleTypeMaxSpeed C typeId maxSpeed = genericSetDouble C CMD_SET_VEHICLETYPE_VARIABLE typeId VAR_MAXSPEED maxSpeed"

definition addRoute :: "'c traci_ci \<Rightarrow> string \<Rightarrow> string list \<Rightarrow> 'c \<Rightarrow> 'c res" where
  "addRoute C routeId edges =
     set_command C CMD_SET_ROUTE_VARIABLE
       ([U8 ADD, Txt routeId, U8 TYPE_STRINGLIST, U32 (word_of_nat (length edges))] @ map Txt edges)"

definition Lane_setDisallowed :: "'c traci_ci \<Rightarrow> string \<Rightarrow> string list \<Rightarrow> 'c \<Rightarrow> 'c res" where
  "Lane_setDisallowed C laneId disallowedClasses =
     set_command C CMD_SET_LANE_VARIABLE [U8 LANE_DISALLOWED, Txt laneId, U8 TYPE_STRINGLIST, Txts disallowedClasses]"

section \<open>Traffic lights\<close>

definition Trafficlight_setState :: "'c traci_ci \<Rightarrow> string \<Rightarrow> string \<Rightarrow> 'c \<Rightarrow> 'c res" where
  "Trafficlight_setState C trafficLightId state =
     set_command C CMD_SET_TL_VARIABLE [U8 TL_RED_YELLOW_GREEN_STATE, Txt trafficLightId, U8 TYPE_STRING, Txt state]"

definition Trafficlight_setPhaseDuration :: "'c traci_ci \<Rightarrow> string \<Rightarrow> simtime \<Rightarrow> 'c \<Rightarrow> 'c res" where
  "Trafficlight_setPhaseDuration C trafficLightId duration =
     set_command C CMD_SET_TL_VARIABLE [U8 TL_PHASE_DURATION, Txt trafficLightId, U8 (vc_timeType (ci_version C)), Tim duration]"

definition Trafficlight_setProgram :: "'c traci_ci \<Rightarrow> string \<Rightarrow> string \<Rightarrow> 'c \<Rightarrow> 'c res" where
  "Trafficlight_setProgram C trafficLightId program =
     set_command C CMD_SET_TL_VARIABLE [U8 TL_PROGRAM, Txt trafficLightId, U8 TYPE_STRING, Txt program]"

definition Trafficlight_setPhaseIndex :: "'c traci_ci \<Rightarrow> string \<Rightarrow> 32 word \<Rightarrow> 'c \<Rightarrow> 'c res" where
  "Trafficlight_setPhaseIndex C trafficLightId index =
     set_command C CMD_SET_TL_VARIABLE [U8 TL_PHASE_INDEX, Txt trafficLightId, U8 TYPE_INTEGER, U32 index]"

section \<open>Polygons and points\<close>

fun corner_items :: "(64 word \<times> 64 word) list \<Rightarrow> wire_item list" where
  "corner_items [] = []"
| "corner_items (p # ps) = [U64 (fst p), U64 (snd p)] @ corner_items ps"

text \<open>The number of points is one byte.\<close>

definition Polygon_setShape :: "'c traci_ci \<Rightarrow> string \<Rightarrow> Coord list \<Rightarrow> 'c \<Rightarrow> 'c res" where
  "Polygon_setShape C polyId points c =
     rbind (map_res (ci_omnet2traci C) points) (\<lambda>ps.
     set_command C CMD_SET_POLYGON_VARIABLE
       ([U8 VAR_SHAPE, Txt polyId, U8 TYPE_POLYGON, U8 (word_of_nat (length points))] @ corner_items ps) c)"

text \<open>\<open>writeByteOrFull\<close> of the number of points: a byte, or a byte 0 and four bytes.\<close>

definition byte_or_full :: "32 word \<Rightarrow> wire_item list" where
  "byte_or_full w = (if unat w < 256 then [U8 (ucast w)] else [U8 0, U32 w])"

definition addPolygon ::
    "'c traci_ci \<Rightarrow> string \<Rightarrow> string \<Rightarrow> byte \<times> byte \<times> byte \<times> byte \<Rightarrow> bool \<Rightarrow> 32 word \<Rightarrow> Coord list \<Rightarrow> 'c \<Rightarrow> 'c res" where
  "addPolygon C polyId polyType color filled layer points c =
     rbind (map_res (ci_omnet2traci C) points) (\<lambda>ps.
     set_command C CMD_SET_POLYGON_VARIABLE
       ([U8 ADD, Txt polyId, U8 TYPE_COMPOUND, U32 5, U8 TYPE_STRING, Txt polyType] @ color_items color @
        [U8 TYPE_UBYTE, U8 (of_bool filled), U8 TYPE_INTEGER, U32 layer, U8 TYPE_POLYGON] @
        byte_or_full (word_of_nat (length points)) @ corner_items ps) c)"

definition Polygon_remove :: "'c traci_ci \<Rightarrow> string \<Rightarrow> 32 word \<Rightarrow> 'c \<Rightarrow> 'c res" where
  "Polygon_remove C polyId layer = set_command C CMD_SET_POLYGON_VARIABLE [U8 REMOVE, Txt polyId, U8 TYPE_INTEGER, U32 layer]"

definition addPoi ::
    "'c traci_ci \<Rightarrow> string \<Rightarrow> string \<Rightarrow> byte \<times> byte \<times> byte \<times> byte \<Rightarrow> 32 word \<Rightarrow> Coord \<Rightarrow> 'c \<Rightarrow> 'c res" where
  "addPoi C poiId poiType color layer position c =
     rbind (ci_omnet2traci C position) (\<lambda>pos.
     set_command C CMD_SET_POI_VARIABLE
       ([U8 ADD, Txt poiId, U8 TYPE_COMPOUND, U32 4, U8 TYPE_STRING, Txt poiType] @ color_items color @
        [U8 TYPE_INTEGER, U32 layer, Pos pos]) c)"

definition Poi_remove :: "'c traci_ci \<Rightarrow> string \<Rightarrow> 32 word \<Rightarrow> 'c \<Rightarrow> 'c res" where
  "Poi_remove C poiId layer = set_command C CMD_SET_POI_VARIABLE [U8 REMOVE, Txt poiId, U8 TYPE_INTEGER, U32 layer]"

section \<open>The graphical user interface\<close>

definition gui_command :: "'c traci_ci \<Rightarrow> (unit \<Rightarrow> 'c res) \<Rightarrow> 'c \<Rightarrow> 'c res" where
  "gui_command C send c = (if ci_ignoreGui C then Inr c else send ())"

definition GuiView_setScheme :: "'c traci_ci \<Rightarrow> string \<Rightarrow> string \<Rightarrow> 'c \<Rightarrow> 'c res" where
  "GuiView_setScheme C viewId name c =
     gui_command C (\<lambda>_. set_command C CMD_SET_GUI_VARIABLE [U8 VAR_VIEW_SCHEMA, Txt viewId, U8 TYPE_STRING, Txt name] c) c"

definition GuiView_setZoom :: "'c traci_ci \<Rightarrow> string \<Rightarrow> 64 word \<Rightarrow> 'c \<Rightarrow> 'c res" where
  "GuiView_setZoom C viewId zoom c =
     gui_command C (\<lambda>_. set_command C CMD_SET_GUI_VARIABLE [U8 VAR_VIEW_ZOOM, Txt viewId, U8 TYPE_DOUBLE, U64 zoom] c) c"

definition GuiView_setBoundary :: "'c traci_ci \<Rightarrow> string \<Rightarrow> Coord \<Rightarrow> Coord \<Rightarrow> 'c \<Rightarrow> 'c res" where
  "GuiView_setBoundary C viewId corner1 corner2 c =
     gui_command C (\<lambda>_.
       rbind (ci_omnet2traci C corner1) (\<lambda>p1. rbind (ci_omnet2traci C corner2) (\<lambda>p2.
       set_command C CMD_SET_GUI_VARIABLE
         ([U8 VAR_VIEW_BOUNDARY, Txt viewId] @
          (if vc_netBoundaryType (ci_version C) = TYPE_POLYGON then [U8 TYPE_POLYGON, U8 2] else [U8 TYPE_BOUNDINGBOX]) @
          corner_items [p1, p2]) c))) c"

text \<open>\<open>default_name\<close> is the file name built from the results directory, the run and the time.\<close>

definition GuiView_takeScreenshot ::
    "'c traci_ci \<Rightarrow> string \<Rightarrow> string \<Rightarrow> string \<Rightarrow> 32 word \<Rightarrow> 32 word \<Rightarrow> 'c \<Rightarrow> 'c res" where
  "GuiView_takeScreenshot C default_name viewId filename width height c =
     gui_command C (\<lambda>_.
       let filename = (if filename = [] then default_name else filename);
           apiVersion = vc_version (ci_version C)
       in if apiVersion \<in> {15, 16, 17} then
            set_command C CMD_SET_GUI_VARIABLE
              [U8 VAR_SCREENSHOT, Txt viewId, U8 TYPE_COMPOUND, U32 3, U8 TYPE_STRING, Txt filename,
               U8 TYPE_INTEGER, U32 width, U8 TYPE_INTEGER, U32 height] c
          else if apiVersion \<in> {18, 19, 20} then
            set_command C CMD_SET_GUI_VARIABLE [U8 VAR_SCREENSHOT, Txt viewId, U8 TYPE_STRING, Txt filename] c
          else throwr ''Invalid API version used, check your code.'') c"

definition GuiView_trackVehicle :: "'c traci_ci \<Rightarrow> string \<Rightarrow> string \<Rightarrow> 'c \<Rightarrow> 'c res" where
  "GuiView_trackVehicle C viewId vehicleId c =
     gui_command C (\<lambda>_. set_command C CMD_SET_GUI_VARIABLE [U8 VAR_TRACK_VEHICLE, Txt viewId, U8 TYPE_STRING, Txt vehicleId] c) c"

end
