(* ===== verification/SV_TraCI_Lights.thy ===== *)
theory SV_TraCI_Lights
  imports SV_TraCI_Setters
begin

text \<open>
  Traffic lights: \<open>TraCITrafficLightProgram\<close> with its logics and phases, and the commands that read and write
  programs and read the controlled links. A loop up to a signed number runs \<open>nat (sint n)\<close> times. The member
  \<open>parameter\<close> of a logic has no initial value; what it holds then is an argument.
\<close>

section \<open>Programs\<close>

record phase =
  ph_duration :: simtime
  ph_state :: string
  ph_minDuration :: simtime
  ph_maxDuration :: simtime
  ph_next :: "32 word list"
  ph_name :: string

record logic =
  lg_id :: string
  lg_currentPhase :: "32 word"
  lg_phases :: "phase list"
  lg_type :: "32 word"
  lg_parameter :: "32 word"

record tl_program =
  tp_id :: string
  tp_logics :: "(string, logic) std_map"

definition isGreenPhase :: "phase \<Rightarrow> bool" where
  "isGreenPhase p \<longleftrightarrow>
     list_ex (\<lambda>x. x = CHR ''g'' \<or> x = CHR ''G'') (ph_state p) \<and> \<not> list_ex (\<lambda>x. x = CHR ''y'' \<or> x = CHR ''Y'') (ph_state p)"

definition new_program :: "string \<Rightarrow> tl_program" where
  "new_program name = \<lparr>tp_id = name, tp_logics = []\<rparr>"

definition addLogic :: "logic \<Rightarrow> tl_program \<Rightarrow> tl_program" where
  "addLogic l p = p\<lparr>tp_logics := sm_insert (lg_id l) l (sm_erase (lg_id l) (tp_logics p))\<rparr>"

definition getLogic :: "tl_program \<Rightarrow> string \<Rightarrow> logic res" where
  "getLogic p lid = (case sm_find (tp_logics p) lid of None \<Rightarrow> Inl OutOfRange | Some l \<Rightarrow> Inr l)"

definition hasLogic :: "tl_program \<Rightarrow> string \<Rightarrow> bool" where
  "hasLogic p lid \<longleftrightarrow> sm_find (tp_logics p) lid \<noteq> None"

section \<open>Reading\<close>

fun read_times :: "'a reader \<Rightarrow> nat \<Rightarrow> 'a list reader" where
  "read_times r 0 b = Inr ([], b)"
| "read_times r (Suc n) b = rbind (r b) (\<lambda>(x, b). rbind (read_times r n b) (\<lambda>(xs, b). Inr (x # xs, b)))"

definition loops :: "32 word \<Rightarrow> nat" where
  "loops n = nat (sint n)"

record link =
  lk_incoming :: string
  lk_outgoing :: string
  lk_internal :: string

definition read_link :: "bool \<Rightarrow> link reader" where
  "read_link h b =
     rbind (read_word h b) (\<lambda>(stringCount :: 32 word, b).
     rbind (assertr (stringCount = 3) ''stringCount == 3'') (\<lambda>_.
     rbind (read_string h b) (\<lambda>(incoming, b).
     rbind (read_string h b) (\<lambda>(outgoing, b).
     rbind (read_string h b) (\<lambda>(internal, b).
     Inr (\<lparr>lk_incoming = incoming, lk_outgoing = outgoing, lk_internal = internal\<rparr>, b))))))"

text \<open>The type of the lists of strings is read once for a signal.\<close>

definition read_signal :: "bool \<Rightarrow> link list reader" where
  "read_signal h b =
     rbind (readTypeChecked h read_word TYPE_INTEGER b) (\<lambda>(nrOfLinks, b).
     rbind (expect_type h TYPE_STRINGLIST b) (\<lambda>b. read_times (read_link h) (loops nrOfLinks) b))"

definition tl_request :: "'c traci_ci \<Rightarrow> byte \<Rightarrow> string \<Rightarrow> 'c \<Rightarrow> (tbuf \<times> 'c) res" where
  "tl_request C variableId objectId c =
     rbind (query (ci_host C) (ci_link C) CMD_GET_TL_VARIABLE (put_items C [U8 variableId, Txt objectId]) c) (\<lambda>(buf, c).
     rbind (answer_header (ci_host C) RESPONSE_GET_TL_VARIABLE variableId objectId buf) (\<lambda>buf. Inr (buf, c)))"

definition Trafficlight_getControlledLinks :: "'c traci_ci \<Rightarrow> string \<Rightarrow> 'c \<Rightarrow> (link list list \<times> 'c) res" where
  "Trafficlight_getControlledLinks C trafficLightId c =
     (let h = ci_host C in
      rbind (tl_request C TL_CONTROLLED_LINKS trafficLightId c) (\<lambda>(buf, c).
      rbind (expect_type h TYPE_COMPOUND buf) (\<lambda>buf.
      rbind (read_word h buf) (\<lambda>(compoundSize :: 32 word, buf).
      rbind (readTypeChecked h read_word TYPE_INTEGER buf) (\<lambda>(nrOfSignals, buf).
      rbind (read_times (read_signal h) (loops nrOfSignals) buf) (\<lambda>(controlledLinks, buf). Inr (controlledLinks, c)))))))"

definition read_tl_time :: "'c traci_ci \<Rightarrow> simtime reader" where
  "read_tl_time C =
     readTypeChecked (ci_host C) (\<lambda>h. read_time (ci_time C) h (ci_timeAsDouble C)) (vc_timeType (ci_version C))"

text \<open>Versions 15 to 18.\<close>

definition read_phase :: "'c traci_ci \<Rightarrow> phase reader" where
  "read_phase C b =
     rbind (read_tl_time C b) (\<lambda>(duration, b).
     rbind (read_tl_time C b) (\<lambda>(minDuration, b).
     rbind (read_tl_time C b) (\<lambda>(maxDuration, b).
     rbind (readTypeChecked (ci_host C) read_string TYPE_STRING b) (\<lambda>(state, b).
     Inr (\<lparr>ph_duration = duration, ph_state = state, ph_minDuration = minDuration, ph_maxDuration = maxDuration,
           ph_next = [], ph_name = []\<rparr>, b)))))"

definition read_logic :: "'c traci_ci \<Rightarrow> logic reader" where
  "read_logic C b =
     (let h = ci_host C in
      rbind (readTypeChecked h read_string TYPE_STRING b) (\<lambda>(id, b).
      rbind (readTypeChecked h read_word TYPE_INTEGER b) (\<lambda>(type, b).
      rbind (readTypeChecked h read_word TYPE_COMPOUND b) (\<lambda>(parameter, b).
      rbind (readTypeChecked h read_word TYPE_INTEGER b) (\<lambda>(currentPhase, b).
      rbind (readTypeChecked h read_word TYPE_INTEGER b) (\<lambda>(nrOfPhases, b).
      rbind (read_times (read_phase C) (loops nrOfPhases) b) (\<lambda>(phases, b).
      Inr (\<lparr>lg_id = id, lg_currentPhase = currentPhase, lg_phases = phases, lg_type = type, lg_parameter = parameter\<rparr>, b))))))))"

text \<open>Versions 19 and 20.\<close>

definition read_next :: "'c traci_ci \<Rightarrow> 32 word list reader" where
  "read_next C b =
     (let h = ci_host C in
      if vc_version (ci_version C) \<le> 19
      then rbind (readTypeChecked h read_word TYPE_INTEGER b) (\<lambda>(n, b). Inr ([n], b))
      else rbind (readTypeChecked h read_word TYPE_COMPOUND b) (\<lambda>(nextCount, b).
           read_times (readTypeChecked h read_word TYPE_INTEGER) (loops nextCount) b))"

definition read_name :: "'c traci_ci \<Rightarrow> string reader" where
  "read_name C b =
     (if vc_version (ci_version C) = 20 then readTypeChecked (ci_host C) read_string TYPE_STRING b else Inr ([], b))"

definition phase_components :: "nat \<Rightarrow> 32 word" where
  "phase_components apiVersion = (if apiVersion = 19 then 5 else 6)"

definition read_phase_19 :: "'c traci_ci \<Rightarrow> phase reader" where
  "read_phase_19 C b =
     (let h = ci_host C in
      rbind (readTypeChecked h read_word TYPE_COMPOUND b) (\<lambda>(nrOfComps, b).
      rbind (assertr (nrOfComps = phase_components (vc_version (ci_version C))) ''nrOfComps'') (\<lambda>_.
      rbind (read_tl_time C b) (\<lambda>(duration, b).
      rbind (readTypeChecked h read_string TYPE_STRING b) (\<lambda>(state, b).
      rbind (read_tl_time C b) (\<lambda>(minDuration, b).
      rbind (read_tl_time C b) (\<lambda>(maxDuration, b).
      rbind (read_next C b) (\<lambda>(nexts, b).
      rbind (read_name C b) (\<lambda>(name, b).
      Inr (\<lparr>ph_duration = duration, ph_state = state, ph_minDuration = minDuration, ph_maxDuration = maxDuration,
            ph_next = nexts, ph_name = name\<rparr>, b))))))))))"

text \<open>A subparameter is read as two strings behind the type of a list, without the number of its strings.\<close>

definition skip_subparameter :: "bool \<Rightarrow> unit reader" where
  "skip_subparameter h b =
     rbind (expect_type h TYPE_STRINGLIST b) (\<lambda>b.
     rbind (read_string h b) (\<lambda>(s1, b). rbind (read_string h b) (\<lambda>(s2, b). Inr ((), b))))"

definition read_logic_19 :: "'c traci_ci \<Rightarrow> 32 word \<Rightarrow> logic reader" where
  "read_logic_19 C stack b =
     (let h = ci_host C in
      rbind (readTypeChecked h read_word TYPE_COMPOUND b) (\<lambda>(nrOfComps :: 32 word, b).
      rbind (assertr (nrOfComps = 5) ''nrOfComps == 5'') (\<lambda>_.
      rbind (readTypeChecked h read_string TYPE_STRING b) (\<lambda>(id, b).
      rbind (readTypeChecked h read_word TYPE_INTEGER b) (\<lambda>(type, b).
      rbind (readTypeChecked h read_word TYPE_INTEGER b) (\<lambda>(currentPhase, b).
      rbind (readTypeChecked h read_word TYPE_COMPOUND b) (\<lambda>(nrOfPhases, b).
      rbind (read_times (read_phase_19 C) (loops nrOfPhases) b) (\<lambda>(phases, b).
      rbind (readTypeChecked h read_word TYPE_COMPOUND b) (\<lambda>(nrOfSubpars, b).
      rbind (read_times (skip_subparameter h) (loops nrOfSubpars) b) (\<lambda>(_, b).
      Inr (\<lparr>lg_id = id, lg_currentPhase = currentPhase, lg_phases = phases, lg_type = type, lg_parameter = stack\<rparr>, b)))))))))))"

text \<open>Nothing is said of bytes behind the last logic.\<close>

definition Trafficlight_getProgramDefinition :: "'c traci_ci \<Rightarrow> 32 word \<Rightarrow> string \<Rightarrow> 'c \<Rightarrow> (tl_program \<times> 'c) res" where
  "Trafficlight_getProgramDefinition C stack trafficLightId c =
     (let h = ci_host C; apiVersion = vc_version (ci_version C);
          program = new_program trafficLightId in
      if apiVersion \<in> {15, 16, 17, 18} then
        rbind (tl_request C TL_COMPLETE_DEFINITION_RYG trafficLightId c) (\<lambda>(buf, c).
        rbind (expect_type h TYPE_COMPOUND buf) (\<lambda>buf.
        rbind (read_word h buf) (\<lambda>(compoundSize :: 32 word, buf).
        rbind (readTypeChecked h read_word TYPE_INTEGER buf) (\<lambda>(nrOfLogics, buf).
        rbind (read_times (read_logic C) (loops nrOfLogics) buf) (\<lambda>(ls, buf). Inr (fold addLogic ls program, c))))))
      else if apiVersion \<in> {19, 20} then
        rbind (tl_request C TL_COMPLETE_DEFINITION_RYG trafficLightId c) (\<lambda>(buf, c).
        rbind (readTypeChecked h read_word TYPE_COMPOUND buf) (\<lambda>(nrOfLogics, buf).
        rbind (read_times (read_logic_19 C stack) (loops nrOfLogics) buf) (\<lambda>(ls, buf). Inr (fold addLogic ls program, c))))
      else throwr ''Invalid API version used, check your code.'')"

section \<open>Writing\<close>

definition tl_time :: "'c traci_ci \<Rightarrow> simtime \<Rightarrow> wire_item list" where
  "tl_time C t = [U8 (vc_timeType (ci_version C)), Tim t]"

definition phase_items :: "'c traci_ci \<Rightarrow> phase \<Rightarrow> wire_item list" where
  "phase_items C p =
     tl_time C (ph_duration p) @ tl_time C (ph_minDuration p) @ tl_time C (ph_maxDuration p) @ [U8 TYPE_STRING, Txt (ph_state p)]"

definition logic_items :: "'c traci_ci \<Rightarrow> logic \<Rightarrow> wire_item list" where
  "logic_items C l =
     [U8 TYPE_STRING, Txt (lg_id l), U8 TYPE_INTEGER, U32 (lg_type l), U8 TYPE_COMPOUND, U32 (lg_parameter l),
      U8 TYPE_INTEGER, U32 (lg_currentPhase l), U8 TYPE_INTEGER, U32 (word_of_nat (length (lg_phases l)))] @
     concat (map (phase_items C) (lg_phases l))"

definition next_items :: "'c traci_ci \<Rightarrow> 32 word list \<Rightarrow> wire_item list res" where
  "next_items C ns =
     (if vc_version (ci_version C) \<le> 19 then
        (case ns of
           [] \<Rightarrow> Inr [U8 TYPE_INTEGER, U32 0]
         | [n] \<Rightarrow> Inr [U8 TYPE_INTEGER, U32 n]
         | _ \<Rightarrow> throwr ''Setting multiple phase.next requires a newer version of SUMO'')
      else Inr ([U8 TYPE_COMPOUND, U32 (word_of_nat (length ns))] @ concat (map (\<lambda>n. [U8 TYPE_INTEGER, U32 n]) ns)))"

definition phase_items_19 :: "'c traci_ci \<Rightarrow> phase \<Rightarrow> wire_item list res" where
  "phase_items_19 C p =
     (let apiVersion = vc_version (ci_version C) in
      rbind (next_items C (ph_next p)) (\<lambda>ns.
      Inr ([U8 TYPE_COMPOUND, U32 (phase_components apiVersion)] @ tl_time C (ph_duration p) @ [U8 TYPE_STRING, Txt (ph_state p)] @
           tl_time C (ph_minDuration p) @ tl_time C (ph_maxDuration p) @ ns @
           (if apiVersion = 20 then [U8 TYPE_STRING, Txt (ph_name p)] else []))))"

definition logic_items_19 :: "'c traci_ci \<Rightarrow> logic \<Rightarrow> wire_item list res" where
  "logic_items_19 C l =
     rbind (map_res (phase_items_19 C) (lg_phases l)) (\<lambda>ps.
     Inr ([U8 TYPE_COMPOUND, U32 5, U8 TYPE_STRING, Txt (lg_id l), U8 TYPE_INTEGER, U32 (lg_type l),
           U8 TYPE_INTEGER, U32 (lg_currentPhase l), U8 TYPE_COMPOUND, U32 (word_of_nat (length (lg_phases l)))] @
          concat ps @ [U8 TYPE_COMPOUND, U32 0]))"

definition Trafficlight_setProgramDefinition :: "'c traci_ci \<Rightarrow> string \<Rightarrow> logic \<Rightarrow> 32 word \<Rightarrow> 'c \<Rightarrow> 'c res" where
  "Trafficlight_setProgramDefinition C trafficLightId l logicNr c =
     (let apiVersion = vc_version (ci_version C) in
      rbind (if apiVersion \<in> {15, 16, 17, 18} then Inr ([U8 TYPE_COMPOUND, U32 logicNr] @ logic_items C l)
             else if apiVersion \<in> {19, 20} then logic_items_19 C l
             else throwr ''Invalid API version used, check your code.'') (\<lambda>xs.
      set_command C CMD_SET_TL_VARIABLE ([U8 TL_COMPLETE_PROGRAM_RYG, Txt trafficLightId] @ xs) c))"

end
