(* ===== verification/SV_TraCI_Answers.thy ===== *)
theory SV_TraCI_Answers
  imports SV_TraCI_Lights
begin

text \<open>
  What the requests return: a reader as a relation between the bytes that remain and the value (exact in both directions),
  so that a request succeeds exactly for the well-formed answers about the variable and the object asked.
\<close>

section \<open>Buffers by what remains\<close>

definition rest_buf :: "byte list \<Rightarrow> byte list \<Rightarrow> tbuf" where
  "rest_buf pre bs = \<lparr>bf_buf = pre @ bs, bf_index = length pre\<rparr>"

lemma tbuf_of_rest: "tbuf_of bs = rest_buf [] bs"
  by (simp add: tbuf_of_def rest_buf_def)

lemma eof_rest [simp]: "eof (rest_buf pre bs) \<longleftrightarrow> bs = []"
  by (simp add: eof_def rest_buf_def)

lemma at_rest: "at_bytes (rest_buf pre bs) bs"
  by (simp add: at_bytes_def rest_buf_def)

lemma reads_rest: "reads r bs x \<Longrightarrow> r (rest_buf pre (bs @ rest)) = Inr (x, rest_buf (pre @ bs) rest)"
  using readsD [OF _ at_rest, of r bs x pre rest] by (simp add: rest_buf_def)

lemma next_byte_rest: "next_byte (rest_buf pre bs) = (case bs of [] \<Rightarrow> throwr ''Attempted to read past end of byte buffer'' | x # rest \<Rightarrow> Inr (x, rest_buf (pre @ [x]) rest))"
  by (cases bs) (simp_all add: next_byte_def eof_def rest_buf_def)

lemma read_bytes_rest:
  "read_bytes n (rest_buf pre bs) = Inr (xs, b) \<longleftrightarrow>
     (\<exists>rest. bs = xs @ rest \<and> length xs = n \<and> b = rest_buf (pre @ xs) rest)"
proof (induction n arbitrary: pre bs xs)
  case (Suc n)
  show ?case
  proof (cases bs)
    case (Cons y ys)
    show ?thesis
      by (cases xs) (auto simp: Cons next_byte_rest rbind_Inr_iff Suc.IH)
  qed (auto simp: next_byte_rest rbind_Inr_iff)
qed auto

lemma byte_of_sum: "(word_of_nat (unat x + 256 * n) :: byte) = x"
proof -
  have "unat (word_of_nat (unat x + 256 * n) :: byte) = unat x"
    using unsigned_less [where 'a = nat, of x] by (simp add: unat_of_nat del: of_nat_add of_nat_mult)
  then show ?thesis by (simp only: word_unat_eq_iff)
qed

lemma le_bytes_value: "le_bytes (length bs) (le_value bs) = bs"
proof (induction bs)
  case (Cons x bs)
  have "(unat x + 256 * le_value bs) div 256 = le_value bs"
    using unsigned_less [where 'a = nat, of x] by simp
  moreover have "(word_of_nat (unat x + 256 * le_value bs) :: byte) = x"
    by (rule byte_of_sum)
  ultimately show ?case using Cons by simp
qed simp

lemma le_value_less: "le_value bs < 256 ^ length bs"
proof (induction bs)
  case (Cons x bs)
  have "unat x < 256" using unsigned_less [where 'a = nat, of x] by simp
  with Cons show ?case by simp
qed simp

section \<open>Exact readers\<close>

text \<open>A type of the protocol whose reader accepts nothing but the encodings of the values it returns.\<close>

locale exact_type =
  fixes get :: "'a reader" and encode :: "'a \<Rightarrow> byte list" and valid :: "'a \<Rightarrow> bool"
  assumes get_iff: "get (rest_buf pre bs) = Inr (x, b) \<longleftrightarrow>
    (\<exists>rest. bs = encode x @ rest \<and> valid x \<and> b = rest_buf (pre @ encode x) rest)"
begin

lemma get_enc: "valid x \<Longrightarrow> get (rest_buf pre (encode x @ rest)) = Inr (x, rest_buf (pre @ encode x) rest)"
  by (auto simp: get_iff)

lemma get_all: "(\<exists>b. get (rest_buf pre bs) = Inr (x, b) \<and> eof b) \<longleftrightarrow> bs = encode x \<and> valid x"
  by (auto simp: get_iff)

end

lemma word_exact: "LENGTH('w::len) mod 8 = 0 \<Longrightarrow> exact_type (read_word h :: 'w word reader) word_bytes (\<lambda>_. True)"
proof
  fix pre bs b and x :: "'w word"
  assume m: "LENGTH('w) mod 8 = 0"
  let ?n = "LENGTH('w) div 8"
  have inverse: "word_bytes (word_of_nat (mem_value h (if h then ys else rev ys)) :: 'w word) = ys" if "length ys = ?n" for ys
  proof -
    have "8 * ?n = LENGTH('w)" using m mult_div_mod_eq [of 8 "LENGTH('w)"] by linarith
    moreover have "(256 :: nat) ^ ?n = 2 ^ (8 * ?n)" by (simp add: power_mult)
    ultimately have "(256 :: nat) ^ ?n = 2 ^ LENGTH('w)" by simp
    then have "unat (word_of_nat (le_value (rev ys)) :: 'w word) = le_value (rev ys)"
      using le_value_less [of "rev ys"] that by (simp add: unat_of_nat)
    then show ?thesis using le_bytes_value [of "rev ys"] that by (simp add: word_bytes_def mem_value_def)
  qed
  show "read_word h (rest_buf pre bs) = Inr (x, b) \<longleftrightarrow>
      (\<exists>rest. bs = word_bytes x @ rest \<and> True \<and> b = rest_buf (pre @ word_bytes x) rest)"
  proof
    assume "read_word h (rest_buf pre bs) = Inr (x, b)"
    then obtain ys rest where "bs = ys @ rest" "length ys = ?n" "b = rest_buf (pre @ ys) rest"
        "x = word_of_nat (mem_value h (if h then ys else rev ys))"
      by (auto simp: read_word_def readBuffer_def rbind_Inr_iff read_bytes_rest)
    then show "\<exists>rest. bs = word_bytes x @ rest \<and> True \<and> b = rest_buf (pre @ word_bytes x) rest"
      using inverse [of ys] by (intro exI [of _ rest]) simp
  next
    assume "\<exists>rest. bs = word_bytes x @ rest \<and> True \<and> b = rest_buf (pre @ word_bytes x) rest"
    then show "read_word h (rest_buf pre bs) = Inr (x, b)" using reads_rest [OF reads_word [OF m]] by auto
  qed
qed

interpretation xb: exact_type "read_word h :: byte reader" "\<lambda>w. [w]" "\<lambda>_. True" for h
proof -
  have "word_bytes = (\<lambda>w :: byte. [w])" by (simp add: fun_eq_iff)
  then show "exact_type (read_word h :: byte reader) (\<lambda>w. [w]) (\<lambda>_. True)" using word_exact [where 'w = 8, of h] by simp
qed

interpretation xi: exact_type "read_word h :: 32 word reader" word_bytes "\<lambda>_. True" for h
  by (rule word_exact) simp

interpretation xd: exact_type "read_word h :: 64 word reader" word_bytes "\<lambda>_. True" for h
  by (rule word_exact) simp

lemma read_chars_iff:
  "read_chars h n (rest_buf pre bs) = Inr (s, b) \<longleftrightarrow>
     (\<exists>rest. bs = map char_byte s @ rest \<and> length s = n \<and> b = rest_buf (pre @ map char_byte s) rest)"
proof (induction n arbitrary: pre bs s)
  case (Suc n)
  have char: "char_byte (char_of (unat x)) = x" for x
    using unsigned_less [where 'a = nat, of x] by (simp add: char_byte_def)
  have "read_chars h (Suc n) (rest_buf pre bs) = Inr (s, b) \<longleftrightarrow>
      (\<exists>x rest cs. bs = x # rest \<and> read_chars h n (rest_buf (pre @ [x]) rest) = Inr (cs, b) \<and> s = char_of (unat x) # cs)"
    by (auto simp: rbind_Inr_iff xb.get_iff)
  also have "\<dots> \<longleftrightarrow> (\<exists>x rest' cs. bs = x # map char_byte cs @ rest' \<and> length cs = n \<and> b = rest_buf (pre @ x # map char_byte cs) rest' \<and> s = char_of (unat x) # cs)"
    by (auto simp: Suc.IH)
  also have "\<dots> \<longleftrightarrow> (\<exists>rest. bs = map char_byte s @ rest \<and> length s = Suc n \<and> b = rest_buf (pre @ map char_byte s) rest)"
    by (cases s) (auto simp: char byte_char)
  finally show ?case .
qed auto

interpretation xs: exact_type "read_string h" string_bytes short for h
proof
  fix pre bs s b
  show "read_string h (rest_buf pre bs) = Inr (s, b) \<longleftrightarrow>
      (\<exists>rest. bs = string_bytes s @ rest \<and> short s \<and> b = rest_buf (pre @ string_bytes s) rest)"
  proof
    assume "read_string h (rest_buf pre bs) = Inr (s, b)"
    then obtain w rest where w: "bs = word_bytes (w :: 32 word) @ map char_byte s @ rest" "length s = unat w"
        "b = rest_buf (pre @ word_bytes w @ map char_byte s) rest"
      by (auto simp: read_string_def rbind_Inr_iff xi.get_iff read_chars_iff split: if_splits)
    have "short s" using w(2) unsigned_less [where 'a = nat, of w] by (simp add: short_def)
    moreover have "word_of_nat (length s) = w" using w(2) by simp
    ultimately show "\<exists>rest. bs = string_bytes s @ rest \<and> short s \<and> b = rest_buf (pre @ string_bytes s) rest"
      using w by (auto simp: string_bytes_def short_def)
  next
    assume "\<exists>rest. bs = string_bytes s @ rest \<and> short s \<and> b = rest_buf (pre @ string_bytes s) rest"
    then show "read_string h (rest_buf pre bs) = Inr (s, b)" using reads_rest [OF str.get_encode] by auto
  qed
qed

section \<open>Answers\<close>

text \<open>The length in front of an answer: one byte that is not zero, or zero and four bytes.\<close>

definition length_field :: "byte list \<Rightarrow> bool" where
  "length_field len \<longleftrightarrow> (\<exists>l. l \<noteq> 0 \<and> len = [l]) \<or> (\<exists>w :: 32 word. len = 0 # word_bytes w)"

definition ok_status :: "byte \<Rightarrow> byte list \<Rightarrow> bool" where
  "ok_status commandId bs \<longleftrightarrow> (\<exists>l description. short description \<and> bs = status_bytes l commandId RTYPE_OK description)"

text \<open>An answer about a variable of an object, with a value of a type.\<close>

definition value_answer :: "byte \<Rightarrow> byte \<Rightarrow> byte \<Rightarrow> string \<Rightarrow> byte list \<Rightarrow> byte list \<Rightarrow> bool" where
  "value_answer commandId responseId variableId objectId typed_value answer \<longleftrightarrow>
     (\<exists>status len. ok_status commandId status \<and> length_field len \<and> short objectId \<and>
        answer = status @ len @ [responseId, variableId] @ string_bytes objectId @ typed_value)"

lemma expect_iff:
  "expect_type h t (rest_buf pre bs) = Inr b \<longleftrightarrow> (\<exists>rest. bs = t # rest \<and> b = rest_buf (pre @ [t]) rest)"
  by (auto simp: expect_type_def rbind_Inr_iff xb.get_iff)

lemma read_length_iff:
  "read_length h (rest_buf pre bs) = Inr b \<longleftrightarrow> (\<exists>len rest. length_field len \<and> bs = len @ rest \<and> b = rest_buf (pre @ len) rest)"
  by (auto simp: read_length_def length_field_def rbind_Inr_iff xb.get_iff xi.get_iff split: if_splits)

lemma expect_enc [simp]: "expect_type h t (rest_buf pre (t # rest)) = Inr (rest_buf (pre @ [t]) rest)"
  by (simp add: expect_iff)

lemma read_length_enc: "length_field len \<Longrightarrow> read_length h (rest_buf pre (len @ rest)) = Inr (rest_buf (pre @ len) rest)"
  by (auto simp: read_length_iff)

lemma answer_header_iff:
  "answer_header h responseId variableId objectId (rest_buf pre bs) = Inr b \<longleftrightarrow>
     (\<exists>len rest. length_field len \<and> short objectId \<and> bs = len @ [responseId, variableId] @ string_bytes objectId @ rest \<and>
        b = rest_buf (pre @ len @ [responseId, variableId] @ string_bytes objectId) rest)"
    (is "?l \<longleftrightarrow> ?r")
proof
  assume ?l
  then show ?r by (clarsimp simp: answer_header_def rbind_Inr_iff read_length_iff expect_iff xs.get_iff) blast
next
  assume ?r
  then show ?l by (clarsimp simp: answer_header_def read_length_enc xs.get_enc)
qed

lemma query_status_iff:
  "query_status h commandId (rest_buf pre bs) = Inr (r, b) \<longleftrightarrow>
     (\<exists>l code description rest. short description \<and> bs = status_bytes l commandId code description @ rest \<and>
        b = rest_buf (pre @ status_bytes l commandId code description) rest \<and>
        r = \<lparr>rs_success = (code = RTYPE_OK), rs_not_impl = (code = RTYPE_NOTIMPLEMENTED), rs_message = description\<rparr>)"
    (is "?l \<longleftrightarrow> ?r")
proof
  assume ?l
  then show ?r by (clarsimp simp: query_status_def rbind_Inr_iff xb.get_iff xs.get_iff status_bytes_def) blast
next
  assume ?r
  then show ?l by (clarsimp simp: query_status_def xb.get_iff xs.get_enc status_bytes_def rbind_Inr_iff)
qed

lemma query_iff:
  "query h link commandId buf c = Inr (b, c') \<longleftrightarrow>
     (\<exists>status rest. link (makeTraCICommand h commandId (bf_buf buf)) c = Inr (status @ rest, c') \<and> ok_status commandId status \<and>
        b = rest_buf status rest)"
    (is "?l \<longleftrightarrow> ?r")
proof
  have codes: "RTYPE_OK \<noteq> RTYPE_NOTIMPLEMENTED" by (simp add: RTYPE_OK_def RTYPE_NOTIMPLEMENTED_def)
  {
    assume ?l
    then show ?r
      by (clarsimp simp: query_def query_result_def tbuf_of_rest rbind_Inr_iff query_status_iff ok_status_def split: if_splits) blast
  next
    assume ?r
    then obtain l description rest where 1: "short description" "b = rest_buf (status_bytes l commandId RTYPE_OK description) rest"
        "link (makeTraCICommand h commandId (bf_buf buf)) c = Inr (status_bytes l commandId RTYPE_OK description @ rest, c')"
      by (auto simp: ok_status_def)
    have "query_status h commandId (tbuf_of (status_bytes l commandId RTYPE_OK description @ rest)) =
        Inr (\<lparr>rs_success = True, rs_not_impl = False, rs_message = description\<rparr>, b)"
      using 1 codes by (auto simp: tbuf_of_rest query_status_iff)
    then show ?l using 1 by (simp add: query_def query_result_def)
  }
qed

text \<open>The command of a request.\<close>

definition request :: "'c traci_ci \<Rightarrow> byte \<Rightarrow> byte \<Rightarrow> string \<Rightarrow> byte list" where
  "request C commandId variableId objectId = makeTraCICommand (ci_host C) commandId (variableId # string_bytes objectId)"

lemma request_items: "bf_buf (put_items C [U8 variableId, Txt objectId]) = variableId # string_bytes objectId"
  by (simp add: put_items_def u8.put_eq str.put_eq tbuf_new_def)

context exact_type begin

lemma genericGet_iff:
  "genericGet C get resultTypeId commandId objectId variableId responseId c = Inr (x, c') \<longleftrightarrow>
     valid x \<and> (\<exists>answer. ci_link C (request C commandId variableId objectId) c = Inr (answer, c') \<and>
       value_answer commandId responseId variableId objectId (resultTypeId # encode x) answer)"
proof -
  let ?answer = "\<lambda>status len. status @ len @ [responseId, variableId] @ string_bytes objectId @ resultTypeId # encode x"
  let ?link = "\<lambda>answer. ci_link C (request C commandId variableId objectId) c = Inr (answer, c')"
  have "genericGet C get resultTypeId commandId objectId variableId responseId c = Inr (x, c') \<longleftrightarrow>
      (\<exists>status len. ok_status commandId status \<and> length_field len \<and> short objectId \<and> valid x \<and> ?link (?answer status len))"
    (is "?l \<longleftrightarrow> ?r")
  proof
    assume ?l
    then show ?r
      by (clarsimp simp: genericGet_def Let_def rbind_Inr_iff query_iff request_items answer_header_iff expect_iff get_iff request_def) blast
  next
    assume ?r
    then obtain status len where 1: "ok_status commandId status" "length_field len" "short objectId" "valid x"
        "?link (?answer status len)" by blast
    then have "query (ci_host C) (ci_link C) commandId (put_items C [U8 variableId, Txt objectId]) c =
        Inr (rest_buf status (len @ [responseId, variableId] @ string_bytes objectId @ resultTypeId # encode x), c')"
      by (auto simp: query_iff request_items request_def)
    moreover have "answer_header (ci_host C) responseId variableId objectId
          (rest_buf status (len @ [responseId, variableId] @ string_bytes objectId @ resultTypeId # encode x)) =
        Inr (rest_buf (status @ len @ [responseId, variableId] @ string_bytes objectId) (resultTypeId # encode x))"
      using 1 by (auto simp: answer_header_iff)
    ultimately show ?l using 1(4) get_enc [of x _ "[]"] by (simp add: genericGet_def Let_def)
  qed
  then show ?thesis by (auto simp: value_answer_def)
qed

end

section \<open>Compound types\<close>

definition strings_bytes :: "string list \<Rightarrow> byte list" where
  "strings_bytes ss = word_bytes (word_of_nat (length ss) :: 32 word) @ concat (map string_bytes ss)"

definition all_short :: "string list \<Rightarrow> bool" where
  "all_short ss \<longleftrightarrow> short ss \<and> list_all short ss"

lemma read_strings_iff:
  "read_strings h n (rest_buf pre bs) = Inr (ss, b) \<longleftrightarrow>
     (\<exists>rest. bs = concat (map string_bytes ss) @ rest \<and> length ss = n \<and> list_all short ss \<and>
        b = rest_buf (pre @ concat (map string_bytes ss)) rest)"
proof (induction n arbitrary: pre bs ss)
  case (Suc n)
  then show ?case by (cases ss) (auto simp: rbind_Inr_iff xs.get_iff)
qed auto

interpretation xl: exact_type "read_text_list h" strings_bytes all_short for h
proof
  fix pre bs b and ss :: "string list"
  have len: "word_of_nat (length ss) = w \<and> short ss \<longleftrightarrow> length ss = unat w" for w :: "32 word"
    using unsigned_less [where 'a = nat, of w] by (auto simp: short_def unat_of_nat)
  show "read_text_list h (rest_buf pre bs) = Inr (ss, b) \<longleftrightarrow>
      (\<exists>rest. bs = strings_bytes ss @ rest \<and> all_short ss \<and> b = rest_buf (pre @ strings_bytes ss) rest)"
    by (auto simp: read_text_list_def rbind_Inr_iff xi.get_iff read_strings_iff strings_bytes_def all_short_def len [symmetric])
qed

definition pair_bytes :: "64 word \<times> 64 word \<Rightarrow> byte list" where
  "pair_bytes p = word_bytes (fst p) @ word_bytes (snd p)"

interpretation xp: exact_type "read_pair h" pair_bytes "\<lambda>_. True" for h
  by unfold_locales (auto simp: read_pair_def rbind_Inr_iff xd.get_iff pair_bytes_def)

section \<open>Properties\<close>

text \<open>C18: A request for a variable returns a value exactly when the server, given the command with this variable and object, answers
  with success and with a well-formed answer that names the response, the same variable and the same object, has the
  type asked for and the value, and nothing behind it. So no answer about something else is ever taken, and every
  well-formed one is.\<close>

theorem getters_return_answers:
  "(genericGetDouble C cmd obj var resp c = Inr (x, c') \<longleftrightarrow>
       (\<exists>a. ci_link C (request C cmd var obj) c = Inr (a, c') \<and> value_answer cmd resp var obj (TYPE_DOUBLE # word_bytes x) a)) \<and>
    (genericGetInt C cmd obj var resp c = Inr (i, c') \<longleftrightarrow>
       (\<exists>a. ci_link C (request C cmd var obj) c = Inr (a, c') \<and> value_answer cmd resp var obj (TYPE_INTEGER # word_bytes i) a)) \<and>
    (genericGetUnsignedByte C cmd obj var resp c = Inr (u, c') \<longleftrightarrow>
       (\<exists>a. ci_link C (request C cmd var obj) c = Inr (a, c') \<and> value_answer cmd resp var obj [TYPE_UBYTE, u] a)) \<and>
    (genericGetText C cmd obj var resp c = Inr (s, c') \<longleftrightarrow>
       short s \<and> (\<exists>a. ci_link C (request C cmd var obj) c = Inr (a, c') \<and> value_answer cmd resp var obj (TYPE_STRING # string_bytes s) a)) \<and>
    (genericGetStringList C cmd obj var resp c = Inr (ss, c') \<longleftrightarrow>
       all_short ss \<and> (\<exists>a. ci_link C (request C cmd var obj) c = Inr (a, c') \<and> value_answer cmd resp var obj (TYPE_STRINGLIST # strings_bytes ss) a)) \<and>
    (genericGetCoord C cmd obj var resp c = Inr (p, c') \<longleftrightarrow>
       (\<exists>q a. ci_link C (request C cmd var obj) c = Inr (a, c') \<and> value_answer cmd resp var obj (POSITION_2D # pair_bytes q) a \<and>
          ci_traci2omnet C q = Inr p))"
proof (intro conjI)
  show "genericGetDouble C cmd obj var resp c = Inr (x, c') \<longleftrightarrow>
       (\<exists>a. ci_link C (request C cmd var obj) c = Inr (a, c') \<and> value_answer cmd resp var obj (TYPE_DOUBLE # word_bytes x) a)"
    by (simp add: genericGetDouble_def xd.genericGet_iff)
  show "genericGetInt C cmd obj var resp c = Inr (i, c') \<longleftrightarrow>
       (\<exists>a. ci_link C (request C cmd var obj) c = Inr (a, c') \<and> value_answer cmd resp var obj (TYPE_INTEGER # word_bytes i) a)"
    by (simp add: genericGetInt_def xi.genericGet_iff)
  show "genericGetUnsignedByte C cmd obj var resp c = Inr (u, c') \<longleftrightarrow>
       (\<exists>a. ci_link C (request C cmd var obj) c = Inr (a, c') \<and> value_answer cmd resp var obj [TYPE_UBYTE, u] a)"
    by (simp add: genericGetUnsignedByte_def xb.genericGet_iff)
  show "genericGetText C cmd obj var resp c = Inr (s, c') \<longleftrightarrow>
       short s \<and> (\<exists>a. ci_link C (request C cmd var obj) c = Inr (a, c') \<and> value_answer cmd resp var obj (TYPE_STRING # string_bytes s) a)"
    by (simp add: genericGetText_def xs.genericGet_iff)
  show "genericGetStringList C cmd obj var resp c = Inr (ss, c') \<longleftrightarrow>
       all_short ss \<and> (\<exists>a. ci_link C (request C cmd var obj) c = Inr (a, c') \<and> value_answer cmd resp var obj (TYPE_STRINGLIST # strings_bytes ss) a)"
    by (simp add: genericGetStringList_def xl.genericGet_iff)
  show "genericGetCoord C cmd obj var resp c = Inr (p, c') \<longleftrightarrow>
       (\<exists>q a. ci_link C (request C cmd var obj) c = Inr (a, c') \<and> value_answer cmd resp var obj (POSITION_2D # pair_bytes q) a \<and>
          ci_traci2omnet C q = Inr p)"
    by (auto simp: genericGetCoord_def rbind_Inr_iff xp.genericGet_iff)
qed

end
