(* ===== verification/SV_TraCI_Peer.thy ===== *)
theory SV_TraCI_Peer
  imports SV_TraCI_Answers
begin

text \<open>
  The commands as the peer sees them: typed values, a reader for them that knows only the protocol, and for each command
  the value that this reader finds in the message. A command succeeds exactly when the server answers that message with
  success and nothing else.
\<close>

section \<open>Typed values\<close>

datatype tvalue =
    VInt "32 word" | VDouble "64 word" | VByte byte | VUByte byte | VText string | VTexts "string list"
  | VColor byte byte byte byte | VPosition "64 word \<times> 64 word" | VCompound "tvalue list"

fun value_bytes :: "tvalue \<Rightarrow> byte list" where
  "value_bytes (VInt w) = TYPE_INTEGER # word_bytes w"
| "value_bytes (VDouble w) = TYPE_DOUBLE # word_bytes w"
| "value_bytes (VByte w) = [TYPE_BYTE, w]"
| "value_bytes (VUByte w) = [TYPE_UBYTE, w]"
| "value_bytes (VText s) = TYPE_STRING # string_bytes s"
| "value_bytes (VTexts ss) = TYPE_STRINGLIST # strings_bytes ss"
| "value_bytes (VColor r g b a) = [TYPE_COLOR, r, g, b, a]"
| "value_bytes (VPosition p) = POSITION_2D # pair_bytes p"
| "value_bytes (VCompound vs) =
     TYPE_COMPOUND # word_bytes (word_of_nat (length vs) :: 32 word) @ concat (map value_bytes vs)"

text \<open>The reader, for compounds nested up to a depth.\<close>

fun parse_value :: "nat \<Rightarrow> bool \<Rightarrow> tvalue reader" where
  "parse_value 0 h b = Inl NoReturn"
| "parse_value (Suc depth) h b =
     rbind (read_word h b) (\<lambda>(type :: byte, b).
     if type = TYPE_INTEGER then rbind (read_word h b) (\<lambda>(w, b). Inr (VInt w, b))
     else if type = TYPE_DOUBLE then rbind (read_word h b) (\<lambda>(w, b). Inr (VDouble w, b))
     else if type = TYPE_BYTE then rbind (read_word h b) (\<lambda>(w, b). Inr (VByte w, b))
     else if type = TYPE_UBYTE then rbind (read_word h b) (\<lambda>(w, b). Inr (VUByte w, b))
     else if type = TYPE_STRING then rbind (read_string h b) (\<lambda>(s, b). Inr (VText s, b))
     else if type = TYPE_STRINGLIST then rbind (read_text_list h b) (\<lambda>(ss, b). Inr (VTexts ss, b))
     else if type = TYPE_COLOR then
       rbind (read_word h b) (\<lambda>(red, b). rbind (read_word h b) (\<lambda>(green, b).
       rbind (read_word h b) (\<lambda>(blue, b). rbind (read_word h b) (\<lambda>(alpha, b). Inr (VColor red green blue alpha, b)))))
     else if type = POSITION_2D then rbind (read_pair h b) (\<lambda>(p, b). Inr (VPosition p, b))
     else if type = TYPE_COMPOUND then
       rbind (read_word h b) (\<lambda>(n :: 32 word, b).
       rbind (read_times (parse_value depth h) (unat n) b) (\<lambda>(vs, b). Inr (VCompound vs, b)))
     else throwr ''unknown type'')"

fun depth_of :: "tvalue \<Rightarrow> nat" where
  "depth_of (VCompound vs) = Suc (fold max (map depth_of vs) 0)"
| "depth_of v = 0"

fun value_ok :: "tvalue \<Rightarrow> bool" where
  "value_ok (VText s) = short s"
| "value_ok (VTexts ss) = all_short ss"
| "value_ok (VCompound vs) = (short vs \<and> list_all value_ok vs)"
| "value_ok v = True"

lemma max_fold: "x \<in> set xs \<Longrightarrow> x \<le> fold max xs (a :: nat)"
proof (induction xs arbitrary: a)
  case (Cons y ys)
  have "b \<le> fold max ys b" for b by (induction ys arbitrary: b) (auto intro: order_trans [OF max.cobounded2])
  then have "y \<le> fold max ys (max y a)" by (meson max.cobounded1 order_trans)
  with Cons show ?case by auto
qed simp

lemma read_times_rest:
  assumes "\<And>x pre rest. x \<in> set xs \<Longrightarrow> r (rest_buf pre (enc x @ rest)) = Inr (f x, rest_buf (pre @ enc x) rest)"
  shows "read_times r (length xs) (rest_buf pre (concat (map enc xs) @ rest)) =
    Inr (map f xs, rest_buf (pre @ concat (map enc xs)) rest)"
  using assms by (induction xs arbitrary: pre) simp_all

lemmas wire_reads = xb.get_enc [simplified] xi.get_enc [OF TrueI] xd.get_enc [OF TrueI] xs.get_enc xl.get_enc xp.get_enc [OF TrueI]

lemma types_differ:
  "TYPE_DOUBLE \<noteq> TYPE_INTEGER" "TYPE_BYTE \<notin> {TYPE_INTEGER, TYPE_DOUBLE}" "TYPE_UBYTE \<notin> {TYPE_INTEGER, TYPE_DOUBLE, TYPE_BYTE}"
  "TYPE_STRING \<notin> {TYPE_INTEGER, TYPE_DOUBLE, TYPE_BYTE, TYPE_UBYTE}"
  "TYPE_STRINGLIST \<notin> {TYPE_INTEGER, TYPE_DOUBLE, TYPE_BYTE, TYPE_UBYTE, TYPE_STRING}"
  "TYPE_COLOR \<notin> {TYPE_INTEGER, TYPE_DOUBLE, TYPE_BYTE, TYPE_UBYTE, TYPE_STRING, TYPE_STRINGLIST}"
  "POSITION_2D \<notin> {TYPE_INTEGER, TYPE_DOUBLE, TYPE_BYTE, TYPE_UBYTE, TYPE_STRING, TYPE_STRINGLIST, TYPE_COLOR}"
  "TYPE_COMPOUND \<notin> {TYPE_INTEGER, TYPE_DOUBLE, TYPE_BYTE, TYPE_UBYTE, TYPE_STRING, TYPE_STRINGLIST, TYPE_COLOR, POSITION_2D}"
  by (simp_all add: traci_constants traci_types)

lemmas type_cases = types_differ [simplified]

lemma parse_value_bytes:
  "value_ok v \<Longrightarrow> depth_of v < n \<Longrightarrow>
    parse_value n h (rest_buf pre (value_bytes v @ rest)) = Inr (v, rest_buf (pre @ value_bytes v) rest)"
proof (induction v arbitrary: n pre rest)
  case (VCompound vs)
  then obtain m where n: "n = Suc m" and fm: "fold max (map depth_of vs) 0 < m" by (cases n) auto
  have m: "depth_of v < m" if "v \<in> set vs" for v
    using max_fold [of "depth_of v" "map depth_of vs" 0] that fm by simp
  have len: "unat (word_of_nat (length vs) :: 32 word) = length vs"
    using VCompound.prems(1) by (simp add: short_def unat_of_nat)
  have "read_times (parse_value m h) (length vs) (rest_buf p (concat (map value_bytes vs) @ rest)) =
      Inr (map (\<lambda>v. v) vs, rest_buf (p @ concat (map value_bytes vs)) rest)" for p
    using VCompound.IH VCompound.prems(1) m by (intro read_times_rest) (auto simp: list_all_iff)
  then show ?case by (simp add: n wire_reads len type_cases)
qed (auto simp: wire_reads gr0_conv_Suc type_cases)

section \<open>Messages\<close>

fun wire_bytes :: "'c traci_ci \<Rightarrow> wire_item \<Rightarrow> byte list" where
  "wire_bytes C (U8 w) = [w]"
| "wire_bytes C (U32 w) = word_bytes w"
| "wire_bytes C (U64 w) = word_bytes w"
| "wire_bytes C (Txt s) = string_bytes s"
| "wire_bytes C (Txts ss) = strings_bytes ss"
| "wire_bytes C (Tim t) = time_bytes (ci_time C) (ci_timeAsDouble C) t"
| "wire_bytes C (Pos p) = POSITION_2D # pair_bytes p"

lemma put_item_bytes: "put_item C x b = b\<lparr>bf_buf := bf_buf b @ wire_bytes C x\<rparr>"
  by (cases x) (simp_all add: u8.put_eq u32.put_eq u64.put_eq str.put_eq time.put_eq coord.put_eq pair_bytes_def
      write_string_list_def write_strings_eq strings_bytes_def)

lemma put_items_bytes: "bf_buf (put_items C xs) = concat (map (wire_bytes C) xs)"
proof -
  have "bf_buf (foldl (\<lambda>b x. put_item C x b) b xs) = bf_buf b @ concat (map (wire_bytes C) xs)" for b
    by (induction xs arbitrary: b) (simp_all add: put_item_bytes)
  then show ?thesis by (simp add: put_items_def tbuf_new_def)
qed

definition message :: "'c traci_ci \<Rightarrow> byte \<Rightarrow> wire_item list \<Rightarrow> byte list" where
  "message C commandId xs = makeTraCICommand (ci_host C) commandId (concat (map (wire_bytes C) xs))"

lemma set_command_iff:
  "set_command C commandId xs c = Inr c' \<longleftrightarrow>
     (\<exists>answer. ci_link C (message C commandId xs) c = Inr (answer, c') \<and> ok_status commandId answer)"
    (is "?l \<longleftrightarrow> ?r")
proof
  assume ?l
  then show ?r by (auto simp: set_command_def rbind_Inr_iff query_iff put_items_bytes message_def)
next
  assume ?r
  then obtain answer where 1: "ci_link C (message C commandId xs) c = Inr (answer, c')" "ok_status commandId answer" by blast
  then have "query (ci_host C) (ci_link C) commandId (put_items C xs) c = Inr (rest_buf answer [], c')"
    by (simp add: query_iff put_items_bytes message_def) (metis append_Nil2)
  then show ?l by (simp add: set_command_def)
qed

text \<open>What a peer finds in a message: one command, the variable, the object and one value.\<close>

definition peer_reads :: "bool \<Rightarrow> byte list \<Rightarrow> (byte \<times> byte \<times> string \<times> tvalue) option" where
  "peer_reads h msg =
     (case parse_command msg of
        Some (commandId, body, []) \<Rightarrow>
          (case rbind (read_word h (tbuf_of body)) (\<lambda>(var :: byte, b).
                rbind (read_string h b) (\<lambda>(obj, b).
                rbind (parse_value 3 h b) (\<lambda>(v, b).
                rbind (assertr (eof b) ''end'') (\<lambda>_. Inr (var, obj, v)))))
           of Inr (var, obj, v) \<Rightarrow> Some (commandId, var, obj, v) | Inl _ \<Rightarrow> None)
      | _ \<Rightarrow> None)"

text \<open>
  A command that sends a value: when the value fits into the length fields of 32 bits, every host reads it, and the answer
  decides.
\<close>

definition fits :: "string \<Rightarrow> tvalue \<Rightarrow> bool" where
  "fits obj v \<longleftrightarrow> value_ok v \<and> short obj \<and> length obj + length (value_bytes v) + 11 < 2 ^ 32"

definition sends :: "'c traci_ci \<Rightarrow> byte \<Rightarrow> byte \<Rightarrow> string \<Rightarrow> tvalue \<Rightarrow> ('c \<Rightarrow> 'c res) \<Rightarrow> bool" where
  "sends C commandId var obj v f \<longleftrightarrow>
     (fits obj v \<longrightarrow> (\<exists>msg. (\<forall>h. peer_reads h msg = Some (commandId, var, obj, v)) \<and>
        (\<forall>c c'. f c = Inr c' \<longleftrightarrow> (\<exists>answer. ci_link C msg c = Inr (answer, c') \<and> ok_status commandId answer))))"

lemma peer_reads_message:
  assumes "concat (map (wire_bytes C) xs) = value_bytes v" and "depth_of v < 3" and "fits obj v"
  shows "peer_reads h (message C commandId ([U8 var, Txt obj] @ xs)) = Some (commandId, var, obj, v)"
proof -
  let ?body = "var # string_bytes obj @ value_bytes v"
  have ok: "value_ok v" "short obj" "length obj + length (value_bytes v) + 11 < 2 ^ 32" using assms(3) by (auto simp: fits_def)
  have "length (string_bytes obj) \<le> 4 + length obj" by (simp add: string_bytes_def)
  then have "parse_command (makeTraCICommand (ci_host C) commandId ?body) = Some (commandId, ?body, [])"
    using parse_makeTraCICommand [of ?body "ci_host C" commandId "[]"] ok(3) by simp
  moreover have "read_word h (tbuf_of ?body) = Inr (var, rest_buf [var] (string_bytes obj @ value_bytes v))"
    by (simp add: tbuf_of_rest wire_reads)
  moreover have "parse_value 3 h (rest_buf pre (value_bytes v)) = Inr (v, rest_buf (pre @ value_bytes v) [])" for pre
    using parse_value_bytes [OF ok(1) assms(2), of h pre "[]"] by simp
  ultimately show ?thesis
    using assms(1) ok(2) by (simp add: peer_reads_def message_def wire_reads)
qed

lemma sendsI:
  assumes "f = set_command C commandId (U8 var # Txt obj # xs)"
    and "concat (map (wire_bytes C) xs) = value_bytes v" and "depth_of v < 3"
  shows "sends C commandId var obj v f"
  unfolding sends_def
proof
  assume "fits obj v"
  then have "peer_reads h (message C commandId ([U8 var, Txt obj] @ xs)) = Some (commandId, var, obj, v)" for h
    by (rule peer_reads_message [OF assms(2,3)])
  then show "\<exists>msg. (\<forall>h. peer_reads h msg = Some (commandId, var, obj, v)) \<and>
      (\<forall>c c'. f c = Inr c' \<longleftrightarrow> (\<exists>answer. ci_link C msg c = Inr (answer, c') \<and> ok_status commandId answer))"
    using set_command_iff [of C commandId "[U8 var, Txt obj] @ xs"] unfolding assms(1) append.simps by blast
qed

definition time_value :: "'c traci_ci \<Rightarrow> simtime \<Rightarrow> tvalue" where
  "time_value C t =
     (if ci_timeAsDouble C then VDouble (tm_dbl (ci_time C) t) else VInt (word_of_int (t div SIMTIME_MS)))"

text \<open>What \<open>setApiVersion\<close> establishes: the type that is written is the one of the buffers.\<close>

definition time_agrees :: "'c traci_ci \<Rightarrow> bool" where
  "time_agrees C \<longleftrightarrow> vc_timeType (ci_version C) = (if ci_timeAsDouble C then TYPE_DOUBLE else TYPE_INTEGER)"

lemma time_items: "time_agrees C \<Longrightarrow> vc_timeType (ci_version C) # time_bytes (ci_time C) (ci_timeAsDouble C) t = value_bytes (time_value C t)"
  by (simp add: time_agrees_def time_value_def time_bytes_def)

lemma depth_time [simp]: "depth_of (time_value C t) = 0"
  by (simp add: time_value_def)

lemmas command_defs = vehicle_command_def Vehicle_setSpeedMode_def Vehicle_setSpeed_def Vehicle_setMaxSpeed_def Vehicle_setColor_def
  Vehicle_slowDown_def Vehicle_newRoute_def Vehicle_changeTarget_def Vehicle_stopAt_def Vehicle_setParameter_def
  setVehicleTypeMaxSpeed_def genericSetDouble_def addRoute_def Lane_setDisallowed_def Trafficlight_setState_def
  Trafficlight_setPhaseDuration_def Trafficlight_setProgram_def Trafficlight_setPhaseIndex_def Polygon_remove_def Poi_remove_def

section \<open>Properties\<close>

lemma vehicle_commands_sent:
  assumes t: "time_agrees C"
  shows "sends C CMD_SET_VEHICLE_VARIABLE VAR_SPEEDSETMODE v (VInt i) (Vehicle_setSpeedMode C v i) \<and>
    sends C CMD_SET_VEHICLE_VARIABLE VAR_SPEED v (VDouble x) (Vehicle_setSpeed C v x) \<and>
    sends C CMD_SET_VEHICLE_VARIABLE VAR_MAXSPEED v (VDouble x) (Vehicle_setMaxSpeed C v x) \<and>
    sends C CMD_SET_VEHICLE_VARIABLE VAR_COLOR v (VColor r g bl a) (Vehicle_setColor C v (r, g, bl, a)) \<and>
    sends C CMD_SET_VEHICLE_VARIABLE CMD_SLOWDOWN v (VCompound [VDouble x, time_value C d]) (Vehicle_slowDown C v x d) \<and>
    sends C CMD_SET_VEHICLE_VARIABLE LANE_EDGE_ID v (VText s) (Vehicle_newRoute C v s) \<and>
    sends C CMD_SET_VEHICLE_VARIABLE CMD_CHANGETARGET v (VText s) (Vehicle_changeTarget C v s) \<and>
    sends C CMD_SET_VEHICLE_VARIABLE CMD_STOP v (VCompound [VText s, VDouble x, VByte lane, time_value C d]) (Vehicle_stopAt C v s x lane radius d) \<and>
    sends C CMD_SET_VEHICLE_VARIABLE VAR_PARAMETER v (VCompound [VText p, VText s]) (Vehicle_setParameter C v p s)"
  by (intro conjI; (rule sendsI, simp only: command_defs append.simps color_items.simps,
      simp add: time_items [OF t, symmetric] strings_bytes_def o_def, simp?))

lemma object_commands_sent:
  assumes t: "time_agrees C"
  shows "sends C CMD_SET_VEHICLETYPE_VARIABLE VAR_MAXSPEED v (VDouble x) (setVehicleTypeMaxSpeed C v x) \<and>
    sends C CMD_SET_ROUTE_VARIABLE ADD v (VTexts ss) (addRoute C v ss) \<and>
    sends C CMD_SET_LANE_VARIABLE LANE_DISALLOWED v (VTexts ss) (Lane_setDisallowed C v ss) \<and>
    sends C CMD_SET_TL_VARIABLE TL_RED_YELLOW_GREEN_STATE v (VText s) (Trafficlight_setState C v s) \<and>
    sends C CMD_SET_TL_VARIABLE TL_PHASE_DURATION v (time_value C d) (Trafficlight_setPhaseDuration C v d) \<and>
    sends C CMD_SET_TL_VARIABLE TL_PROGRAM v (VText s) (Trafficlight_setProgram C v s) \<and>
    sends C CMD_SET_TL_VARIABLE TL_PHASE_INDEX v (VInt i) (Trafficlight_setPhaseIndex C v i) \<and>
    sends C CMD_SET_POLYGON_VARIABLE REMOVE v (VInt i) (Polygon_remove C v i) \<and>
    sends C CMD_SET_POI_VARIABLE REMOVE v (VInt i) (Poi_remove C v i)"
  by (intro conjI; (rule sendsI, simp only: command_defs append.simps color_items.simps,
      simp add: time_items [OF t, symmetric] strings_bytes_def o_def, simp?))

lemma addPoi_sent:
  assumes "ci_transformation C = Some T"
  shows "sends C CMD_SET_POI_VARIABLE ADD v
    (VCompound [VText s, VColor r g bl a, VInt i, VPosition (ci_bits C (tx (omnet2traci T p)), ci_bits C (ty (omnet2traci T p)))])
    (addPoi C v s (r, g, bl, a) i p)"
proof -
  have "addPoi C v s (r, g, bl, a) i p = set_command C CMD_SET_POI_VARIABLE
      (U8 ADD # Txt v # [U8 TYPE_COMPOUND, U32 4, U8 TYPE_STRING, Txt s, U8 TYPE_COLOR, U8 r, U8 g, U8 bl, U8 a,
         U8 TYPE_INTEGER, U32 i, Pos (ci_bits C (tx (omnet2traci T p)), ci_bits C (ty (omnet2traci T p)))])"
    by (simp add: addPoi_def fun_eq_iff ci_omnet2traci_def assms Let_def)
  from sendsI [OF this] show ?thesis by simp
qed

text \<open>C19: Every command about a vehicle, a vehicle type, a route, a lane, a traffic light, a polygon or a point sends one message in
  which a peer of any byte order finds exactly one command, the variable, the object and the value that were meant, with
  its type, and nothing else; it succeeds exactly when the server answers that message with success and nothing more.
  Times go out in the type that the version of the interface prescribes.\<close>

theorem commands_reach_peer:
  assumes "time_agrees C" and "ci_transformation C = Some T"
  shows "sends C CMD_SET_VEHICLE_VARIABLE VAR_SPEEDSETMODE v (VInt i) (Vehicle_setSpeedMode C v i) \<and>
    sends C CMD_SET_VEHICLE_VARIABLE VAR_SPEED v (VDouble x) (Vehicle_setSpeed C v x) \<and>
    sends C CMD_SET_VEHICLE_VARIABLE VAR_MAXSPEED v (VDouble x) (Vehicle_setMaxSpeed C v x) \<and>
    sends C CMD_SET_VEHICLE_VARIABLE VAR_COLOR v (VColor r g bl a) (Vehicle_setColor C v (r, g, bl, a)) \<and>
    sends C CMD_SET_VEHICLE_VARIABLE CMD_SLOWDOWN v (VCompound [VDouble x, time_value C d]) (Vehicle_slowDown C v x d) \<and>
    sends C CMD_SET_VEHICLE_VARIABLE LANE_EDGE_ID v (VText s) (Vehicle_newRoute C v s) \<and>
    sends C CMD_SET_VEHICLE_VARIABLE CMD_CHANGETARGET v (VText s) (Vehicle_changeTarget C v s) \<and>
    sends C CMD_SET_VEHICLE_VARIABLE CMD_STOP v (VCompound [VText s, VDouble x, VByte lane, time_value C d]) (Vehicle_stopAt C v s x lane radius d) \<and>
    sends C CMD_SET_VEHICLE_VARIABLE VAR_PARAMETER v (VCompound [VText p, VText s]) (Vehicle_setParameter C v p s) \<and>
    sends C CMD_SET_VEHICLETYPE_VARIABLE VAR_MAXSPEED v (VDouble x) (setVehicleTypeMaxSpeed C v x) \<and>
    sends C CMD_SET_ROUTE_VARIABLE ADD v (VTexts ss) (addRoute C v ss) \<and>
    sends C CMD_SET_LANE_VARIABLE LANE_DISALLOWED v (VTexts ss) (Lane_setDisallowed C v ss) \<and>
    sends C CMD_SET_TL_VARIABLE TL_RED_YELLOW_GREEN_STATE v (VText s) (Trafficlight_setState C v s) \<and>
    sends C CMD_SET_TL_VARIABLE TL_PHASE_DURATION v (time_value C d) (Trafficlight_setPhaseDuration C v d) \<and>
    sends C CMD_SET_TL_VARIABLE TL_PROGRAM v (VText s) (Trafficlight_setProgram C v s) \<and>
    sends C CMD_SET_TL_VARIABLE TL_PHASE_INDEX v (VInt i) (Trafficlight_setPhaseIndex C v i) \<and>
    sends C CMD_SET_POLYGON_VARIABLE REMOVE v (VInt i) (Polygon_remove C v i) \<and>
    sends C CMD_SET_POI_VARIABLE REMOVE v (VInt i) (Poi_remove C v i) \<and>
    sends C CMD_SET_POI_VARIABLE ADD v
      (VCompound [VText s, VColor r g bl a, VInt i, VPosition (ci_bits C (tx (omnet2traci T pos)), ci_bits C (ty (omnet2traci T pos)))])
      (addPoi C v s (r, g, bl, a) i pos)"
  using vehicle_commands_sent [OF assms(1), of v i x r g bl a d s lane radius p] object_commands_sent [OF assms(1), of v x ss s d i]
    addPoi_sent [OF assms(2), of v s r g bl a i pos]
  by blast

end
