(* ===== verification/SV_TrafficLight.thy ===== *)
theory SV_TrafficLight
  imports SV_TraCI_Peer
begin

text \<open>
  \<open>TraCITrafficLightInterface\<close>, the module of a traffic light, and the logics beside it. The module keeps a copy of
  what the server says of the light: program, logic, phase, next switch, signal state. Its setters change the server
  when told so, read the value back and assert that it is the one set, and send a message to the logic when the copy
  changes. \<open>tl_command\<close> is the pointer to the commands for this light, with the identifier it was made for, and
  \<open>tl_sent\<close> the messages sent on the gate \<open>logic$o\<close>. The number of the current phase is the word that is stored.
  How OMNeT++ rounds times up is the parameter \<open>te_ceil\<close>.
\<close>

section \<open>State\<close>

datatype tl_attribute = LOGICID | PHASEID | SWITCHTIME | STATE | OtherAttribute

datatype tl_source = SUMO | LOGIC | RSU | UNKNOWN

record tl_message =
  tm_tlId :: string
  tm_changedAttribute :: tl_attribute
  tm_oldValue :: string
  tm_newValue :: string
  tm_changeSource :: tl_source

record tl_module =
  tl_preInitialized :: bool
  tl_updateInterval :: simtime
  tl_command :: "string option"
  tl_external_id :: string
  tl_position :: Coord
  tl_program :: tl_program
  tl_links :: "link list list"
  tl_currentLogicId :: string
  tl_currentPhaseNr :: "32 word"
  tl_nextSwitchTime :: simtime
  tl_currentSignalState :: string
  tl_online :: bool
  tl_sent :: "tl_message list"

record 'c tl_env =
  te_ci :: "'c traci_ci"
  te_ceil :: "simtime \<Rightarrow> simtime \<Rightarrow> simtime"   \<comment> \<open>\<open>ceil(x, unit)\<close>\<close>
  te_stack :: "32 word"

definition tl_new :: "tl_module" where
  "tl_new = \<lparr>tl_preInitialized = False, tl_updateInterval = 0, tl_command = None, tl_external_id = [],
     tl_position = mkCoord 0 0 0, tl_program = new_program [], tl_links = [], tl_currentLogicId = [],
     tl_currentPhaseNr = - 1, tl_nextSwitchTime = 0, tl_currentSignalState = [], tl_online = False, tl_sent = []\<rparr>"

definition tl_preInitialize :: "string \<Rightarrow> Coord \<Rightarrow> simtime \<Rightarrow> tl_module \<Rightarrow> tl_module" where
  "tl_preInitialize external_id position updateInterval m =
     m\<lparr>tl_preInitialized := True, tl_updateInterval := updateInterval, tl_external_id := external_id, tl_position := position\<rparr>"

definition tl_getExternalId :: "tl_module \<Rightarrow> string res" where
  "tl_getExternalId m =
     (if tl_external_id m = [] then throwr ''TraCITrafficLightInterface::tl_getExternalId called with no external_id set yet''
      else Inr (tl_external_id m))"

section \<open>The copy\<close>

definition getCurrentLogic :: "tl_module \<Rightarrow> logic res" where
  "getCurrentLogic m = getLogic (tl_program m) (tl_currentLogicId m)"

text \<open>The subscript of a vector is not checked in C++; outside it is an error here.\<close>

definition getCurrentPhase :: "tl_module \<Rightarrow> phase res" where
  "getCurrentPhase m =
     rbind (getCurrentLogic m) (\<lambda>l.
     let i = sint (tl_currentPhaseNr m)
     in if 0 \<le> i \<and> nat i < length (lg_phases l) then Inr (lg_phases l ! nat i) else Inl OutOfRange)"

definition getRemainingDuration :: "simtime \<Rightarrow> tl_module \<Rightarrow> simtime" where
  "getRemainingDuration now m = tl_nextSwitchTime m - now"

definition getCurrentState :: "tl_module \<Rightarrow> string res" where
  "getCurrentState m =
     (if tl_online m then Inr (tl_currentSignalState m) else rbind (getCurrentPhase m) (\<lambda>p. Inr (ph_state p)))"

section \<open>Messages to the logic\<close>

text \<open>\<open>c_str()\<close>, as a \<open>const char*\<close> is taken.\<close>

definition c_str :: "string \<Rightarrow> string" where
  "c_str s = takeWhile (\<lambda>x. x \<noteq> CHR 0x00) s"

definition sendChangeMsg :: "tl_attribute \<Rightarrow> string \<Rightarrow> string \<Rightarrow> tl_module \<Rightarrow> tl_module" where
  "sendChangeMsg changedAttribute newValue oldValue m =
     m\<lparr>tl_sent := tl_sent m @
        [\<lparr>tm_tlId = c_str (tl_external_id m), tm_changedAttribute = changedAttribute, tm_oldValue = c_str oldValue,
          tm_newValue = c_str newValue, tm_changeSource = SUMO\<rparr>]\<rparr>"

definition millis :: "simtime \<Rightarrow> string" where
  "millis t = print_int (t div SIMTIME_MS)"

section \<open>Changes\<close>

text \<open>\<open>getTlCommandInterface()\<close> makes the object on its first call; \<open>tlCommandInterface->\<close> uses the pointer as it is.\<close>

definition getTlCommandInterface :: "tl_module \<Rightarrow> string \<times> tl_module" where
  "getTlCommandInterface m =
     (case tl_command m of Some i \<Rightarrow> (i, m) | None \<Rightarrow> (tl_external_id m, m\<lparr>tl_command := Some (tl_external_id m)\<rparr>))"

definition tlCommandInterface :: "tl_module \<Rightarrow> string res" where
  "tlCommandInterface m = (case tl_command m of Some i \<Rightarrow> Inr i | None \<Rightarrow> Inl NullPointer)"

definition online :: string where
  "online = ''online''"

definition setCurrentLogicById :: "'c tl_env \<Rightarrow> string \<Rightarrow> bool \<Rightarrow> tl_module \<times> 'c \<Rightarrow> (tl_module \<times> 'c) res" where
  "setCurrentLogicById E logicId setSumo = (\<lambda>(m, c).
     rbind (if setSumo then
              rbind (assertr (logicId \<noteq> online) ''logicId != online'') (\<lambda>_.
              if \<not> hasLogic (tl_program m) logicId then throwr ''Logic not found in program of TraCITrafficLightInterface''
              else rbind (tlCommandInterface m) (\<lambda>i.
                   rbind (Trafficlight_setProgram (te_ci E) i logicId c) (\<lambda>c.
                   rbind (Trafficlight_getCurrentProgramID (te_ci E) i c) (\<lambda>(newValueInSumo, c).
                   rbind (assertr (newValueInSumo = logicId) ''newValueInSumo == logicId'') (\<lambda>_. Inr c)))))
            else Inr c) (\<lambda>c.
     let m = (if tl_currentLogicId m \<noteq> logicId \<or> (tl_online m \<and> logicId \<noteq> online)
              then sendChangeMsg LOGICID logicId (tl_currentLogicId m) m else m);
         m = (if logicId \<noteq> online then m\<lparr>tl_online := False, tl_currentLogicId := logicId\<rparr> else m)
     in Inr (m, c)))"

definition setCurrentPhaseByNr :: "'c tl_env \<Rightarrow> 32 word \<Rightarrow> bool \<Rightarrow> tl_module \<times> 'c \<Rightarrow> (tl_module \<times> 'c) res" where
  "setCurrentPhaseByNr E phaseNr setSumo = (\<lambda>(m, c).
     rbind (if setSumo then
              rbind (getCurrentLogic m) (\<lambda>l.
              if length (lg_phases l) \<le> unat phaseNr then throwr ''Cannot set current phase: current logic has only fewer Phases''
              else rbind (tlCommandInterface m) (\<lambda>i.
                   rbind (Trafficlight_setPhaseIndex (te_ci E) i phaseNr c) (\<lambda>c.
                   rbind (Trafficlight_getCurrentPhaseIndex (te_ci E) i c) (\<lambda>(newValueInSumo, c).
                   rbind (assertr (newValueInSumo = phaseNr) ''newValueInSumo == phaseNr'') (\<lambda>_. Inr c)))))
            else Inr c) (\<lambda>c.
     let m = (if tl_currentPhaseNr m \<noteq> phaseNr \<or> tl_online m
              then sendChangeMsg PHASEID (print_nat (unat phaseNr)) (print_int (sint (tl_currentPhaseNr m))) m else m)
     in Inr (m\<lparr>tl_online := False, tl_currentPhaseNr := phaseNr\<rparr>, c)))"

definition setCurrentState :: "'c tl_env \<Rightarrow> string \<Rightarrow> bool \<Rightarrow> tl_module \<times> 'c \<Rightarrow> (tl_module \<times> 'c) res" where
  "setCurrentState E state setSumo = (\<lambda>(m, c).
     rbind (if setSumo then
              rbind (tlCommandInterface m) (\<lambda>i.
              rbind (Trafficlight_setState (te_ci E) i state c) (\<lambda>c.
              rbind (Trafficlight_getCurrentState (te_ci E) i c) (\<lambda>(newValueInSumo, c).
              rbind (assertr (newValueInSumo = state) ''newValueInSumo == state'') (\<lambda>_. Inr c))))
            else Inr c) (\<lambda>c.
     let m = (if tl_currentSignalState m \<noteq> state then sendChangeMsg STATE state (tl_currentSignalState m) m else m)
     in Inr (m\<lparr>tl_online := True, tl_currentSignalState := state\<rparr>, c)))"

text \<open>The next switch, told to the server as the duration that remains.\<close>

definition store_switch :: "simtime \<Rightarrow> tl_module \<Rightarrow> tl_module" where
  "store_switch t m =
     (let m = (if tl_nextSwitchTime m \<noteq> t then sendChangeMsg SWITCHTIME (millis t) (millis (tl_nextSwitchTime m)) m else m)
      in m\<lparr>tl_nextSwitchTime := t\<rparr>)"

definition tell_duration :: "'c tl_env \<Rightarrow> simtime \<Rightarrow> simtime \<Rightarrow> tl_module \<times> 'c \<Rightarrow> (tl_module \<times> 'c) res" where
  "tell_duration E duration expected = (\<lambda>(m, c).
     let (i, m) = getTlCommandInterface m in
     rbind (Trafficlight_setPhaseDuration (te_ci E) i duration c) (\<lambda>c.
     rbind (Trafficlight_getAssumedNextSwitchTime (te_ci E) i c) (\<lambda>(newValueInSumo, c).
     rbind (assertr (newValueInSumo = expected) ''newValueInSumo == nextSwitch'') (\<lambda>_. Inr (m, c)))))"

definition setNextSwitch :: "'c tl_env \<Rightarrow> simtime \<Rightarrow> simtime \<Rightarrow> bool \<Rightarrow> tl_module \<times> 'c \<Rightarrow> (tl_module \<times> 'c) res" where
  "setNextSwitch E now newNextSwitch setSumo = (\<lambda>(m, c).
     let nextSwitch = te_ceil E newNextSwitch (tl_updateInterval m);
         remainingDuration = te_ceil E (nextSwitch - now) (tl_updateInterval m)
     in rbind (if setSumo then tell_duration E (if remainingDuration < 0 then 0 else remainingDuration) nextSwitch (m, c)
               else Inr (m, c)) (\<lambda>(m, c).
        Inr (store_switch nextSwitch m, c)))"

definition setRemainingDuration :: "'c tl_env \<Rightarrow> simtime \<Rightarrow> simtime \<Rightarrow> bool \<Rightarrow> tl_module \<times> 'c \<Rightarrow> (tl_module \<times> 'c) res" where
  "setRemainingDuration E now rawRemainingDuration setSumo = (\<lambda>(m, c).
     rbind (assertr (0 \<le> rawRemainingDuration) ''rawRemainingDuration >= 0'') (\<lambda>_.
     let sumoTimeNow = te_ceil E now (tl_updateInterval m) - tl_updateInterval m;
         roundedRemainingDuration = te_ceil E rawRemainingDuration (tl_updateInterval m);
         nextSwitchInVeins = sumoTimeNow + roundedRemainingDuration
     in rbind (if setSumo then tell_duration E roundedRemainingDuration nextSwitchInVeins (m, c) else Inr (m, c)) (\<lambda>(m, c).
        Inr (store_switch nextSwitchInVeins m, c))))"

section \<open>Life of the module\<close>

definition tl_initialize :: "'c tl_env \<Rightarrow> tl_module \<times> 'c \<Rightarrow> (tl_module \<times> 'c) res" where
  "tl_initialize E = (\<lambda>(m, c).
     rbind (assertr (tl_preInitialized m) ''isPreInitialized'') (\<lambda>_.
     let (i, m) = getTlCommandInterface (m\<lparr>tl_preInitialized := False\<rparr>); C = te_ci E in
     rbind (Trafficlight_getProgramDefinition C (te_stack E) i c) (\<lambda>(program, c).
     rbind (Trafficlight_getControlledLinks C i c) (\<lambda>(links, c).
     rbind (Trafficlight_getCurrentProgramID C i c) (\<lambda>(logicId, c).
     rbind (Trafficlight_getCurrentPhaseIndex C i c) (\<lambda>(phaseNr, c).
     rbind (Trafficlight_getAssumedNextSwitchTime C i c) (\<lambda>(nextSwitch, c).
     rbind (Trafficlight_getCurrentState C i c) (\<lambda>(state, c).
     Inr (m\<lparr>tl_program := program, tl_links := links, tl_currentLogicId := logicId, tl_currentPhaseNr := phaseNr,
            tl_nextSwitchTime := nextSwitch, tl_currentSignalState := state\<rparr>, c)))))))))"

text \<open>\<open>std::stoi\<close>\<close>

definition stoi :: "string \<Rightarrow> int res" where
  "stoi s =
     (let (neg, body) = take_sign (dropWhile c_isspace s);
          ds = takeWhile is_digit body;
          v = (if neg then - int (digits_value ds) else int (digits_value ds))
      in if ds = [] then Inl InvalidArgument else if - (2 ^ 31) \<le> v \<and> v < 2 ^ 31 then Inr v else Inl OutOfRange)"

definition handleChangeCommandMessage :: "'c tl_env \<Rightarrow> simtime \<Rightarrow> tl_message \<Rightarrow> tl_module \<times> 'c \<Rightarrow> (tl_module \<times> 'c) res" where
  "handleChangeCommandMessage E now msg mc =
     (case tm_changedAttribute msg of
        LOGICID \<Rightarrow> setCurrentLogicById E (tm_newValue msg) True mc
      | PHASEID \<Rightarrow> rbind (stoi (tm_newValue msg)) (\<lambda>i. setCurrentPhaseByNr E (word_of_int i) True mc)
      | SWITCHTIME \<Rightarrow> rbind (stoi (tm_newValue msg)) (\<lambda>i. setNextSwitch E now (i * SIMTIME_MS) True mc)
      | STATE \<Rightarrow> setCurrentState E (tm_newValue msg) True mc
      | OtherAttribute \<Rightarrow> Inr mc)"

datatype tl_arrival = SelfMessage | OnLogic tl_message | OnOtherGate

definition tl_handleMessage :: "'c tl_env \<Rightarrow> simtime \<Rightarrow> tl_arrival \<Rightarrow> tl_module \<times> 'c \<Rightarrow> (tl_module \<times> 'c) res" where
  "tl_handleMessage E now msg mc =
     (case msg of OnLogic tmMsg \<Rightarrow> handleChangeCommandMessage E now tmMsg mc | _ \<Rightarrow> Inr mc)"

section \<open>Logics\<close>

text \<open>
  \<open>TraCITrafficLightAbstractLogic\<close> with the empty handlers of \<open>TraCITrafficLightSimpleLogic\<close>: a change of the switch time
  schedules the timer for it, at once when it is past.
\<close>

datatype logic_arrival = OwnTimer | OnInterface tl_message | OnApplLayer | OnUnknownGate

definition logic_initialize :: "'k kernel_ops \<Rightarrow> 'k \<Rightarrow> nat \<times> 'k" where
  "logic_initialize K k = newMessage K k"

definition handlePossibleSwitch :: "'k \<Rightarrow> 'k" where
  "handlePossibleSwitch k = k"

definition handleTlIfMsg :: "tl_message \<Rightarrow> 'k \<Rightarrow> 'k" where
  "handleTlIfMsg msg k = k"

definition handleApplMsg :: "'k \<Rightarrow> 'k" where
  "handleApplMsg k = k"

definition logic_handleMessage :: "'k kernel_ops \<Rightarrow> nat \<Rightarrow> logic_arrival \<Rightarrow> 'k \<Rightarrow> 'k res" where
  "logic_handleMessage K switchTimer msg k =
     (case msg of
        OwnTimer \<Rightarrow> Inr (handlePossibleSwitch k)
      | OnInterface tlMsg \<Rightarrow>
          rbind (if tm_changedAttribute tlMsg = SWITCHTIME then
                   (let k = cancelEvent K switchTimer k in
                    rbind (stoi (tm_newValue tlMsg)) (\<lambda>i.
                    scheduleAt K (max (i * SIMTIME_MS) (simTime K k)) switchTimer k))
                 else Inr k) (\<lambda>k. Inr (handleTlIfMsg tlMsg k))
      | OnApplLayer \<Rightarrow> Inr (handleApplMsg k)
      | OnUnknownGate \<Rightarrow> throwr ''Unknown message arrived'')"

end
