(* ===== verification/SV_TraCI_Programs.thy ===== *)
theory SV_TraCI_Programs
  imports SV_TraCI_Peer
begin

text \<open>
  Programs of traffic lights survive the way to the server and back, as far as the version of the interface carries them.
\<close>

section \<open>What a version carries\<close>

definition carried_phase :: "nat \<Rightarrow> phase \<Rightarrow> phase" where
  "carried_phase apiVersion p =
     (if apiVersion \<le> 18 then p\<lparr>ph_next := [], ph_name := []\<rparr>
      else if apiVersion = 19 then p\<lparr>ph_next := (if ph_next p = [] then [0] else ph_next p), ph_name := []\<rparr>
      else p)"

definition carried_logic :: "nat \<Rightarrow> 32 word \<Rightarrow> logic \<Rightarrow> logic" where
  "carried_logic apiVersion stack l =
     l\<lparr>lg_phases := map (carried_phase apiVersion) (lg_phases l),
       lg_parameter := (if apiVersion \<le> 18 then lg_parameter l else stack)\<rparr>"

definition few :: "'a list \<Rightarrow> bool" where
  "few xs \<longleftrightarrow> length xs < 2 ^ 31"

definition phase_ok :: "'c traci_ci \<Rightarrow> phase \<Rightarrow> bool" where
  "phase_ok C p \<longleftrightarrow>
     (\<forall>t \<in> {ph_duration p, ph_minDuration p, ph_maxDuration p}. time_ok (ci_time C) (ci_timeAsDouble C) t) \<and>
     short (ph_state p) \<and> short (ph_name p) \<and> few (ph_next p)"

definition logic_ok :: "'c traci_ci \<Rightarrow> logic \<Rightarrow> bool" where
  "logic_ok C l \<longleftrightarrow> short (lg_id l) \<and> few (lg_phases l) \<and> list_all (phase_ok C) (lg_phases l)"

section \<open>Reading what is written\<close>

abbreviation bytes_of :: "'c traci_ci \<Rightarrow> wire_item list \<Rightarrow> byte list" where
  "bytes_of C xs \<equiv> concat (map (wire_bytes C) xs)"

lemma typed_rest [simp]: "readTypeChecked h r t (rest_buf pre (t # bs)) = r h (rest_buf (pre @ [t]) bs)"
  by (simp add: readTypeChecked_def wire_reads)

lemma tl_time_rest [simp]:
  "time_ok (ci_time C) (ci_timeAsDouble C) t \<Longrightarrow>
    read_tl_time C (rest_buf pre (vc_timeType (ci_version C) # time_bytes (ci_time C) (ci_timeAsDouble C) t @ rest)) =
      Inr (t, rest_buf (pre @ vc_timeType (ci_version C) # time_bytes (ci_time C) (ci_timeAsDouble C) t) rest)"
  using reads_rest [OF time.get_encode] by (simp add: read_tl_time_def)

lemma loops_few [simp]: "few xs \<Longrightarrow> loops (word_of_nat (length xs)) = length xs"
proof -
  assume "few xs"
  then have "sint (word_of_int (int (length xs)) :: 32 word) = int (length xs)"
    by (simp only: signed_of_int) (simp add: few_def signed_take_bit_int_eq_self)
  then show ?thesis by (simp add: loops_def)
qed

lemma bytes_of_concat: "bytes_of C (concat (map f xs)) = concat (map (\<lambda>x. bytes_of C (f x)) xs)"
  by (induction xs) simp_all

lemma phase_rest:
  "phase_ok C p \<Longrightarrow> vc_version (ci_version C) \<le> 18 \<Longrightarrow>
    read_phase C (rest_buf pre (bytes_of C (phase_items C p) @ rest)) =
      Inr (carried_phase (vc_version (ci_version C)) p, rest_buf (pre @ bytes_of C (phase_items C p)) rest)"
  by (simp add: read_phase_def phase_items_def tl_time_def phase_ok_def wire_reads carried_phase_def)

lemma logic_rest:
  assumes "logic_ok C l" and "vc_version (ci_version C) \<le> 18"
  shows "read_logic C (rest_buf pre (bytes_of C (logic_items C l) @ rest)) =
    Inr (carried_logic (vc_version (ci_version C)) stack l, rest_buf (pre @ bytes_of C (logic_items C l)) rest)"
proof -
  have "read_times (read_phase C) (length (lg_phases l)) (rest_buf q (concat (map (\<lambda>p. bytes_of C (phase_items C p)) (lg_phases l)) @ rest)) =
      Inr (map (carried_phase (vc_version (ci_version C))) (lg_phases l),
        rest_buf (q @ concat (map (\<lambda>p. bytes_of C (phase_items C p)) (lg_phases l))) rest)" for q
    using assms by (intro read_times_rest) (auto simp: phase_rest logic_ok_def list_all_iff)
  then show ?thesis
    using assms by (simp add: read_logic_def logic_items_def wire_reads logic_ok_def carried_logic_def bytes_of_concat)
qed

lemma nexts_rest:
  assumes "next_items C ns = Inr xs" and "few ns" and "vc_version (ci_version C) \<in> {19, 20}"
  shows "read_next C (rest_buf pre (bytes_of C xs @ rest)) =
    Inr (if vc_version (ci_version C) = 19 \<and> ns = [] then [0] else ns, rest_buf (pre @ bytes_of C xs) rest)"
proof (cases "vc_version (ci_version C) = 19")
  case True
  then show ?thesis using assms(1) by (auto simp: next_items_def read_next_def wire_reads split: list.splits)
next
  case False
  let ?enc = "\<lambda>n. bytes_of C [U8 TYPE_INTEGER, U32 n]"
  have "read_times (readTypeChecked (ci_host C) read_word TYPE_INTEGER) (length ns) (rest_buf q (concat (map ?enc ns) @ rest)) =
      Inr (map (\<lambda>n. n) ns, rest_buf (q @ concat (map ?enc ns)) rest)" for q
    by (intro read_times_rest) (simp add: wire_reads)
  then show ?thesis
    using assms False by (auto simp: next_items_def read_next_def wire_reads bytes_of_concat)
qed

lemma phase_19_rest:
  assumes "phase_items_19 C p = Inr xs" and "phase_ok C p" and "vc_version (ci_version C) \<in> {19, 20}"
  shows "read_phase_19 C (rest_buf pre (bytes_of C xs @ rest)) =
    Inr (carried_phase (vc_version (ci_version C)) p, rest_buf (pre @ bytes_of C xs) rest)"
proof -
  obtain ns where ns: "next_items C (ph_next p) = Inr ns" "xs = [U8 TYPE_COMPOUND, U32 (phase_components (vc_version (ci_version C)))] @
      tl_time C (ph_duration p) @ [U8 TYPE_STRING, Txt (ph_state p)] @
      tl_time C (ph_minDuration p) @ tl_time C (ph_maxDuration p) @ ns @
      (if vc_version (ci_version C) = 20 then [U8 TYPE_STRING, Txt (ph_name p)] else [])"
    using assms(1) by (auto simp: phase_items_19_def Let_def)
  have "few (ph_next p)" using assms(2) by (simp add: phase_ok_def)
  note next_rest = nexts_rest [OF ns(1) this assms(3)]
  from assms(2,3) show ?thesis
    by (auto simp: ns(2) read_phase_19_def read_name_def tl_time_def phase_ok_def wire_reads next_rest carried_phase_def)
qed

lemma map_res_Inr: "map_res f xs = Inr ys \<Longrightarrow> list_all2 (\<lambda>x y. f x = Inr y) xs ys"
  by (induction xs arbitrary: ys) auto

lemma logic_19_rest:
  assumes "logic_items_19 C l = Inr xs" and "logic_ok C l" and "vc_version (ci_version C) \<in> {19, 20}"
  shows "read_logic_19 C stack (rest_buf pre (bytes_of C xs @ rest)) =
    Inr (carried_logic (vc_version (ci_version C)) stack l, rest_buf (pre @ bytes_of C xs) rest)"
proof -
  obtain ps where ps: "map_res (phase_items_19 C) (lg_phases l) = Inr ps" and
    xs: "xs = [U8 TYPE_COMPOUND, U32 5, U8 TYPE_STRING, Txt (lg_id l), U8 TYPE_INTEGER, U32 (lg_type l),
           U8 TYPE_INTEGER, U32 (lg_currentPhase l), U8 TYPE_COMPOUND, U32 (word_of_nat (length (lg_phases l)))] @
          concat ps @ [U8 TYPE_COMPOUND, U32 0]"
    using assms(1) by (auto simp: logic_items_19_def)
  have items: "list_all2 (\<lambda>p x. phase_items_19 C p = Inr x) (lg_phases l) ps" using ps by (rule map_res_Inr)
  have ok: "list_all (phase_ok C) (lg_phases l)" using assms(2) by (simp add: logic_ok_def)
  have phases: "read_times (read_phase_19 C) (length (lg_phases l)) (rest_buf q (bytes_of C (concat ps) @ rest)) =
      Inr (map (carried_phase (vc_version (ci_version C))) (lg_phases l), rest_buf (q @ bytes_of C (concat ps)) rest)" for q rest
    using items ok by (induction arbitrary: q rule: list_all2_induct) (simp_all add: phase_19_rest [OF _ _ assms(3)])
  have "loops 0 = 0" by (simp add: loops_def)
  then show ?thesis
    using assms(2,3) phases by (auto simp: xs read_logic_19_def wire_reads logic_ok_def carried_logic_def)
qed

text \<open>The bytes of a logic, as \<open>setProgramDefinition\<close> writes them.\<close>

definition logic_bytes :: "'c traci_ci \<Rightarrow> logic \<Rightarrow> byte list res" where
  "logic_bytes C l =
     rbind (if vc_version (ci_version C) \<le> 18 then Inr (logic_items C l) else logic_items_19 C l) (\<lambda>xs. Inr (bytes_of C xs))"

definition logic_reader :: "'c traci_ci \<Rightarrow> 32 word \<Rightarrow> logic reader" where
  "logic_reader C stack = (if vc_version (ci_version C) \<le> 18 then read_logic C else read_logic_19 C stack)"

lemma logics_rest:
  assumes "list_all2 (\<lambda>l bs. logic_ok C l \<and> logic_bytes C l = Inr bs) ls bss" and "vc_version (ci_version C) \<in> {15..20}"
  shows "read_times (logic_reader C stack) (length ls) (rest_buf pre (concat bss @ rest)) =
    Inr (map (carried_logic (vc_version (ci_version C)) stack) ls, rest_buf (pre @ concat bss) rest)"
proof -
  have one: "logic_reader C stack (rest_buf pre (bs @ rest)) =
      Inr (carried_logic (vc_version (ci_version C)) stack l, rest_buf (pre @ bs) rest)"
    if "logic_ok C l" "logic_bytes C l = Inr bs" for l bs pre rest
  proof (cases "vc_version (ci_version C) \<le> 18")
    case True
    then show ?thesis using that logic_rest [of C l] by (auto simp: logic_bytes_def logic_reader_def)
  next
    case False
    then have "vc_version (ci_version C) \<in> {19, 20}" using assms(2) by auto
    with False show ?thesis using that logic_19_rest [of C l] by (auto simp: logic_bytes_def logic_reader_def)
  qed
  from assms(1) show ?thesis
  proof (induction arbitrary: pre rule: list_all2_induct)
    case (Cons l ls bs bss)
    with one [of l bs pre "concat bss @ rest"] show ?case by simp
  qed simp
qed

lemma find_addLogic:
  "sm_inv (tp_logics p) \<Longrightarrow>
    sm_find (tp_logics (addLogic l p)) i = (if lg_id l = i then Some l else sm_find (tp_logics p) i) \<and> sm_inv (tp_logics (addLogic l p))"
  by (simp add: addLogic_def sm_inv_insert sm_inv_erase sm.find_insert_fresh sm_find_erase)

lemma fold_addLogic:
  assumes "sm_inv (tp_logics p)"
  shows "sm_find (tp_logics (fold addLogic ls p)) i =
      (case find (\<lambda>l. lg_id l = i) (rev ls) of Some l \<Rightarrow> Some l | None \<Rightarrow> sm_find (tp_logics p) i) \<and>
    sm_inv (tp_logics (fold addLogic ls p))"
proof (induction ls rule: rev_induct)
  case (snoc l ls)
  then show ?case using find_addLogic [of "fold addLogic ls p" l i] by simp
qed (simp add: assms)

lemma find_map_id: "(\<And>l. lg_id (f l) = lg_id l) \<Longrightarrow> find (\<lambda>l. lg_id l = lid) (map f ls) = map_option f (find (\<lambda>l. lg_id l = lid) ls)"
  by (induction ls) simp_all

section \<open>Properties\<close>

text \<open>The value of an answer about the program: the number of logics, and the logics.\<close>

definition program_value :: "'c traci_ci \<Rightarrow> 32 word \<Rightarrow> byte list list \<Rightarrow> byte list" where
  "program_value C compoundSize bss =
     TYPE_COMPOUND # (if vc_version (ci_version C) \<le> 18 then word_bytes compoundSize @ [TYPE_INTEGER] else []) @
       word_bytes (word_of_nat (length bss) :: 32 word) @ concat bss"

lemma tl_request_answer:
  assumes "ci_link C (request C CMD_GET_TL_VARIABLE var obj) c = Inr (a, c')"
    and "value_answer CMD_GET_TL_VARIABLE RESPONSE_GET_TL_VARIABLE var obj v a"
  shows "\<exists>pre. tl_request C var obj c = Inr (rest_buf pre v, c')"
proof -
  obtain status len where a: "ok_status CMD_GET_TL_VARIABLE status" "length_field len" "short obj"
      "a = status @ len @ [RESPONSE_GET_TL_VARIABLE, var] @ string_bytes obj @ v"
    using assms(2) by (auto simp: value_answer_def)
  then have "query (ci_host C) (ci_link C) CMD_GET_TL_VARIABLE (put_items C [U8 var, Txt obj]) c =
      Inr (rest_buf status (len @ [RESPONSE_GET_TL_VARIABLE, var] @ string_bytes obj @ v), c')"
    using assms(1) by (auto simp: query_iff request_items request_def)
  moreover have "answer_header (ci_host C) RESPONSE_GET_TL_VARIABLE var obj
        (rest_buf status (len @ [RESPONSE_GET_TL_VARIABLE, var] @ string_bytes obj @ v)) =
      Inr (rest_buf (status @ len @ [RESPONSE_GET_TL_VARIABLE, var] @ string_bytes obj) v)"
    using a by (auto simp: answer_header_iff)
  ultimately have "tl_request C var obj c = Inr (rest_buf (status @ len @ [RESPONSE_GET_TL_VARIABLE, var] @ string_bytes obj) v, c')"
    by (simp add: tl_request_def)
  then show ?thesis by blast
qed

lemma program_read:
  assumes "vc_version (ci_version C) \<in> {15..20}" and "few ls"
    and logics: "list_all2 (\<lambda>l bs. logic_ok C l \<and> logic_bytes C l = Inr bs) ls bss"
    and answer: "ci_link C (request C CMD_GET_TL_VARIABLE TL_COMPLETE_DEFINITION_RYG i) c = Inr (a, c')"
      "value_answer CMD_GET_TL_VARIABLE RESPONSE_GET_TL_VARIABLE TL_COMPLETE_DEFINITION_RYG i (program_value C compoundSize bss) a"
  shows "Trafficlight_getProgramDefinition C stack i c =
    Inr (fold addLogic (map (carried_logic (vc_version (ci_version C)) stack) ls) (new_program i), c')"
proof -
  obtain pre where request: "tl_request C TL_COMPLETE_DEFINITION_RYG i c = Inr (rest_buf pre (program_value C compoundSize bss), c')"
    using tl_request_answer [OF answer] by blast
  have len: "length bss = length ls" using logics by (simp add: list_all2_lengthD)
  have read: "read_times (logic_reader C stack) (length ls) (rest_buf q (concat bss)) =
      Inr (map (carried_logic (vc_version (ci_version C)) stack) ls, rest_buf (q @ concat bss) [])" for q
    using logics_rest [OF logics assms(1), of stack q "[]"] by simp
  show ?thesis
  proof (cases "vc_version (ci_version C) \<le> 18")
    case True
    then have "vc_version (ci_version C) \<in> {15, 16, 17, 18}" using assms(1) by auto
    then show ?thesis
      using read assms(2) True
      by (simp add: Trafficlight_getProgramDefinition_def request program_value_def wire_reads len logic_reader_def del: insert_iff)
  next
    case False
    then have "vc_version (ci_version C) \<in> {19, 20}" "vc_version (ci_version C) \<notin> {15, 16, 17, 18}" using assms(1) by auto
    then show ?thesis
      using read assms(2) False
      by (simp add: Trafficlight_getProgramDefinition_def request program_value_def wire_reads len logic_reader_def del: insert_iff)
  qed
qed

text \<open>C21: What \<open>setProgramDefinition\<close> sends for a logic, a server can answer to \<open>getProgramDefinition\<close>: the command succeeds exactly when the
  server accepts the bytes of the logic, and from an answer made of the bytes of some logics every one of them is
  found again under its name (the last one of that name), as far as the version of the interface carries it: up to
  version 18 without the names and successors of the phases, in version 19 without names and with phase 0 in the
  place of no successor, in version 20 completely.\<close>

theorem tl_program_roundtrip:
  assumes "vc_version (ci_version C) \<in> {15..20}" and "length ls < 2 ^ 31"
    and logics: "list_all2 (\<lambda>l bs. logic_ok C l \<and> logic_bytes C l = Inr bs) ls bss"
    and answer: "ci_link C (request C CMD_GET_TL_VARIABLE TL_COMPLETE_DEFINITION_RYG i) c = Inr (a, c')"
      "value_answer CMD_GET_TL_VARIABLE RESPONSE_GET_TL_VARIABLE TL_COMPLETE_DEFINITION_RYG i (program_value C compoundSize bss) a"
  shows "(\<forall>(l, bs) \<in> set (zip ls bss). \<forall>nr d d'. Trafficlight_setProgramDefinition C i l nr d = Inr d' \<longleftrightarrow>
      (\<exists>ack. ok_status CMD_SET_TL_VARIABLE ack \<and>
         ci_link C (makeTraCICommand (ci_host C) CMD_SET_TL_VARIABLE (TL_COMPLETE_PROGRAM_RYG # string_bytes i @
             (if vc_version (ci_version C) \<le> 18 then TYPE_COMPOUND # word_bytes nr else []) @ bs)) d = Inr (ack, d'))) \<and>
    (\<exists>p. Trafficlight_getProgramDefinition C stack i c = Inr (p, c') \<and>
       (\<forall>lid. getLogic p lid = (case find (\<lambda>l. lg_id l = lid) (rev ls) of
          None \<Rightarrow> Inl OutOfRange | Some l \<Rightarrow> Inr (carried_logic (vc_version (ci_version C)) stack l)))) \<and>
    (vc_version (ci_version C) = 20 \<longrightarrow> (\<forall>l. carried_logic 20 stack l = l\<lparr>lg_parameter := stack\<rparr>))"
proof (intro conjI ballI, clarify)
  fix l bs nr d d' assume "(l, bs) \<in> set (zip ls bss)"
  then have "logic_bytes C l = Inr bs" using logics by (auto simp: list_all2_iff)
  moreover have "vc_version (ci_version C) \<in> {15, 16, 17, 18} \<longleftrightarrow> vc_version (ci_version C) \<le> 18"
      "\<not> vc_version (ci_version C) \<le> 18 \<Longrightarrow> vc_version (ci_version C) \<in> {19, 20}" using assms(1) by auto
  ultimately show "Trafficlight_setProgramDefinition C i l nr d = Inr d' \<longleftrightarrow>
      (\<exists>ack. ok_status CMD_SET_TL_VARIABLE ack \<and>
         ci_link C (makeTraCICommand (ci_host C) CMD_SET_TL_VARIABLE (TL_COMPLETE_PROGRAM_RYG # string_bytes i @
             (if vc_version (ci_version C) \<le> 18 then TYPE_COMPOUND # word_bytes nr else []) @ bs)) d = Inr (ack, d'))"
    by (auto simp: Trafficlight_setProgramDefinition_def logic_bytes_def set_command_iff message_def simp del: insert_iff)
next
  let ?f = "carried_logic (vc_version (ci_version C)) stack"
  have "lg_id (?f l) = lg_id l" for l by (simp add: carried_logic_def)
  then have "find (\<lambda>l. lg_id l = lid) (rev (map ?f ls)) = map_option ?f (find (\<lambda>l. lg_id l = lid) (rev ls))" for lid
    by (simp add: find_map_id rev_map)
  then have "getLogic (fold addLogic (map ?f ls) (new_program i)) lid = (case find (\<lambda>l. lg_id l = lid) (rev ls) of
      None \<Rightarrow> Inl OutOfRange | Some l \<Rightarrow> Inr (?f l))" for lid
    using fold_addLogic [of "new_program i" "map ?f ls" lid]
    by (auto simp: getLogic_def new_program_def sm_find_def split: option.splits)
  moreover have "few ls" using assms(2) by (simp add: few_def)
  ultimately show "\<exists>p. Trafficlight_getProgramDefinition C stack i c = Inr (p, c') \<and>
      (\<forall>lid. getLogic p lid = (case find (\<lambda>l. lg_id l = lid) (rev ls) of None \<Rightarrow> Inl OutOfRange | Some l \<Rightarrow> Inr (?f l)))"
    using program_read [OF assms(1) _ logics answer] by simp
next
  have "carried_phase 20 = (\<lambda>p. p)" by (simp add: carried_phase_def fun_eq_iff)
  then show "vc_version (ci_version C) = 20 \<longrightarrow> (\<forall>l. carried_logic 20 stack l = l\<lparr>lg_parameter := stack\<rparr>)"
    by (simp add: carried_logic_def)
qed

end
