(* ===== verification/SV_TrafficLight_Props.thy ===== *)
theory SV_TrafficLight_Props
  imports SV_TrafficLight SV_TraCI_Programs
begin

text \<open>
  Properties of the traffic light module and its logic: what is set is what the server reports, the messages tell the
  whole history, and a change of the switch time arms the timer of the logic.
\<close>

section \<open>Following the server\<close>

text \<open>The server accepts a value for a variable of a light, and then reports that value for a variable.\<close>

definition exchange :: "'c traci_ci \<Rightarrow> string \<Rightarrow> byte \<Rightarrow> byte \<Rightarrow> tvalue \<Rightarrow> 'c \<Rightarrow> 'c \<Rightarrow> bool" where
  "exchange C i set_var get_var v c c' \<longleftrightarrow>
     (\<exists>ack c1 a. ci_link C (makeTraCICommand (ci_host C) CMD_SET_TL_VARIABLE (set_var # string_bytes i @ value_bytes v)) c =
         Inr (ack, c1) \<and> ok_status CMD_SET_TL_VARIABLE ack \<and>
       ci_link C (request C CMD_GET_TL_VARIABLE get_var i) c1 = Inr (a, c') \<and>
       value_answer CMD_GET_TL_VARIABLE RESPONSE_GET_TL_VARIABLE get_var i (value_bytes v) a)"

lemma command_Inr_iff: "tlCommandInterface m = Inr i \<longleftrightarrow> tl_command m = Some i"
  by (auto simp: tlCommandInterface_def split: option.splits)

lemma text_exchange:
  "rbind (tlCommandInterface m) (\<lambda>i.
   rbind (set_command C CMD_SET_TL_VARIABLE [U8 sv, Txt i, U8 TYPE_STRING, Txt s] c) (\<lambda>c.
   rbind (genericGetText C CMD_GET_TL_VARIABLE i gv RESPONSE_GET_TL_VARIABLE c) (\<lambda>(new, c).
   rbind (assertr (new = s) msg) (\<lambda>_. Inr c)))) = Inr c' \<longleftrightarrow>
   (\<exists>i. tl_command m = Some i \<and> exchange C i sv gv (VText s) c c') \<and> short s"
  by (auto simp: rbind_Inr_iff command_Inr_iff set_command_iff message_def genericGetText_def xs.genericGet_iff exchange_def)

lemma int_exchange:
  "rbind (tlCommandInterface m) (\<lambda>i.
   rbind (set_command C CMD_SET_TL_VARIABLE [U8 sv, Txt i, U8 TYPE_INTEGER, U32 w] c) (\<lambda>c.
   rbind (genericGetInt C CMD_GET_TL_VARIABLE i gv RESPONSE_GET_TL_VARIABLE c) (\<lambda>(new, c).
   rbind (assertr (new = w) msg) (\<lambda>_. Inr c)))) = Inr c' \<longleftrightarrow>
   (\<exists>i. tl_command m = Some i \<and> exchange C i sv gv (VInt w) c c')"
  by (auto simp: rbind_Inr_iff command_Inr_iff set_command_iff message_def genericGetInt_def xi.genericGet_iff exchange_def)

text \<open>A setter that tells the server first and then does what it does otherwise.\<close>

lemma told_first:
  assumes "P \<Longrightarrow> f = rbind g (\<lambda>c. h (m, c))" and "f = Inr (m', c') \<Longrightarrow> P"
    and "\<And>d. h (m, d) = Inr (m', c') \<Longrightarrow> d = c'"
  shows "f = Inr (m', c') \<longleftrightarrow> P \<and> g = Inr c' \<and> h (m, c') = Inr (m', c')"
  using assms by (cases P) (auto simp: rbind_Inr_iff)

lemma setCurrentState_iff:
  "setCurrentState E s True (m, c) = Inr (m', c') \<longleftrightarrow>
     (\<exists>i. tl_command m = Some i \<and> exchange (te_ci E) i TL_RED_YELLOW_GREEN_STATE TL_RED_YELLOW_GREEN_STATE (VText s) c c') \<and>
     short s \<and> setCurrentState E s False (m, c') = Inr (m', c')"
proof -
  have "setCurrentState E s True (m, c) = rbind (rbind (tlCommandInterface m) (\<lambda>i.
      rbind (set_command (te_ci E) CMD_SET_TL_VARIABLE [U8 TL_RED_YELLOW_GREEN_STATE, Txt i, U8 TYPE_STRING, Txt s] c) (\<lambda>c.
      rbind (genericGetText (te_ci E) CMD_GET_TL_VARIABLE i TL_RED_YELLOW_GREEN_STATE RESPONSE_GET_TL_VARIABLE c) (\<lambda>(new, c).
      rbind (assertr (new = s) ''newValueInSumo == state'') (\<lambda>_. Inr c))))) (\<lambda>c. setCurrentState E s False (m, c))"
    by (simp add: setCurrentState_def Trafficlight_setState_def Trafficlight_getCurrentState_def)
  moreover have "setCurrentState E s False (m, d) = Inr (m', c') \<Longrightarrow> d = c'" for d
    by (simp add: setCurrentState_def Let_def)
  ultimately show ?thesis by (simp only: rbind_Inr_iff [of _ "\<lambda>c. setCurrentState E s False (m, c)"] text_exchange) blast
qed

lemma setCurrentLogicById_iff:
  "setCurrentLogicById E lid True (m, c) = Inr (m', c') \<longleftrightarrow>
     lid \<noteq> online \<and> hasLogic (tl_program m) lid \<and>
     (\<exists>i. tl_command m = Some i \<and> exchange (te_ci E) i TL_PROGRAM TL_CURRENT_PROGRAM (VText lid) c c') \<and>
     short lid \<and> setCurrentLogicById E lid False (m, c') = Inr (m', c')"
proof -
  have "lid \<noteq> online \<Longrightarrow> hasLogic (tl_program m) lid \<Longrightarrow>
    setCurrentLogicById E lid True (m, c) = rbind (rbind (tlCommandInterface m) (\<lambda>i.
      rbind (set_command (te_ci E) CMD_SET_TL_VARIABLE [U8 TL_PROGRAM, Txt i, U8 TYPE_STRING, Txt lid] c) (\<lambda>c.
      rbind (genericGetText (te_ci E) CMD_GET_TL_VARIABLE i TL_CURRENT_PROGRAM RESPONSE_GET_TL_VARIABLE c) (\<lambda>(new, c).
      rbind (assertr (new = lid) ''newValueInSumo == logicId'') (\<lambda>_. Inr c))))) (\<lambda>c. setCurrentLogicById E lid False (m, c))"
    by (simp add: setCurrentLogicById_def Trafficlight_setProgram_def Trafficlight_getCurrentProgramID_def)
  moreover have "setCurrentLogicById E lid False (m, d) = Inr (m', c') \<Longrightarrow> d = c'" for d
    by (simp add: setCurrentLogicById_def Let_def)
  moreover have "setCurrentLogicById E lid True (m, c) = Inr (m', c') \<Longrightarrow> lid \<noteq> online \<and> hasLogic (tl_program m) lid"
    by (auto simp: setCurrentLogicById_def rbind_Inr_iff split: if_splits)
  ultimately show ?thesis
    by (subst told_first [where h = "setCurrentLogicById E lid False" and P = "lid \<noteq> online \<and> hasLogic (tl_program m) lid"])
      (assumption | simp only: text_exchange conj_assoc simp_thms)+
qed

lemma setCurrentPhaseByNr_iff:
  "setCurrentPhaseByNr E n True (m, c) = Inr (m', c') \<longleftrightarrow>
     (\<exists>l. getCurrentLogic m = Inr l \<and> unat n < length (lg_phases l)) \<and>
     (\<exists>i. tl_command m = Some i \<and> exchange (te_ci E) i TL_PHASE_INDEX TL_CURRENT_PHASE (VInt n) c c') \<and>
     setCurrentPhaseByNr E n False (m, c') = Inr (m', c')"
proof -
  have "getCurrentLogic m = Inr l \<Longrightarrow> unat n < length (lg_phases l) \<Longrightarrow>
    setCurrentPhaseByNr E n True (m, c) = rbind (rbind (tlCommandInterface m) (\<lambda>i.
      rbind (set_command (te_ci E) CMD_SET_TL_VARIABLE [U8 TL_PHASE_INDEX, Txt i, U8 TYPE_INTEGER, U32 n] c) (\<lambda>c.
      rbind (genericGetInt (te_ci E) CMD_GET_TL_VARIABLE i TL_CURRENT_PHASE RESPONSE_GET_TL_VARIABLE c) (\<lambda>(new, c).
      rbind (assertr (new = n) ''newValueInSumo == phaseNr'') (\<lambda>_. Inr c))))) (\<lambda>c. setCurrentPhaseByNr E n False (m, c))" for l
    by (simp add: setCurrentPhaseByNr_def Trafficlight_setPhaseIndex_def Trafficlight_getCurrentPhaseIndex_def)
  moreover have "setCurrentPhaseByNr E n False (m, d) = Inr (m', c') \<Longrightarrow> d = c'" for d
    by (simp add: setCurrentPhaseByNr_def Let_def)
  moreover have "setCurrentPhaseByNr E n True (m, c) = Inr (m', c') \<Longrightarrow> \<exists>l. getCurrentLogic m = Inr l \<and> unat n < length (lg_phases l)"
    by (auto simp: setCurrentPhaseByNr_def rbind_Inr_iff not_le split: if_splits)
  ultimately show ?thesis
    by (subst told_first [where h = "setCurrentPhaseByNr E n False" and
          P = "\<exists>l. getCurrentLogic m = Inr l \<and> unat n < length (lg_phases l)"])
      (assumption | erule exE conjE | simp only: int_exchange simp_thms)+
qed

section \<open>History\<close>

text \<open>Messages about an attribute that lead from one value to another, each starting where the one before ended.\<close>

fun chain :: "string \<Rightarrow> tl_message list \<Rightarrow> string \<Rightarrow> bool" where
  "chain a [] b \<longleftrightarrow> a = b"
| "chain a (x # xs) b \<longleftrightarrow> tm_oldValue x = a \<and> chain (tm_newValue x) xs b"

lemma chain_append: "chain a (xs @ ys) b \<longleftrightarrow> (\<exists>k. chain a xs k \<and> chain k ys b)"
  by (induction xs arbitrary: a) auto

abbreviation about :: "tl_attribute \<Rightarrow> tl_message list \<Rightarrow> tl_message list" where
  "about x ms \<equiv> filter (\<lambda>msg. tm_changedAttribute msg = x) ms"

definition history_ok :: "tl_module \<Rightarrow> tl_module \<Rightarrow> bool" where
  "history_ok m0 m \<longleftrightarrow>
     (\<exists>ms. tl_sent m = tl_sent m0 @ ms \<and>
        chain (c_str (tl_currentSignalState m0)) (about STATE ms) (c_str (tl_currentSignalState m)) \<and>
        chain (c_str (millis (tl_nextSwitchTime m0))) (about SWITCHTIME ms) (c_str (millis (tl_nextSwitchTime m))) \<and>
        (\<forall>msg \<in> set ms. tm_tlId msg = c_str (tl_external_id m0) \<and> tm_changeSource msg = SUMO)) \<and>
     tl_external_id m = tl_external_id m0"

text \<open>What can happen to an initialised module.\<close>

inductive tl_step :: "'c tl_env \<Rightarrow> tl_module \<times> 'c \<Rightarrow> tl_module \<times> 'c \<Rightarrow> bool" for E where
  logic: "setCurrentLogicById E lid told mc = Inr mc' \<Longrightarrow> tl_step E mc mc'"
| phase: "setCurrentPhaseByNr E n told mc = Inr mc' \<Longrightarrow> tl_step E mc mc'"
| state: "setCurrentState E s told mc = Inr mc' \<Longrightarrow> tl_step E mc mc'"
| switch: "setNextSwitch E now t told mc = Inr mc' \<Longrightarrow> tl_step E mc mc'"
| remaining: "setRemainingDuration E now t told mc = Inr mc' \<Longrightarrow> tl_step E mc mc'"
| message: "tl_handleMessage E now msg mc = Inr mc' \<Longrightarrow> tl_step E mc mc'"

inductive tl_run :: "'c tl_env \<Rightarrow> tl_module \<times> 'c \<Rightarrow> tl_module \<times> 'c \<Rightarrow> bool" for E and mc where
  start: "tl_run E mc mc"
| step: "tl_run E mc mc' \<Longrightarrow> tl_step E mc' mc'' \<Longrightarrow> tl_run E mc mc''"

lemma history_refl [simp]: "history_ok m m"
  by (simp add: history_ok_def)

lemma history_trans: "history_ok m0 m1 \<Longrightarrow> history_ok m1 m2 \<Longrightarrow> history_ok m0 m2"
  unfolding history_ok_def by (elim conjE exE) (force simp: chain_append)

lemma history_quiet:
  "tl_sent m' = tl_sent m \<Longrightarrow> tl_currentSignalState m' = tl_currentSignalState m \<Longrightarrow> tl_nextSwitchTime m' = tl_nextSwitchTime m \<Longrightarrow>
    tl_external_id m' = tl_external_id m \<Longrightarrow> history_ok m m'"
  by (simp add: history_ok_def)

lemma history_other:
  "x \<noteq> STATE \<Longrightarrow> x \<noteq> SWITCHTIME \<Longrightarrow> history_ok m (sendChangeMsg x new old m)"
  by (simp add: history_ok_def sendChangeMsg_def)

lemma history_logic: "setCurrentLogicById E lid False (m, c) = Inr (m', c') \<Longrightarrow> history_ok m m'"
  by (auto simp: setCurrentLogicById_def Let_def history_ok_def sendChangeMsg_def)

lemma history_phase: "setCurrentPhaseByNr E n False (m, c) = Inr (m', c') \<Longrightarrow> history_ok m m'"
  by (auto simp: setCurrentPhaseByNr_def Let_def history_ok_def sendChangeMsg_def)

lemma history_state: "setCurrentState E s False (m, c) = Inr (m', c') \<Longrightarrow> history_ok m m'"
  by (auto simp: setCurrentState_def Let_def history_ok_def sendChangeMsg_def)

lemma history_switch: "history_ok m (store_switch t m)"
  by (auto simp: store_switch_def Let_def history_ok_def sendChangeMsg_def)

lemma history_tell: "tell_duration E d t (m, c) = Inr (m', c') \<Longrightarrow> history_ok m m'"
  by (auto simp: tell_duration_def getTlCommandInterface_def rbind_Inr_iff intro!: history_quiet split: option.splits)

lemma history_setters:
  "setCurrentLogicById E lid told (m, c) = Inr (m', c') \<Longrightarrow> history_ok m m'"
  "setCurrentPhaseByNr E n told (m, c) = Inr (m', c') \<Longrightarrow> history_ok m m'"
  "setCurrentState E s told (m, c) = Inr (m', c') \<Longrightarrow> history_ok m m'"
  "setNextSwitch E now t told (m, c) = Inr (m', c') \<Longrightarrow> history_ok m m'"
  "setRemainingDuration E now t told (m, c) = Inr (m', c') \<Longrightarrow> history_ok m m'"
proof -
  show "setCurrentLogicById E lid told (m, c) = Inr (m', c') \<Longrightarrow> history_ok m m'"
    by (cases told) (auto simp: setCurrentLogicById_iff dest: history_logic)
  show "setCurrentPhaseByNr E n told (m, c) = Inr (m', c') \<Longrightarrow> history_ok m m'"
    by (cases told) (auto simp: setCurrentPhaseByNr_iff dest: history_phase)
  show "setCurrentState E s told (m, c) = Inr (m', c') \<Longrightarrow> history_ok m m'"
    by (cases told) (auto simp: setCurrentState_iff dest: history_state)
  show "setNextSwitch E now t told (m, c) = Inr (m', c') \<Longrightarrow> history_ok m m'"
    by (auto simp: setNextSwitch_def Let_def rbind_Inr_iff dest!: history_tell intro: history_trans history_switch split: if_splits)
  show "setRemainingDuration E now t told (m, c) = Inr (m', c') \<Longrightarrow> history_ok m m'"
    by (auto simp: setRemainingDuration_def Let_def rbind_Inr_iff dest!: history_tell intro: history_trans history_switch split: if_splits)
qed

lemma step_history: "tl_step E mc mc' \<Longrightarrow> history_ok (fst mc) (fst mc')"
proof (induction rule: tl_step.induct)
  case (message now msg mc mc')
  then show ?case
    by (cases mc; cases mc')
      (auto simp: tl_handleMessage_def handleChangeCommandMessage_def rbind_Inr_iff intro: history_setters split: tl_arrival.splits tl_attribute.splits)
qed (auto intro: history_setters)

section \<open>The timer of the logic\<close>

lemma print_int_chars: "x \<in> set (print_int i) \<Longrightarrow> x = CHR ''-'' \<or> is_digit x"
  by (auto simp: print_int_def dest: print_nat_digits split: if_splits)

lemma c_str_millis [simp]: "c_str (millis t) = millis t"
proof -
  have "\<not> is_digit CHR 0x00" by (simp add: is_digit_def)
  then show ?thesis by (auto simp: c_str_def millis_def takeWhile_eq_all_conv dest: print_int_chars)
qed

lemma digits_all: "takeWhile is_digit (print_nat n) = print_nat n"
  by (auto simp: takeWhile_eq_all_conv dest: print_nat_digits)

lemma digit_head: "\<exists>d ds. print_nat n = d # ds \<and> is_digit d"
  using print_nat_nonempty [of n] print_nat_digits [of _ n] by (cases "print_nat n") auto

lemma is_digit_no_space: "is_digit d \<Longrightarrow> \<not> c_isspace d \<and> d \<noteq> CHR ''-'' \<and> d \<noteq> CHR ''+''"
  by (auto simp: is_digit_def c_isspace_def)

lemma stoi_print_int: "stoi (print_int i) = (if - (2 ^ 31) \<le> i \<and> i < 2 ^ 31 then Inr i else Inl OutOfRange)"
proof -
  obtain d ds where d: "print_nat (nat \<bar>i\<bar>) = d # ds" "is_digit d" using digit_head by blast
  note digits = digits_all [of "nat \<bar>i\<bar>", unfolded d(1)] print_nat_value [of "nat \<bar>i\<bar>", unfolded d(1)]
  have tw: "takeWhile is_digit ds = ds" using digits(1) d(2) by (metis list.inject takeWhile.simps(2))
  have "c_isspace CHR ''-'' = False" by (simp add: c_isspace_def)
  then show ?thesis
    using d is_digit_no_space [OF d(2)] digits(2)
    by (cases "i < 0") (auto simp: tw stoi_def print_int_def Let_def)
qed

section \<open>Properties\<close>

text \<open>C20: Setting the state, the logic or the phase of a traffic light with the server told succeeds exactly when the change is one
  the module allows (a known logic that is not the online one, a phase of the current logic), the server accepts the
  value and then reports that same value; it then has the effect it has without the server. Afterwards the module
  shows the state, is in the logic, or is in the phase that was set.\<close>

theorem light_follows_server:
  "(setCurrentState E s True (m, c) = Inr (m', c') \<longleftrightarrow>
      (\<exists>i. tl_command m = Some i \<and> exchange (te_ci E) i TL_RED_YELLOW_GREEN_STATE TL_RED_YELLOW_GREEN_STATE (VText s) c c') \<and>
      short s \<and> setCurrentState E s False (m, c') = Inr (m', c')) \<and>
   (setCurrentLogicById E lid True (m, c) = Inr (m', c') \<longleftrightarrow>
      lid \<noteq> online \<and> hasLogic (tl_program m) lid \<and>
      (\<exists>i. tl_command m = Some i \<and> exchange (te_ci E) i TL_PROGRAM TL_CURRENT_PROGRAM (VText lid) c c') \<and>
      short lid \<and> setCurrentLogicById E lid False (m, c') = Inr (m', c')) \<and>
   (setCurrentPhaseByNr E n True (m, c) = Inr (m', c') \<longleftrightarrow>
      (\<exists>l. getCurrentLogic m = Inr l \<and> unat n < length (lg_phases l)) \<and>
      (\<exists>i. tl_command m = Some i \<and> exchange (te_ci E) i TL_PHASE_INDEX TL_CURRENT_PHASE (VInt n) c c') \<and>
      setCurrentPhaseByNr E n False (m, c') = Inr (m', c')) \<and>
   (\<exists>m1. setCurrentState E s False (m, c') = Inr (m1, c') \<and> getCurrentState m1 = Inr s) \<and>
   (\<exists>m1. setCurrentLogicById E lid False (m, c') = Inr (m1, c') \<and>
      tl_currentLogicId m1 = (if lid = online then tl_currentLogicId m else lid)) \<and>
   (\<exists>m1. setCurrentPhaseByNr E n False (m, c') = Inr (m1, c') \<and> tl_currentPhaseNr m1 = n \<and>
      getCurrentState m1 = rbind (getCurrentPhase m1) (\<lambda>p. Inr (ph_state p)))"
proof (intro conjI)
  show "\<exists>m1. setCurrentState E s False (m, c') = Inr (m1, c') \<and> getCurrentState m1 = Inr s"
    by (simp add: setCurrentState_def Let_def getCurrentState_def)
  show "\<exists>m1. setCurrentLogicById E lid False (m, c') = Inr (m1, c') \<and>
      tl_currentLogicId m1 = (if lid = online then tl_currentLogicId m else lid)"
    by (simp add: setCurrentLogicById_def Let_def sendChangeMsg_def)
  show "\<exists>m1. setCurrentPhaseByNr E n False (m, c') = Inr (m1, c') \<and> tl_currentPhaseNr m1 = n \<and>
      getCurrentState m1 = rbind (getCurrentPhase m1) (\<lambda>p. Inr (ph_state p))"
    by (simp add: setCurrentPhaseByNr_def Let_def getCurrentState_def)
qed (rule setCurrentState_iff setCurrentLogicById_iff setCurrentPhaseByNr_iff)+

text \<open>C22: Whatever happens to a traffic light, in any order and with any server, its messages tell the whole history of its signal
  state and of its switch time: each message starts from the value the one before announced, the first from the value
  at the start, and the last value announced is the current one. Every message names this light.\<close>

theorem light_history_complete:
  assumes "tl_run E (m0, c0) (m, c)"
  shows "\<exists>ms. tl_sent m = tl_sent m0 @ ms \<and>
    chain (c_str (tl_currentSignalState m0)) (about STATE ms) (c_str (tl_currentSignalState m)) \<and>
    chain (millis (tl_nextSwitchTime m0)) (about SWITCHTIME ms) (millis (tl_nextSwitchTime m)) \<and>
    (\<forall>msg \<in> set ms. tm_tlId msg = c_str (tl_external_id m0) \<and> tm_changeSource msg = SUMO)"
proof -
  have "history_ok m0 (fst mc)" if "tl_run E (m0, c0) mc" for mc
    using that by (induction rule: tl_run.induct) (auto dest: step_history intro: history_trans)
  from this [OF assms] show ?thesis by (simp add: history_ok_def)
qed

text \<open>C23: A changed switch time that the module announces makes the logic behind it schedule its timer for that time in whole
  milliseconds, or at once when it is past, whatever was scheduled before, and touches no other event; from \<open>2^31\<close>
  milliseconds on the logic fails with the error of \<open>std::stoi\<close> instead.\<close>

theorem switch_time_arms_logic:
  assumes "sim_kernel K" and "t \<noteq> tl_nextSwitchTime m" and "0 \<le> t"
  shows "\<exists>msg. tl_sent (store_switch t m) = tl_sent m @ [msg] \<and>
    (if t div SIMTIME_MS < 2 ^ 31
     then \<exists>k'. logic_handleMessage K timer (OnInterface msg) k = Inr k' \<and> simTime K k' = simTime K k \<and>
            arrival K k' = (arrival K k)(timer \<mapsto> max (t div SIMTIME_MS * SIMTIME_MS) (simTime K k))
     else logic_handleMessage K timer (OnInterface msg) k = Inl OutOfRange)"
proof -
  let ?msg = "\<lparr>tm_tlId = c_str (tl_external_id m), tm_changedAttribute = SWITCHTIME, tm_oldValue = millis (tl_nextSwitchTime m),
      tm_newValue = millis t, tm_changeSource = SUMO\<rparr>"
  let ?k = "cancelEvent K timer k" and ?t = "max (t div SIMTIME_MS * SIMTIME_MS) (simTime K k)"
  have sent: "tl_sent (store_switch t m) = tl_sent m @ [?msg]"
    using assms(2) by (simp add: store_switch_def sendChangeMsg_def)
  have i: "- (2 ^ 31) \<le> t div SIMTIME_MS"
    using pos_imp_zdiv_nonneg_iff [OF SIMTIME_MS_pos, of t] assms(3) order_trans [of "- (2 ^ 31)" 0 "t div SIMTIME_MS"] by simp
  have read: "stoi (millis t) = (if t div SIMTIME_MS < 2 ^ 31 then Inr (t div SIMTIME_MS) else Inl OutOfRange)"
    using i by (simp add: millis_def stoi_print_int)
  have k: "simTime K ?k = simTime K k" "arrival K ?k = (arrival K k)(timer := None)"
    by (simp_all add: sim_kernel.cancel_time [OF assms(1)] sim_kernel.cancel_arrival [OF assms(1)])
  then obtain k' where k': "scheduleAt K ?t timer ?k = Inr k'"
    using sim_kernel.schedule_total [OF assms(1), of ?k ?t timer] by auto
  have "simTime K k' = simTime K k" "arrival K k' = (arrival K k)(timer \<mapsto> ?t)"
    using sim_kernel.schedule_time [OF assms(1) k'] sim_kernel.schedule_arrival [OF assms(1) k'] k by simp_all
  then show ?thesis
    using k k' by (intro exI [of _ ?msg]) (simp add: sent logic_handleMessage_def read handleTlIfMsg_def)
qed

end
