(* ===== verification/SV_TraCI_Examples.thy ===== *)
theory SV_TraCI_Examples
  imports SV_TrafficLight_Props
begin

text \<open>Concrete servers and traffic lights, on which the theorems about commands, programs and the module apply.\<close>

definition example_times :: time_ops where
  "example_times = \<lparr>tm_dbl = \<lambda>_. 0, tm_of_dbl = \<lambda>_. 0, tm_max = 0\<rparr>"

definition example_ci :: "(byte list \<Rightarrow> nat \<Rightarrow> (byte list \<times> nat) res) \<Rightarrow> nat traci_ci" where
  "example_ci link = \<lparr>ci_host = False, ci_time = example_times, ci_link = link, ci_bits = \<lambda>_. 0,
     ci_version = \<lparr>vc_version = 20, vc_timeType = TYPE_DOUBLE, vc_netBoundaryType = TYPE_POLYGON, vc_timeStepCmd = VAR_TIME\<rparr>,
     ci_timeAsDouble = True, ci_transformation = Some (mkTransformation (mkTraCI 0 0) (mkTraCI 100 100) 0), ci_ignoreGui = False\<rparr>"

lemma example_sel [simp]:
  "ci_host (example_ci l) = False" "ci_link (example_ci l) = l" "ci_timeAsDouble (example_ci l) = True"
  "vc_version (ci_version (example_ci l)) = 20" "vc_timeType (ci_version (example_ci l)) = TYPE_DOUBLE"
  "ci_time (example_ci l) = example_times" "ci_ignoreGui (example_ci l) = False"
  by (simp_all add: example_ci_def)

section \<open>Commands\<close>

theorem commands_reach_peer_witness:
  "sends (example_ci (\<lambda>_ c. Inr ([], c))) CMD_SET_VEHICLE_VARIABLE CMD_SLOWDOWN ''v''
     (VCompound [VDouble 7, time_value (example_ci (\<lambda>_ c. Inr ([], c))) 5]) (Vehicle_slowDown (example_ci (\<lambda>_ c. Inr ([], c))) ''v'' 7 5) \<and>
   fits ''v'' (VCompound [VDouble 7, time_value (example_ci (\<lambda>_ c. Inr ([], c))) 5])"
proof -
  have "time_agrees (example_ci (\<lambda>_ c. Inr ([], c)))" by (simp add: time_agrees_def)
  moreover have "ci_transformation (example_ci (\<lambda>_ c. Inr ([], c))) = Some (mkTransformation (mkTraCI 0 0) (mkTraCI 100 100) 0)"
    by (simp add: example_ci_def)
  moreover have "fits ''v'' (VCompound [VDouble 7, time_value (example_ci (\<lambda>_ c. Inr ([], c))) 5])"
    by (simp add: fits_def short_def time_value_def)
  ultimately show ?thesis
    using commands_reach_peer [of "example_ci (\<lambda>_ c. Inr ([], c))" _ "''v''" 0 7 0 0 0 0 5 "[]" 0 0 "[]" "[]" "mkCoord 0 0 0"] by blast
qed

section \<open>A program\<close>

definition example_phase :: phase where
  "example_phase = \<lparr>ph_duration = 0, ph_state = ''Gr'', ph_minDuration = 0, ph_maxDuration = 0, ph_next = [1, 0], ph_name = ''go''\<rparr>"

definition example_logic :: logic where
  "example_logic = \<lparr>lg_id = ''day'', lg_currentPhase = 0, lg_phases = [example_phase, example_phase], lg_type = 0, lg_parameter = 9\<rparr>"

definition example_bytes :: "byte list" where
  "example_bytes = (case logic_bytes (example_ci (\<lambda>_ c. Inr ([], c))) example_logic of Inr bs \<Rightarrow> bs | Inl _ \<Rightarrow> [])"

definition program_answer :: "byte list" where
  "program_answer = status_bytes 7 CMD_GET_TL_VARIABLE RTYPE_OK [] @ [100] @ [RESPONSE_GET_TL_VARIABLE, TL_COMPLETE_DEFINITION_RYG] @
     string_bytes ''t'' @ program_value (example_ci (\<lambda>_ c. Inr ([], c))) 0 [example_bytes]"

definition program_ci :: "nat traci_ci" where
  "program_ci = example_ci (\<lambda>_ c. Inr (program_answer, c))"

lemma example_logic_bytes: "logic_bytes program_ci example_logic = Inr example_bytes"
proof -
  have "\<exists>bs. logic_bytes program_ci example_logic = Inr bs \<and> logic_bytes (example_ci (\<lambda>_ c. Inr ([], c))) example_logic = Inr bs"
    by (simp add: logic_bytes_def logic_items_19_def example_logic_def phase_items_19_def next_items_def example_phase_def program_ci_def
        tl_time_def)
  then show ?thesis by (auto simp: example_bytes_def)
qed

theorem tl_program_roundtrip_witness:
  "\<exists>p. Trafficlight_getProgramDefinition program_ci 3 ''t'' 5 = Inr (p, 5) \<and>
     getLogic p ''day'' = Inr (example_logic\<lparr>lg_parameter := 3\<rparr>)"
proof -
  have ok: "logic_ok program_ci example_logic"
    by (simp add: logic_ok_def phase_ok_def example_logic_def example_phase_def program_ci_def time_ok_def example_times_def short_def few_def)
  have version: "vc_version (ci_version program_ci) = 20" by (simp add: program_ci_def)
  have link: "ci_link program_ci msg 5 = Inr (program_answer, 5)" for msg by (simp add: program_ci_def)
  have "ok_status CMD_GET_TL_VARIABLE (status_bytes 7 CMD_GET_TL_VARIABLE RTYPE_OK [])"
    unfolding ok_status_def by (intro exI [of _ 7] exI [of _ "[]"]) (simp add: short_def)
  then have "value_answer CMD_GET_TL_VARIABLE RESPONSE_GET_TL_VARIABLE TL_COMPLETE_DEFINITION_RYG ''t''
      (program_value program_ci 0 [example_bytes]) program_answer"
    unfolding value_answer_def program_answer_def
    by (intro exI [of _ "status_bytes 7 CMD_GET_TL_VARIABLE RTYPE_OK []"] exI [of _ "[100]"])
      (auto simp: length_field_def short_def program_value_def program_ci_def)
  then obtain p where "Trafficlight_getProgramDefinition program_ci 3 ''t'' 5 = Inr (p, 5)"
      "getLogic p ''day'' = Inr (carried_logic 20 3 example_logic)"
    using tl_program_roundtrip [of program_ci "[example_logic]" "[example_bytes]" "''t''" 5 program_answer 5 0 3]
      ok example_logic_bytes version link by (auto simp: example_logic_def)
  moreover have "carried_logic 20 3 example_logic = example_logic\<lparr>lg_parameter := 3\<rparr>"
    by (simp add: carried_logic_def carried_phase_def example_logic_def)
  ultimately show ?thesis by auto
qed

section \<open>A module\<close>

definition light_env :: "nat tl_env" where
  "light_env = \<lparr>te_ci = program_ci, te_ceil = \<lambda>t u. t, te_stack = 0\<rparr>"

definition example_light :: tl_module where
  "example_light = tl_new\<lparr>tl_external_id := ''t'', tl_currentSignalState := ''r''\<rparr>"

theorem light_history_complete_witness:
  "\<exists>m. tl_run light_env (example_light, 0) (m, 0) \<and> tl_currentSignalState m = ''G'' \<and>
     chain ''r'' (about STATE (tl_sent m)) ''G''"
proof -
  let ?m = "example_light\<lparr>tl_online := True, tl_currentSignalState := ''G'',
      tl_sent := [\<lparr>tm_tlId = ''t'', tm_changedAttribute = STATE, tm_oldValue = ''r'', tm_newValue = ''G'', tm_changeSource = SUMO\<rparr>]\<rparr>"
  have "setCurrentState light_env ''G'' False (example_light, 0) = Inr (?m, 0)"
    by (simp add: setCurrentState_def example_light_def tl_new_def sendChangeMsg_def c_str_def)
  then have run: "tl_run light_env (example_light, 0) (?m, 0)"
    by (blast intro: tl_run.intros tl_step.intros)
  from light_history_complete [OF this] have "chain ''r'' (about STATE (tl_sent ?m)) ''G''"
    by (auto simp: example_light_def tl_new_def c_str_def)
  with run show ?thesis by (intro exI [of _ ?m]) simp
qed

theorem switch_time_arms_logic_witness:
  "\<exists>msg. tl_sent (store_switch (3 * SIMTIME_S) example_light) = [msg] \<and>
     (\<exists>k'. logic_handleMessage ref_kernel 4 (OnInterface msg) ref_init = Inr k' \<and>
        arrival ref_kernel k' 4 = Some (3 * SIMTIME_S))"
proof -
  have t: "3 * SIMTIME_S \<noteq> tl_nextSwitchTime example_light" "0 \<le> 3 * SIMTIME_S"
    by (simp_all add: example_light_def tl_new_def SIMTIME_S_def SIMTIME_MS_def)
  have d: "3 * SIMTIME_S div SIMTIME_MS < 2 ^ 31" "3 * SIMTIME_S div SIMTIME_MS * SIMTIME_MS = 3 * SIMTIME_S"
    by (simp_all add: SIMTIME_S_def SIMTIME_MS_def)
  have "simTime ref_kernel ref_init = 0" by (simp add: ref_kernel_def ref_init_def)
  then show ?thesis
    using switch_time_arms_logic [OF ref.sim_kernel_axioms t, of 4 ref_init] d t(2)
    by (auto simp: example_light_def tl_new_def)
qed

end
