(* ===== verification/Spec2Isabelle.thy ===== *)
theory Spec2Isabelle
  imports SV_Protocol SV_Inserter SV_SOP_Props SV_Antenna SV_Mobility_Props SV_TraCI_Props SV_TraCI_Config
    SV_Udp_Examples SV_TraCI_Examples
begin

text \<open>
  Verification development for space_veins, the satellite extension of the Veins vehicular network simulator.

  \<^bold>\<open>The program.\<close> Satellites and vehicles are modules of an OMNeT++ simulation. A satellite moves on the orbit of
  its two-line element set, computed by the SGP4 propagator; vehicles move as SUMO says; the observation
  point ties both to one coordinate system. Vehicles share the sidelink channel with the
  satellite-assisted MAC (SAMAC): they register at the satellite over UDP, the satellite publishes once per
  interval a schedule with one transmission slot for every registered vehicle, and each vehicle that
  receives it injects one frame in its slot, or in a random free one when it is not in the schedule.

  \<^bold>\<open>How the parts interact.\<close>
  \<^item> \<open>SatelliteInserter\<close> reads the file of element sets and creates a module per satellite; its mobility is
    \<open>SGP4Mobility\<close>, which initialises the propagator with \<open>twoline2rv\<close>, asks the observation point for the origin
    of the topocentric system, and then moves on a timer of INET's \<open>MovingMobilityBase\<close>: \<open>sgp4\<close>, the
    rotation \<open>TEME_to_ITRF\<close> and three PROJ conversions give the position.
  \<^item> \<open>TraCIScenarioManager\<close> advances SUMO in steps over a socket (\<open>TraCIConnection\<close>, \<open>TraCIBuffer\<close>) and creates, moves and
    removes the modules of vehicles as SUMO reports. A vehicle's \<open>VeinsInetMobilityWGS84\<close> is told its position by
    this manager and records it with the transformations of the observation point; \<open>SatelliteFacingAntennaMobility\<close> turns its antenna towards the satellite.
  \<^item> Applications read and change SUMO's objects with \<open>TraCICommandInterface\<close> over the same connection; a
    \<open>TraCITrafficLightInterface\<close> keeps a copy of a traffic light in step with SUMO and tells its logic of changes.
  \<^item> \<open>SamacSatelliteAppl\<close> and \<open>SAMAC\<close> exchange registrations, acknowledgements and schedules as INET packets; the
    vehicle's timers run on \<open>veins::TimerManager\<close>. All modules report to the statistics modules.
  \<^item> Datagrams travel through INET's \<open>Udp\<close>: an application such as \<open>UdpBasicApp\<close> binds a \<open>UdpSocket\<close>, the module keeps a
    descriptor for it, adds the header to what it sends, verifies what arrives and hands it to the sockets that accept it.
    Start, stop and crash of a module are operations of \<open>OperationalBase\<close>.

  \<^bold>\<open>Theories, in the order of the code.\<close>
  \<^item> \<open>SV_Prelude\<close>: results (\<open>error + 'a\<close>; an assertion, an exception, a run time error of OMNeT++ or a null pointer
    is a value), simulation time, shared collections. \<open>SV_StdMap\<close>: \<open>std::map\<close>, locale \<open>std_map\<close>. \<open>SV_Double\<close>: binary64
    values for the slot arithmetic. \<open>SV_Strings\<close>, \<open>SV_DoubleText\<close>: the C++ string functions, reading and
    printing of decimal numbers. \<open>SV_Kernel\<close>: the simulation kernel, locale \<open>sim_kernel\<close>, and a reference kernel that evaluates.
  \<^item> \<open>SV_TimerManager\<close> (\<open>TimerManager.cc\<close>): \<open>TimerSpecification\<close>, \<open>tm_create\<close>, \<open>tm_cancel\<close>, \<open>tm_handleMessage\<close>; locale
    \<open>timer_client\<close> for a module that owns a manager. \<open>SV_Packet\<close> (INET \<open>Packet\<close>, \<open>PacketQueue\<close>): chunks, tags, the drop-tail
    queue, locale \<open>bounded_fifo\<close>. \<open>SV_Statistics\<close> (\<open>GlobalStatistics.cc\<close>, \<open>VehicleStatistics.cc\<close>).
  \<^item> \<open>SV_SAMAC\<close> (\<open>SAMAC.cc\<close>): record \<open>samac\<close>, every handler. \<open>SV_SAMAC_Props\<close>, \<open>SV_SAMAC_Inv\<close>, \<open>SV_Vehicle\<close>: effect of the
    handlers, the invariant of the reachable states, the properties of a vehicle.
  \<^item> \<open>SV_Satellite\<close> (\<open>SamacSatelliteAppl.cc\<close>): record \<open>satellite\<close>, every handler, the refinement of a list of
    distinct vehicles. \<open>SV_Protocol\<close>: satellites as machines and the properties that span both sides.
  \<^item> \<open>SV_Geometry\<close> (\<open>Coord.h\<close>, \<open>FWMath.h\<close>, \<open>WGS84Coord.h\<close>, \<open>TraCICoordinateTransformation.cc\<close>). \<open>SV_Astro\<close>, \<open>SV_Dates\<close> (\<open>SGP4.cc\<close>):
    constants, vectors, \<open>newtonnu_SGP4\<close>, \<open>rv2coe_SGP4\<close>, Julian and calendar dates. \<open>SV_Frames\<close> (\<open>TEME2ITRF.h\<close>).
  \<^item> \<open>SV_Elsetrec\<close>, \<open>SV_SGP4_Deep\<close>, \<open>SV_SGP4_Res\<close>, \<open>SV_SGP4\<close> (\<open>SGP4.h\<close>, \<open>SGP4.cc\<close>): the state of the propagator and \<open>dpper\<close>, \<open>dscom\<close>,
    \<open>dsinit\<close>, \<open>dspace\<close>, \<open>initl\<close>, \<open>sgp4init\<close>, \<open>sgp4\<close>; their properties are in \<open>SV_SGP4_Res_Props\<close>, \<open>SV_SGP4_Props\<close> and
    \<open>SV_SGP4_History\<close>. \<open>SV_TLE_Parse\<close>: \<open>twoline2rv\<close>.
  \<^item> \<open>SV_Inserter\<close> (\<open>TLE.cc\<close>, \<open>SatelliteInserter.cc\<close>), \<open>SV_SOP\<close> and \<open>SV_SOP_Props\<close> (\<open>SatelliteObservationPoint.cc\<close>), \<open>SV_Mobility\<close> (INET
    \<open>MobilityBase\<close>, \<open>MovingMobilityBase\<close>, \<open>VeinsInetMobility\<close> and its WGS84 variant), \<open>SV_SGP4Mobility\<close> (\<open>SGP4Mobility.cc\<close>),
    \<open>SV_Antenna\<close> (\<open>Quaternion.cc\<close>, \<open>SatelliteFacingAntennaMobility.cc\<close>), \<open>SV_Mobility_Props\<close>.
  \<^item> \<open>SV_TraCI_Buffer\<close> (\<open>TraCIBuffer.cc\<close>): bytes, words, strings, coordinates and times on the wire, locale \<open>wire_type\<close>.
    \<open>SV_TraCI_Link\<close> (\<open>TraCIConnection.cc\<close>): connecting, framing, queries over a socket that moves bytes as it likes.
    \<open>SV_TraCI_Manager\<close> (\<open>TraCIScenarioManager.cc\<close>, \<open>VeinsInetManagerBase.cc\<close>, \<open>TraCIRegionOfInterest.cc\<close> and the operations of
    \<open>TraCICommandInterface.cc\<close> they use): record \<open>manager\<close> and its handlers; \<open>SV_TraCI_Inv\<close> with locale \<open>manager_contract\<close>, what the
    whole manager keeps when its operations on modules keep it; \<open>SV_TraCI_Props\<close>; \<open>SV_TraCI_Config\<close>, the parameters
    that map types of vehicles to modules.
  \<^item> \<open>SV_TraCI_Constants\<close> (\<open>TraCIConstants.h\<close>), \<open>SV_TraCI_Commands\<close>, \<open>SV_TraCI_Getters\<close>, \<open>SV_TraCI_Setters\<close>, \<open>SV_TraCI_Lights\<close>
    (\<open>TraCICommandInterface.cc\<close>, \<open>ParBuffer.h\<close>, \<open>TraCITrafficLightProgram.cc\<close>): record \<open>traci_ci\<close>, a function per method, prefixed with its
    class (\<open>Vehicle_setSpeed\<close> for \<open>Vehicle::setSpeed\<close>), which takes the identifier of the object, and the programs of traffic lights.
    \<open>SV_TraCI_Answers\<close>: what a request returns, with locale \<open>exact_type\<close> for readers that accept nothing but encodings;
    \<open>SV_TraCI_Peer\<close>: what a peer reads in a command; \<open>SV_TraCI_Programs\<close>: programs on the wire.
  \<^item> \<open>SV_TrafficLight\<close> (\<open>TraCITrafficLightInterface.cc\<close>, \<open>TraCITrafficLightAbstractLogic.cc\<close>, \<open>TraCITrafficLightSimpleLogic.cc\<close>): record
    \<open>tl_module\<close> and its handlers; \<open>SV_TrafficLight_Props\<close>; \<open>SV_TraCI_Examples\<close>: servers and lights where the properties are applied.
  \<^item> \<open>SV_Checksum\<close> (\<open>TcpIpChecksum.cc\<close>), \<open>SV_UdpHeader\<close> (\<open>UdpHeaderSerializer.cc\<close>, \<open>TransportPseudoHeaderSerializer.cc\<close>, \<open>CrcMode.cc\<close> and the
    checksum functions of \<open>Udp.cc\<close>): bytes, header, and what a checksum accepts. \<open>SV_Udp_Sockets\<close>, \<open>SV_Udp_Options\<close>, \<open>SV_Udp\<close> (\<open>Udp.cc\<close>,
    \<open>LayeredProtocolBase.cc\<close>): record \<open>udp_sockets\<close> with both tables, record \<open>sock_desc\<close>, the socket options, and the handlers
    over record \<open>udp\<close>. \<open>SV_Udp_Inv\<close>: the agreement of the tables in every reachable state. \<open>SV_Udp_Props\<close>: ephemeral ports, the choice of
    sockets, the fate of a datagram, and datagrams from one module to another. \<open>SV_Udp_Members\<close>: multicast memberships, with locale
    \<open>sorted_search\<close> for the binary search of the library.
  \<^item> \<open>SV_Lifecycle\<close> (\<open>OperationalBase.cc\<close>): operations that may finish later, for a module given as a record of its virtual functions.
    \<open>SV_UdpApp\<close> (\<open>UdpSocket.cc\<close>, \<open>UdpBasicApp.cc\<close>) and \<open>SV_UdpApp_Props\<close>; \<open>SV_Udp_Examples\<close>: two hosts that evaluate, where the properties are applied.

  \<^bold>\<open>What the lemmas show.\<close>
  \<^item> The MAC: two vehicles that act on one schedule never transmit less than a millisecond apart while fewer than 100
    are registered, and what happens at the limit; the reachable states of vehicle and satellite satisfy their invariants (timers pending,
    registrations and injections accounted for, schedule free of repetitions); each message is answered as specified;
    schedules are accepted or refused with the right error; a registration made inside the window expects its acknowledgement before the schedule ends; the timer manager fires, re-arms and ends timers as its
    specifications say, and where its comments promise more than the code.
  \<^item> The orbit: a propagation always returns, with the documented errors, and does not depend on earlier propagations;
    Kepler's equation is solved within the stated residual; the resonance integrator ends; dates, anomalies
    and elements agree with their definitions; the rotation into the earth fixed frame is one, for
    positions and for velocities.
  \<^item> The modules: element files are read in groups of three lines, names split into constellation and number, created indices fit
    their vectors; the initialisations succeed exactly under stated conditions; the coordinates kept agree with
    the transformations; a satellite moves forever, and unless the propagator refuses, when the code goes on with uninitialised arrays,
    its position depends on the time only, not on earlier movements.
  \<^item> The link to SUMO: values and queries survive the wire whatever the byte order and the cutting of the stream; connecting ends;
    a report has exactly the specified effect on the vehicle it is about; places of modules are never shared and no
    vehicle is both managed and unequipped; the share of equipped vehicles stays at the penetration rate; steps repeat.
  \<^item> Commands to SUMO: a request returns a value exactly for well-formed answers about the variable and object asked; a
    command puts exactly the meant value into its message; programs of traffic lights come back as far as the version carries
    them; a traffic light follows the server, its messages tell the whole history, and its logic is woken in time.
  \<^item> UDP: both checksum routines compute the ones' complement sum, and a computed checksum notices every changed byte; the tables of
    sockets agree, ephemeral ports are free ones, a datagram goes to the sockets that should get it, to a connected one from its peer only, and is accounted for once; options
    keep the table of memberships sorted, and a joined group is received; the application sends on schedule until its stop
    time, its stop operation always completes, and what it sends arrives at the other application as it was sent.

  \<^bold>\<open>Numbers, bounds and fuel.\<close> The only fuel is the depth to which answers to subscriptions may cause further subscriptions; for a
  server that answers with the report of the vehicle asked for, depth one gives the result of every larger one
  (\<open>subscriptions_do_not_nest\<close>). The loop that removes all modules at the end counts them (\<open>preNetworkFinish_returns\<close>). A \<open>double\<close> is a real, so results are those of the code up to rounding, and
  where C gives not-a-number the model has some real: the properties are about arguments inside the domains. The
  exceptions are the slot arithmetic and the time at which a vehicle is added, which are truncated to milliseconds and therefore
  binary64, and the text of numbers with
  six significant digits; and INET's inner product of coordinates, which returns a \<open>float\<close>, is rounded to 24 binary digits (\<open>to_float\<close>, without
  overflow), with the effect on the antenna bounded. Where rounding shows, as in the conversion of a Julian date to hours and minutes, the properties
  allow for an error of the fraction instead of claiming an exact result. Counters and addresses are words
  of their width. The iteration of Kepler's equation is a function with a measure (ten corrections); the
  integrator of resonances is a \<open>partial_function\<close> whose steps of 720 minutes are proved to reach the time; the loops over
  headings end by a measure on the distance from the principal range; the reader of typed values goes three compounds
  deep, more than any command nests; the search for an ephemeral port is a \<open>partial_function\<close> proved to
  return within the range; the folding of a checksum and the binary search end by measures. The statistics of \<open>Udp\<close> and of the application, \<open>int\<close>
  in the code, are natural numbers.

  \<^bold>\<open>Parameters.\<close> The OMNeT++ kernel (\<open>kernel_ops\<close> with the laws of \<open>sim_kernel\<close>), PROJ (\<open>proj_ops\<close>), NED
  parameters, address resolution, interface table, the 802.11 originator service, the answers of the TraCI server, the sockets, OMNeT++'s creation of modules, its
  tokenizer, its conversion of times (\<open>time_ops\<close>) and its rounding of times up, the bit patterns of computed coordinates, files and the contents of memory that is not initialised are
  arguments. Properties that need laws of them name those laws as hypotheses.

  \<^bold>\<open>Not modelled.\<close> Trace output and drawing; serialisation of packets other than UDP headers and the application's; a payload of
  less than eight bytes cannot be serialized, which the model does not report when a checksum is computed over it; of the scenario manager the
  insertion of traffic lights, obstacles, annotations, the reading of the region of interest from its parameters and the launching of SUMO;
  the radio, network and routing layers of INET, its transport protocols other than UDP and the other modules of Veins, which are vendored
  and only called through the operations above; the Catch2 sources.
\<close>

end
